(* ===== verification/Prelude.thy ===== *)
theory Prelude
  imports Main "HOL-Library.List_Lexorder" "HOL-Library.Char_ord"
begin

text \<open>
  Shared vocabulary of the development: the result type of fallible Rust code and its
  sequencing, slice access, the search and string functions of the Rust standard library
  that the sources use, and the lemma collections the component theories rest on.

  Rust strings are UTF-8 byte sequences; a \<open>string\<close> here is the list of those bytes
  (a \<open>char\<close> is one byte). Byte-wise comparison, searching and concatenation agree with
  \<open>str\<close>. Functions of the sources that look at code points say so where they are modelled.
\<close>

named_theorems tm_mono \<open>state-threading steps respect a template relation\<close>

section \<open>Fallible computations\<close>

text \<open>
  \<open>Result<T, E>\<close> is \<open>E + T\<close>: \<open>Inl\<close> is \<open>Err\<close>, \<open>Inr\<close> is \<open>Ok\<close>. Code that indexes a
  slice or a hash map can also panic; there the error side is \<open>E fault\<close>.
\<close>

datatype 'e fault = Err 'e | Panic

definition rbind :: "'e + 'a \<Rightarrow> ('a \<Rightarrow> 'e + 'b) \<Rightarrow> 'e + 'b" where
  "rbind m f = (case m of Inl e \<Rightarrow> Inl e | Inr x \<Rightarrow> f x)"

lemma rbind_simps [simp]:
  "rbind (Inl e) f = Inl e"
  "rbind (Inr x) f = f x"
  by (simp_all add: rbind_def)

lemma rbind_Inr_iff: "rbind m f = Inr y \<longleftrightarrow> (\<exists>x. m = Inr x \<and> f x = Inr y)"
  by (cases m) auto

lemma rbind_Inl_iff: "rbind m f = Inl e \<longleftrightarrow> m = Inl e \<or> (\<exists>x. m = Inr x \<and> f x = Inl e)"
  by (cases m) auto

lemma rbindE [elim!]:
  assumes "rbind m f = Inr y"
  obtains x where "m = Inr x" and "f x = Inr y"
  using assms by (auto simp: rbind_Inr_iff)

lemma rbind_cong [fundef_cong]:
  "m = m' \<Longrightarrow> (\<And>x. m' = Inr x \<Longrightarrow> f x = f' x) \<Longrightarrow> rbind m f = rbind m' f'"
  by (cases m') auto

text \<open>\<open>ok_or\<close>: an absent option is the given error.\<close>

definition ok_or :: "'a option \<Rightarrow> 'e \<Rightarrow> 'e + 'a" where
  "ok_or x e = (case x of None \<Rightarrow> Inl e | Some y \<Rightarrow> Inr y)"

lemma ok_or_Inr_iff [simp]: "ok_or x e = Inr y \<longleftrightarrow> x = Some y"
  by (auto simp: ok_or_def split: option.splits)

lemma ok_or_Inl_iff: "ok_or x e = Inl e' \<longleftrightarrow> x = None \<and> e' = e"
  by (auto simp: ok_or_def split: option.splits)

lemma ok_or_simps [simp]: "ok_or None e = Inl e" "ok_or (Some y) e = Inr y"
  by (simp_all add: ok_or_def)

text \<open>\<open>iter().map(f).collect::<Result<Vec<_>, _>>()\<close>: the first error wins.\<close>

fun collect_results :: "('a \<Rightarrow> 'e + 'b) \<Rightarrow> 'a list \<Rightarrow> 'e + 'b list" where
  "collect_results f [] = Inr []"
| "collect_results f (x # xs) =
     rbind (f x) (\<lambda>y. rbind (collect_results f xs) (\<lambda>ys. Inr (y # ys)))"

lemma collect_results_cong [fundef_cong]:
  "xs = ys \<Longrightarrow> (\<And>x. x \<in> set ys \<Longrightarrow> f x = g x) \<Longrightarrow> collect_results f xs = collect_results g ys"
  by (induction xs arbitrary: ys) auto

lemma collect_results_Inr:
  "collect_results f xs = Inr ys \<Longrightarrow>
     length ys = length xs \<and> (\<forall>i < length xs. f (xs ! i) = Inr (ys ! i))"
  by (induction xs arbitrary: ys) (auto simp: nth_Cons split: nat.splits)

lemma collect_results_set:
  "collect_results f xs = Inr ys \<Longrightarrow> y \<in> set ys \<Longrightarrow> \<exists>x \<in> set xs. f x = Inr y"
  by (induction xs arbitrary: ys) auto

lemma collect_results_Inl:
  "collect_results f xs = Inl e \<Longrightarrow> \<exists>x \<in> set xs. f x = Inl e"
  by (induction xs) (auto simp: rbind_Inl_iff)

text \<open>A loop \<open>for x in xs { state = step(state, x)? }\<close> that stops at the first error.\<close>

fun rfold :: "('s \<Rightarrow> 'a \<Rightarrow> 'e + 's) \<Rightarrow> 's \<Rightarrow> 'a list \<Rightarrow> 'e + 's" where
  "rfold step s [] = Inr s"
| "rfold step s (x # xs) = rbind (step s x) (\<lambda>s'. rfold step s' xs)"

lemma rfold_invariant:
  assumes "rfold step s xs = Inr s'"
    and "I s"
    and "\<And>s x s'. I s \<Longrightarrow> x \<in> set xs \<Longrightarrow> step s x = Inr s' \<Longrightarrow> I s'"
  shows "I s'"
  using assms
proof (induction xs arbitrary: s)
  case Nil
  then show ?case by simp
next
  case (Cons x xs)
  from Cons.prems(1) obtain t where t: "step s x = Inr t" "rfold step t xs = Inr s'" by auto
  have "I t" using Cons.prems(2) Cons.prems(3)[of s x t] t(1) by simp
  moreover have "\<And>s y s'. I s \<Longrightarrow> y \<in> set xs \<Longrightarrow> step s y = Inr s' \<Longrightarrow> I s'"
    using Cons.prems(3) by (metis list.set_intros(2))
  ultimately show ?case using Cons.IH[OF t(2)] by blast
qed

lemma rfold_error:
  assumes "rfold step s xs = Inl e"
    and "I s"
    and "\<And>s x s'. I s \<Longrightarrow> x \<in> set xs \<Longrightarrow> step s x = Inr s' \<Longrightarrow> I s'"
  shows "\<exists>t x. I t \<and> x \<in> set xs \<and> step t x = Inl e"
  using assms
proof (induction xs arbitrary: s)
  case Nil
  then show ?case by simp
next
  case (Cons x xs)
  show ?case
  proof (cases "step s x")
    case (Inl e')
    with Cons.prems(1) have "step s x = Inl e" by simp
    with Cons.prems(2) show ?thesis by auto
  next
    case (Inr t)
    have It: "I t" using Cons.prems(2) Cons.prems(3)[of s x t] Inr by simp
    have st: "\<And>s y s'. I s \<Longrightarrow> y \<in> set xs \<Longrightarrow> step s y = Inr s' \<Longrightarrow> I s'"
      using Cons.prems(3) by (meson list.set_intros(2))
    from Cons.prems(1) Inr have "rfold step t xs = Inl e" by simp
    then have "\<exists>t' y. I t' \<and> y \<in> set xs \<and> step t' y = Inl e"
      by (rule Cons.IH[OF _ It]) (rule st)
    then show ?thesis by auto
  qed
qed

text \<open>Every processed element leaves a mark that later steps keep.\<close>

lemma rfold_all:
  assumes "rfold step s xs = Inr s'" and "I s"
    and inv: "\<And>s x s'. I s \<Longrightarrow> x \<in> set xs \<Longrightarrow> step s x = Inr s' \<Longrightarrow> I s'"
    and mark: "\<And>s x s'. I s \<Longrightarrow> x \<in> set xs \<Longrightarrow> step s x = Inr s' \<Longrightarrow> Q x s'"
    and keep: "\<And>s x s' y. I s \<Longrightarrow> x \<in> set xs \<Longrightarrow> step s x = Inr s' \<Longrightarrow> Q y s \<Longrightarrow> Q y s'"
  shows "\<forall>x \<in> set xs. Q x s'"
  using assms
proof (induction xs arbitrary: s rule: list.induct)
  case Nil
  then show ?case by simp
next
  case (Cons x xs)
  from Cons.prems(1) obtain t where t: "step s x = Inr t" "rfold step t xs = Inr s'" by auto
  have It: "I t" using Cons.prems(2) Cons.prems(3)[of s x t] t(1) by simp
  have sub: "\<And>y. y \<in> set xs \<Longrightarrow> y \<in> set (x # xs)" by simp
  have rest: "\<forall>y \<in> set xs. Q y s'"
    by (rule Cons.IH[OF t(2) It Cons.prems(3) Cons.prems(4) Cons.prems(5)]) (auto intro: sub)
  have "Q x t" using Cons.prems(2) Cons.prems(4)[of s x t] t(1) by simp
  have "I s' \<and> Q x s'"
    using t(2)
    by (rule rfold_invariant[of step t xs s' "\<lambda>s. I s \<and> Q x s"])
       (use It \<open>Q x t\<close> in simp, use Cons.prems(3,5) sub in blast)
  with rest show ?case by simp
qed

section \<open>Slices and searches\<close>

text \<open>\<open>slice.get(i)\<close>.\<close>

definition get_at :: "'a list \<Rightarrow> nat \<Rightarrow> 'a option" where
  "get_at xs i = (if i < length xs then Some (xs ! i) else None)"

lemma get_at_Some_iff: "get_at xs i = Some x \<longleftrightarrow> i < length xs \<and> xs ! i = x"
  by (auto simp: get_at_def)

lemma get_at_None_iff: "get_at xs i = None \<longleftrightarrow> length xs \<le> i"
  by (simp add: get_at_def not_less)

lemma get_at_in_set: "get_at xs i = Some x \<Longrightarrow> x \<in> set xs"
  by (auto simp: get_at_def split: if_splits)

text \<open>\<open>slice[i]\<close>: panics out of range.\<close>

definition index_at :: "'a list \<Rightarrow> nat \<Rightarrow> 'e fault + 'a" where
  "index_at xs i = (if i < length xs then Inr (xs ! i) else Inl Panic)"

lemma index_at_in_range [simp]: "i < length xs \<Longrightarrow> index_at xs i = Inr (xs ! i)"
  by (simp add: index_at_def)

text \<open>\<open>slice[i].update(..)\<close> through a mutable reference: panics out of range.\<close>

definition modify_at :: "nat \<Rightarrow> ('a \<Rightarrow> 'a) \<Rightarrow> 'a list \<Rightarrow> 'e fault + 'a list" where
  "modify_at i f xs = (if i < length xs then Inr (xs[i := f (xs ! i)]) else Inl Panic)"

lemma modify_at_in_range [simp]: "i < length xs \<Longrightarrow> modify_at i f xs = Inr (xs[i := f (xs ! i)])"
  by (simp add: modify_at_def)

lemma modify_at_Inr_iff:
  "modify_at i f xs = Inr ys \<longleftrightarrow> i < length xs \<and> ys = xs[i := f (xs ! i)]"
  by (auto simp: modify_at_def)

lemma index_at_Inr_iff: "index_at xs i = Inr x \<longleftrightarrow> i < length xs \<and> x = xs ! i"
  by (auto simp: index_at_def)

text \<open>\<open>map[&key]\<close>: panics when the key is absent.\<close>

definition key_at :: "('k \<rightharpoonup> 'v) \<Rightarrow> 'k \<Rightarrow> 'e fault + 'v" where
  "key_at m k = (case m k of None \<Rightarrow> Inl Panic | Some v \<Rightarrow> Inr v)"

lemma key_at_Some [simp]: "m k = Some v \<Longrightarrow> key_at m k = Inr v"
  by (simp add: key_at_def)

lemma key_at_Inr_iff: "key_at m k = Inr v \<longleftrightarrow> m k = Some v"
  by (simp add: key_at_def split: option.splits)

text \<open>\<open>iter().find(p)\<close> is \<open>List.find\<close>; \<open>iter().position(p)\<close> is the index of the first hit.\<close>

fun position :: "('a \<Rightarrow> bool) \<Rightarrow> 'a list \<Rightarrow> nat option" where
  "position p [] = None"
| "position p (x # xs) = (if p x then Some 0 else map_option Suc (position p xs))"

lemma position_Some:
  "position p xs = Some i \<Longrightarrow> i < length xs \<and> p (xs ! i) \<and> (\<forall>j < i. \<not> p (xs ! j))"
proof (induction xs arbitrary: i)
  case Nil
  then show ?case by simp
next
  case (Cons x xs)
  show ?case
  proof (cases "p x")
    case True
    with Cons.prems show ?thesis by auto
  next
    case False
    with Cons.prems obtain j where "position p xs = Some j" and "i = Suc j" by auto
    with Cons.IH False show ?thesis by (auto simp: nth_Cons split: nat.splits)
  qed
qed

lemma position_None_iff: "position p xs = None \<longleftrightarrow> (\<forall>x \<in> set xs. \<not> p x)"
  by (induction xs) auto

lemma find_SomeD: "find p xs = Some x \<Longrightarrow> x \<in> set xs \<and> p x"
  by (induction xs) (auto split: if_splits)

lemma find_None_iff2: "find p xs = None \<longleftrightarrow> (\<forall>x \<in> set xs. \<not> p x)"
  by (induction xs) auto

section \<open>Weakest preconditions\<close>

text \<open>
  \<open>yields m Q\<close>: the computation does not panic, and a result it returns satisfies \<open>Q\<close>;
  an error is allowed. The equations below compute it through straight-line code.
\<close>

definition yields :: "'e fault + 'a \<Rightarrow> ('a \<Rightarrow> bool) \<Rightarrow> bool" where
  "yields m Q \<longleftrightarrow> (case m of Inl (Err _) \<Rightarrow> True | Inl Panic \<Rightarrow> False | Inr x \<Rightarrow> Q x)"

lemma yields_simps [simp]:
  "yields (Inr x) Q \<longleftrightarrow> Q x"
  "yields (Inl (Err e)) Q"
  "\<not> yields (Inl Panic) Q"
  by (simp_all add: yields_def)

lemma yields_rbind [simp]: "yields (rbind m f) Q \<longleftrightarrow> yields m (\<lambda>x. yields (f x) Q)"
  by (simp add: rbind_def yields_def split: sum.splits fault.splits)

lemma yields_index_at [simp]: "yields (index_at xs i) Q \<longleftrightarrow> i < length xs \<and> Q (xs ! i)"
  by (simp add: index_at_def)

lemma yields_modify_at [simp]:
  "yields (modify_at i f xs) Q \<longleftrightarrow> i < length xs \<and> Q (xs[i := f (xs ! i)])"
  by (simp add: modify_at_def)

lemma yields_key_at [simp]: "yields (key_at m k) Q \<longleftrightarrow> (\<exists>v. m k = Some v \<and> Q v)"
  by (simp add: key_at_def split: option.splits)

lemma yields_ok_or [simp]: "yields (ok_or x (Err e)) Q \<longleftrightarrow> (\<forall>y. x = Some y \<longrightarrow> Q y)"
  by (simp add: ok_or_def split: option.splits)

lemma yields_mono: "yields m P \<Longrightarrow> (\<And>x. P x \<Longrightarrow> Q x) \<Longrightarrow> yields m Q"
  by (auto simp: yields_def split: sum.splits fault.splits)

lemma yields_conj: "yields m P \<Longrightarrow> yields m Q \<Longrightarrow> yields m (\<lambda>x. P x \<and> Q x)"
  by (auto simp: yields_def split: sum.splits fault.splits)

lemma yields_not_panic: "yields m Q \<Longrightarrow> m \<noteq> Inl Panic"
  by auto

lemma yields_InrD: "yields m Q \<Longrightarrow> m = Inr x \<Longrightarrow> Q x"
  by simp

lemma yields_result: "m \<noteq> Inl Panic \<Longrightarrow> yields m (\<lambda>x. m = Inr x)"
  by (auto simp: yields_def split: sum.splits fault.splits)

lemma yields_rfold:
  assumes "I s" and "\<And>s x. I s \<Longrightarrow> x \<in> set xs \<Longrightarrow> yields (step s x) I"
  shows "yields (rfold step s xs) I"
  using assms
proof (induction xs arbitrary: s)
  case (Cons x xs)
  have "yields (step s x) I" using Cons.prems by simp
  then show ?case using Cons.IH Cons.prems(2) by (auto intro: yields_mono)
qed simp

text \<open>The loop rule over the processed prefix.\<close>

lemma yields_rfold_prefix:
  assumes "P [] s"
    and "\<And>ys x zs s. xs = ys @ x # zs \<Longrightarrow> P ys s \<Longrightarrow> yields (step s x) (P (ys @ [x]))"
  shows "yields (rfold step s xs) (P xs)"
proof -
  have "yields (rfold step s zs) (P xs)" if "xs = ys @ zs" and "P ys s" for ys zs
    using that
  proof (induction zs arbitrary: ys s)
    case (Cons x zs)
    have "yields (step s x) (P (ys @ [x]))" using Cons.prems assms(2) by blast
    moreover have "yields (rfold step s' zs) (P xs)" if "P (ys @ [x]) s'" for s'
      by (rule Cons.IH[OF _ that]) (use Cons.prems in simp)
    ultimately show ?case by (auto intro: yields_mono)
  qed simp
  from this[of "[]" xs] assms(1) show ?thesis by simp
qed

lemma yields_collect:
  assumes "\<And>x. x \<in> set xs \<Longrightarrow> yields (f x) (P x)"
  shows "yields (collect_results f xs) (list_all2 P xs)"
  using assms
proof (induction xs)
  case (Cons x xs)
  have "yields (f x) (P x)" using Cons.prems by simp
  moreover have "yields (collect_results f xs) (list_all2 P xs)"
    by (rule Cons.IH) (simp add: Cons.prems)
  ultimately show ?case
    by (auto elim!: yields_mono)
qed simp

section \<open>Strings\<close>

text \<open>\<open>parts.join(sep)\<close>.\<close>

fun join_with :: "string \<Rightarrow> string list \<Rightarrow> string" where
  "join_with sep [] = []"
| "join_with sep [x] = x"
| "join_with sep (x # y # ys) = x @ sep @ join_with sep (y # ys)"

text \<open>\<open>path.split('.')\<close>.\<close>

fun split_dots :: "string \<Rightarrow> string list" where
  "split_dots [] = [[]]"
| "split_dots (c # s) =
     (if c = CHR ''.'' then [] # split_dots s
      else (case split_dots s of [] \<Rightarrow> [[c]] | seg # segs \<Rightarrow> (c # seg) # segs))"

lemma split_dots_cons [simp]: "split_dots s \<noteq> []"
  by (induction s) (auto split: list.split)

lemma join_split_dots: "join_with ''.'' (split_dots s) = s"
proof (induction s)
  case (Cons c s)
  obtain seg segs where "split_dots s = seg # segs" by (cases "split_dots s") auto
  with Cons show ?case by (cases segs) auto
qed simp

text \<open>\<open>s.starts_with(p)\<close>.\<close>

fun starts_with :: "string \<Rightarrow> string \<Rightarrow> bool" where
  "starts_with s [] = True"
| "starts_with [] (p # ps) = False"
| "starts_with (c # s) (p # ps) = (c = p \<and> starts_with s ps)"

lemma starts_with_iff: "starts_with s p \<longleftrightarrow> (\<exists>r. s = p @ r)"
  by (induction s p rule: starts_with.induct) auto

lemma starts_with_append [simp]: "starts_with (p @ r) p"
  by (auto simp: starts_with_iff)

text \<open>\<open>s.strip_prefix(p)\<close>.\<close>

definition strip_prefix :: "string \<Rightarrow> string \<Rightarrow> string option" where
  "strip_prefix s p = (if starts_with s p then Some (drop (length p) s) else None)"

text \<open>
  \<open>s.split_once(sep)\<close> for a non-empty separator: the text before and after the first
  occurrence.
\<close>

fun split_once :: "string \<Rightarrow> string \<Rightarrow> (string \<times> string) option" where
  "split_once [] sep = (if sep = [] then Some ([], []) else None)"
| "split_once (c # s) sep =
     (if starts_with (c # s) sep then Some ([], drop (length sep) (c # s))
      else map_option (\<lambda>(l, r). (c # l, r)) (split_once s sep))"

lemma split_once_Some: "split_once s sep = Some (l, r) \<Longrightarrow> s = l @ sep @ r"
  by (induction s sep arbitrary: l r rule: split_once.induct)
     (auto simp: starts_with_iff split: if_splits)

text \<open>Decimal rendering of an unsigned integer (\<open>to_string\<close>, \<open>{}\<close>).\<close>

definition digit_char :: "nat \<Rightarrow> char" where
  "digit_char d = char_of (48 + d)"

fun dec_string :: "nat \<Rightarrow> string" where
  "dec_string n = (if n < 10 then [digit_char n] else dec_string (n div 10) @ [digit_char (n mod 10)])"

declare dec_string.simps [simp del]

lemma dec_string_nonempty [simp]: "dec_string n \<noteq> []"
  by (subst dec_string.simps) simp

text \<open>Reading the digits back: decimal rendering is injective.\<close>

definition dec_value :: "string \<Rightarrow> nat" where
  "dec_value s = foldl (\<lambda>a c. 10 * a + (of_char c - 48)) 0 s"

lemma dec_value_dec_string [simp]: "dec_value (dec_string n) = n"
proof (induction n rule: dec_string.induct)
  case (1 n)
  show ?case
  proof (cases "n < 10")
    case True
    then show ?thesis
      by (subst dec_string.simps) (simp add: dec_value_def digit_char_def)
  next
    case False
    with 1 have "dec_value (dec_string (n div 10)) = n div 10" by simp
    with False show ?thesis
      by (subst dec_string.simps) (simp add: dec_value_def digit_char_def)
  qed
qed

lemma dec_string_inject [simp]: "dec_string m = dec_string n \<longleftrightarrow> m = n"
  by (metis dec_value_dec_string)

end
