(* ===== verification/Expression.thy ===== *)
theory Expression
  imports Prelude
begin

text \<open>
  The expression tree of DSQL predicates (\<open>crates/dsql-core/src/entities/expression.rs\<close>),
  the byte spans it carries (\<open>facts.rs\<close>) and the aggregate functions
  (\<open>entities/aggregate.rs\<close>), with the source spellings the code gives them.
\<close>

section \<open>Spans\<close>

record span =
  span_start :: nat
  span_end :: nat

definition span_contains :: "span \<Rightarrow> nat \<Rightarrow> bool" where
  "span_contains s offset \<longleftrightarrow> span_start s \<le> offset \<and> offset < span_end s"

section \<open>Operators, literals, variables\<close>

datatype comparison_op = CmpEq | CmpNe | CmpGt | CmpGe | CmpLt | CmpLe | CmpLike

fun comparison_op_as_str :: "comparison_op \<Rightarrow> string" where
  "comparison_op_as_str CmpEq = ''==''"
| "comparison_op_as_str CmpNe = ''!=''"
| "comparison_op_as_str CmpGt = ''>''"
| "comparison_op_as_str CmpGe = ''>=''"
| "comparison_op_as_str CmpLt = ''<''"
| "comparison_op_as_str CmpLe = ''<=''"
| "comparison_op_as_str CmpLike = ''like''"

datatype sigil = SigilBuild | SigilQuery | SigilContext

fun sigil_as_str :: "sigil \<Rightarrow> string" where
  "sigil_as_str SigilBuild = ''$''"
| "sigil_as_str SigilQuery = ''%''"
| "sigil_as_str SigilContext = ''$:''"

datatype dynamic_input_surface = Selected | Indexed | SelectedIndexed | Searchable

definition dynamic_input_surface_all :: "dynamic_input_surface list" where
  "dynamic_input_surface_all = [Indexed, Searchable, Selected, SelectedIndexed]"

fun dynamic_input_surface_as_str :: "dynamic_input_surface \<Rightarrow> string" where
  "dynamic_input_surface_as_str Selected = ''selected''"
| "dynamic_input_surface_as_str Indexed = ''indexed''"
| "dynamic_input_surface_as_str SelectedIndexed = ''selected_indexed''"
| "dynamic_input_surface_as_str Searchable = ''searchable''"

definition is_surface_spelling :: "string \<Rightarrow> bool" where
  "is_surface_spelling value =
     list_ex (\<lambda>surface. dynamic_input_surface_as_str surface = value) dynamic_input_surface_all"

record variable_ref =
  vr_sigil :: sigil
  vr_name :: "string option"
  vr_operators :: "comparison_op list option"
  vr_span :: span

datatype binary_op =
    OpComparison comparison_op
  | OpIn
  | OpNotIn
  | OpAnd
  | OpOr
  | OpVariable variable_ref

datatype unary_op = OpNot

datatype literal_value =
    LitString string
  | LitNumber string
  | LitBool bool
  | LitNull

datatype path_anchor = AnchorCurrent | AnchorParent | AnchorRoot

record path_segment =
  seg_name :: string
  seg_relation_path :: "string option"
  seg_span :: span

section \<open>Expressions\<close>

datatype expr =
    EBinary binary_op expr expr span
  | EUnary unary_op expr span
  | ENullTest expr bool span
  | EList "expr list" span
  | EExists exists_source "filter_assignment list" "expr option" span
  | ELiteral literal_value span
  | EPath path_anchor "path_segment list" span
  | EVariable variable_ref span
  | EDynamicPredicate variable_ref dynamic_input_surface span
  | EPredicateRef string span
  | EAggregate expr string span "expr option" span
  | EError span
and exists_source =
    SourceRelation expr
  | SourceTable string span
and filter_assignment =
    FilterAssignment string span "expr option" span

fun expr_span :: "expr \<Rightarrow> span" where
  "expr_span (EBinary _ _ _ s) = s"
| "expr_span (EUnary _ _ s) = s"
| "expr_span (ENullTest _ _ s) = s"
| "expr_span (EList _ s) = s"
| "expr_span (EExists _ _ _ s) = s"
| "expr_span (ELiteral _ s) = s"
| "expr_span (EPath _ _ s) = s"
| "expr_span (EVariable _ s) = s"
| "expr_span (EDynamicPredicate _ _ s) = s"
| "expr_span (EPredicateRef _ s) = s"
| "expr_span (EAggregate _ _ _ _ s) = s"
| "expr_span (EError s) = s"

section \<open>Rendering\<close>

text \<open>\<open>render_variable\<close> and the \<open>Display\<close> implementation of \<open>Expr\<close>.\<close>

definition render_variable :: "variable_ref \<Rightarrow> string" where
  "render_variable v =
     sigil_as_str (vr_sigil v)
     @ (case vr_name v of None \<Rightarrow> [] | Some n \<Rightarrow> n)
     @ (case vr_operators v of None \<Rightarrow> []
        | Some ops \<Rightarrow> ''['' @ join_with '', '' (map comparison_op_as_str ops) @ '']'')"

fun binary_op_display :: "binary_op \<Rightarrow> string" where
  "binary_op_display (OpComparison c) = comparison_op_as_str c"
| "binary_op_display OpIn = ''in''"
| "binary_op_display OpNotIn = ''not in''"
| "binary_op_display OpAnd = ''and''"
| "binary_op_display OpOr = ''or''"
| "binary_op_display (OpVariable v) = render_variable v"

fun anchor_display :: "path_anchor \<Rightarrow> string" where
  "anchor_display AnchorCurrent = ''.''"
| "anchor_display AnchorParent = ''..''"
| "anchor_display AnchorRoot = ''~''"

definition segment_display :: "path_segment \<Rightarrow> string" where
  "segment_display s =
     seg_name s @ (case seg_relation_path s of None \<Rightarrow> [] | Some p \<Rightarrow> ''->'' @ p)"

text \<open>
  A string literal is printed with Rust's \<open>Debug\<close> escaping, which consults Unicode
  tables; it is the parameter \<open>dbg\<close>.
\<close>

fun expr_display :: "(string \<Rightarrow> string) \<Rightarrow> expr \<Rightarrow> string"
and exists_source_display :: "(string \<Rightarrow> string) \<Rightarrow> exists_source \<Rightarrow> string"
and filter_assignment_display :: "(string \<Rightarrow> string) \<Rightarrow> filter_assignment \<Rightarrow> string" where
  "expr_display dbg (EBinary op lhs rhs _) =
     ''('' @ expr_display dbg lhs @ '' '' @ binary_op_display op @ '' '' @ expr_display dbg rhs @ '')''"
| "expr_display dbg (EUnary OpNot operand _) = ''not '' @ expr_display dbg operand"
| "expr_display dbg (ENullTest operand negated _) =
     expr_display dbg operand @ '' is '' @ (if negated then ''not '' else []) @ ''null''"
| "expr_display dbg (EList items _) =
     ''['' @ join_with '', '' (map (expr_display dbg) items) @ '']''"
| "expr_display dbg (EExists source filters predicate _) =
     ''exists '' @ exists_source_display dbg source
     @ (if filters \<noteq> [] \<or> predicate \<noteq> None then
          ''('' @ join_with '' '' (map (filter_assignment_display dbg) filters)
          @ (case predicate of None \<Rightarrow> []
             | Some p \<Rightarrow> (if filters \<noteq> [] then '' '' else []) @ ''where '' @ expr_display dbg p)
          @ '')''
        else [])"
| "expr_display dbg (ELiteral v _) =
     (case v of LitString s \<Rightarrow> dbg s | LitNumber n \<Rightarrow> n
      | LitBool b \<Rightarrow> (if b then ''true'' else ''false'') | LitNull \<Rightarrow> ''null'')"
| "expr_display dbg (EPath anchor segments _) =
     anchor_display anchor @ join_with ''.'' (map segment_display segments)"
| "expr_display dbg (EVariable v _) = render_variable v"
| "expr_display dbg (EDynamicPredicate v surface _) =
     render_variable v @ '' on '' @ dynamic_input_surface_as_str surface"
| "expr_display dbg (EPredicateRef name _) = name"
| "expr_display dbg (EAggregate source function _ operand _) =
     expr_display dbg source @ '' | '' @ function
     @ (case operand of None \<Rightarrow> [] | Some x \<Rightarrow> '' '' @ expr_display dbg x)"
| "expr_display dbg (EError _) = ''<error>''"
| "exists_source_display dbg (SourceRelation path) = expr_display dbg path"
| "exists_source_display dbg (SourceTable name _) = name"
| "filter_assignment_display dbg (FilterAssignment name _ condition _) =
     ''filter '' @ name
     @ (case condition of None \<Rightarrow> [] | Some c \<Rightarrow> '' when '' @ expr_display dbg c)"

section \<open>Aggregate functions\<close>

datatype aggregate_function = AggCount | AggExists | AggMin | AggMax | AggSum | AggAvg

datatype aggregate_mode = Ungrouped | Grouped

fun aggregate_label :: "aggregate_function \<Rightarrow> string" where
  "aggregate_label AggCount = ''count''"
| "aggregate_label AggExists = ''exists''"
| "aggregate_label AggMin = ''min''"
| "aggregate_label AggMax = ''max''"
| "aggregate_label AggSum = ''sum''"
| "aggregate_label AggAvg = ''avg''"

lemma comparison_op_as_str_inject:
  "comparison_op_as_str a = comparison_op_as_str b \<longleftrightarrow> a = b"
  by (cases a; cases b) auto

lemma surface_as_str_inject:
  "dynamic_input_surface_as_str a = dynamic_input_surface_as_str b \<longleftrightarrow> a = b"
  by (cases a; cases b) auto

end
