(* ===== verification/Variable_Paths.thy ===== *)
theory Variable_Paths
  imports Expression Prelude
begin

text \<open>
  Inputs of a definition and the paths they are bound to
  (\<open>crates/dsql-core/src/entities/variable_path.rs\<close> and the input types of
  \<open>entities/variable.rs\<close>): a \<open>$\<close> variable nests under \<open>input.<selection path>.clause\<close>, a
  \<open>%\<close> variable is \<open>params.<name>\<close>, a \<open>$:\<close> variable is \<open>context.<name>\<close>; the rewrites of the
  enclosing fragment spreads apply from the innermost one outwards.
\<close>

section \<open>Inputs\<close>

datatype variable_source = SourceStructured | SourceTopLevel | SourceContext

datatype input_default =
    DefaultString string
  | DefaultNumber string
  | DefaultBoolean bool
  | DefaultNull
  | DefaultCollection "input_default list"
  | DefaultEmptyObject

record input_refinement =
  ref_source :: variable_source
  ref_name :: string
  ref_name_span :: span
  ref_span :: span
  ref_nullable :: bool
  ref_default :: "input_default option"

fun variable_source_of :: "sigil \<Rightarrow> variable_source" where
  "variable_source_of SigilBuild = SourceStructured"
| "variable_source_of SigilQuery = SourceTopLevel"
| "variable_source_of SigilContext = SourceContext"

datatype variable_role =
    RoleWhereValue | RoleDynamicPredicate | RoleComparisonOperator | RoleSortDirection
  | RoleDynamicOrder | RoleLimit | RoleOffset | RoleFilterAssignment

fun variable_role_as_str :: "variable_role \<Rightarrow> string" where
  "variable_role_as_str RoleWhereValue = ''wherevalue''"
| "variable_role_as_str RoleDynamicPredicate = ''dynamicpredicate''"
| "variable_role_as_str RoleComparisonOperator = ''comparisonoperator''"
| "variable_role_as_str RoleSortDirection = ''sortdirection''"
| "variable_role_as_str RoleDynamicOrder = ''dynamicorder''"
| "variable_role_as_str RoleLimit = ''limit''"
| "variable_role_as_str RoleOffset = ''offset''"
| "variable_role_as_str RoleFilterAssignment = ''filterassignment''"

datatype spread_input_value = SpreadPublic string | SpreadDefault input_default

section \<open>Paths\<close>

datatype input_path_segment =
    PsInput | PsParams | PsBody | PsAggregate | PsClause | PsWhere | PsOrderBy | PsLimit | PsOffset
  | PsFilter | PsValue | PsOp | PsDirection

fun segment_str :: "input_path_segment \<Rightarrow> string" where
  "segment_str PsInput = ''input''"
| "segment_str PsParams = ''params''"
| "segment_str PsBody = ''body''"
| "segment_str PsAggregate = ''aggregate''"
| "segment_str PsClause = ''clause''"
| "segment_str PsWhere = ''where''"
| "segment_str PsOrderBy = ''order_by''"
| "segment_str PsLimit = ''limit''"
| "segment_str PsOffset = ''offset''"
| "segment_str PsFilter = ''filter''"
| "segment_str PsValue = ''value''"
| "segment_str PsOp = ''op''"
| "segment_str PsDirection = ''direction''"

datatype selection_path_mode = ModeBody | ModeFragmentRoot

record selection_path =
  spa_parts :: "string list"
  spa_mode :: selection_path_mode

definition selection_path_body :: "string list \<Rightarrow> selection_path" where
  "selection_path_body parts = \<lparr>spa_parts = parts, spa_mode = ModeBody\<rparr>"

definition selection_path_fragment_root :: selection_path where
  "selection_path_fragment_root = \<lparr>spa_parts = [], spa_mode = ModeFragmentRoot\<rparr>"

definition relation_child_path :: "selection_path \<Rightarrow> string \<Rightarrow> string list" where
  "relation_child_path p output_name =
     spa_parts p @ (if spa_mode p = ModeBody then [segment_str PsBody] else []) @ [output_name]"

definition fragment_envelope_path :: "selection_path \<Rightarrow> string \<Rightarrow> string list" where
  "fragment_envelope_path p fragment_name =
     spa_parts p @ (if spa_mode p = ModeBody then [segment_str PsBody] else []) @ [fragment_name]"

text \<open>A frame is the rewrite map of one spread, the last frame that of the innermost.\<close>

record variable_path_scope =
  vps_structured_prefix :: "string list"
  vps_top_level_prefix :: "string list"
  vps_frames :: "(string \<rightharpoonup> spread_input_value) list"

definition scope_operation :: variable_path_scope where
  "scope_operation =
     \<lparr>vps_structured_prefix = [segment_str PsInput], vps_top_level_prefix = [segment_str PsParams],
      vps_frames = []\<rparr>"

definition for_spread_map :: "variable_path_scope \<Rightarrow> (string \<rightharpoonup> spread_input_value) \<Rightarrow> variable_path_scope" where
  "for_spread_map scope values =
     \<lparr>vps_structured_prefix = [segment_str PsInput], vps_top_level_prefix = [segment_str PsParams],
      vps_frames = vps_frames scope @ [values]\<rparr>"

fun predicate_anonymous_key :: "binary_op \<Rightarrow> string option" where
  "predicate_anonymous_key (OpVariable _) = Some (segment_str PsValue)"
| "predicate_anonymous_key _ = None"

fun path_clause_segment :: "variable_role \<Rightarrow> input_path_segment" where
  "path_clause_segment RoleWhereValue = PsWhere"
| "path_clause_segment RoleDynamicPredicate = PsWhere"
| "path_clause_segment RoleComparisonOperator = PsWhere"
| "path_clause_segment RoleSortDirection = PsOrderBy"
| "path_clause_segment RoleDynamicOrder = PsOrderBy"
| "path_clause_segment RoleLimit = PsLimit"
| "path_clause_segment RoleOffset = PsOffset"
| "path_clause_segment RoleFilterAssignment = PsFilter"

definition path_includes_inferred_path :: "variable_role \<Rightarrow> bool" where
  "path_includes_inferred_path r \<longleftrightarrow> r \<noteq> RoleLimit \<and> r \<noteq> RoleOffset"

record variable_path_context =
  vpc_role :: variable_role
  vpc_inferred_path :: "string list"
  vpc_anonymous_key :: "string option"

definition join_prefixed_key :: "string list \<Rightarrow> string \<Rightarrow> string" where
  "join_prefixed_key prefix_parts key = join_with ''.'' (prefix_parts @ [key])"

definition structured_variable_path ::
  "string list \<Rightarrow> variable_path_context \<Rightarrow> variable_path_scope \<Rightarrow> bool \<Rightarrow> string \<Rightarrow> string" where
  "structured_variable_path selection_parts ctx scope include_key key =
     join_with ''.'' (vps_structured_prefix scope @ selection_parts
       @ [segment_str PsClause, segment_str (path_clause_segment (vpc_role ctx))]
       @ (if path_includes_inferred_path (vpc_role ctx) then vpc_inferred_path ctx else [])
       @ (if include_key then [key] else []))"

definition variable_key :: "variable_path_context \<Rightarrow> string option \<Rightarrow> string" where
  "variable_key ctx name =
     (case name of
        Some n \<Rightarrow> n
      | None \<Rightarrow>
          (case vpc_anonymous_key ctx of
             Some key \<Rightarrow> key
           | None \<Rightarrow>
               if vpc_role ctx = RoleComparisonOperator then segment_str PsOp
               else if vpc_inferred_path ctx = [] then [] else last (vpc_inferred_path ctx)))"

definition native_variable_path ::
  "string list \<Rightarrow> variable_path_context \<Rightarrow> variable_path_scope \<Rightarrow> sigil \<Rightarrow> string option \<Rightarrow> string" where
  "native_variable_path selection_parts ctx scope sigil name =
     (case sigil of
        SigilBuild \<Rightarrow>
          structured_variable_path selection_parts ctx scope
            (name \<noteq> None \<or> vpc_anonymous_key ctx \<noteq> None \<or> vpc_role ctx = RoleComparisonOperator)
            (variable_key ctx name)
      | SigilQuery \<Rightarrow> join_prefixed_key (vps_top_level_prefix scope) (variable_key ctx name)
      | SigilContext \<Rightarrow> join_prefixed_key [''context''] (variable_key ctx name))"

text \<open>\<open>VariableValue\<close> has the constructors of \<open>SpreadInputValue\<close>.\<close>

definition rewrite_step :: "spread_input_value \<Rightarrow> (string \<rightharpoonup> spread_input_value) \<Rightarrow> spread_input_value" where
  "rewrite_step value frame =
     (case value of
        SpreadPublic path \<Rightarrow> (case frame path of Some v \<Rightarrow> v | None \<Rightarrow> SpreadPublic path)
      | SpreadDefault d \<Rightarrow> SpreadDefault d)"

definition variable_value ::
  "string list \<Rightarrow> variable_path_context \<Rightarrow> variable_path_scope \<Rightarrow> sigil \<Rightarrow> string option
   \<Rightarrow> spread_input_value" where
  "variable_value selection_parts ctx scope sigil name =
     foldl rewrite_step (SpreadPublic (native_variable_path selection_parts ctx scope sigil name))
       (rev (vps_frames scope))"

definition variable_path ::
  "string list \<Rightarrow> variable_path_context \<Rightarrow> variable_path_scope \<Rightarrow> sigil \<Rightarrow> string option \<Rightarrow> string" where
  "variable_path selection_parts ctx scope sigil name =
     (case variable_value selection_parts ctx scope sigil name of
        SpreadPublic path \<Rightarrow> path
      | SpreadDefault _ \<Rightarrow> native_variable_path selection_parts ctx scope sigil name)"

definition has_prefix_segment :: "input_path_segment \<Rightarrow> string \<Rightarrow> bool" where
  "has_prefix_segment segment path =
     (case split_once path ''.'' of Some (p, _) \<Rightarrow> p = segment_str segment | None \<Rightarrow> False)"

definition is_params_path :: "string \<Rightarrow> bool" where
  "is_params_path = has_prefix_segment PsParams"

definition is_input_path :: "string \<Rightarrow> bool" where
  "is_input_path = has_prefix_segment PsInput"

section \<open>Facts\<close>

text \<open>A path whose first segment has no dot splits there.\<close>

lemma split_once_dot: "CHR ''.'' \<notin> set p \<Longrightarrow> split_once (p @ CHR ''.'' # rest) ''.'' = Some (p, rest)"
  by (induction p) auto

lemma segment_no_dot [simp]: "CHR ''.'' \<notin> set (segment_str s)"
  by (cases s) auto

lemma segment_str_inject [simp]: "segment_str a = segment_str b \<longleftrightarrow> a = b"
  by (cases a; cases b) auto

lemma join_with_Cons: "xs \<noteq> [] \<Longrightarrow> join_with sep (x # xs) = x @ sep @ join_with sep xs"
  by (cases xs) auto

lemma has_prefix_join:
  "parts \<noteq> [] \<Longrightarrow> has_prefix_segment s (join_with ''.'' (segment_str s' # parts)) \<longleftrightarrow> s = s'"
  by (auto simp: has_prefix_segment_def join_with_Cons split_once_dot)

definition scope_ok :: "variable_path_scope \<Rightarrow> bool" where
  "scope_ok scope \<longleftrightarrow> vps_structured_prefix scope = [segment_str PsInput]
     \<and> vps_top_level_prefix scope = [segment_str PsParams]"

lemma scope_ok_intros [simp]: "scope_ok scope_operation" "scope_ok (for_spread_map scope values)"
  by (simp_all add: scope_ok_def scope_operation_def for_spread_map_def)

text \<open>
  The native path of a variable tells its sigil: below an operation and below every
  fragment spread a \<open>$\<close> variable is an input path, a \<open>%\<close> variable a parameter path and a
  \<open>$:\<close> variable neither.
\<close>

theorem native_path_classifies:
  assumes "scope_ok scope"
  shows "(is_input_path (native_variable_path parts ctx scope sigil name) \<longleftrightarrow> sigil = SigilBuild) \<and>
    (is_params_path (native_variable_path parts ctx scope sigil name) \<longleftrightarrow> sigil = SigilQuery)"
proof (cases sigil)
  case SigilContext
  have "split_once (join_with ''.'' [''context'', k]) ''.'' = Some (''context'', k)" for k
    by simp
  then show ?thesis
    by (simp add: SigilContext native_variable_path_def join_prefixed_key_def is_input_path_def
        is_params_path_def has_prefix_segment_def del: join_with.simps)
next
  case SigilBuild
  obtain rest where "rest \<noteq> []"
    "native_variable_path parts ctx scope sigil name = join_with ''.'' (segment_str PsInput # rest)"
  proof
    show "native_variable_path parts ctx scope sigil name = join_with ''.'' (segment_str PsInput # parts
        @ segment_str PsClause # segment_str (path_clause_segment (vpc_role ctx))
        # (if path_includes_inferred_path (vpc_role ctx) then vpc_inferred_path ctx else [])
        @ (if name \<noteq> None \<or> vpc_anonymous_key ctx \<noteq> None \<or> vpc_role ctx = RoleComparisonOperator
           then [variable_key ctx name] else []))"
      using assms
      by (simp only: SigilBuild native_variable_path_def structured_variable_path_def scope_ok_def
          sigil.case append_Cons append_Nil)
  qed simp
  then show ?thesis
    by (simp only: is_input_path_def is_params_path_def has_prefix_join[OF \<open>rest \<noteq> []\<close>] SigilBuild) simp
next
  case SigilQuery
  have "native_variable_path parts ctx scope sigil name
      = join_with ''.'' (segment_str PsParams # [variable_key ctx name])"
    using assms
    by (simp only: SigilQuery native_variable_path_def join_prefixed_key_def scope_ok_def sigil.case
        append_Cons append_Nil)
  then show ?thesis
    by (simp only: is_input_path_def is_params_path_def has_prefix_join list.distinct not_False_eq_True
        SigilQuery) simp
qed

text \<open>
  Rewrites compose from the innermost spread outwards, and a default, once bound, is final.
\<close>

theorem variable_value_rewrites:
  "variable_value parts ctx (for_spread_map scope values) sigil name =
     (case values (native_variable_path parts ctx (for_spread_map scope values) sigil name) of
        Some (SpreadDefault d) \<Rightarrow> SpreadDefault d
      | Some (SpreadPublic path) \<Rightarrow> foldl rewrite_step (SpreadPublic path) (rev (vps_frames scope))
      | None \<Rightarrow> foldl rewrite_step (SpreadPublic
          (native_variable_path parts ctx (for_spread_map scope values) sigil name)) (rev (vps_frames scope)))"
proof -
  have final: "foldl rewrite_step (SpreadDefault d) frames = SpreadDefault d" for d frames
    by (induction frames) (simp_all add: rewrite_step_def)
  show ?thesis
    by (simp add: variable_value_def for_spread_map_def rewrite_step_def final
        split: option.splits spread_input_value.splits)
qed

theorem native_path_classifies_witness:
  "is_input_path (native_variable_path [''users''] \<lparr>vpc_role = RoleLimit, vpc_inferred_path = [''limit''],
     vpc_anonymous_key = None\<rparr> scope_operation SigilBuild None)"
  using native_path_classifies[OF scope_ok_intros(1), of "[''users'']"
      "\<lparr>vpc_role = RoleLimit, vpc_inferred_path = [''limit''], vpc_anonymous_key = None\<rparr>" SigilBuild None]
  by simp

end
