(* ===== verification/Catalog_Types.thy ===== *)
theory Catalog_Types
  imports Expression
begin

text \<open>
  The effective catalog of a project: the dense arenas of schemas, tables, types, columns,
  foreign keys and relations and the records they hold
  (\<open>crates/dsql-core/src/catalog/keys.rs\<close>, \<open>catalog/types.rs\<close>, the capability records of
  \<open>catalog/capabilities.rs\<close>, the provider facts of \<open>catalog/metadata.rs\<close> and the wire
  encodings of \<open>dsql-metadata/src/lib.rs\<close>).

  The newtype identities (\<open>TableId(usize)\<close> and so on) are positions in the arenas, kept as
  \<open>nat\<close>. The key structs derive \<open>Ord\<close>; they are datatypes with selectors, so that the
  derived order is an instance of \<open>linorder\<close>.
\<close>

type_synonym schema_id = nat
type_synonym table_id = nat
type_synonym column_id = nat
type_synonym type_id = nat
type_synonym foreign_key_id = nat
type_synonym relation_id = nat

section \<open>Keys and their derived order\<close>

datatype type_key = TypeKey (tyk_schema: string) (tyk_name: string)
datatype table_key = TableKey (tbk_schema: string) (tbk_table: string)
datatype column_key = ColumnKey (ck_schema: string) (ck_table: string) (ck_column: string)

instantiation type_key :: linorder
begin

definition less_eq_type_key :: "type_key \<Rightarrow> type_key \<Rightarrow> bool" where
  "a \<le> b \<longleftrightarrow> tyk_schema a < tyk_schema b \<or> tyk_schema a = tyk_schema b \<and> tyk_name a \<le> tyk_name b"

definition less_type_key :: "type_key \<Rightarrow> type_key \<Rightarrow> bool" where
  "a < b \<longleftrightarrow> tyk_schema a < tyk_schema b \<or> tyk_schema a = tyk_schema b \<and> tyk_name a < tyk_name b"

instance
  by standard (auto simp: less_eq_type_key_def less_type_key_def intro: type_key.expand)

end

instantiation table_key :: linorder
begin

definition less_eq_table_key :: "table_key \<Rightarrow> table_key \<Rightarrow> bool" where
  "a \<le> b \<longleftrightarrow> tbk_schema a < tbk_schema b \<or> tbk_schema a = tbk_schema b \<and> tbk_table a \<le> tbk_table b"

definition less_table_key :: "table_key \<Rightarrow> table_key \<Rightarrow> bool" where
  "a < b \<longleftrightarrow> tbk_schema a < tbk_schema b \<or> tbk_schema a = tbk_schema b \<and> tbk_table a < tbk_table b"

instance
  by standard (auto simp: less_eq_table_key_def less_table_key_def intro: table_key.expand)

end

section \<open>Logical types, wire encodings, literals\<close>

datatype data_type =
    DtUuid | DtText | DtTimestamptz | DtInt | DtBigInt | DtNumeric | DtFloat | DtBoolean
  | DtJson | DtUnknown

definition data_type_all :: "data_type list" where
  "data_type_all = [DtUuid, DtText, DtTimestamptz, DtInt, DtBigInt, DtNumeric, DtFloat,
     DtBoolean, DtJson, DtUnknown]"

datatype wire_encoding =
    WireUuid | WireText | WireTimestamptz | WireInteger | WireBigInteger | WireNumeric
  | WireFloat | WireBoolean | WireJson | WireTextCast | WireUnsupported

datatype literal_kind = KindString | KindNumber | KindBoolean | KindNull

fun literal_kind_as_str :: "literal_kind \<Rightarrow> string" where
  "literal_kind_as_str KindString = ''string''"
| "literal_kind_as_str KindNumber = ''number''"
| "literal_kind_as_str KindBoolean = ''boolean''"
| "literal_kind_as_str KindNull = ''null''"

datatype object_type =
    ObjTable | ObjView | ObjMaterializedView | ObjIndex | ObjSequence | ObjSpecial
  | ObjToastTable | ObjForeignTable | ObjOther

definition object_type_from_postgres_relkind :: "string \<Rightarrow> object_type" where
  "object_type_from_postgres_relkind relkind =
     (if relkind = ''r'' then ObjTable
      else if relkind = ''v'' then ObjView
      else if relkind = ''m'' then ObjMaterializedView
      else if relkind = ''i'' then ObjIndex
      else if relkind = ''S'' then ObjSequence
      else if relkind = ''s'' then ObjSpecial
      else if relkind = ''t'' then ObjToastTable
      else if relkind = ''f'' then ObjForeignTable
      else ObjOther)"

section \<open>Capabilities and provider facts\<close>

datatype scalar_validation = ValidAny | ValidInteger | ValidSafeInteger | ValidFiniteFloat

record scalar_acceptance =
  acc_kinds :: "literal_kind list"
  acc_validation :: scalar_validation
  acc_description :: string
  acc_pattern :: "string option"

record aggregate_capabilities =
  agg_minimum :: bool
  agg_maximum :: bool
  agg_sum :: "data_type option"
  agg_average :: "data_type option"

record type_capabilities =
  cap_name :: string
  cap_aliases :: "string list"
  cap_description :: string
  cap_wire :: wire_encoding
  cap_operators :: "comparison_op list"
  cap_orderable :: bool
  cap_literals :: scalar_acceptance
  cap_defaults :: scalar_acceptance
  cap_aggregates :: aggregate_capabilities

record provider_type_facts =
  prov_kind :: string
  prov_category :: string
  prov_effective_kind :: "string option"
  prov_effective_category :: "string option"
  prov_orderable :: bool

section \<open>Types of the catalog\<close>

datatype catalog_type_shape =
    ShapeScalar
  | ShapeDomain type_id
  | ShapeArray type_id
  | ShapeEnum

record catalog_enum_variant =
  ev_variant :: string
  ev_database_value :: string
  ev_label :: "string option"
  ev_description :: "string option"

record catalog_enum =
  enum_description :: "string option"
  enum_variants :: "catalog_enum_variant list"

record catalog_type =
  ty_id :: type_id
  ty_key :: type_key
  ty_data_type :: data_type
  ty_shape :: catalog_type_shape
  ty_enumeration :: "catalog_enum option"
  ty_readable_type :: string
  ty_provider :: "provider_type_facts option"
  ty_capabilities :: type_capabilities

datatype catalog_value_shape =
    ValueScalar catalog_type
  | ValueDatabaseArray catalog_type

section \<open>Provenance\<close>

datatype catalog_support_kind = SupportProvider | SupportOverlay

record catalog_support =
  sup_kind :: catalog_support_kind
  sup_path :: string
  sup_item_path :: string
  sup_range :: "(nat \<times> nat) option"

record relation_supports =
  rs_declaration :: "catalog_support option"
  rs_join :: "catalog_support list"
  rs_cardinality :: "catalog_support list"
  rs_presence :: "catalog_support list"
  rs_exposure :: "catalog_support list"

definition relation_supports_default :: relation_supports where
  "relation_supports_default =
     \<lparr>rs_declaration = None, rs_join = [], rs_cardinality = [], rs_presence = [], rs_exposure = []\<rparr>"

record uniqueness_support =
  us_table :: table_id
  us_name :: string
  us_columns :: "column_id list"
  us_support :: catalog_support

section \<open>Tables, columns, indexes, relations\<close>

record schema =
  sch_id :: schema_id
  sch_key :: string
  sch_name :: string
  sch_tables :: "table_id list"

datatype index_key_capability = CapEquality | CapRange | CapLike
datatype index_order_direction = DirAsc | DirDesc
datatype index_nulls_position = NullsFirst | NullsLast

record index_order =
  io_direction :: index_order_direction
  io_nulls :: index_nulls_position

record index_key =
  ik_column :: column_id
  ik_operator_class :: "string option"
  ik_capabilities :: "index_key_capability list"
  ik_order :: "index_order option"

record index =
  ix_name :: "string option"
  ix_access_method :: string
  ix_keys :: "index_key list"
  ix_included_columns :: "column_id list"
  ix_is_unique :: bool

record table =
  tb_id :: table_id
  tb_key :: table_key
  tb_schema_id :: schema_id
  tb_schema :: string
  tb_name :: string
  tb_object_type :: object_type
  tb_visible :: bool
  tb_description :: "string option"
  tb_declaration :: "catalog_support option"
  tb_description_support :: "catalog_support option"
  tb_exposure_support :: "catalog_support list"
  tb_columns :: "column_id list"
  tb_primary_key :: "column_id list"
  tb_unique_constraints :: "column_id list list"
  tb_indexes :: "index list"
  tb_relations :: "relation_id list"

record column =
  col_id :: column_id
  col_key :: column_key
  col_table :: table_id
  col_name :: string
  col_description :: "string option"
  col_visible :: bool
  col_declaration :: "catalog_support option"
  col_description_support :: "catalog_support option"
  col_exposure_support :: "catalog_support list"
  col_type_id :: type_id
  col_formatted_type :: string
  col_type_modifier :: "int option"
  col_not_null :: bool
  col_is_unique :: bool

record foreign_key =
  fk_id :: foreign_key_id
  fk_name :: "string option"
  fk_from_columns :: "column_id list"
  fk_to_columns :: "column_id list"
  fk_from_table :: table_id
  fk_to_table :: table_id

datatype foreign_key_direction = Referencing | Referenced
datatype relation_cardinality = RelCollection | RelSingular

record relation =
  rel_id :: relation_id
  rel_name :: string
  rel_selector :: string
  rel_visible :: bool
  rel_from_table :: table_id
  rel_to_table :: table_id
  rel_local_columns :: "column_id list"
  rel_target_columns :: "column_id list"
  rel_cardinality :: relation_cardinality
  rel_nullable :: bool
  rel_join_support :: "foreign_key_id option"
  rel_join_direction :: "foreign_key_direction option"
  rel_supports :: relation_supports

record catalog =
  cat_default_schema :: string
  cat_schemas :: "schema list"
  cat_tables :: "table list"
  cat_types :: "catalog_type list"
  cat_type_ids :: "type_key \<rightharpoonup> type_id"
  cat_columns :: "column list"
  cat_foreign_keys :: "foreign_key list"
  cat_relations :: "relation list"
  cat_uniqueness_supports :: "uniqueness_support list"

definition default_schema_name :: string where
  "default_schema_name = ''public''"

definition catalog_empty :: catalog where
  "catalog_empty =
     \<lparr>cat_default_schema = default_schema_name, cat_schemas = [], cat_tables = [], cat_types = [],
      cat_type_ids = Map.empty, cat_columns = [], cat_foreign_keys = [], cat_relations = [],
      cat_uniqueness_supports = []\<rparr>"

definition schema_new :: "schema_id \<Rightarrow> string \<Rightarrow> table_id list \<Rightarrow> schema" where
  "schema_new i name tables =
     \<lparr>sch_id = i, sch_key = name, sch_name = name, sch_tables = tables\<rparr>"

definition table_new ::
  "table_id \<Rightarrow> schema_id \<Rightarrow> string \<Rightarrow> string \<Rightarrow> object_type \<Rightarrow> string option \<Rightarrow> column_id list
   \<Rightarrow> column_id list \<Rightarrow> column_id list list \<Rightarrow> index list \<Rightarrow> relation_id list \<Rightarrow> table" where
  "table_new i schema_id schema name object_type description columns primary_key
     unique_constraints indexes relations =
     \<lparr>tb_id = i, tb_key = TableKey schema name, tb_schema_id = schema_id, tb_schema = schema,
      tb_name = name, tb_object_type = object_type, tb_visible = True,
      tb_description = description, tb_declaration = None, tb_description_support = None,
      tb_exposure_support = [], tb_columns = columns, tb_primary_key = primary_key,
      tb_unique_constraints = unique_constraints, tb_indexes = indexes,
      tb_relations = relations\<rparr>"

definition column_new ::
  "column_id \<Rightarrow> table_id \<Rightarrow> string \<Rightarrow> string \<Rightarrow> string \<Rightarrow> string option \<Rightarrow> type_id \<Rightarrow> string
   \<Rightarrow> int option \<Rightarrow> bool \<Rightarrow> bool \<Rightarrow> column" where
  "column_new i table schema table_name name description type_id formatted_type type_modifier
     not_null is_unique =
     \<lparr>col_id = i, col_key = ColumnKey schema table_name name, col_table = table, col_name = name,
      col_description = description, col_visible = True, col_declaration = None,
      col_description_support = None, col_exposure_support = [], col_type_id = type_id,
      col_formatted_type = formatted_type, col_type_modifier = type_modifier,
      col_not_null = not_null, col_is_unique = is_unique\<rparr>"

section \<open>References as written in source\<close>

record table_ref =
  tref_schema :: "string option"
  tref_name :: string

record field_ref =
  fref_target :: table_ref
  fref_selector :: "string option"

definition table_ref_parse :: "string \<Rightarrow> table_ref" where
  "table_ref_parse raw =
     (case split_once raw ''::'' of
        Some (schema, name) \<Rightarrow> \<lparr>tref_schema = Some schema, tref_name = name\<rparr>
      | None \<Rightarrow> \<lparr>tref_schema = None, tref_name = raw\<rparr>)"

definition table_ref_display :: "table_ref \<Rightarrow> string" where
  "table_ref_display r =
     (case tref_schema r of Some schema \<Rightarrow> schema @ ''::'' @ tref_name r | None \<Rightarrow> tref_name r)"

definition field_ref_display :: "field_ref \<Rightarrow> string" where
  "field_ref_display r =
     (case fref_selector r of
        Some selector \<Rightarrow> table_ref_display (fref_target r) @ ''->'' @ selector
      | None \<Rightarrow> table_ref_display (fref_target r))"

text \<open>Printing a parsed reference gives back the text it was parsed from.\<close>

theorem table_ref_roundtrip: "table_ref_display (table_ref_parse raw) = raw"
  by (auto simp: table_ref_display_def table_ref_parse_def dest: split_once_Some split: option.splits)

end
