(* ===== verification/Spread_Inputs.thy ===== *)
theory Spread_Inputs
  imports Variable_Paths Catalog_Types "HOL-Library.Code_Target_Nat"
begin

text \<open>
  The inputs of a fragment at one of its spreads (\<open>spread_input_map\<close> of
  \<open>crates/dsql-core/src/entities/variable.rs\<close>): without a binding list they are contained under
  the spread, a binding list lifts a whole root or binds its leaves one by one. The result is the
  caller's contract with the rewrites that \<open>Variable_Paths\<close> applies to the fragment's variables.
\<close>

section \<open>Contracts\<close>

record variable_binding =
  vb_path :: string
  vb_source :: variable_source
  vb_name :: "string option"
  vb_data_type :: data_type
  vb_wire :: wire_encoding
  vb_provider_type :: "type_key option"
  vb_collection :: bool
  vb_role :: variable_role
  vb_operators :: "comparison_op list"
  vb_closed_values :: "string list"
  vb_required :: bool
  vb_nullable :: bool
  vb_default :: "input_default option"
  vb_allows_nullable :: bool
  vb_refinable :: bool

record spread_binding_ref =
  sbr_source :: variable_source
  sbr_name :: "string option"
  sbr_span :: span

record spread_binding =
  sbi_target :: spread_binding_ref
  sbi_source :: "spread_binding_ref option"
  sbi_span :: span

record spread_decl =
  spd_name :: string
  spd_name_span :: span
  spd_span :: span
  spd_bindings :: "spread_binding list"

datatype variable_problem_code = CodeInvalidFragmentBinding | CodeInvalidVariableRefinement


datatype public_input_root = RootStructured | RootTopLevel


fun root_of_source :: "variable_source \<Rightarrow> public_input_root option" where
  "root_of_source SourceStructured = Some RootStructured"
| "root_of_source SourceTopLevel = Some RootTopLevel"
| "root_of_source SourceContext = None"



definition path_variable_key :: "string \<Rightarrow> string" where
  "path_variable_key path = last (split_dots path)"


section \<open>Decisions\<close>





section \<open>Inputs of the caller\<close>

definition contained_binding :: "spread_decl \<Rightarrow> selection_path \<Rightarrow> variable_binding \<Rightarrow> variable_binding" where
  "contained_binding spread path target = target
     \<lparr>vb_path := join_with ''.'' ([''input''] @ fragment_envelope_path path (spd_name spread)
        @ split_dots (vb_path target)),
      vb_source := SourceStructured, vb_refinable := False\<rparr>"

definition spread_site_path :: "selection_path \<Rightarrow> string list" where
  "spread_site_path path =
     spa_parts path @ (if spa_mode path = ModeBody then [segment_str PsBody] else [])"

definition lifted_root_binding ::
  "selection_path \<Rightarrow> variable_binding \<Rightarrow> spread_binding_ref \<Rightarrow> variable_binding" where
  "lifted_root_binding path target source = target
     \<lparr>vb_path := join_with ''.''
        ((case root_of_source (sbr_source source) of
            Some RootTopLevel \<Rightarrow> [''params'']
          | _ \<Rightarrow> [''input''] @ spread_site_path path)
         @ (case sbr_name source of Some namespace \<Rightarrow> [namespace] | None \<Rightarrow> [])
         @ tl (split_dots (vb_path target))),
      vb_source := sbr_source source, vb_refinable := False\<rparr>"

fun sigil_of_source :: "variable_source \<Rightarrow> sigil" where
  "sigil_of_source SourceStructured = SigilBuild"
| "sigil_of_source SourceTopLevel = SigilQuery"
| "sigil_of_source SourceContext = SigilContext"

definition lifted_leaf_binding ::
  "selection_path \<Rightarrow> variable_binding \<Rightarrow> spread_binding_ref \<Rightarrow> variable_binding" where
  "lifted_leaf_binding path target source = target
     \<lparr>vb_path := variable_path (spa_parts path)
        \<lparr>vpc_role = vb_role target, vpc_inferred_path = [path_variable_key (vb_path target)],
         vpc_anonymous_key = None\<rparr>
        scope_operation (sigil_of_source (sbr_source source)) (sbr_name source),
      vb_source := sbr_source source, vb_name := sbr_name source, vb_required := True,
      vb_nullable := False, vb_default := None, vb_allows_nullable := vb_nullable target,
      vb_refinable := True\<rparr>"

section \<open>The map of a spread\<close>





section \<open>Every input of the fragment is bound\<close>

text \<open>What an input of the caller keeps of the input it stands for.\<close>

definition same_values :: "variable_binding \<Rightarrow> variable_binding \<Rightarrow> bool" where
  "same_values b t \<longleftrightarrow>
     vb_data_type b = vb_data_type t \<and> vb_wire b = vb_wire t \<and> vb_provider_type b = vb_provider_type t
     \<and> vb_collection b = vb_collection t \<and> vb_role b = vb_role t \<and> vb_operators b = vb_operators t
     \<and> vb_closed_values b = vb_closed_values t"



lemma same_values_lifts [simp]:
  "same_values t t" "same_values (contained_binding spread path t) t"
  "same_values (lifted_root_binding path t source) t" "same_values (lifted_leaf_binding path t source) t"
  by (simp_all add: same_values_def contained_binding_def lifted_root_binding_def lifted_leaf_binding_def)
















section \<open>A spread\<close>



end
