(* ===== verification/Capabilities.thy ===== *)
theory Capabilities
  imports Catalog_Types
begin

text \<open>
  Compiler-owned semantics of the built-in logical types and how provider facts and authored
  mappings narrow them (\<open>crates/dsql-core/src/catalog/capabilities.rs\<close>, and
  \<open>ProviderTypeFacts::supports_text_cast\<close> of \<open>catalog/metadata.rs\<close>).

  The regular-expression engine is third-party code: \<open>rx pattern value\<close> is \<open>None\<close> where
  \<open>pattern\<close> does not compile and otherwise says whether it matches. The compiled-pattern
  cache has no observable effect and is left out.
\<close>

section \<open>Number syntax of the standard library\<close>

definition is_digit :: "char \<Rightarrow> bool" where
  "is_digit c \<longleftrightarrow> c \<in> set ''0123456789''"

text \<open>\<open>str::parse::<i64>()\<close>: an optional sign, at least one digit, no overflow.\<close>

definition parse_digits :: "string \<Rightarrow> nat option" where
  "parse_digits s = (if s \<noteq> [] \<and> list_all is_digit s then Some (dec_value s) else None)"

definition strip_sign :: "string \<Rightarrow> bool \<times> string" where
  "strip_sign s =
     (case s of [] \<Rightarrow> (False, [])
      | c # r \<Rightarrow> if c = CHR ''-'' then (True, r) else if c = CHR ''+'' then (False, r) else (False, s))"

definition parse_i64 :: "string \<Rightarrow> int option" where
  "parse_i64 s =
     (let (neg, digits) = strip_sign s in
      case parse_digits digits of
        None \<Rightarrow> None
      | Some n \<Rightarrow>
          let v = (if neg then - int n else int n) in
          if - (2 ^ 63) \<le> v \<and> v < 2 ^ 63 then Some v else None)"

text \<open>
  \<open>str::parse::<f64>()\<close> followed by \<open>is_finite\<close>. A decimal literal is finite when its exact
  value is below the midpoint \<open>2^1024 - 2^970\<close> from which rounding to nearest gives infinity;
  the spelled-out \<open>inf\<close>, \<open>infinity\<close> and \<open>nan\<close> parse but are not finite.
\<close>

definition split_digits :: "string \<Rightarrow> string \<times> string" where
  "split_digits s = (takeWhile is_digit s, dropWhile is_digit s)"

definition f64_overflow :: nat where
  "f64_overflow = 2 ^ 1024 - 2 ^ 970"

definition parse_exponent :: "string \<Rightarrow> int option" where
  "parse_exponent s =
     (case s of [] \<Rightarrow> Some 0
      | c # r \<Rightarrow>
          if c = CHR ''e'' \<or> c = CHR ''E'' then
            (let (neg, digits) = strip_sign r in
             map_option (\<lambda>n. if neg then - int n else int n) (parse_digits digits))
          else None)"

definition f64_is_finite :: "string \<Rightarrow> bool" where
  "f64_is_finite s =
     (let (_, body) = strip_sign s;
          (whole, rest) = split_digits body;
          (fraction, tail) =
            (case rest of [] \<Rightarrow> ([], [])
             | c # r \<Rightarrow> if c = CHR ''.'' then split_digits r else ([], rest)) in
      if whole = [] \<and> fraction = [] then False
      else case parse_exponent tail of
        None \<Rightarrow> False
      | Some e \<Rightarrow>
          let mantissa = dec_value (whole @ fraction); exponent = e - int (length fraction) in
          if 0 \<le> exponent then mantissa = 0 \<or> mantissa * 10 ^ nat exponent < f64_overflow
          else mantissa < f64_overflow * 10 ^ nat (- exponent))"

section \<open>Scalar acceptance\<close>

definition min_safe_integer :: int where
  "min_safe_integer = -9007199254740991"

definition max_safe_integer :: int where
  "max_safe_integer = 9007199254740991"

definition validation_accepts :: "scalar_validation \<Rightarrow> string \<Rightarrow> bool" where
  "validation_accepts v value =
     (case v of
        ValidAny \<Rightarrow> True
      | ValidInteger \<Rightarrow> parse_i64 value \<noteq> None
      | ValidSafeInteger \<Rightarrow>
          (case parse_i64 value of None \<Rightarrow> False
           | Some n \<Rightarrow> min_safe_integer \<le> n \<and> n \<le> max_safe_integer)
      | ValidFiniteFloat \<Rightarrow> f64_is_finite value)"

definition pattern_matches :: "(string \<Rightarrow> string \<Rightarrow> bool option) \<Rightarrow> string \<Rightarrow> string \<Rightarrow> bool" where
  "pattern_matches rx pattern value =
     (case rx pattern value of None \<Rightarrow> False | Some matches \<Rightarrow> matches)"

definition accepts ::
  "(string \<Rightarrow> string \<Rightarrow> bool option) \<Rightarrow> scalar_acceptance \<Rightarrow> literal_kind \<Rightarrow> string \<Rightarrow> bool" where
  "accepts rx acc kind value =
     (if kind \<notin> set (acc_kinds acc) then False
      else validation_accepts (acc_validation acc) value
        \<and> (case acc_pattern acc of None \<Rightarrow> True | Some p \<Rightarrow> pattern_matches rx p value))"

definition narrow ::
  "scalar_acceptance \<Rightarrow> string \<Rightarrow> literal_kind \<Rightarrow> string option \<Rightarrow> scalar_acceptance" where
  "narrow acc name kind pattern =
     acc\<lparr>acc_kinds := [kind],
         acc_description :=
           (case pattern of
              None \<Rightarrow> name @ '' '' @ literal_kind_as_str kind
            | Some p \<Rightarrow> name @ '' '' @ literal_kind_as_str kind @ '' matching pattern `'' @ p @ ''`''),
         acc_pattern := pattern\<rparr>"

section \<open>Aggregate results\<close>

fun aggregate_result ::
  "aggregate_capabilities \<Rightarrow> aggregate_function \<Rightarrow> data_type \<Rightarrow> data_type option" where
  "aggregate_result c AggMin operand = (if agg_minimum c then Some operand else None)"
| "aggregate_result c AggMax operand = (if agg_maximum c then Some operand else None)"
| "aggregate_result c AggSum operand = agg_sum c"
| "aggregate_result c AggAvg operand = agg_average c"
| "aggregate_result c AggCount operand = None"
| "aggregate_result c AggExists operand = None"

section \<open>The built-in type table\<close>

record builtin_type_definition =
  bt_data_type :: data_type
  bt_name :: string
  bt_database_names :: "string list"
  bt_description :: string
  bt_wire :: wire_encoding
  bt_operators :: "comparison_op list"
  bt_orderable :: bool
  bt_literal_kinds :: "literal_kind list"
  bt_literal_validation :: scalar_validation
  bt_literal_description :: string
  bt_default_kinds :: "literal_kind list"
  bt_default_validation :: scalar_validation
  bt_default_description :: string
  bt_aggregates :: aggregate_capabilities

definition ops_eq :: "comparison_op list" where
  "ops_eq = [CmpEq, CmpNe]"

definition ops_ordered :: "comparison_op list" where
  "ops_ordered = [CmpEq, CmpNe, CmpGt, CmpGe, CmpLt, CmpLe]"

definition ops_text :: "comparison_op list" where
  "ops_text = [CmpEq, CmpNe, CmpLike]"

definition no_aggregates :: aggregate_capabilities where
  "no_aggregates =
     \<lparr>agg_minimum = False, agg_maximum = False, agg_sum = None, agg_average = None\<rparr>"

definition min_max :: aggregate_capabilities where
  "min_max = \<lparr>agg_minimum = True, agg_maximum = True, agg_sum = None, agg_average = None\<rparr>"

definition builtin_types :: "builtin_type_definition list" where
  "builtin_types = [
     \<lparr>bt_data_type = DtUuid, bt_name = ''uuid'', bt_database_names = [''uuid''],
      bt_description = ''UUID'', bt_wire = WireUuid, bt_operators = ops_eq, bt_orderable = True,
      bt_literal_kinds = [KindString], bt_literal_validation = ValidAny,
      bt_literal_description = ''string'', bt_default_kinds = [KindString],
      bt_default_validation = ValidAny, bt_default_description = ''string'',
      bt_aggregates = no_aggregates\<rparr>,
     \<lparr>bt_data_type = DtText, bt_name = ''text'',
      bt_database_names = [''text'', ''varchar'', ''bpchar'', ''char'', ''name''],
      bt_description = ''text'', bt_wire = WireText, bt_operators = ops_text, bt_orderable = True,
      bt_literal_kinds = [KindString], bt_literal_validation = ValidAny,
      bt_literal_description = ''string'', bt_default_kinds = [KindString],
      bt_default_validation = ValidAny, bt_default_description = ''string'',
      bt_aggregates = min_max\<rparr>,
     \<lparr>bt_data_type = DtTimestamptz, bt_name = ''timestamptz'',
      bt_database_names = [''timestamptz'', ''timestamp with time zone''],
      bt_description = ''timestamp with time zone'', bt_wire = WireTimestamptz,
      bt_operators = ops_ordered, bt_orderable = True,
      bt_literal_kinds = [KindString], bt_literal_validation = ValidAny,
      bt_literal_description = ''string'', bt_default_kinds = [KindString],
      bt_default_validation = ValidAny, bt_default_description = ''string'',
      bt_aggregates = min_max\<rparr>,
     \<lparr>bt_data_type = DtInt, bt_name = ''int'',
      bt_database_names = [''int2'', ''int4'', ''integer'', ''smallint''],
      bt_description = ''integer'', bt_wire = WireInteger,
      bt_operators = ops_ordered, bt_orderable = True,
      bt_literal_kinds = [KindNumber], bt_literal_validation = ValidInteger,
      bt_literal_description = ''number'', bt_default_kinds = [KindNumber],
      bt_default_validation = ValidSafeInteger, bt_default_description = ''safe integer'',
      bt_aggregates = \<lparr>agg_minimum = True, agg_maximum = True, agg_sum = Some DtNumeric,
        agg_average = Some DtNumeric\<rparr>\<rparr>,
     \<lparr>bt_data_type = DtBigInt, bt_name = ''bigint'', bt_database_names = [''int8'', ''bigint''],
      bt_description = ''64-bit integer'', bt_wire = WireBigInteger,
      bt_operators = ops_ordered, bt_orderable = True,
      bt_literal_kinds = [KindNumber], bt_literal_validation = ValidInteger,
      bt_literal_description = ''integer'', bt_default_kinds = [KindString],
      bt_default_validation = ValidInteger,
      bt_default_description = ''signed 64-bit integer string'',
      bt_aggregates = \<lparr>agg_minimum = True, agg_maximum = True, agg_sum = Some DtNumeric,
        agg_average = Some DtNumeric\<rparr>\<rparr>,
     \<lparr>bt_data_type = DtNumeric, bt_name = ''numeric'', bt_database_names = [''numeric'', ''decimal''],
      bt_description = ''exact numeric'', bt_wire = WireNumeric,
      bt_operators = ops_ordered, bt_orderable = True,
      bt_literal_kinds = [KindNumber], bt_literal_validation = ValidAny,
      bt_literal_description = ''number'', bt_default_kinds = [KindNumber],
      bt_default_validation = ValidAny, bt_default_description = ''number'',
      bt_aggregates = \<lparr>agg_minimum = False, agg_maximum = False, agg_sum = Some DtNumeric,
        agg_average = Some DtNumeric\<rparr>\<rparr>,
     \<lparr>bt_data_type = DtFloat, bt_name = ''float'',
      bt_database_names = [''float4'', ''real'', ''float8'', ''double precision''],
      bt_description = ''floating-point number'', bt_wire = WireFloat,
      bt_operators = ops_ordered, bt_orderable = True,
      bt_literal_kinds = [KindNumber], bt_literal_validation = ValidAny,
      bt_literal_description = ''number'', bt_default_kinds = [KindNumber],
      bt_default_validation = ValidFiniteFloat, bt_default_description = ''finite number'',
      bt_aggregates = \<lparr>agg_minimum = False, agg_maximum = False, agg_sum = Some DtFloat,
        agg_average = Some DtFloat\<rparr>\<rparr>,
     \<lparr>bt_data_type = DtBoolean, bt_name = ''boolean'', bt_database_names = [''bool'', ''boolean''],
      bt_description = ''boolean'', bt_wire = WireBoolean,
      bt_operators = ops_eq, bt_orderable = True,
      bt_literal_kinds = [KindBoolean], bt_literal_validation = ValidAny,
      bt_literal_description = ''boolean'', bt_default_kinds = [KindBoolean],
      bt_default_validation = ValidAny, bt_default_description = ''boolean'',
      bt_aggregates = no_aggregates\<rparr>,
     \<lparr>bt_data_type = DtJson, bt_name = ''json'', bt_database_names = [''json'', ''jsonb''],
      bt_description = ''JSON'', bt_wire = WireJson,
      bt_operators = ops_eq, bt_orderable = True,
      bt_literal_kinds = [KindString], bt_literal_validation = ValidAny,
      bt_literal_description = ''string'', bt_default_kinds = [],
      bt_default_validation = ValidAny, bt_default_description = ''value'',
      bt_aggregates = no_aggregates\<rparr>,
     \<lparr>bt_data_type = DtUnknown, bt_name = ''unknown'', bt_database_names = [],
      bt_description = ''unmapped provider type'', bt_wire = WireUnsupported,
      bt_operators = ops_eq, bt_orderable = True,
      bt_literal_kinds = [], bt_literal_validation = ValidAny,
      bt_literal_description = ''value'', bt_default_kinds = [],
      bt_default_validation = ValidAny, bt_default_description = ''value'',
      bt_aggregates = no_aggregates\<rparr>]"

fun builtin_index :: "data_type \<Rightarrow> nat" where
  "builtin_index DtUuid = 0"
| "builtin_index DtText = 1"
| "builtin_index DtTimestamptz = 2"
| "builtin_index DtInt = 3"
| "builtin_index DtBigInt = 4"
| "builtin_index DtNumeric = 5"
| "builtin_index DtFloat = 6"
| "builtin_index DtBoolean = 7"
| "builtin_index DtJson = 8"
| "builtin_index DtUnknown = 9"

definition builtin_definition :: "data_type \<Rightarrow> builtin_type_definition" where
  "builtin_definition t = builtin_types ! builtin_index t"

definition builtin_aliases :: "builtin_type_definition \<Rightarrow> string list" where
  "builtin_aliases d = bt_name d # filter (\<lambda>a. a \<noteq> bt_name d) (bt_database_names d)"

definition data_type_name :: "data_type \<Rightarrow> string" where
  "data_type_name t = bt_name (builtin_definition t)"

definition data_type_from_database_name :: "string \<Rightarrow> data_type" where
  "data_type_from_database_name name =
     (case find (\<lambda>d. name \<in> set (bt_database_names d)) builtin_types of
        None \<Rightarrow> DtUnknown | Some d \<Rightarrow> bt_data_type d)"

definition data_type_from_logical_name :: "string \<Rightarrow> data_type option" where
  "data_type_from_logical_name name =
     map_option bt_data_type (find (\<lambda>d. list_ex (\<lambda>a. a = name) (builtin_aliases d)) builtin_types)"

section \<open>Type capabilities\<close>

definition capabilities_builtin :: "data_type \<Rightarrow> type_capabilities" where
  "capabilities_builtin t =
     (let d = builtin_definition t in
      \<lparr>cap_name = bt_name d, cap_aliases = builtin_aliases d, cap_description = bt_description d,
       cap_wire = bt_wire d, cap_operators = bt_operators d, cap_orderable = bt_orderable d,
       cap_literals = \<lparr>acc_kinds = bt_literal_kinds d, acc_validation = bt_literal_validation d,
         acc_description = bt_literal_description d, acc_pattern = None\<rparr>,
       cap_defaults = \<lparr>acc_kinds = bt_default_kinds d, acc_validation = bt_default_validation d,
         acc_description = bt_default_description d, acc_pattern = None\<rparr>,
       cap_aggregates = bt_aggregates d\<rparr>)"

definition supports :: "type_capabilities \<Rightarrow> comparison_op \<Rightarrow> bool" where
  "supports c op \<longleftrightarrow> op \<in> set (cap_operators c)"

definition provider_operators :: "(string \<times> comparison_op) list" where
  "provider_operators = [(''='', CmpEq), (''<>'', CmpNe), (''>'', CmpGt), (''>='', CmpGe),
     (''<'', CmpLt), (''<='', CmpLe), (''~~'', CmpLike)]"

definition apply_provider_comparisons ::
  "type_capabilities \<Rightarrow> provider_type_facts \<Rightarrow> string set \<Rightarrow> type_capabilities" where
  "apply_provider_comparisons c provider operations =
     c\<lparr>cap_operators := map snd (filter (\<lambda>(written, _). written \<in> operations) provider_operators),
       cap_orderable := prov_orderable provider\<rparr>"

definition supports_text_cast :: "provider_type_facts \<Rightarrow> bool" where
  "supports_text_cast p =
     (let kind = (case prov_effective_kind p of None \<Rightarrow> prov_kind p | Some k \<Rightarrow> k);
          category = (case prov_effective_category p of None \<Rightarrow> prov_category p | Some c \<Rightarrow> c) in
      (kind = ''b'' \<or> kind = ''e'') \<and> category \<noteq> ''A'')"

definition capabilities_provider ::
  "data_type \<Rightarrow> string \<Rightarrow> provider_type_facts \<Rightarrow> string set \<Rightarrow> type_capabilities" where
  "capabilities_provider t readable_type provider operations =
     (let c = capabilities_builtin t;
          c = (if t = DtUnknown \<and> supports_text_cast provider then
                 (let text = capabilities_builtin DtText in
                  c\<lparr>cap_name := cap_name text, cap_aliases := cap_aliases text,
                    cap_description := readable_type, cap_wire := WireTextCast,
                    cap_literals := cap_literals text, cap_defaults := cap_defaults text\<rparr>)
               else c) in
      apply_provider_comparisons c provider operations)"

definition capabilities_domain ::
  "type_capabilities \<Rightarrow> string \<Rightarrow> provider_type_facts option \<Rightarrow> string set \<Rightarrow> type_capabilities" where
  "capabilities_domain base readable_type provider operations =
     (let c = base\<lparr>cap_description := readable_type\<rparr> in
      case provider of
        None \<Rightarrow> c
      | Some p \<Rightarrow>
          (let n = apply_provider_comparisons c p operations in
           n\<lparr>cap_operators := filter (\<lambda>op. op \<in> set (cap_operators c)) (cap_operators n),
             cap_orderable := cap_orderable n \<and> cap_orderable c\<rparr>))"

definition capabilities_array ::
  "string \<Rightarrow> provider_type_facts option \<Rightarrow> string set \<Rightarrow> type_capabilities" where
  "capabilities_array readable_type provider operations =
     (let c = (capabilities_builtin DtUnknown)\<lparr>cap_description := readable_type\<rparr> in
      case provider of None \<Rightarrow> c | Some p \<Rightarrow> apply_provider_comparisons c p operations)"

definition inherit_mapped_domain :: "type_capabilities \<Rightarrow> type_capabilities \<Rightarrow> type_capabilities" where
  "inherit_mapped_domain c base =
     c\<lparr>cap_name := cap_name base, cap_aliases := cap_aliases base, cap_wire := cap_wire base,
       cap_literals := cap_literals base, cap_defaults := cap_defaults base,
       cap_aggregates := cap_aggregates base,
       cap_operators := filter (\<lambda>op. op \<in> set (cap_operators base)) (cap_operators c),
       cap_orderable := cap_orderable c \<and> cap_orderable base\<rparr>"

definition apply_mapping ::
  "type_capabilities \<Rightarrow> string \<Rightarrow> literal_kind \<Rightarrow> string option \<Rightarrow> comparison_op list option
   \<Rightarrow> bool option \<Rightarrow> type_capabilities" where
  "apply_mapping c name literal pattern operators orderable =
     (let c = c\<lparr>cap_name := name, cap_aliases := [name],
                cap_literals := narrow (cap_literals c) name literal pattern,
                cap_defaults := narrow (cap_defaults c) name literal pattern\<rparr>;
          c = (case operators of None \<Rightarrow> c | Some ops \<Rightarrow> c\<lparr>cap_operators := ops\<rparr>) in
      if orderable = Some False then c\<lparr>cap_orderable := False\<rparr> else c)"

definition logical_data_type :: "catalog_type \<Rightarrow> data_type" where
  "logical_data_type t =
     (if cap_wire (ty_capabilities t) = WireTextCast then DtText else ty_data_type t)"

definition catalog_type_builtin :: "type_id \<Rightarrow> type_key \<Rightarrow> data_type \<Rightarrow> catalog_type" where
  "catalog_type_builtin i key t =
     \<lparr>ty_id = i, ty_key = key, ty_data_type = t, ty_shape = ShapeScalar, ty_enumeration = None,
      ty_readable_type = tyk_name key, ty_provider = None,
      ty_capabilities = capabilities_builtin t\<rparr>"

end
