(* ===== verification/Type_Graph.thy ===== *)
theory Type_Graph
  imports Capabilities
begin

text \<open>
  The structural graph of provider types and the loops that walk it:
  \<open>Catalog::value_shape_for_type\<close>, \<open>value_shape_for_column\<close> and \<open>enum_type_for_type\<close> of
  \<open>crates/dsql-core/src/catalog/types.rs\<close>.

  The loops follow domain and array edges until they meet a scalar or an enum. Nothing in
  them bounds the walk, so they are \<open>partial_function (option)\<close>: \<open>None\<close> is a loop that
  does not return, \<open>Some None\<close> the \<open>None\<close> the code returns on a dangling type identity.
  The lemmas show that they return on every acyclic, closed type arena, and that a cyclic
  one makes them run for ever.
\<close>

section \<open>The loops\<close>

partial_function (option) element_shape_loop ::
  "catalog_type list \<Rightarrow> catalog_type \<Rightarrow> catalog_type \<Rightarrow> catalog_value_shape option option" where
  "element_shape_loop types element public_element =
     (case ty_shape element of
        ShapeScalar \<Rightarrow> Some (Some (ValueDatabaseArray public_element))
      | ShapeEnum \<Rightarrow> Some (Some (ValueDatabaseArray public_element))
      | ShapeDomain base \<Rightarrow>
          (case get_at types base of
             None \<Rightarrow> Some None
           | Some next \<Rightarrow> element_shape_loop types next public_element)
      | ShapeArray nested \<Rightarrow>
          (case get_at types nested of
             None \<Rightarrow> Some None
           | Some next \<Rightarrow> element_shape_loop types next next))"

partial_function (option) declared_shape_loop ::
  "catalog_type list \<Rightarrow> catalog_type \<Rightarrow> catalog_type \<Rightarrow> catalog_value_shape option option" where
  "declared_shape_loop types declared current =
     (case ty_shape current of
        ShapeScalar \<Rightarrow> Some (Some (ValueScalar declared))
      | ShapeEnum \<Rightarrow> Some (Some (ValueScalar declared))
      | ShapeDomain base \<Rightarrow>
          (case get_at types base of
             None \<Rightarrow> Some None
           | Some next \<Rightarrow> declared_shape_loop types declared next)
      | ShapeArray element \<Rightarrow>
          (case get_at types element of
             None \<Rightarrow> Some None
           | Some next \<Rightarrow> element_shape_loop types next next))"

definition value_shape_for_type :: "catalog \<Rightarrow> type_id \<Rightarrow> catalog_value_shape option option" where
  "value_shape_for_type c i =
     (case get_at (cat_types c) i of
        None \<Rightarrow> Some None
      | Some declared \<Rightarrow> declared_shape_loop (cat_types c) declared declared)"

definition value_shape_for_column :: "catalog \<Rightarrow> column_id \<Rightarrow> catalog_value_shape option option" where
  "value_shape_for_column c i =
     (case get_at (cat_columns c) i of
        None \<Rightarrow> Some None
      | Some col \<Rightarrow> value_shape_for_type c (col_type_id col))"

partial_function (option) enum_type_loop ::
  "catalog_type list \<Rightarrow> catalog_type \<Rightarrow> (catalog_type \<times> catalog_enum) option option" where
  "enum_type_loop types data_type =
     (case ty_shape data_type of
        ShapeDomain base \<Rightarrow>
          (case get_at types base of
             None \<Rightarrow> Some None
           | Some next \<Rightarrow> enum_type_loop types next)
      | ShapeEnum \<Rightarrow> Some (map_option (\<lambda>e. (data_type, e)) (ty_enumeration data_type))
      | ShapeScalar \<Rightarrow> Some None
      | ShapeArray _ \<Rightarrow> Some None)"

definition enum_type_for_type ::
  "catalog \<Rightarrow> type_id \<Rightarrow> (catalog_type \<times> catalog_enum) option option" where
  "enum_type_for_type c i =
     (case get_at (cat_types c) i of
        None \<Rightarrow> Some None
      | Some data_type \<Rightarrow> enum_type_loop (cat_types c) data_type)"

section \<open>Acyclic closed type arenas\<close>

text \<open>
  \<open>edge\<close> is the one structural dependency of a type. An arena is ranked by \<open>rank\<close> when
  every edge stays inside the arena and goes to a smaller rank.
\<close>

fun shape_edge :: "catalog_type_shape \<Rightarrow> type_id option" where
  "shape_edge ShapeScalar = None"
| "shape_edge ShapeEnum = None"
| "shape_edge (ShapeDomain b) = Some b"
| "shape_edge (ShapeArray e) = Some e"

definition ranked_types :: "(nat \<Rightarrow> nat) \<Rightarrow> catalog_type list \<Rightarrow> bool" where
  "ranked_types rank types \<longleftrightarrow>
     (\<forall>i < length types. \<forall>b. shape_edge (ty_shape (types ! i)) = Some b \<longrightarrow>
        b < length types \<and> rank b < rank i)"

definition types_acyclic :: "catalog_type list \<Rightarrow> bool" where
  "types_acyclic types \<longleftrightarrow> (\<exists>rank. ranked_types rank types)"

lemma ranked_typesD:
  "ranked_types rank types \<Longrightarrow> i < length types \<Longrightarrow> shape_edge (ty_shape (types ! i)) = Some b \<Longrightarrow>
     b < length types \<and> rank b < rank i"
  by (auto simp: ranked_types_def)

text \<open>
  The specification: the innermost value of a type, following the edges. \<open>array_reached\<close>
  records whether an array edge has been taken; the public element is the target of the
  last array edge.
\<close>

inductive shape_spec ::
  "catalog_type list \<Rightarrow> type_id option \<Rightarrow> type_id \<Rightarrow> type_id option \<Rightarrow> bool"
  for types :: "catalog_type list" where
  leaf: "i < length types \<Longrightarrow> shape_edge (ty_shape (types ! i)) = None \<Longrightarrow>
           shape_spec types public i public"
| domain: "i < length types \<Longrightarrow> ty_shape (types ! i) = ShapeDomain b \<Longrightarrow>
           shape_spec types public b r \<Longrightarrow> shape_spec types public i r"
| array: "i < length types \<Longrightarrow> ty_shape (types ! i) = ShapeArray e \<Longrightarrow>
           shape_spec types (Some e) e r \<Longrightarrow> shape_spec types public i r"

inductive_cases shape_spec_cases: "shape_spec types public i r"

lemma shape_spec_dom: "shape_spec types public i r \<Longrightarrow> i < length types"
  by (induction rule: shape_spec.induct) auto

lemma shape_spec_deterministic:
  "shape_spec types public i r \<Longrightarrow> shape_spec types public i r' \<Longrightarrow> r = r'"
proof (induction arbitrary: r' rule: shape_spec.induct)
  case (leaf i public)
  show ?case using leaf.prems leaf.hyps by cases auto
next
  case (domain i b public r)
  from domain.prems show ?case
  proof cases
    case (domain b')
    with domain.hyps have "shape_spec types public b r'" by simp
    then show ?thesis by (rule domain.IH)
  qed (use domain.hyps in auto)
next
  case (array i e r public)
  from array.prems show ?case
  proof cases
    case (array e')
    with array.hyps have "shape_spec types (Some e) e r'" by simp
    then show ?thesis by (rule array.IH)
  qed (use array.hyps in auto)
qed

lemma shape_spec_total:
  assumes "ranked_types rank types"
  shows "i < length types \<Longrightarrow> \<exists>r. shape_spec types public i r"
proof (induction "rank i" arbitrary: i public rule: less_induct)
  case less
  show ?case
  proof (cases "ty_shape (types ! i)")
    case ShapeScalar
    with less.prems show ?thesis by (intro exI[of _ public] shape_spec.leaf) auto
  next
    case ShapeEnum
    with less.prems show ?thesis by (intro exI[of _ public] shape_spec.leaf) auto
  next
    case (ShapeDomain b)
    with ranked_typesD[OF assms less.prems] have "b < length types" "rank b < rank i" by auto
    with less.hyps ShapeDomain less.prems show ?thesis by (meson shape_spec.domain)
  next
    case (ShapeArray e)
    with ranked_typesD[OF assms less.prems] have "e < length types" "rank e < rank i" by auto
    with less.hyps ShapeArray less.prems show ?thesis by (meson shape_spec.array)
  qed
qed

lemma shape_spec_range:
  "shape_spec types public i r \<Longrightarrow> pred_option (\<lambda>p. p < length types) public \<Longrightarrow>
     pred_option (\<lambda>p. p < length types) r"
  by (induction rule: shape_spec.induct) (simp_all add: shape_spec_dom)

lemma element_shape_loop_spec:
  "shape_spec types public i r \<Longrightarrow> public = Some p \<Longrightarrow>
     element_shape_loop types (types ! i) (types ! p) = Some (Some (ValueDatabaseArray (types ! the r)))"
proof (induction arbitrary: p rule: shape_spec.induct)
  case (leaf i public)
  then show ?case
    by (subst element_shape_loop.simps) (auto split: catalog_type_shape.splits)
next
  case (domain i b public r)
  then have "b < length types" by (auto dest: shape_spec_dom)
  with domain show ?case
    by (subst element_shape_loop.simps) (simp add: get_at_def)
next
  case (array i e r public)
  then have "e < length types" by (auto dest: shape_spec_dom)
  with array show ?case
    by (subst element_shape_loop.simps) (simp add: get_at_def)
qed

lemma declared_shape_loop_spec:
  "shape_spec types public i r \<Longrightarrow> public = None \<Longrightarrow>
     declared_shape_loop types declared (types ! i) =
       Some (Some (case r of None \<Rightarrow> ValueScalar declared | Some p \<Rightarrow> ValueDatabaseArray (types ! p)))"
proof (induction rule: shape_spec.induct)
  case (leaf i public)
  then show ?case
    by (subst declared_shape_loop.simps) (auto split: catalog_type_shape.splits)
next
  case (domain i b public r)
  then have "b < length types" by (auto dest: shape_spec_dom)
  with domain show ?case
    by (subst declared_shape_loop.simps) (simp add: get_at_def)
next
  case (array i e r public)
  then have e: "e < length types" by (auto dest: shape_spec_dom)
  have "\<exists>q. r = Some q"
    using array.hyps(3) by (induction "Some e" e r arbitrary: e rule: shape_spec.induct) auto
  then obtain q where q: "r = Some q" ..
  have "element_shape_loop types (types ! e) (types ! e) = Some (Some (ValueDatabaseArray (types ! q)))"
    using element_shape_loop_spec[OF array.hyps(3) refl] q by simp
  with array.hyps(2) e q show ?case
    by (subst declared_shape_loop.simps) (simp add: get_at_def)
qed

section \<open>The loops meet their specification\<close>

lemma value_shape_for_type_spec:
  assumes "shape_spec (cat_types c) None i r"
  shows "value_shape_for_type c i =
    Some (Some (case r of None \<Rightarrow> ValueScalar (cat_types c ! i)
                | Some p \<Rightarrow> ValueDatabaseArray (cat_types c ! p)))"
  using assms shape_spec_dom[OF assms]
  by (simp add: value_shape_for_type_def get_at_def declared_shape_loop_spec)

lemma value_shape_returns:
  assumes "types_acyclic (cat_types c)" and "i < length (cat_types c)"
  shows "\<exists>v. value_shape_for_type c i = Some (Some v)"
proof -
  from assms(1) obtain rank where "ranked_types rank (cat_types c)"
    by (auto simp: types_acyclic_def)
  from shape_spec_total[OF this assms(2)] obtain r where "shape_spec (cat_types c) None i r" ..
  from value_shape_for_type_spec[OF this] show ?thesis by blast
qed

text \<open>A set of types that is closed under domain edges traps the walk.\<close>

definition domain_trap :: "catalog_type list \<Rightarrow> nat set \<Rightarrow> bool" where
  "domain_trap types S \<longleftrightarrow>
     (\<forall>i \<in> S. i < length types \<and> (\<exists>b \<in> S. ty_shape (types ! i) = ShapeDomain b))"

lemma declared_shape_loop_trapped:
  assumes trap: "domain_trap types S"
    and "declared_shape_loop types declared current = Some r"
  shows "\<forall>i \<in> S. current \<noteq> types ! i"
proof (rule declared_shape_loop.raw_induct
    [where P = "\<lambda>ts d cur r. ts = types \<longrightarrow> (\<forall>i \<in> S. cur \<noteq> types ! i)", OF _ assms(2), THEN mp, OF _ refl])
  fix f :: "catalog_type list \<Rightarrow> catalog_type \<Rightarrow> catalog_type \<Rightarrow> catalog_value_shape option option"
    and ts and d cur :: catalog_type and r
  assume IH: "\<And>ts d cur r. f ts d cur = Some r \<Longrightarrow> ts = types \<longrightarrow> (\<forall>i \<in> S. cur \<noteq> types ! i)"
    and eq: "(case ty_shape cur of
        ShapeScalar \<Rightarrow> Some (Some (ValueScalar d))
      | ShapeDomain base \<Rightarrow>
          (case get_at ts base of None \<Rightarrow> Some None | Some next \<Rightarrow> f ts d next)
      | ShapeArray element \<Rightarrow>
          (case get_at ts element of None \<Rightarrow> Some None
           | Some next \<Rightarrow> element_shape_loop ts next next)
      | ShapeEnum \<Rightarrow> Some (Some (ValueScalar d))) = Some r"
  show "ts = types \<longrightarrow> (\<forall>i \<in> S. cur \<noteq> types ! i)"
  proof (intro impI ballI notI)
    fix i
    assume ts: "ts = types" and i: "i \<in> S" and cur: "cur = types ! i"
    from trap i obtain b where b: "b \<in> S" "ty_shape (types ! i) = ShapeDomain b"
      by (auto simp: domain_trap_def)
    with trap have "b < length types" by (auto simp: domain_trap_def)
    with eq ts cur b have "f types d (types ! b) = Some r" by (simp add: get_at_def)
    from IH[OF this] b(1) show False by auto
  qed
qed

text \<open>
  On a type arena whose domain and array edges are closed and acyclic, the public value
  shape of every type of the arena is computed, and it is the one the edges determine: a
  scalar of the declared type where no array edge is met, otherwise a database array of the
  target of the last array edge.
\<close>

theorem value_shape_correct:
  assumes "types_acyclic (cat_types c)" and "i < length (cat_types c)"
  shows "\<exists>r. shape_spec (cat_types c) None i r \<and>
    value_shape_for_type c i =
      Some (Some (case r of None \<Rightarrow> ValueScalar (cat_types c ! i)
                  | Some p \<Rightarrow> ValueDatabaseArray (cat_types c ! p)))"
proof -
  from assms(1) obtain rank where "ranked_types rank (cat_types c)"
    by (auto simp: types_acyclic_def)
  from shape_spec_total[OF this assms(2)] obtain r where r: "shape_spec (cat_types c) None i r" ..
  show ?thesis by (intro exI conjI, rule r, rule value_shape_for_type_spec[OF r])
qed

text \<open>
  The acyclicity is needed. A type that belongs to a set closed under domain edges makes
  \<open>value_shape_for_type\<close> run for ever.
\<close>

theorem value_shape_diverges_on_cycle:
  assumes "domain_trap (cat_types c) S" and "i \<in> S"
  shows "value_shape_for_type c i = None"
proof (rule ccontr)
  assume "value_shape_for_type c i \<noteq> None"
  moreover have "i < length (cat_types c)" using assms by (auto simp: domain_trap_def)
  ultimately obtain r where
    "declared_shape_loop (cat_types c) (cat_types c ! i) (cat_types c ! i) = Some r"
    by (auto simp: value_shape_for_type_def get_at_def)
  from declared_shape_loop_trapped[OF assms(1) this] assms(2) show False by auto
qed

section \<open>Witnesses\<close>

definition sample_type :: "type_id \<Rightarrow> string \<Rightarrow> catalog_type_shape \<Rightarrow> catalog_type" where
  "sample_type i name shape =
     (catalog_type_builtin i (TypeKey ''public'' name) DtUnknown)\<lparr>ty_shape := shape\<rparr>"

definition sample_type_catalog :: catalog where
  "sample_type_catalog =
     catalog_empty\<lparr>cat_types :=
       [sample_type 0 ''text'' ShapeScalar, sample_type 1 ''label'' (ShapeDomain 0),
        sample_type 2 ''_label'' (ShapeArray 1), sample_type 3 ''labels'' (ShapeDomain 2)]\<rparr>"

definition cyclic_type_catalog :: catalog where
  "cyclic_type_catalog =
     catalog_empty\<lparr>cat_types :=
       [sample_type 0 ''a'' (ShapeDomain 1), sample_type 1 ''b'' (ShapeDomain 0)]\<rparr>"

lemma sample_types_acyclic: "types_acyclic (cat_types sample_type_catalog)"
  unfolding types_acyclic_def
  by (rule exI[of _ "\<lambda>i. i"])
     (auto simp: ranked_types_def sample_type_catalog_def sample_type_def less_Suc_eq_0_disj
        numeral_eq_Suc)

theorem value_shape_correct_witness:
  "\<exists>r. shape_spec (cat_types sample_type_catalog) None 3 r \<and>
    value_shape_for_type sample_type_catalog 3 =
      Some (Some (case r of None \<Rightarrow> ValueScalar (cat_types sample_type_catalog ! 3)
                  | Some p \<Rightarrow> ValueDatabaseArray (cat_types sample_type_catalog ! p)))"
  by (rule value_shape_correct[OF sample_types_acyclic]) (simp add: sample_type_catalog_def)

theorem value_shape_diverges_on_cycle_witness:
  "value_shape_for_type cyclic_type_catalog 0 = None"
  by (rule value_shape_diverges_on_cycle[of _ "{0, 1}"])
     (auto simp: domain_trap_def cyclic_type_catalog_def sample_type_def)

end
