(* ===== verification/Metadata_Types.thy ===== *)
theory Metadata_Types
  imports Type_Graph
begin

text \<open>
  Decoded provider metadata and the resolution of its type definitions
  (\<open>crates/dsql-core/src/catalog/metadata.rs\<close>): the metadata records, the build errors,
  the depth-first \<open>resolve_catalog_type\<close> with its pending/resolving/resolved states, and
  \<open>build_catalog_types\<close>.

  Error messages that embed a value with Rust's \<open>Debug\<close> formatting keep the prefix and the
  value apart (\<open>MsgDebug\<close>). Slice and hash-map indexing that would panic is \<open>Panic\<close>.
\<close>

section \<open>Metadata records\<close>

datatype type_structure_kind = StructScalar | StructDomain | StructArray | StructEnum

fun type_structure_kind_as_ref :: "type_structure_kind \<Rightarrow> string" where
  "type_structure_kind_as_ref StructScalar = ''scalar''"
| "type_structure_kind_as_ref StructDomain = ''domain''"
| "type_structure_kind_as_ref StructArray = ''array''"
| "type_structure_kind_as_ref StructEnum = ''enum''"

record enum_variant_metadata =
  evm_variant :: string
  evm_database_value :: string
  evm_label :: "string option"
  evm_description :: "string option"

record enum_type_metadata =
  etm_description :: "string option"
  etm_variants :: "enum_variant_metadata list"

record type_structure_metadata =
  tsm_kind :: type_structure_kind
  tsm_related_type :: "type_key option"
  tsm_enumeration :: "enum_type_metadata option"

record type_metadata =
  tym_internal_type :: string
  tym_readable_type :: string
  tym_schema :: string
  tym_structure :: type_structure_metadata
  tym_provider :: "provider_type_facts option"
  tym_operations :: "string set"

definition structure_scalar :: type_structure_metadata where
  "structure_scalar = \<lparr>tsm_kind = StructScalar, tsm_related_type = None, tsm_enumeration = None\<rparr>"

definition structure_domain :: "type_key \<Rightarrow> type_structure_metadata" where
  "structure_domain base =
     \<lparr>tsm_kind = StructDomain, tsm_related_type = Some base, tsm_enumeration = None\<rparr>"

definition structure_array :: "type_key \<Rightarrow> type_structure_metadata" where
  "structure_array element =
     \<lparr>tsm_kind = StructArray, tsm_related_type = Some element, tsm_enumeration = None\<rparr>"

definition structure_enumeration :: "enum_type_metadata \<Rightarrow> type_structure_metadata" where
  "structure_enumeration e =
     \<lparr>tsm_kind = StructEnum, tsm_related_type = None, tsm_enumeration = Some e\<rparr>"

record column_metadata =
  cm_name :: string
  cm_description :: "string option"
  cm_provider_type :: type_key
  cm_formatted_type :: "string option"
  cm_type_modifier :: "int option"
  cm_database_type :: string
  cm_data_type :: data_type
  cm_not_null :: bool

datatype table_constraint_kind = PrimaryKeyConstraint | UniqueConstraint

fun table_constraint_kind_as_ref :: "table_constraint_kind \<Rightarrow> string" where
  "table_constraint_kind_as_ref PrimaryKeyConstraint = ''primary_key''"
| "table_constraint_kind_as_ref UniqueConstraint = ''unique''"

record table_constraint_metadata =
  tcm_name :: "string option"
  tcm_kind :: table_constraint_kind
  tcm_columns :: "string list"

record foreign_key_metadata =
  fkm_name :: "string option"
  fkm_columns :: "string list"
  fkm_ref_schema :: string
  fkm_ref_table :: string
  fkm_ref_columns :: "string list"

record index_key_metadata =
  ikm_column :: string
  ikm_operator_class :: "string option"
  ikm_capabilities :: "index_key_capability list"
  ikm_order :: "index_order option"

record index_metadata =
  ixm_name :: "string option"
  ixm_access_method :: string
  ixm_keys :: "index_key_metadata list"
  ixm_included_columns :: "string list"
  ixm_unique :: bool

record table_metadata =
  tm_schema :: string
  tm_name :: string
  tm_object_type :: object_type
  tm_description :: "string option"
  tm_columns :: "column_metadata list"
  tm_constraints :: "table_constraint_metadata list"
  tm_foreign_keys :: "foreign_key_metadata list"
  tm_indexes :: "index_metadata list"

record schema_metadata =
  sm_name :: string
  sm_tables :: "table_metadata list"

record database_metadata =
  dm_schemas :: "schema_metadata list"
  dm_types :: "type_metadata list"

definition type_metadata_key :: "type_metadata \<Rightarrow> type_key" where
  "type_metadata_key t = TypeKey (tym_schema t) (tym_internal_type t)"

definition effective_table_schema :: "schema_metadata \<Rightarrow> table_metadata \<Rightarrow> string" where
  "effective_table_schema s t = (if tm_schema t = [] then sm_name s else tm_schema t)"

section \<open>Build errors\<close>

datatype message = Msg string | MsgDebug string string

datatype catalog_build_error =
    DuplicateSchema string
  | DuplicateTable string string
  | DuplicateColumn string string string
  | DuplicateType type_key
  | InvalidTypeStructure type_key message
  | MissingRelatedType type_key string type_key
  | CyclicTypeStructure type_key
  | StaleNativeEnum type_key
  | MissingType string string string type_key
  | TypeMismatch string string string type_key string string
  | ConflictingFixtureType type_key string string
  | MissingColumn string string string
  | EmptyColumnSet string string string
  | ForeignKeyColumnCountMismatch string string string nat nat
  | MissingForeignKeyTarget string string string

type_synonym 'a build = "catalog_build_error fault + 'a"

abbreviation fail :: "catalog_build_error \<Rightarrow> 'a build" where
  "fail e \<equiv> Inl (Err e)"

section \<open>Resolving one type definition\<close>

datatype type_resolution_state = Pending | Resolving | Resolved

type_synonym resolution = "type_resolution_state list \<times> catalog_type option list"

definition native_enum_provider :: "type_metadata \<Rightarrow> provider_type_facts option" where
  "native_enum_provider d =
     (case tym_provider d of
        Some p \<Rightarrow> if prov_kind p = ''e'' then Some p else None
      | None \<Rightarrow> None)"

definition resolve_scalar :: "nat \<Rightarrow> type_metadata \<Rightarrow> catalog_type build" where
  "resolve_scalar index d =
     (let key = type_metadata_key d in
      if tsm_related_type (tym_structure d) \<noteq> None then
        fail (InvalidTypeStructure key (Msg ''a scalar type cannot reference a related type''))
      else if tsm_enumeration (tym_structure d) \<noteq> None then
        fail (InvalidTypeStructure key (Msg ''a scalar type cannot carry enum metadata''))
      else
        let data_type = data_type_from_database_name (tym_internal_type d) in
        Inr \<lparr>ty_id = index, ty_key = key, ty_data_type = data_type, ty_shape = ShapeScalar,
             ty_enumeration = None, ty_readable_type = tym_readable_type d,
             ty_provider = tym_provider d,
             ty_capabilities =
               (case tym_provider d of
                  None \<Rightarrow> capabilities_builtin data_type
                | Some p \<Rightarrow> capabilities_provider data_type (tym_readable_type d) p
                              (tym_operations d))\<rparr>)"

text \<open>The loop over the enum variants, with the two sets of values already seen.\<close>

definition check_enum_variant ::
  "type_key \<Rightarrow> string set \<times> string set \<Rightarrow> enum_variant_metadata \<Rightarrow> (string set \<times> string set) build" where
  "check_enum_variant key seen v =
     (let (variants, database_values) = seen in
      if evm_variant v \<in> variants then
        fail (InvalidTypeStructure key (MsgDebug ''duplicate enum variant '' (evm_variant v)))
      else if evm_database_value v \<in> database_values then
        fail (InvalidTypeStructure key
          (MsgDebug ''duplicate enum database value '' (evm_database_value v)))
      else if evm_variant v \<noteq> evm_database_value v then
        fail (InvalidTypeStructure key
          (Msg ''native enum variants must equal their database values''))
      else Inr (insert (evm_variant v) variants, insert (evm_database_value v) database_values))"

definition catalog_enum_of :: "enum_type_metadata \<Rightarrow> catalog_enum" where
  "catalog_enum_of e =
     \<lparr>enum_description = etm_description e,
      enum_variants = map (\<lambda>v. \<lparr>ev_variant = evm_variant v, ev_database_value = evm_database_value v,
        ev_label = evm_label v, ev_description = evm_description v\<rparr>) (etm_variants e)\<rparr>"

definition resolve_enum :: "nat \<Rightarrow> type_metadata \<Rightarrow> catalog_type build" where
  "resolve_enum index d =
     (let key = type_metadata_key d in
      if tsm_related_type (tym_structure d) \<noteq> None then
        fail (InvalidTypeStructure key (Msg ''an enum type cannot reference a related type''))
      else case native_enum_provider d of
        None \<Rightarrow> fail (InvalidTypeStructure key
                  (Msg ''only provider-declared native enums are supported''))
      | Some provider \<Rightarrow>
          (case tsm_enumeration (tym_structure d) of
             None \<Rightarrow> fail (InvalidTypeStructure key (Msg ''a native enum requires enum metadata''))
           | Some e \<Rightarrow>
               if etm_variants e = [] then
                 fail (InvalidTypeStructure key
                   (Msg ''native enum types require at least one variant''))
               else
                 rbind (rfold (check_enum_variant key) ({}, {}) (etm_variants e)) (\<lambda>_.
                 Inr \<lparr>ty_id = index, ty_key = key, ty_data_type = DtUnknown, ty_shape = ShapeEnum,
                      ty_enumeration = Some (catalog_enum_of e),
                      ty_readable_type = tym_readable_type d, ty_provider = tym_provider d,
                      ty_capabilities = capabilities_provider DtUnknown (tym_readable_type d)
                        provider (tym_operations d)\<rparr>)))"

definition related_type_id ::
  "type_metadata \<Rightarrow> (type_key \<rightharpoonup> type_id) \<Rightarrow> string \<Rightarrow> type_id build" where
  "related_type_id d type_ids relation =
     (let key = type_metadata_key d in
      case tsm_related_type (tym_structure d) of
        None \<Rightarrow> fail (InvalidTypeStructure key
          (Msg (''a '' @ type_structure_kind_as_ref (tsm_kind (tym_structure d))
                @ '' type requires a related type'')))
      | Some related \<Rightarrow>
          (case type_ids related of
             None \<Rightarrow> fail (MissingRelatedType key relation related)
           | Some i \<Rightarrow> Inr i))"

definition domain_type :: "nat \<Rightarrow> type_metadata \<Rightarrow> type_id \<Rightarrow> catalog_type \<Rightarrow> catalog_type" where
  "domain_type index d base base_type =
     \<lparr>ty_id = index, ty_key = type_metadata_key d, ty_data_type = ty_data_type base_type,
      ty_shape = ShapeDomain base, ty_enumeration = None,
      ty_readable_type = tym_readable_type d, ty_provider = tym_provider d,
      ty_capabilities = capabilities_domain (ty_capabilities base_type) (tym_readable_type d)
        (tym_provider d) (tym_operations d)\<rparr>"

definition array_type :: "nat \<Rightarrow> type_metadata \<Rightarrow> type_id \<Rightarrow> catalog_type" where
  "array_type index d element =
     \<lparr>ty_id = index, ty_key = type_metadata_key d, ty_data_type = DtUnknown,
      ty_shape = ShapeArray element, ty_enumeration = None,
      ty_readable_type = tym_readable_type d, ty_provider = tym_provider d,
      ty_capabilities = capabilities_array (tym_readable_type d) (tym_provider d)
        (tym_operations d)\<rparr>"

text \<open>The final two assignments of \<open>resolve_catalog_type\<close>.\<close>

definition store_resolved :: "nat \<Rightarrow> resolution \<Rightarrow> catalog_type \<Rightarrow> resolution build" where
  "store_resolved index st t =
     (let (states, resolved) = st in
      if index < length resolved \<and> index < length states then
        Inr (states[index := Resolved], resolved[index := Some t])
      else Inl Panic)"

definition pending_count :: "type_resolution_state list \<Rightarrow> nat" where
  "pending_count states = length (filter (\<lambda>s. s = Pending) states)"

lemma pending_count_update:
  assumes "index < length states" and "states ! index = Pending" and "s \<noteq> Pending"
  shows "pending_count (states[index := s]) < pending_count states"
proof -
  have eq: "states = take index states @ Pending # drop (Suc index) states"
    using assms by (metis id_take_nth_drop)
  have "states[index := s] = take index states @ s # drop (Suc index) states"
    using assms(1) by (simp add: upd_conv_take_nth_drop)
  then show ?thesis
    using assms(3) by (subst (2) eq) (simp add: pending_count_def)
qed

function resolve_catalog_type ::
  "nat \<Rightarrow> type_metadata list \<Rightarrow> (type_key \<rightharpoonup> type_id) \<Rightarrow> resolution \<Rightarrow> resolution build" where
  "resolve_catalog_type index metadata type_ids (states, resolved) =
     (if length metadata \<le> index \<or> length states \<le> index then Inl Panic
      else
        let d = metadata ! index; key = type_metadata_key d in
        case states ! index of
          Resolved \<Rightarrow> Inr (states, resolved)
        | Resolving \<Rightarrow> fail (CyclicTypeStructure key)
        | Pending \<Rightarrow>
            let states = states[index := Resolving] in
            if native_enum_provider d \<noteq> None \<and> tsm_kind (tym_structure d) \<noteq> StructEnum then
              fail (StaleNativeEnum key)
            else case tsm_kind (tym_structure d) of
              StructScalar \<Rightarrow> rbind (resolve_scalar index d) (store_resolved index (states, resolved))
            | StructDomain \<Rightarrow>
                if tsm_enumeration (tym_structure d) \<noteq> None then
                  fail (InvalidTypeStructure key (Msg ''a domain type cannot carry enum metadata''))
                else
                  rbind (related_type_id d type_ids ''base'') (\<lambda>base.
                  rbind (resolve_catalog_type base metadata type_ids (states, resolved)) (\<lambda>(states, resolved).
                  rbind (index_at resolved base) (\<lambda>base_type.
                  case base_type of
                    None \<Rightarrow> fail (InvalidTypeStructure key (Msg ''base type did not resolve''))
                  | Some t \<Rightarrow> store_resolved index (states, resolved) (domain_type index d base t))))
            | StructArray \<Rightarrow>
                if tsm_enumeration (tym_structure d) \<noteq> None then
                  fail (InvalidTypeStructure key (Msg ''an array type cannot carry enum metadata''))
                else
                  rbind (related_type_id d type_ids ''element'') (\<lambda>element.
                  rbind (resolve_catalog_type element metadata type_ids (states, resolved)) (\<lambda>st.
                  store_resolved index st (array_type index d element)))
            | StructEnum \<Rightarrow> rbind (resolve_enum index d) (store_resolved index (states, resolved)))"
  by pat_completeness auto
termination
  by (relation "measure (\<lambda>(index, metadata, type_ids, states, resolved). pending_count states)")
     (auto intro: pending_count_update)

declare resolve_catalog_type.simps [simp del]

section \<open>Resolving all types\<close>

text \<open>The first pass over non-empty type metadata: identities in order, duplicates refused.\<close>

fun assign_type_ids :: "nat \<Rightarrow> (type_key \<rightharpoonup> type_id) \<Rightarrow> type_metadata list \<Rightarrow> (type_key \<rightharpoonup> type_id) build" where
  "assign_type_ids next ids [] = Inr ids"
| "assign_type_ids next ids (t # ts) =
     (let key = type_metadata_key t in
      if ids key \<noteq> None then fail (DuplicateType key)
      else assign_type_ids (Suc next) (ids(key \<mapsto> next)) ts)"

definition all_columns :: "database_metadata \<Rightarrow> (schema_metadata \<times> table_metadata \<times> column_metadata) list" where
  "all_columns m =
     concat (map (\<lambda>s. concat (map (\<lambda>t. map (\<lambda>c. (s, t, c)) (tm_columns t)) (sm_tables s))) (dm_schemas m))"

text \<open>Fixtures without type metadata: one built-in type per distinct provider type.\<close>

definition add_fixture_type ::
  "catalog_type list \<times> (type_key \<rightharpoonup> type_id) \<Rightarrow> schema_metadata \<times> table_metadata \<times> column_metadata
   \<Rightarrow> (catalog_type list \<times> (type_key \<rightharpoonup> type_id)) build" where
  "add_fixture_type st entry =
     (let (types, ids) = st; (_, _, c) = entry in
      case ids (cm_provider_type c) of
        Some i \<Rightarrow>
          rbind (index_at types i) (\<lambda>existing.
          if ty_data_type existing \<noteq> cm_data_type c then
            fail (ConflictingFixtureType (cm_provider_type c)
              (data_type_name (ty_data_type existing)) (data_type_name (cm_data_type c)))
          else Inr (types, ids))
      | None \<Rightarrow>
          Inr (types @ [catalog_type_builtin (length types) (cm_provider_type c) (cm_data_type c)],
               ids(cm_provider_type c \<mapsto> length types)))"

definition check_column_type ::
  "catalog_type list \<Rightarrow> (type_key \<rightharpoonup> type_id) \<Rightarrow> unit
   \<Rightarrow> schema_metadata \<times> table_metadata \<times> column_metadata \<Rightarrow> unit build" where
  "check_column_type types ids u entry =
     (let (s, t, c) = entry; table_schema = effective_table_schema s t in
      case ids (cm_provider_type c) of
        None \<Rightarrow> fail (MissingType table_schema (tm_name t) (cm_name c) (cm_provider_type c))
      | Some i \<Rightarrow>
          rbind (index_at types i) (\<lambda>resolved.
          if ty_data_type resolved \<noteq> cm_data_type c then
            fail (TypeMismatch table_schema (tm_name t) (cm_name c) (cm_provider_type c)
              (data_type_name (cm_data_type c)) (data_type_name (ty_data_type resolved)))
          else Inr ()))"

definition unwrap_resolved ::
  "type_metadata list \<Rightarrow> nat \<times> catalog_type option \<Rightarrow> catalog_type build" where
  "unwrap_resolved metadata entry =
     (let (i, r) = entry in
      case r of
        Some t \<Rightarrow> Inr t
      | None \<Rightarrow> rbind (index_at metadata i) (\<lambda>d.
          fail (InvalidTypeStructure (type_metadata_key d)
            (Msg ''resolution produced no catalog type''))))"

definition build_catalog_types ::
  "database_metadata \<Rightarrow> (catalog_type list \<times> (type_key \<rightharpoonup> type_id)) build" where
  "build_catalog_types m =
     (if dm_types m = [] then rfold add_fixture_type ([], Map.empty) (all_columns m)
      else
        let metadata = dm_types m; n = length metadata in
        rbind (assign_type_ids 0 Map.empty metadata) (\<lambda>ids.
        rbind (rfold (\<lambda>st index. resolve_catalog_type index metadata ids st)
                 (replicate n Pending, replicate n None) [0..<n]) (\<lambda>(states, resolved).
        rbind (collect_results (unwrap_resolved metadata) (enumerate 0 resolved)) (\<lambda>types.
        rbind (rfold (check_column_type types ids) () (all_columns m)) (\<lambda>_.
        Inr (types, ids))))))"

end
