(* ===== verification/Metadata_Types_Facts.thy ===== *)
theory Metadata_Types_Facts
  imports Metadata_Types
begin

text \<open>
  Correctness of the type resolution of \<open>Metadata_Types\<close>: a successful build gives a dense,
  closed and acyclic type arena that agrees with the metadata and with every column, it
  never panics, and a reported cycle is a cycle of the metadata.
\<close>

section \<open>What one resolved type must look like\<close>

definition type_matches :: "type_metadata list \<Rightarrow> nat \<Rightarrow> catalog_type \<Rightarrow> bool" where
  "type_matches metadata i t \<longleftrightarrow>
     ty_id t = i \<and> ty_key t = type_metadata_key (metadata ! i) \<and>
     (ty_shape t = ShapeEnum \<longrightarrow> ty_enumeration t \<noteq> None)"

definition ids_ok :: "type_metadata list \<Rightarrow> (type_key \<rightharpoonup> type_id) \<Rightarrow> bool" where
  "ids_ok metadata ids \<longleftrightarrow>
     (\<forall>k i. ids k = Some i \<longrightarrow> i < length metadata \<and> type_metadata_key (metadata ! i) = k)"

text \<open>The dependency of one definition on another, as the metadata writes it.\<close>

definition metadata_edges :: "type_metadata list \<Rightarrow> (type_key \<rightharpoonup> type_id) \<Rightarrow> (nat \<times> nat) set" where
  "metadata_edges metadata ids =
     {(i, j). i < length metadata \<and>
        tsm_kind (tym_structure (metadata ! i)) \<in> {StructDomain, StructArray} \<and>
        (\<exists>k. tsm_related_type (tym_structure (metadata ! i)) = Some k \<and> ids k = Some j)}"

lemma related_type_id_Inr:
  "related_type_id d ids r = Inr j \<longleftrightarrow> (\<exists>k. tsm_related_type (tym_structure d) = Some k \<and> ids k = Some j)"
  by (auto simp: related_type_id_def Let_def split: option.splits)

lemma related_type_id_not_panic [simp]: "related_type_id d ids r \<noteq> Inl Panic"
  by (auto simp: related_type_id_def Let_def split: option.splits)

lemma resolve_scalar_matches:
  "resolve_scalar i (metadata ! i) = Inr t \<Longrightarrow> type_matches metadata i t \<and> shape_edge (ty_shape t) = None"
  by (auto simp: resolve_scalar_def type_matches_def Let_def split: if_splits)

lemma resolve_enum_matches:
  "resolve_enum i (metadata ! i) = Inr t \<Longrightarrow> type_matches metadata i t \<and> shape_edge (ty_shape t) = None"
  by (auto simp: resolve_enum_def type_matches_def Let_def split: if_splits option.splits)

lemma domain_type_matches:
  "type_matches metadata i (domain_type i (metadata ! i) b t)"
  by (simp add: type_matches_def domain_type_def)

lemma array_type_matches:
  "type_matches metadata i (array_type i (metadata ! i) e)"
  by (simp add: type_matches_def array_type_def)

lemma resolve_scalar_not_panic [simp]: "resolve_scalar i d \<noteq> Inl Panic"
  by (auto simp: resolve_scalar_def Let_def)

lemma rfold_check_enum_error:
  "rfold (check_enum_variant key) seen vs = Inl e \<Longrightarrow> \<exists>m. e = Err (InvalidTypeStructure key m)"
  by (induction vs arbitrary: seen)
     (auto simp: rbind_Inl_iff check_enum_variant_def Let_def split: if_splits prod.splits)

lemma rfold_check_enum_not_panic [simp]:
  "rfold (check_enum_variant key) seen vs \<noteq> Inl Panic"
  "rfold (check_enum_variant key) seen vs \<noteq> fail (CyclicTypeStructure k)"
  using rfold_check_enum_error by blast+

lemma resolve_enum_not_panic [simp]: "resolve_enum i d \<noteq> Inl Panic"
  by (auto simp: resolve_enum_def Let_def rbind_Inl_iff split: option.splits)

section \<open>The invariant of the depth-first resolution\<close>

definition resolution_inv :: "type_metadata list \<Rightarrow> (nat \<Rightarrow> nat) \<Rightarrow> resolution \<Rightarrow> bool" where
  "resolution_inv metadata rank st \<longleftrightarrow>
     (let (states, resolved) = st in
      length states = length metadata \<and> length resolved = length metadata \<and>
      (\<forall>i < length metadata. states ! i = Resolved \<longrightarrow>
        (\<exists>t. resolved ! i = Some t \<and> type_matches metadata i t \<and>
          (\<forall>b. shape_edge (ty_shape t) = Some b \<longrightarrow>
             b < length metadata \<and> states ! b = Resolved \<and> rank b < rank i))))"

lemma resolution_invI:
  assumes "length states = length metadata" and "length resolved = length metadata"
    and "\<And>i. i < length metadata \<Longrightarrow> states ! i = Resolved \<Longrightarrow>
      \<exists>t. resolved ! i = Some t \<and> type_matches metadata i t \<and>
        (\<forall>b. shape_edge (ty_shape t) = Some b \<longrightarrow>
           b < length metadata \<and> states ! b = Resolved \<and> rank b < rank i)"
  shows "resolution_inv metadata rank (states, resolved)"
  using assms by (simp add: resolution_inv_def)

lemma resolution_inv_lengths:
  "resolution_inv metadata rank (states, resolved) \<Longrightarrow>
     length states = length metadata \<and> length resolved = length metadata"
  by (simp add: resolution_inv_def)

lemma resolution_invD:
  assumes "resolution_inv metadata rank (states, resolved)"
    and "i < length metadata" and "states ! i = Resolved"
  obtains t where "resolved ! i = Some t" and "type_matches metadata i t"
    and "\<And>b. shape_edge (ty_shape t) = Some b \<Longrightarrow>
           b < length metadata \<and> states ! b = Resolved \<and> rank b < rank i"
  using assms by (auto simp: resolution_inv_def)

lemma resolution_inv_start:
  assumes inv: "resolution_inv metadata rank (states, resolved)"
    and "index < length metadata" and "states ! index = Pending"
  shows "resolution_inv metadata rank (states[index := Resolving], resolved)"
proof (rule resolution_invI)
  fix i
  assume i: "i < length metadata" "states[index := Resolving] ! i = Resolved"
  with resolution_inv_lengths[OF inv] assms(2) have "i \<noteq> index" by auto
  with i have "states ! i = Resolved" by simp
  with inv i(1) obtain t where t: "resolved ! i = Some t" "type_matches metadata i t"
    and e: "\<And>b. shape_edge (ty_shape t) = Some b \<Longrightarrow>
           b < length metadata \<and> states ! b = Resolved \<and> rank b < rank i"
    by (elim resolution_invD) auto
  from e assms(3) have "\<And>b. shape_edge (ty_shape t) = Some b \<Longrightarrow>
      b < length metadata \<and> states[index := Resolving] ! b = Resolved \<and> rank b < rank i"
    by (metis nth_list_update_neq type_resolution_state.distinct(3))
  with t show "\<exists>t. resolved ! i = Some t \<and> type_matches metadata i t \<and>
        (\<forall>b. shape_edge (ty_shape t) = Some b \<longrightarrow>
           b < length metadata \<and> states[index := Resolving] ! b = Resolved \<and> rank b < rank i)"
    by blast
qed (use resolution_inv_lengths[OF inv] in simp_all)

lemma store_resolved_inv:
  assumes inv: "resolution_inv metadata rank (states, resolved)"
    and index: "index < length metadata" and unresolved: "states ! index \<noteq> Resolved"
    and t: "type_matches metadata index t"
    and edge: "\<And>b. shape_edge (ty_shape t) = Some b \<Longrightarrow> b < length metadata \<and> states ! b = Resolved"
    and store: "store_resolved index (states, resolved) t = Inr (states', resolved')"
  shows "\<exists>rank'. resolution_inv metadata rank' (states', resolved')"
    and "states' = states[index := Resolved]"
proof -
  from store have s': "states' = states[index := Resolved]"
    and r': "resolved' = resolved[index := Some t]"
    by (auto simp: store_resolved_def split: if_splits)
  show "states' = states[index := Resolved]" by (fact s')
  note len = resolution_inv_lengths[OF inv]
  define rank' where "rank' = rank(index := Suc (case shape_edge (ty_shape t) of None \<Rightarrow> 0 | Some b \<Rightarrow> rank b))"
  have "resolution_inv metadata rank' (states', resolved')"
  proof (rule resolution_invI)
    fix i
    assume i: "i < length metadata" "states' ! i = Resolved"
    show "\<exists>t. resolved' ! i = Some t \<and> type_matches metadata i t \<and>
        (\<forall>b. shape_edge (ty_shape t) = Some b \<longrightarrow>
           b < length metadata \<and> states' ! b = Resolved \<and> rank' b < rank' i)"
    proof (cases "i = index")
      case True
      have "\<forall>b. shape_edge (ty_shape t) = Some b \<longrightarrow>
           b < length metadata \<and> states' ! b = Resolved \<and> rank' b < rank' i"
        using edge unresolved len s' True by (auto simp: rank'_def nth_list_update)
      with True t r' len index show ?thesis by simp
    next
      case False
      with i s' len have "states ! i = Resolved" by simp
      with inv i(1) obtain u where u: "resolved ! i = Some u" "type_matches metadata i u"
        and e: "\<And>b. shape_edge (ty_shape u) = Some b \<Longrightarrow>
           b < length metadata \<and> states ! b = Resolved \<and> rank b < rank i"
        by (elim resolution_invD) auto
      from e unresolved False s' have "\<forall>b. shape_edge (ty_shape u) = Some b \<longrightarrow>
           b < length metadata \<and> states' ! b = Resolved \<and> rank' b < rank' i"
        by (auto simp: rank'_def nth_list_update split: if_splits)
      with u r' False show ?thesis by simp
    qed
  qed (use len s' r' in simp_all)
  then show "\<exists>rank'. resolution_inv metadata rank' (states', resolved')"
    by blast
qed

section \<open>One resolution step\<close>

text \<open>
  The shape of a successful call on a pending index: either a leaf is stored directly, or
  the related type is resolved first and the domain or array over it is stored.
\<close>

lemma resolve_step:
  assumes call: "resolve_catalog_type index metadata ids (states, resolved) = Inr st'"
    and pend: "states ! index = Pending"
  obtains (leaf) t where "type_matches metadata index t" and "shape_edge (ty_shape t) = None"
      and "store_resolved index (states[index := Resolving], resolved) t = Inr st'"
    | (nested) b states1 resolved1 t where
        "(index, b) \<in> metadata_edges metadata ids"
      and "resolve_catalog_type b metadata ids (states[index := Resolving], resolved) =
             Inr (states1, resolved1)"
      and "type_matches metadata index t" and "shape_edge (ty_shape t) = Some b"
      and "store_resolved index (states1, resolved1) t = Inr st'"
proof -
  have range: "index < length metadata" "index < length states"
    using call by (auto simp: resolve_catalog_type.simps[of index] split: if_splits)
  note unfolded = call[unfolded resolve_catalog_type.simps[of index] Let_def]
  show thesis
  proof (cases "tsm_kind (tym_structure (metadata ! index))")
    case StructScalar
    with unfolded pend obtain t where "resolve_scalar index (metadata ! index) = Inr t"
      and "store_resolved index (states[index := Resolving], resolved) t = Inr st'"
      by (auto split: if_splits)
    then show ?thesis using leaf resolve_scalar_matches by blast
  next
    case StructEnum
    with unfolded pend obtain t where "resolve_enum index (metadata ! index) = Inr t"
      and "store_resolved index (states[index := Resolving], resolved) t = Inr st'"
      by (auto split: if_splits)
    then show ?thesis using leaf resolve_enum_matches by blast
  next
    case StructDomain
    with unfolded pend obtain b states1 resolved1 bt where
      b: "related_type_id (metadata ! index) ids ''base'' = Inr b"
      and rec: "resolve_catalog_type b metadata ids (states[index := Resolving], resolved) =
             Inr (states1, resolved1)"
      and st: "store_resolved index (states1, resolved1)
             (domain_type index (metadata ! index) b bt) = Inr st'"
      by (auto split: if_splits option.splits)
    have "(index, b) \<in> metadata_edges metadata ids"
      using b StructDomain range by (auto simp: metadata_edges_def related_type_id_Inr)
    then show ?thesis
      using rec domain_type_matches _ st by (rule nested) (simp add: domain_type_def)
  next
    case StructArray
    with unfolded pend obtain b states1 resolved1 where
      b: "related_type_id (metadata ! index) ids ''element'' = Inr b"
      and rec: "resolve_catalog_type b metadata ids (states[index := Resolving], resolved) =
             Inr (states1, resolved1)"
      and st: "store_resolved index (states1, resolved1)
             (array_type index (metadata ! index) b) = Inr st'"
      by (auto split: if_splits)
    have "(index, b) \<in> metadata_edges metadata ids"
      using b StructArray range by (auto simp: metadata_edges_def related_type_id_Inr)
    then show ?thesis
      using rec array_type_matches _ st by (rule nested) (simp add: array_type_def)
  qed
qed

lemma metadata_edges_range:
  "ids_ok metadata ids \<Longrightarrow> (i, j) \<in> metadata_edges metadata ids \<Longrightarrow> j < length metadata"
  by (auto simp: metadata_edges_def ids_ok_def)

lemma pending_start:
  "index < length states \<Longrightarrow> states ! index = Pending \<Longrightarrow>
     pending_count (states[index := Resolving]) < pending_count states"
  by (rule pending_count_update) simp_all

section \<open>A successful resolution\<close>

lemma resolve_catalog_type_inv:
  assumes "resolve_catalog_type index metadata ids (states, resolved) = Inr (states', resolved')"
    and "resolution_inv metadata rank (states, resolved)"
    and "ids_ok metadata ids" and "index < length metadata"
  shows "(\<exists>rank'. resolution_inv metadata rank' (states', resolved')) \<and>
     states' ! index = Resolved \<and>
     (\<forall>j < length metadata. states ! j \<noteq> Pending \<longrightarrow> states' ! j = states ! j) \<and>
     (\<forall>j < length metadata. states' ! j = Resolving \<longrightarrow> states ! j = Resolving)"
  using assms
proof (induction "pending_count states" arbitrary: index states resolved states' resolved' rank
    rule: less_induct)
  case less
  note len = resolution_inv_lengths[OF less.prems(2)]
  note index = less.prems(4)
  show ?case
  proof (cases "states ! index")
    case Resolved
    with less.prems index len show ?thesis
      by (auto simp: resolve_catalog_type.simps[of index] Let_def)
  next
    case Resolving
    with less.prems(1) index len show ?thesis
      by (simp add: resolve_catalog_type.simps[of index] Let_def)
  next
    case Pending
    note start = resolution_inv_start[OF less.prems(2) index Pending]
    have smaller: "pending_count (states[index := Resolving]) < pending_count states"
      using pending_start Pending index len by simp
    from less.prems(1) Pending show ?thesis
    proof (cases rule: resolve_step)
      case (leaf t)
      have "states[index := Resolving] ! index \<noteq> Resolved" using index len by simp
      from store_resolved_inv[OF start index this leaf(1) _ leaf(3)] leaf(2)
      have "\<exists>rank'. resolution_inv metadata rank' (states', resolved')"
        and "states' = states[index := Resolving, index := Resolved]" by simp_all
      with Pending index len show ?thesis by (auto simp: nth_list_update split: if_splits)
    next
      case (nested b states1 resolved1 t)
      have b: "b < length metadata" by (rule metadata_edges_range[OF less.prems(3) nested(1)])
      from less.hyps[OF smaller nested(2) start less.prems(3) b]
      obtain rank1 where inv1: "resolution_inv metadata rank1 (states1, resolved1)"
        and finished: "states1 ! b = Resolved"
        and keep: "\<forall>j < length metadata. states[index := Resolving] ! j \<noteq> Pending \<longrightarrow>
             states1 ! j = states[index := Resolving] ! j"
        and fresh: "\<forall>j < length metadata. states1 ! j = Resolving \<longrightarrow>
             states[index := Resolving] ! j = Resolving"
        by blast
      have here: "states1 ! index = Resolving" using keep index len by simp
      then have unresolved: "states1 ! index \<noteq> Resolved" by simp
      have edge: "\<And>c. shape_edge (ty_shape t) = Some c \<Longrightarrow> c < length metadata \<and> states1 ! c = Resolved"
        using nested(4) b finished by simp
      from store_resolved_inv[OF inv1 index unresolved nested(3) edge nested(5)]
      have inv': "\<exists>rank'. resolution_inv metadata rank' (states', resolved')"
        and s': "states' = states1[index := Resolved]" by blast+
      have "length states1 = length metadata" using resolution_inv_lengths[OF inv1] by simp
      then show ?thesis
        using inv' s' keep fresh Pending index len by (auto simp: nth_list_update split: if_splits)
    qed
  qed
qed

text \<open>No call panics.\<close>

lemma store_resolved_not_panic:
  "resolution_inv metadata rank (states, resolved) \<Longrightarrow> index < length metadata \<Longrightarrow>
     store_resolved index (states, resolved) t \<noteq> Inl e"
  by (auto simp: store_resolved_def resolution_inv_def)

lemma resolve_catalog_type_not_panic:
  assumes "resolution_inv metadata rank (states, resolved)"
    and "ids_ok metadata ids" and "index < length metadata"
  shows "resolve_catalog_type index metadata ids (states, resolved) \<noteq> Inl Panic"
  using assms
proof (induction "pending_count states" arbitrary: index states resolved rank rule: less_induct)
  case less
  note len = resolution_inv_lengths[OF less.prems(1)]
  note index = less.prems(3)
  show ?case
  proof (cases "states ! index = Pending")
    case False
    with index len show ?thesis
      by (cases "states ! index") (auto simp: resolve_catalog_type.simps[of index] Let_def)
  next
    case True
    let ?st = "(states[index := Resolving], resolved)"
    note start = resolution_inv_start[OF less.prems(1) index True]
    have smaller: "pending_count (states[index := Resolving]) < pending_count states"
      using pending_start True index len by simp
    have rec: "resolve_catalog_type b metadata ids ?st \<noteq> Inl Panic"
      if "related_type_id (metadata ! index) ids r = Inr b" for b r
      using less.hyps[OF smaller start less.prems(2)] less.prems(2) that
      by (auto simp: related_type_id_Inr ids_ok_def)
    have after: "store_resolved index (states1, resolved1) t \<noteq> Inl e"
      "length resolved1 = length metadata"
      if "related_type_id (metadata ! index) ids r = Inr b"
        and "resolve_catalog_type b metadata ids ?st = Inr (states1, resolved1)"
      for b r states1 resolved1 t e
    proof -
      have "b < length metadata"
        using that(1) less.prems(2) by (auto simp: related_type_id_Inr ids_ok_def)
      from resolve_catalog_type_inv[OF that(2) start less.prems(2) this]
      obtain rank1 where "resolution_inv metadata rank1 (states1, resolved1)" by blast
      then show "store_resolved index (states1, resolved1) t \<noteq> Inl e"
        and "length resolved1 = length metadata"
        using store_resolved_not_panic index resolution_inv_lengths by blast+
    qed
    have range: "b < length metadata" if "related_type_id (metadata ! index) ids r = Inr b" for b r
      using that less.prems(2) by (auto simp: related_type_id_Inr ids_ok_def)
    show ?thesis
      using index len True rec after range store_resolved_not_panic[OF start index]
      by (auto simp: resolve_catalog_type.simps[of index] Let_def rbind_Inl_iff index_at_def
          split: type_structure_kind.splits option.splits if_splits prod.splits)
  qed
qed

section \<open>A reported cycle is a cycle\<close>

lemma resolve_catalog_type_cycle:
  assumes "resolve_catalog_type index metadata ids (states, resolved) = fail (CyclicTypeStructure key)"
    and "resolution_inv metadata rank (states, resolved)"
    and "ids_ok metadata ids" and "index < length metadata"
    and "\<forall>j < length metadata. states ! j = Resolving \<longrightarrow> (j, index) \<in> (metadata_edges metadata ids)\<^sup>+"
  shows "\<exists>i < length metadata. type_metadata_key (metadata ! i) = key \<and>
           (i, i) \<in> (metadata_edges metadata ids)\<^sup>+"
  using assms
proof (induction "pending_count states" arbitrary: index states resolved rank rule: less_induct)
  case less
  note len = resolution_inv_lengths[OF less.prems(2)]
  note index = less.prems(4)
  show ?case
  proof (cases "states ! index")
    case Resolved
    with less.prems(1) index len show ?thesis
      by (simp add: resolve_catalog_type.simps[of index] Let_def)
  next
    case Resolving
    with less.prems(1,5) index len show ?thesis
      by (auto simp: resolve_catalog_type.simps[of index] Let_def)
  next
    case Pending
    let ?st = "(states[index := Resolving], resolved)"
    note start = resolution_inv_start[OF less.prems(2) index Pending]
    have smaller: "pending_count (states[index := Resolving]) < pending_count states"
      using pending_start Pending index len by simp
    have stored: "store_resolved index (states1, resolved1) t \<noteq> Inl e"
      if "related_type_id (metadata ! index) ids r = Inr b"
        and "resolve_catalog_type b metadata ids ?st = Inr (states1, resolved1)"
      for b r states1 resolved1 t e
    proof -
      have "b < length metadata"
        using that(1) less.prems(3) by (auto simp: related_type_id_Inr ids_ok_def)
      from resolve_catalog_type_inv[OF that(2) start less.prems(3) this]
      show ?thesis using store_resolved_not_panic index by blast
    qed
    have "\<exists>b r. related_type_id (metadata ! index) ids r = Inr b \<and>
        tsm_kind (tym_structure (metadata ! index)) \<in> {StructDomain, StructArray} \<and>
        resolve_catalog_type b metadata ids ?st = fail (CyclicTypeStructure key)"
      using less.prems(1) index len Pending stored store_resolved_not_panic[OF start index]
      by (auto simp: resolve_catalog_type.simps[of index] Let_def rbind_Inl_iff index_at_def
          resolve_scalar_def resolve_enum_def related_type_id_def
          split: type_structure_kind.splits option.splits if_splits prod.splits)
    then obtain b r where b: "related_type_id (metadata ! index) ids r = Inr b"
      and kind: "tsm_kind (tym_structure (metadata ! index)) \<in> {StructDomain, StructArray}"
      and rec: "resolve_catalog_type b metadata ids ?st = fail (CyclicTypeStructure key)" by blast
    have edge: "(index, b) \<in> metadata_edges metadata ids"
      using b kind index by (auto simp: metadata_edges_def related_type_id_Inr)
    have "\<forall>j < length metadata. states[index := Resolving] ! j = Resolving \<longrightarrow>
        (j, b) \<in> (metadata_edges metadata ids)\<^sup>+"
      using less.prems(5) edge index len
      by (auto simp: nth_list_update split: if_splits intro: trancl_into_trancl)
    from less.hyps[OF smaller rec start less.prems(3) metadata_edges_range[OF less.prems(3) edge] this]
    show ?thesis .
  qed
qed

end
