(* ===== verification/Metadata_Types_Build.thy ===== *)
theory Metadata_Types_Build
  imports Metadata_Types_Facts
begin

text \<open>
  The type arena built from the metadata: identity assignment, the resolution loop over all
  definitions, the fixture mode, and the check of every column's declared type. The
  properties of \<open>build_catalog_types\<close> are stated here.
\<close>

section \<open>Identity assignment\<close>

lemma assign_type_ids_Some:
  "assign_type_ids n ids ts = Inr ids' \<Longrightarrow>
     ids' k = Some i \<longleftrightarrow>
       ids k = Some i \<or> n \<le> i \<and> i < n + length ts \<and> type_metadata_key (ts ! (i - n)) = k"
proof (induction ts arbitrary: n ids)
  case Nil
  then show ?case by auto
next
  case (Cons t ts)
  from Cons.prems have fresh: "ids (type_metadata_key t) = None"
    and rec: "assign_type_ids (Suc n) (ids(type_metadata_key t \<mapsto> n)) ts = Inr ids'"
    by (auto simp: Let_def split: if_splits)
  have "n \<le> i \<and> i < n + length (t # ts) \<and> type_metadata_key ((t # ts) ! (i - n)) = k \<longleftrightarrow>
      i = n \<and> type_metadata_key t = k \<or>
      Suc n \<le> i \<and> i < Suc n + length ts \<and> type_metadata_key (ts ! (i - Suc n)) = k"
    by (cases "i = n") (auto simp: nth_Cons' Suc_le_eq)
  with Cons.IH[OF rec] fresh show ?case by (auto split: if_splits)
qed

lemma assign_type_ids_not_panic [simp]: "assign_type_ids n ids ts \<noteq> Inl Panic"
  by (induction n ids ts rule: assign_type_ids.induct) (simp_all add: Let_def del: fun_upd_apply)

lemma assign_type_ids_not_cycle [simp]: "assign_type_ids n ids ts \<noteq> fail (CyclicTypeStructure key)"
  by (induction n ids ts rule: assign_type_ids.induct) (simp_all add: Let_def del: fun_upd_apply)

lemma assign_type_ids_ok:
  "assign_type_ids 0 Map.empty metadata = Inr ids \<Longrightarrow> ids_ok metadata ids"
  by (auto simp: ids_ok_def assign_type_ids_Some)

section \<open>The whole resolution loop\<close>

definition quiet_inv :: "type_metadata list \<Rightarrow> resolution \<Rightarrow> bool" where
  "quiet_inv metadata st \<longleftrightarrow>
     (\<exists>rank. resolution_inv metadata rank st) \<and> Resolving \<notin> set (fst st)"

lemma quiet_inv_start:
  "quiet_inv metadata (replicate (length metadata) Pending, replicate (length metadata) None)"
  by (auto simp: quiet_inv_def resolution_inv_def)

lemma quiet_inv_step:
  assumes "quiet_inv metadata st" and "index < length metadata" and "ids_ok metadata ids"
    and call: "resolve_catalog_type index metadata ids st = Inr st'"
  shows "quiet_inv metadata st'" and "fst st' ! index = Resolved"
    and "j < length metadata \<Longrightarrow> fst st ! j = Resolved \<Longrightarrow> fst st' ! j = Resolved"
proof -
  obtain states resolved states' resolved' where st: "st = (states, resolved)" "st' = (states', resolved')"
    by (cases st; cases st') auto
  from assms(1) st obtain rank where inv: "resolution_inv metadata rank (states, resolved)"
    and quiet: "Resolving \<notin> set states" by (auto simp: quiet_inv_def)
  from resolve_catalog_type_inv[OF call[unfolded st] inv assms(3,2)]
  have post: "\<exists>rank'. resolution_inv metadata rank' (states', resolved')" "states' ! index = Resolved"
    "\<forall>j < length metadata. states ! j \<noteq> Pending \<longrightarrow> states' ! j = states ! j"
    "\<forall>j < length metadata. states' ! j = Resolving \<longrightarrow> states ! j = Resolving" by blast+
  from post(1) have "length states' = length metadata" "length states = length metadata"
    using resolution_inv_lengths inv by blast+
  with post(4) quiet have "Resolving \<notin> set states'"
    by (auto simp: in_set_conv_nth)
  with post(1) st show "quiet_inv metadata st'" by (simp add: quiet_inv_def)
  from post(2) st show "fst st' ! index = Resolved" by simp
  show "fst st' ! j = Resolved" if "j < length metadata" "fst st ! j = Resolved"
    using post(3) that st by simp
qed

text \<open>The loop of \<open>build_catalog_types\<close> over all indices.\<close>

abbreviation resolve_all ::
  "type_metadata list \<Rightarrow> (type_key \<rightharpoonup> type_id) \<Rightarrow> resolution build" where
  "resolve_all metadata ids \<equiv>
     rfold (\<lambda>st index. resolve_catalog_type index metadata ids st)
       (replicate (length metadata) Pending, replicate (length metadata) None) [0..<length metadata]"

lemma resolve_all_done:
  assumes "resolve_all metadata ids = Inr st" and "ids_ok metadata ids"
  shows "\<exists>rank. resolution_inv metadata rank st \<and> (\<forall>i < length metadata. fst st ! i = Resolved)"
proof -
  have "quiet_inv metadata st"
    by (rule rfold_invariant[where I = "quiet_inv metadata", OF assms(1) quiet_inv_start])
       (use assms(2) in \<open>auto intro: quiet_inv_step(1)\<close>)
  moreover have "\<forall>i \<in> set [0..<length metadata]. i < length metadata \<and> fst st ! i = Resolved"
    by (rule rfold_all[where I = "quiet_inv metadata", OF assms(1) quiet_inv_start])
       (use assms(2) in \<open>auto intro: quiet_inv_step\<close>)
  ultimately show ?thesis by (auto simp: quiet_inv_def)
qed

lemma quiet_inv_pair:
  assumes "quiet_inv metadata st"
  obtains states resolved rank where "st = (states, resolved)"
    and "resolution_inv metadata rank (states, resolved)"
    and "\<forall>j < length metadata. states ! j \<noteq> Resolving"
proof -
  obtain states resolved where st: "st = (states, resolved)" by (cases st)
  with assms obtain rank where inv: "resolution_inv metadata rank (states, resolved)"
    and quiet: "Resolving \<notin> set states" by (auto simp: quiet_inv_def)
  from quiet resolution_inv_lengths[OF inv] have "\<forall>j < length metadata. states ! j \<noteq> Resolving"
    by (metis nth_mem)
  with st inv show thesis by (rule that)
qed

lemma resolve_all_not_panic:
  assumes "ids_ok metadata ids"
  shows "resolve_all metadata ids \<noteq> Inl Panic"
proof
  assume "resolve_all metadata ids = Inl Panic"
  from rfold_error[OF this, of "quiet_inv metadata"] quiet_inv_start assms
  obtain st i where "quiet_inv metadata st" "i < length metadata"
    "resolve_catalog_type i metadata ids st = Inl Panic"
    by (auto intro: quiet_inv_step(1))
  with assms show False
    by (auto elim!: quiet_inv_pair simp: resolve_catalog_type_not_panic)
qed

lemma resolve_all_cycle:
  assumes "resolve_all metadata ids = fail (CyclicTypeStructure key)" and "ids_ok metadata ids"
  shows "\<exists>i < length metadata. type_metadata_key (metadata ! i) = key \<and>
           (i, i) \<in> (metadata_edges metadata ids)\<^sup>+"
proof -
  from rfold_error[OF assms(1), of "quiet_inv metadata"] quiet_inv_start assms(2)
  obtain st i where st: "quiet_inv metadata st" and i: "i < length metadata"
    and call: "resolve_catalog_type i metadata ids st = fail (CyclicTypeStructure key)"
    by (auto intro: quiet_inv_step(1))
  from st obtain states resolved rank where "st = (states, resolved)"
    and "resolution_inv metadata rank (states, resolved)"
    and "\<forall>j < length metadata. states ! j \<noteq> Resolving" by (rule quiet_inv_pair)
  with resolve_catalog_type_cycle[of i metadata ids states resolved key rank] call i assms(2)
  show ?thesis by simp
qed

lemma unwrap_all:
  assumes "collect_results (unwrap_resolved metadata) (enumerate 0 resolved) = Inr types"
  shows "length types = length resolved \<and> (\<forall>i < length resolved. resolved ! i = Some (types ! i))"
  using collect_results_Inr[OF assms]
  by (auto simp: nth_enumerate_eq unwrap_resolved_def rbind_Inr_iff split: option.splits)

lemma unwrap_all_resolved:
  assumes "\<forall>i < length resolved. resolved ! i \<noteq> None"
  shows "\<exists>types. collect_results (unwrap_resolved metadata) (enumerate n resolved) = Inr types"
  using assms
proof (induction resolved arbitrary: n)
  case Nil
  then show ?case by simp
next
  case (Cons r rs)
  from Cons.prems obtain t where "r = Some t" by (auto dest: spec[of _ 0])
  moreover from Cons.prems have "\<forall>i < length rs. rs ! i \<noteq> None" by fastforce
  ultimately show ?case using Cons.IH[of "Suc n"] by (auto simp: unwrap_resolved_def)
qed

section \<open>The built type arena\<close>

definition type_arena_ok :: "catalog_type list \<Rightarrow> (type_key \<rightharpoonup> type_id) \<Rightarrow> bool" where
  "type_arena_ok types ids \<longleftrightarrow>
     (\<forall>i < length types. ty_id (types ! i) = i \<and>
        (ty_shape (types ! i) = ShapeEnum \<longrightarrow> ty_enumeration (types ! i) \<noteq> None)) \<and>
     (\<forall>k i. ids k = Some i \<longleftrightarrow> i < length types \<and> ty_key (types ! i) = k) \<and>
     types_acyclic types"

definition column_type_known ::
  "catalog_type list \<Rightarrow> (type_key \<rightharpoonup> type_id) \<Rightarrow> column_metadata \<Rightarrow> bool" where
  "column_type_known types ids c \<longleftrightarrow>
     (\<exists>i. ids (cm_provider_type c) = Some i \<and> i < length types \<and>
          ty_data_type (types ! i) = cm_data_type c)"

lemma resolved_arena_ok:
  assumes ids: "assign_type_ids 0 Map.empty metadata = Inr ids"
    and inv: "resolution_inv metadata rank (states, resolved)"
    and all: "\<forall>i < length metadata. states ! i = Resolved"
    and types: "length types = length metadata" "\<forall>i < length metadata. resolved ! i = Some (types ! i)"
  shows "type_arena_ok types ids"
proof -
  have each: "type_matches metadata i (types ! i) \<and>
      (\<forall>b. shape_edge (ty_shape (types ! i)) = Some b \<longrightarrow> b < length metadata \<and> rank b < rank i)"
    if "i < length metadata" for i
    using resolution_invD[OF inv that] all types(2) that by (metis option.inject)
  then have "ranked_types rank types"
    using types(1) by (auto simp: ranked_types_def)
  then show ?thesis
    using each types(1) ids
    by (auto simp: type_arena_ok_def type_matches_def types_acyclic_def assign_type_ids_Some)
qed

lemma check_column_type_known:
  "check_column_type types ids u (s, t, c) = Inr u' \<Longrightarrow> column_type_known types ids c"
  by (auto simp: check_column_type_def column_type_known_def Let_def index_at_def
      split: option.splits if_splits)

lemma check_columns_known:
  assumes "rfold (check_column_type types ids) u entries = Inr u'" and "(s, t, c) \<in> set entries"
  shows "column_type_known types ids c"
proof -
  have "\<forall>x \<in> set entries. column_type_known types ids (snd (snd x))"
    by (rule rfold_all[where I = "\<lambda>_. True", OF assms(1)]) (auto dest: check_column_type_known)
  with assms(2) show ?thesis by force
qed

lemma all_scalar_acyclic:
  "\<forall>i < length types. ty_shape (types ! i) = ShapeScalar \<Longrightarrow> types_acyclic types"
  by (auto simp: types_acyclic_def ranked_types_def)

definition fixture_inv :: "catalog_type list \<times> (type_key \<rightharpoonup> type_id) \<Rightarrow> bool" where
  "fixture_inv st \<longleftrightarrow>
     (let (types, ids) = st in
      (\<forall>i < length types. ty_id (types ! i) = i \<and> ty_shape (types ! i) = ShapeScalar) \<and>
      (\<forall>k i. ids k = Some i \<longleftrightarrow> i < length types \<and> ty_key (types ! i) = k))"

lemma add_fixture_type_inv:
  assumes "fixture_inv (types, ids)" and "add_fixture_type (types, ids) (s, t, c) = Inr (types', ids')"
  shows "fixture_inv (types', ids')" and "column_type_known types' ids' c"
    and "column_type_known types ids d \<Longrightarrow> column_type_known types' ids' d"
proof -
  have "fixture_inv (types', ids') \<and> column_type_known types' ids' c \<and>
    (column_type_known types ids d \<longrightarrow> column_type_known types' ids' d)"
  proof (cases "ids (cm_provider_type c)")
    case (Some i)
    with assms show ?thesis
      by (auto simp: add_fixture_type_def fixture_inv_def column_type_known_def index_at_def
          split: if_splits)
  next
    case None
    let ?new = "catalog_type_builtin (length types) (cm_provider_type c) (cm_data_type c)"
    from None assms(2) have t': "types' = types @ [?new]"
      and i': "ids' = ids(cm_provider_type c \<mapsto> length types)"
      by (auto simp: add_fixture_type_def)
    have new: "ty_id ?new = length types" "ty_shape ?new = ShapeScalar"
      "ty_key ?new = cm_provider_type c" "ty_data_type ?new = cm_data_type c"
      by (simp_all add: catalog_type_builtin_def)
    have "\<forall>i < length types. ty_key (types ! i) \<noteq> cm_provider_type c"
      using assms(1) None by (auto simp: fixture_inv_def) (metis option.distinct(1))
    then have "fixture_inv (types', ids')"
      using assms(1) new unfolding t' i' fixture_inv_def
      by (auto simp: nth_append less_Suc_eq)
    moreover have "column_type_known types' ids' c"
      using new unfolding t' i' column_type_known_def by (auto simp: nth_append)
    moreover have "column_type_known types' ids' d" if "column_type_known types ids d"
      using that None unfolding t' i' column_type_known_def by (auto simp: nth_append)
    ultimately show ?thesis by blast
  qed
  then show "fixture_inv (types', ids')" and "column_type_known types' ids' c"
    and "column_type_known types ids d \<Longrightarrow> column_type_known types' ids' d" by blast+
qed

lemma add_fixture_type_not_panic:
  "fixture_inv st \<Longrightarrow> add_fixture_type st entry \<noteq> Inl Panic"
  by (cases st; cases entry)
     (auto simp: add_fixture_type_def fixture_inv_def index_at_def split: option.splits)

lemma fixture_types_ok:
  assumes "rfold add_fixture_type ([], Map.empty) entries = Inr (types, ids)"
  shows "type_arena_ok types ids" and "(s, t, c) \<in> set entries \<Longrightarrow> column_type_known types ids c"
proof -
  have start: "fixture_inv ([], Map.empty)" by (simp add: fixture_inv_def)
  have step: "\<And>st x st'. fixture_inv st \<Longrightarrow> add_fixture_type st x = Inr st' \<Longrightarrow> fixture_inv st'"
    using add_fixture_type_inv(1) by (metis prod_cases3 surj_pair)
  have inv: "fixture_inv (types, ids)"
    by (rule rfold_invariant[where I = fixture_inv, OF assms start]) (rule step)
  then show "type_arena_ok types ids"
    by (auto simp: fixture_inv_def type_arena_ok_def intro: all_scalar_acyclic)
  have "\<forall>x \<in> set entries. column_type_known (fst (types, ids)) (snd (types, ids)) (snd (snd x))"
  proof (rule rfold_all[where I = fixture_inv, OF assms start])
    fix st x st'
    assume "fixture_inv st" "add_fixture_type st x = Inr st'"
    then show "fixture_inv st'" by (rule step)
    from \<open>fixture_inv st\<close> \<open>add_fixture_type st x = Inr st'\<close>
    show "column_type_known (fst st') (snd st') (snd (snd x))"
      using add_fixture_type_inv(2) by (metis prod.collapse)
  next
    fix st x st' and y :: "schema_metadata \<times> table_metadata \<times> column_metadata"
    assume "fixture_inv st" "add_fixture_type st x = Inr st'"
      "column_type_known (fst st) (snd st) (snd (snd y))"
    then show "column_type_known (fst st') (snd st') (snd (snd y))"
      using add_fixture_type_inv(3) by (metis prod.collapse)
  qed
  then show "column_type_known types ids c" if "(s, t, c) \<in> set entries" using that by force
qed

lemma build_catalog_types_ok:
  assumes "build_catalog_types m = Inr (types, ids)"
  shows "type_arena_ok types ids \<and>
    (\<forall>(s, t, c) \<in> set (all_columns m). column_type_known types ids c)"
proof (cases "dm_types m = []")
  case True
  with assms fixture_types_ok show ?thesis by (fastforce simp: build_catalog_types_def)
next
  case False
  with assms obtain states resolved u where
    ids: "assign_type_ids 0 Map.empty (dm_types m) = Inr ids"
    and res: "resolve_all (dm_types m) ids = Inr (states, resolved)"
    and un: "collect_results (unwrap_resolved (dm_types m)) (enumerate 0 resolved) = Inr types"
    and chk: "rfold (check_column_type types ids) () (all_columns m) = Inr u"
    by (auto simp: build_catalog_types_def Let_def)
  from resolve_all_done[OF res assign_type_ids_ok[OF ids]] obtain rank where
    inv: "resolution_inv (dm_types m) rank (states, resolved)"
    and all: "\<forall>i < length (dm_types m). states ! i = Resolved" by auto
  from unwrap_all[OF un] resolution_inv_lengths[OF inv]
  have "length types = length (dm_types m)"
    "\<forall>i < length (dm_types m). resolved ! i = Some (types ! i)" by auto
  from resolved_arena_ok[OF ids inv all this] check_columns_known[OF chk] show ?thesis by blast
qed

section \<open>Properties of the built types\<close>

text \<open>
  A type arena that the code builds from metadata is dense (the type at position \<open>i\<close> has
  identity \<open>i\<close>), its key index is exact, enums carry their labels, its domain and array edges
  are closed and acyclic, and every column's declared logical type is the resolved one.
\<close>

theorem build_catalog_types_sound:
  assumes "build_catalog_types m = Inr (types, ids)"
  shows "type_arena_ok types ids \<and>
    (\<forall>(s, t, c) \<in> set (all_columns m). column_type_known types ids c)"
  by (rule build_catalog_types_ok[OF assms])

text \<open>No slice or hash-map index is out of range, whatever the metadata.\<close>

lemma build_catalog_types_not_panic: "build_catalog_types m \<noteq> Inl Panic"
proof (cases "dm_types m = []")
  case True
  show ?thesis
  proof
    assume "build_catalog_types m = Inl Panic"
    with True have "rfold add_fixture_type ([], Map.empty) (all_columns m) = Inl Panic"
      by (simp add: build_catalog_types_def)
    moreover have "\<And>st x st'. fixture_inv st \<Longrightarrow> add_fixture_type st x = Inr st' \<Longrightarrow> fixture_inv st'"
      using add_fixture_type_inv(1) by (metis prod_cases3 surj_pair)
    moreover have "fixture_inv ([], Map.empty)" by (simp add: fixture_inv_def)
    ultimately obtain st x where "fixture_inv st" "add_fixture_type st x = Inl Panic"
      using rfold_error[of add_fixture_type "([], Map.empty)" "all_columns m" Panic fixture_inv] by blast
    then show False by (simp add: add_fixture_type_not_panic)
  qed
next
  case False
  have step: "rfold (check_column_type types ids) u entries \<noteq> Inl Panic"
    if "type_arena_ok types ids" for types ids u entries
  proof
    assume "rfold (check_column_type types ids) u entries = Inl Panic"
    from rfold_error[OF this, of "\<lambda>_. True"] obtain v x where
      "check_column_type types ids v x = Inl Panic" by auto
    with that show False
      by (cases x) (auto simp: check_column_type_def type_arena_ok_def Let_def index_at_def
          split: option.splits if_splits)
  qed
  show ?thesis
  proof
    assume panic: "build_catalog_types m = Inl Panic"
    with False obtain ids where ids: "assign_type_ids 0 Map.empty (dm_types m) = Inr ids"
      by (auto simp: build_catalog_types_def Let_def rbind_Inl_iff)
    note ok = assign_type_ids_ok[OF ids]
    from panic False ids resolve_all_not_panic[OF ok] obtain states resolved where
      res: "resolve_all (dm_types m) ids = Inr (states, resolved)"
      by (auto simp: build_catalog_types_def Let_def rbind_Inl_iff)
    from resolve_all_done[OF res ok] obtain rank where
      inv: "resolution_inv (dm_types m) rank (states, resolved)"
      and all: "\<forall>i < length (dm_types m). states ! i = Resolved" by auto
    have "\<forall>i < length resolved. resolved ! i \<noteq> None"
      using resolution_invD[OF inv] all resolution_inv_lengths[OF inv] by (metis option.distinct(1))
    from unwrap_all_resolved[OF this] obtain types where
      un: "collect_results (unwrap_resolved (dm_types m)) (enumerate 0 resolved) = Inr types" by blast
    from unwrap_all[OF un] resolution_inv_lengths[OF inv]
    have "length types = length (dm_types m)"
      "\<forall>i < length (dm_types m). resolved ! i = Some (types ! i)" by auto
    from step[OF resolved_arena_ok[OF ids inv all this]] panic False ids res un show False
      by (auto simp: build_catalog_types_def Let_def rbind_Inl_iff)
  qed
qed

text \<open>
  When the build reports a cyclic type structure through a type, the metadata really has
  a domain/array dependency cycle through a definition with that key.
\<close>

theorem build_catalog_types_cycle_sound:
  assumes "build_catalog_types m = fail (CyclicTypeStructure key)"
  shows "\<exists>ids. assign_type_ids 0 Map.empty (dm_types m) = Inr ids \<and>
    (\<exists>i < length (dm_types m). type_metadata_key (dm_types m ! i) = key \<and>
      (i, i) \<in> (metadata_edges (dm_types m) ids)\<^sup>+)"
proof -
  have fixture: "rfold add_fixture_type st entries \<noteq> fail (CyclicTypeStructure key)" for st entries
    by (induction entries arbitrary: st)
       (auto simp: rbind_Inl_iff add_fixture_type_def index_at_def split: option.splits if_splits)
  have unwrap: "collect_results (unwrap_resolved ms) es \<noteq> fail (CyclicTypeStructure key)" for ms es
    by (induction es) (auto simp: rbind_Inl_iff unwrap_resolved_def index_at_def split: option.splits if_splits)
  have check: "rfold (check_column_type types ids) u entries \<noteq> fail (CyclicTypeStructure key)"
    for types ids u entries
    by (induction entries arbitrary: u)
       (auto simp: rbind_Inl_iff check_column_type_def Let_def index_at_def split: option.splits if_splits)
  from assms obtain ids where ids: "assign_type_ids 0 Map.empty (dm_types m) = Inr ids"
    and res: "resolve_all (dm_types m) ids = fail (CyclicTypeStructure key)"
    by (auto simp: build_catalog_types_def Let_def rbind_Inl_iff fixture unwrap check split: if_splits)
  with resolve_all_cycle[OF res assign_type_ids_ok[OF ids]] show ?thesis by blast
qed

section \<open>Witnesses\<close>

definition sample_definition :: "string \<Rightarrow> type_structure_metadata \<Rightarrow> type_metadata" where
  "sample_definition name structure =
     \<lparr>tym_internal_type = name, tym_readable_type = name, tym_schema = ''public'',
      tym_structure = structure, tym_provider = None, tym_operations = {}\<rparr>"

definition sample_type_metadata :: database_metadata where
  "sample_type_metadata =
     \<lparr>dm_schemas = [],
      dm_types = [sample_definition ''labels'' (structure_array (TypeKey ''public'' ''label'')),
                  sample_definition ''label'' (structure_domain (TypeKey ''public'' ''text'')),
                  sample_definition ''text'' structure_scalar]\<rparr>"

definition cyclic_type_metadata :: database_metadata where
  "cyclic_type_metadata =
     \<lparr>dm_schemas = [],
      dm_types = [sample_definition ''a'' (structure_domain (TypeKey ''public'' ''b'')),
                  sample_definition ''b'' (structure_domain (TypeKey ''public'' ''a''))]\<rparr>"

lemmas sample_metadata_eval =
  build_catalog_types_def sample_type_metadata_def cyclic_type_metadata_def sample_definition_def
  type_metadata_key_def resolve_catalog_type.simps structure_array_def structure_domain_def
  structure_scalar_def native_enum_provider_def related_type_id_def store_resolved_def
  resolve_scalar_def unwrap_resolved_def all_columns_def index_at_def Let_def upt_rec

lemma sample_build_succeeds: "\<exists>r. build_catalog_types sample_type_metadata = Inr r"
  by (simp add: sample_metadata_eval numeral_eq_Suc)

lemma cyclic_build_fails:
  "build_catalog_types cyclic_type_metadata = fail (CyclicTypeStructure (TypeKey ''public'' ''a''))"
  by (simp add: sample_metadata_eval numeral_eq_Suc)

theorem build_catalog_types_sound_witness:
  "\<exists>types ids. build_catalog_types sample_type_metadata = Inr (types, ids) \<and>
    type_arena_ok types ids \<and>
    (\<forall>(s, t, c) \<in> set (all_columns sample_type_metadata). column_type_known types ids c)"
proof -
  obtain types ids where r: "build_catalog_types sample_type_metadata = Inr (types, ids)"
    using sample_build_succeeds by auto
  with build_catalog_types_sound[OF r] show ?thesis by blast
qed

theorem build_catalog_types_cycle_sound_witness:
  "\<exists>ids. assign_type_ids 0 Map.empty (dm_types cyclic_type_metadata) = Inr ids \<and>
    (\<exists>i < length (dm_types cyclic_type_metadata).
      type_metadata_key (dm_types cyclic_type_metadata ! i) = TypeKey ''public'' ''a'' \<and>
      (i, i) \<in> (metadata_edges (dm_types cyclic_type_metadata) ids)\<^sup>+)"
  by (rule build_catalog_types_cycle_sound[OF cyclic_build_fails])

end
