(* ===== verification/Catalog_Lookup.thy ===== *)
theory Catalog_Lookup
  imports Type_Graph
begin

text \<open>
  Query-facing lookup in the effective catalog
  (\<open>crates/dsql-core/src/catalog/lookup.rs\<close>): tables by reference, dense identities,
  visible columns and relations, field references, uniqueness and index participation.
\<close>

section \<open>Results\<close>

datatype table_resolution =
    TableFound table
  | TableNotFound string
  | TableAmbiguous string "table_key list"

record relation_field =
  rf_name :: string
  rf_selector :: string
  rf_table :: table
  rf_relation :: relation

datatype field_check_result =
    FieldColumn column
  | FieldRelation relation_field
  | FieldNotFound
  | FieldAmbiguousRelation string "string list"

section \<open>Tables\<close>

definition catalog_table :: "catalog \<Rightarrow> string \<Rightarrow> string \<Rightarrow> table option" where
  "catalog_table c schema name =
     find (\<lambda>t. tb_visible t \<and> tb_schema t = schema \<and> tb_name t = name) (cat_tables c)"

definition resolve_table_ref_for :: "catalog \<Rightarrow> table_ref \<Rightarrow> table_resolution" where
  "resolve_table_ref_for c r =
     (case tref_schema r of
        Some schema \<Rightarrow>
          (case catalog_table c schema (tref_name r) of
             None \<Rightarrow> TableNotFound (table_ref_display r)
           | Some t \<Rightarrow> TableFound t)
      | None \<Rightarrow>
          (let matches = filter (\<lambda>t. tb_visible t \<and> tb_name t = tref_name r) (cat_tables c) in
           case matches of
             [] \<Rightarrow> TableNotFound (table_ref_display r)
           | [t] \<Rightarrow> TableFound t
           | _ \<Rightarrow> TableAmbiguous (table_ref_display r) (sort (map tb_key matches))))"

definition table_ref_for :: "catalog \<Rightarrow> table_ref \<Rightarrow> table option" where
  "table_ref_for c r =
     (case resolve_table_ref_for c r of
        TableFound t \<Rightarrow> Some t | TableNotFound _ \<Rightarrow> None | TableAmbiguous _ _ \<Rightarrow> None)"

definition table_by_id :: "catalog \<Rightarrow> table_id \<Rightarrow> table option" where
  "table_by_id c i = get_at (cat_tables c) i"

definition column_by_id :: "catalog \<Rightarrow> column_id \<Rightarrow> column option" where
  "column_by_id c i = get_at (cat_columns c) i"

definition type_by_id :: "catalog \<Rightarrow> type_id \<Rightarrow> catalog_type option" where
  "type_by_id c i = get_at (cat_types c) i"

definition relation_by_id :: "catalog \<Rightarrow> relation_id \<Rightarrow> relation option" where
  "relation_by_id c i = get_at (cat_relations c) i"

definition type_by_key :: "catalog \<Rightarrow> type_key \<Rightarrow> catalog_type option" where
  "type_by_key c key =
     (case Option.bind (cat_type_ids c key) (type_by_id c) of
        Some t \<Rightarrow> Some t
      | None \<Rightarrow> find (\<lambda>t. ty_key t = key) (cat_types c))"

definition type_for_column :: "catalog \<Rightarrow> column_id \<Rightarrow> catalog_type option" where
  "type_for_column c i = Option.bind (column_by_id c i) (\<lambda>col. type_by_id c (col_type_id col))"

definition capabilities_for_column :: "catalog \<Rightarrow> column_id \<Rightarrow> type_capabilities option" where
  "capabilities_for_column c i = map_option ty_capabilities (type_for_column c i)"

text \<open>\<open>data_type_for_column\<close> indexes both arenas and panics on an invalid identity.\<close>

definition data_type_for_column :: "catalog \<Rightarrow> column_id \<Rightarrow> unit fault + data_type" where
  "data_type_for_column c i =
     rbind (index_at (cat_columns c) i) (\<lambda>col.
     rbind (index_at (cat_types c) (col_type_id col)) (\<lambda>t. Inr (logical_data_type t)))"

definition columns_for_table :: "catalog \<Rightarrow> table_id \<Rightarrow> column list" where
  "columns_for_table c i =
     (case get_at (cat_tables c) i of
        None \<Rightarrow> []
      | Some t \<Rightarrow> filter col_visible (List.map_filter (get_at (cat_columns c)) (tb_columns t)))"

definition visible_tables :: "catalog \<Rightarrow> table list" where
  "visible_tables c = filter tb_visible (cat_tables c)"

section \<open>Relations\<close>

definition relation_exposed :: "catalog \<Rightarrow> relation \<Rightarrow> bool" where
  "relation_exposed c r \<longleftrightarrow>
     rel_visible r \<and>
     (case get_at (cat_tables c) (rel_to_table r) of None \<Rightarrow> False | Some t \<Rightarrow> tb_visible t)"

definition relation_field_of :: "catalog \<Rightarrow> relation \<Rightarrow> relation_field option" where
  "relation_field_of c r =
     map_option (\<lambda>t. \<lparr>rf_name = rel_name r, rf_selector = rel_selector r, rf_table = t,
                      rf_relation = r\<rparr>)
       (get_at (cat_tables c) (rel_to_table r))"

definition relation_fields_for_table :: "catalog \<Rightarrow> table_id \<Rightarrow> relation_field list" where
  "relation_fields_for_table c i =
     (case get_at (cat_tables c) i of
        None \<Rightarrow> []
      | Some t \<Rightarrow>
          List.map_filter (relation_field_of c)
            (filter (relation_exposed c) (List.map_filter (get_at (cat_relations c)) (tb_relations t))))"

definition relations_for_table :: "catalog \<Rightarrow> table_id \<Rightarrow> table list" where
  "relations_for_table c i = map rf_table (relation_fields_for_table c i)"

section \<open>Uniqueness and indexes\<close>

definition column_set_covers :: "column_id list \<Rightarrow> column_id list \<Rightarrow> bool" where
  "column_set_covers columns unique_columns \<longleftrightarrow>
     unique_columns \<noteq> [] \<and> list_all (\<lambda>u. u \<in> set columns) unique_columns"

definition table_column_set_is_unique :: "table \<Rightarrow> column_id list \<Rightarrow> bool" where
  "table_column_set_is_unique t columns \<longleftrightarrow>
     list_ex (column_set_covers columns) (tb_unique_constraints t) \<or>
     list_ex (\<lambda>ix. ix_is_unique ix \<and> ix_keys ix \<noteq> [] \<and>
       list_all (\<lambda>k. ik_column k \<in> set columns) (ix_keys ix)) (tb_indexes t)"

definition column_set_is_unique :: "catalog \<Rightarrow> table_id \<Rightarrow> column_id list \<Rightarrow> bool" where
  "column_set_is_unique c i columns \<longleftrightarrow>
     (case table_by_id c i of None \<Rightarrow> False | Some t \<Rightarrow> table_column_set_is_unique t columns)"

definition table_of_column :: "catalog \<Rightarrow> column_id \<Rightarrow> table option" where
  "table_of_column c i = Option.bind (column_by_id c i) (\<lambda>col. table_by_id c (col_table col))"

definition column_participates_in_index :: "catalog \<Rightarrow> column_id \<Rightarrow> bool" where
  "column_participates_in_index c i \<longleftrightarrow>
     (case table_of_column c i of None \<Rightarrow> False
      | Some t \<Rightarrow> list_ex (\<lambda>ix. list_ex (\<lambda>k. ik_column k = i) (ix_keys ix)) (tb_indexes t))"

definition index_key_is_independently_usable :: "index \<Rightarrow> nat \<Rightarrow> bool" where
  "index_key_is_independently_usable ix pos \<longleftrightarrow>
     pos = 0 \<or>
     ix_access_method ix \<in> {''gin'', ''gist'', ''spgist'', ''brin'', ''hash''}"

definition column_is_independently_indexed :: "catalog \<Rightarrow> column_id \<Rightarrow> bool" where
  "column_is_independently_indexed c i \<longleftrightarrow>
     (case table_of_column c i of None \<Rightarrow> False
      | Some t \<Rightarrow>
          list_ex (\<lambda>ix. list_ex (\<lambda>(pos, k). ik_column k = i \<and>
              index_key_is_independently_usable ix pos) (enumerate 0 (ix_keys ix)))
            (tb_indexes t))"

definition column_is_searchable :: "catalog \<Rightarrow> column_id \<Rightarrow> bool" where
  "column_is_searchable c i \<longleftrightarrow>
     (case column_by_id c i of None \<Rightarrow> False
      | Some col \<Rightarrow>
          (case capabilities_for_column c (col_id col) of None \<Rightarrow> False
           | Some cap \<Rightarrow> supports cap CmpLike) \<and>
          (case table_by_id c (col_table col) of None \<Rightarrow> False
           | Some t \<Rightarrow>
               list_ex (\<lambda>ix. list_ex (\<lambda>(pos, k). ik_column k = i \<and>
                   CapLike \<in> set (ik_capabilities k) \<and>
                   index_key_is_independently_usable ix pos) (enumerate 0 (ix_keys ix)))
                 (tb_indexes t)))"

section \<open>Field references\<close>

definition direct_column :: "catalog \<Rightarrow> table \<Rightarrow> field_ref \<Rightarrow> column option" where
  "direct_column c t f =
     (if tref_schema (fref_target f) = None \<and> fref_selector f = None then
        find (\<lambda>col. col_visible col \<and> col_name col = tref_name (fref_target f))
          (List.map_filter (get_at (cat_columns c)) (tb_columns t))
      else None)"

definition relation_candidates :: "catalog \<Rightarrow> table \<Rightarrow> field_ref \<Rightarrow> relation_field list" where
  "relation_candidates c t f =
     (let field_schema = (case tref_schema (fref_target f) of
                            None \<Rightarrow> cat_default_schema c | Some s \<Rightarrow> s) in
      filter (\<lambda>r. rel_name (rf_relation r) = tref_name (fref_target f) \<and>
                  tb_schema (rf_table r) = field_schema \<and>
                  (case fref_selector f of None \<Rightarrow> True
                   | Some selector \<Rightarrow> selector = rel_selector (rf_relation r)))
        (relation_fields_for_table c (tb_id t)))"

definition candidate_display :: "relation_field \<Rightarrow> string" where
  "candidate_display r =
     tb_schema (rf_table r) @ ''::'' @ rel_name (rf_relation r) @ ''->'' @ rel_selector (rf_relation r)"

definition check_field_ref :: "catalog \<Rightarrow> table_id \<Rightarrow> field_ref \<Rightarrow> field_check_result" where
  "check_field_ref c i f =
     (case get_at (cat_tables c) i of
        None \<Rightarrow> FieldNotFound
      | Some t \<Rightarrow>
          (case direct_column c t f of
             Some col \<Rightarrow> FieldColumn col
           | None \<Rightarrow>
               (case relation_candidates c t f of
                  [] \<Rightarrow> FieldNotFound
                | [r] \<Rightarrow> FieldRelation r
                | rs \<Rightarrow> FieldAmbiguousRelation (field_ref_display f) (map candidate_display rs))))"

section \<open>Arenas: dense identities\<close>

text \<open>
  Every arena of the catalog promises that the element at position \<open>i\<close> carries identity \<open>i\<close>.
  What lookups rely on follows from that law once.
\<close>

locale arena =
  fixes items :: "'c \<Rightarrow> 'e list"
    and ident :: "'e \<Rightarrow> nat"
    and inv :: "'c \<Rightarrow> bool"
  assumes dense: "inv c \<Longrightarrow> i < length (items c) \<Longrightarrow> ident (items c ! i) = i"
begin

lemma lookup_ident: "inv c \<Longrightarrow> get_at (items c) i = Some x \<Longrightarrow> ident x = i"
  using dense by (auto simp: get_at_Some_iff)

lemma lookup_member: "inv c \<Longrightarrow> x \<in> set (items c) \<Longrightarrow> get_at (items c) (ident x) = Some x"
  using dense by (auto simp: get_at_def in_set_conv_nth)

lemma ident_distinct: "inv c \<Longrightarrow> distinct (map ident (items c))"
  using dense by (simp add: distinct_conv_nth)

lemma ident_inj: "inv c \<Longrightarrow> x \<in> set (items c) \<Longrightarrow> y \<in> set (items c) \<Longrightarrow> ident x = ident y \<Longrightarrow> x = y"
  by (metis lookup_member option.inject)

end

section \<open>Well-formed catalogs\<close>

definition columns_in :: "catalog \<Rightarrow> table_id \<Rightarrow> column_id list \<Rightarrow> bool" where
  "columns_in c t cols \<longleftrightarrow>
     (\<forall>i \<in> set cols. i < length (cat_columns c) \<and> col_table (cat_columns c ! i) = t)"

definition tables_wf :: "catalog \<Rightarrow> bool" where
  "tables_wf c \<longleftrightarrow>
     (\<forall>i < length (cat_tables c). let t = cat_tables c ! i in
        tb_id t = i \<and> tb_key t = TableKey (tb_schema t) (tb_name t) \<and>
        columns_in c i (tb_columns t) \<and> columns_in c i (tb_primary_key t) \<and>
        (\<forall>u \<in> set (tb_unique_constraints t). columns_in c i u) \<and>
        (\<forall>ix \<in> set (tb_indexes t). columns_in c i (map ik_column (ix_keys ix))) \<and>
        (\<forall>r \<in> set (tb_relations t). r < length (cat_relations c) \<and>
           rel_from_table (cat_relations c ! r) = i)) \<and>
     distinct (map tb_key (cat_tables c))"

definition columns_wf :: "catalog \<Rightarrow> bool" where
  "columns_wf c \<longleftrightarrow>
     (\<forall>i < length (cat_columns c). let col = cat_columns c ! i in
        col_id col = i \<and> col_table col < length (cat_tables c) \<and>
        col_type_id col < length (cat_types c))"

definition relations_wf :: "catalog \<Rightarrow> bool" where
  "relations_wf c \<longleftrightarrow>
     (\<forall>i < length (cat_relations c). let r = cat_relations c ! i in
        rel_id r = i \<and> rel_from_table r < length (cat_tables c) \<and>
        rel_to_table r < length (cat_tables c) \<and>
        rel_local_columns r \<noteq> [] \<and>
        length (rel_local_columns r) = length (rel_target_columns r) \<and>
        columns_in c (rel_from_table r) (rel_local_columns r) \<and>
        columns_in c (rel_to_table r) (rel_target_columns r))"

definition types_wf :: "catalog \<Rightarrow> bool" where
  "types_wf c \<longleftrightarrow>
     (\<forall>i < length (cat_types c). ty_id (cat_types c ! i) = i) \<and> types_acyclic (cat_types c)"

definition catalog_wf :: "catalog \<Rightarrow> bool" where
  "catalog_wf c \<longleftrightarrow> tables_wf c \<and> columns_wf c \<and> relations_wf c \<and> types_wf c"

lemmas catalog_wf_defs = catalog_wf_def tables_wf_def columns_wf_def relations_wf_def types_wf_def

interpretation table_arena: arena cat_tables tb_id catalog_wf
  by unfold_locales (simp add: catalog_wf_defs Let_def)

interpretation column_arena: arena cat_columns col_id catalog_wf
  by unfold_locales (simp add: catalog_wf_defs Let_def)

interpretation relation_arena: arena cat_relations rel_id catalog_wf
  by unfold_locales (simp add: catalog_wf_defs Let_def)

interpretation type_arena: arena cat_types ty_id catalog_wf
  by unfold_locales (simp add: catalog_wf_defs)

section \<open>Reference resolution\<close>

lemma catalog_table_Some:
  "catalog_table c schema name = Some t \<Longrightarrow>
     t \<in> set (cat_tables c) \<and> tb_visible t \<and> tb_schema t = schema \<and> tb_name t = name"
  unfolding catalog_table_def by (drule find_SomeD) simp

definition visible_named :: "catalog \<Rightarrow> table_ref \<Rightarrow> table list" where
  "visible_named c r =
     filter (\<lambda>t. tb_visible t \<and> tb_name t = tref_name r \<and>
                 (case tref_schema r of None \<Rightarrow> True | Some s \<Rightarrow> tb_schema t = s)) (cat_tables c)"

lemma visible_named_schema_le_one:
  assumes "catalog_wf c" and "tref_schema r = Some s"
    and "t \<in> set (visible_named c r)" and "u \<in> set (visible_named c r)"
  shows "t = u"
proof -
  from assms(2-4) have "tb_schema t = tb_schema u" "tb_name t = tb_name u"
    and m: "t \<in> set (cat_tables c)" "u \<in> set (cat_tables c)" by (auto simp: visible_named_def)
  moreover have "\<And>x. x \<in> set (cat_tables c) \<Longrightarrow> tb_key x = TableKey (tb_schema x) (tb_name x)"
    using assms(1) by (auto simp: catalog_wf_defs Let_def in_set_conv_nth)
  ultimately have "tb_key t = tb_key u" by simp
  moreover have "distinct (map tb_key (cat_tables c))"
    using assms(1) by (auto simp: catalog_wf_defs)
  ultimately show "t = u" using m by (auto simp: distinct_map inj_on_def)
qed

lemma visible_named_unique_list:
  assumes "catalog_wf c" and "tref_schema r = Some s" and "t \<in> set (visible_named c r)"
  shows "visible_named c r = [t]"
proof -
  have "distinct (cat_tables c)"
    using table_arena.ident_distinct[OF assms(1)] by (simp add: distinct_map)
  then have d: "distinct (visible_named c r)" by (simp add: visible_named_def)
  have "set (visible_named c r) = {t}"
    using visible_named_schema_le_one[OF assms(1,2)] assms(3) by blast
  with d have "length (visible_named c r) = 1" by (metis distinct_card is_singletonI is_singleton_altdef)
  then obtain u where "visible_named c r = [u]" by (auto simp: length_Suc_conv)
  with assms(3) show ?thesis by simp
qed

text \<open>
  On a well-formed catalog a table reference, qualified or not, resolves by the visible
  tables that match it and by nothing else: to the table when there is exactly one, to
  \<open>NotFound\<close> when there is none, and otherwise to an ambiguity that lists exactly the keys of
  the matching tables, in key order. A hidden table is never found.
\<close>

theorem resolve_table_ref_correct:
  assumes "catalog_wf c"
  shows "resolve_table_ref_for c r =
    (case visible_named c r of
       [] \<Rightarrow> TableNotFound (table_ref_display r)
     | [t] \<Rightarrow> TableFound t
     | ts \<Rightarrow> TableAmbiguous (table_ref_display r) (sort (map tb_key ts)))"
proof (cases "tref_schema r")
  case None
  then show ?thesis
    by (auto simp: resolve_table_ref_for_def visible_named_def Let_def split: list.splits)
next
  case (Some s)
  show ?thesis
  proof (cases "catalog_table c s (tref_name r)")
    case None
    then have "visible_named c r = []"
      using Some by (auto simp: catalog_table_def visible_named_def find_None_iff2 filter_empty_conv)
    with None Some show ?thesis by (simp add: resolve_table_ref_for_def)
  next
    case (Some t)
    from catalog_table_Some[OF this] \<open>tref_schema r = Some s\<close>
    have "t \<in> set (visible_named c r)" by (simp add: visible_named_def)
    from visible_named_unique_list[OF assms \<open>tref_schema r = Some s\<close> this] Some
      \<open>tref_schema r = Some s\<close>
    show ?thesis by (simp add: resolve_table_ref_for_def)
  qed
qed

section \<open>Field checks\<close>

lemma map_filter_get_at_set:
  "x \<in> set (List.map_filter (get_at xs) is) \<Longrightarrow> \<exists>i \<in> set is. get_at xs i = Some x"
  by (induction "is") (auto simp: List.map_filter_simps split: option.splits)

lemma direct_column_Some:
  assumes "direct_column c t f = Some col"
  shows "tref_schema (fref_target f) = None \<and> fref_selector f = None \<and> col_visible col \<and>
    col_name col = tref_name (fref_target f) \<and>
    (\<exists>i \<in> set (tb_columns t). get_at (cat_columns c) i = Some col)"
  using assms
  by (auto simp: direct_column_def split: if_splits dest!: find_SomeD map_filter_get_at_set)

lemma relation_field_ofD:
  "relation_field_of c r = Some f \<Longrightarrow>
     rf_relation f = r \<and> rf_name f = rel_name r \<and> rf_selector f = rel_selector r \<and>
     get_at (cat_tables c) (rel_to_table r) = Some (rf_table f)"
  by (auto simp: relation_field_of_def)

lemma map_filter_memD: "y \<in> set (List.map_filter f xs) \<Longrightarrow> \<exists>x \<in> set xs. f x = Some y"
  by (induction xs) (auto simp: List.map_filter_simps split: option.splits)

lemma relation_fields_for_table_mem:
  assumes "f \<in> set (relation_fields_for_table c i)"
  shows "\<exists>t. get_at (cat_tables c) i = Some t \<and>
    (\<exists>k \<in> set (tb_relations t). get_at (cat_relations c) k = Some (rf_relation f)) \<and>
    rel_visible (rf_relation f) \<and> tb_visible (rf_table f) \<and>
    get_at (cat_tables c) (rel_to_table (rf_relation f)) = Some (rf_table f)"
proof -
  from assms obtain t where t: "get_at (cat_tables c) i = Some t"
    and f: "f \<in> set (List.map_filter (relation_field_of c)
            (filter (relation_exposed c) (List.map_filter (get_at (cat_relations c)) (tb_relations t))))"
    by (cases "get_at (cat_tables c) i") (auto simp: relation_fields_for_table_def)
  from map_filter_memD[OF f] obtain r where r: "relation_exposed c r" "relation_field_of c r = Some f"
    "r \<in> set (List.map_filter (get_at (cat_relations c)) (tb_relations t))" by auto
  from map_filter_get_at_set[OF r(3)] relation_field_ofD[OF r(2)] r(1) t
  show ?thesis by (auto simp: relation_exposed_def split: option.splits)
qed

definition field_check_sound :: "catalog \<Rightarrow> table_id \<Rightarrow> field_ref \<Rightarrow> field_check_result \<Rightarrow> bool" where
  "field_check_sound c i f result \<longleftrightarrow> (case result of
      FieldColumn col \<Rightarrow>
        tref_schema (fref_target f) = None \<and> fref_selector f = None \<and> col_visible col \<and>
        col_name col = tref_name (fref_target f) \<and> col_table col = i \<and>
        column_by_id c (col_id col) = Some col
    | FieldRelation r \<Rightarrow>
        rel_visible (rf_relation r) \<and> tb_visible (rf_table r) \<and>
        rel_from_table (rf_relation r) = i \<and> rel_to_table (rf_relation r) = tb_id (rf_table r) \<and>
        rel_name (rf_relation r) = tref_name (fref_target f) \<and>
        tb_schema (rf_table r) =
          (case tref_schema (fref_target f) of None \<Rightarrow> cat_default_schema c | Some s \<Rightarrow> s) \<and>
        pred_option (\<lambda>s. s = rel_selector (rf_relation r)) (fref_selector f) \<and>
        relation_candidates c (cat_tables c ! i) f = [r]
    | FieldNotFound \<Rightarrow> True
    | FieldAmbiguousRelation _ candidates \<Rightarrow>
        2 \<le> length candidates \<and>
        candidates = map candidate_display (relation_candidates c (cat_tables c ! i) f))"

lemma check_field_ref_facts:
  assumes "catalog_wf c"
  shows "field_check_sound c i f (check_field_ref c i f)"
proof (cases "get_at (cat_tables c) i")
  case None
  then show ?thesis by (simp add: field_check_sound_def check_field_ref_def)
next
  case (Some t)
  then have i: "i < length (cat_tables c)" "t = cat_tables c ! i" by (auto simp: get_at_Some_iff)
  have tid: "tb_id t = i" using table_arena.lookup_ident[OF assms Some] .
  show ?thesis
  proof (cases "direct_column c t f")
    case (Some col)
    from direct_column_Some[OF this] obtain k where k: "k \<in> set (tb_columns t)"
      "get_at (cat_columns c) k = Some col" by blast
    have "columns_in c i (tb_columns t)"
      using assms i by (auto simp: catalog_wf_defs Let_def)
    with k have "col_table col = i" by (auto simp: columns_in_def get_at_Some_iff)
    moreover have "col_id col = k" using column_arena.lookup_ident[OF assms k(2)] .
    ultimately show ?thesis
      using direct_column_Some[OF Some] Some \<open>get_at (cat_tables c) i = Some t\<close> k(2)
      by (simp add: field_check_sound_def check_field_ref_def column_by_id_def)
  next
    case None
    have rel: "rel_visible (rf_relation r) \<and> tb_visible (rf_table r) \<and>
        rel_from_table (rf_relation r) = i \<and> rel_to_table (rf_relation r) = tb_id (rf_table r) \<and>
        rel_name (rf_relation r) = tref_name (fref_target f) \<and>
        tb_schema (rf_table r) =
          (case tref_schema (fref_target f) of None \<Rightarrow> cat_default_schema c | Some s \<Rightarrow> s) \<and>
        pred_option (\<lambda>s. s = rel_selector (rf_relation r)) (fref_selector f)"
      if "r \<in> set (relation_candidates c t f)" for r
    proof -
      from that have mem: "r \<in> set (relation_fields_for_table c i)"
        and "rel_name (rf_relation r) = tref_name (fref_target f)"
        "tb_schema (rf_table r) =
          (case tref_schema (fref_target f) of None \<Rightarrow> cat_default_schema c | Some s \<Rightarrow> s)"
        "pred_option (\<lambda>s. s = rel_selector (rf_relation r)) (fref_selector f)"
        by (auto simp: relation_candidates_def Let_def tid split: option.splits)
      moreover from relation_fields_for_table_mem[OF mem] Some obtain k where
        k: "k \<in> set (tb_relations t)" "get_at (cat_relations c) k = Some (rf_relation r)"
        and vis: "rel_visible (rf_relation r)" "tb_visible (rf_table r)"
        and to: "get_at (cat_tables c) (rel_to_table (rf_relation r)) = Some (rf_table r)" by auto
      moreover have "\<forall>k \<in> set (tb_relations t). k < length (cat_relations c) \<and>
          rel_from_table (cat_relations c ! k) = i"
        using assms i by (auto simp: catalog_wf_defs Let_def)
      then have "rel_from_table (rf_relation r) = i"
        using k by (metis get_at_Some_iff)
      moreover have "rel_to_table (rf_relation r) = tb_id (rf_table r)"
        using table_arena.lookup_ident[OF assms to] by simp
      ultimately show ?thesis by simp
    qed
    show ?thesis
    proof (cases "relation_candidates c t f" rule: remdups_adj.cases)
      case 1
      with Some None show ?thesis by (simp add: field_check_sound_def check_field_ref_def)
    next
      case (2 r)
      with Some None rel[of r] i show ?thesis by (simp add: field_check_sound_def check_field_ref_def)
    next
      case (3 r r' rs)
      with Some None i show ?thesis by (simp add: field_check_sound_def check_field_ref_def)
    qed
  qed
qed

lemma check_field_ref_column:
  assumes "catalog_wf c" and "check_field_ref c i f = FieldColumn col"
  shows "col_visible col \<and> col_table col = i \<and> column_by_id c (col_id col) = Some col"
  using check_field_ref_facts[OF assms(1), of i f] assms(2) by (simp add: field_check_sound_def)

lemma check_field_ref_relation:
  assumes "catalog_wf c" and "check_field_ref c i f = FieldRelation r"
  shows "relation_by_id c (rel_id (rf_relation r)) = Some (rf_relation r) \<and>
    rel_from_table (rf_relation r) = i \<and> rel_to_table (rf_relation r) = tb_id (rf_table r) \<and>
    table_by_id c (tb_id (rf_table r)) = Some (rf_table r)"
proof -
  from assms(2) obtain t where t: "get_at (cat_tables c) i = Some t"
    and "relation_candidates c t f = [r]"
    by (auto simp: check_field_ref_def split: option.splits list.splits)
  then have "r \<in> set (relation_candidates c t f)" by simp
  then have "r \<in> set (relation_fields_for_table c (tb_id t))"
    by (simp add: relation_candidates_def Let_def)
  from relation_fields_for_table_mem[OF this] obtain k where
    k: "get_at (cat_relations c) k = Some (rf_relation r)"
    and "get_at (cat_tables c) (rel_to_table (rf_relation r)) = Some (rf_table r)" by blast
  moreover have "rel_id (rf_relation r) = k" by (rule relation_arena.lookup_ident[OF assms(1) k])
  ultimately show ?thesis
    using check_field_ref_facts[OF assms(1), of i f] assms(2)
    by (simp add: field_check_sound_def relation_by_id_def table_by_id_def)
qed

text \<open>
  A field reference that checks as a column names, unqualified, a visible column of the
  context table; one that checks as a relation is a visible relation that starts at the
  context table and leads to a visible table, with the written name, schema (the default
  schema where none is written) and selector, and no other exposed relation matches.
\<close>

theorem check_field_ref_sound:
  assumes "catalog_wf c"
  shows "case check_field_ref c i f of
      FieldColumn col \<Rightarrow>
        tref_schema (fref_target f) = None \<and> fref_selector f = None \<and> col_visible col \<and>
        col_name col = tref_name (fref_target f) \<and> col_table col = i \<and>
        column_by_id c (col_id col) = Some col
    | FieldRelation r \<Rightarrow>
        rel_visible (rf_relation r) \<and> tb_visible (rf_table r) \<and>
        rel_from_table (rf_relation r) = i \<and> rel_to_table (rf_relation r) = tb_id (rf_table r) \<and>
        rel_name (rf_relation r) = tref_name (fref_target f) \<and>
        tb_schema (rf_table r) =
          (case tref_schema (fref_target f) of None \<Rightarrow> cat_default_schema c | Some s \<Rightarrow> s) \<and>
        pred_option (\<lambda>s. s = rel_selector (rf_relation r)) (fref_selector f) \<and>
        relation_candidates c (cat_tables c ! i) f = [r]
    | FieldNotFound \<Rightarrow> True
    | FieldAmbiguousRelation _ candidates \<Rightarrow>
        2 \<le> length candidates \<and>
        candidates = map candidate_display (relation_candidates c (cat_tables c ! i) f)"
  using check_field_ref_facts[OF assms, of i f] by (simp only: field_check_sound_def)

lemma column_set_is_unique_mono:
  assumes "column_set_is_unique c i columns" and "set columns \<subseteq> set columns'"
  shows "column_set_is_unique c i columns'"
proof -
  have "column_set_covers columns u \<Longrightarrow> column_set_covers columns' u" for u
    using assms(2) by (auto simp: column_set_covers_def list_all_iff)
  with assms show ?thesis
    by (fastforce simp: column_set_is_unique_def table_column_set_is_unique_def list_all_iff
        list_ex_iff split: option.splits)
qed

end
