(* ===== verification/Catalog_Build.thy ===== *)
theory Catalog_Build
  imports Metadata_Types_Build Catalog_Lookup
begin

text \<open>
  \<open>Catalog::try_from_metadata\<close> (\<open>crates/dsql-core/src/catalog/metadata.rs\<close>): the loops
  that register schemas, tables and columns, resolve constraints, indexes and foreign keys
  against the registered columns, and derive both directions of every foreign-key relation.

  The local variables of the function are the fields of \<open>builder\<close>; each loop body is one
  step on it. Indexing a vector or a hash map that would panic is \<open>Panic\<close>.
\<close>

section \<open>State of the build\<close>

record builder =
  bl_schemas :: "schema list"
  bl_tables :: "table list"
  bl_columns :: "column list"
  bl_foreign_keys :: "foreign_key list"
  bl_schema_ids :: "string \<rightharpoonup> schema_id"
  bl_table_ids :: "string \<times> string \<rightharpoonup> table_id"
  bl_column_ids :: "string \<times> string \<times> string \<rightharpoonup> column_id"
  bl_table_columns :: "column_id list list"
  bl_primary_keys :: "column_id list list"
  bl_unique_constraints :: "column_id list list list"
  bl_indexes :: "index list list"
  bl_foreign_key_keys :: "(column_id list \<times> column_id list) set"

definition builder_empty :: builder where
  "builder_empty =
     \<lparr>bl_schemas = [], bl_tables = [], bl_columns = [], bl_foreign_keys = [],
      bl_schema_ids = Map.empty, bl_table_ids = Map.empty, bl_column_ids = Map.empty,
      bl_table_columns = [], bl_primary_keys = [], bl_unique_constraints = [], bl_indexes = [],
      bl_foreign_key_keys = {}\<rparr>"

definition all_tables :: "database_metadata \<Rightarrow> (schema_metadata \<times> table_metadata) list" where
  "all_tables m = concat (map (\<lambda>s. map (Pair s) (sm_tables s)) (dm_schemas m))"

definition table_name_key :: "schema_metadata \<Rightarrow> table_metadata \<Rightarrow> string \<times> string" where
  "table_name_key s t = (effective_table_schema s t, tm_name t)"

section \<open>Registration of schemas, tables and columns\<close>

definition add_schema :: "builder \<Rightarrow> schema_metadata \<Rightarrow> builder build" where
  "add_schema b s =
     (if bl_schema_ids b (sm_name s) \<noteq> None then fail (DuplicateSchema (sm_name s))
      else
        let schema_id = length (bl_schemas b) in
        Inr (b\<lparr>bl_schema_ids := (bl_schema_ids b)(sm_name s \<mapsto> schema_id),
               bl_schemas := bl_schemas b @ [schema_new schema_id (sm_name s) []]\<rparr>))"

definition add_table :: "builder \<Rightarrow> schema_metadata \<times> table_metadata \<Rightarrow> builder build" where
  "add_table b entry =
     (let (s, t) = entry in
      rbind (key_at (bl_schema_ids b) (sm_name s)) (\<lambda>schema_id.
      let table_schema = effective_table_schema s t; key = (table_schema, tm_name t) in
      if bl_table_ids b key \<noteq> None then fail (DuplicateTable table_schema (tm_name t))
      else
        let table_id = length (bl_tables b) in
        rbind (modify_at schema_id (\<lambda>sch. sch\<lparr>sch_tables := sch_tables sch @ [table_id]\<rparr>)
                (bl_schemas b)) (\<lambda>schemas.
        Inr (b\<lparr>bl_schemas := schemas,
               bl_tables := bl_tables b @
                 [table_new table_id schema_id table_schema (tm_name t) (tm_object_type t)
                    (tm_description t) [] [] [] [] []],
               bl_table_ids := (bl_table_ids b)(key \<mapsto> table_id),
               bl_table_columns := bl_table_columns b @ [[]],
               bl_primary_keys := bl_primary_keys b @ [[]],
               bl_unique_constraints := bl_unique_constraints b @ [[]],
               bl_indexes := bl_indexes b @ [[]]\<rparr>))))"

definition add_column ::
  "(type_key \<rightharpoonup> type_id) \<Rightarrow> builder \<Rightarrow> schema_metadata \<times> table_metadata \<times> column_metadata
   \<Rightarrow> builder build" where
  "add_column type_ids b entry =
     (let (s, t, c) = entry; table_schema = effective_table_schema s t;
          key = (table_schema, tm_name t, cm_name c) in
      rbind (key_at (bl_table_ids b) (table_schema, tm_name t)) (\<lambda>table_id.
      if bl_column_ids b key \<noteq> None then
        fail (DuplicateColumn table_schema (tm_name t) (cm_name c))
      else
        let column_id = length (bl_columns b) in
        rbind (modify_at table_id (\<lambda>cols. cols @ [column_id]) (bl_table_columns b)) (\<lambda>table_columns.
        rbind (key_at type_ids (cm_provider_type c)) (\<lambda>type_id.
        Inr (b\<lparr>bl_table_columns := table_columns,
               bl_column_ids := (bl_column_ids b)(key \<mapsto> column_id),
               bl_columns := bl_columns b @
                 [column_new column_id table_id table_schema (tm_name t) (cm_name c)
                    (cm_description c) type_id
                    (case cm_formatted_type c of
                       Some formatted \<Rightarrow> formatted
                     | None \<Rightarrow> data_type_name (cm_data_type c))
                    (cm_type_modifier c) (cm_not_null c) False]\<rparr>)))))"

section \<open>Constraints and indexes\<close>

definition resolve_local_columns ::
  "(string \<times> string \<times> string \<rightharpoonup> column_id) \<Rightarrow> string \<Rightarrow> string \<Rightarrow> string \<Rightarrow> string list
   \<Rightarrow> column_id list build" where
  "resolve_local_columns column_ids schema tbl name column_names =
     (if column_names = [] then fail (EmptyColumnSet schema tbl name)
      else collect_results
        (\<lambda>c. ok_or (column_ids (schema, tbl, c)) (Err (MissingColumn schema tbl c)))
        column_names)"

definition push_unique_constraint ::
  "column_id list \<Rightarrow> column_id list list \<Rightarrow> column_id list list" where
  "push_unique_constraint columns constraints =
     (if list_ex (\<lambda>existing. existing = columns) constraints then constraints
      else constraints @ [columns])"

definition add_constraint ::
  "schema_metadata \<Rightarrow> table_metadata \<Rightarrow> table_id \<Rightarrow> builder \<Rightarrow> table_constraint_metadata
   \<Rightarrow> builder build" where
  "add_constraint s t table_id b k =
     (let constraint_name = (case tcm_name k of
            Some name \<Rightarrow> name | None \<Rightarrow> table_constraint_kind_as_ref (tcm_kind k)) in
      rbind (resolve_local_columns (bl_column_ids b) (effective_table_schema s t) (tm_name t)
               constraint_name (tcm_columns k)) (\<lambda>columns.
      case tcm_kind k of
        PrimaryKeyConstraint \<Rightarrow>
          rbind (modify_at table_id (\<lambda>_. columns) (bl_primary_keys b)) (\<lambda>primary_keys.
          rbind (modify_at table_id (push_unique_constraint columns) (bl_unique_constraints b))
            (\<lambda>uniques.
          Inr (b\<lparr>bl_primary_keys := primary_keys, bl_unique_constraints := uniques\<rparr>)))
      | UniqueConstraint \<Rightarrow>
          rbind (modify_at table_id (push_unique_constraint columns) (bl_unique_constraints b))
            (\<lambda>uniques.
          Inr (b\<lparr>bl_unique_constraints := uniques\<rparr>))))"

text \<open>\<open>capabilities.sort()\<close> on the derived order, then \<open>dedup()\<close>.\<close>

fun index_key_capability_rank :: "index_key_capability \<Rightarrow> nat" where
  "index_key_capability_rank CapEquality = 0"
| "index_key_capability_rank CapRange = 1"
| "index_key_capability_rank CapLike = 2"

definition index_key_of :: "index_key_metadata \<times> column_id \<Rightarrow> index_key" where
  "index_key_of entry =
     (let (key, col) = entry in
      \<lparr>ik_column = col, ik_operator_class = ikm_operator_class key,
       ik_capabilities = remdups_adj (sort_key index_key_capability_rank (ikm_capabilities key)),
       ik_order = ikm_order key\<rparr>)"

text \<open>The \<open>if index.unique\<close> block: the constraint, and the flag of a lone column.\<close>

definition mark_unique_index ::
  "table_id \<Rightarrow> column_id list \<Rightarrow> builder \<Rightarrow> builder build" where
  "mark_unique_index table_id index_columns b =
     rbind (modify_at table_id (push_unique_constraint index_columns) (bl_unique_constraints b))
       (\<lambda>uniques.
     if length index_columns = 1 then
       rbind (index_at index_columns 0) (\<lambda>first.
       rbind (modify_at first (\<lambda>c. c\<lparr>col_is_unique := True\<rparr>) (bl_columns b)) (\<lambda>columns.
       Inr (b\<lparr>bl_unique_constraints := uniques, bl_columns := columns\<rparr>)))
     else Inr (b\<lparr>bl_unique_constraints := uniques\<rparr>))"

definition add_index ::
  "schema_metadata \<Rightarrow> table_metadata \<Rightarrow> table_id \<Rightarrow> builder \<Rightarrow> index_metadata \<Rightarrow> builder build" where
  "add_index s t table_id b ix =
     (let index_name = (case ixm_name ix of Some name \<Rightarrow> name | None \<Rightarrow> ''index'');
          resolve = resolve_local_columns (bl_column_ids b) (effective_table_schema s t)
                      (tm_name t) index_name in
      rbind (resolve (map ikm_column (ixm_keys ix))) (\<lambda>index_columns.
      rbind (if ixm_included_columns ix = [] then Inr [] else resolve (ixm_included_columns ix))
        (\<lambda>included_columns.
      rbind (if ixm_unique ix then mark_unique_index table_id index_columns b else Inr b) (\<lambda>b.
      rbind (modify_at table_id (\<lambda>indexes. indexes @
               [\<lparr>ix_name = ixm_name ix, ix_access_method = ixm_access_method ix,
                 ix_keys = map index_key_of (zip (ixm_keys ix) index_columns),
                 ix_included_columns = included_columns, ix_is_unique = ixm_unique ix\<rparr>])
               (bl_indexes b)) (\<lambda>indexes.
      Inr (b\<lparr>bl_indexes := indexes\<rparr>))))))"

definition add_table_keys :: "builder \<Rightarrow> schema_metadata \<times> table_metadata \<Rightarrow> builder build" where
  "add_table_keys b entry =
     (let (s, t) = entry in
      rbind (key_at (bl_table_ids b) (effective_table_schema s t, tm_name t)) (\<lambda>table_id.
      rbind (rfold (add_constraint s t table_id) b (tm_constraints t)) (\<lambda>b.
      rfold (add_index s t table_id) b (tm_indexes t))))"

section \<open>Foreign keys\<close>

definition add_foreign_key ::
  "string option \<Rightarrow> column_id list \<Rightarrow> column_id list \<Rightarrow> table_id \<Rightarrow> table_id \<Rightarrow> builder \<Rightarrow> builder" where
  "add_foreign_key name from_columns to_columns from_table to_table b =
     (if (from_columns, to_columns) \<in> bl_foreign_key_keys b then b
      else b\<lparr>bl_foreign_key_keys := insert (from_columns, to_columns) (bl_foreign_key_keys b),
             bl_foreign_keys := bl_foreign_keys b @
               [\<lparr>fk_id = length (bl_foreign_keys b), fk_name = name, fk_from_columns = from_columns,
                 fk_to_columns = to_columns, fk_from_table = from_table, fk_to_table = to_table\<rparr>]\<rparr>)"

definition add_metadata_foreign_key ::
  "schema_metadata \<Rightarrow> table_metadata \<Rightarrow> table_id \<Rightarrow> builder \<Rightarrow> foreign_key_metadata \<Rightarrow> builder build" where
  "add_metadata_foreign_key s t from_table b k =
     (let table_schema = effective_table_schema s t;
          name = (case fkm_name k of Some name \<Rightarrow> name | None \<Rightarrow> ''foreign_key'') in
      if length (fkm_columns k) \<noteq> length (fkm_ref_columns k) then
        fail (ForeignKeyColumnCountMismatch table_schema (tm_name t) name
          (length (fkm_columns k)) (length (fkm_ref_columns k)))
      else
        rbind (resolve_local_columns (bl_column_ids b) table_schema (tm_name t) name (fkm_columns k))
          (\<lambda>from_columns.
        rbind (collect_results
                 (\<lambda>c. ok_or (bl_column_ids b (fkm_ref_schema k, fkm_ref_table k, c))
                   (Err (MissingForeignKeyTarget (fkm_ref_schema k) (fkm_ref_table k) c)))
                 (fkm_ref_columns k)) (\<lambda>to_columns.
        rbind (index_at to_columns 0) (\<lambda>first.
        rbind (index_at (bl_columns b) first) (\<lambda>col.
        Inr (add_foreign_key (fkm_name k) from_columns to_columns from_table (col_table col) b))))))"

definition add_table_foreign_keys ::
  "builder \<Rightarrow> schema_metadata \<times> table_metadata \<Rightarrow> builder build" where
  "add_table_foreign_keys b entry =
     (let (s, t) = entry in
      rbind (key_at (bl_table_ids b) (effective_table_schema s t, tm_name t)) (\<lambda>from_table.
      rfold (add_metadata_foreign_key s t from_table) b (tm_foreign_keys t)))"

section \<open>Finished tables and relations\<close>

definition finish_table :: "builder \<Rightarrow> table \<Rightarrow> table build" where
  "finish_table b t =
     rbind (index_at (bl_primary_keys b) (tb_id t)) (\<lambda>primary_key.
     rbind (index_at (bl_unique_constraints b) (tb_id t)) (\<lambda>uniques.
     rbind (index_at (bl_table_columns b) (tb_id t)) (\<lambda>columns.
     rbind (index_at (bl_indexes b) (tb_id t)) (\<lambda>indexes.
     Inr (t\<lparr>tb_columns := columns, tb_primary_key := primary_key,
            tb_unique_constraints :=
              (if primary_key \<noteq> [] then push_unique_constraint primary_key uniques else uniques),
            tb_indexes := indexes\<rparr>)))))"

definition forward_relation ::
  "string \<Rightarrow> table \<Rightarrow> foreign_key \<Rightarrow> relation_id \<Rightarrow> column list \<Rightarrow> relation" where
  "forward_relation selector to_table k i from_columns =
     \<lparr>rel_id = i, rel_name = tb_name to_table, rel_selector = selector, rel_visible = True,
      rel_from_table = fk_from_table k, rel_to_table = fk_to_table k,
      rel_local_columns = fk_from_columns k, rel_target_columns = fk_to_columns k,
      rel_cardinality = RelSingular,
      rel_nullable = list_ex (\<lambda>c. \<not> col_not_null c) from_columns,
      rel_join_support = Some (fk_id k), rel_join_direction = Some Referencing,
      rel_supports = relation_supports_default\<rparr>"

definition reverse_relation :: "string \<Rightarrow> table \<Rightarrow> foreign_key \<Rightarrow> relation_id \<Rightarrow> relation" where
  "reverse_relation selector from_table k i =
     \<lparr>rel_id = i, rel_name = tb_name from_table, rel_selector = selector, rel_visible = True,
      rel_from_table = fk_to_table k, rel_to_table = fk_from_table k,
      rel_local_columns = fk_to_columns k, rel_target_columns = fk_from_columns k,
      rel_cardinality =
        (if table_column_set_is_unique from_table (fk_from_columns k)
         then RelSingular else RelCollection),
      rel_nullable = True,
      rel_join_support = Some (fk_id k), rel_join_direction = Some Referenced,
      rel_supports = relation_supports_default\<rparr>"

definition push_relation :: "relation_id \<Rightarrow> table \<Rightarrow> table" where
  "push_relation i t = t\<lparr>tb_relations := tb_relations t @ [i]\<rparr>"

definition add_relations ::
  "column list \<Rightarrow> table list \<times> relation list \<Rightarrow> foreign_key \<Rightarrow> (table list \<times> relation list) build" where
  "add_relations columns st k =
     (let (tables, relations) = st in
      rbind (collect_results (index_at columns) (fk_from_columns k)) (\<lambda>from_columns.
      let selector = join_with ''_'' (map col_name from_columns); forward = length relations in
      rbind (index_at tables (fk_to_table k)) (\<lambda>to_table.
      let relations =
            relations @ [forward_relation selector to_table k forward from_columns] in
      rbind (modify_at (fk_from_table k) (push_relation forward) tables) (\<lambda>tables.
      let reverse = length relations in
      rbind (index_at tables (fk_from_table k)) (\<lambda>from_table.
      let relations = relations @ [reverse_relation selector from_table k reverse] in
      rbind (modify_at (fk_to_table k) (push_relation reverse) tables) (\<lambda>tables.
      Inr (tables, relations)))))))"

section \<open>The whole build\<close>

definition register_names :: "(type_key \<rightharpoonup> type_id) \<Rightarrow> database_metadata \<Rightarrow> builder build" where
  "register_names type_ids m =
     rbind (rfold add_schema builder_empty (dm_schemas m)) (\<lambda>b.
     rbind (rfold add_table b (all_tables m)) (\<lambda>b.
     rfold (add_column type_ids) b (all_columns m)))"

definition register_keys :: "database_metadata \<Rightarrow> builder \<Rightarrow> builder build" where
  "register_keys m b =
     rbind (rfold add_table_keys b (all_tables m)) (\<lambda>b.
     rfold add_table_foreign_keys b (all_tables m))"

definition try_from_metadata :: "database_metadata \<Rightarrow> catalog build" where
  "try_from_metadata m =
     rbind (build_catalog_types m) (\<lambda>(types, type_ids).
     rbind (register_names type_ids m) (\<lambda>b.
     rbind (register_keys m b) (\<lambda>b.
     rbind (collect_results (finish_table b) (bl_tables b)) (\<lambda>tables.
     rbind (rfold (add_relations (bl_columns b)) (tables, []) (bl_foreign_keys b))
       (\<lambda>(tables, relations).
     Inr \<lparr>cat_default_schema = default_schema_name, cat_schemas = bl_schemas b,
          cat_tables = tables, cat_types = types, cat_type_ids = type_ids,
          cat_columns = bl_columns b, cat_foreign_keys = bl_foreign_keys b,
          cat_relations = relations, cat_uniqueness_supports = []\<rparr>)))))"

end
