(* ===== verification/Catalog_Build_Facts.thy ===== *)
theory Catalog_Build_Facts
  imports Catalog_Build
begin

text \<open>
  The invariant of the catalog build and its preservation by every step of the loops. Each
  step lemma is a weakest-precondition fact (\<open>yields\<close>): under the invariant the step does
  not panic, and the builder it returns satisfies the invariant again.
\<close>

section \<open>The invariant\<close>

definition owned :: "column list \<Rightarrow> table_id \<Rightarrow> column_id list \<Rightarrow> bool" where
  "owned columns t cols \<longleftrightarrow> (\<forall>c \<in> set cols. c < length columns \<and> col_table (columns ! c) = t)"

definition schemas_inv :: "builder \<Rightarrow> bool" where
  "schemas_inv b \<longleftrightarrow>
     (\<forall>i < length (bl_schemas b). sch_id (bl_schemas b ! i) = i) \<and>
     (\<forall>n i. bl_schema_ids b n = Some i \<longrightarrow> i < length (bl_schemas b))"

definition tables_inv :: "builder \<Rightarrow> bool" where
  "tables_inv b \<longleftrightarrow>
     (\<forall>i < length (bl_tables b).
        tb_id (bl_tables b ! i) = i \<and>
        tb_key (bl_tables b ! i) = TableKey (tb_schema (bl_tables b ! i)) (tb_name (bl_tables b ! i)) \<and>
        tb_relations (bl_tables b ! i) = [] \<and>
        bl_table_ids b (tb_schema (bl_tables b ! i), tb_name (bl_tables b ! i)) = Some i) \<and>
     (\<forall>k i. bl_table_ids b k = Some i \<longrightarrow> i < length (bl_tables b))"

definition widths_inv :: "builder \<Rightarrow> bool" where
  "widths_inv b \<longleftrightarrow>
     length (bl_table_columns b) = length (bl_tables b) \<and>
     length (bl_primary_keys b) = length (bl_tables b) \<and>
     length (bl_unique_constraints b) = length (bl_tables b) \<and>
     length (bl_indexes b) = length (bl_tables b)"

definition columns_inv :: "nat \<Rightarrow> builder \<Rightarrow> bool" where
  "columns_inv n b \<longleftrightarrow>
     (\<forall>i < length (bl_columns b).
        col_id (bl_columns b ! i) = i \<and> col_table (bl_columns b ! i) < length (bl_tables b) \<and>
        col_type_id (bl_columns b ! i) < n) \<and>
     (\<forall>s t c i. bl_column_ids b (s, t, c) = Some i \<longrightarrow>
        i < length (bl_columns b) \<and>
        bl_table_ids b (s, t) = Some (col_table (bl_columns b ! i)))"

definition ownership_inv :: "builder \<Rightarrow> bool" where
  "ownership_inv b \<longleftrightarrow>
     (\<forall>i < length (bl_tables b).
        owned (bl_columns b) i (bl_table_columns b ! i) \<and>
        owned (bl_columns b) i (bl_primary_keys b ! i) \<and>
        (\<forall>u \<in> set (bl_unique_constraints b ! i). owned (bl_columns b) i u) \<and>
        (\<forall>ix \<in> set (bl_indexes b ! i). owned (bl_columns b) i (map ik_column (ix_keys ix))))"

definition flags_inv :: "builder \<Rightarrow> bool" where
  "flags_inv b \<longleftrightarrow>
     (\<forall>i < length (bl_columns b). col_is_unique (bl_columns b ! i) \<longrightarrow>
        [i] \<in> set (bl_unique_constraints b ! col_table (bl_columns b ! i)))"

definition fk_ok :: "table list \<Rightarrow> column list \<Rightarrow> foreign_key \<Rightarrow> bool" where
  "fk_ok tables columns k \<longleftrightarrow>
     fk_from_table k < length tables \<and> fk_to_table k < length tables \<and> fk_from_columns k \<noteq> [] \<and>
     length (fk_from_columns k) = length (fk_to_columns k) \<and>
     owned columns (fk_from_table k) (fk_from_columns k) \<and>
     owned columns (fk_to_table k) (fk_to_columns k)"

definition fk_pair :: "foreign_key \<Rightarrow> column_id list \<times> column_id list" where
  "fk_pair k = (fk_from_columns k, fk_to_columns k)"

definition fks_inv :: "builder \<Rightarrow> bool" where
  "fks_inv b \<longleftrightarrow>
     (\<forall>i < length (bl_foreign_keys b). fk_id (bl_foreign_keys b ! i) = i \<and>
        fk_ok (bl_tables b) (bl_columns b) (bl_foreign_keys b ! i)) \<and>
     distinct (map fk_pair (bl_foreign_keys b)) \<and>
     bl_foreign_key_keys b = fk_pair ` set (bl_foreign_keys b)"

definition builder_inv :: "nat \<Rightarrow> builder \<Rightarrow> bool" where
  "builder_inv n b \<longleftrightarrow> schemas_inv b \<and> tables_inv b \<and> widths_inv b \<and> columns_inv n b \<and>
     ownership_inv b \<and> flags_inv b \<and> fks_inv b"

lemmas builder_inv_defs = builder_inv_def schemas_inv_def tables_inv_def widths_inv_def
  columns_inv_def ownership_inv_def flags_inv_def fks_inv_def

lemma builder_inv_empty: "builder_inv n builder_empty"
  by (simp add: builder_inv_defs builder_empty_def)

lemma owned_Nil [simp]: "owned columns t []"
  by (simp add: owned_def)

lemma owned_append: "owned columns t cols \<Longrightarrow> owned (columns @ more_columns) t cols"
  by (auto simp: owned_def nth_append)

lemma owned_cong:
  "length columns' = length columns \<Longrightarrow>
   (\<And>i. i < length columns \<Longrightarrow> col_table (columns' ! i) = col_table (columns ! i)) \<Longrightarrow>
   owned columns' t cols = owned columns t cols"
  by (auto simp: owned_def)

text \<open>Before foreign keys are read, the builder has none; registration relies on it.\<close>

definition no_keys :: "builder \<Rightarrow> bool" where
  "no_keys b \<longleftrightarrow> bl_foreign_keys b = []"

section \<open>Registration\<close>

lemma add_schema_inv:
  assumes "builder_inv n b" and "bl_tables b = []" and "bl_columns b = []" and "no_keys b"
  shows "yields (add_schema b s) (\<lambda>b'. builder_inv n b' \<and> bl_tables b' = [] \<and> bl_columns b' = [] \<and>
    no_keys b' \<and> bl_schema_ids b' (sm_name s) \<noteq> None \<and>
    (\<forall>x. bl_schema_ids b x \<noteq> None \<longrightarrow> bl_schema_ids b' x \<noteq> None))"
  using assms
  by (auto simp: add_schema_def Let_def builder_inv_defs no_keys_def schema_new_def nth_append
      less_Suc_eq)

lemma add_table_inv:
  assumes inv: "builder_inv n b" and "bl_schema_ids b (sm_name s) \<noteq> None" and "no_keys b"
    and "bl_columns b = []"
  shows "yields (add_table b (s, t)) (\<lambda>b'. builder_inv n b' \<and> no_keys b' \<and> bl_columns b' = [] \<and>
    bl_schema_ids b' = bl_schema_ids b \<and>
    bl_table_ids b' (table_name_key s t) \<noteq> None \<and>
    (\<forall>x. bl_table_ids b x \<noteq> None \<longrightarrow> bl_table_ids b' x \<noteq> None) \<and>
    map tb_key (bl_tables b') = map tb_key (bl_tables b) @
      [TableKey (effective_table_schema s t) (tm_name t)])"
proof -
  from assms(2) obtain i where i: "bl_schema_ids b (sm_name s) = Some i" by auto
  with inv have il: "i < length (bl_schemas b)" by (auto simp: builder_inv_defs)
  show ?thesis
  proof (cases "bl_table_ids b (effective_table_schema s t, tm_name t)")
    case (Some j)
    with i show ?thesis by (simp add: add_table_def Let_def)
  next
    case None
    let ?b = "b\<lparr>bl_schemas := (bl_schemas b)[i := (bl_schemas b ! i)\<lparr>sch_tables :=
          sch_tables (bl_schemas b ! i) @ [length (bl_tables b)]\<rparr>],
        bl_tables := bl_tables b @ [table_new (length (bl_tables b)) i (effective_table_schema s t)
          (tm_name t) (tm_object_type t) (tm_description t) [] [] [] [] []],
        bl_table_ids := (bl_table_ids b)((effective_table_schema s t, tm_name t) \<mapsto> length (bl_tables b)),
        bl_table_columns := bl_table_columns b @ [[]],
        bl_primary_keys := bl_primary_keys b @ [[]],
        bl_unique_constraints := bl_unique_constraints b @ [[]],
        bl_indexes := bl_indexes b @ [[]]\<rparr>"
    have "schemas_inv ?b"
      using inv il by (auto simp: builder_inv_def schemas_inv_def nth_list_update)
    moreover have "tables_inv ?b"
      using inv None
      by (auto simp: builder_inv_def tables_inv_def nth_append table_new_def less_Suc_eq)
    moreover have "widths_inv ?b"
      using inv by (simp add: builder_inv_def widths_inv_def)
    moreover have "columns_inv n ?b"
      using inv assms(4) by (auto simp: builder_inv_def columns_inv_def)
    moreover have "ownership_inv ?b"
      using inv by (auto simp: builder_inv_def ownership_inv_def widths_inv_def nth_append less_Suc_eq)
    moreover have "flags_inv ?b"
      using assms(4) by (simp add: flags_inv_def)
    moreover have "fks_inv ?b"
      using inv assms(3) by (simp add: builder_inv_def fks_inv_def no_keys_def)
    ultimately have "builder_inv n ?b" by (simp add: builder_inv_def)
    with i il None assms(3,4) show ?thesis
      by (simp add: add_table_def Let_def no_keys_def table_name_key_def table_new_def)
  qed
qed

lemma add_column_inv:
  assumes inv: "builder_inv n b" and "bl_table_ids b (table_name_key s t) \<noteq> None" and "no_keys b"
    and ty: "type_ids (cm_provider_type c) = Some y" "y < n"
    and uniq: "\<forall>i < length (bl_columns b). \<not> col_is_unique (bl_columns b ! i)"
  shows "yields (add_column type_ids b (s, t, c)) (\<lambda>b'. builder_inv n b' \<and> no_keys b' \<and>
    (\<forall>i < length (bl_columns b'). \<not> col_is_unique (bl_columns b' ! i)) \<and>
    bl_table_ids b' = bl_table_ids b \<and> bl_tables b' = bl_tables b \<and>
    map col_key (bl_columns b') = map col_key (bl_columns b) @
      [ColumnKey (effective_table_schema s t) (tm_name t) (cm_name c)])"
proof -
  from assms(2) obtain i where i: "bl_table_ids b (effective_table_schema s t, tm_name t) = Some i"
    by (auto simp: table_name_key_def)
  with inv have il: "i < length (bl_tables b)" "i < length (bl_table_columns b)"
    by (auto simp: builder_inv_defs)
  let ?key = "(effective_table_schema s t, tm_name t, cm_name c)"
  show ?thesis
  proof (cases "bl_column_ids b ?key")
    case (Some j)
    with i show ?thesis by (simp add: add_column_def Let_def)
  next
    case None
    define col where "col = column_new (length (bl_columns b)) i (effective_table_schema s t)
      (tm_name t) (cm_name c) (cm_description c) y
      (case cm_formatted_type c of Some formatted \<Rightarrow> formatted
        | None \<Rightarrow> data_type_name (cm_data_type c)) (cm_type_modifier c) (cm_not_null c) False"
    have col: "col_id col = length (bl_columns b)" "col_table col = i" "col_type_id col = y"
      "\<not> col_is_unique col"
      "col_key col = ColumnKey (effective_table_schema s t) (tm_name t) (cm_name c)"
      by (simp_all add: col_def column_new_def)
    let ?b = "b\<lparr>bl_table_columns := (bl_table_columns b)[i := bl_table_columns b ! i @
          [length (bl_columns b)]],
        bl_column_ids := (bl_column_ids b)(?key \<mapsto> length (bl_columns b)),
        bl_columns := bl_columns b @ [col]\<rparr>"
    have "schemas_inv ?b" "tables_inv ?b" "widths_inv ?b"
      using inv by (simp_all add: builder_inv_def schemas_inv_def tables_inv_def widths_inv_def)
    moreover have "columns_inv n ?b"
      using inv i il ty(2) col
      by (auto simp: builder_inv_def columns_inv_def nth_append less_Suc_eq)
    moreover have "ownership_inv ?b"
      using inv i il col
      by (auto simp: builder_inv_def ownership_inv_def nth_list_update owned_def nth_append less_Suc_eq)
    moreover have "flags_inv ?b"
      using uniq col by (auto simp: flags_inv_def nth_append less_Suc_eq)
    moreover have "fks_inv ?b"
      using inv assms(3) by (simp add: builder_inv_def fks_inv_def no_keys_def)
    ultimately have "builder_inv n ?b" by (simp add: builder_inv_def)
    with i il None ty assms(3) uniq col show ?thesis
      by (simp add: add_column_def Let_def no_keys_def table_name_key_def col_def [symmetric]
          nth_append less_Suc_eq)
  qed
qed

section \<open>Resolved column lists\<close>

lemma list_all2_owned:
  assumes "list_all2 (\<lambda>name c. column_ids (x, y, name) = Some c) names cols"
    and "\<And>name c. column_ids (x, y, name) = Some c \<Longrightarrow> c < length columns \<and> col_table (columns ! c) = i"
  shows "owned columns i cols"
proof -
  have "\<exists>name. column_ids (x, y, name) = Some c" if "c \<in> set cols" for c
    using assms(1) that by (auto simp: in_set_conv_nth list_all2_conv_all_nth)
  with assms(2) show ?thesis by (meson owned_def)
qed

lemma table_id_bound:
  "builder_inv n b \<Longrightarrow> bl_table_ids b k = Some i \<Longrightarrow> i < length (bl_tables b)"
  by (cases k) (auto simp: builder_inv_def tables_inv_def)

lemma column_id_owned:
  assumes "builder_inv n b" and "bl_column_ids b (x, y, name) = Some c"
    and "bl_table_ids b (x, y) = Some i"
  shows "c < length (bl_columns b) \<and> col_table (bl_columns b ! c) = i"
  using assms by (fastforce simp: builder_inv_def columns_inv_def)

lemma resolve_local_columns_ok:
  assumes "builder_inv n b" and "bl_table_ids b (x, y) = Some i"
  shows "yields (resolve_local_columns (bl_column_ids b) x y name names)
    (\<lambda>cols. cols \<noteq> [] \<and> length cols = length names \<and> owned (bl_columns b) i cols)"
proof (cases "names = []")
  case False
  have "yields (collect_results (\<lambda>c. ok_or (bl_column_ids b (x, y, c)) (Err (MissingColumn x y c))) names)
      (list_all2 (\<lambda>name c. bl_column_ids b (x, y, name) = Some c) names)"
    by (rule yields_collect) simp
  then have "yields (collect_results (\<lambda>c. ok_or (bl_column_ids b (x, y, c)) (Err (MissingColumn x y c))) names)
      (\<lambda>cols. cols \<noteq> [] \<and> length cols = length names \<and> owned (bl_columns b) i cols)"
    by (rule yields_mono)
       (use False in \<open>auto intro: list_all2_owned dest: column_id_owned[OF assms(1) _ assms(2)]
          list_all2_lengthD\<close>)
  with False show ?thesis by (simp add: resolve_local_columns_def)
qed (simp add: resolve_local_columns_def)

section \<open>Constraints and indexes\<close>

text \<open>What the key phase leaves alone.\<close>

definition same_names :: "builder \<Rightarrow> builder \<Rightarrow> bool" where
  "same_names b b' \<longleftrightarrow>
     bl_tables b' = bl_tables b \<and> bl_table_ids b' = bl_table_ids b \<and>
     map col_key (bl_columns b') = map col_key (bl_columns b)"

lemma same_names_refl [simp]: "same_names b b"
  by (simp add: same_names_def)

lemma same_names_trans: "same_names a b \<Longrightarrow> same_names b c \<Longrightarrow> same_names a c"
  by (simp add: same_names_def)

lemma push_unique_constraint_set [simp]:
  "set (push_unique_constraint cols us) = insert cols (set us)"
  by (auto simp: push_unique_constraint_def list_ex_iff)

lemma set_uniques_inv:
  assumes "builder_inv n b" and "i < length (bl_tables b)" and "owned (bl_columns b) i cols"
  shows "builder_inv n (b\<lparr>bl_unique_constraints := (bl_unique_constraints b)
    [i := push_unique_constraint cols (bl_unique_constraints b ! i)]\<rparr>)" (is "builder_inv n ?b")
proof -
  have "ownership_inv ?b" "flags_inv ?b"
    using assms
    by (auto simp: builder_inv_def ownership_inv_def flags_inv_def widths_inv_def nth_list_update)
  with assms(1) show ?thesis
    by (simp add: builder_inv_def schemas_inv_def tables_inv_def widths_inv_def columns_inv_def fks_inv_def)
qed

lemma set_primary_key_inv:
  assumes "builder_inv n b" and "i < length (bl_tables b)" and "owned (bl_columns b) i cols"
  shows "builder_inv n (b\<lparr>bl_primary_keys := (bl_primary_keys b)[i := cols]\<rparr>)" (is "builder_inv n ?b")
proof -
  have "ownership_inv ?b"
    using assms by (auto simp: builder_inv_def ownership_inv_def widths_inv_def nth_list_update)
  with assms(1) show ?thesis
    by (simp add: builder_inv_def schemas_inv_def tables_inv_def widths_inv_def columns_inv_def
        fks_inv_def flags_inv_def)
qed

lemma add_constraint_inv:
  assumes inv: "builder_inv n b" and tid: "bl_table_ids b (table_name_key s t) = Some i"
    and nk: "no_keys b"
  shows "yields (add_constraint s t i b k) (\<lambda>b'. builder_inv n b' \<and> same_names b b' \<and> no_keys b')"
proof -
  have il: "i < length (bl_tables b)" by (rule table_id_bound[OF inv tid])
  then have w: "i < length (bl_primary_keys b)" "i < length (bl_unique_constraints b)"
    using inv by (auto simp: builder_inv_def widths_inv_def)
  have step: "yields (case tcm_kind k of
        PrimaryKeyConstraint \<Rightarrow>
          rbind (modify_at i (\<lambda>_. columns) (bl_primary_keys b)) (\<lambda>primary_keys.
          rbind (modify_at i (push_unique_constraint columns) (bl_unique_constraints b)) (\<lambda>uniques.
          Inr (b\<lparr>bl_primary_keys := primary_keys, bl_unique_constraints := uniques\<rparr>)))
      | UniqueConstraint \<Rightarrow>
          rbind (modify_at i (push_unique_constraint columns) (bl_unique_constraints b)) (\<lambda>uniques.
          Inr (b\<lparr>bl_unique_constraints := uniques\<rparr>)))
      (\<lambda>b'. builder_inv n b' \<and> same_names b b' \<and> no_keys b')"
    if "owned (bl_columns b) i columns" for columns
    using set_uniques_inv[OF set_primary_key_inv[OF inv il that], of i columns]
      set_uniques_inv[OF inv il that] il that w nk
    by (simp add: same_names_def no_keys_def split: table_constraint_kind.split)
  have "yields (resolve_local_columns (bl_column_ids b) (effective_table_schema s t) (tm_name t)
      name (tcm_columns k)) (\<lambda>cols. owned (bl_columns b) i cols)" for name
    by (rule yields_mono[OF resolve_local_columns_ok[OF inv]])
       (use tid in \<open>auto simp: table_name_key_def\<close>)
  then show ?thesis
    unfolding add_constraint_def Let_def yields_rbind by (rule yields_mono) (rule step)
qed

lemma set_flag_inv:
  assumes "builder_inv n b" and "c < length (bl_columns b)"
    and "[c] \<in> set (bl_unique_constraints b ! col_table (bl_columns b ! c))" and nk: "no_keys b"
  shows "builder_inv n (b\<lparr>bl_columns := (bl_columns b)[c := (bl_columns b ! c)\<lparr>col_is_unique := True\<rparr>]\<rparr>)"
    (is "builder_inv n ?b")
proof -
  have own: "owned (bl_columns ?b) i cols = owned (bl_columns b) i cols" for i cols
    by (rule owned_cong) (use assms(2) in \<open>auto simp: nth_list_update\<close>)
  have "ownership_inv ?b" using assms(1) own by (simp add: builder_inv_def ownership_inv_def)
  moreover have "columns_inv n ?b"
    using assms(1,2) by (auto simp: builder_inv_def columns_inv_def nth_list_update)
  moreover have "flags_inv ?b"
    using assms by (auto simp: builder_inv_def flags_inv_def nth_list_update)
  moreover have "fks_inv ?b"
    using assms(1) nk by (simp add: builder_inv_def fks_inv_def no_keys_def)
  ultimately show ?thesis
    using assms(1) by (simp add: builder_inv_def schemas_inv_def tables_inv_def widths_inv_def)
qed

lemma mark_unique_index_inv:
  assumes inv: "builder_inv n b" and il: "i < length (bl_tables b)"
    and own: "owned (bl_columns b) i cols" and nk: "no_keys b"
  shows "yields (mark_unique_index i cols b) (\<lambda>b'. builder_inv n b' \<and> same_names b b' \<and>
    no_keys b' \<and> (\<forall>j cs. owned (bl_columns b) j cs \<longrightarrow> owned (bl_columns b') j cs))"
proof -
  let ?b = "b\<lparr>bl_unique_constraints := (bl_unique_constraints b)
    [i := push_unique_constraint cols (bl_unique_constraints b ! i)]\<rparr>"
  have w: "i < length (bl_unique_constraints b)"
    using inv il by (auto simp: builder_inv_def widths_inv_def)
  have inv': "builder_inv n ?b" by (rule set_uniques_inv[OF inv il own])
  show ?thesis
  proof (cases "length cols = 1")
    case True
    then obtain c where c: "cols = [c]" by (auto simp: length_Suc_conv)
    with own have cl: "c < length (bl_columns b)" "col_table (bl_columns b ! c) = i"
      by (auto simp: owned_def)
    have "builder_inv n (?b\<lparr>bl_columns := (bl_columns ?b)[c := (bl_columns ?b ! c)\<lparr>col_is_unique := True\<rparr>]\<rparr>)"
      by (rule set_flag_inv[OF inv']) (use nk c cl w in \<open>auto simp: no_keys_def\<close>)
    moreover have "map col_key ((bl_columns b)[c := (bl_columns b ! c)\<lparr>col_is_unique := True\<rparr>])
        = map col_key (bl_columns b)"
      by (simp add: map_update list_update_same_conv cl)
    ultimately show ?thesis
      using c cl w nk
      by (auto simp: mark_unique_index_def same_names_def no_keys_def owned_def nth_list_update
          simp del: map_update)
  next
    case False
    with inv' w nk show ?thesis by (simp add: mark_unique_index_def same_names_def no_keys_def)
  qed
qed

lemma zip_index_key_columns:
  "length cols = length keys \<Longrightarrow> map ik_column (map index_key_of (zip keys cols)) = cols"
  by (induction keys cols rule: list_induct2') (auto simp: index_key_of_def)

lemma push_index_inv:
  assumes "builder_inv n b" and "i < length (bl_tables b)"
    and "owned (bl_columns b) i (map ik_column (ix_keys ix))"
  shows "builder_inv n (b\<lparr>bl_indexes := (bl_indexes b)[i := bl_indexes b ! i @ [ix]]\<rparr>)"
    (is "builder_inv n ?b")
proof -
  have "ownership_inv ?b"
    using assms by (auto simp: builder_inv_def ownership_inv_def widths_inv_def nth_list_update)
  with assms(1) show ?thesis
    by (simp add: builder_inv_def schemas_inv_def tables_inv_def widths_inv_def columns_inv_def
        fks_inv_def flags_inv_def)
qed

lemma add_index_inv:
  assumes inv: "builder_inv n b" and tid: "bl_table_ids b (table_name_key s t) = Some i"
    and nk: "no_keys b"
  shows "yields (add_index s t i b ix) (\<lambda>b'. builder_inv n b' \<and> same_names b b' \<and> no_keys b')"
proof -
  have tid': "bl_table_ids b (effective_table_schema s t, tm_name t) = Some i"
    using tid by (simp add: table_name_key_def)
  have il: "i < length (bl_tables b)" by (rule table_id_bound[OF inv tid])
  have push: "yields (modify_at i (\<lambda>indexes. indexes @ [x]) (bl_indexes b'))
      (\<lambda>indexes. yields (Inr (b'\<lparr>bl_indexes := indexes\<rparr>) :: builder build)
        (\<lambda>b'. builder_inv n b' \<and> same_names b b' \<and> no_keys b'))"
    if "builder_inv n b'" "same_names b b'" "no_keys b'"
      "owned (bl_columns b') i (map ik_column (ix_keys x))" for b' x
    using push_index_inv[OF that(1), of i x] that il
    by (simp add: same_names_def no_keys_def builder_inv_def widths_inv_def)
  have mark: "yields (if ixm_unique ix then mark_unique_index i cols b else Inr b)
      (\<lambda>b'. builder_inv n b' \<and> same_names b b' \<and> no_keys b' \<and>
        (\<forall>j cs. owned (bl_columns b) j cs \<longrightarrow> owned (bl_columns b') j cs))"
    if "owned (bl_columns b) i cols" for cols
    using mark_unique_index_inv[OF inv il that nk] inv nk by simp
  have inc: "yields (if ixm_included_columns ix = [] then Inr [] else
      resolve_local_columns (bl_column_ids b) (effective_table_schema s t) (tm_name t) name
        (ixm_included_columns ix)) (\<lambda>_. True)" for name
    using yields_mono[OF resolve_local_columns_ok[OF inv tid']] by simp
  show ?thesis
    unfolding add_index_def Let_def yields_rbind
  proof (rule yields_mono[OF resolve_local_columns_ok[OF inv tid']], rule yields_mono[OF inc],
         rule yields_mono[OF mark])
    fix cols b' included
    assume cols: "cols \<noteq> [] \<and> length cols = length (map ikm_column (ixm_keys ix)) \<and>
      owned (bl_columns b) i cols"
    then show "owned (bl_columns b) i cols" by simp
    assume b': "builder_inv n b' \<and> same_names b b' \<and> no_keys b' \<and>
      (\<forall>j cs. owned (bl_columns b) j cs \<longrightarrow> owned (bl_columns b') j cs)"
    show "yields (modify_at i (\<lambda>indexes. indexes @
        [\<lparr>ix_name = ixm_name ix, ix_access_method = ixm_access_method ix,
          ix_keys = map index_key_of (zip (ixm_keys ix) cols), ix_included_columns = included,
          ix_is_unique = ixm_unique ix\<rparr>]) (bl_indexes b'))
      (\<lambda>indexes. yields (Inr (b'\<lparr>bl_indexes := indexes\<rparr>) :: builder build)
        (\<lambda>b'. builder_inv n b' \<and> same_names b b' \<and> no_keys b'))"
      by (rule push) (use b' cols zip_index_key_columns[of cols "ixm_keys ix"] in auto)
  qed
qed

lemma add_table_keys_inv:
  assumes "builder_inv n b" and "bl_table_ids b (table_name_key s t) \<noteq> None" and "no_keys b"
  shows "yields (add_table_keys b (s, t)) (\<lambda>b'. builder_inv n b' \<and> same_names b b' \<and> no_keys b')"
proof -
  from assms(2) obtain i where i: "bl_table_ids b (table_name_key s t) = Some i" by auto
  have "yields (rfold (add_constraint s t i) b (tm_constraints t))
      (\<lambda>b'. builder_inv n b' \<and> same_names b b' \<and> no_keys b')"
    by (rule yields_rfold)
       (use assms i in \<open>auto intro!: yields_mono[OF add_constraint_inv[of n _ s t i]]
          simp: same_names_def\<close>)
  moreover have "yields (rfold (add_index s t i) b' (tm_indexes t))
      (\<lambda>b'. builder_inv n b' \<and> same_names b b' \<and> no_keys b')"
    if "builder_inv n b' \<and> same_names b b' \<and> no_keys b'" for b'
    by (rule yields_rfold)
       (use that i in \<open>auto intro!: yields_mono[OF add_index_inv[of n _ s t i]]
          simp: same_names_def\<close>)
  ultimately show ?thesis
    using i by (auto simp: add_table_keys_def table_name_key_def intro: yields_mono)
qed

section \<open>Foreign keys\<close>

lemma add_foreign_key_inv:
  assumes inv: "builder_inv n b"
    and "fk_ok (bl_tables b) (bl_columns b)
      \<lparr>fk_id = length (bl_foreign_keys b), fk_name = name, fk_from_columns = from,
       fk_to_columns = to, fk_from_table = i, fk_to_table = j\<rparr>"
  shows "builder_inv n (add_foreign_key name from to i j b)"
proof (cases "(from, to) \<in> bl_foreign_key_keys b")
  case True
  with inv show ?thesis by (simp add: add_foreign_key_def)
next
  case False
  have "fks_inv (add_foreign_key name from to i j b)"
    using inv assms(2) False
    by (auto simp: builder_inv_def fks_inv_def add_foreign_key_def fk_ok_def fk_pair_def nth_append
        less_Suc_eq)
  with inv show ?thesis
    by (simp add: builder_inv_def schemas_inv_def tables_inv_def widths_inv_def columns_inv_def
        flags_inv_def ownership_inv_def add_foreign_key_def)
qed

definition same_arenas :: "builder \<Rightarrow> builder \<Rightarrow> bool" where
  "same_arenas b b' \<longleftrightarrow>
     bl_tables b' = bl_tables b \<and> bl_table_ids b' = bl_table_ids b \<and> bl_columns b' = bl_columns b"

lemma add_foreign_key_same: "same_arenas b (add_foreign_key name from to i j b)"
  by (simp add: same_arenas_def add_foreign_key_def)

lemma referenced_columns_owned:
  assumes inv: "builder_inv n b"
    and cols: "list_all2 (\<lambda>name c. bl_column_ids b (x, y, name) = Some c) names to" and "to \<noteq> []"
  shows "to ! 0 < length (bl_columns b) \<and> col_table (bl_columns b ! (to ! 0)) < length (bl_tables b) \<and>
    owned (bl_columns b) (col_table (bl_columns b ! (to ! 0))) to"
proof -
  from cols assms(3) have "bl_column_ids b (x, y, names ! 0) = Some (to ! 0)"
    by (auto simp: list_all2_conv_all_nth)
  with inv have first: "to ! 0 < length (bl_columns b)"
    "bl_table_ids b (x, y) = Some (col_table (bl_columns b ! (to ! 0)))"
    by (fastforce simp: builder_inv_def columns_inv_def)+
  moreover have "owned (bl_columns b) (col_table (bl_columns b ! (to ! 0))) to"
    by (rule list_all2_owned[OF cols]) (rule column_id_owned[OF inv _ first(2)])
  ultimately show ?thesis using table_id_bound[OF inv] by blast
qed

lemma add_metadata_foreign_key_inv:
  assumes inv: "builder_inv n b" and tid: "bl_table_ids b (table_name_key s t) = Some i"
  shows "yields (add_metadata_foreign_key s t i b k) (\<lambda>b'. builder_inv n b' \<and> same_arenas b b')"
proof (cases "length (fkm_columns k) = length (fkm_ref_columns k)")
  case False
  then show ?thesis by (simp add: add_metadata_foreign_key_def Let_def)
next
  case True
  have tid': "bl_table_ids b (effective_table_schema s t, tm_name t) = Some i"
    using tid by (simp add: table_name_key_def)
  have il: "i < length (bl_tables b)" by (rule table_id_bound[OF inv tid])
  let ?P = "\<lambda>name c. bl_column_ids b (fkm_ref_schema k, fkm_ref_table k, name) = Some c"
  have refs: "yields (collect_results (\<lambda>c. ok_or (bl_column_ids b (fkm_ref_schema k, fkm_ref_table k, c))
      (Err (MissingForeignKeyTarget (fkm_ref_schema k) (fkm_ref_table k) c))) (fkm_ref_columns k))
      (list_all2 ?P (fkm_ref_columns k))"
    by (rule yields_collect) simp
  show ?thesis
    unfolding add_metadata_foreign_key_def Let_def using True
    apply (simp only: if_False if_True simp_thms yields_rbind)
  proof (rule yields_mono[OF resolve_local_columns_ok[OF inv tid']], rule yields_mono[OF refs])
    fix fs ts
    assume fs: "fs \<noteq> [] \<and> length fs = length (fkm_columns k) \<and> owned (bl_columns b) i fs"
      and ts: "list_all2 ?P (fkm_ref_columns k) ts"
    from ts True fs have len: "length fs = length ts" "ts \<noteq> []"
      by (auto dest: list_all2_lengthD)
    note ref = referenced_columns_owned[OF inv ts len(2)]
    have "fk_ok (bl_tables b) (bl_columns b)
      \<lparr>fk_id = length (bl_foreign_keys b), fk_name = fkm_name k, fk_from_columns = fs,
       fk_to_columns = ts, fk_from_table = i, fk_to_table = col_table (bl_columns b ! (ts ! 0))\<rparr>"
      using fs len ref il by (simp add: fk_ok_def)
    from add_foreign_key_inv[OF inv this] add_foreign_key_same len ref
    show "yields (index_at ts 0) (\<lambda>first. yields (index_at (bl_columns b) first) (\<lambda>col.
        yields (Inr (add_foreign_key (fkm_name k) fs ts i (col_table col) b) :: builder build)
          (\<lambda>b'. builder_inv n b' \<and> same_arenas b b')))"
      by simp
  qed
qed

lemma add_table_foreign_keys_inv:
  assumes "builder_inv n b" and "bl_table_ids b (table_name_key s t) \<noteq> None"
  shows "yields (add_table_foreign_keys b (s, t)) (\<lambda>b'. builder_inv n b' \<and> same_arenas b b')"
proof -
  from assms(2) obtain i where i: "bl_table_ids b (table_name_key s t) = Some i" by auto
  have "yields (rfold (add_metadata_foreign_key s t i) b (tm_foreign_keys t))
      (\<lambda>b'. builder_inv n b' \<and> same_arenas b b')"
    by (rule yields_rfold)
       (use assms i in \<open>auto intro!: yields_mono[OF add_metadata_foreign_key_inv[of n _ s t i]]
          simp: same_arenas_def\<close>)
  with i show ?thesis by (simp add: add_table_foreign_keys_def table_name_key_def)
qed

section \<open>The phases\<close>

lemma all_columns_table:
  "(s, t, c) \<in> set (all_columns m) \<Longrightarrow> (s, t) \<in> set (all_tables m)"
  by (auto simp: all_columns_def all_tables_def)

lemma all_tables_schema: "(s, t) \<in> set (all_tables m) \<Longrightarrow> s \<in> set (dm_schemas m)"
  by (auto simp: all_tables_def)

definition named :: "database_metadata \<Rightarrow> builder \<Rightarrow> bool" where
  "named m b \<longleftrightarrow>
     map tb_key (bl_tables b) =
       map (\<lambda>(s, t). TableKey (effective_table_schema s t) (tm_name t)) (all_tables m) \<and>
     map col_key (bl_columns b) =
       map (\<lambda>(s, t, c). ColumnKey (effective_table_schema s t) (tm_name t) (cm_name c)) (all_columns m) \<and>
     (\<forall>(s, t) \<in> set (all_tables m). bl_table_ids b (table_name_key s t) \<noteq> None)"

lemma add_schemas_inv:
  "yields (rfold add_schema builder_empty (dm_schemas m)) (\<lambda>b. builder_inv n b \<and> bl_tables b = [] \<and>
     bl_columns b = [] \<and> no_keys b \<and> (\<forall>s \<in> set (dm_schemas m). bl_schema_ids b (sm_name s) \<noteq> None))"
proof (rule yields_rfold_prefix, goal_cases)
  case 1
  show ?case using builder_inv_empty by (simp add: builder_empty_def no_keys_def)
next
  case (2 ys s zs b)
  then show ?case by (auto intro!: yields_mono[OF add_schema_inv[of n b s]])
qed

lemma add_tables_inv:
  assumes "builder_inv n b" and "bl_tables b = []" and "bl_columns b = []" and "no_keys b"
    and "\<forall>s \<in> set (dm_schemas m). bl_schema_ids b (sm_name s) \<noteq> None"
  shows "yields (rfold add_table b (all_tables m)) (\<lambda>b'. builder_inv n b' \<and> bl_columns b' = [] \<and>
    no_keys b' \<and> bl_schema_ids b' = bl_schema_ids b \<and>
    map tb_key (bl_tables b') =
      map (\<lambda>(s, t). TableKey (effective_table_schema s t) (tm_name t)) (all_tables m) \<and>
    (\<forall>(s, t) \<in> set (all_tables m). bl_table_ids b' (table_name_key s t) \<noteq> None))"
proof (rule yields_rfold_prefix, goal_cases)
  case 1
  with assms show ?case by simp
next
  case (2 ys x zs b1)
  obtain s t where x: "x = (s, t)" by force
  from 2(1) x have "s \<in> set (dm_schemas m)" using all_tables_schema[of s t m] by simp
  with 2(2) assms(5) have "bl_schema_ids b1 (sm_name s) \<noteq> None" by simp
  with 2(2) show ?case
    unfolding x by (intro yields_mono[OF add_table_inv[of n b1 s t]]) (auto simp: table_name_key_def, blast?)
qed

lemma register_names_inv:
  assumes "\<forall>(s, t, c) \<in> set (all_columns m). \<exists>y. type_ids (cm_provider_type c) = Some y \<and> y < n"
  shows "yields (register_names type_ids m) (\<lambda>b. builder_inv n b \<and> named m b \<and> no_keys b)"
proof -
  have columns: "yields (rfold (add_column type_ids) b (all_columns m)) (\<lambda>b'. (builder_inv n b' \<and>
      no_keys b' \<and> (\<forall>i < length (bl_columns b'). \<not> col_is_unique (bl_columns b' ! i)) \<and>
      bl_table_ids b' = bl_table_ids b \<and> bl_tables b' = bl_tables b) \<and>
      map col_key (bl_columns b') =
        map (\<lambda>(s, t, c). ColumnKey (effective_table_schema s t) (tm_name t) (cm_name c)) (all_columns m))"
    if b: "builder_inv n b" "bl_columns b = []" "no_keys b"
      "\<forall>(s, t) \<in> set (all_tables m). bl_table_ids b (table_name_key s t) \<noteq> None" for b
  proof (rule yields_rfold_prefix, goal_cases)
    case 1
    with b show ?case by simp
  next
    case (2 ys x zs b1)
    obtain s t c where x: "x = (s, t, c)" by (cases x) auto
    with 2(1) have mem: "(s, t, c) \<in> set (all_columns m)" by simp
    with assms obtain y where y: "type_ids (cm_provider_type c) = Some y" "y < n" by blast
    have "bl_table_ids b1 (table_name_key s t) \<noteq> None"
      using b(4) all_columns_table[OF mem] 2(2) by auto
    from add_column_inv[of n b1 s t type_ids c y] this 2(2) x y show ?case
      by (auto elim!: yields_mono)
  qed
  show ?thesis
    unfolding register_names_def yields_rbind
  proof (rule yields_mono[OF add_schemas_inv[of m n]], rule yields_mono[OF add_tables_inv[of n]])
    fix b b1
    assume "builder_inv n b1 \<and> bl_columns b1 = [] \<and>
      no_keys b1 \<and> bl_schema_ids b1 = bl_schema_ids b \<and>
      map tb_key (bl_tables b1) =
        map (\<lambda>(s, t). TableKey (effective_table_schema s t) (tm_name t)) (all_tables m) \<and>
      (\<forall>(s, t) \<in> set (all_tables m). bl_table_ids b1 (table_name_key s t) \<noteq> None)"
    with columns[of b1]
    show "yields (rfold (add_column type_ids) b1 (all_columns m))
      (\<lambda>b. builder_inv n b \<and> named m b \<and> no_keys b)"
      by (auto simp: named_def elim!: yields_mono)
  qed auto
qed

lemma register_keys_inv:
  assumes "builder_inv n b" and "named m b" and "no_keys b"
  shows "yields (register_keys m b) (\<lambda>b'. builder_inv n b' \<and> named m b')"
proof -
  have keys: "yields (rfold add_table_keys b (all_tables m))
      (\<lambda>b'. builder_inv n b' \<and> named m b' \<and> no_keys b')"
  proof (rule yields_rfold)
    fix b1 x
    assume b1: "builder_inv n b1 \<and> named m b1 \<and> no_keys b1" and x: "x \<in> set (all_tables m)"
    obtain s t where st: "x = (s, t)" by force
    with b1 x have "bl_table_ids b1 (table_name_key s t) \<noteq> None" by (auto simp: named_def)
    from add_table_keys_inv[of n b1 s t] this b1 st
    show "yields (add_table_keys b1 x) (\<lambda>b'. builder_inv n b' \<and> named m b' \<and> no_keys b')"
      by (auto simp: same_names_def named_def elim!: yields_mono)
  qed (use assms in simp)
  have fks: "yields (rfold add_table_foreign_keys b1 (all_tables m)) (\<lambda>b'. builder_inv n b' \<and> named m b')"
    if "builder_inv n b1 \<and> named m b1 \<and> no_keys b1" for b1
  proof (rule yields_rfold)
    fix b2 x
    assume b2: "builder_inv n b2 \<and> named m b2" and x: "x \<in> set (all_tables m)"
    obtain s t where st: "x = (s, t)" by force
    with b2 x have "bl_table_ids b2 (table_name_key s t) \<noteq> None" by (auto simp: named_def)
    from add_table_foreign_keys_inv[of n b2 s t] this b2 st
    show "yields (add_table_foreign_keys b2 x) (\<lambda>b'. builder_inv n b' \<and> named m b')"
      by (auto simp: same_arenas_def named_def elim!: yields_mono)
  qed (use that in simp)
  show ?thesis
    unfolding register_keys_def yields_rbind by (rule yields_mono[OF keys]) (rule fks)
qed

end
