(* ===== verification/Catalog_Build_Correct.thy ===== *)
theory Catalog_Build_Correct
  imports Catalog_Build_Facts
begin

text \<open>
  What \<open>Catalog::try_from_metadata\<close> guarantees: it never panics, the catalog it returns is
  well formed and lists exactly the metadata's tables and columns, and every foreign key
  contributes its two relations, whose cardinality is the uniqueness of the referencing
  columns.
\<close>

section \<open>Finished tables\<close>

definition finished :: "builder \<Rightarrow> table \<Rightarrow> table \<Rightarrow> bool" where
  "finished b t t' \<longleftrightarrow>
     tb_id t' = tb_id t \<and> tb_key t' = tb_key t \<and> tb_schema t' = tb_schema t \<and>
     tb_name t' = tb_name t \<and> tb_relations t' = tb_relations t \<and>
     tb_columns t' = bl_table_columns b ! tb_id t \<and> tb_primary_key t' = bl_primary_keys b ! tb_id t \<and>
     tb_indexes t' = bl_indexes b ! tb_id t \<and>
     set (tb_unique_constraints t') =
       set (bl_unique_constraints b ! tb_id t) \<union>
       (if bl_primary_keys b ! tb_id t = [] then {} else {bl_primary_keys b ! tb_id t})"

lemma finish_table_ok:
  assumes "builder_inv n b" and "t \<in> set (bl_tables b)"
  shows "yields (finish_table b t) (finished b t)"
proof -
  from assms(2) obtain i where "i < length (bl_tables b)" "t = bl_tables b ! i"
    by (auto simp: in_set_conv_nth)
  with assms(1) show ?thesis
    by (auto simp: builder_inv_def tables_inv_def widths_inv_def finish_table_def finished_def)
qed

definition finished_tables :: "builder \<Rightarrow> table list \<Rightarrow> bool" where
  "finished_tables b ts \<longleftrightarrow>
     length ts = length (bl_tables b) \<and> map tb_key ts = map tb_key (bl_tables b) \<and>
     (\<forall>i < length ts.
        tb_id (ts ! i) = i \<and> tb_key (ts ! i) = TableKey (tb_schema (ts ! i)) (tb_name (ts ! i)) \<and>
        owned (bl_columns b) i (tb_columns (ts ! i)) \<and>
        owned (bl_columns b) i (tb_primary_key (ts ! i)) \<and>
        (\<forall>u \<in> set (tb_unique_constraints (ts ! i)). owned (bl_columns b) i u) \<and>
        (\<forall>ix \<in> set (tb_indexes (ts ! i)). owned (bl_columns b) i (map ik_column (ix_keys ix))) \<and>
        set (bl_unique_constraints b ! i) \<subseteq> set (tb_unique_constraints (ts ! i)) \<and>
        (tb_primary_key (ts ! i) \<noteq> [] \<longrightarrow>
           tb_primary_key (ts ! i) \<in> set (tb_unique_constraints (ts ! i)))) \<and>
     distinct (map tb_key ts)"

lemma builder_keys_distinct:
  assumes "builder_inv n b"
  shows "distinct (map tb_key (bl_tables b))"
proof (subst distinct_conv_nth, intro allI impI)
  fix i j
  assume ij: "i < length (map tb_key (bl_tables b))" "j < length (map tb_key (bl_tables b))" "i \<noteq> j"
  let ?n = "\<lambda>i. (tb_schema (bl_tables b ! i), tb_name (bl_tables b ! i))"
  have "bl_table_ids b (?n i) = Some i" "bl_table_ids b (?n j) = Some j"
    and k: "tb_key (bl_tables b ! i) = TableKey (fst (?n i)) (snd (?n i))"
      "tb_key (bl_tables b ! j) = TableKey (fst (?n j)) (snd (?n j))"
    using assms ij by (auto simp: builder_inv_def tables_inv_def)
  with ij(3) have "?n i \<noteq> ?n j" by (metis option.inject)
  with k ij show "map tb_key (bl_tables b) ! i \<noteq> map tb_key (bl_tables b) ! j" by auto
qed

lemma finish_tables_ok:
  assumes inv: "builder_inv n b"
  shows "yields (collect_results (finish_table b) (bl_tables b))
    (\<lambda>ts. finished_tables b ts \<and> (\<forall>t \<in> set ts. tb_relations t = []))"
proof (rule yields_mono[OF yields_collect[of _ _ "finished b"]])
  show "yields (finish_table b t) (finished b t)" if "t \<in> set (bl_tables b)" for t
    by (rule finish_table_ok[OF inv that])
  fix ts
  assume fin: "list_all2 (finished b) (bl_tables b) ts"
  then have len: "length ts = length (bl_tables b)" by (auto dest: list_all2_lengthD)
  have each: "finished b (bl_tables b ! i) (ts ! i)" if "i < length ts" for i
    using list_all2_nthD2[OF fin that] .
  have key: "map tb_key ts = map tb_key (bl_tables b)"
    using len each by (auto intro!: nth_equalityI simp: finished_def)
  have own: "i < length (bl_tables b) \<Longrightarrow>
      owned (bl_columns b) i (bl_table_columns b ! i) \<and> owned (bl_columns b) i (bl_primary_keys b ! i) \<and>
      (\<forall>u \<in> set (bl_unique_constraints b ! i). owned (bl_columns b) i u) \<and>
      (\<forall>ix \<in> set (bl_indexes b ! i). owned (bl_columns b) i (map ik_column (ix_keys ix)))" for i
    using inv by (auto simp: builder_inv_def ownership_inv_def)
  have tabs: "i < length (bl_tables b) \<Longrightarrow> tb_id (bl_tables b ! i) = i \<and>
      tb_key (bl_tables b ! i) = TableKey (tb_schema (bl_tables b ! i)) (tb_name (bl_tables b ! i)) \<and>
      tb_relations (bl_tables b ! i) = []" for i
    using inv by (auto simp: builder_inv_def tables_inv_def)
  have "distinct (map tb_key ts)" using builder_keys_distinct[OF inv] key by simp
  then have "finished_tables b ts"
    using len key each own tabs by (auto simp: finished_tables_def finished_def split: if_splits)
  moreover have "\<forall>t \<in> set ts. tb_relations t = []"
    using each tabs len by (auto simp: in_set_conv_nth finished_def)
  ultimately show "finished_tables b ts \<and> (\<forall>t \<in> set ts. tb_relations t = [])" ..
qed

section \<open>Relations of the foreign keys\<close>

definition fk_selector :: "column list \<Rightarrow> foreign_key \<Rightarrow> string" where
  "fk_selector columns k = join_with ''_'' (map (\<lambda>c. col_name (columns ! c)) (fk_from_columns k))"

text \<open>The two relations a foreign key contributes, read off the finished tables.\<close>

definition fk_relations :: "column list \<Rightarrow> table list \<Rightarrow> foreign_key \<Rightarrow> nat \<Rightarrow> relation list" where
  "fk_relations columns tables k i =
     [forward_relation (fk_selector columns k) (tables ! fk_to_table k) k (2 * i)
        (map ((!) columns) (fk_from_columns k)),
      reverse_relation (fk_selector columns k) (tables ! fk_from_table k) k (2 * i + 1)]"

definition only_relations_differ :: "table list \<Rightarrow> table list \<Rightarrow> bool" where
  "only_relations_differ ts0 ts \<longleftrightarrow>
     length ts = length ts0 \<and>
     (\<forall>i < length ts. \<exists>rs. ts ! i = (ts0 ! i)\<lparr>tb_relations := rs\<rparr>)"

definition relations_listed :: "table list \<Rightarrow> relation list \<Rightarrow> bool" where
  "relations_listed ts rs \<longleftrightarrow>
     (\<forall>i < length ts. \<forall>r \<in> set (tb_relations (ts ! i)). r < length rs \<and> rel_from_table (rs ! r) = i) \<and>
     (\<forall>r < length rs. rel_from_table (rs ! r) < length ts \<and>
        r \<in> set (tb_relations (ts ! rel_from_table (rs ! r))))"

definition relations_inv ::
  "column list \<Rightarrow> table list \<Rightarrow> foreign_key list \<Rightarrow> table list \<times> relation list \<Rightarrow> bool" where
  "relations_inv columns ts0 ks st \<longleftrightarrow>
     (let (ts, rs) = st in
      only_relations_differ ts0 ts \<and> relations_listed ts rs \<and>
      rs = concat (map (\<lambda>(i, k). fk_relations columns ts0 k i) (enumerate 0 ks)))"

lemma fk_relations_length: "length (concat (map (\<lambda>(i, k). fk_relations columns ts k i) (enumerate n ks))) = 2 * length ks"
  by (induction ks arbitrary: n) (auto simp: fk_relations_def)

lemma forward_relation_relations [simp]:
  "forward_relation s (t\<lparr>tb_relations := rs\<rparr>) k i cols = forward_relation s t k i cols"
  by (simp add: forward_relation_def)

lemma reverse_relation_relations [simp]:
  "reverse_relation s (t\<lparr>tb_relations := rs\<rparr>) k i = reverse_relation s t k i"
  by (simp add: reverse_relation_def table_column_set_is_unique_def)

lemma push_relation_update:
  "push_relation r t = t\<lparr>tb_relations := tb_relations t @ [r]\<rparr>"
  by (simp add: push_relation_def)

lemma only_relations_push:
  assumes "only_relations_differ ts0 ts" and "i < length ts"
  shows "only_relations_differ ts0 (ts[i := push_relation r (ts ! i)])"
proof -
  have "\<exists>rs. push_relation r (ts ! i) = (ts0 ! i)\<lparr>tb_relations := rs\<rparr>"
    using assms by (fastforce simp: only_relations_differ_def push_relation_def)
  with assms show ?thesis
    by (auto simp: only_relations_differ_def nth_list_update)
qed

lemma relations_listed_push:
  assumes "relations_listed ts rs" and "rel_from_table r = i" and "i < length ts"
  shows "relations_listed (ts[i := push_relation (length rs) (ts ! i)]) (rs @ [r])"
  unfolding relations_listed_def
proof (intro conjI allI impI ballI, goal_cases)
  case (1 j x)
  have rel: "tb_relations (ts[i := push_relation (length rs) (ts ! i)] ! j) =
      tb_relations (ts ! j) @ (if j = i then [length rs] else [])"
    using 1(1) by (auto simp: push_relation_def nth_list_update)
  with 1(2) have "x \<in> set (tb_relations (ts ! j)) \<or> j = i \<and> x = length rs"
    by (auto split: if_splits)
  then show ?case using assms 1(1) by (auto simp: relations_listed_def nth_append intro: less_SucI)
next
  case (2 j x)
  have rel: "tb_relations (ts[i := push_relation (length rs) (ts ! i)] ! j) =
      tb_relations (ts ! j) @ (if j = i then [length rs] else [])"
    using 2(1) by (auto simp: push_relation_def nth_list_update)
  with 2(2) have "x \<in> set (tb_relations (ts ! j)) \<or> j = i \<and> x = length rs"
    by (auto split: if_splits)
  then show ?case using assms 2(1) by (auto simp: relations_listed_def nth_append)
next
  case (3 x)
  then show ?case using assms by (auto simp: relations_listed_def nth_append less_Suc_eq)
next
  case (4 x)
  show ?case
  proof (cases "x = length rs")
    case True
    then show ?thesis using assms by (simp add: push_relation_def)
  next
    case False
    with 4 have "x < length rs" by simp
    with assms(1) have "x \<in> set (tb_relations (ts ! rel_from_table (rs ! x)))"
      "rel_from_table (rs ! x) < length ts" by (auto simp: relations_listed_def)
    then show ?thesis
      using \<open>x < length rs\<close> assms(3)
      by (cases "rel_from_table (rs ! x) = i") (simp_all add: nth_append push_relation_def)
  qed
qed

lemma collect_index_at:
  "\<forall>i \<in> set is. i < length xs \<Longrightarrow> collect_results (index_at xs) is = Inr (map ((!) xs) is)"
  by (induction "is") auto

lemma add_relations_inv:
  assumes inv: "relations_inv columns ts0 ks (ts, rs)" and ok: "fk_ok ts0 columns k"
  shows "yields (add_relations columns (ts, rs) k) (relations_inv columns ts0 (ks @ [k]))"
proof -
  from inv have diff: "only_relations_differ ts0 ts" and listed: "relations_listed ts rs"
    and rs: "rs = concat (map (\<lambda>(i, k). fk_relations columns ts0 k i) (enumerate 0 ks))"
    by (auto simp: relations_inv_def)
  have len: "length ts = length ts0" using diff by (simp add: only_relations_differ_def)
  have rl: "length rs = 2 * length ks" using rs by (simp add: fk_relations_length)
  let ?f = "fk_from_table k" and ?t = "fk_to_table k" and ?sel = "fk_selector columns k"
  have ft: "?f < length ts" "?t < length ts" using ok len by (auto simp: fk_ok_def)
  have cols: "(collect_results (index_at columns) (fk_from_columns k) :: column list build) =
      Inr (map ((!) columns) (fk_from_columns k))"
    by (rule collect_index_at) (use ok in \<open>auto simp: fk_ok_def owned_def\<close>)
  have sel: "join_with ''_'' (map col_name (map ((!) columns) (fk_from_columns k))) = ?sel"
    by (simp add: fk_selector_def comp_def)
  let ?fwd = "forward_relation ?sel (ts0 ! ?t) k (length rs) (map ((!) columns) (fk_from_columns k))"
  let ?rev = "reverse_relation ?sel (ts0 ! ?f) k (Suc (length rs))"
  let ?ts1 = "ts[?f := push_relation (length rs) (ts ! ?f)]"
  let ?ts2 = "?ts1[?t := push_relation (Suc (length rs)) (?ts1 ! ?t)]"
  have diff1: "only_relations_differ ts0 ?ts1" by (rule only_relations_push[OF diff ft(1)])
  have same: "forward_relation s (ts ! ?t) k i cs = forward_relation s (ts0 ! ?t) k i cs"
    "reverse_relation s (?ts1 ! ?f) k i = reverse_relation s (ts0 ! ?f) k i" for s i cs
    using diff diff1 ft by (fastforce simp: only_relations_differ_def)+
  have step: "add_relations columns (ts, rs) k = Inr (?ts2, rs @ [?fwd, ?rev])"
    using ft cols sel same by (simp add: add_relations_def Let_def)
  have "only_relations_differ ts0 ?ts2" by (rule only_relations_push[OF diff1]) (use ft in simp)
  moreover have "relations_listed ?ts1 (rs @ [?fwd])"
    by (rule relations_listed_push[OF listed _ ft(1)]) (simp add: forward_relation_def)
  then have "relations_listed (?ts1[?t := push_relation (length (rs @ [?fwd])) (?ts1 ! ?t)])
      ((rs @ [?fwd]) @ [?rev])"
    by (rule relations_listed_push) (use ft in \<open>simp_all add: reverse_relation_def\<close>)
  then have "relations_listed ?ts2 (rs @ [?fwd, ?rev])" by simp
  moreover have "rs @ [?fwd, ?rev] =
      concat (map (\<lambda>(i, k). fk_relations columns ts0 k i) (enumerate 0 (ks @ [k])))"
  proof -
    have "concat (map (\<lambda>(i, k). fk_relations columns ts0 k i) (enumerate 0 (ks @ [k]))) =
        rs @ fk_relations columns ts0 k (length ks)"
      using rs by (simp add: enumerate_append_eq)
    also have "fk_relations columns ts0 k (length ks) = [?fwd, ?rev]"
      by (simp add: fk_relations_def rl)
    finally show ?thesis by simp
  qed
  ultimately show ?thesis using step by (simp add: relations_inv_def)
qed

lemma all_relations_inv:
  assumes "\<forall>k \<in> set ks. fk_ok ts0 columns k" and "\<forall>t \<in> set ts0. tb_relations t = []"
  shows "yields (rfold (add_relations columns) (ts0, []) ks) (relations_inv columns ts0 ks)"
proof (rule yields_rfold_prefix, goal_cases)
  case 1
  have "\<exists>rs. t = t\<lparr>tb_relations := rs\<rparr>" for t :: table by (rule exI[of _ "tb_relations t"]) simp
  with assms(2) show ?case
    by (simp add: relations_inv_def only_relations_differ_def relations_listed_def)
next
  case (2 ys k zs st)
  then have "fk_ok ts0 columns k" using assms(1) by simp
  with add_relations_inv[of columns ts0 ys "fst st" "snd st" k] 2(2) show ?case by simp
qed

section \<open>The returned catalog\<close>

definition built_from :: "database_metadata \<Rightarrow> catalog \<Rightarrow> bool" where
  "built_from m c \<longleftrightarrow>
     (\<exists>b ts0 n.
        builder_inv n b \<and> named m b \<and> n = length (cat_types c) \<and>
        type_arena_ok (cat_types c) (cat_type_ids c) \<and>
        finished_tables b ts0 \<and> cat_columns c = bl_columns b \<and>
        cat_foreign_keys c = bl_foreign_keys b \<and>
        relations_inv (bl_columns b) ts0 (bl_foreign_keys b) (cat_tables c, cat_relations c))"

lemma try_from_metadata_yields: "yields (try_from_metadata m) (built_from m)"
proof -
  have types: "yields (build_catalog_types m) (\<lambda>(types, ids). type_arena_ok types ids \<and>
      (\<forall>(s, t, c) \<in> set (all_columns m). \<exists>y. ids (cm_provider_type c) = Some y \<and> y < length types))"
    using yields_result[OF build_catalog_types_not_panic, of m]
    by (rule yields_mono)
       (fastforce simp: column_type_known_def dest: build_catalog_types_ok)
  show ?thesis
    unfolding try_from_metadata_def yields_rbind
  proof (rule yields_mono[OF types], clarsimp, goal_cases)
    case (1 types ids)
    have "yields (register_names ids m) (\<lambda>b. builder_inv (length types) b \<and> named m b \<and> no_keys b)"
      using register_names_inv 1(2) by blast
    then show ?case
    proof (rule yields_mono, elim conjE)
      fix b
      assume b: "builder_inv (length types) b" "named m b" "no_keys b"
      show "yields (register_keys m b) (\<lambda>b. yields (collect_results (finish_table b) (bl_tables b))
          (\<lambda>ts. yields (rfold (add_relations (bl_columns b)) (ts, []) (bl_foreign_keys b))
            (\<lambda>x. yields (case x of (tables, relations) \<Rightarrow>
              Inr \<lparr>cat_default_schema = default_schema_name, cat_schemas = bl_schemas b,
                cat_tables = tables, cat_types = types, cat_type_ids = ids,
                cat_columns = bl_columns b, cat_foreign_keys = bl_foreign_keys b,
                cat_relations = relations, cat_uniqueness_supports = []\<rparr>) (built_from m))))"
      proof (rule yields_mono[OF register_keys_inv[OF b]], elim conjE)
        fix b1
        assume b1: "builder_inv (length types) b1" "named m b1"
        show "yields (collect_results (finish_table b1) (bl_tables b1))
          (\<lambda>ts. yields (rfold (add_relations (bl_columns b1)) (ts, []) (bl_foreign_keys b1))
            (\<lambda>x. yields (case x of (tables, relations) \<Rightarrow>
              Inr \<lparr>cat_default_schema = default_schema_name, cat_schemas = bl_schemas b1,
                cat_tables = tables, cat_types = types, cat_type_ids = ids,
                cat_columns = bl_columns b1, cat_foreign_keys = bl_foreign_keys b1,
                cat_relations = relations, cat_uniqueness_supports = []\<rparr>) (built_from m)))"
        proof (rule yields_mono[OF finish_tables_ok[OF b1(1)]], elim conjE)
          fix ts
          assume ts: "finished_tables b1 ts" "\<forall>t \<in> set ts. tb_relations t = []"
          have "\<forall>k \<in> set (bl_foreign_keys b1). fk_ok ts (bl_columns b1) k"
            using b1(1) ts(1)
            by (fastforce simp: builder_inv_def fks_inv_def fk_ok_def finished_tables_def in_set_conv_nth)
          from all_relations_inv[OF this ts(2)]
          show "yields (rfold (add_relations (bl_columns b1)) (ts, []) (bl_foreign_keys b1))
            (\<lambda>x. yields (case x of (tables, relations) \<Rightarrow>
              Inr \<lparr>cat_default_schema = default_schema_name, cat_schemas = bl_schemas b1,
                cat_tables = tables, cat_types = types, cat_type_ids = ids,
                cat_columns = bl_columns b1, cat_foreign_keys = bl_foreign_keys b1,
                cat_relations = relations, cat_uniqueness_supports = []\<rparr>) (built_from m))"
          proof (rule yields_mono)
            fix x
            assume "relations_inv (bl_columns b1) ts (bl_foreign_keys b1) x"
            with b1 ts(1) 1(1) show "yields (case x of (tables, relations) \<Rightarrow>
              Inr \<lparr>cat_default_schema = default_schema_name, cat_schemas = bl_schemas b1,
                cat_tables = tables, cat_types = types, cat_type_ids = ids,
                cat_columns = bl_columns b1, cat_foreign_keys = bl_foreign_keys b1,
                cat_relations = relations, cat_uniqueness_supports = []\<rparr>) (built_from m)"
              by (cases x) (auto simp: built_from_def)
          qed
        qed
      qed
    qed
  qed
qed

lemma built_tables:
  assumes "built_from m c"
  shows "\<exists>b ts0. builder_inv (length (cat_types c)) b \<and> named m b \<and> finished_tables b ts0 \<and>
    cat_columns c = bl_columns b \<and> cat_foreign_keys c = bl_foreign_keys b \<and>
    only_relations_differ ts0 (cat_tables c) \<and> relations_listed (cat_tables c) (cat_relations c) \<and>
    cat_relations c = concat (map (\<lambda>(i, k). fk_relations (cat_columns c) ts0 k i)
      (enumerate 0 (cat_foreign_keys c))) \<and>
    type_arena_ok (cat_types c) (cat_type_ids c)"
proof -
  from assms obtain b ts0 where
    "builder_inv (length (cat_types c)) b" "named m b" "type_arena_ok (cat_types c) (cat_type_ids c)"
    "finished_tables b ts0" "cat_columns c = bl_columns b" "cat_foreign_keys c = bl_foreign_keys b"
    and "relations_inv (bl_columns b) ts0 (bl_foreign_keys b) (cat_tables c, cat_relations c)"
    by (auto simp: built_from_def)
  moreover from this(7) have "only_relations_differ ts0 (cat_tables c)"
    "relations_listed (cat_tables c) (cat_relations c)"
    "cat_relations c = concat (map (\<lambda>(i, k). fk_relations (bl_columns b) ts0 k i)
      (enumerate 0 (bl_foreign_keys b)))"
    unfolding relations_inv_def Let_def prod.case by blast+
  ultimately show ?thesis
    by (intro exI[of _ b] exI[of _ ts0] conjI) (assumption | simp)+
qed

text \<open>Facts about the returned catalog that do not mention the builder.\<close>

lemma fk_relations_only_differ:
  assumes "only_relations_differ ts0 ts" and "fk_ok ts0 columns k"
  shows "fk_relations columns ts0 k i = fk_relations columns ts k i"
proof -
  have "fk_from_table k < length ts" "fk_to_table k < length ts"
    using assms by (auto simp: only_relations_differ_def fk_ok_def)
  with assms(1) obtain r1 r2 where
    "ts ! fk_from_table k = (ts0 ! fk_from_table k)\<lparr>tb_relations := r1\<rparr>"
    "ts ! fk_to_table k = (ts0 ! fk_to_table k)\<lparr>tb_relations := r2\<rparr>"
    by (fastforce simp: only_relations_differ_def)
  then show ?thesis by (simp add: fk_relations_def)
qed

lemma built_foreign_keys:
  assumes "built_from m c"
  shows "\<forall>i < length (cat_foreign_keys c). fk_id (cat_foreign_keys c ! i) = i \<and>
      fk_ok (cat_tables c) (cat_columns c) (cat_foreign_keys c ! i)"
    and "distinct (map fk_pair (cat_foreign_keys c))"
proof -
  from built_tables[OF assms] obtain b ts0 where b: "builder_inv (length (cat_types c)) b"
    "finished_tables b ts0" "only_relations_differ ts0 (cat_tables c)"
    "cat_columns c = bl_columns b" "cat_foreign_keys c = bl_foreign_keys b" by blast
  then have "length (cat_tables c) = length (bl_tables b)"
    by (simp add: finished_tables_def only_relations_differ_def)
  with b show "\<forall>i < length (cat_foreign_keys c). fk_id (cat_foreign_keys c ! i) = i \<and>
      fk_ok (cat_tables c) (cat_columns c) (cat_foreign_keys c ! i)"
    by (auto simp: builder_inv_def fks_inv_def fk_ok_def)
  from b show "distinct (map fk_pair (cat_foreign_keys c))"
    by (simp add: builder_inv_def fks_inv_def)
qed

lemma built_relations:
  assumes "built_from m c"
  shows "cat_relations c = concat (map (\<lambda>(i, k). fk_relations (cat_columns c) (cat_tables c) k i)
    (enumerate 0 (cat_foreign_keys c)))"
proof -
  from built_tables[OF assms] obtain b ts0 where b: "builder_inv (length (cat_types c)) b"
    "finished_tables b ts0" "only_relations_differ ts0 (cat_tables c)"
    "cat_columns c = bl_columns b" "cat_foreign_keys c = bl_foreign_keys b"
    "cat_relations c = concat (map (\<lambda>(i, k). fk_relations (cat_columns c) ts0 k i)
      (enumerate 0 (cat_foreign_keys c)))" by blast
  have "fk_ok ts0 (cat_columns c) k" if "k \<in> set (cat_foreign_keys c)" for k
    using b that by (fastforce simp: builder_inv_def fks_inv_def fk_ok_def finished_tables_def in_set_conv_nth)
  then have "fk_relations (cat_columns c) ts0 k i = fk_relations (cat_columns c) (cat_tables c) k i"
    if "(i, k) \<in> set (enumerate 0 (cat_foreign_keys c))" for i k
    using that b(3) by (intro fk_relations_only_differ) (auto simp: in_set_enumerate_eq)
  then show ?thesis
    unfolding b(6) by (intro arg_cong[of _ _ concat] map_cong) auto
qed

lemma concat_pairs_nth:
  assumes "\<And>i k. \<exists>x y. f i k = [x, y]" and "i < length ks"
  shows "concat (map (\<lambda>(i, k). f i k) (enumerate n ks)) ! (2 * i) = f (n + i) (ks ! i) ! 0 \<and>
    concat (map (\<lambda>(i, k). f i k) (enumerate n ks)) ! (Suc (2 * i)) = f (n + i) (ks ! i) ! 1"
  using assms(2)
proof (induction ks arbitrary: i n)
  case (Cons k ks)
  obtain x y where xy: "f n k = [x, y]" using assms(1) by blast
  with Cons show ?case by (cases i) auto
qed simp

lemma relation_index_cases:
  fixes n r :: nat
  assumes "r < 2 * n"
  obtains i where "i < n" and "r = 2 * i" | i where "i < n" and "r = Suc (2 * i)"
proof (cases "even r")
  case True
  with assms that(1)[of "r div 2"] show ?thesis by auto
next
  case False
  with assms that(2)[of "r div 2"] show ?thesis by (auto elim!: oddE)
qed

lemma built_relation_at:
  assumes "built_from m c" and "i < length (cat_foreign_keys c)"
  shows "cat_relations c ! (2 * i) = fk_relations (cat_columns c) (cat_tables c) (cat_foreign_keys c ! i) i ! 0"
    and "cat_relations c ! (Suc (2 * i)) = fk_relations (cat_columns c) (cat_tables c) (cat_foreign_keys c ! i) i ! 1"
proof -
  have "\<exists>x y. fk_relations (cat_columns c) (cat_tables c) k i = [x, y]" for i k
    by (simp add: fk_relations_def)
  from concat_pairs_nth[of "\<lambda>i k. fk_relations (cat_columns c) (cat_tables c) k i", OF this assms(2), of 0]
  show "cat_relations c ! (2 * i) = fk_relations (cat_columns c) (cat_tables c) (cat_foreign_keys c ! i) i ! 0"
    and "cat_relations c ! (Suc (2 * i)) = fk_relations (cat_columns c) (cat_tables c) (cat_foreign_keys c ! i) i ! 1"
    by (simp_all only: built_relations[OF assms(1), symmetric] add_0)
qed

definition relation_ok :: "catalog \<Rightarrow> nat \<Rightarrow> relation \<Rightarrow> bool" where
  "relation_ok c i r \<longleftrightarrow>
     rel_id r = i \<and> rel_from_table r < length (cat_tables c) \<and>
     rel_to_table r < length (cat_tables c) \<and> rel_local_columns r \<noteq> [] \<and>
     length (rel_local_columns r) = length (rel_target_columns r) \<and>
     columns_in c (rel_from_table r) (rel_local_columns r) \<and>
     columns_in c (rel_to_table r) (rel_target_columns r)"

lemma fk_relations_ok:
  assumes "fk_ok (cat_tables c) (cat_columns c) k"
  shows "relation_ok c (2 * i) (fk_relations (cat_columns c) (cat_tables c) k i ! 0)"
    and "relation_ok c (Suc (2 * i)) (fk_relations (cat_columns c) (cat_tables c) k i ! 1)"
  using assms
  by (auto simp: relation_ok_def fk_relations_def forward_relation_def reverse_relation_def
      fk_ok_def columns_in_def owned_def)

lemma built_relations_length:
  "built_from m c \<Longrightarrow> length (cat_relations c) = 2 * length (cat_foreign_keys c)"
  by (subst built_relations) (simp_all add: fk_relations_length)

lemma built_relation_ok:
  assumes "built_from m c" and "r < length (cat_relations c)"
  shows "relation_ok c r (cat_relations c ! r)"
proof (rule relation_index_cases[of r "length (cat_foreign_keys c)"])
  show "r < 2 * length (cat_foreign_keys c)" using built_relations_length assms by metis
next
  fix i
  assume i: "i < length (cat_foreign_keys c)" "r = 2 * i"
  with built_foreign_keys(1)[OF assms(1)] have "fk_ok (cat_tables c) (cat_columns c) (cat_foreign_keys c ! i)"
    by simp
  from fk_relations_ok(1)[OF this, of i] show ?thesis by (simp add: i(2) built_relation_at[OF assms(1) i(1)])
next
  fix i
  assume i: "i < length (cat_foreign_keys c)" "r = Suc (2 * i)"
  with built_foreign_keys(1)[OF assms(1)] have "fk_ok (cat_tables c) (cat_columns c) (cat_foreign_keys c ! i)"
    by simp
  from fk_relations_ok(2)[OF this, of i] show ?thesis by (simp add: i(2) built_relation_at[OF assms(1) i(1)])
qed

lemma built_wf:
  assumes built: "built_from m c"
  shows "catalog_wf c"
proof -
  from built_tables[OF built] obtain b ts0 where b: "builder_inv (length (cat_types c)) b"
    "finished_tables b ts0" "only_relations_differ ts0 (cat_tables c)"
    "relations_listed (cat_tables c) (cat_relations c)"
    "cat_columns c = bl_columns b" and types: "type_arena_ok (cat_types c) (cat_type_ids c)" by blast
  have len: "length (cat_tables c) = length ts0" "length (cat_tables c) = length (bl_tables b)"
    using b by (simp_all add: only_relations_differ_def finished_tables_def)
  have cin: "columns_in c i cols = owned (bl_columns b) i cols" for i cols
    by (simp add: columns_in_def owned_def b(5))
  have tab: "tb_id t = i \<and> tb_key t = TableKey (tb_schema t) (tb_name t) \<and>
      columns_in c i (tb_columns t) \<and> columns_in c i (tb_primary_key t) \<and>
      (\<forall>u \<in> set (tb_unique_constraints t). columns_in c i u) \<and>
      (\<forall>ix \<in> set (tb_indexes t). columns_in c i (map ik_column (ix_keys ix))) \<and>
      tb_key t = tb_key (ts0 ! i)"
    if "i < length (cat_tables c)" "t = cat_tables c ! i" for i t
    using b(2,3) len that by (auto simp: finished_tables_def only_relations_differ_def cin)
  have "tb_key (cat_tables c ! i) = tb_key (ts0 ! i)" if "i < length ts0" for i
    using tab[OF _ refl, of i] that len by metis
  then have "map tb_key (cat_tables c) = map tb_key ts0"
    by (intro nth_equalityI) (simp_all add: len)
  then have "tables_wf c"
    using b(2,4) tab by (auto simp: tables_wf_def Let_def relations_listed_def finished_tables_def)
  moreover have "columns_wf c"
    using b(1,5) len by (auto simp: columns_wf_def builder_inv_def columns_inv_def Let_def)
  moreover have "relations_wf c"
    unfolding relations_wf_def Let_def
  proof (intro allI impI)
    fix r
    assume r: "r < length (cat_relations c)"
    from built_relation_ok[OF built r] show "rel_id (cat_relations c ! r) = r \<and>
        rel_from_table (cat_relations c ! r) < length (cat_tables c) \<and>
        rel_to_table (cat_relations c ! r) < length (cat_tables c) \<and>
        rel_local_columns (cat_relations c ! r) \<noteq> [] \<and>
        length (rel_local_columns (cat_relations c ! r)) =
          length (rel_target_columns (cat_relations c ! r)) \<and>
        columns_in c (rel_from_table (cat_relations c ! r)) (rel_local_columns (cat_relations c ! r)) \<and>
        columns_in c (rel_to_table (cat_relations c ! r)) (rel_target_columns (cat_relations c ! r))"
      by (simp add: relation_ok_def)
  qed
  moreover have "types_wf c"
    using types by (auto simp: types_wf_def type_arena_ok_def)
  ultimately show ?thesis by (simp add: catalog_wf_def)
qed

section \<open>Properties\<close>

lemma try_from_metadata_built: "try_from_metadata m = Inr c \<Longrightarrow> built_from m c"
  using try_from_metadata_yields by (rule yields_InrD)

lemma relation_parts:
  "fk_relations columns ts k i ! 0 = forward_relation (fk_selector columns k) (ts ! fk_to_table k) k
     (2 * i) (map ((!) columns) (fk_from_columns k))"
  "fk_relations columns ts k i ! 1 = reverse_relation (fk_selector columns k) (ts ! fk_from_table k) k
     (2 * i + 1)"
  by (simp_all add: fk_relations_def)

text \<open>
  C22: decoded metadata, however malformed, never makes the catalog builder panic: every vector
  and hash-map index in its loops is in range.
\<close>

theorem try_from_metadata_never_panics: "try_from_metadata m \<noteq> Inl Panic"
  using try_from_metadata_yields by (rule yields_not_panic)

text \<open>
  C10: a catalog the builder returns is well formed: identities are positions, table keys are
  distinct, the columns a table, constraint, index or relation names exist and belong to the
  right table, the local and target columns of a relation have equal length, and the
  domain/array edges of its types are acyclic.
\<close>

theorem try_from_metadata_wf:
  assumes "try_from_metadata m = Inr c"
  shows "catalog_wf c"
  by (rule built_wf[OF try_from_metadata_built[OF assms]])

text \<open>
  The builder loses and invents nothing: the tables and columns of the catalog are those of
  the metadata, in the metadata's order, under their effective schemas.
\<close>

theorem try_from_metadata_complete:
  assumes "try_from_metadata m = Inr c"
  shows "map tb_key (cat_tables c) =
      map (\<lambda>(s, t). TableKey (effective_table_schema s t) (tm_name t)) (all_tables m) \<and>
    map col_key (cat_columns c) =
      map (\<lambda>(s, t, col). ColumnKey (effective_table_schema s t) (tm_name t) (cm_name col)) (all_columns m)"
proof -
  from built_tables[OF try_from_metadata_built[OF assms]] obtain b ts0 where b: "named m b"
    "finished_tables b ts0" "only_relations_differ ts0 (cat_tables c)" "cat_columns c = bl_columns b"
    by blast
  have "tb_key (cat_tables c ! i) = tb_key (ts0 ! i)" if "i < length ts0" for i
    using b(3) that by (auto simp: only_relations_differ_def)
  then have "map tb_key (cat_tables c) = map tb_key ts0"
    using b(3) by (intro nth_equalityI) (simp_all add: only_relations_differ_def)
  with b show ?thesis by (simp add: named_def finished_tables_def)
qed

lemma built_relation_of_fk:
  assumes "built_from m c" and "i < length (cat_foreign_keys c)"
  defines "k \<equiv> cat_foreign_keys c ! i"
  shows "cat_relations c ! (2 * i) = forward_relation (fk_selector (cat_columns c) k)
      (cat_tables c ! fk_to_table k) k (2 * i) (map ((!) (cat_columns c)) (fk_from_columns k))"
    and "cat_relations c ! Suc (2 * i) = reverse_relation (fk_selector (cat_columns c) k)
      (cat_tables c ! fk_from_table k) k (2 * i + 1)"
    and "2 * i < length (cat_relations c)" and "Suc (2 * i) < length (cat_relations c)"
    and "fk_from_table k < length (cat_tables c)"
  using built_relation_at[OF assms(1,2)] built_relations_length[OF assms(1)] assms(2)
    built_foreign_keys(1)[OF assms(1)] relation_parts
  by (simp_all add: k_def fk_ok_def)

text \<open>
  C18: relations of a built catalog come in mirrored pairs: every relation has a partner of the
  opposite direction with the same foreign key and selector, the same tables and the same
  columns, swapped. A relation along the key is singular; against the key it is singular
  exactly when the catalog proves the referencing columns unique, so a collection is never
  mistaken for a single row.
\<close>

theorem try_from_metadata_relations:
  assumes "try_from_metadata m = Inr c" and "r \<in> set (cat_relations c)"
  shows "(\<exists>r' \<in> set (cat_relations c).
      rel_join_support r' = rel_join_support r \<and> rel_join_direction r' \<noteq> rel_join_direction r \<and>
      rel_selector r' = rel_selector r \<and>
      rel_from_table r' = rel_to_table r \<and> rel_to_table r' = rel_from_table r \<and>
      rel_local_columns r' = rel_target_columns r \<and> rel_target_columns r' = rel_local_columns r) \<and>
    (case rel_join_direction r of
       Some Referencing \<Rightarrow> rel_cardinality r = RelSingular
     | Some Referenced \<Rightarrow> rel_cardinality r = RelSingular \<longleftrightarrow>
         column_set_is_unique c (rel_to_table r) (rel_target_columns r)
     | None \<Rightarrow> False)"
proof -
  note built = try_from_metadata_built[OF assms(1)]
  from assms(2) obtain j where j: "j < length (cat_relations c)" "r = cat_relations c ! j"
    by (auto simp: in_set_conv_nth)
  have "j < 2 * length (cat_foreign_keys c)" using j built_relations_length[OF built] by simp
  then show ?thesis
  proof (rule relation_index_cases)
    fix i
    assume i: "i < length (cat_foreign_keys c)" "j = 2 * i"
    note at = built_relation_of_fk[OF built i(1)]
    have "cat_relations c ! Suc (2 * i) \<in> set (cat_relations c)" using at(4) by simp
    then show ?thesis
      by (intro conjI bexI[of _ "cat_relations c ! Suc (2 * i)"])
         (simp_all add: j(2) i(2) at(1,2) forward_relation_def reverse_relation_def)
  next
    fix i
    assume i: "i < length (cat_foreign_keys c)" "j = Suc (2 * i)"
    note at = built_relation_of_fk[OF built i(1)]
    have "cat_relations c ! (2 * i) \<in> set (cat_relations c)" using at(3) by simp
    then show ?thesis
      using at(5)
      by (intro conjI bexI[of _ "cat_relations c ! (2 * i)"])
         (simp_all add: j(2) i(2) at(1,2) forward_relation_def reverse_relation_def
           column_set_is_unique_def table_by_id_def get_at_def)
  qed
qed

text \<open>
  Uniqueness marks are justified: a column flagged unique, and every non-empty primary key,
  is a unique column set of its table.
\<close>

theorem try_from_metadata_uniqueness:
  assumes "try_from_metadata m = Inr c"
  shows "(\<forall>col \<in> set (cat_columns c). col_is_unique col \<longrightarrow>
      column_set_is_unique c (col_table col) [col_id col]) \<and>
    (\<forall>t \<in> set (cat_tables c). tb_primary_key t \<noteq> [] \<longrightarrow>
      column_set_is_unique c (tb_id t) (tb_primary_key t))"
proof -
  from built_tables[OF try_from_metadata_built[OF assms]] obtain b ts0 where
    b: "builder_inv (length (cat_types c)) b" "finished_tables b ts0"
    "only_relations_differ ts0 (cat_tables c)" "cat_columns c = bl_columns b" by blast
  have len: "length (cat_tables c) = length ts0" "length ts0 = length (bl_tables b)"
    using b by (simp_all add: only_relations_differ_def finished_tables_def)
  have tab: "set (bl_unique_constraints b ! i) \<subseteq> set (tb_unique_constraints (cat_tables c ! i)) \<and>
      tb_id (cat_tables c ! i) = i \<and>
      (tb_primary_key (cat_tables c ! i) \<noteq> [] \<longrightarrow>
        tb_primary_key (cat_tables c ! i) \<in> set (tb_unique_constraints (cat_tables c ! i)))"
    if "i < length (cat_tables c)" for i
  proof -
    from b(3) that obtain rs where eq: "cat_tables c ! i = (ts0 ! i)\<lparr>tb_relations := rs\<rparr>"
      by (auto simp: only_relations_differ_def)
    from b(2) that len have "set (bl_unique_constraints b ! i) \<subseteq> set (tb_unique_constraints (ts0 ! i)) \<and>
      tb_id (ts0 ! i) = i \<and>
      (tb_primary_key (ts0 ! i) \<noteq> [] \<longrightarrow>
        tb_primary_key (ts0 ! i) \<in> set (tb_unique_constraints (ts0 ! i)))"
      by (simp add: finished_tables_def)
    then show ?thesis by (simp add: eq)
  qed
  have unique: "column_set_is_unique c i u"
    if "i < length (cat_tables c)" "u \<in> set (tb_unique_constraints (cat_tables c ! i))" "u \<noteq> []" for i u
    using that
    by (auto simp: column_set_is_unique_def table_by_id_def get_at_def
        table_column_set_is_unique_def list_ex_iff column_set_covers_def list_all_iff intro!: bexI[of _ u])
  have "column_set_is_unique c (col_table col) [col_id col]"
    if "col \<in> set (cat_columns c)" "col_is_unique col" for col
  proof -
    from that b(4) obtain j where j: "j < length (bl_columns b)" "col = bl_columns b ! j"
      by (auto simp: in_set_conv_nth)
    with b(1) that(2) have "col_id col = j" "col_table col < length (bl_tables b)"
      "[j] \<in> set (bl_unique_constraints b ! col_table col)"
      by (auto simp: builder_inv_def columns_inv_def flags_inv_def)
    with unique[of "col_table col" "[j]"] tab[of "col_table col"] len show ?thesis by auto
  qed
  moreover have "column_set_is_unique c (tb_id t) (tb_primary_key t)"
    if t: "t \<in> set (cat_tables c)" "tb_primary_key t \<noteq> []" for t
  proof -
    from t(1) obtain i where "i < length (cat_tables c)" "t = cat_tables c ! i"
      by (auto simp: in_set_conv_nth)
    with tab[of i] unique[of i "tb_primary_key t"] t(2) show ?thesis by auto
  qed
  ultimately show ?thesis by blast
qed

end
