(* ===== verification/Catalog_Provider.thy ===== *)
theory Catalog_Provider
  imports Catalog_Build_Correct
begin

text \<open>
  The hardcoded development catalog (\<open>crates/dsql-core/src/catalog/provider.rs\<close>), its
  well-formedness, and the concrete instances of the catalog properties: references resolved
  in it and a small schema built from metadata.
\<close>

section \<open>The hardcoded catalog\<close>

definition btree_index :: "string \<Rightarrow> column_id \<Rightarrow> bool \<Rightarrow> index" where
  "btree_index name col is_unique =
     \<lparr>ix_name = Some name, ix_access_method = ''btree'',
      ix_keys = [\<lparr>ik_column = col, ik_operator_class = None,
        ik_capabilities = [CapEquality, CapRange],
        ik_order = Some \<lparr>io_direction = DirAsc, io_nulls = NullsLast\<rparr>\<rparr>],
      ix_included_columns = [], ix_is_unique = is_unique\<rparr>"

definition searchable_index :: "string \<Rightarrow> column_id \<Rightarrow> index" where
  "searchable_index name col =
     \<lparr>ix_name = Some name, ix_access_method = ''gin'',
      ix_keys = [\<lparr>ik_column = col, ik_operator_class = Some ''public.gin_trgm_ops'',
        ik_capabilities = [CapLike], ik_order = None\<rparr>],
      ix_included_columns = [], ix_is_unique = False\<rparr>"

definition hardcoded_tables :: "table list" where
  "hardcoded_tables =
     [table_new 0 0 ''public'' ''users'' ObjTable None [0, 1, 2, 3] [0] [[0]]
        [btree_index ''users_pkey'' 0 True, searchable_index ''users_name_search_idx'' 1] [1],
      table_new 1 0 ''public'' ''posts'' ObjTable None [4, 5, 6, 7, 8] [4] [[4]]
        [btree_index ''posts_pkey'' 4 True] [0],
      table_new 2 1 ''other_schema'' ''users'' ObjTable None [9, 10] [9] [[9]]
        [btree_index ''other_users_pkey'' 9 True] []]"

definition hardcoded_types :: "catalog_type list" where
  "hardcoded_types =
     [catalog_type_builtin 0 (TypeKey ''pg_catalog'' ''uuid'') DtUuid,
      catalog_type_builtin 1 (TypeKey ''pg_catalog'' ''text'') DtText,
      catalog_type_builtin 2 (TypeKey ''pg_catalog'' ''timestamptz'') DtTimestamptz]"

definition hardcoded_columns :: "column list" where
  "hardcoded_columns =
     [column_new 0 0 ''public'' ''users'' ''id'' None 0 ''uuid'' None True True,
      column_new 1 0 ''public'' ''users'' ''name'' None 1 ''text'' None True False,
      column_new 2 0 ''public'' ''users'' ''email'' None 1 ''text'' None False False,
      column_new 3 0 ''public'' ''users'' ''created_at'' None 2 ''timestamptz'' None True False,
      column_new 4 1 ''public'' ''posts'' ''id'' None 0 ''uuid'' None True True,
      column_new 5 1 ''public'' ''posts'' ''title'' None 1 ''text'' None True False,
      column_new 6 1 ''public'' ''posts'' ''body'' None 1 ''text'' None True False,
      column_new 7 1 ''public'' ''posts'' ''user_id'' None 0 ''uuid'' None True False,
      column_new 8 1 ''public'' ''posts'' ''created_at'' None 2 ''timestamptz'' None True False,
      column_new 9 2 ''other_schema'' ''users'' ''id'' None 0 ''uuid'' None True True,
      column_new 10 2 ''other_schema'' ''users'' ''name'' None 1 ''text'' None True False]"

definition hardcoded_foreign_keys :: "foreign_key list" where
  "hardcoded_foreign_keys =
     [\<lparr>fk_id = 0, fk_name = Some ''posts_user_id_fkey'', fk_from_columns = [7],
       fk_to_columns = [0], fk_from_table = 1, fk_to_table = 0\<rparr>]"

definition hardcoded_relations :: "relation list" where
  "hardcoded_relations =
     [\<lparr>rel_id = 0, rel_name = ''users'', rel_selector = ''user_id'', rel_visible = True,
       rel_from_table = 1, rel_to_table = 0, rel_local_columns = [7], rel_target_columns = [0],
       rel_cardinality = RelSingular, rel_nullable = False, rel_join_support = Some 0,
       rel_join_direction = Some Referencing, rel_supports = relation_supports_default\<rparr>,
      \<lparr>rel_id = 1, rel_name = ''posts'', rel_selector = ''user_id'', rel_visible = True,
       rel_from_table = 0, rel_to_table = 1, rel_local_columns = [0], rel_target_columns = [7],
       rel_cardinality = RelCollection, rel_nullable = True, rel_join_support = Some 0,
       rel_join_direction = Some Referenced, rel_supports = relation_supports_default\<rparr>]"

definition hardcoded :: catalog where
  "hardcoded =
     \<lparr>cat_default_schema = default_schema_name,
      cat_schemas = [schema_new 0 ''public'' [0, 1], schema_new 1 ''other_schema'' [2]],
      cat_tables = hardcoded_tables, cat_types = hardcoded_types, cat_type_ids = Map.empty,
      cat_columns = hardcoded_columns, cat_foreign_keys = hardcoded_foreign_keys,
      cat_relations = hardcoded_relations, cat_uniqueness_supports = []\<rparr>"

lemmas hardcoded_eval = hardcoded_def hardcoded_tables_def hardcoded_types_def
  hardcoded_columns_def hardcoded_relations_def table_new_def column_new_def btree_index_def
  searchable_index_def catalog_type_builtin_def

lemma all_less_numeral:
  "(\<forall>i < Suc n. P i) \<longleftrightarrow> P n \<and> (\<forall>i < n. P i)"
  by (auto simp: less_Suc_eq)

lemma hardcoded_tables_wf: "tables_wf hardcoded"
  by (simp add: tables_wf_def hardcoded_eval columns_in_def all_less_numeral Let_def)

lemma hardcoded_columns_wf: "columns_wf hardcoded"
  by (simp add: columns_wf_def hardcoded_eval all_less_numeral Let_def)

lemma hardcoded_relations_wf: "relations_wf hardcoded"
  by (simp add: relations_wf_def hardcoded_eval columns_in_def all_less_numeral Let_def)

lemma hardcoded_types_wf: "types_wf hardcoded"
proof -
  have "\<forall>i < length hardcoded_types. ty_shape (hardcoded_types ! i) = ShapeScalar"
    by (simp add: hardcoded_types_def catalog_type_builtin_def all_less_numeral)
  then have "types_acyclic (cat_types hardcoded)"
    by (simp add: hardcoded_def all_scalar_acyclic)
  then show ?thesis by (simp add: types_wf_def hardcoded_eval all_less_numeral)
qed

lemma hardcoded_wf: "catalog_wf hardcoded"
  by (simp add: catalog_wf_def hardcoded_tables_wf hardcoded_columns_wf hardcoded_relations_wf
      hardcoded_types_wf)

section \<open>Instances of the lookup properties\<close>

theorem resolve_table_ref_correct_witness:
  "resolve_table_ref_for hardcoded \<lparr>tref_schema = None, tref_name = ''users''\<rparr> =
     TableAmbiguous ''users'' [TableKey ''other_schema'' ''users'', TableKey ''public'' ''users'']"
  by (subst resolve_table_ref_correct[OF hardcoded_wf])
     (simp add: visible_named_def hardcoded_eval table_ref_display_def less_eq_table_key_def
       insort_key.simps)

theorem check_field_ref_sound_witness:
  "\<exists>r. check_field_ref hardcoded 1
      \<lparr>fref_target = \<lparr>tref_schema = None, tref_name = ''users''\<rparr>, fref_selector = None\<rparr> =
    FieldRelation r \<and> rel_from_table (rf_relation r) = 1 \<and>
    rel_to_table (rf_relation r) = tb_id (rf_table r)"
proof -
  let ?f = "\<lparr>fref_target = \<lparr>tref_schema = None, tref_name = ''users''\<rparr>, fref_selector = None\<rparr>"
  have "\<exists>r. check_field_ref hardcoded 1 ?f = FieldRelation r"
    by (simp add: check_field_ref_def get_at_def direct_column_def relation_candidates_def
        relation_fields_for_table_def relation_exposed_def relation_field_of_def hardcoded_eval
        List.map_filter_simps default_schema_name_def Let_def)
  then obtain r where "check_field_ref hardcoded 1 ?f = FieldRelation r" ..
  with check_field_ref_sound[OF hardcoded_wf, where i = 1 and f = ?f] show ?thesis by simp
qed

section \<open>A small schema built from metadata\<close>

definition sample_column :: "string \<Rightarrow> string \<Rightarrow> data_type \<Rightarrow> bool \<Rightarrow> column_metadata" where
  "sample_column name type_name data_type not_null =
     \<lparr>cm_name = name, cm_description = None, cm_provider_type = TypeKey ''pg_catalog'' type_name,
      cm_formatted_type = None, cm_type_modifier = None, cm_database_type = type_name,
      cm_data_type = data_type, cm_not_null = not_null\<rparr>"

definition sample_schema :: database_metadata where
  "sample_schema =
     \<lparr>dm_schemas = [\<lparr>sm_name = ''public'', sm_tables =
        [\<lparr>tm_schema = [], tm_name = ''users'', tm_object_type = ObjTable, tm_description = None,
          tm_columns = [sample_column ''id'' ''uuid'' DtUuid True],
          tm_constraints = [\<lparr>tcm_name = None, tcm_kind = PrimaryKeyConstraint, tcm_columns = [''id'']\<rparr>],
          tm_foreign_keys = [], tm_indexes = []\<rparr>,
         \<lparr>tm_schema = [], tm_name = ''posts'', tm_object_type = ObjTable, tm_description = None,
          tm_columns = [sample_column ''user_id'' ''uuid'' DtUuid False],
          tm_constraints = [],
          tm_foreign_keys = [\<lparr>fkm_name = None, fkm_columns = [''user_id''], fkm_ref_schema = ''public'',
            fkm_ref_table = ''users'', fkm_ref_columns = [''id'']\<rparr>], tm_indexes = []\<rparr>]\<rparr>],
      dm_types = []\<rparr>"

lemmas build_eval = try_from_metadata_def build_catalog_types_def register_names_def register_keys_def
  add_schema_def add_table_def add_column_def add_table_keys_def add_constraint_def add_index_def
  add_table_foreign_keys_def add_metadata_foreign_key_def add_foreign_key_def resolve_local_columns_def
  push_unique_constraint_def finish_table_def add_relations_def all_tables_def all_columns_def
  add_fixture_type_def builder_empty_def effective_table_schema_def schema_new_def table_new_def
  column_new_def catalog_type_builtin_def push_relation_def forward_relation_def reverse_relation_def Let_def

lemma sample_schema_builds:
  "\<exists>c. try_from_metadata sample_schema = Inr c \<and> length (cat_relations c) = 2 \<and>
     length (cat_tables c) = 2 \<and> tb_primary_key (cat_tables c ! 0) = [0]"
  by (simp add: build_eval sample_schema_def sample_column_def index_at_def modify_at_def key_at_def)

theorem try_from_metadata_wf_witness:
  "\<exists>c. try_from_metadata sample_schema = Inr c \<and> length (cat_relations c) = 2 \<and> catalog_wf c"
proof -
  obtain c where c: "try_from_metadata sample_schema = Inr c" "length (cat_relations c) = 2"
    using sample_schema_builds by blast
  from try_from_metadata_wf[OF c(1)] c show ?thesis by blast
qed

theorem try_from_metadata_complete_witness:
  "\<exists>c. try_from_metadata sample_schema = Inr c \<and>
     map tb_key (cat_tables c) = [TableKey ''public'' ''users'', TableKey ''public'' ''posts'']"
proof -
  obtain c where c: "try_from_metadata sample_schema = Inr c" using sample_schema_builds by blast
  from try_from_metadata_complete[OF c] have
    "map tb_key (cat_tables c) = [TableKey ''public'' ''users'', TableKey ''public'' ''posts'']"
    by (simp add: sample_schema_def all_tables_def effective_table_schema_def)
  with c show ?thesis by (intro exI conjI)
qed

theorem try_from_metadata_relations_witness:
  "\<exists>c r. try_from_metadata sample_schema = Inr c \<and> r \<in> set (cat_relations c) \<and>
     (\<exists>r' \<in> set (cat_relations c). rel_from_table r' = rel_to_table r \<and>
        rel_local_columns r' = rel_target_columns r)"
proof -
  obtain c where c: "try_from_metadata sample_schema = Inr c" "length (cat_relations c) = 2"
    using sample_schema_builds by blast
  then have "cat_relations c ! 0 \<in> set (cat_relations c)" by simp
  from try_from_metadata_relations[OF c(1) this] obtain r' where
    "r' \<in> set (cat_relations c)" "rel_from_table r' = rel_to_table (cat_relations c ! 0)"
    "rel_local_columns r' = rel_target_columns (cat_relations c ! 0)" by blast
  with c(1) \<open>cat_relations c ! 0 \<in> set (cat_relations c)\<close> show ?thesis by blast
qed

theorem try_from_metadata_uniqueness_witness:
  "\<exists>c. try_from_metadata sample_schema = Inr c \<and> column_set_is_unique c 0 [0]"
proof -
  obtain c where c: "try_from_metadata sample_schema = Inr c" "length (cat_tables c) = 2"
    "tb_primary_key (cat_tables c ! 0) = [0]"
    using sample_schema_builds by blast
  have "tables_wf c" using built_wf[OF try_from_metadata_built[OF c(1)]] by (simp add: catalog_wf_def)
  with c(2) have "tb_id (cat_tables c ! 0) = 0" by (simp add: tables_wf_def Let_def)
  moreover have "cat_tables c ! 0 \<in> set (cat_tables c)" using c(2) by simp
  ultimately have "column_set_is_unique c 0 [0]"
    using try_from_metadata_uniqueness[OF c(1)] c(3) by force
  with c(1) show ?thesis by blast
qed

end
