(* ===== verification/Plan_Types.thy ===== *)
theory Plan_Types
  imports Catalog_Lookup
begin

text \<open>
  The query plan (\<open>crates/dsql-core/src/plan/types.rs\<close>) and the selection shape it carries
  (\<open>crates/dsql-core/src/resolution.rs\<close>): filter expressions, ordering, policies attached to
  a source, collections with their results, roots. An entity identity of the incremental
  engine is an opaque number.
\<close>

type_synonym entity = nat

section \<open>Selection shapes\<close>

datatype selection_cardinality = CardCollection | CardAtMostOne

datatype selection_cardinality_proof =
    ProofRelation
  | ProofUniqueKey "column_id list"
  | ProofLimitOne

datatype resolved_selection_limit =
    LimitNone
  | LimitLiteral nat span
  | LimitRuntime span

definition may_suppress :: "resolved_selection_limit \<Rightarrow> bool" where
  "may_suppress l =
     (case l of LimitLiteral v _ \<Rightarrow> v = 0 | LimitRuntime _ \<Rightarrow> True | LimitNone \<Rightarrow> False)"

record resolved_selection_shape =
  shape_cardinality :: selection_cardinality
  shape_proof :: "selection_cardinality_proof option"
  shape_nullable :: bool
  shape_limit :: resolved_selection_limit

section \<open>Operators\<close>

datatype filter_op = FopEq | FopNe | FopGt | FopGe | FopLt | FopLe | FopLike | FopAnd | FopOr

fun filter_op_of :: "comparison_op \<Rightarrow> filter_op" where
  "filter_op_of CmpEq = FopEq"
| "filter_op_of CmpNe = FopNe"
| "filter_op_of CmpGt = FopGt"
| "filter_op_of CmpGe = FopGe"
| "filter_op_of CmpLt = FopLt"
| "filter_op_of CmpLe = FopLe"
| "filter_op_of CmpLike = FopLike"

fun dsql_label :: "filter_op \<Rightarrow> string option" where
  "dsql_label FopEq = Some ''==''"
| "dsql_label FopNe = Some ''!=''"
| "dsql_label FopGt = Some ''>''"
| "dsql_label FopGe = Some ''>=''"
| "dsql_label FopLt = Some ''<''"
| "dsql_label FopLe = Some ''<=''"
| "dsql_label FopLike = Some ''like''"
| "dsql_label FopAnd = None"
| "dsql_label FopOr = None"

fun postgres_text :: "filter_op \<Rightarrow> string option" where
  "postgres_text FopEq = Some ''=''"
| "postgres_text FopNe = Some ''!=''"
| "postgres_text FopGt = Some ''>''"
| "postgres_text FopGe = Some ''>=''"
| "postgres_text FopLt = Some ''<''"
| "postgres_text FopLe = Some ''<=''"
| "postgres_text FopLike = Some ''like''"
| "postgres_text FopAnd = None"
| "postgres_text FopOr = None"

section \<open>Values, parameters, dynamic inputs\<close>

record sql_parameter =
  sp_path :: string
  sp_text_cast :: "type_key option"
  sp_collection :: bool

datatype sql_value = SqlLiteral nat | SqlParam sql_parameter

record sql_variant_case =
  vc_value :: string
  vc_text :: string

datatype filter_literal = FlString string | FlNumber string | FlBool bool | FlNull

datatype filter_column_scope = ScopeCurrent | ScopeRoot | ScopePredicateSource | ScopeParent

datatype exists_kind = ExistsExplicit | ExistsRelationshipPredicate

datatype policy_access = AccessUnconditional | AccessContextOnly | AccessRowDependent

datatype policy_field_target = TargetColumn column_id | TargetRelation relation_id

record policy_context_requirement =
  pcr_path :: string
  pcr_data_type :: data_type
  pcr_wire :: wire_encoding
  pcr_provider_type :: "type_key option"
  pcr_collection :: bool

datatype dynamic_predicate_operator =
  DpoEq | DpoNeq | DpoGt | DpoGte | DpoLt | DpoLte | DpoLike | DpoIn | DpoNotIn | DpoIsNull

fun dynamic_predicate_operator_as_str :: "dynamic_predicate_operator \<Rightarrow> string" where
  "dynamic_predicate_operator_as_str DpoEq = ''eq''"
| "dynamic_predicate_operator_as_str DpoNeq = ''neq''"
| "dynamic_predicate_operator_as_str DpoGt = ''gt''"
| "dynamic_predicate_operator_as_str DpoGte = ''gte''"
| "dynamic_predicate_operator_as_str DpoLt = ''lt''"
| "dynamic_predicate_operator_as_str DpoLte = ''lte''"
| "dynamic_predicate_operator_as_str DpoLike = ''like''"
| "dynamic_predicate_operator_as_str DpoIn = ''in''"
| "dynamic_predicate_operator_as_str DpoNotIn = ''not_in''"
| "dynamic_predicate_operator_as_str DpoIsNull = ''is_null''"

datatype dynamic_order_direction =
  DodAsc | DodDesc | DodAscNullsFirst | DodAscNullsLast | DodDescNullsFirst | DodDescNullsLast

fun dynamic_order_direction_as_str :: "dynamic_order_direction \<Rightarrow> string" where
  "dynamic_order_direction_as_str DodAsc = ''asc''"
| "dynamic_order_direction_as_str DodDesc = ''desc''"
| "dynamic_order_direction_as_str DodAscNullsFirst = ''asc_nulls_first''"
| "dynamic_order_direction_as_str DodAscNullsLast = ''asc_nulls_last''"
| "dynamic_order_direction_as_str DodDescNullsFirst = ''desc_nulls_first''"
| "dynamic_order_direction_as_str DodDescNullsLast = ''desc_nulls_last''"

definition dynamic_order_directions :: "dynamic_order_direction list" where
  "dynamic_order_directions =
     [DodAsc, DodDesc, DodAscNullsFirst, DodAscNullsLast, DodDescNullsFirst, DodDescNullsLast]"

record dynamic_input_field =
  dif_key :: string
  dif_column :: column_id
  dif_data_type :: data_type
  dif_nullable :: bool
  dif_access :: policy_access
  dif_operators :: "dynamic_predicate_operator list"
  dif_directions :: "dynamic_order_direction list"

datatype dynamic_input_kind = DynPredicate | DynOrder

record dynamic_input_contract =
  dic_path :: string
  dic_kind :: dynamic_input_kind
  dic_surface :: dynamic_input_surface
  dic_fields :: "dynamic_input_field list"

section \<open>Filters\<close>

datatype filter_expr =
    FAbsent
  | FOptional sql_parameter filter_expr
  | FColumn filter_column_scope column_id
  | FLiteral filter_literal
  | FParameter sql_parameter
  | FDynamicPredicate string dynamic_input_surface "dynamic_input_field list"
  | FBinary filter_expr filter_op filter_expr
  | FNot filter_expr
  | FNullTest filter_expr bool
  | FMembership filter_expr filter_collection bool
  | FVariantBinary filter_expr string "sql_variant_case list" filter_expr
  | FExists "relation_id option" table_id exists_kind filter_column_scope
      "filter_expr option" "policy_field_filter list" "filter_expr option"
  | FRelationAggregate relation_id table_id aggregate_function "column_id option"
      "filter_expr option" "policy_field_filter list"
and filter_collection =
    CollList "filter_expr list"
  | CollParameter sql_parameter
and policy_field_filter =
    PolicyFieldFilter (pf_target: policy_field_target) (pf_filter: filter_expr)
      (pf_context: "policy_context_requirement list")

fun filter_observes_rows :: "filter_expr \<Rightarrow> bool"
and collection_observes_rows :: "filter_collection \<Rightarrow> bool" where
  "filter_observes_rows (FColumn _ _) = True"
| "filter_observes_rows (FExists _ _ _ _ _ _ _) = True"
| "filter_observes_rows (FRelationAggregate _ _ _ _ _ _) = True"
| "filter_observes_rows (FDynamicPredicate _ _ _) = True"
| "filter_observes_rows (FBinary l _ r) = (filter_observes_rows l \<or> filter_observes_rows r)"
| "filter_observes_rows (FVariantBinary l _ _ r) = (filter_observes_rows l \<or> filter_observes_rows r)"
| "filter_observes_rows (FOptional _ f) = filter_observes_rows f"
| "filter_observes_rows (FNot f) = filter_observes_rows f"
| "filter_observes_rows (FNullTest f _) = filter_observes_rows f"
| "filter_observes_rows (FMembership f c _) = (filter_observes_rows f \<or> collection_observes_rows c)"
| "filter_observes_rows FAbsent = False"
| "filter_observes_rows (FLiteral _) = False"
| "filter_observes_rows (FParameter _) = False"
| "collection_observes_rows (CollList items) = list_ex filter_observes_rows items"
| "collection_observes_rows (CollParameter _) = False"

definition access_for_guard :: "filter_expr \<Rightarrow> policy_access" where
  "access_for_guard f =
     (if f = FLiteral (FlBool True) then AccessUnconditional
      else if filter_observes_rows f then AccessRowDependent
      else AccessContextOnly)"

text \<open>\<open>PolicyAccess::combine\<close>: the maximum of the derived order.\<close>

fun access_rank :: "policy_access \<Rightarrow> nat" where
  "access_rank AccessUnconditional = 0"
| "access_rank AccessContextOnly = 1"
| "access_rank AccessRowDependent = 2"

definition access_combine :: "policy_access \<Rightarrow> policy_access \<Rightarrow> policy_access" where
  "access_combine a b = (if access_rank a \<le> access_rank b then b else a)"

section \<open>Policies of a source\<close>

record policy_field_access =
  pfa_target :: policy_field_target
  pfa_access :: policy_access

datatype policy_assignment_state = PasDefault | PasEnabled | PasDisabled | PasConditional
datatype policy_enforcement = EnforceNone | EnforceAlways | EnforceConditional

record policy_identity =
  pid_scope :: string
  pid_name :: string

record policy_application_field =
  paf_target :: policy_field_target
  paf_access :: policy_access

record policy_application_plan =
  pap_filter :: entity
  pap_identity :: policy_identity
  pap_conditions :: "policy_identity list"
  pap_path :: string
  pap_target :: table_id
  pap_default_active :: bool
  pap_enforcement :: policy_enforcement
  pap_assignment :: policy_assignment_state
  pap_rows_filtered :: bool
  pap_fields :: "policy_application_field list"
  pap_context :: "policy_context_requirement list"

section \<open>Clauses, aggregates, collections\<close>

datatype sort_direction_plan =
    SortAsc
  | SortDesc
  | SortVariant string "sql_variant_case list" bool

datatype order_by_plan =
    OrderColumn column_id sort_direction_plan
  | OrderDynamic string dynamic_input_surface "dynamic_input_field list"

record selection_clauses =
  cl_filter :: "filter_expr option"
  cl_order_by :: "order_by_plan list"
  cl_limit :: "sql_value option"
  cl_offset :: "sql_value option"

record aggregate_group_projection =
  agp_column :: column_id
  agp_output_name :: string
  agp_data_type :: data_type
  agp_nullable :: bool

record aggregate_projection =
  ap_function :: aggregate_function
  ap_operand :: "column_id option"
  ap_output_name :: string
  ap_data_type :: data_type
  ap_nullable :: bool

record aggregate_plan =
  ag_mode :: aggregate_mode
  ag_group_keys :: "aggregate_group_projection list"
  ag_fields :: "aggregate_projection list"

record projection =
  pr_column :: column_id
  pr_output_name :: string

datatype collection_plan =
    CollectionPlan (cp_table: table_id) (cp_shape: resolved_selection_shape)
      (cp_clauses: selection_clauses) (cp_policy_filter: "filter_expr option")
      (cp_field_filters: "policy_field_filter list")
      (cp_policy_nullable_fields: "policy_field_target list")
      (cp_policy_field_access: "policy_field_access list")
      (cp_policy_applications: "policy_application_plan list")
      (cp_result: collection_result_plan)
and collection_result_plan =
    ResultRows "selection_plan_item list"
  | ResultAggregate aggregate_plan
and selection_plan_item =
    ItemProjection projection
  | ItemRelation nested_relation
and nested_relation =
    NestedRelation (nr_relation_name: string) (nr_output_name: string) (nr_flattened: bool)
      (nr_relation: relation_id) (nr_collection: collection_plan)

type_synonym selection_plan = "selection_plan_item list"

record query_root_plan =
  qr_output_name :: string
  qr_flattened :: bool
  qr_collection :: collection_plan

record query_plan =
  qp_roots :: "query_root_plan list"
  qp_policy_context :: "policy_context_requirement list"
  qp_dynamic_inputs :: "dynamic_input_contract list"

section \<open>Facts\<close>

lemma access_combine_max: "access_rank (access_combine a b) = max (access_rank a) (access_rank b)"
  by (simp add: access_combine_def)

lemma filter_op_of_labels:
  "dsql_label (filter_op_of op) = Some (comparison_op_as_str op)"
  by (cases op) auto

end
