(* ===== verification/Sql_Names.thy ===== *)
theory Sql_Names
  imports Catalog_Types "HOL-Library.Word"
begin

text \<open>
  The identifiers the SQL generator invents (\<open>crates/dsql-core/src/sql/postgres.rs\<close>):
  \<open>sanitize_alias\<close>, \<open>truncate_identifier_base\<close>, \<open>short_hash\<close> (64-bit FNV-1a, low word in
  hexadecimal), \<open>generated_identifier\<close> and the three aliases of a selection.

  Strings are UTF-8 bytes. A non-ASCII character is a run of bytes that are neither ASCII
  alphanumeric nor an underscore, and \<open>sanitize_alias\<close> maps a run of those to one underscore,
  so reading bytes gives the same alias as reading characters.
\<close>

section \<open>Characters\<close>

definition ascii_lower :: "char \<Rightarrow> bool" where
  "ascii_lower c \<longleftrightarrow> 97 \<le> (of_char c :: nat) \<and> (of_char c :: nat) \<le> 122"

definition ascii_upper :: "char \<Rightarrow> bool" where
  "ascii_upper c \<longleftrightarrow> 65 \<le> (of_char c :: nat) \<and> (of_char c :: nat) \<le> 90"

definition ascii_digit :: "char \<Rightarrow> bool" where
  "ascii_digit c \<longleftrightarrow> 48 \<le> (of_char c :: nat) \<and> (of_char c :: nat) \<le> 57"

definition is_ascii_alphanumeric :: "char \<Rightarrow> bool" where
  "is_ascii_alphanumeric c \<longleftrightarrow> ascii_lower c \<or> ascii_upper c \<or> ascii_digit c"

definition to_ascii_lowercase :: "char \<Rightarrow> char" where
  "to_ascii_lowercase c = (if ascii_upper c then char_of (of_char c + 32 :: nat) else c)"

definition trim_underscores :: "string \<Rightarrow> string" where
  "trim_underscores s =
     rev (dropWhile (\<lambda>c. c = CHR ''_'') (rev (dropWhile (\<lambda>c. c = CHR ''_'') s)))"

section \<open>Aliases\<close>

text \<open>The loop over the characters, with \<open>alias\<close> and \<open>last_was_underscore\<close>.\<close>

fun sanitize_loop :: "string \<Rightarrow> bool \<Rightarrow> string \<Rightarrow> string" where
  "sanitize_loop acc last_us [] = acc"
| "sanitize_loop acc last_us (c # cs) =
     (if is_ascii_alphanumeric c then sanitize_loop (acc @ [to_ascii_lowercase c]) False cs
      else if c = CHR ''_'' then
        (if last_us then sanitize_loop acc last_us cs
         else sanitize_loop (acc @ [c]) True cs)
      else if \<not> last_us \<and> acc \<noteq> [] then sanitize_loop (acc @ [CHR ''_'']) True cs
      else sanitize_loop acc last_us cs)"

definition sanitize_alias :: "string \<Rightarrow> string option" where
  "sanitize_alias value =
     (let acc = trim_underscores (sanitize_loop [] False value) in
      if acc = [] then None else Some acc)"

definition utf8_width :: "char \<Rightarrow> nat" where
  "utf8_width c =
     (let b = (of_char c :: nat) in
      if b < 128 then 1 else if b < 224 then 2 else if b < 240 then 3 else 4)"

text \<open>The \<open>char_indices\<close> loop: the end of the last character that fits.\<close>

function truncate_end :: "nat \<Rightarrow> nat \<Rightarrow> string \<Rightarrow> nat" where
  "truncate_end max_bytes stop [] = stop"
| "truncate_end max_bytes stop (c # cs) =
     (if max_bytes < stop + utf8_width c then stop
      else truncate_end max_bytes (stop + utf8_width c) (drop (utf8_width c) (c # cs)))"
  by pat_completeness auto
termination
  by (relation "measure (\<lambda>(_, _, s). length s)") (auto simp: utf8_width_def Let_def)

definition truncate_identifier_base :: "string \<Rightarrow> nat \<Rightarrow> string" where
  "truncate_identifier_base value max_bytes =
     trim_underscores (take (truncate_end max_bytes 0 value) value)"

definition postgres_identifier_max_bytes :: nat where
  "postgres_identifier_max_bytes = 63"

text \<open>\<open>saturating_sub\<close> is the truncating subtraction of the naturals.\<close>

definition generated_identifier :: "string \<Rightarrow> string \<Rightarrow> string \<Rightarrow> string" where
  "generated_identifier base infx suffix =
     (let max_base_bytes = postgres_identifier_max_bytes - length infx - length suffix;
          truncated = truncate_identifier_base base max_base_bytes;
          truncated = (if truncated = [] then truncate_identifier_base ''selection'' max_base_bytes
                       else truncated) in
      truncated @ infx @ suffix)"

section \<open>Hashes\<close>

definition fnv_offset :: "64 word" where
  "fnv_offset = 0xcbf29ce484222325"

definition fnv_prime :: "64 word" where
  "fnv_prime = 0x100000001b3"

definition fnv_step :: "64 word \<Rightarrow> char \<Rightarrow> 64 word" where
  "fnv_step hash byte = (Bit_Operations.xor hash (word_of_nat (of_char byte))) * fnv_prime"

definition hex_digit :: "nat \<Rightarrow> char" where
  "hex_digit d = ''0123456789abcdef'' ! d"

text \<open>\<open>{:08x}\<close> of a 32-bit value: its eight nibbles.\<close>

definition hex8 :: "32 word \<Rightarrow> string" where
  "hex8 w = map (\<lambda>i. hex_digit (unat w div 16 ^ i mod 16)) [7, 6, 5, 4, 3, 2, 1, 0]"

definition short_hash :: "string \<Rightarrow> string" where
  "short_hash value = hex8 (ucast (foldl fnv_step fnv_offset value))"

section \<open>The aliases of a selection\<close>

record selection_context =
  sc_table_alias :: string
  sc_json_alias :: string
  sc_result_alias :: string

definition path_segment_of :: "table \<Rightarrow> string \<Rightarrow> string" where
  "path_segment_of t output_name = tb_schema t @ ''.'' @ tb_name t @ '':'' @ output_name"

definition table_label :: "table \<Rightarrow> string" where
  "table_label t = tb_schema t @ ''.'' @ tb_name t"

definition context_for :: "table \<Rightarrow> string \<Rightarrow> string list \<Rightarrow> selection_context" where
  "context_for t output_name path =
     (let suffix = short_hash (join_with ''/'' path);
          base = (case sanitize_alias output_name of
                    Some a \<Rightarrow> a
                  | None \<Rightarrow> (case sanitize_alias (tb_name t) of Some a \<Rightarrow> a | None \<Rightarrow> ''selection'')) in
      \<lparr>sc_table_alias = generated_identifier base ''_'' suffix,
       sc_json_alias = generated_identifier base ''_json_'' suffix,
       sc_result_alias = generated_identifier base ''_result_'' suffix\<rparr>)"

section \<open>Facts\<close>

text \<open>The characters a generated identifier may contain: it never needs escaping.\<close>

definition plain_char :: "char \<Rightarrow> bool" where
  "plain_char c \<longleftrightarrow> ascii_lower c \<or> ascii_digit c \<or> c = CHR ''_''"

lemma plain_underscore [simp]: "plain_char CHR ''_''"
  by (simp add: plain_char_def)

lemma to_ascii_lowercase_plain:
  "is_ascii_alphanumeric c \<Longrightarrow> plain_char (to_ascii_lowercase c)"
  by (auto simp: is_ascii_alphanumeric_def to_ascii_lowercase_def plain_char_def ascii_upper_def
      ascii_lower_def ascii_digit_def)

lemma set_trim_underscores: "set (trim_underscores s) \<subseteq> set s"
  by (auto simp: trim_underscores_def dest!: set_dropWhileD)

lemma length_trim_underscores: "length (trim_underscores s) \<le> length s"
  unfolding trim_underscores_def length_rev
  by (rule order_trans[OF length_dropWhile_le]) (simp add: length_dropWhile_le)

lemma sanitize_loop_plain:
  "list_all plain_char acc \<Longrightarrow> list_all plain_char (sanitize_loop acc last_us s)"
  by (induction s arbitrary: acc last_us)
     (simp_all add: to_ascii_lowercase_plain)

lemma sanitize_alias_plain:
  assumes "sanitize_alias s = Some a"
  shows "a \<noteq> [] \<and> list_all plain_char a \<and> hd a \<noteq> CHR ''_'' \<and> last a \<noteq> CHR ''_''"
proof -
  let ?l = "sanitize_loop [] False s"
  from assms have a: "a = trim_underscores ?l" "a \<noteq> []"
    by (auto simp: sanitize_alias_def Let_def split: if_splits)
  have "list_all plain_char ?l" by (rule sanitize_loop_plain) simp
  then have "list_all plain_char a"
    using a(1) set_trim_underscores by (auto simp: list_all_iff)
  moreover have "last a \<noteq> CHR ''_''"
  proof -
    have "dropWhile (\<lambda>c. c = CHR ''_'') (rev (dropWhile (\<lambda>c. c = CHR ''_'') ?l)) \<noteq> []"
      using a by (simp only: trim_underscores_def rev_is_Nil_conv not_False_eq_True)
    then show ?thesis
      unfolding a(1) trim_underscores_def using hd_dropWhile by (metis (mono_tags, lifting) last_rev)
  qed
  moreover have "hd a \<noteq> CHR ''_''"
  proof -
    let ?m = "dropWhile (\<lambda>c. c = CHR ''_'') ?l"
    let ?d = "dropWhile (\<lambda>c. c = CHR ''_'') (rev ?m)"
    have ne: "?m \<noteq> []" using a by (metis dropWhile.simps(1) rev.simps(1) trim_underscores_def)
    obtain p where p: "rev ?m = p @ ?d" by (metis takeWhile_dropWhile_id)
    have "?m = rev ?d @ rev p" using p by (metis rev_append rev_rev_ident)
    moreover have "?d \<noteq> []" using a by (simp add: trim_underscores_def)
    ultimately have "hd ?m = hd (rev ?d)" by (metis hd_append2 rev_is_Nil_conv)
    with hd_dropWhile[OF ne] a(1) show ?thesis by (simp add: trim_underscores_def)
  qed
  ultimately show ?thesis using a(2) by blast
qed

lemma plain_width: "plain_char c \<Longrightarrow> utf8_width c = 1"
  by (auto simp: plain_char_def utf8_width_def ascii_lower_def ascii_digit_def Let_def)

lemma truncate_end_plain:
  "list_all plain_char s \<Longrightarrow> e \<le> m \<Longrightarrow> truncate_end m e s = min m (e + length s)"
proof (induction m e s rule: truncate_end.induct)
  case (2 m e c cs)
  then show ?case by (cases "m < e + 1") (auto simp: plain_width min_def)
qed simp

lemma truncate_identifier_base_plain:
  assumes "list_all plain_char s"
  shows "truncate_identifier_base s m = trim_underscores (take m s)"
  using truncate_end_plain[OF assms, of 0 m] by (simp add: truncate_identifier_base_def min_def)

lemma truncate_end_bound: "e \<le> m \<Longrightarrow> truncate_end m e s \<le> m"
  by (induction m e s rule: truncate_end.induct) auto

lemma truncate_identifier_base_bound: "length (truncate_identifier_base s m) \<le> m"
proof -
  have "length (take (truncate_end m 0 s) s) \<le> m"
    using truncate_end_bound[of 0 m s] by (simp add: min_le_iff_disj)
  then show ?thesis
    unfolding truncate_identifier_base_def using length_trim_underscores order_trans by blast
qed

lemma length_hex8 [simp]: "length (hex8 w) = 8"
  by (simp add: hex8_def)

lemma length_short_hash [simp]: "length (short_hash s) = 8"
  by (simp add: short_hash_def)

lemma hex_digit_plain: "d < 16 \<Longrightarrow> plain_char (hex_digit d)"
proof -
  assume "d < 16"
  then have "hex_digit d \<in> set ''0123456789abcdef''"
    unfolding hex_digit_def by (intro nth_mem) simp
  then show ?thesis
    by (auto simp: plain_char_def ascii_lower_def ascii_digit_def)
qed

lemma short_hash_plain: "list_all plain_char (short_hash s)"
  by (simp add: short_hash_def hex8_def hex_digit_plain)

lemma trim_selection: "0 < m \<Longrightarrow> trim_underscores (take m ''selection'') \<noteq> []"
  by (cases m) (auto simp: trim_underscores_def dropWhile_append)

definition identifier_base :: "string \<Rightarrow> nat \<Rightarrow> string" where
  "identifier_base base m =
     (if truncate_identifier_base base m = [] then truncate_identifier_base ''selection'' m
      else truncate_identifier_base base m)"

lemma identifier_base_bounds:
  assumes "0 < m"
  shows "identifier_base base m \<noteq> []" and "length (identifier_base base m) \<le> m"
proof -
  have "list_all plain_char ''selection''" by (simp add: plain_char_def ascii_lower_def)
  then have "truncate_identifier_base ''selection'' m \<noteq> []"
    using trim_selection[OF assms] by (simp only: truncate_identifier_base_plain not_False_eq_True)
  then show "identifier_base base m \<noteq> []" by (simp add: identifier_base_def)
  show "length (identifier_base base m) \<le> m"
    by (simp add: identifier_base_def truncate_identifier_base_bound)
qed

lemma generated_identifier_base:
  "generated_identifier base infx suffix =
     identifier_base base (postgres_identifier_max_bytes - length infx - length suffix) @ infx @ suffix"
  by (simp add: generated_identifier_def identifier_base_def Let_def)

lemma generated_identifier_split:
  assumes "length infx + length suffix < postgres_identifier_max_bytes"
  shows "\<exists>b. generated_identifier base infx suffix = b @ infx @ suffix \<and> b \<noteq> [] \<and>
    length (generated_identifier base infx suffix) \<le> 63"
proof -
  define m where "m = postgres_identifier_max_bytes - length infx - length suffix"
  with assms have "0 < m" by simp
  from identifier_base_bounds[OF this, of base] assms show ?thesis
    by (intro exI[of _ "identifier_base base m"])
       (simp add: generated_identifier_base m_def postgres_identifier_max_bytes_def)
qed

lemma generated_identifier_plain:
  assumes "list_all plain_char base" and "list_all plain_char infx" and "list_all plain_char suffix"
  shows "list_all plain_char (generated_identifier base infx suffix)"
proof -
  have sel: "list_all plain_char ''selection''" by (simp add: plain_char_def ascii_lower_def)
  have "list_all plain_char (truncate_identifier_base s m)" if "list_all plain_char s" for s m
    using that set_trim_underscores[of "take m s"] set_take_subset[of m s]
    by (fastforce simp: truncate_identifier_base_plain list_all_iff)
  with assms sel show ?thesis by (simp add: generated_identifier_base identifier_base_def)
qed

definition safe_alias :: "string \<Rightarrow> string \<Rightarrow> bool" where
  "safe_alias suffix a \<longleftrightarrow>
     a \<noteq> [] \<and> length a \<le> 63 \<and> list_all plain_char a \<and> (\<exists>b. a = b @ suffix)"

lemma generated_identifier_safe:
  assumes "list_all plain_char base" and "list_all plain_char i"
    and "length i + length (short_hash h) < postgres_identifier_max_bytes"
  shows "safe_alias (short_hash h) (generated_identifier base i (short_hash h))"
proof -
  obtain b where b: "generated_identifier base i (short_hash h) = b @ i @ short_hash h" "b \<noteq> []"
    "length (generated_identifier base i (short_hash h)) \<le> 63"
    using generated_identifier_split[OF assms(3), of base] by blast
  with generated_identifier_plain[OF assms(1,2) short_hash_plain[of h]] show ?thesis
    unfolding safe_alias_def by (metis append.assoc append_is_Nil_conv)
qed

text \<open>The aliases of a selection end in the hash of its path.\<close>

lemma context_for_aliases:
  "list_all (safe_alias (short_hash (join_with ''/'' path)))
     [sc_table_alias (context_for t output_name path), sc_json_alias (context_for t output_name path),
      sc_result_alias (context_for t output_name path)]"
proof -
  let ?h = "short_hash (join_with ''/'' path)"
  define base where "base = (case sanitize_alias output_name of Some a \<Rightarrow> a
    | None \<Rightarrow> (case sanitize_alias (tb_name t) of Some a \<Rightarrow> a | None \<Rightarrow> ''selection''))"
  have base: "list_all plain_char base"
    unfolding base_def
    by (auto simp: plain_char_def ascii_lower_def dest: sanitize_alias_plain split: option.splits)
  have safe: "safe_alias ?h x"
    if "x = generated_identifier base i ?h" "i \<in> {''_'', ''_json_'', ''_result_''}" for x i
    unfolding that(1) using that(2)
    by (intro generated_identifier_safe[OF base])
       (auto simp: postgres_identifier_max_bytes_def plain_char_def ascii_lower_def)
  have ctx: "sc_table_alias (context_for t output_name path) = generated_identifier base ''_'' ?h"
    "sc_json_alias (context_for t output_name path) = generated_identifier base ''_json_'' ?h"
    "sc_result_alias (context_for t output_name path) = generated_identifier base ''_result_'' ?h"
    by (simp_all add: context_for_def base_def Let_def)
  show ?thesis
    unfolding list.pred_inject ctx by (intro conjI TrueI safe[OF refl]) simp_all
qed

end
