(* ===== verification/Sql_Ast.thy ===== *)
theory Sql_Ast
  imports Plan_Types Sql_Names
begin

text \<open>
  The SQL statements the generator builds with the third-party query builder
  (\<open>sea_query\<close>). A statement is the sequence of builder calls made on it; an expression is
  the term of constructor calls. Rendering a statement to text is the library's and is a
  parameter wherever the generator uses it.

  The second half gives expressions a meaning: SQL's three-valued logic over the connectives,
  negations, guards and null tests the generator writes, with everything else left to an
  interpretation \<open>I\<close>.
\<close>

section \<open>Builder terms\<close>

datatype sql_val = SvString string | SvInt int | SvU64 nat | SvBool bool

datatype sql_binary = SbAnd | SbOr | SbEq | SbNe | SbGt | SbGe | SbLt | SbLe

datatype sql_function = SfCount | SfMin | SfMax | SfSum | SfAvg | SfCoalesce | SfJsonAgg

datatype sql_order = SoAsc | SoDesc

datatype sql_expr =
    XCol string string
  | XAsterisk
  | XVal sql_val
  | XNull
  | XCust string
  | XCustWith string "sql_expr list"
  | XBin sql_binary sql_expr sql_expr
  | XCase sql_expr sql_expr sql_expr
  | XFunc sql_function "sql_expr list"
  | XJsonObject "(sql_expr \<times> sql_expr) list"
  | XCast sql_expr string
  | XExists "sql_call list"
  | XSubQuery "sql_call list"
and sql_call =
    QExpr sql_expr
  | QExprAs sql_expr string
  | QColumnAsterisk
  | QFromAs string string string
  | QFromSubquery "sql_call list" string
  | QJoinLateral "sql_call list" string sql_expr
  | QCrossJoin "sql_call list" string
  | QCondWhere "sql_expr list"
  | QAndWhere sql_expr
  | QGroupBy "sql_expr list"
  | QOrderBy sql_expr sql_order
  | QLimit nat
  | QOffset nat

type_synonym select = "sql_call list"

definition x_and :: "sql_expr \<Rightarrow> sql_expr \<Rightarrow> sql_expr" where
  "x_and a b = XBin SbAnd a b"

definition x_or :: "sql_expr \<Rightarrow> sql_expr \<Rightarrow> sql_expr" where
  "x_or a b = XBin SbOr a b"

text \<open>\<open>not_expr\<close>, \<open>value_or_absent\<close>, \<open>value_if_present\<close> of \<open>sql/postgres.rs\<close>.\<close>

definition not_expr :: "sql_expr \<Rightarrow> sql_expr" where
  "not_expr e = XCustWith ''NOT ($1)'' [e]"

definition value_or_absent :: "sql_expr \<Rightarrow> sql_expr \<Rightarrow> sql_expr" where
  "value_or_absent value present = x_or value (not_expr present)"

definition value_if_present :: "sql_expr \<Rightarrow> sql_expr \<Rightarrow> sql_expr" where
  "value_if_present value present = x_and value present"

definition is_not_null_text :: string where
  "is_not_null_text = '' IS NOT NULL''"

section \<open>Three-valued logic\<close>

text \<open>A truth value is \<open>Some True\<close>, \<open>Some False\<close> or SQL's unknown, \<open>None\<close>.\<close>

type_synonym tv = "bool option"

definition and3 :: "tv \<Rightarrow> tv \<Rightarrow> tv" where
  "and3 a b =
     (if a = Some False \<or> b = Some False then Some False
      else if a = Some True \<and> b = Some True then Some True
      else None)"

fun not3 :: "tv \<Rightarrow> tv" where
  "not3 None = None"
| "not3 (Some b) = Some (\<not> b)"

definition or3 :: "tv \<Rightarrow> tv \<Rightarrow> tv" where
  "or3 a b = not3 (and3 (not3 a) (not3 b))"

lemma and3_true_right [simp]: "and3 a (Some True) = a"
  by (cases a) (auto simp: and3_def)

lemma and3_true_left [simp]: "and3 (Some True) a = a"
  by (cases a) (auto simp: and3_def)

lemma and3_false [simp]: "and3 a (Some False) = Some False" "and3 (Some False) a = Some False"
  by (simp_all add: and3_def)

lemma not3_not3 [simp]: "not3 (not3 a) = a"
  by (cases a) simp_all

lemma or3_simps [simp]:
  "or3 (Some True) a = Some True" "or3 a (Some True) = Some True"
  "or3 (Some False) a = a" "or3 a (Some False) = a"
  by (simp_all add: or3_def)

section \<open>Meaning of expressions\<close>

text \<open>Scalar values: null, a truth value, or any other datum.\<close>

datatype 'v sqlv = VNull | VBool bool | VDatum 'v

fun truth :: "'v sqlv \<Rightarrow> tv" where
  "truth (VBool b) = Some b"
| "truth VNull = None"
| "truth (VDatum _) = None"

fun of_tv :: "tv \<Rightarrow> 'v sqlv" where
  "of_tv None = VNull"
| "of_tv (Some b) = VBool b"

lemma truth_of_tv [simp]: "truth (of_tv a) = a"
  by (cases a) simp_all

text \<open>
  \<open>I\<close> interprets every expression that is not built from the connectives: columns, literals,
  comparisons, subqueries, functions. \<open>nonnull\<close> says which placeholder texts are bound to a
  value that is not null; it is two-valued, as \<open>IS NOT NULL\<close> is in SQL.
\<close>

definition strip_suffix :: "string \<Rightarrow> string \<Rightarrow> string option" where
  "strip_suffix s suffix =
     (if length suffix \<le> length s \<and> drop (length s - length suffix) s = suffix
      then Some (take (length s - length suffix) s) else None)"

lemma strip_suffix_append [simp]: "strip_suffix (s @ t) t = Some s"
  by (simp add: strip_suffix_def)

definition eval_cust :: "(sql_expr \<Rightarrow> 'v sqlv) \<Rightarrow> (string \<Rightarrow> bool) \<Rightarrow> string \<Rightarrow> 'v sqlv" where
  "eval_cust I nonnull text =
     (if text = ''TRUE'' then VBool True
      else if text = ''FALSE'' then VBool False
      else case strip_suffix text is_not_null_text of
        Some placeholder \<Rightarrow> VBool (nonnull placeholder)
      | None \<Rightarrow> I (XCust text))"

fun eval :: "(sql_expr \<Rightarrow> 'v sqlv) \<Rightarrow> (string \<Rightarrow> bool) \<Rightarrow> sql_expr \<Rightarrow> 'v sqlv" where
  "eval I nonnull (XBin op a b) =
     (case op of
        SbAnd \<Rightarrow> of_tv (and3 (truth (eval I nonnull a)) (truth (eval I nonnull b)))
      | SbOr \<Rightarrow> of_tv (or3 (truth (eval I nonnull a)) (truth (eval I nonnull b)))
      | _ \<Rightarrow> I (XBin op a b))"
| "eval I nonnull (XCustWith text args) =
     (case args of
        [a] \<Rightarrow>
          if text = ''NOT ($1)'' then of_tv (not3 (truth (eval I nonnull a)))
          else if text = ''$1 IS NULL'' then VBool (eval I nonnull a = VNull)
          else if text = ''$1 IS NOT NULL'' then VBool (eval I nonnull a \<noteq> VNull)
          else I (XCustWith text args)
      | _ \<Rightarrow> I (XCustWith text args))"
| "eval I nonnull (XCase guard e els) =
     (if truth (eval I nonnull guard) = Some True then eval I nonnull e else eval I nonnull els)"
| "eval I nonnull XNull = VNull"
| "eval I nonnull (XVal v) = (case v of SvBool b \<Rightarrow> VBool b | _ \<Rightarrow> I (XVal v))"
| "eval I nonnull (XCust text) = eval_cust I nonnull text"
| "eval I nonnull (XCol a c) = I (XCol a c)"
| "eval I nonnull XAsterisk = I XAsterisk"
| "eval I nonnull (XFunc f args) = I (XFunc f args)"
| "eval I nonnull (XJsonObject fs) = I (XJsonObject fs)"
| "eval I nonnull (XCast e t) = I (XCast e t)"
| "eval I nonnull (XExists q) = I (XExists q)"
| "eval I nonnull (XSubQuery q) = I (XSubQuery q)"

definition holds :: "(sql_expr \<Rightarrow> 'v sqlv) \<Rightarrow> (string \<Rightarrow> bool) \<Rightarrow> sql_expr \<Rightarrow> tv" where
  "holds I nonnull e = truth (eval I nonnull e)"

section \<open>Boolean structure as an interface\<close>

text \<open>
  What the lowering of optional predicates relies on: a meaning of expressions in which the
  connectives are SQL's and a null test of a placeholder is two-valued.
\<close>

locale sql_logic =
  fixes mean :: "sql_expr \<Rightarrow> tv"
    and given :: "string \<Rightarrow> bool"
  assumes mean_and: "mean (x_and a b) = and3 (mean a) (mean b)"
    and mean_or: "mean (x_or a b) = or3 (mean a) (mean b)"
    and mean_not: "mean (not_expr a) = not3 (mean a)"
    and mean_true: "mean (XCust ''TRUE'') = Some True"
    and mean_false: "mean (XCust ''FALSE'') = Some False"
    and mean_given: "mean (XCust (p @ is_not_null_text)) = Some (given p)"
begin

lemmas mean_simps = mean_and mean_or mean_not mean_true mean_false mean_given

lemma mean_value_or_absent:
  "mean present = Some g \<Longrightarrow> mean (value_or_absent value present) = (if g then mean value else Some True)"
  by (simp add: value_or_absent_def mean_simps)

lemma mean_value_if_present:
  "mean present = Some g \<Longrightarrow> mean (value_if_present value present) = (if g then mean value else Some False)"
  by (simp add: value_if_present_def mean_simps)

end

lemma holds_given: "holds I nonnull (XCust (p @ is_not_null_text)) = Some (nonnull p)"
proof -
  have "p @ is_not_null_text \<noteq> ''TRUE''" "p @ is_not_null_text \<noteq> ''FALSE''"
    by (auto simp: is_not_null_text_def dest: arg_cong[where f = last])
  then show ?thesis by (simp add: holds_def eval_cust_def)
qed

interpretation eval_logic: sql_logic "holds I nonnull" nonnull for I :: "sql_expr \<Rightarrow> 'v sqlv" and nonnull
  by unfold_locales
     (simp_all add: holds_given, simp_all add: holds_def x_and_def x_or_def not_expr_def eval_cust_def)

end
