(* ===== verification/Sql_Template.thy ===== *)
theory Sql_Template
  imports Sql_Ast "HOL-Library.Sublist"
begin

text \<open>
  The template a statement is rendered through (\<open>SqlTemplateContext\<close> and its operations in
  \<open>crates/dsql-core/src/sql/postgres.rs\<close>): bound parameters, operator variants, numeric
  sentinels and dynamic markers allocated while expressions are built, and the replacement of
  sentinels and markers in the rendered text.

  A generation step is a function of the template that fails or returns a value with the
  template it leaves (\<open>'a gen\<close>).
\<close>

section \<open>Records\<close>

text \<open>
  \<open>NeverReturns\<close> is no error of the source: it stands for a call that does not return (the
  walk of a cyclic type graph, see \<open>Type_Graph\<close>).
\<close>

datatype sql_generation_error =
    MissingTableId nat
  | MissingColumnId nat
  | MissingRelationId nat
  | MissingAggregateOperand
  | UnsupportedFilterFragment
  | DynamicExpressionRender
  | DynamicMarkerMissing string
  | DynamicOrderMarkerRender string
  | TemplateSentinelExhausted
  | EmptyQueryPlan
  | NeverReturns

record generated_sql_parameter =
  gp_path :: string

record generated_sql_variant =
  gv_path :: string
  gv_cases :: "sql_variant_case list"
  gv_null_text :: "string option"

datatype generated_dynamic_value_kind = GdvScalar | GdvCollection | GdvBoolean

record generated_dynamic_predicate_operator =
  gdo_name :: dynamic_predicate_operator
  gdo_value_kind :: generated_dynamic_value_kind
  gdo_before_value :: "string option"
  gdo_after_value :: "string option"
  gdo_cases :: "sql_variant_case list"

record generated_dynamic_site_field =
  gdf_key :: string
  gdf_data_type :: data_type
  gdf_operators :: "generated_dynamic_predicate_operator list"
  gdf_directions :: "sql_variant_case list"

record generated_dynamic_site =
  gds_path :: string
  gds_kind :: dynamic_input_kind
  gds_marker :: string
  gds_identity_sql :: string
  gds_fields :: "generated_dynamic_site_field list"

datatype dynamic_marker_kind = MarkerExact | MarkerOrder

record dynamic_marker =
  dm_internal :: string
  dm_public :: string
  dm_kind :: dynamic_marker_kind

record generated_sql =
  gs_operation_name :: string
  gs_sql :: string
  gs_compact_sql :: string
  gs_parameters :: "generated_sql_parameter list"
  gs_policy_context :: "policy_context_requirement list"
  gs_variants :: "generated_sql_variant list"
  gs_dynamic_sites :: "generated_dynamic_site list"

record sql_template =
  tp_parameters :: "generated_sql_parameter list"
  tp_policy_context :: "policy_context_requirement list"
  tp_variants :: "generated_sql_variant list"
  tp_replacements :: "(string \<times> string) list"
  tp_numeric_replacements :: "(string \<times> string) list"
  tp_dynamic_markers :: "dynamic_marker list"
  tp_dynamic_sites :: "generated_dynamic_site list"
  tp_next_sentinel :: nat
  tp_next_dynamic_marker :: nat

definition first_numeric_sentinel :: nat where
  "first_numeric_sentinel = 9000000000000000000"

definition u64_max :: nat where
  "u64_max = 2 ^ 64 - 1"

definition template_new :: "nat \<Rightarrow> nat \<Rightarrow> sql_template" where
  "template_new next_sentinel next_dynamic_marker =
     \<lparr>tp_parameters = [], tp_policy_context = [], tp_variants = [], tp_replacements = [],
      tp_numeric_replacements = [], tp_dynamic_markers = [], tp_dynamic_sites = [],
      tp_next_sentinel = next_sentinel, tp_next_dynamic_marker = next_dynamic_marker\<rparr>"

section \<open>Generation steps\<close>

type_synonym 'a gen = "sql_template \<Rightarrow> sql_generation_error + ('a \<times> sql_template)"

definition gret :: "'a \<Rightarrow> 'a gen" where
  "gret x = (\<lambda>t. Inr (x, t))"

definition gfail :: "sql_generation_error \<Rightarrow> 'a gen" where
  "gfail e = (\<lambda>t. Inl e)"

definition gbind :: "'a gen \<Rightarrow> ('a \<Rightarrow> 'b gen) \<Rightarrow> 'b gen" where
  "gbind m f = (\<lambda>t. rbind (m t) (\<lambda>(x, t'). f x t'))"

definition glift :: "sql_generation_error + 'a \<Rightarrow> 'a gen" where
  "glift r = (\<lambda>t. rbind r (\<lambda>x. Inr (x, t)))"

fun gmapM :: "('a \<Rightarrow> 'b gen) \<Rightarrow> 'a list \<Rightarrow> 'b list gen" where
  "gmapM f [] = gret []"
| "gmapM f (x # xs) = gbind (f x) (\<lambda>y. gbind (gmapM f xs) (\<lambda>ys. gret (y # ys)))"

fun goption :: "('a \<Rightarrow> 'b gen) \<Rightarrow> 'a option \<Rightarrow> 'b option gen" where
  "goption f None = gret None"
| "goption f (Some x) = gbind (f x) (\<lambda>y. gret (Some y))"

fun gfold :: "('s \<Rightarrow> 'a \<Rightarrow> 's gen) \<Rightarrow> 's \<Rightarrow> 'a list \<Rightarrow> 's gen" where
  "gfold f s [] = gret s"
| "gfold f s (x # xs) = gbind (f s x) (\<lambda>s'. gfold f s' xs)"

lemma gbind_cong [fundef_cong]:
  "m = m' \<Longrightarrow> (\<And>x. f x = f' x) \<Longrightarrow> gbind m f = gbind m' f'"
  by (simp add: gbind_def)

lemma gmapM_cong [fundef_cong]:
  "xs = ys \<Longrightarrow> (\<And>x. x \<in> set ys \<Longrightarrow> f x = g x) \<Longrightarrow> gmapM f xs = gmapM g ys"
proof (induction xs arbitrary: ys)
  case (Cons x xs)
  from Cons.prems have "ys = x # xs" "f x = g x" "gmapM f xs = gmapM g xs"
    using Cons.IH[of xs] by auto
  then show ?case by simp
qed simp

lemma goption_cong [fundef_cong]:
  "x = y \<Longrightarrow> (\<And>z. y = Some z \<Longrightarrow> f z = g z) \<Longrightarrow> goption f x = goption g y"
  by (cases y) auto

lemma gfold_cong [fundef_cong]:
  "xs = ys \<Longrightarrow> s = s' \<Longrightarrow> (\<And>s x. x \<in> set ys \<Longrightarrow> f s x = g s x) \<Longrightarrow> gfold f s xs = gfold g s' ys"
proof (induction xs arbitrary: ys s s')
  case (Cons x xs)
  have "gfold f t xs = gfold g t xs" for t
    by (rule Cons.IH[OF refl refl]) (use Cons.prems in auto)
  with Cons.prems show ?case by auto
qed simp

lemma gbind_Inr_iff:
  "gbind m f t = Inr (y, t') \<longleftrightarrow> (\<exists>x u. m t = Inr (x, u) \<and> f x u = Inr (y, t'))"
  by (auto simp: gbind_def rbind_Inr_iff)

lemma gret_Inr_iff [simp]: "gret x t = Inr (y, t') \<longleftrightarrow> x = y \<and> t = t'"
  by (simp add: gret_def)

lemma gfail_Inr_iff [simp]: "gfail e t \<noteq> Inr r"
  by (simp add: gfail_def)

lemma glift_Inr_iff [simp]: "glift r t = Inr (y, t') \<longleftrightarrow> r = Inr y \<and> t = t'"
  by (cases r) (simp_all add: glift_def)

section \<open>Allocation\<close>

definition quote_double :: "string \<Rightarrow> string" where
  "quote_double s = concat (map (\<lambda>c. if c = CHR 0x22 then [c, c] else [c]) s)"

definition quoted_type_key :: "type_key \<Rightarrow> string" where
  "quoted_type_key k =
     [CHR 0x22] @ quote_double (tyk_schema k) @ [CHR 0x22, CHR ''.'', CHR 0x22]
       @ quote_double (tyk_name k) @ [CHR 0x22]"

definition text_cast_parameter :: "string \<Rightarrow> type_key \<Rightarrow> bool \<Rightarrow> string" where
  "text_cast_parameter placeholder target collection =
     (let arr = (if collection then ''[]'' else []) in
      ''(('' @ placeholder @ '')::text'' @ arr @ '')::'' @ quoted_type_key target @ arr)"

definition placeholder_text :: "nat \<Rightarrow> string" where
  "placeholder_text index = ''$'' @ dec_string (index + 1)"

definition cast_placeholder :: "sql_parameter \<Rightarrow> string \<Rightarrow> string" where
  "cast_placeholder p placeholder =
     (case sp_text_cast p of
        None \<Rightarrow> placeholder
      | Some target \<Rightarrow> text_cast_parameter placeholder target (sp_collection p))"

definition parameter :: "sql_parameter \<Rightarrow> string gen" where
  "parameter p = (\<lambda>t.
     case position (\<lambda>c. gp_path c = sp_path p) (tp_parameters t) of
       Some index \<Rightarrow> Inr (cast_placeholder p (placeholder_text index), t)
     | None \<Rightarrow>
         (let t = t\<lparr>tp_parameters := tp_parameters t @ [\<lparr>gp_path = sp_path p\<rparr>]\<rparr> in
          Inr (cast_placeholder p (''$'' @ dec_string (length (tp_parameters t))), t)))"

definition require_policy_context :: "policy_context_requirement list \<Rightarrow> unit gen" where
  "require_policy_context requirements = (\<lambda>t.
     Inr ((), t\<lparr>tp_policy_context :=
       foldl (\<lambda>ctx r. if r \<in> set ctx then ctx else ctx @ [r]) (tp_policy_context t) requirements\<rparr>))"

definition variant_with_null ::
  "string \<Rightarrow> sql_variant_case list \<Rightarrow> string option \<Rightarrow> string gen" where
  "variant_with_null path cases null_text = (\<lambda>t.
     let public = ''{{'' @ path @ ''}}'';
         t = (if list_ex (\<lambda>v. gv_path v = path) (tp_variants t) then t
              else t\<lparr>tp_variants := tp_variants t @
                [\<lparr>gv_path = path, gv_cases = cases, gv_null_text = null_text\<rparr>]\<rparr>) in
     Inr (public, t\<lparr>tp_replacements := tp_replacements t @ [(''{ { '' @ path @ '' } }'', public)]\<rparr>))"

definition variant :: "string \<Rightarrow> sql_variant_case list \<Rightarrow> string gen" where
  "variant path cases = variant_with_null path cases None"

definition nullable_variant :: "string \<Rightarrow> sql_variant_case list \<Rightarrow> string gen" where
  "nullable_variant path cases = variant_with_null path cases (Some ''null'')"

definition quoted_column :: "string \<Rightarrow> string \<Rightarrow> string" where
  "quoted_column table_alias col =
     [CHR 0x22] @ table_alias @ [CHR 0x22, CHR ''.'', CHR 0x22] @ col @ [CHR 0x22]"

definition push_replacement :: "string \<times> string \<Rightarrow> unit gen" where
  "push_replacement r = (\<lambda>t. Inr ((), t\<lparr>tp_replacements := tp_replacements t @ [r]\<rparr>))"

definition replace_order_direction ::
  "string \<Rightarrow> string \<Rightarrow> string \<Rightarrow> sql_variant_case list \<Rightarrow> unit gen" where
  "replace_order_direction table_alias col path cases =
     gbind (variant path cases) (\<lambda>placeholder.
     let replacement = quoted_column table_alias col @ '' '' @ placeholder in
     gbind (push_replacement (quoted_column table_alias col @ '' asc'', replacement)) (\<lambda>_.
     push_replacement (quoted_column table_alias col @ '' ASC'', replacement)))"

text \<open>\<open>checked_add(1)\<close> on a \<open>u64\<close>.\<close>

definition checked_succ :: "nat \<Rightarrow> sql_generation_error + nat" where
  "checked_succ n = (if n + 1 \<le> u64_max then Inr (n + 1) else Inl TemplateSentinelExhausted)"

definition numeric_sentinel :: "string \<Rightarrow> nat gen" where
  "numeric_sentinel replacement = (\<lambda>t.
     rbind (checked_succ (tp_next_sentinel t)) (\<lambda>next.
     Inr (tp_next_sentinel t,
          t\<lparr>tp_next_sentinel := next,
            tp_numeric_replacements := tp_numeric_replacements t @
              [(dec_string (tp_next_sentinel t), replacement)]\<rparr>)))"

definition numeric_parameter_sentinel :: "sql_parameter \<Rightarrow> nat gen" where
  "numeric_parameter_sentinel p = gbind (parameter p) numeric_sentinel"

definition guarded_numeric_parameter_sentinel :: "sql_parameter \<Rightarrow> nat \<Rightarrow> nat gen" where
  "guarded_numeric_parameter_sentinel p guard =
     gbind (parameter p) (\<lambda>placeholder.
     numeric_sentinel (''LEAST(COALESCE('' @ placeholder @ '', '' @ dec_string guard @ ''), ''
       @ dec_string guard @ '')''))"

definition numeric_literal_sentinel :: "string \<Rightarrow> nat gen" where
  "numeric_literal_sentinel literal = numeric_sentinel literal"

definition dynamic_site ::
  "string \<Rightarrow> dynamic_input_kind \<Rightarrow> string \<Rightarrow> generated_dynamic_site_field list
   \<Rightarrow> dynamic_marker_kind \<Rightarrow> string gen" where
  "dynamic_site path kind identity_sql site_fields marker_kind = (\<lambda>t.
     rbind (checked_succ (tp_next_sentinel t)) (\<lambda>next.
     let internal = ''__dsql_dynamic_'' @ dec_string (tp_next_sentinel t) @ ''__'';
         public = ''{{dynamic:'' @ dec_string (tp_next_dynamic_marker t) @ ''}}'' in
     rbind (checked_succ (tp_next_dynamic_marker t)) (\<lambda>next_marker.
     Inr (internal,
          t\<lparr>tp_next_sentinel := next, tp_next_dynamic_marker := next_marker,
            tp_dynamic_markers := tp_dynamic_markers t @
              [\<lparr>dm_internal = internal, dm_public = public, dm_kind = marker_kind\<rparr>],
            tp_dynamic_sites := tp_dynamic_sites t @
              [\<lparr>gds_path = path, gds_kind = kind, gds_marker = public,
                gds_identity_sql = identity_sql, gds_fields = site_fields\<rparr>]\<rparr>))))"

end
