(* ===== verification/Sql_Render.thy ===== *)
theory Sql_Render
  imports Sql_Template "HOL-Library.Multiset"
begin

text \<open>
  The replacement of sentinels and markers in rendered SQL: \<open>replace_ranges\<close>,
  \<open>replace_numeric_sentinels\<close>, \<open>replace_dynamic_markers\<close> and \<open>finalize_sql_template\<close> of
  \<open>crates/dsql-core/src/sql/postgres.rs\<close>. The result \<open>None\<close> asks the caller to rebuild with
  fresh sentinels.
\<close>

section \<open>Searching\<close>

text \<open>The first match of \<open>match_indices(needle)\<close>, and whether there is a further one.\<close>

fun find_sub :: "string \<Rightarrow> string \<Rightarrow> nat option" where
  "find_sub needle [] = (if needle = [] then Some 0 else None)"
| "find_sub needle (c # cs) =
     (if starts_with (c # cs) needle then Some 0 else map_option Suc (find_sub needle cs))"

definition occurs_again :: "string \<Rightarrow> string \<Rightarrow> nat \<Rightarrow> bool" where
  "occurs_again needle sql start \<longleftrightarrow> find_sub needle (drop (start + length needle) sql) \<noteq> None"

text \<open>
  \<open>str::trim_start\<close>: the width in bytes of the leading white-space character, 0 when there is
  none (the code points with the Unicode property \<open>White_Space\<close>, in UTF-8).
\<close>

definition whitespace_width :: "string \<Rightarrow> nat" where
  "whitespace_width s =
     (case map (of_char :: char \<Rightarrow> nat) (take 3 s) of
        [] \<Rightarrow> 0
      | b # bs \<Rightarrow>
          if b = 32 \<or> (9 \<le> b \<and> b \<le> 13) then 1
          else (case bs of
             [] \<Rightarrow> 0
           | b2 # bs2 \<Rightarrow>
               if b = 0xC2 \<and> (b2 = 0x85 \<or> b2 = 0xA0) then 2
               else (case bs2 of
                  [] \<Rightarrow> 0
                | b3 # _ \<Rightarrow>
                    if (b = 0xE1 \<and> b2 = 0x9A \<and> b3 = 0x80)
                       \<or> (b = 0xE2 \<and> b2 = 0x80 \<and> (0x80 \<le> b3 \<and> b3 \<le> 0x8A
                            \<or> b3 = 0xA8 \<or> b3 = 0xA9 \<or> b3 = 0xAF))
                       \<or> (b = 0xE2 \<and> b2 = 0x81 \<and> b3 = 0x9F)
                       \<or> (b = 0xE3 \<and> b2 = 0x80 \<and> b3 = 0x80) then 3 else 0)))"

lemma whitespace_width_Nil [simp]: "whitespace_width [] = 0"
  by (simp add: whitespace_width_def)

function leading_whitespace :: "string \<Rightarrow> nat" where
  "leading_whitespace s =
     (if whitespace_width s = 0 then 0
      else whitespace_width s + leading_whitespace (drop (whitespace_width s) s))"
  by pat_completeness auto
termination
proof (relation "measure length")
  fix s :: string
  assume "whitespace_width s \<noteq> 0"
  moreover from this have "s \<noteq> []" by auto
  ultimately show "(drop (whitespace_width s) s, s) \<in> measure length" by simp
qed simp

declare leading_whitespace.simps [simp del]

section \<open>Splicing\<close>

fun splice :: "string \<Rightarrow> nat \<Rightarrow> (nat \<times> nat \<times> string) list \<Rightarrow> string option" where
  "splice sql cursor [] = Some (drop cursor sql)"
| "splice sql cursor ((start, stop, replacement) # rs) =
     (if start < cursor then None
      else map_option (\<lambda>rest. take (start - cursor) (drop cursor sql) @ replacement @ rest)
             (splice sql stop rs))"

definition replace_ranges :: "string \<Rightarrow> (nat \<times> nat \<times> string) list \<Rightarrow> string option" where
  "replace_ranges sql ranges = splice sql 0 (sort_key fst ranges)"

fun numeric_ranges :: "string \<Rightarrow> (string \<times> string) list \<Rightarrow> (nat \<times> nat \<times> string) list option" where
  "numeric_ranges sql [] = Some []"
| "numeric_ranges sql ((needle, replacement) # rs) =
     (case find_sub needle sql of
        None \<Rightarrow> None
      | Some start \<Rightarrow>
          if occurs_again needle sql start then None
          else map_option (\<lambda>ranges. (start, start + length needle, replacement) # ranges)
                 (numeric_ranges sql rs))"

definition replace_numeric_sentinels :: "string \<Rightarrow> (string \<times> string) list \<Rightarrow> string option" where
  "replace_numeric_sentinels sql replacements =
     Option.bind (numeric_ranges sql replacements) (replace_ranges sql)"

definition marker_end :: "string \<Rightarrow> dynamic_marker \<Rightarrow> nat \<Rightarrow> sql_generation_error + nat" where
  "marker_end sql m start =
     (let stop = start + length (dm_internal m) in
      case dm_kind m of
        MarkerExact \<Rightarrow> Inr stop
      | MarkerOrder \<Rightarrow>
          (let stop = stop + leading_whitespace (drop stop sql) in
           if starts_with (drop stop sql) ''asc'' \<or> starts_with (drop stop sql) ''ASC''
           then Inr (stop + 3)
           else Inl (DynamicOrderMarkerRender (dm_internal m))))"

fun marker_ranges ::
  "string \<Rightarrow> dynamic_marker list
   \<Rightarrow> sql_generation_error + (nat \<times> nat \<times> string) list option" where
  "marker_ranges sql [] = Inr (Some [])"
| "marker_ranges sql (m # ms) =
     (if find_sub (dm_public m) sql \<noteq> None then Inr None
      else case find_sub (dm_internal m) sql of
        None \<Rightarrow> Inl (DynamicMarkerMissing (dm_internal m))
      | Some start \<Rightarrow>
          if occurs_again (dm_internal m) sql start then Inr None
          else rbind (marker_end sql m start) (\<lambda>stop.
               rbind (marker_ranges sql ms) (\<lambda>ranges.
               Inr (map_option (\<lambda>rs. (start, stop, dm_public m) # rs) ranges))))"

definition replace_dynamic_markers ::
  "string \<Rightarrow> dynamic_marker list \<Rightarrow> sql_generation_error + string option" where
  "replace_dynamic_markers sql markers =
     rbind (marker_ranges sql markers) (\<lambda>ranges. Inr (Option.bind ranges (replace_ranges sql)))"

text \<open>\<open>str::replace\<close> for a non-empty needle.\<close>

function replace_all :: "string \<Rightarrow> string \<Rightarrow> string \<Rightarrow> string" where
  "replace_all needle replacement s =
     (if needle = [] then s
      else case find_sub needle s of
        None \<Rightarrow> s
      | Some i \<Rightarrow> take i s @ replacement
                    @ replace_all needle replacement (drop (i + length needle) s))"
  by pat_completeness auto

lemma find_sub_Some:
  "find_sub needle s = Some i \<Longrightarrow>
     i + length needle \<le> length s \<and> take (length needle) (drop i s) = needle"
proof (induction s arbitrary: i)
  case (Cons c cs)
  show ?case
  proof (cases "starts_with (c # cs) needle")
    case True
    with Cons.prems obtain r where "i = 0" "c # cs = needle @ r" by (auto simp: starts_with_iff)
    moreover from this have "length needle \<le> length (c # cs)" by simp
    ultimately show ?thesis by simp
  next
    case False
    with Cons show ?thesis by auto
  qed
qed (auto split: if_splits)

termination replace_all
proof (relation "measure (\<lambda>(needle, _, s). length s)")
  fix needle replacement s :: string and i
  assume "needle \<noteq> []" and "find_sub needle s = Some i"
  then have "i + length needle \<le> length s" "0 < length needle" by (auto dest: find_sub_Some)
  then show "((needle, replacement, drop (i + length needle) s), needle, replacement, s)
      \<in> measure (\<lambda>(needle, _, s). length s)" by (cases s) auto
qed simp

declare replace_all.simps [simp del]

definition finalize_sql_template ::
  "string \<Rightarrow> sql_template \<Rightarrow> sql_generation_error + string option" where
  "finalize_sql_template sql t =
     rbind (replace_dynamic_markers sql (tp_dynamic_markers t)) (\<lambda>r.
     case r of
       None \<Rightarrow> Inr None
     | Some sql \<Rightarrow>
         (case replace_numeric_sentinels sql (tp_numeric_replacements t) of
            None \<Rightarrow> Inr None
          | Some sql \<Rightarrow>
              Inr (Some (foldl (\<lambda>sql (needle, replacement). replace_all needle replacement sql)
                (sql) (tp_replacements t)))))"

section \<open>What a replacement does\<close>

text \<open>A text with holes: \<open>weave [s0, s1, s2] [r1, r2]\<close> is \<open>s0 r1 s1 r2 s2\<close>.\<close>

fun weave :: "string list \<Rightarrow> string list \<Rightarrow> string" where
  "weave [] rs = concat rs"
| "weave (s # ss) [] = s"
| "weave (s # ss) (r # rs) = s @ r @ weave ss rs"

lemma splice_weave:
  assumes "splice sql cursor rs = Some out" and "cursor \<le> length sql"
    and "\<forall>(a, b, r) \<in> set rs. a \<le> b \<and> b \<le> length sql"
  shows "\<exists>segs. length segs = Suc (length rs) \<and>
    drop cursor sql = weave segs (map (\<lambda>(a, b, r). take (b - a) (drop a sql)) rs) \<and>
    out = weave segs (map (\<lambda>(a, b, r). r) rs)"
  using assms
proof (induction rs arbitrary: cursor out)
  case Nil
  then show ?case by (intro exI[of _ "[drop cursor sql]"]) simp
next
  case (Cons x rs)
  obtain a b r where x: "x = (a, b, r)" by (cases x) auto
  with Cons.prems obtain rest where rest: "splice sql b rs = Some rest" "\<not> a < cursor"
    "out = take (a - cursor) (drop cursor sql) @ r @ rest"
    by (auto split: if_splits)
  have "a \<le> b" "b \<le> length sql" using Cons.prems(3) x by auto
  from Cons.IH[OF rest(1) this(2)] Cons.prems(3) obtain segs where segs:
    "length segs = Suc (length rs)"
    "drop b sql = weave segs (map (\<lambda>(a, b, r). take (b - a) (drop a sql)) rs)"
    "rest = weave segs (map (\<lambda>(a, b, r). r) rs)" by auto
  have "drop a sql = take (b - a) (drop a sql) @ drop b sql"
    using \<open>a \<le> b\<close> by (metis append_take_drop_id drop_drop le_add_diff_inverse2)
  moreover have "drop cursor sql = take (a - cursor) (drop cursor sql) @ drop a sql"
    using rest(2) by (metis append_take_drop_id drop_drop le_add_diff_inverse2 not_less)
  ultimately have "drop cursor sql = take (a - cursor) (drop cursor sql) @ take (b - a) (drop a sql) @ drop b sql"
    by simp
  then show ?case
    using segs rest(3) x
    by (intro exI[of _ "take (a - cursor) (drop cursor sql) # segs"]) simp
qed

text \<open>Sorting by the image of a key commutes with mapping.\<close>

lemma insort_key_map: "insort_key f (g x) (map g xs) = map g (insort_key (\<lambda>x. f (g x)) x xs)"
  by (induction xs) auto

lemma sort_key_map: "sort_key f (map g xs) = map g (sort_key (\<lambda>x. f (g x)) xs)"
  by (induction xs) (simp_all add: insort_key_map comp_def)

definition numeric_range :: "string \<Rightarrow> string \<times> string \<Rightarrow> nat \<times> nat \<times> string" where
  "numeric_range sql = (\<lambda>(needle, replacement).
     (the (find_sub needle sql), the (find_sub needle sql) + length needle, replacement))"

lemma numeric_ranges_Some:
  "numeric_ranges sql reps = Some ranges \<longleftrightarrow>
     (\<forall>(needle, r) \<in> set reps. \<exists>i. find_sub needle sql = Some i \<and> \<not> occurs_again needle sql i) \<and>
     ranges = map (numeric_range sql) reps"
proof (induction reps arbitrary: ranges)
  case (Cons x reps)
  obtain needle r where x: "x = (needle, r)" by force
  show ?case
    using Cons.IH unfolding x
    by (cases "find_sub needle sql") (auto simp: numeric_range_def)
qed auto

lemma replace_numeric_weave:
  assumes "replace_numeric_sentinels sql reps = Some out"
  shows "\<exists>segs ps. mset ps = mset reps \<and> length segs = Suc (length ps) \<and>
    sql = weave segs (map fst ps) \<and> out = weave segs (map snd ps)"
proof -
  from assms obtain ranges where ranges: "numeric_ranges sql reps = Some ranges"
    and out: "splice sql 0 (sort_key fst ranges) = Some out"
    by (cases "numeric_ranges sql reps") (auto simp: replace_numeric_sentinels_def replace_ranges_def)
  define ps where "ps = sort_key (\<lambda>p. fst (numeric_range sql p)) reps"
  have sorted: "sort_key fst ranges = map (numeric_range sql) ps"
    using ranges by (simp add: numeric_ranges_Some ps_def sort_key_map)
  have found: "\<exists>i. find_sub (fst p) sql = Some i" if "p \<in> set ps" for p
    using that ranges by (force simp: numeric_ranges_Some ps_def)
  have rng: "\<forall>(a, b, r) \<in> set (map (numeric_range sql) ps). a \<le> b \<and> b \<le> length sql"
  proof (rule ballI)
    fix x
    assume "x \<in> set (map (numeric_range sql) ps)"
    then obtain p where p: "p \<in> set ps" "x = numeric_range sql p" by auto
    from found[OF p(1)] obtain i where i: "find_sub (fst p) sql = Some i" by auto
    with find_sub_Some[OF i] p(2) show "case x of (a, b, r) \<Rightarrow> a \<le> b \<and> b \<le> length sql"
      by (simp add: numeric_range_def split: prod.splits)
  qed
  from splice_weave[OF out[unfolded sorted] _ rng] obtain segs where segs:
    "length segs = Suc (length (map (numeric_range sql) ps))"
    "sql = weave segs (map (\<lambda>(a, b, r). take (b - a) (drop a sql)) (map (numeric_range sql) ps))"
    "out = weave segs (map (\<lambda>(a, b, r). r) (map (numeric_range sql) ps))" by auto
  have needles: "map (\<lambda>(a, b, r). take (b - a) (drop a sql)) (map (numeric_range sql) ps) = map fst ps"
    using found find_sub_Some by (force simp: numeric_range_def)
  have payloads: "map (\<lambda>(a, b, r). r) (map (numeric_range sql) ps) = map snd ps"
    by (auto simp: numeric_range_def)
  have "mset ps = mset reps" by (simp add: ps_def)
  with segs(1) segs(2)[unfolded needles] segs(3)[unfolded payloads] show ?thesis
    by (intro exI[of _ segs] exI[of _ ps]) simp
qed

text \<open>
  C21: numeric sentinels are replaced all at once against one rendering: the text splits into
  the sentinels, each found exactly once, and the segments between them; the result has each
  sentinel's own replacement in its place and every segment unchanged. A replacement is never
  scanned for another sentinel.
\<close>

theorem replace_numeric_sentinels_simultaneous:
  assumes "replace_numeric_sentinels sql reps = Some out"
  shows "(\<exists>segs ps. mset ps = mset reps \<and> length segs = Suc (length ps) \<and>
      sql = weave segs (map fst ps) \<and> out = weave segs (map snd ps)) \<and>
    (\<forall>(needle, r) \<in> set reps. \<exists>i. find_sub needle sql = Some i \<and> \<not> occurs_again needle sql i)"
proof (rule conjI[OF replace_numeric_weave[OF assms]])
  from assms obtain ranges where "numeric_ranges sql reps = Some ranges"
    by (cases "numeric_ranges sql reps") (auto simp: replace_numeric_sentinels_def)
  then show "\<forall>(needle, r) \<in> set reps. \<exists>i. find_sub needle sql = Some i \<and> \<not> occurs_again needle sql i"
    by (simp add: numeric_ranges_Some)
qed

theorem replace_numeric_sentinels_simultaneous_witness:
  "\<exists>segs ps. mset ps = mset [(''71'', ''72''), (''72'', ''$1'')] \<and> length segs = Suc (length ps) \<and>
     ''LIMIT 72 OFFSET 71'' = weave segs (map fst ps) \<and>
     ''LIMIT $1 OFFSET 72'' = weave segs (map snd ps)"
proof -
  have "replace_numeric_sentinels ''LIMIT 72 OFFSET 71'' [(''71'', ''72''), (''72'', ''$1'')] =
      Some ''LIMIT $1 OFFSET 72''"
    by (simp add: replace_numeric_sentinels_def replace_ranges_def occurs_again_def insort_key.simps)
  from conjunct1[OF replace_numeric_sentinels_simultaneous[OF this]] show ?thesis .
qed

text \<open>
  A structural failure is an error, not a retry, and a collision is a retry, as the tests of
  the module say.
\<close>

lemma marker_missing_is_error:
  "replace_dynamic_markers ''SELECT 1''
     [\<lparr>dm_internal = ''__dsql_dynamic_1__'', dm_public = ''{{dynamic:0}}'', dm_kind = MarkerExact\<rparr>] =
   Inl (DynamicMarkerMissing ''__dsql_dynamic_1__'')"
  by (simp add: replace_dynamic_markers_def)

end
