(* ===== verification/Sql_Filter.thy ===== *)
theory Sql_Filter
  imports Sql_Render
begin

text \<open>
  Rendering of filter expressions (\<open>crates/dsql-core/src/sql/postgres.rs\<close>): optional
  predicates, policy-masked columns, null tests, membership, existence and relation
  aggregates, and the capability tables of bounded dynamic inputs.

  A row view is a selection's aliases with the field policies its columns are read through.
  Rendering a masked column renders its policy over the raw row, so the operations that need
  it take the policy renderer \<open>rp\<close> as an argument; \<open>filter_expr\<close> ties the knot. \<open>rend\<close> is
  the query builder's text rendering.
\<close>

section \<open>Row views and scopes\<close>

record sql_row_view =
  rv_context :: selection_context
  rv_field_filters :: "policy_field_filter list"

record filter_sql_scope =
  fs_current :: sql_row_view
  fs_root :: sql_row_view
  fs_predicate_source :: sql_row_view
  fs_parent :: "sql_row_view option"

definition readable_view :: "selection_context \<Rightarrow> policy_field_filter list \<Rightarrow> sql_row_view" where
  "readable_view ctx filters = \<lparr>rv_context = ctx, rv_field_filters = filters\<rparr>"

definition raw_view :: "selection_context \<Rightarrow> sql_row_view" where
  "raw_view ctx = \<lparr>rv_context = ctx, rv_field_filters = []\<rparr>"

definition raw_scope :: "selection_context \<Rightarrow> filter_sql_scope" where
  "raw_scope ctx =
     \<lparr>fs_current = raw_view ctx, fs_root = raw_view ctx, fs_predicate_source = raw_view ctx,
      fs_parent = None\<rparr>"

definition filter_column_source :: "filter_sql_scope \<Rightarrow> filter_column_scope \<Rightarrow> sql_row_view" where
  "filter_column_source scope column_scope =
     (case column_scope of
        ScopeCurrent \<Rightarrow> fs_current scope
      | ScopeRoot \<Rightarrow> fs_root scope
      | ScopePredicateSource \<Rightarrow> fs_predicate_source scope
      | ScopeParent \<Rightarrow> (case fs_parent scope of Some v \<Rightarrow> v | None \<Rightarrow> fs_current scope))"

definition policy_field_filter_for ::
  "policy_field_filter list \<Rightarrow> policy_field_target \<Rightarrow> policy_field_filter option" where
  "policy_field_filter_for filters target = find (\<lambda>f. pf_target f = target) filters"

section \<open>Catalog access\<close>

definition sql_table :: "catalog \<Rightarrow> table_id \<Rightarrow> sql_generation_error + table" where
  "sql_table c i = ok_or (table_by_id c i) (MissingTableId i)"

definition sql_column :: "catalog \<Rightarrow> column_id \<Rightarrow> sql_generation_error + column" where
  "sql_column c i = ok_or (column_by_id c i) (MissingColumnId i)"

definition sql_relation :: "catalog \<Rightarrow> relation_id \<Rightarrow> sql_generation_error + relation" where
  "sql_relation c i = ok_or (relation_by_id c i) (MissingRelationId i)"

definition relation_condition ::
  "catalog \<Rightarrow> selection_context \<Rightarrow> selection_context \<Rightarrow> relation
   \<Rightarrow> sql_generation_error + sql_expr list" where
  "relation_condition c parent child r =
     collect_results (\<lambda>(parent_column, child_column).
       rbind (sql_column c child_column) (\<lambda>child_col.
       rbind (sql_column c parent_column) (\<lambda>parent_col.
       Inr (XBin SbEq (XCol (sc_table_alias child) (col_name child_col))
              (XCol (sc_table_alias parent) (col_name parent_col))))))
       (zip (rel_local_columns r) (rel_target_columns r))"

section \<open>Masked columns, aggregates, null tests\<close>

type_synonym policy_renderer = "selection_context \<Rightarrow> policy_field_filter \<Rightarrow> sql_expr gen"

definition raw_column :: "sql_row_view \<Rightarrow> column \<Rightarrow> sql_expr" where
  "raw_column view col = XCol (sc_table_alias (rv_context view)) (col_name col)"

definition masked_column_with ::
  "policy_renderer \<Rightarrow> catalog \<Rightarrow> sql_row_view \<Rightarrow> column_id \<Rightarrow> sql_expr gen" where
  "masked_column_with rp c view column_id =
     gbind (glift (sql_column c column_id)) (\<lambda>col.
     case policy_field_filter_for (rv_field_filters view) (TargetColumn column_id) of
       None \<Rightarrow> gret (raw_column view col)
     | Some f \<Rightarrow>
         gbind (rp (rv_context view) f) (\<lambda>guard.
         gret (XCase guard (raw_column view col) XNull)))"

definition aggregate_value_with ::
  "policy_renderer \<Rightarrow> catalog \<Rightarrow> aggregate_function \<Rightarrow> column_id option \<Rightarrow> sql_row_view \<Rightarrow> sql_expr gen" where
  "aggregate_value_with rp c function operand view =
     gbind (goption (masked_column_with rp c view) operand) (\<lambda>operand.
     let needed = (\<lambda>f. glift (rbind (ok_or operand MissingAggregateOperand) (\<lambda>e. Inr (XFunc f [e])))) in
     case function of
       AggCount \<Rightarrow> gret (XFunc SfCount [case operand of Some e \<Rightarrow> e | None \<Rightarrow> XAsterisk])
     | AggExists \<Rightarrow> gret (XBin SbGt (XFunc SfCount [XAsterisk]) (XVal (SvInt 0)))
     | AggMin \<Rightarrow> needed SfMin
     | AggMax \<Rightarrow> needed SfMax
     | AggSum \<Rightarrow> needed SfSum
     | AggAvg \<Rightarrow> needed SfAvg)"

text \<open>\<open>fe\<close> is the rendering of the operand when it is not a column.\<close>

definition null_test_with ::
  "policy_renderer \<Rightarrow> sql_expr gen \<Rightarrow> catalog \<Rightarrow> filter_sql_scope \<Rightarrow> filter_expr \<Rightarrow> bool \<Rightarrow> sql_expr gen" where
  "null_test_with rp fe c scope operand negated =
     gbind (case operand of
              FColumn column_scope column_id \<Rightarrow>
                (let view = filter_column_source scope column_scope in
                 gbind (glift (sql_column c column_id)) (\<lambda>col.
                 gbind (goption (rp (rv_context view))
                          (policy_field_filter_for (rv_field_filters view) (TargetColumn column_id)))
                   (\<lambda>guard. gret (raw_column view col, guard))))
            | _ \<Rightarrow> gbind fe (\<lambda>e. gret (e, None))) (\<lambda>(operand, guard).
     let test = XCustWith (if negated then ''$1 IS NOT NULL'' else ''$1 IS NULL'') [operand] in
     gret (case guard of Some g \<Rightarrow> x_and g test | None \<Rightarrow> test))"

section \<open>Dynamic inputs\<close>

definition dynamic_field_with ::
  "(select \<Rightarrow> string) \<Rightarrow> policy_renderer \<Rightarrow> catalog \<Rightarrow> sql_row_view \<Rightarrow> column_id \<Rightarrow> string gen" where
  "dynamic_field_with rend rp c view column_id =
     gbind (masked_column_with rp c view column_id) (\<lambda>expression.
     glift (ok_or (strip_prefix (rend [QExpr expression]) ''SELECT '') DynamicExpressionRender))"

definition dynamic_cast_before :: "type_key option \<Rightarrow> string" where
  "dynamic_cast_before target = (case target of Some _ \<Rightarrow> ''(('' | None \<Rightarrow> [])"

definition dynamic_cast_after :: "type_key option \<Rightarrow> bool \<Rightarrow> string" where
  "dynamic_cast_after target collection =
     (case target of
        None \<Rightarrow> []
      | Some k \<Rightarrow>
          (let arr = (if collection then ''[]'' else []) in
           '')::text'' @ arr @ '')::'' @ quoted_type_key k @ arr))"

definition dynamic_scalar ::
  "dynamic_predicate_operator \<Rightarrow> string \<Rightarrow> string \<Rightarrow> type_key option
   \<Rightarrow> generated_dynamic_predicate_operator" where
  "dynamic_scalar name expression operator text_cast =
     \<lparr>gdo_name = name, gdo_value_kind = GdvScalar,
      gdo_before_value =
        Some (''('' @ expression @ '') '' @ operator @ '' '' @ dynamic_cast_before text_cast),
      gdo_after_value = map_option (\<lambda>_. dynamic_cast_after text_cast False) text_cast,
      gdo_cases = []\<rparr>"

definition dynamic_collection ::
  "dynamic_predicate_operator \<Rightarrow> string \<Rightarrow> string \<Rightarrow> type_key option
   \<Rightarrow> generated_dynamic_predicate_operator" where
  "dynamic_collection name expression operator text_cast =
     \<lparr>gdo_name = name, gdo_value_kind = GdvCollection,
      gdo_before_value =
        Some (''('' @ expression @ '') '' @ operator @ ''('' @ dynamic_cast_before text_cast),
      gdo_after_value = Some (dynamic_cast_after text_cast True @ '')''),
      gdo_cases = []\<rparr>"

fun dynamic_operator ::
  "string \<Rightarrow> type_key option \<Rightarrow> dynamic_predicate_operator \<Rightarrow> generated_dynamic_predicate_operator" where
  "dynamic_operator e tc DpoEq = dynamic_scalar DpoEq e ''='' tc"
| "dynamic_operator e tc DpoNeq = dynamic_scalar DpoNeq e ''!='' tc"
| "dynamic_operator e tc DpoGt = dynamic_scalar DpoGt e ''>'' tc"
| "dynamic_operator e tc DpoGte = dynamic_scalar DpoGte e ''>='' tc"
| "dynamic_operator e tc DpoLt = dynamic_scalar DpoLt e ''<'' tc"
| "dynamic_operator e tc DpoLte = dynamic_scalar DpoLte e ''<='' tc"
| "dynamic_operator e tc DpoLike = dynamic_scalar DpoLike e ''like'' tc"
| "dynamic_operator e tc DpoIn = dynamic_collection DpoIn e ''= ANY'' tc"
| "dynamic_operator e tc DpoNotIn = dynamic_collection DpoNotIn e ''<> ALL'' tc"
| "dynamic_operator e tc DpoIsNull =
     \<lparr>gdo_name = DpoIsNull, gdo_value_kind = GdvBoolean, gdo_before_value = None,
      gdo_after_value = None,
      gdo_cases =
        [\<lparr>vc_value = ''true'', vc_text = ''('' @ e @ '') IS NULL''\<rparr>,
         \<lparr>vc_value = ''false'', vc_text = ''('' @ e @ '') IS NOT NULL''\<rparr>]\<rparr>"

definition text_cast_target :: "catalog \<Rightarrow> column_id \<Rightarrow> type_key option" where
  "text_cast_target c column_id =
     (case type_for_column c column_id of
        None \<Rightarrow> None
      | Some t \<Rightarrow> if cap_wire (ty_capabilities t) = WireTextCast then Some (ty_key t) else None)"

definition dynamic_predicate_fields_with ::
  "(select \<Rightarrow> string) \<Rightarrow> policy_renderer \<Rightarrow> catalog \<Rightarrow> sql_row_view \<Rightarrow> dynamic_input_field list
   \<Rightarrow> generated_dynamic_site_field list gen" where
  "dynamic_predicate_fields_with rend rp c view fs =
     gmapM (\<lambda>f.
       gbind (dynamic_field_with rend rp c view (dif_column f)) (\<lambda>expression.
       gret \<lparr>gdf_key = dif_key f, gdf_data_type = dif_data_type f,
             gdf_operators = map (dynamic_operator expression (text_cast_target c (dif_column f)))
                               (dif_operators f),
             gdf_directions = []\<rparr>)) fs"

section \<open>Values and presence\<close>

record conditional_filter =
  cf_present :: "sql_expr option"
  cf_value :: sql_expr

definition combine_conditional ::
  "conditional_filter \<Rightarrow> bool \<Rightarrow> conditional_filter \<Rightarrow> conditional_filter" where
  "combine_conditional left is_and right =
     (let l = cf_value left; r = cf_value right in
      if is_and then
        (case (cf_present left, cf_present right) of
           (None, None) \<Rightarrow> \<lparr>cf_present = None, cf_value = x_and l r\<rparr>
         | (None, Some rp) \<Rightarrow> \<lparr>cf_present = None, cf_value = x_and l (value_or_absent r rp)\<rparr>
         | (Some lp, None) \<Rightarrow> \<lparr>cf_present = None, cf_value = x_and (value_or_absent l lp) r\<rparr>
         | (Some lp, Some rp) \<Rightarrow>
             \<lparr>cf_present = Some (x_or lp rp),
              cf_value = x_and (value_or_absent l lp) (value_or_absent r rp)\<rparr>)
      else
        (case (cf_present left, cf_present right) of
           (None, None) \<Rightarrow> \<lparr>cf_present = None, cf_value = x_or l r\<rparr>
         | (None, Some rp) \<Rightarrow> \<lparr>cf_present = None, cf_value = x_or l (value_if_present r rp)\<rparr>
         | (Some lp, None) \<Rightarrow> \<lparr>cf_present = None, cf_value = x_or (value_if_present l lp) r\<rparr>
         | (Some lp, Some rp) \<Rightarrow>
             \<lparr>cf_present = Some (x_or lp rp),
              cf_value = x_or (value_if_present l lp) (value_if_present r rp)\<rparr>))"

text \<open>The end of \<open>filter_expr\<close>: an absent predicate holds.\<close>

definition settle :: "conditional_filter \<Rightarrow> sql_expr" where
  "settle r = (case cf_present r of None \<Rightarrow> cf_value r
                | Some present \<Rightarrow> value_or_absent (cf_value r) present)"

definition null_comparison_operand :: "filter_expr \<Rightarrow> filter_expr \<Rightarrow> filter_expr option" where
  "null_comparison_operand left right =
     (if left = FLiteral FlNull then Some right
      else if right = FLiteral FlNull then Some left
      else None)"

definition literal_value_expr :: "filter_literal \<Rightarrow> sql_expr gen" where
  "literal_value_expr literal =
     (case literal of
        FlString value \<Rightarrow> gret (XVal (SvString value))
      | FlNumber value \<Rightarrow>
          (case parse_i64 value of
             Some n \<Rightarrow> gret (XVal (SvInt n))
           | None \<Rightarrow> gbind (numeric_literal_sentinel value) (\<lambda>n. gret (XVal (SvU64 n))))
      | FlBool value \<Rightarrow> gret (XVal (SvBool value))
      | FlNull \<Rightarrow> gret (XCust ''null''))"

fun comparison_binary :: "filter_op \<Rightarrow> sql_generation_error + sql_binary" where
  "comparison_binary FopEq = Inr SbEq"
| "comparison_binary FopNe = Inr SbNe"
| "comparison_binary FopGt = Inr SbGt"
| "comparison_binary FopGe = Inr SbGe"
| "comparison_binary FopLt = Inr SbLt"
| "comparison_binary FopLe = Inr SbLe"
| "comparison_binary FopLike = Inl UnsupportedFilterFragment"
| "comparison_binary FopAnd = Inr SbAnd"
| "comparison_binary FopOr = Inr SbOr"

definition double_dollars :: "string \<Rightarrow> string" where
  "double_dollars s = concat (map (\<lambda>ch. if ch = CHR ''$'' then ''$$'' else [ch]) s)"

definition membership_list :: "bool \<Rightarrow> sql_expr \<Rightarrow> sql_expr list \<Rightarrow> sql_expr" where
  "membership_list negated operand items =
     (let expressions = operand # items;
          placeholders = join_with '', ''
            (map (\<lambda>i. ''$'' @ dec_string i) [2..<Suc (length expressions)]) in
      XCustWith (''$1 '' @ (if negated then ''NOT IN'' else ''IN'') @ '' ('' @ placeholders @ '')'')
        expressions)"

section \<open>Agreement of policy renderers\<close>

text \<open>The renderer is only asked for the policies of the row view it is read through.\<close>

lemma policy_field_filter_for_in [simp]:
  "policy_field_filter_for fs target = Some pf \<Longrightarrow> pf \<in> set fs"
  unfolding policy_field_filter_for_def by (auto simp: find_Some_iff)

lemma masked_column_with_cong [fundef_cong]:
  "c = c' \<Longrightarrow> view = view' \<Longrightarrow> col = col'
   \<Longrightarrow> (\<And>pf. pf \<in> set (rv_field_filters view') \<Longrightarrow> rp (rv_context view') pf = rp' (rv_context view') pf)
   \<Longrightarrow> masked_column_with rp c view col = masked_column_with rp' c' view' col'"
  unfolding masked_column_with_def by (auto intro!: gbind_cong split: option.splits)

lemma aggregate_value_with_cong [fundef_cong]:
  "c = c' \<Longrightarrow> f = f' \<Longrightarrow> operand = operand' \<Longrightarrow> view = view'
   \<Longrightarrow> (\<And>pf. pf \<in> set (rv_field_filters view') \<Longrightarrow> rp (rv_context view') pf = rp' (rv_context view') pf)
   \<Longrightarrow> aggregate_value_with rp c f operand view = aggregate_value_with rp' c' f' operand' view'"
proof -
  assume *: "c = c'" "f = f'" "operand = operand'" "view = view'"
    and "\<And>pf. pf \<in> set (rv_field_filters view') \<Longrightarrow> rp (rv_context view') pf = rp' (rv_context view') pf"
  then have "masked_column_with rp c' view' = masked_column_with rp' c' view'"
    by (intro ext masked_column_with_cong) auto
  with * show ?thesis by (simp add: aggregate_value_with_def)
qed

lemma null_test_with_cong [fundef_cong]:
  "c = c' \<Longrightarrow> scope = scope' \<Longrightarrow> f = f' \<Longrightarrow> negated = negated'
   \<Longrightarrow> ((\<And>cs i. f' \<noteq> FColumn cs i) \<Longrightarrow> fe = fe')
   \<Longrightarrow> (\<And>cs i pf. f' = FColumn cs i \<Longrightarrow> pf \<in> set (rv_field_filters (filter_column_source scope' cs)) \<Longrightarrow>
        rp (rv_context (filter_column_source scope' cs)) pf = rp' (rv_context (filter_column_source scope' cs)) pf)
   \<Longrightarrow> null_test_with rp fe c scope f negated = null_test_with rp' fe' c' scope' f' negated'"
  unfolding null_test_with_def
  by (auto intro!: gbind_cong goption_cong simp: Let_def split: filter_expr.splits)

lemma dynamic_predicate_fields_with_cong [fundef_cong]:
  "c = c' \<Longrightarrow> view = view' \<Longrightarrow> fs = fs'
   \<Longrightarrow> (\<And>pf. pf \<in> set (rv_field_filters view') \<Longrightarrow> rp (rv_context view') pf = rp' (rv_context view') pf)
   \<Longrightarrow> dynamic_predicate_fields_with rend rp c view fs = dynamic_predicate_fields_with rend rp' c' view' fs'"
  unfolding dynamic_predicate_fields_with_def dynamic_field_with_def
  by (auto intro!: gbind_cong gmapM_cong masked_column_with_cong)

section \<open>The renderer\<close>

definition and_where :: "sql_expr option \<Rightarrow> select" where
  "and_where e = (case e of Some e \<Rightarrow> [QAndWhere e] | None \<Rightarrow> [])"

definition from_table :: "table \<Rightarrow> selection_context \<Rightarrow> sql_call" where
  "from_table t ctx = QFromAs (tb_schema t) (tb_name t) (sc_table_alias ctx)"

text \<open>
  Joining a related table to the rows of \<open>source\<close>: the relation's condition and the field
  policy of the relation in that row view.
\<close>

definition join_relation_with ::
  "policy_renderer \<Rightarrow> catalog \<Rightarrow> sql_row_view \<Rightarrow> selection_context \<Rightarrow> relation \<Rightarrow> select gen" where
  "join_relation_with rp c source ctx r =
     gbind (glift (relation_condition c (rv_context source) ctx r)) (\<lambda>condition.
     gbind (goption (rp (rv_context source))
              (policy_field_filter_for (rv_field_filters source) (TargetRelation (rel_id r)))) (\<lambda>guard.
     gret (QCondWhere condition # and_where guard)))"

lemma join_relation_with_cong [fundef_cong]:
  "c = c' \<Longrightarrow> source = source' \<Longrightarrow> ctx = ctx' \<Longrightarrow> r = r'
   \<Longrightarrow> (\<And>pf. pf \<in> set (rv_field_filters source') \<Longrightarrow> rp (rv_context source') pf = rp' (rv_context source') pf)
   \<Longrightarrow> join_relation_with rp c source ctx r = join_relation_with rp' c' source' ctx' r'"
  unfolding join_relation_with_def by (auto intro!: gbind_cong goption_cong)

definition exists_scope ::
  "exists_kind \<Rightarrow> filter_sql_scope \<Rightarrow> sql_row_view \<Rightarrow> sql_row_view \<Rightarrow> filter_sql_scope" where
  "exists_scope kind scope relation_source exists_view =
     (case kind of
        ExistsExplicit \<Rightarrow>
          \<lparr>fs_current = exists_view, fs_root = fs_root scope, fs_predicate_source = exists_view,
           fs_parent = Some relation_source\<rparr>
      | ExistsRelationshipPredicate \<Rightarrow>
          \<lparr>fs_current = exists_view, fs_root = fs_root scope,
           fs_predicate_source = fs_predicate_source scope, fs_parent = fs_parent scope\<rparr>)"

definition exists_context :: "table \<Rightarrow> selection_context" where
  "exists_context t = context_for t (tb_name t) [table_label t]"

definition aggregate_context :: "table \<Rightarrow> aggregate_function \<Rightarrow> selection_context" where
  "aggregate_context t f = context_for t (tb_name t) [table_label t, aggregate_label f]"

function (sequential) filter_expr ::
  "(select \<Rightarrow> string) \<Rightarrow> catalog \<Rightarrow> filter_sql_scope \<Rightarrow> filter_expr \<Rightarrow> sql_expr gen"
and conditional_filter_expr ::
  "(select \<Rightarrow> string) \<Rightarrow> catalog \<Rightarrow> filter_sql_scope \<Rightarrow> filter_expr \<Rightarrow> conditional_filter gen"
and filter_value_expr ::
  "(select \<Rightarrow> string) \<Rightarrow> catalog \<Rightarrow> filter_sql_scope \<Rightarrow> filter_expr \<Rightarrow> sql_expr gen" where
  "filter_expr rend c scope f =
     gbind (conditional_filter_expr rend c scope f) (\<lambda>rendered. gret (settle rendered))"

| "conditional_filter_expr rend c scope FAbsent =
     gret \<lparr>cf_present = Some (XCust ''FALSE''), cf_value = XCust ''TRUE''\<rparr>"
| "conditional_filter_expr rend c scope (FOptional p operand) =
     gbind (conditional_filter_expr rend c scope operand) (\<lambda>inner.
     gbind (parameter p) (\<lambda>placeholder.
     let guard = XCust (placeholder @ is_not_null_text) in
     gret \<lparr>cf_present = Some (case cf_present inner of
                             Some present \<Rightarrow> x_and guard present
                           | None \<Rightarrow> guard),
           cf_value = cf_value inner\<rparr>))"
| "conditional_filter_expr rend c scope (FNot operand) =
     gbind (conditional_filter_expr rend c scope operand) (\<lambda>operand.
     gret \<lparr>cf_present = cf_present operand, cf_value = not_expr (cf_value operand)\<rparr>)"
| "conditional_filter_expr rend c scope (FBinary left op right) =
     (if op = FopAnd \<or> op = FopOr then
        gbind (conditional_filter_expr rend c scope left) (\<lambda>l.
        gbind (conditional_filter_expr rend c scope right) (\<lambda>r.
        gret (combine_conditional l (op = FopAnd) r)))
      else
        gbind (filter_value_expr rend c scope (FBinary left op right)) (\<lambda>value.
        gret \<lparr>cf_present = None, cf_value = value\<rparr>))"
| "conditional_filter_expr rend c scope f =
     gbind (filter_value_expr rend c scope f) (\<lambda>value.
     gret \<lparr>cf_present = None, cf_value = value\<rparr>)"

| "filter_value_expr rend c scope FAbsent = gfail UnsupportedFilterFragment"
| "filter_value_expr rend c scope (FOptional p operand) = gfail UnsupportedFilterFragment"
| "filter_value_expr rend c scope (FColumn column_scope column_id) =
     masked_column_with
       (\<lambda>ctx pf. gbind (require_policy_context (pf_context pf)) (\<lambda>_.
          filter_expr rend c (raw_scope ctx) (pf_filter pf)))
       c (filter_column_source scope column_scope) column_id"
| "filter_value_expr rend c scope (FParameter p) =
     gbind (parameter p) (\<lambda>placeholder. gret (XCust placeholder))"
| "filter_value_expr rend c scope (FDynamicPredicate path surface fs) =
     gbind (dynamic_predicate_fields_with rend
              (\<lambda>ctx pf. gbind (require_policy_context (pf_context pf)) (\<lambda>_.
                 filter_expr rend c (raw_scope ctx) (pf_filter pf)))
              c (fs_current scope) fs) (\<lambda>site_fields.
     gbind (dynamic_site path DynPredicate ''TRUE'' site_fields MarkerExact) (\<lambda>marker.
     gret (XCust marker)))"
| "filter_value_expr rend c scope (FLiteral literal) = literal_value_expr literal"
| "filter_value_expr rend c scope (FBinary left op right) =
     (case (if op = FopEq \<or> op = FopNe then null_comparison_operand left right else None) of
        Some operand \<Rightarrow>
          null_test_with
            (\<lambda>ctx pf. gbind (require_policy_context (pf_context pf)) (\<lambda>_.
               filter_expr rend c (raw_scope ctx) (pf_filter pf)))
            (filter_expr rend c scope operand) c scope operand (op = FopNe)
      | None \<Rightarrow>
          gbind (filter_expr rend c scope left) (\<lambda>l.
          gbind (filter_expr rend c scope right) (\<lambda>r.
          if op = FopLike then gret (XCustWith ''$1 like $2'' [l, r])
          else gbind (glift (comparison_binary op)) (\<lambda>b. gret (XBin b l r)))))"
| "filter_value_expr rend c scope (FNot operand) =
     gbind (filter_expr rend c scope operand) (\<lambda>e. gret (XCustWith ''NOT ($1)'' [e]))"
| "filter_value_expr rend c scope (FNullTest operand negated) =
     null_test_with
       (\<lambda>ctx pf. gbind (require_policy_context (pf_context pf)) (\<lambda>_.
          filter_expr rend c (raw_scope ctx) (pf_filter pf)))
       (filter_expr rend c scope operand) c scope operand negated"
| "filter_value_expr rend c scope (FMembership operand (CollList items) negated) =
     gbind (filter_expr rend c scope operand) (\<lambda>operand.
     if items = [] then gret (XCust (if negated then ''TRUE'' else ''FALSE''))
     else gbind (gmapM (filter_expr rend c scope) items) (\<lambda>items.
          gret (membership_list negated operand items)))"
| "filter_value_expr rend c scope (FMembership operand (CollParameter p) negated) =
     gbind (filter_expr rend c scope operand) (\<lambda>operand.
     gbind (parameter p) (\<lambda>placeholder.
     gret (XCustWith (''$1 '' @ (if negated then ''<> ALL'' else ''= ANY'') @ ''(''
             @ double_dollars placeholder @ '')'') [operand])))"
| "filter_value_expr rend c scope (FVariantBinary left path variants right) =
     gbind (variant path variants) (\<lambda>operator.
     case null_comparison_operand left right of
       Some operand \<Rightarrow>
         gbind (filter_expr rend c scope operand) (\<lambda>e.
         gret (XCustWith (''$1 '' @ operator @ '' null'') [e]))
     | None \<Rightarrow>
         gbind (filter_expr rend c scope left) (\<lambda>l.
         gbind (filter_expr rend c scope right) (\<lambda>r.
         gret (XCustWith (''$1 '' @ operator @ '' $2'') [l, r]))))"
| "filter_value_expr rend c scope
     (FExists relation_id table_id kind source_scope policy_filter field_filters inner) =
     gbind (glift (sql_table c table_id)) (\<lambda>t.
     let ctx = exists_context t;
         source = filter_column_source scope source_scope in
     gbind (goption (\<lambda>rid.
              gbind (glift (sql_relation c rid)) (\<lambda>r.
              join_relation_with
                (\<lambda>ctx pf. gbind (require_policy_context (pf_context pf)) (\<lambda>_.
                   filter_expr rend c (raw_scope ctx) (pf_filter pf)))
                c source ctx r)) relation_id) (\<lambda>join.
     gbind (goption (filter_expr rend c (raw_scope ctx)) policy_filter) (\<lambda>policy.
     gbind (goption (filter_expr rend c
              (exists_scope kind scope source (readable_view ctx field_filters))) inner) (\<lambda>inner.
     gret (XExists ([QExpr (XVal (SvInt 1)), from_table t ctx]
             @ (case join of Some j \<Rightarrow> j | None \<Rightarrow> []) @ and_where policy @ and_where inner))))))"
| "filter_value_expr rend c scope
     (FRelationAggregate relation_id table_id function operand policy_filter field_filters) =
     gbind (glift (sql_table c table_id)) (\<lambda>t.
     gbind (glift (sql_relation c relation_id)) (\<lambda>r.
     let ctx = aggregate_context t function in
     gbind (join_relation_with
              (\<lambda>ctx pf. gbind (require_policy_context (pf_context pf)) (\<lambda>_.
                 filter_expr rend c (raw_scope ctx) (pf_filter pf)))
              c (fs_current scope) ctx r) (\<lambda>join.
     gbind (goption (filter_expr rend c (raw_scope ctx)) policy_filter) (\<lambda>policy.
     if function = AggExists then
       gret (XExists (from_table t ctx # join @ and_where policy @ [QExpr (XVal (SvInt 1))]))
     else
       gbind (aggregate_value_with
                (\<lambda>ctx pf. gbind (require_policy_context (pf_context pf)) (\<lambda>_.
                   filter_expr rend c (raw_scope ctx) (pf_filter pf)))
                c function operand (readable_view ctx field_filters)) (\<lambda>value.
       gret (XSubQuery (from_table t ctx # join @ and_where policy @ [QExpr value])))))))"
  by pat_completeness auto

section \<open>Termination\<close>

text \<open>
  A policy is rendered over raw rows, whose columns have no policies: that the recursion
  leaves the filter it was called on for a policy happens once on the way down, unless an
  existence test brings in the policies of another table, and those are parts of the filter.
\<close>

definition scope_filters :: "filter_sql_scope \<Rightarrow> policy_field_filter set" where
  "scope_filters scope =
     set (rv_field_filters (fs_current scope)) \<union> set (rv_field_filters (fs_root scope))
     \<union> set (rv_field_filters (fs_predicate_source scope))
     \<union> (case fs_parent scope of Some v \<Rightarrow> set (rv_field_filters v) | None \<Rightarrow> {})"

definition filter_weight :: "filter_sql_scope \<Rightarrow> filter_expr \<Rightarrow> nat" where
  "filter_weight scope f = Max (insert (size f) ((\<lambda>pf. size (pf_filter pf)) ` scope_filters scope))"

definition scope_rank :: "filter_sql_scope \<Rightarrow> nat" where
  "scope_rank scope = (if scope_filters scope = {} then 0 else 1)"

lemma finite_scope_filters [simp]: "finite (scope_filters scope)"
  by (simp add: scope_filters_def split: option.splits)

lemma filter_weight_le:
  "filter_weight scope f \<le> n \<longleftrightarrow> size f \<le> n \<and> (\<forall>pf \<in> scope_filters scope. size (pf_filter pf) \<le> n)"
  by (simp add: filter_weight_def)

lemma filter_weight_less:
  "filter_weight scope f < n \<longleftrightarrow> size f < n \<and> (\<forall>pf \<in> scope_filters scope. size (pf_filter pf) < n)"
  by (simp add: filter_weight_def)

lemma filter_weight_self: "size f \<le> filter_weight scope f"
  by (simp add: filter_weight_def)

lemma filter_weight_in: "pf \<in> scope_filters scope \<Longrightarrow> size (pf_filter pf) \<le> filter_weight scope f"
  by (simp add: filter_weight_def)

lemma scope_filters_raw [simp]: "scope_filters (raw_scope ctx) = {}"
  by (simp add: scope_filters_def raw_scope_def raw_view_def)

lemma filter_column_source_filters:
  "pf \<in> set (rv_field_filters (filter_column_source scope cs)) \<Longrightarrow> pf \<in> scope_filters scope"
  by (auto simp: filter_column_source_def scope_filters_def split: filter_column_scope.splits option.splits)

lemma current_filters: "pf \<in> set (rv_field_filters (fs_current scope)) \<Longrightarrow> pf \<in> scope_filters scope"
  by (simp add: scope_filters_def)

lemma exists_scope_filters:
  "pf \<in> scope_filters (exists_scope kind scope (filter_column_source scope cs) (readable_view ctx ffs))
   \<Longrightarrow> pf \<in> scope_filters scope \<or> pf \<in> set ffs"
  using filter_column_source_filters[of pf scope cs]
  by (auto simp: exists_scope_def scope_filters_def readable_view_def split: exists_kind.splits option.splits)

lemma pf_filter_size: "size (pf_filter pf) < size pf"
  by (cases pf) simp

lemma pf_filter_size_in: "pf \<in> set ffs \<Longrightarrow> size (pf_filter pf) < size_list size ffs"
  by (auto intro: size_list_estimation pf_filter_size)

definition filter_order :: "((filter_sql_scope \<times> filter_expr \<times> nat) \<times> (filter_sql_scope \<times> filter_expr \<times> nat)) set" where
  "filter_order = measures
     [\<lambda>(s, f, k). filter_weight s f, \<lambda>(s, f, k). scope_rank s, \<lambda>(s, f, k). size f, \<lambda>(s, f, k). k]"

lemma wf_filter_order [simp]: "wf filter_order"
  by (simp add: filter_order_def)

lemma filter_order_ordinal: "k < k' \<Longrightarrow> ((s, f, k), (s, f, k')) \<in> filter_order"
  by (simp add: filter_order_def)

lemma filter_order_sub: "size g < size f \<Longrightarrow> ((s, g, k), (s, f, k')) \<in> filter_order"
proof -
  assume "size g < size f"
  then have "filter_weight s g \<le> filter_weight s f"
    unfolding filter_weight_le using filter_weight_self[of f s] by (auto intro: filter_weight_in)
  with \<open>size g < size f\<close> show ?thesis by (auto simp: filter_order_def)
qed

lemma filter_order_raw_sub: "size g < size f \<Longrightarrow> ((raw_scope ctx, g, k), (s, f, k')) \<in> filter_order"
proof -
  assume "size g < size f"
  then have "filter_weight (raw_scope ctx) g \<le> filter_weight s f" "scope_rank (raw_scope ctx) \<le> scope_rank s"
    unfolding filter_weight_le using filter_weight_self[of f s] by (auto simp: scope_rank_def)
  with \<open>size g < size f\<close> show ?thesis by (auto simp: filter_order_def)
qed

lemma filter_order_policy:
  assumes "pf \<in> scope_filters s"
  shows "((raw_scope ctx, pf_filter pf, k), (s, f, k')) \<in> filter_order"
proof -
  have "filter_weight (raw_scope ctx) (pf_filter pf) \<le> filter_weight s f"
    using assms unfolding filter_weight_le by (auto simp: filter_weight_def)
  moreover have "scope_rank (raw_scope ctx) < scope_rank s"
    using assms by (auto simp: scope_rank_def)
  ultimately show ?thesis by (auto simp: filter_order_def)
qed

lemma filter_order_exists:
  assumes g: "size g < size f" and ffs: "size_list size ffs < size f"
  shows "((exists_scope kind s (filter_column_source s cs) (readable_view ctx ffs), g, k), (s, f, k')) \<in> filter_order"
proof -
  let ?s = "exists_scope kind s (filter_column_source s cs) (readable_view ctx ffs)"
  have small: "size (pf_filter pf) < size f" if "pf \<in> set ffs" for pf
    using pf_filter_size_in[OF that] ffs by simp
  have weight: "filter_weight ?s g \<le> filter_weight s f"
    unfolding filter_weight_le
  proof (intro conjI ballI)
    show "size g \<le> filter_weight s f" using g filter_weight_self[of f s] by simp
    fix pf assume "pf \<in> scope_filters ?s"
    then have "pf \<in> scope_filters s \<or> size (pf_filter pf) < size f"
      using exists_scope_filters small by blast
    then show "size (pf_filter pf) \<le> filter_weight s f"
      using filter_weight_in[of pf s f] filter_weight_self[of f s] by linarith
  qed
  have "filter_weight ?s g < filter_weight s f" if "scope_filters s = {}"
  proof -
    have "filter_weight s f = size f" using that by (simp add: filter_weight_def)
    moreover have "filter_weight ?s g < size f"
      unfolding filter_weight_less using g that small exists_scope_filters by blast
    ultimately show ?thesis by simp
  qed
  with weight g show ?thesis
    by (cases "scope_filters s = {}") (auto simp: filter_order_def scope_rank_def)
qed

lemma filter_size_in: "g \<in> set items \<Longrightarrow> size g < Suc (Suc (n + size_list size items))"
  using size_list_estimation'[of g items "size g" size] by simp

lemma policy_size_in:
  "pf \<in> set ffs \<Longrightarrow> size (pf_filter pf) < Suc (n + size_list size ffs)"
  using pf_filter_size_in[of pf ffs] by simp

lemma null_comparison_operand_size:
  "null_comparison_operand l r = Some g \<Longrightarrow> size g < Suc (size l + size r)"
  by (auto simp: null_comparison_operand_def split: if_splits)

lemmas filter_order_intros =
  filter_order_ordinal filter_order_sub filter_order_raw_sub filter_order_policy filter_order_exists

termination filter_expr
  apply (relation "inv_image filter_order
    (case_sum (\<lambda>(_, _, s, f). (s, f, 2)) (case_sum (\<lambda>(_, _, s, f). (s, f, 1)) (\<lambda>(_, _, s, f). (s, f, 0))))")
  apply (simp_all add: wf_inv_image filter_column_source_filters)
  apply ((rule filter_order_intros,
      (simp add: filter_column_source_filters current_filters null_comparison_operand_size
         filter_size_in policy_size_in
       split: if_splits; fail)+)+)
  apply (rule filter_order_raw_sub)
  apply (auto simp: readable_view_def dest!: pf_filter_size_in)
  done

section \<open>The functions the renderer is used through\<close>

text \<open>\<open>render_policy_field_filter\<close>: a policy is rendered over the raw row.\<close>

definition render_policy_field_filter ::
  "(select \<Rightarrow> string) \<Rightarrow> catalog \<Rightarrow> selection_context \<Rightarrow> policy_field_filter \<Rightarrow> sql_expr gen" where
  "render_policy_field_filter rend c ctx pf =
     gbind (require_policy_context (pf_context pf)) (\<lambda>_.
       filter_expr rend c (raw_scope ctx) (pf_filter pf))"

definition masked_column_expression ::
  "(select \<Rightarrow> string) \<Rightarrow> catalog \<Rightarrow> sql_row_view \<Rightarrow> column_id \<Rightarrow> sql_expr gen" where
  "masked_column_expression rend c = masked_column_with (render_policy_field_filter rend c) c"

definition aggregate_value_expression ::
  "(select \<Rightarrow> string) \<Rightarrow> catalog \<Rightarrow> aggregate_function \<Rightarrow> column_id option \<Rightarrow> sql_row_view \<Rightarrow> sql_expr gen" where
  "aggregate_value_expression rend c = aggregate_value_with (render_policy_field_filter rend c) c"

definition null_test_expr ::
  "(select \<Rightarrow> string) \<Rightarrow> catalog \<Rightarrow> filter_sql_scope \<Rightarrow> filter_expr \<Rightarrow> bool \<Rightarrow> sql_expr gen" where
  "null_test_expr rend c scope operand negated =
     null_test_with (render_policy_field_filter rend c) (filter_expr rend c scope operand) c scope
       operand negated"

definition dynamic_field_expression ::
  "(select \<Rightarrow> string) \<Rightarrow> catalog \<Rightarrow> sql_row_view \<Rightarrow> column_id \<Rightarrow> string gen" where
  "dynamic_field_expression rend c = dynamic_field_with rend (render_policy_field_filter rend c) c"

definition generated_dynamic_predicate_fields ::
  "(select \<Rightarrow> string) \<Rightarrow> catalog \<Rightarrow> sql_row_view \<Rightarrow> dynamic_input_field list
   \<Rightarrow> generated_dynamic_site_field list gen" where
  "generated_dynamic_predicate_fields rend c =
     dynamic_predicate_fields_with rend (render_policy_field_filter rend c) c"

fun dynamic_order_sql :: "dynamic_order_direction \<Rightarrow> string" where
  "dynamic_order_sql DodAsc = ''ASC''"
| "dynamic_order_sql DodDesc = ''DESC''"
| "dynamic_order_sql DodAscNullsFirst = ''ASC NULLS FIRST''"
| "dynamic_order_sql DodAscNullsLast = ''ASC NULLS LAST''"
| "dynamic_order_sql DodDescNullsFirst = ''DESC NULLS FIRST''"
| "dynamic_order_sql DodDescNullsLast = ''DESC NULLS LAST''"

definition generated_dynamic_order_fields ::
  "(select \<Rightarrow> string) \<Rightarrow> catalog \<Rightarrow> sql_row_view \<Rightarrow> dynamic_input_field list
   \<Rightarrow> generated_dynamic_site_field list gen" where
  "generated_dynamic_order_fields rend c view fs =
     gmapM (\<lambda>f.
       gbind (dynamic_field_expression rend c view (dif_column f)) (\<lambda>expression.
       gret \<lparr>gdf_key = dif_key f, gdf_data_type = dif_data_type f, gdf_operators = [],
             gdf_directions = map (\<lambda>d. \<lparr>vc_value = dynamic_order_direction_as_str d,
                                         vc_text = ''('' @ expression @ '') '' @ dynamic_order_sql d\<rparr>)
                                (dif_directions f)\<rparr>)) fs"

declare filter_expr.simps [simp del] conditional_filter_expr.simps [simp del]
  filter_value_expr.simps [simp del]

lemma render_policy_fold:
  "(\<lambda>ctx pf. gbind (require_policy_context (pf_context pf)) (\<lambda>_.
      filter_expr rend c (raw_scope ctx) (pf_filter pf))) = render_policy_field_filter rend c"
  by (simp add: render_policy_field_filter_def fun_eq_iff)

text \<open>The recursion equations in terms of these functions.\<close>

lemmas filter_value_expr_simps =
  filter_value_expr.simps [unfolded render_policy_fold, folded masked_column_expression_def
    aggregate_value_expression_def null_test_expr_def generated_dynamic_predicate_fields_def]

end
