(* ===== verification/Sql_Generate.thy ===== *)
theory Sql_Generate
  imports Sql_Filter Type_Graph
begin

text \<open>
  Generation of the statement of a query plan (\<open>generate_postgres_sql_with_options\<close> and the
  functions below it in \<open>crates/dsql-core/src/sql/postgres.rs\<close>): collections of rows with
  their nested relations, aggregates, ordering, limits and offsets, the envelope of singular
  roots, and the loop that retries with fresh sentinels.
\<close>

section \<open>Public representation\<close>

definition public_scalar_expression :: "sql_expr \<Rightarrow> wire_encoding \<Rightarrow> sql_expr" where
  "public_scalar_expression e wire =
     (if wire = WireBigInteger \<or> wire = WireNumeric \<or> wire = WireTextCast then XCast e ''text'' else e)"

definition public_catalog_expression :: "sql_expr \<Rightarrow> catalog \<Rightarrow> catalog_type \<Rightarrow> sql_generation_error + sql_expr" where
  "public_catalog_expression e c declared =
     (case value_shape_for_type c (ty_id declared) of
        None \<Rightarrow> Inl NeverReturns
      | Some (Some (ValueScalar _)) \<Rightarrow>
          Inr (public_scalar_expression e (cap_wire (ty_capabilities declared)))
      | Some (Some (ValueDatabaseArray element)) \<Rightarrow>
          (if cap_wire (ty_capabilities element) \<in> {WireBigInteger, WireNumeric, WireTextCast}
           then Inr (XCast e ''text[]'') else Inr e)
      | Some None \<Rightarrow> Inr e)"

definition public_column_expression :: "sql_expr \<Rightarrow> catalog \<Rightarrow> column_id \<Rightarrow> sql_generation_error + sql_expr" where
  "public_column_expression e c column_id =
     (case type_for_column c column_id of
        Some t \<Rightarrow> public_catalog_expression e c t
      | None \<Rightarrow> Inr e)"

definition extremum_type :: "catalog \<Rightarrow> aggregate_projection \<Rightarrow> catalog_type option" where
  "extremum_type c field =
     (if ap_function field = AggMin \<or> ap_function field = AggMax
      then Option.bind (ap_operand field) (type_for_column c) else None)"

definition aggregate_wire :: "catalog \<Rightarrow> aggregate_projection \<Rightarrow> wire_encoding" where
  "aggregate_wire c field =
     (case extremum_type c field of
        Some t \<Rightarrow> cap_wire (ty_capabilities t)
      | None \<Rightarrow> cap_wire (capabilities_builtin (ap_data_type field)))"

definition public_aggregate_expression ::
  "sql_expr \<Rightarrow> catalog \<Rightarrow> aggregate_projection \<Rightarrow> sql_generation_error + sql_expr" where
  "public_aggregate_expression e c field =
     (case extremum_type c field of
        Some t \<Rightarrow> public_catalog_expression e c t
      | None \<Rightarrow> Inr (public_scalar_expression e (aggregate_wire c field)))"

definition json_build_object :: "(string \<times> sql_expr) list \<Rightarrow> sql_expr" where
  "json_build_object fs = XJsonObject (map (\<lambda>(name, e). (XVal (SvString name), e)) fs)"

definition json_wire_expression :: "sql_expr \<Rightarrow> sql_expr" where
  "json_wire_expression e = XCustWith ''TO_JSON($1)'' [e]"

section \<open>Ordering, limits and offsets\<close>

definition combine_filters :: "sql_expr option \<Rightarrow> sql_expr option \<Rightarrow> sql_expr option" where
  "combine_filters left right =
     (case (left, right) of
        (Some l, Some r) \<Rightarrow> Some (x_and l r)
      | (Some f, None) \<Rightarrow> Some f
      | (None, Some f) \<Rightarrow> Some f
      | (None, None) \<Rightarrow> None)"

definition sql_value_u64 :: "sql_value option \<Rightarrow> nat option" where
  "sql_value_u64 v = (case v of Some (SqlLiteral n) \<Rightarrow> Some n | _ \<Rightarrow> None)"

definition effective_limit :: "selection_clauses \<Rightarrow> nat option \<Rightarrow> nat option" where
  "effective_limit clauses collection_limit =
     (case (sql_value_u64 (cl_limit clauses), collection_limit) of
        (Some s, Some guard) \<Rightarrow> Some (min s guard)
      | (Some s, None) \<Rightarrow> Some s
      | (None, Some guard) \<Rightarrow> Some guard
      | (None, None) \<Rightarrow> None)"

definition should_use_source_subquery :: "selection_clauses \<Rightarrow> nat option \<Rightarrow> bool" where
  "should_use_source_subquery clauses collection_limit \<longleftrightarrow>
     effective_limit clauses collection_limit \<noteq> None \<or> cl_offset clauses \<noteq> None
     \<or> cl_order_by clauses \<noteq> []"

definition direction_variant :: "string \<Rightarrow> sql_variant_case list \<Rightarrow> bool \<Rightarrow> string gen" where
  "direction_variant path cases nullable =
     (if nullable then nullable_variant path cases else variant path cases)"

definition directed_case :: "string \<Rightarrow> string \<Rightarrow> string" where
  "directed_case placeholder direction =
     ''CASE WHEN '' @ [CHR 0x27] @ placeholder @ [CHR 0x27] @ '' = '' @ [CHR 0x27] @ direction @ [CHR 0x27]
       @ '' THEN $1 END''"

definition order_variant_calls :: "string \<Rightarrow> sql_expr \<Rightarrow> select" where
  "order_variant_calls placeholder e =
     [QOrderBy (XCustWith (directed_case placeholder ''asc'') [e]) SoAsc,
      QOrderBy (XCustWith (directed_case placeholder ''desc'') [e]) SoDesc]"

definition order_by_calls ::
  "(select \<Rightarrow> string) \<Rightarrow> catalog \<Rightarrow> sql_row_view \<Rightarrow> order_by_plan \<Rightarrow> select gen" where
  "order_by_calls rend c view order =
     (case order of
        OrderColumn column_id SortAsc \<Rightarrow>
          gbind (masked_column_expression rend c view column_id) (\<lambda>e. gret [QOrderBy e SoAsc])
      | OrderColumn column_id SortDesc \<Rightarrow>
          gbind (masked_column_expression rend c view column_id) (\<lambda>e. gret [QOrderBy e SoDesc])
      | OrderColumn column_id (SortVariant path variants nullable) \<Rightarrow>
          (if \<not> nullable \<and> policy_field_filter_for (rv_field_filters view) (TargetColumn column_id) = None then
             gbind (glift (sql_column c column_id)) (\<lambda>col.
             gbind (replace_order_direction (sc_table_alias (rv_context view)) (col_name col) path variants)
               (\<lambda>_. gret [QOrderBy (raw_column view col) SoAsc]))
           else
             gbind (masked_column_expression rend c view column_id) (\<lambda>e.
             gbind (direction_variant path variants nullable) (\<lambda>placeholder.
             gret (order_variant_calls placeholder e))))
      | OrderDynamic path _ fs \<Rightarrow>
          gbind (generated_dynamic_order_fields rend c view fs) (\<lambda>site_fields.
          gbind (dynamic_site path DynOrder ''NULL::integer'' site_fields MarkerOrder) (\<lambda>marker.
          gret [QOrderBy (XCust marker) SoAsc])))"

definition limit_calls :: "selection_clauses \<Rightarrow> nat option \<Rightarrow> select gen" where
  "limit_calls clauses limit_override =
     (case (cl_limit clauses, limit_override) of
        (Some (SqlParam p), Some guard) \<Rightarrow>
          gbind (guarded_numeric_parameter_sentinel p guard) (\<lambda>n. gret [QLimit n])
      | (Some (SqlParam p), None) \<Rightarrow>
          gbind (numeric_parameter_sentinel p) (\<lambda>n. gret [QLimit n])
      | (_, Some limit) \<Rightarrow> gret [QLimit limit]
      | (Some (SqlLiteral limit), None) \<Rightarrow> gret [QLimit limit]
      | (None, None) \<Rightarrow> gret [])"

definition offset_calls :: "selection_clauses \<Rightarrow> select gen" where
  "offset_calls clauses =
     (case cl_offset clauses of
        Some (SqlLiteral n) \<Rightarrow> gret [QOffset n]
      | Some (SqlParam p) \<Rightarrow> gbind (numeric_parameter_sentinel p) (\<lambda>n. gret [QOffset n])
      | None \<Rightarrow> gret [])"

definition apply_order_limit_offset ::
  "(select \<Rightarrow> string) \<Rightarrow> catalog \<Rightarrow> sql_row_view \<Rightarrow> selection_clauses \<Rightarrow> nat option \<Rightarrow> select gen" where
  "apply_order_limit_offset rend c view clauses limit_override =
     gbind (gmapM (order_by_calls rend c view) (cl_order_by clauses)) (\<lambda>orders.
     gbind (limit_calls clauses limit_override) (\<lambda>limit.
     gbind (offset_calls clauses) (\<lambda>offset.
     gret (concat orders @ limit @ offset))))"

definition cond_where :: "sql_expr list option \<Rightarrow> select" where
  "cond_where condition = (case condition of Some cs \<Rightarrow> [QCondWhere cs] | None \<Rightarrow> [])"

definition limited_source_query ::
  "(select \<Rightarrow> string) \<Rightarrow> catalog \<Rightarrow> table \<Rightarrow> sql_row_view \<Rightarrow> sql_expr list option \<Rightarrow> sql_expr option
   \<Rightarrow> selection_clauses \<Rightarrow> nat option \<Rightarrow> select gen" where
  "limited_source_query rend c t view condition filter_e clauses limit =
     gbind (apply_order_limit_offset rend c view clauses limit) (\<lambda>calls.
     gret ([QColumnAsterisk, from_table t (rv_context view)] @ cond_where condition
             @ and_where filter_e @ calls))"

section \<open>Ordered JSON aggregation\<close>

type_synonym agg_state = "sql_expr list \<times> string list"

definition push_item :: "agg_state \<Rightarrow> sql_expr \<Rightarrow> string \<Rightarrow> string \<Rightarrow> agg_state" where
  "push_item = (\<lambda>(expressions, items) e before after.
     let expressions = expressions @ [e] in
     (expressions, items @ [before @ ''$'' @ dec_string (length expressions) @ after]))"

definition variant_when :: "string \<Rightarrow> string \<Rightarrow> string" where
  "variant_when placeholder direction =
     ''CASE WHEN '' @ [CHR 0x27] @ placeholder @ [CHR 0x27] @ '' = '' @ [CHR 0x27] @ direction @ [CHR 0x27]
       @ '' THEN ''"

definition json_agg_order ::
  "(select \<Rightarrow> string) \<Rightarrow> catalog \<Rightarrow> sql_row_view \<Rightarrow> agg_state \<Rightarrow> order_by_plan \<Rightarrow> agg_state gen" where
  "json_agg_order rend c view st order =
     (case order of
        OrderColumn column_id direction \<Rightarrow>
          gbind (masked_column_expression rend c view column_id) (\<lambda>e.
          case direction of
            SortAsc \<Rightarrow> gret (push_item st e [] '' ASC'')
          | SortDesc \<Rightarrow> gret (push_item st e [] '' DESC'')
          | SortVariant path variants nullable \<Rightarrow>
              gbind (direction_variant path variants nullable) (\<lambda>placeholder.
              gret (push_item (push_item st e (variant_when placeholder ''asc'') '' END ASC'')
                      e (variant_when placeholder ''desc'') '' END DESC'')))
      | OrderDynamic path _ fs \<Rightarrow>
          gbind (generated_dynamic_order_fields rend c view fs) (\<lambda>site_fields.
          gbind (dynamic_site path DynOrder ''NULL::integer'' site_fields MarkerExact) (\<lambda>marker.
          gret (fst st, snd st @ [marker]))))"

definition ordered_json_agg ::
  "(select \<Rightarrow> string) \<Rightarrow> sql_expr \<Rightarrow> selection_clauses \<Rightarrow> catalog \<Rightarrow> sql_row_view \<Rightarrow> sql_expr gen" where
  "ordered_json_agg rend object clauses c view =
     (if cl_order_by clauses = [] then gret (XFunc SfJsonAgg [object])
      else gbind (gfold (json_agg_order rend c view) ([object], []) (cl_order_by clauses)) (\<lambda>(expressions, items).
           gret (XCustWith (''JSON_AGG($1 ORDER BY '' @ join_with '', '' items @ '')'') expressions)))"

section \<open>Collections\<close>

record generation_context =
  gc_parent :: "(sql_row_view \<times> relation) option"
  gc_root :: "sql_row_view option"
  gc_collection_limit :: "nat option"
  gc_public_result_alias :: "string option"
  gc_flattened :: bool

definition same_instance :: "nested_relation \<Rightarrow> selection_plan_item \<Rightarrow> bool" where
  "same_instance r item =
     (case item of
        ItemRelation candidate \<Rightarrow>
          cp_table (nr_collection candidate) = cp_table (nr_collection r)
          \<and> nr_output_name candidate = nr_output_name r
      | ItemProjection _ \<Rightarrow> False)"

definition relation_instance_path ::
  "selection_plan \<Rightarrow> nat \<Rightarrow> table \<Rightarrow> nested_relation \<Rightarrow> string list \<Rightarrow> string list" where
  "relation_instance_path selection item_index t r parent_path =
     (let occurrence = length (filter (same_instance r) (take item_index selection));
          segment = path_segment_of t (nr_output_name r);
          segment = (if 0 < occurrence then segment @ ''#'' @ dec_string occurrence else segment) in
      parent_path @ [segment])"

function (sequential) collect_collection_output_names :: "collection_result_plan \<Rightarrow> string list"
and item_output_names :: "selection_plan_item \<Rightarrow> string list" where
  "collect_collection_output_names (ResultRows selection) =
     concat (map item_output_names selection)"
| "collect_collection_output_names (ResultAggregate aggregate) =
     map ap_output_name (ag_fields aggregate)"
| "item_output_names (ItemProjection p) = [pr_output_name p]"
| "item_output_names (ItemRelation r) =
     (if nr_flattened r then collect_collection_output_names (cp_result (nr_collection r))
      else [nr_output_name r])"
  by pat_completeness auto

lemma cp_result_size: "size (cp_result cp) < size cp"
  by (cases cp) simp

lemma nr_collection_size: "size (nr_collection r) < size r"
  by (cases r) simp

lemma item_size_in: "item \<in> set selection \<Longrightarrow> size item < Suc (size_list size selection)"
  using size_list_estimation'[of item selection "size item" size] by simp

lemma nested_size: "size (cp_result (nr_collection r)) < Suc (size r)"
  using cp_result_size[of "nr_collection r"] nr_collection_size[of r] by simp

termination collect_collection_output_names
  by (relation "measure (case_sum size size)") (auto simp: item_size_in nested_size)

definition selection_field ::
  "(select \<Rightarrow> string) \<Rightarrow> selection_plan \<Rightarrow> catalog \<Rightarrow> sql_row_view \<Rightarrow> string list
   \<Rightarrow> nat \<times> selection_plan_item \<Rightarrow> (string \<times> sql_expr) list gen" where
  "selection_field rend selection c view path = (\<lambda>(item_index, item).
     case item of
       ItemProjection p \<Rightarrow>
         gbind (glift (sql_column c (pr_column p))) (\<lambda>col.
         gbind (masked_column_expression rend c view (pr_column p)) (\<lambda>e.
         gbind (glift (public_column_expression e c (col_id col))) (\<lambda>e.
         gret [(pr_output_name p, e)])))
     | ItemRelation r \<Rightarrow>
         gbind (glift (sql_table c (cp_table (nr_collection r)))) (\<lambda>t.
         let related = context_for t (nr_output_name r)
                         (relation_instance_path selection item_index t r path) in
         gret (if nr_flattened r then
                 map (\<lambda>name. (name, XCol (sc_json_alias related) name))
                   (collect_collection_output_names (cp_result (nr_collection r)))
               else [(nr_output_name r, XCol (sc_json_alias related) (sc_result_alias related))])))"

definition selection_field_expressions ::
  "(select \<Rightarrow> string) \<Rightarrow> selection_plan \<Rightarrow> catalog \<Rightarrow> sql_row_view \<Rightarrow> string list
   \<Rightarrow> (string \<times> sql_expr) list gen" where
  "selection_field_expressions rend selection c view path =
     gbind (gmapM (selection_field rend selection c view path) (enumerate 0 selection))
       (\<lambda>fs. gret (concat fs))"

definition export_calls :: "bool \<Rightarrow> (string \<times> sql_expr) list \<Rightarrow> select" where
  "export_calls encode fs =
     map (\<lambda>(name, e). QExprAs (if encode then json_wire_expression e else e) name) fs"

definition result_alias :: "generation_context \<Rightarrow> selection_context \<Rightarrow> string" where
  "result_alias g ctx =
     (case gc_public_result_alias g of Some a \<Rightarrow> a | None \<Rightarrow> sc_result_alias ctx)"

definition query_filter_scope :: "generation_context \<Rightarrow> sql_row_view \<Rightarrow> filter_sql_scope" where
  "query_filter_scope g view =
     \<lparr>fs_current = view, fs_root = (case gc_root g of Some r \<Rightarrow> r | None \<Rightarrow> view),
      fs_predicate_source = view, fs_parent = map_option fst (gc_parent g)\<rparr>"

text \<open>
  The conditions of a collection's source: the join with the parent row, the field policy of
  the relation, the row policy of the table and the clause's filter, rendered in this order.
\<close>

definition source_relation_condition ::
  "catalog \<Rightarrow> generation_context \<Rightarrow> selection_context \<Rightarrow> sql_generation_error + sql_expr list option" where
  "source_relation_condition c g ctx =
     (case gc_parent g of
        None \<Rightarrow> Inr None
      | Some (parent, r) \<Rightarrow>
          rbind (relation_condition c (rv_context parent) ctx r) (\<lambda>cs. Inr (Some cs)))"

definition source_relation_filter ::
  "(select \<Rightarrow> string) \<Rightarrow> catalog \<Rightarrow> generation_context \<Rightarrow> sql_expr option gen" where
  "source_relation_filter rend c g =
     (case gc_parent g of
        None \<Rightarrow> gret None
      | Some (parent, r) \<Rightarrow>
          goption (render_policy_field_filter rend c (rv_context parent))
            (policy_field_filter_for (rv_field_filters parent) (TargetRelation (rel_id r))))"

definition source_policy_filter ::
  "(select \<Rightarrow> string) \<Rightarrow> catalog \<Rightarrow> collection_plan \<Rightarrow> selection_context \<Rightarrow> sql_expr option gen" where
  "source_policy_filter rend c coll ctx =
     goption (filter_expr rend c (raw_scope ctx)) (cp_policy_filter coll)"

definition source_query_filter ::
  "(select \<Rightarrow> string) \<Rightarrow> catalog \<Rightarrow> collection_plan \<Rightarrow> generation_context \<Rightarrow> sql_row_view
   \<Rightarrow> sql_expr option gen" where
  "source_query_filter rend c coll g view =
     goption (filter_expr rend c (query_filter_scope g view)) (cl_filter (cp_clauses coll))"

definition rows_source ::
  "(select \<Rightarrow> string) \<Rightarrow> catalog \<Rightarrow> collection_plan \<Rightarrow> generation_context \<Rightarrow> table \<Rightarrow> sql_row_view
   \<Rightarrow> sql_expr list option \<Rightarrow> sql_expr option \<Rightarrow> select gen" where
  "rows_source rend c coll g t view condition filter_e =
     (if shape_cardinality (cp_shape coll) = CardCollection
         \<and> should_use_source_subquery (cp_clauses coll) (gc_collection_limit g) then
        gbind (limited_source_query rend c t view condition filter_e (cp_clauses coll)
                 (effective_limit (cp_clauses coll) (gc_collection_limit g))) (\<lambda>source.
        gret [QFromSubquery source (sc_table_alias (rv_context view))])
      else
        gbind (apply_order_limit_offset rend c view (cp_clauses coll) None) (\<lambda>calls.
        gret (from_table t (rv_context view) # cond_where condition @ and_where filter_e @ calls)))"

definition rows_result ::
  "(select \<Rightarrow> string) \<Rightarrow> catalog \<Rightarrow> collection_plan \<Rightarrow> generation_context \<Rightarrow> sql_row_view
   \<Rightarrow> (string \<times> sql_expr) list \<Rightarrow> select gen" where
  "rows_result rend c coll g view fs =
     (if gc_flattened g then gret (export_calls (gc_parent g = None) fs)
      else
        gbind (case shape_cardinality (cp_shape coll) of
                 CardCollection \<Rightarrow>
                   gbind (ordered_json_agg rend (json_build_object fs) (cp_clauses coll) c view) (\<lambda>agg.
                   gret (XFunc SfCoalesce [agg, XVal (SvString ''[]'')]))
               | CardAtMostOne \<Rightarrow> gret (json_build_object fs)) (\<lambda>e.
        gret [QExprAs e (result_alias g (rv_context view))]))"

section \<open>Aggregates\<close>

definition aggregate_fields ::
  "(select \<Rightarrow> string) \<Rightarrow> catalog \<Rightarrow> sql_row_view \<Rightarrow> aggregate_projection list
   \<Rightarrow> (string \<times> sql_expr) list gen" where
  "aggregate_fields rend c view =
     gmapM (\<lambda>field.
       gbind (aggregate_value_expression rend c (ap_function field) (ap_operand field) view) (\<lambda>e.
       gbind (glift (public_aggregate_expression e c field)) (\<lambda>e.
       gret (ap_output_name field, e))))"

definition group_key_calls ::
  "(select \<Rightarrow> string) \<Rightarrow> catalog \<Rightarrow> sql_row_view \<Rightarrow> aggregate_group_projection \<Rightarrow> select gen" where
  "group_key_calls rend c view key =
     gbind (masked_column_expression rend c view (agp_column key)) (\<lambda>grouped_column.
     gbind (glift (public_column_expression grouped_column c (agp_column key))) (\<lambda>e.
     gret [QExprAs e (agp_output_name key), QGroupBy [grouped_column]]))"

definition grouped_alias_for :: "selection_context \<Rightarrow> string" where
  "grouped_alias_for ctx =
     generated_identifier (sc_table_alias ctx) ''_groups_'' (short_hash (sc_table_alias ctx))"

definition generate_grouped_aggregate ::
  "(select \<Rightarrow> string) \<Rightarrow> select \<Rightarrow> aggregate_plan \<Rightarrow> catalog \<Rightarrow> sql_row_view \<Rightarrow> string option \<Rightarrow> select gen" where
  "generate_grouped_aggregate rend grouped aggregate c view public_result_alias =
     gbind (gmapM (group_key_calls rend c view) (ag_group_keys aggregate)) (\<lambda>keys.
     gbind (aggregate_fields rend c view (ag_fields aggregate)) (\<lambda>fs.
     let grouped = grouped @ concat keys @ map (\<lambda>(name, e). QExprAs e name) fs;
         grouped_alias = grouped_alias_for (rv_context view);
         names = map agp_output_name (ag_group_keys aggregate) @ map ap_output_name (ag_fields aggregate);
         object = json_build_object (map (\<lambda>name. (name, XCol grouped_alias name)) names) in
     gret [QFromSubquery grouped grouped_alias,
           QExprAs (XFunc SfCoalesce [XFunc SfJsonAgg [object], XVal (SvString ''[]'')])
             (case public_result_alias of Some a \<Rightarrow> a | None \<Rightarrow> sc_result_alias (rv_context view))]))"

definition aggregate_source ::
  "(select \<Rightarrow> string) \<Rightarrow> catalog \<Rightarrow> collection_plan \<Rightarrow> generation_context \<Rightarrow> table \<Rightarrow> sql_row_view \<Rightarrow> select gen" where
  "aggregate_source rend c coll g t view =
     gbind (glift (source_relation_condition c g (rv_context view))) (\<lambda>condition.
     gbind (source_relation_filter rend c g) (\<lambda>relation_filter.
     gbind (source_policy_filter rend c coll (rv_context view)) (\<lambda>policy_filter.
     gbind (source_query_filter rend c coll g view) (\<lambda>query_filter.
     gret (from_table t (rv_context view) # cond_where condition @ and_where relation_filter
             @ and_where policy_filter @ and_where query_filter)))))"

definition generate_aggregate ::
  "(select \<Rightarrow> string) \<Rightarrow> catalog \<Rightarrow> collection_plan \<Rightarrow> aggregate_plan \<Rightarrow> string \<Rightarrow> string list
   \<Rightarrow> generation_context \<Rightarrow> select gen" where
  "generate_aggregate rend c coll aggregate output_name path g =
     gbind (glift (sql_table c (cp_table coll))) (\<lambda>t.
     let ctx = context_for t output_name path;
         view = readable_view ctx (cp_field_filters coll) in
     gbind (aggregate_source rend c coll g t view) (\<lambda>source.
     if ag_mode aggregate = Grouped then
       generate_grouped_aggregate rend source aggregate c view (gc_public_result_alias g)
     else
       gbind (aggregate_fields rend c view (ag_fields aggregate)) (\<lambda>fs.
       gret (source @
         (if gc_flattened g then export_calls (gc_parent g = None) fs
          else [QExprAs (json_build_object fs) (result_alias g ctx)])))))"

section \<open>Rows and nested relations\<close>

definition child_context :: "generation_context \<Rightarrow> sql_row_view \<Rightarrow> sql_row_view \<Rightarrow> relation \<Rightarrow> nested_relation \<Rightarrow> generation_context" where
  "child_context g view root_view relation_fact r =
     \<lparr>gc_parent = Some (view, relation_fact), gc_root = Some root_view,
      gc_collection_limit = gc_collection_limit g, gc_public_result_alias = None,
      gc_flattened = nr_flattened r\<rparr>"

text \<open>The loop over the nested relations; \<open>child\<close> generates one of them.\<close>

definition relation_join_with ::
  "(nested_relation \<Rightarrow> string list \<Rightarrow> generation_context \<Rightarrow> select gen) \<Rightarrow> catalog \<Rightarrow> selection_plan
   \<Rightarrow> string list \<Rightarrow> generation_context \<Rightarrow> sql_row_view \<Rightarrow> sql_row_view
   \<Rightarrow> nat \<times> selection_plan_item \<Rightarrow> select gen" where
  "relation_join_with child c selection path g view root_view = (\<lambda>(item_index, item).
     case item of
       ItemProjection _ \<Rightarrow> gret []
     | ItemRelation r \<Rightarrow>
         gbind (glift (sql_table c (cp_table (nr_collection r)))) (\<lambda>related_table.
         let relation_path = relation_instance_path selection item_index related_table r path in
         gbind (glift (sql_relation c (nr_relation r))) (\<lambda>relation_fact.
         let ctx = context_for related_table (nr_output_name r) relation_path in
         gbind (child r relation_path (child_context g view root_view relation_fact r)) (\<lambda>q.
         gret [QJoinLateral q (sc_json_alias ctx) (XCust ''true'')]))))"

lemma relation_join_with_cong [fundef_cong]:
  assumes "c = c'" "selection = selection'" "path = path'" "g = g'" "view = view'" "root_view = root_view'"
    and "item = item'"
    and "\<And>r p ctx. snd item' = ItemRelation r \<Longrightarrow> child r p ctx = child' r p ctx"
  shows "relation_join_with child c selection path g view root_view item
       = relation_join_with child' c' selection' path' g' view' root_view' item'"
  using assms
  by (auto simp: relation_join_with_def Let_def split: prod.splits selection_plan_item.splits
      intro!: gbind_cong)

function generate_collection ::
  "(select \<Rightarrow> string) \<Rightarrow> catalog \<Rightarrow> collection_plan \<Rightarrow> string \<Rightarrow> string list
   \<Rightarrow> generation_context \<Rightarrow> select gen" where
  "generate_collection rend c coll output_name path g =
     (case cp_result coll of
        ResultAggregate aggregate \<Rightarrow> generate_aggregate rend c coll aggregate output_name path g
      | ResultRows selection \<Rightarrow>
          gbind (glift (sql_table c (cp_table coll))) (\<lambda>t.
          let ctx = context_for t output_name path;
              view = readable_view ctx (cp_field_filters coll);
              root_view = (case gc_root g of Some r \<Rightarrow> r | None \<Rightarrow> view) in
          gbind (glift (source_relation_condition c g ctx)) (\<lambda>condition.
          gbind (source_relation_filter rend c g) (\<lambda>relation_filter.
          gbind (source_policy_filter rend c coll ctx) (\<lambda>policy_filter.
          gbind (source_query_filter rend c coll g view) (\<lambda>query_filter.
          gbind (rows_source rend c coll g t view condition
                   (combine_filters (combine_filters relation_filter policy_filter) query_filter)) (\<lambda>source.
          gbind (gmapM (relation_join_with
                   (\<lambda>r. generate_collection rend c (nr_collection r) (nr_output_name r))
                   c selection path g view root_view) (enumerate 0 selection)) (\<lambda>joins.
          gbind (selection_field_expressions rend selection c view path) (\<lambda>fs.
          gbind (rows_result rend c coll g view fs) (\<lambda>result.
          gret (source @ concat joins @ result)))))))))))"
  by pat_completeness auto

lemma cp_result_rows_size:
  assumes "cp_result coll = ResultRows selection" and "item \<in> set selection"
    and "item = ItemRelation r"
  shows "size (nr_collection r) < size coll"
proof -
  have "size (nr_collection r) < size item" using assms(3) nr_collection_size[of r] by simp
  moreover have "size item < size (cp_result coll)" using item_size_in[OF assms(2)] assms(1) by simp
  ultimately show ?thesis using cp_result_size[of coll] by linarith
qed

termination generate_collection
  by (relation "measure (\<lambda>(_, _, coll, _). size coll)")
     (auto simp: in_set_enumerate_eq intro: cp_result_rows_size[OF _ nth_mem])

declare generate_collection.simps [simp del]

section \<open>Roots\<close>

definition root_output_names :: "query_root_plan \<Rightarrow> string list" where
  "root_output_names root =
     remdups_adj (if qr_flattened root
                  then collect_collection_output_names (cp_result (qr_collection root))
                  else [qr_output_name root])"

definition singular_root_envelope :: "string list \<Rightarrow> select \<Rightarrow> select" where
  "singular_root_envelope output_names root_query =
     map (\<lambda>name. QExprAs (XCol ''root'' name) name) output_names
     @ [QFromSubquery [QExpr (XVal (SvInt 1))] ''singleton'',
        QJoinLateral root_query ''root'' (XCust ''true'')]"

definition is_rows :: "collection_result_plan \<Rightarrow> bool" where
  "is_rows r = (case r of ResultRows _ \<Rightarrow> True | ResultAggregate _ \<Rightarrow> False)"

definition generate_root_query ::
  "(select \<Rightarrow> string) \<Rightarrow> catalog \<Rightarrow> nat option \<Rightarrow> query_root_plan \<Rightarrow> (select \<times> string list) gen" where
  "generate_root_query rend c collection_limit root =
     gbind (glift (sql_table c (cp_table (qr_collection root)))) (\<lambda>t.
     gbind (generate_collection rend c (qr_collection root) (qr_output_name root)
              [path_segment_of t (qr_output_name root)]
              \<lparr>gc_parent = None, gc_root = None, gc_collection_limit = collection_limit,
               gc_public_result_alias = Some (qr_output_name root), gc_flattened = qr_flattened root\<rparr>)
       (\<lambda>root_query.
     let output_names = root_output_names root in
     gret (if is_rows (cp_result (qr_collection root))
              \<and> shape_cardinality (cp_shape (qr_collection root)) = CardAtMostOne
           then singular_root_envelope output_names root_query else root_query,
           output_names)))"

definition combined_root :: "nat \<times> select \<times> string list \<Rightarrow> select" where
  "combined_root = (\<lambda>(index, root, output_names).
     let root_alias = ''root_'' @ dec_string index in
     map (\<lambda>name. QExprAs (XCol root_alias name) name) output_names
     @ [if index = 0 then QFromSubquery root root_alias else QCrossJoin root root_alias])"

definition combine_root_queries :: "(select \<times> string list) list \<Rightarrow> sql_generation_error + select" where
  "combine_root_queries roots =
     (if roots = [] then Inl EmptyQueryPlan
      else Inr (concat (map combined_root (enumerate 0 roots))))"

section \<open>The statement\<close>

definition query_statement ::
  "(select \<Rightarrow> string) \<Rightarrow> catalog \<Rightarrow> nat option \<Rightarrow> query_plan \<Rightarrow> select gen" where
  "query_statement rend c collection_limit plan =
     gbind (gmapM (generate_root_query rend c collection_limit) (qp_roots plan)) (\<lambda>roots.
     case roots of
       [(query, _)] \<Rightarrow> gret query
     | _ \<Rightarrow> glift (combine_root_queries roots))"

text \<open>
  One pass of the loop: \<open>Inl\<close> an error, \<open>Inr (Inl t)\<close> a collision to retry with the
  sentinels after those of the template \<open>t\<close>, \<open>Inr (Inr g)\<close> the generated SQL. \<open>fmt\<close> is the
  third-party formatter.
\<close>

definition generate_attempt ::
  "(select \<Rightarrow> string) \<Rightarrow> (string \<Rightarrow> string) \<Rightarrow> string \<Rightarrow> query_plan \<Rightarrow> catalog \<Rightarrow> nat option \<Rightarrow> nat \<Rightarrow> nat
   \<Rightarrow> sql_generation_error + (sql_template + generated_sql)" where
  "generate_attempt rend fmt operation_name plan c collection_limit next_sentinel next_dynamic_marker =
     rbind (query_statement rend c collection_limit plan (template_new next_sentinel next_dynamic_marker))
       (\<lambda>(query, t).
     let compact = rend query; formatted = fmt compact in
     rbind (finalize_sql_template formatted t) (\<lambda>sql.
     case sql of
       None \<Rightarrow> Inr (Inl t)
     | Some sql \<Rightarrow>
         rbind (finalize_sql_template compact t) (\<lambda>compact_sql.
         case compact_sql of
           None \<Rightarrow> Inr (Inl t)
         | Some compact_sql \<Rightarrow>
             Inr (Inr \<lparr>gs_operation_name = operation_name, gs_sql = sql,
                       gs_compact_sql = compact_sql, gs_parameters = tp_parameters t,
                       gs_policy_context = tp_policy_context t, gs_variants = tp_variants t,
                       gs_dynamic_sites = tp_dynamic_sites t\<rparr>))))"

partial_function (option) generate_loop ::
  "(select \<Rightarrow> string) \<Rightarrow> (string \<Rightarrow> string) \<Rightarrow> string \<Rightarrow> query_plan \<Rightarrow> catalog \<Rightarrow> nat option \<Rightarrow> nat \<Rightarrow> nat
   \<Rightarrow> (sql_generation_error + generated_sql) option" where
  "generate_loop rend fmt operation_name plan c collection_limit next_sentinel next_dynamic_marker =
     (case generate_attempt rend fmt operation_name plan c collection_limit next_sentinel next_dynamic_marker of
        Inl e \<Rightarrow> Some (Inl e)
      | Inr (Inr g) \<Rightarrow> Some (Inr g)
      | Inr (Inl t) \<Rightarrow>
          generate_loop rend fmt operation_name plan c collection_limit
            (tp_next_sentinel t) (tp_next_dynamic_marker t))"

definition generate_postgres_sql_with_options ::
  "(select \<Rightarrow> string) \<Rightarrow> (string \<Rightarrow> string) \<Rightarrow> string \<Rightarrow> query_plan \<Rightarrow> catalog \<Rightarrow> nat option
   \<Rightarrow> (sql_generation_error + generated_sql) option" where
  "generate_postgres_sql_with_options rend fmt operation_name plan c collection_limit =
     generate_loop rend fmt operation_name plan c collection_limit first_numeric_sentinel 0"

end
