(* ===== verification/Sql_Accounting.thy ===== *)
theory Sql_Accounting
  imports Sql_Generate
begin

text \<open>
  What generation does to the template, proved once for every step of the generator. A pair
  of a relation \<open>R\<close> between templates and a set \<open>E\<close> of errors that every allocation keeps is
  kept by the rendering of filters, of collections and of whole statements
  (\<open>template_steps\<close>). The interpretations give the accounting: a template only grows, its
  parameters, sentinels and markers stay distinct, and no type walk runs for ever on an
  acyclic catalog.
\<close>

section \<open>Steps that keep a relation\<close>

definition keeps :: "(sql_template \<Rightarrow> sql_template \<Rightarrow> bool) \<Rightarrow> (sql_generation_error \<Rightarrow> bool) \<Rightarrow> 'a gen \<Rightarrow> bool" where
  "keeps R E m \<longleftrightarrow> (\<forall>t. case m t of Inr (x, t') \<Rightarrow> R t t' | Inl e \<Rightarrow> E e)"

lemma keeps_Inr: "keeps R E m \<Longrightarrow> m t = Inr (x, t') \<Longrightarrow> R t t'"
  by (auto simp: keeps_def split: sum.splits)

lemma keeps_Inl: "keeps R E m \<Longrightarrow> m t = Inl e \<Longrightarrow> E e"
  by (auto simp: keeps_def split: sum.splits)

lemma keepsI:
  "(\<And>t x t'. m t = Inr (x, t') \<Longrightarrow> R t t') \<Longrightarrow> (\<And>t e. m t = Inl e \<Longrightarrow> E e) \<Longrightarrow> keeps R E m"
  by (auto simp: keeps_def split: sum.splits)

named_theorems gen_steps

locale template_steps =
  fixes R :: "sql_template \<Rightarrow> sql_template \<Rightarrow> bool"
    and E :: "sql_generation_error \<Rightarrow> bool"
  assumes step_refl: "R t t"
    and step_trans: "R t u \<Longrightarrow> R u v \<Longrightarrow> R t v"
    and errors: "e \<noteq> NeverReturns \<Longrightarrow> E e"
    and parameter_step: "parameter p t = Inr (s, t') \<Longrightarrow> R t t'"
    and require_step: "require_policy_context rs t = Inr (ru, t') \<Longrightarrow> R t t'"
    and variant_step: "variant_with_null path cases nt t = Inr (s, t') \<Longrightarrow> R t t'"
    and replacement_step: "push_replacement nr t = Inr (pu, t') \<Longrightarrow> R t t'"
    and sentinel_step: "numeric_sentinel r t = Inr (n, t') \<Longrightarrow> R t t'"
    and site_step: "dynamic_site path kind identity site_fields mk t = Inr (s, t') \<Longrightarrow> R t t'"
begin

lemma gret_keeps [gen_steps]: "keeps R E (gret x)"
  by (simp add: keeps_def gret_def step_refl)

lemma gfail_keeps [gen_steps]: "e \<noteq> NeverReturns \<Longrightarrow> keeps R E (gfail e)"
  by (simp add: keeps_def gfail_def errors)

lemma if_keeps [gen_steps]:
  "(b \<Longrightarrow> keeps R E m) \<Longrightarrow> (\<not> b \<Longrightarrow> keeps R E m') \<Longrightarrow> keeps R E (if b then m else m')"
  by simp

lemma case_option_keeps [gen_steps]:
  "(x = None \<Longrightarrow> keeps R E m) \<Longrightarrow> (\<And>y. x = Some y \<Longrightarrow> keeps R E (f y))
   \<Longrightarrow> keeps R E (case x of None \<Rightarrow> m | Some y \<Rightarrow> f y)"
  by (cases x) auto

lemma glift_keeps: "(\<And>e. r = Inl e \<Longrightarrow> E e) \<Longrightarrow> keeps R E (glift r)"
  by (cases r) (auto simp: keeps_def glift_def step_refl)

lemma gbind_keeps [gen_steps]:
  assumes m: "keeps R E m" and f: "\<And>x. keeps R E (f x)"
  shows "keeps R E (gbind m f)"
proof (rule keepsI)
  fix t y t'
  assume "gbind m f t = Inr (y, t')"
  then obtain x u where "m t = Inr (x, u)" "f x u = Inr (y, t')" by (auto simp: gbind_Inr_iff)
  with keeps_Inr[OF m] keeps_Inr[OF f] show "R t t'" by (blast intro: step_trans)
next
  fix t e
  assume "gbind m f t = Inl e"
  then consider "m t = Inl e" | x u where "m t = Inr (x, u)" "f x u = Inl e"
    by (auto simp: gbind_def rbind_def split: sum.splits)
  then show "E e" by cases (use keeps_Inl[OF m] keeps_Inl[OF f] in blast)+
qed

lemma gmapM_keeps [gen_steps]:
  "(\<And>x. x \<in> set xs \<Longrightarrow> keeps R E (f x)) \<Longrightarrow> keeps R E (gmapM f xs)"
  by (induction xs) (auto intro!: gen_steps)

lemma goption_keeps [gen_steps]:
  "(\<And>y. x = Some y \<Longrightarrow> keeps R E (f y)) \<Longrightarrow> keeps R E (goption f x)"
  by (cases x) (auto intro!: gen_steps)

lemma gfold_keeps [gen_steps]:
  "(\<And>s x. x \<in> set xs \<Longrightarrow> keeps R E (f s x)) \<Longrightarrow> keeps R E (gfold f s xs)"
  by (induction xs arbitrary: s) (auto intro!: gen_steps)

lemma table_keeps [gen_steps]: "keeps R E (glift (sql_table c i))"
  by (rule glift_keeps) (auto simp: sql_table_def ok_or_def errors split: option.splits)

lemma column_keeps [gen_steps]: "keeps R E (glift (sql_column c i))"
  by (rule glift_keeps) (auto simp: sql_column_def ok_or_def errors split: option.splits)

lemma relation_keeps [gen_steps]: "keeps R E (glift (sql_relation c i))"
  by (rule glift_keeps) (auto simp: sql_relation_def ok_or_def errors split: option.splits)

lemma relation_condition_error:
  "relation_condition c parent child r = Inl e \<Longrightarrow> e \<noteq> NeverReturns"
proof -
  have "collect_results (\<lambda>(p, q). rbind (sql_column c q) (\<lambda>qc. rbind (sql_column c p) (\<lambda>pc.
      Inr (XBin SbEq (XCol (sc_table_alias child) (col_name qc))
              (XCol (sc_table_alias parent) (col_name pc)))))) xs = Inl e \<Longrightarrow> e \<noteq> NeverReturns" for xs
    by (induction xs)
      (auto simp: rbind_def sql_column_def ok_or_def split: sum.splits option.splits)
  then show "relation_condition c parent child r = Inl e \<Longrightarrow> e \<noteq> NeverReturns"
    by (simp add: relation_condition_def)
qed

lemma relation_condition_keeps [gen_steps]:
  "keeps R E (glift (relation_condition c parent child r))"
  by (rule glift_keeps) (auto dest: relation_condition_error errors)

lemma parameter_keeps [gen_steps]: "keeps R E (parameter p)"
  by (rule keepsI, erule parameter_step)
     (auto simp: parameter_def Let_def split: option.splits)

lemma require_keeps [gen_steps]: "keeps R E (require_policy_context rs)"
  by (rule keepsI, erule require_step)
     (auto simp: require_policy_context_def)

lemma variant_keeps [gen_steps]: "keeps R E (variant path cases)"
  unfolding variant_def by (rule keepsI, erule variant_step)
     (auto simp: variant_with_null_def Let_def)

lemma nullable_keeps [gen_steps]: "keeps R E (nullable_variant path cases)"
  unfolding nullable_variant_def
  by (rule keepsI, erule variant_step)
     (auto simp: variant_with_null_def Let_def)

lemma replacement_keeps [gen_steps]: "keeps R E (push_replacement r)"
  by (rule keepsI, erule replacement_step)
     (auto simp: push_replacement_def)

lemma sentinel_keeps [gen_steps]: "keeps R E (numeric_sentinel r)"
  by (rule keepsI, erule sentinel_step)
     (auto simp: numeric_sentinel_def checked_succ_def rbind_def errors split: if_splits)

lemma site_keeps [gen_steps]: "keeps R E (dynamic_site path kind identity fs mk)"
  by (rule keepsI, erule site_step)
     (auto simp: dynamic_site_def checked_succ_def rbind_def Let_def errors split: if_splits)

lemma allocation_keeps [gen_steps]:
  "keeps R E (replace_order_direction table_alias col path cases)"
  "keeps R E (numeric_parameter_sentinel p)"
  "keeps R E (guarded_numeric_parameter_sentinel p guard)"
  "keeps R E (numeric_literal_sentinel literal)"
  "keeps R E (literal_value_expr l)"
  unfolding replace_order_direction_def numeric_parameter_sentinel_def
    guarded_numeric_parameter_sentinel_def numeric_literal_sentinel_def literal_value_expr_def Let_def
  by (auto intro!: gen_steps split: filter_literal.splits option.splits)

lemma masked_column_with_keeps:
  "(\<And>pf. pf \<in> set (rv_field_filters view) \<Longrightarrow> keeps R E (rp (rv_context view) pf))
   \<Longrightarrow> keeps R E (masked_column_with rp c view i)"
  unfolding masked_column_with_def by (auto intro!: gen_steps split: option.splits)

lemma aggregate_value_with_keeps:
  "(\<And>pf. pf \<in> set (rv_field_filters view) \<Longrightarrow> keeps R E (rp (rv_context view) pf))
   \<Longrightarrow> keeps R E (aggregate_value_with rp c f operand view)"
  unfolding aggregate_value_with_def Let_def
  by (auto intro!: gen_steps masked_column_with_keeps glift_keeps
      simp: rbind_def ok_or_def errors split: option.splits aggregate_function.splits sum.splits)

lemma null_test_with_keeps:
  assumes "(\<And>cs i. f \<noteq> FColumn cs i) \<Longrightarrow> keeps R E fe"
    and "\<And>cs i pf. f = FColumn cs i \<Longrightarrow> pf \<in> set (rv_field_filters (filter_column_source scope cs)) \<Longrightarrow>
      keeps R E (rp (rv_context (filter_column_source scope cs)) pf)"
  shows "keeps R E (null_test_with rp fe c scope f negated)"
  unfolding null_test_with_def Let_def
  by (auto intro!: gen_steps assms split: filter_expr.splits option.splits)

lemma dynamic_fields_with_keeps:
  assumes "\<And>pf. pf \<in> set (rv_field_filters view) \<Longrightarrow> keeps R E (rp (rv_context view) pf)"
  shows "keeps R E (dynamic_field_with rend rp c view i)"
    and "keeps R E (dynamic_predicate_fields_with rend rp c view fs)"
proof -
  show *: "keeps R E (dynamic_field_with rend rp c view i)" for i
    unfolding dynamic_field_with_def
    by (auto intro!: gen_steps masked_column_with_keeps assms glift_keeps
        simp: ok_or_def errors split: option.splits)
  show "keeps R E (dynamic_predicate_fields_with rend rp c view fs)"
    unfolding dynamic_predicate_fields_with_def by (auto intro!: gen_steps *)
qed

lemma join_relation_with_keeps:
  "(\<And>pf. pf \<in> set (rv_field_filters source) \<Longrightarrow> keeps R E (rp (rv_context source) pf))
   \<Longrightarrow> keeps R E (join_relation_with rp c source ctx r)"
  unfolding join_relation_with_def by (auto intro!: gen_steps)

lemma comparison_keeps [gen_steps]: "keeps R E (glift (comparison_binary op))"
  by (rule glift_keeps) (cases op; auto simp: errors)

lemmas with_steps = masked_column_with_keeps aggregate_value_with_keeps null_test_with_keeps
  dynamic_fields_with_keeps join_relation_with_keeps

lemma filter_keeps:
  shows "keeps R E (filter_expr rend c scope f)"
    and "keeps R E (conditional_filter_expr rend c scope f)"
    and "keeps R E (filter_value_expr rend c scope f)"
  apply (induction rend c scope f and rend c scope f and rend c scope f
      rule: filter_expr_conditional_filter_expr_filter_value_expr.induct)
                      apply (subst filter_expr.simps, (auto intro!: gen_steps)[1])
                      apply (subst conditional_filter_expr.simps, (auto intro!: gen_steps simp: Let_def)[1])+
  apply (subst filter_value_expr.simps, (unfold Let_def)?, (intro gen_steps with_steps; simp; fail)[1])+
  done

lemma policy_keeps [gen_steps]: "keeps R E (render_policy_field_filter rend c ctx pf)"
  unfolding render_policy_field_filter_def by (auto intro!: gen_steps filter_keeps)

lemma value_keeps [gen_steps]:
  "keeps R E (masked_column_expression rend c view i)"
  "keeps R E (aggregate_value_expression rend c f operand view)"
  "keeps R E (generated_dynamic_order_fields rend c view fs)"
  unfolding masked_column_expression_def aggregate_value_expression_def
    generated_dynamic_order_fields_def dynamic_field_expression_def
  by (intro gen_steps with_steps)+

lemma public_keeps:
  assumes "E NeverReturns \<or> (\<forall>i. value_shape_for_type c i \<noteq> None)"
  shows "keeps R E (glift (public_catalog_expression e c t))"
    and "keeps R E (glift (public_column_expression e c i))"
    and "keeps R E (glift (public_aggregate_expression e c field))"
proof -
  have *: "E err" if "public_catalog_expression e c t = Inl err" for t err
  proof -
    have "err = NeverReturns \<and> value_shape_for_type c (ty_id t) = None"
      using that
      by (auto simp: public_catalog_expression_def split: option.splits catalog_value_shape.splits if_splits)
    with assms show ?thesis by metis
  qed
  then show "keeps R E (glift (public_catalog_expression e c t))"
    by (rule glift_keeps)
  show "keeps R E (glift (public_column_expression e c i))"
    by (rule glift_keeps) (auto simp: public_column_expression_def * split: option.splits)
  show "keeps R E (glift (public_aggregate_expression e c field))"
    by (rule glift_keeps) (auto simp: public_aggregate_expression_def * split: option.splits)
qed

lemma clause_keeps [gen_steps]:
  "keeps R E (direction_variant path cases nullable)"
  "keeps R E (limit_calls clauses limit_override)"
  "keeps R E (offset_calls clauses)"
  "keeps R E (source_relation_filter rend c g)"
  "keeps R E (source_policy_filter rend c coll ctx)"
  "keeps R E (source_query_filter rend c coll g view)"
  unfolding direction_variant_def limit_calls_def offset_calls_def source_relation_filter_def
    source_policy_filter_def source_query_filter_def
  by (auto intro!: gen_steps filter_keeps split: option.splits sql_value.splits)

lemma condition_keeps [gen_steps]: "keeps R E (glift (source_relation_condition c g ctx))"
  by (rule glift_keeps)
     (auto simp: source_relation_condition_def rbind_def errors dest!: relation_condition_error
       split: option.splits sum.splits)

lemma order_by_keeps [gen_steps]: "keeps R E (order_by_calls rend c view order)"
  unfolding order_by_calls_def
  by (auto intro!: gen_steps split: order_by_plan.splits sort_direction_plan.splits)

lemma source_keeps [gen_steps]:
  "keeps R E (apply_order_limit_offset rend c view clauses limit_override)"
  "keeps R E (rows_source rend c coll g t view condition filter_e)"
  "keeps R E (aggregate_source rend c coll g t view)"
  unfolding rows_source_def limited_source_query_def aggregate_source_def apply_order_limit_offset_def
  by (auto intro!: gen_steps)

lemma json_agg_keeps [gen_steps]: "keeps R E (ordered_json_agg rend object clauses c view)"
proof -
  have "keeps R E (json_agg_order rend c view st order)" for st order
    unfolding json_agg_order_def
    by (auto intro!: gen_steps split: order_by_plan.splits sort_direction_plan.splits)
  then show ?thesis
    unfolding ordered_json_agg_def by (auto intro!: gen_steps)
qed

lemma rows_result_keeps [gen_steps]: "keeps R E (rows_result rend c coll g view fs)"
  unfolding rows_result_def by (auto intro!: gen_steps split: selection_cardinality.splits)

lemma aggregate_keeps:
  assumes c: "E NeverReturns \<or> (\<forall>i. value_shape_for_type c i \<noteq> None)"
  shows "keeps R E (generate_aggregate rend c coll aggregate output_name path g)"
proof -
  have fields: "keeps R E (aggregate_fields rend c view fs)" for view fs
    unfolding aggregate_fields_def by (intro gen_steps public_keeps c)
  have keys: "keeps R E (group_key_calls rend c view key)" for view key
    unfolding group_key_calls_def by (intro gen_steps public_keeps c)
  have grouped: "keeps R E (generate_grouped_aggregate rend grouped aggregate c view a)" for grouped view a
    unfolding generate_grouped_aggregate_def Let_def by (intro gen_steps fields keys)
  show ?thesis
    unfolding generate_aggregate_def Let_def by (intro gen_steps fields grouped)
qed

lemma selection_fields_keeps:
  assumes c: "E NeverReturns \<or> (\<forall>i. value_shape_for_type c i \<noteq> None)"
  shows "keeps R E (selection_field_expressions rend selection c view path)"
proof -
  have "keeps R E (selection_field rend selection c view path item)" for item
    unfolding selection_field_def Let_def
    by (cases item) (auto intro!: gen_steps public_keeps[OF c] split: selection_plan_item.splits)
  then show ?thesis unfolding selection_field_expressions_def by (intro gen_steps)
qed

lemma relation_join_with_keeps:
  "(\<And>r p ctx. snd item = ItemRelation r \<Longrightarrow> keeps R E (child r p ctx))
   \<Longrightarrow> keeps R E (relation_join_with child c selection path g view root_view item)"
  unfolding relation_join_with_def Let_def
  by (cases item) (auto intro!: gen_steps split: selection_plan_item.splits)

lemma collection_keeps:
  assumes c: "E NeverReturns \<or> (\<forall>i. value_shape_for_type c i \<noteq> None)"
  shows "keeps R E (generate_collection rend c coll output_name path g)"
  using c
proof (induction rend c coll output_name path g rule: generate_collection.induct)
  case (1 rend c coll output_name path g)
  show ?case
  proof (cases "cp_result coll")
    case (ResultAggregate aggregate)
    then show ?thesis
      by (simp add: generate_collection.simps[of rend c coll] aggregate_keeps[OF "1.prems"])
  next
    case (ResultRows selection)
    have child: "keeps R E (generate_collection rend c (nr_collection r) (nr_output_name r) p ctx)"
      if "item \<in> set (enumerate 0 selection)" "snd item = ItemRelation r" for item r p ctx
      by (rule "1.IH"[OF ResultRows refl refl refl that "1.prems"])
    show ?thesis
      unfolding generate_collection.simps[of rend c coll] ResultRows collection_result_plan.case Let_def
      by (intro gen_steps selection_fields_keeps[OF "1.prems"] relation_join_with_keeps child)
  qed
qed

lemma statement_keeps:
  assumes c: "E NeverReturns \<or> (\<forall>i. value_shape_for_type c i \<noteq> None)"
  shows "keeps R E (query_statement rend c collection_limit plan)"
proof -
  have root: "keeps R E (generate_root_query rend c collection_limit root)" for root
    unfolding generate_root_query_def Let_def by (intro gen_steps collection_keeps c)
  have combine: "keeps R E (glift (combine_root_queries roots))" for roots
    by (rule glift_keeps) (auto simp: combine_root_queries_def errors split: if_splits)
  show ?thesis
    unfolding query_statement_def
    by (rule gbind_keeps, rule gmapM_keeps, rule root)
       (auto intro!: gen_steps combine split: list.splits prod.splits)
qed

end

section \<open>Templates only grow\<close>

definition template_grows :: "sql_template \<Rightarrow> sql_template \<Rightarrow> bool" where
  "template_grows t t' \<longleftrightarrow>
     prefix (tp_parameters t) (tp_parameters t') \<and> prefix (tp_policy_context t) (tp_policy_context t')
     \<and> prefix (tp_variants t) (tp_variants t') \<and> prefix (tp_replacements t) (tp_replacements t')
     \<and> prefix (tp_numeric_replacements t) (tp_numeric_replacements t')
     \<and> prefix (tp_dynamic_markers t) (tp_dynamic_markers t')
     \<and> prefix (tp_dynamic_sites t) (tp_dynamic_sites t')
     \<and> tp_next_sentinel t \<le> tp_next_sentinel t' \<and> tp_next_dynamic_marker t \<le> tp_next_dynamic_marker t'"

definition add_requirements :: "policy_context_requirement list \<Rightarrow> policy_context_requirement list \<Rightarrow> policy_context_requirement list" where
  "add_requirements = foldl (\<lambda>ctx r. if r \<in> set ctx then ctx else ctx @ [r])"

lemma add_requirements_prefix: "prefix ctx (add_requirements ctx rs)"
  unfolding add_requirements_def
proof (induction rs arbitrary: ctx)
  case (Cons r rs)
  from Cons.IH[of ctx] Cons.IH[of "ctx @ [r]"] show ?case by (auto dest: append_prefixD)
qed simp

lemma add_requirements_distinct: "distinct ctx \<Longrightarrow> distinct (add_requirements ctx rs)"
  unfolding add_requirements_def by (induction rs arbitrary: ctx) auto

lemma add_requirements_set: "set (add_requirements ctx rs) = set ctx \<union> set rs"
  unfolding add_requirements_def by (induction rs arbitrary: ctx) auto

lemma require_policy_context_add:
  "require_policy_context rs t = Inr ((), t\<lparr>tp_policy_context := add_requirements (tp_policy_context t) rs\<rparr>)"
  by (simp add: require_policy_context_def add_requirements_def)

lemmas allocation_defs = parameter_def require_policy_context_add variant_with_null_def push_replacement_def
  numeric_sentinel_def dynamic_site_def checked_succ_def rbind_def Let_def

interpretation growth: template_steps template_grows "\<lambda>_. True"
  by unfold_locales
     (auto simp: template_grows_def allocation_defs add_requirements_prefix intro: prefix_order.trans
       split: option.splits if_splits)

section \<open>Distinct parameters, sentinels and markers\<close>

definition internal_marker :: "nat \<Rightarrow> string" where
  "internal_marker n = ''__dsql_dynamic_'' @ dec_string n @ ''__''"

definition public_marker :: "nat \<Rightarrow> string" where
  "public_marker n = ''{{dynamic:'' @ dec_string n @ ''}}''"

lemma marker_inject [simp]:
  "internal_marker m = internal_marker n \<longleftrightarrow> m = n"
  "public_marker m = public_marker n \<longleftrightarrow> m = n"
  by (simp_all add: internal_marker_def public_marker_def)

text \<open>
  The invariant of a template created with the sentinel \<open>lo\<close> and the marker number \<open>lom\<close>:
  \<open>ns\<close> are the sentinels of numeric replacements and \<open>ms\<close> those of dynamic markers.
\<close>

definition sentinels_wf :: "nat \<Rightarrow> sql_template \<Rightarrow> nat list \<Rightarrow> nat list \<Rightarrow> bool" where
  "sentinels_wf lo t ns ms \<longleftrightarrow>
     map fst (tp_numeric_replacements t) = map dec_string ns
     \<and> map dm_internal (tp_dynamic_markers t) = map internal_marker ms
     \<and> distinct (ns @ ms) \<and> (\<forall>n \<in> set (ns @ ms). lo \<le> n \<and> n < tp_next_sentinel t)
     \<and> lo \<le> tp_next_sentinel t \<and> tp_next_sentinel t \<le> u64_max"

definition sentinels_ok :: "nat \<Rightarrow> sql_template \<Rightarrow> bool" where
  "sentinels_ok lo t \<longleftrightarrow> (\<exists>ns ms. sentinels_wf lo t ns ms)"

definition template_wf :: "nat \<Rightarrow> nat \<Rightarrow> sql_template \<Rightarrow> bool" where
  "template_wf lo lom t \<longleftrightarrow>
     distinct (map gp_path (tp_parameters t)) \<and> distinct (map gv_path (tp_variants t))
     \<and> distinct (tp_policy_context t) \<and> sentinels_ok lo t
     \<and> map gds_marker (tp_dynamic_sites t) = map public_marker [lom ..< tp_next_dynamic_marker t]
     \<and> map dm_public (tp_dynamic_markers t) = map gds_marker (tp_dynamic_sites t)
     \<and> lom \<le> tp_next_dynamic_marker t"

lemma template_new_wf: "lo \<le> u64_max \<Longrightarrow> template_wf lo lom (template_new lo lom)"
  by (auto simp: template_wf_def sentinels_ok_def sentinels_wf_def template_new_def)

lemma sentinels_frame [simp]:
  "sentinels_ok lo (t\<lparr>tp_parameters := a\<rparr>) = sentinels_ok lo t"
  "sentinels_ok lo (t\<lparr>tp_policy_context := b\<rparr>) = sentinels_ok lo t"
  "sentinels_ok lo (t\<lparr>tp_variants := d\<rparr>) = sentinels_ok lo t"
  "sentinels_ok lo (t\<lparr>tp_replacements := e\<rparr>) = sentinels_ok lo t"
  "sentinels_ok lo (t\<lparr>tp_dynamic_sites := f\<rparr>) = sentinels_ok lo t"
  "sentinels_ok lo (t\<lparr>tp_next_dynamic_marker := g\<rparr>) = sentinels_ok lo t"
  by (simp_all add: sentinels_ok_def sentinels_wf_def fun_eq_iff)

lemma position_None: "position P xs = None \<longleftrightarrow> (\<forall>x \<in> set xs. \<not> P x)"
  by (induction xs) auto

lemma parameter_wf: "template_wf lo lom t \<Longrightarrow> parameter p t = Inr (s, t') \<Longrightarrow> template_wf lo lom t'"
  by (force simp: template_wf_def parameter_def Let_def position_None split: option.splits)

lemma require_wf:
  "template_wf lo lom t \<Longrightarrow> require_policy_context rs t = Inr (u, t') \<Longrightarrow> template_wf lo lom t'"
  by (auto simp: template_wf_def require_policy_context_add add_requirements_distinct)

lemma variant_wf:
  "template_wf lo lom t \<Longrightarrow> variant_with_null path cases nt t = Inr (s, t') \<Longrightarrow> template_wf lo lom t'"
  by (auto simp: template_wf_def variant_with_null_def Let_def list_ex_iff split: if_splits)

lemma replacement_wf:
  "template_wf lo lom t \<Longrightarrow> push_replacement r t = Inr (u, t') \<Longrightarrow> template_wf lo lom t'"
  by (auto simp: template_wf_def push_replacement_def)

lemma sentinel_wf:
  assumes "template_wf lo lom t" and "numeric_sentinel r t = Inr (n, t')"
  shows "template_wf lo lom t'"
proof -
  from assms(1) obtain ns ms where "sentinels_wf lo t ns ms" by (auto simp: template_wf_def sentinels_ok_def)
  with assms(2) have "sentinels_wf lo t' (ns @ [n]) ms"
    by (auto simp: sentinels_wf_def numeric_sentinel_def checked_succ_def rbind_def less_Suc_eq
        split: if_splits)
  then have "sentinels_ok lo t'" by (auto simp: sentinels_ok_def)
  with assms show ?thesis
    by (auto simp: template_wf_def numeric_sentinel_def checked_succ_def rbind_def split: if_splits)
qed

lemma site_wf:
  assumes "template_wf lo lom t" and "dynamic_site path kind identity fs mk t = Inr (s, t')"
  shows "template_wf lo lom t'"
proof -
  from assms(1) obtain ns ms where "sentinels_wf lo t ns ms" by (auto simp: template_wf_def sentinels_ok_def)
  with assms(2) have "sentinels_wf lo t' ns (ms @ [tp_next_sentinel t])"
    by (auto simp: sentinels_wf_def dynamic_site_def checked_succ_def rbind_def less_Suc_eq Let_def
        internal_marker_def split: if_splits)
  then have "sentinels_ok lo t'" by (auto simp: sentinels_ok_def)
  with assms show ?thesis
    by (auto simp: template_wf_def dynamic_site_def checked_succ_def rbind_def Let_def public_marker_def
        split: if_splits)
qed

interpretation wf: template_steps "\<lambda>t t'. template_wf lo lom t \<longrightarrow> template_wf lo lom t'" "\<lambda>_. True" for lo lom
  by unfold_locales
     (blast intro: parameter_wf require_wf variant_wf replacement_wf sentinel_wf site_wf)+

interpretation returning: template_steps "\<lambda>_ _. True" "\<lambda>e. e \<noteq> NeverReturns"
  by unfold_locales auto

end
