(* ===== verification/Sql_Filter_Correct.thy ===== *)
theory Sql_Filter_Correct
  imports Sql_Accounting
begin

text \<open>
  What a rendered filter means. A predicate whose optional input is absent disappears from the
  filter instead of being true or false: \<open>predicate_of\<close> renders the atoms of a filter and keeps
  its boolean structure, \<open>predicate_meaning\<close> gives the structure its meaning with absent
  predicates dropped, and the SQL the generator writes is shown to have that meaning in
  three-valued logic. The second part is about columns hidden by a field policy.
\<close>

section \<open>The reference\<close>

datatype predicate =
    PAtom sql_expr
  | PAbsent
  | PGiven string predicate
  | PNot predicate
  | PAnd predicate predicate
  | POr predicate predicate

text \<open>The structure of a filter over its rendered atoms, rendered in the generator's order.\<close>

fun predicate_of :: "(select \<Rightarrow> string) \<Rightarrow> catalog \<Rightarrow> filter_sql_scope \<Rightarrow> filter_expr \<Rightarrow> predicate gen" where
  "predicate_of rend c scope FAbsent = gret PAbsent"
| "predicate_of rend c scope (FOptional p operand) =
     gbind (predicate_of rend c scope operand) (\<lambda>q.
     gbind (parameter p) (\<lambda>placeholder. gret (PGiven placeholder q)))"
| "predicate_of rend c scope (FNot operand) =
     gbind (predicate_of rend c scope operand) (\<lambda>q. gret (PNot q))"
| "predicate_of rend c scope (FBinary left FopAnd right) =
     gbind (predicate_of rend c scope left) (\<lambda>l.
     gbind (predicate_of rend c scope right) (\<lambda>r. gret (PAnd l r)))"
| "predicate_of rend c scope (FBinary left FopOr right) =
     gbind (predicate_of rend c scope left) (\<lambda>l.
     gbind (predicate_of rend c scope right) (\<lambda>r. gret (POr l r)))"
| "predicate_of rend c scope f = gbind (filter_value_expr rend c scope f) (\<lambda>e. gret (PAtom e))"

text \<open>\<open>None\<close> is a predicate that is absent.\<close>

fun merge_present :: "(tv \<Rightarrow> tv \<Rightarrow> tv) \<Rightarrow> tv option \<Rightarrow> tv option \<Rightarrow> tv option" where
  "merge_present op None y = y"
| "merge_present op x None = x"
| "merge_present op (Some a) (Some b) = Some (op a b)"

fun predicate_meaning :: "(sql_expr \<Rightarrow> tv) \<Rightarrow> (string \<Rightarrow> bool) \<Rightarrow> predicate \<Rightarrow> tv option" where
  "predicate_meaning mean given (PAtom e) = Some (mean e)"
| "predicate_meaning mean given PAbsent = None"
| "predicate_meaning mean given (PGiven placeholder q) =
     (if given placeholder then predicate_meaning mean given q else None)"
| "predicate_meaning mean given (PNot q) = map_option not3 (predicate_meaning mean given q)"
| "predicate_meaning mean given (PAnd l r) =
     merge_present and3 (predicate_meaning mean given l) (predicate_meaning mean given r)"
| "predicate_meaning mean given (POr l r) =
     merge_present or3 (predicate_meaning mean given l) (predicate_meaning mean given r)"

text \<open>A filter that is absent as a whole lets every row pass.\<close>

definition admitted :: "tv option \<Rightarrow> tv" where
  "admitted m = (case m of Some v \<Rightarrow> v | None \<Rightarrow> Some True)"

section \<open>The lowering\<close>

fun lower :: "predicate \<Rightarrow> conditional_filter" where
  "lower (PAtom e) = \<lparr>cf_present = None, cf_value = e\<rparr>"
| "lower PAbsent = \<lparr>cf_present = Some (XCust ''FALSE''), cf_value = XCust ''TRUE''\<rparr>"
| "lower (PGiven placeholder q) =
     (let guard = XCust (placeholder @ is_not_null_text) in
      \<lparr>cf_present = Some (case cf_present (lower q) of
                          Some present \<Rightarrow> x_and guard present | None \<Rightarrow> guard),
       cf_value = cf_value (lower q)\<rparr>)"
| "lower (PNot q) = \<lparr>cf_present = cf_present (lower q), cf_value = not_expr (cf_value (lower q))\<rparr>"
| "lower (PAnd l r) = combine_conditional (lower l) True (lower r)"
| "lower (POr l r) = combine_conditional (lower l) False (lower r)"

lemma gbind_gret [simp]: "gbind (gret x) f = f x"
  by (simp add: gbind_def gret_def)

lemma gbind_assoc: "gbind (gbind m f) g = gbind m (\<lambda>x. gbind (f x) g)"
  by (auto simp: gbind_def rbind_def split: sum.splits)

lemma conditional_filter_lower:
  "conditional_filter_expr rend c scope f = gbind (predicate_of rend c scope f) (\<lambda>q. gret (lower q))"
proof (induction rend c scope f rule: predicate_of.induct)
qed (simp_all add: conditional_filter_expr.simps gbind_assoc Let_def)

context sql_logic
begin

text \<open>A conditional filter means what its predicate means.\<close>

definition conveys :: "conditional_filter \<Rightarrow> tv option \<Rightarrow> bool" where
  "conveys r m \<longleftrightarrow>
     (case cf_present r of
        None \<Rightarrow> m = Some (mean (cf_value r))
      | Some present \<Rightarrow>
          mean present = Some True \<and> m = Some (mean (cf_value r))
          \<or> mean present = Some False \<and> m = None)"

lemmas guarded_simps = mean_value_or_absent[of _ True, simplified] mean_value_or_absent[of _ False, simplified]
  mean_value_if_present[of _ True, simplified] mean_value_if_present[of _ False, simplified]

lemma conveys_cases:
  assumes "conveys r m"
  obtains "cf_present r = None" "m = Some (mean (cf_value r))"
  | present where "cf_present r = Some present" "mean present = Some True" "m = Some (mean (cf_value r))"
  | present where "cf_present r = Some present" "mean present = Some False" "m = None"
  using assms by (auto simp: conveys_def split: option.splits)

lemma combine_conveys:
  assumes "conveys l a" and "conveys r b"
  shows "conveys (combine_conditional l is_and r) (merge_present (if is_and then and3 else or3) a b)"
  using assms(1)
proof (cases rule: conveys_cases)
  case 1
  note left = this
  from assms(2) show ?thesis
    by (cases rule: conveys_cases; cases is_and)
       (simp_all add: left conveys_def combine_conditional_def Let_def mean_and mean_or
         guarded_simps)
next
  case (2 lp)
  note left = this
  from assms(2) show ?thesis
    by (cases rule: conveys_cases; cases is_and)
       (simp_all add: left conveys_def combine_conditional_def Let_def mean_and mean_or
         guarded_simps)
next
  case (3 lp)
  note left = this
  from assms(2) show ?thesis
    by (cases rule: conveys_cases; cases is_and)
       (simp_all add: left conveys_def combine_conditional_def Let_def mean_and mean_or
         guarded_simps)
qed

lemma lower_conveys: "conveys (lower q) (predicate_meaning mean given q)"
proof (induction q)
  case (PGiven placeholder q)
  then show ?case
    by (cases rule: conveys_cases; cases "given placeholder")
       (simp_all add: conveys_def Let_def mean_given mean_and)
next
  case (PNot q)
  then show ?case by (cases rule: conveys_cases) (simp_all add: conveys_def mean_not)
next
  case (PAnd l r)
  from combine_conveys[OF this, of True] show ?case by simp
next
  case (POr l r)
  from combine_conveys[OF this, of False] show ?case by simp
qed (simp_all add: conveys_def mean_false)

lemma settle_conveys: "conveys r m \<Longrightarrow> mean (settle r) = admitted m"
  by (auto simp: conveys_def settle_def admitted_def guarded_simps split: option.splits)

lemma settle_lower: "mean (settle (lower q)) = admitted (predicate_meaning mean given q)"
  by (rule settle_conveys[OF lower_conveys])

end

definition map_gen :: "('a \<Rightarrow> 'b) \<Rightarrow> 'a gen \<Rightarrow> 'b gen" where
  "map_gen f m = gbind m (\<lambda>x. gret (f x))"

text \<open>
  C8: the SQL of a filter means, in three-valued logic and under every assignment of nulls to
  the placeholders, the filter with its absent predicates removed: an absent operand of a
  conjunction or disjunction leaves the other operand, a negation of an absent predicate is
  absent, and a filter that is absent as a whole admits every row. Rendering fails, and
  allocates, exactly as rendering the atoms in order does.
\<close>

theorem filter_expr_prunes_absent:
  "map_gen (holds I nonnull) (filter_expr rend c scope f) =
   map_gen (\<lambda>q. admitted (predicate_meaning (holds I nonnull) nonnull q)) (predicate_of rend c scope f)"
  by (simp add: map_gen_def filter_expr.simps conditional_filter_lower gbind_assoc
      eval_logic.settle_lower)

section \<open>Hidden columns\<close>

lemma and3_true_iff: "and3 a b = Some True \<longleftrightarrow> a = Some True \<and> b = Some True"
  by (simp add: and3_def)

lemma masked_column_expression_hidden:
  assumes "masked_column_expression rend c view i t = Inr (e, t')"
    and "policy_field_filter_for (rv_field_filters view) (TargetColumn i) = Some pf"
  obtains guard col where "column_by_id c i = Some col"
    "render_policy_field_filter rend c (rv_context view) pf t = Inr (guard, t')"
    "e = XCase guard (raw_column view col) XNull"
  using assms
  by (auto simp: masked_column_expression_def masked_column_with_def gbind_Inr_iff sql_column_def
      ok_or_def split: option.splits)

text \<open>
  C15: a column with a field policy is read through it everywhere: the expression has the
  column's value on the rows whose policy holds and is null on all others, those where the
  policy is unknown included.
\<close>

theorem masked_column_reads_through_policy:
  assumes "masked_column_expression rend c view i t = Inr (e, t')"
    and "policy_field_filter_for (rv_field_filters view) (TargetColumn i) = Some pf"
  shows "\<exists>guard col. column_by_id c i = Some col \<and>
    render_policy_field_filter rend c (rv_context view) pf t = Inr (guard, t') \<and>
    (\<forall>I nonnull. eval I nonnull e =
       (if holds I nonnull guard = Some True then eval I nonnull (raw_column view col) else VNull))"
proof -
  from masked_column_expression_hidden[OF assms] obtain guard col where
    "column_by_id c i = Some col"
    "render_policy_field_filter rend c (rv_context view) pf t = Inr (guard, t')"
    "e = XCase guard (raw_column view col) XNull" by blast
  then show ?thesis by (intro exI[of _ guard] exI[of _ col]) (simp add: holds_def)
qed

lemma null_test_expr_guarded:
  assumes "null_test_expr rend c scope (FColumn cs i) negated t = Inr (e, t')"
    and "policy_field_filter_for (rv_field_filters (filter_column_source scope cs)) (TargetColumn i) = Some pf"
  shows "\<exists>guard.
    render_policy_field_filter rend c (rv_context (filter_column_source scope cs)) pf t = Inr (guard, t') \<and>
    (\<forall>(I :: sql_expr \<Rightarrow> 'v sqlv) nonnull.
       holds I nonnull guard \<noteq> Some True \<longrightarrow> holds I nonnull e \<noteq> Some True)"
proof -
  from assms obtain guard test where g:
    "render_policy_field_filter rend c (rv_context (filter_column_source scope cs)) pf t = Inr (guard, t')"
    "e = x_and guard test"
    by (auto simp: null_test_expr_def null_test_with_def gbind_Inr_iff Let_def)
  have "holds I nonnull e = and3 (holds I nonnull guard) (holds I nonnull test)"
    for I :: "sql_expr \<Rightarrow> 'v sqlv" and nonnull
    unfolding g(2) by (rule eval_logic.mean_and)
  with g(1) show ?thesis by (simp add: and3_true_iff)
qed

text \<open>The null tests a query can write on a column with an operator that is fixed.\<close>

inductive written_null_test :: "filter_column_scope \<Rightarrow> column_id \<Rightarrow> filter_expr \<Rightarrow> bool" for cs i where
  is_null: "written_null_test cs i (FNullTest (FColumn cs i) negated)"
| equals_null: "op = FopEq \<or> op = FopNe \<Longrightarrow> written_null_test cs i (FBinary (FColumn cs i) op (FLiteral FlNull))"
| null_equals: "op = FopEq \<or> op = FopNe \<Longrightarrow> written_null_test cs i (FBinary (FLiteral FlNull) op (FColumn cs i))"

lemma atom_rendered:
  assumes "conditional_filter_expr rend c scope f =
    gbind (filter_value_expr rend c scope f) (\<lambda>value. gret \<lparr>cf_present = None, cf_value = value\<rparr>)"
  shows "filter_expr rend c scope f = filter_value_expr rend c scope f"
  unfolding filter_expr.simps assms gbind_assoc gbind_gret
  by (simp add: settle_def) (simp add: gbind_def gret_def rbind_def fun_eq_iff split: sum.split)

lemma policy_renderer:
  "(\<lambda>ctx pf. gbind (require_policy_context (pf_context pf)) (\<lambda>_.
      filter_expr rend c (raw_scope ctx) (pf_filter pf))) = render_policy_field_filter rend c"
  unfolding render_policy_field_filter_def by (rule refl)

lemma written_null_test_rendered:
  assumes "written_null_test cs i f"
  shows "\<exists>negated. filter_expr rend c scope f = null_test_expr rend c scope (FColumn cs i) negated"
  using assms
proof cases
  case (is_null negated)
  have "conditional_filter_expr rend c scope f =
      gbind (filter_value_expr rend c scope f) (\<lambda>value. gret \<lparr>cf_present = None, cf_value = value\<rparr>)"
    unfolding is_null by (simp only: conditional_filter_expr.simps)
  from atom_rendered[OF this] show ?thesis
    unfolding is_null filter_value_expr.simps policy_renderer null_test_expr_def[symmetric] by blast
next
  case (equals_null op)
  have "conditional_filter_expr rend c scope f =
      gbind (filter_value_expr rend c scope f) (\<lambda>value. gret \<lparr>cf_present = None, cf_value = value\<rparr>)"
    unfolding equals_null(1) using equals_null(2)
    by (auto simp only: conditional_filter_expr.simps filter_op.distinct if_False simp_thms)
  moreover have "null_comparison_operand (FColumn cs i) (FLiteral FlNull) = Some (FColumn cs i)"
    by (simp add: null_comparison_operand_def)
  ultimately show ?thesis
    using atom_rendered[of rend c scope f] equals_null(2)
    unfolding equals_null(1) filter_value_expr.simps policy_renderer null_test_expr_def[symmetric] by auto
next
  case (null_equals op)
  have "conditional_filter_expr rend c scope f =
      gbind (filter_value_expr rend c scope f) (\<lambda>value. gret \<lparr>cf_present = None, cf_value = value\<rparr>)"
    unfolding null_equals(1) using null_equals(2)
    by (auto simp only: conditional_filter_expr.simps filter_op.distinct if_False simp_thms)
  moreover have "null_comparison_operand (FLiteral FlNull) (FColumn cs i) = Some (FColumn cs i)"
    by (simp add: null_comparison_operand_def)
  ultimately show ?thesis
    using atom_rendered[of rend c scope f] null_equals(2)
    unfolding null_equals(1) filter_value_expr.simps policy_renderer null_test_expr_def[symmetric] by auto
qed

text \<open>
  C16: a null test a query writes on a column with a field policy requires the policy: on a row
  whose policy does not hold none of \<open>is null\<close>, \<open>is not null\<close>, \<open>== null\<close> and \<open>!= null\<close> is true, so
  the test cannot tell a hidden value from a null one. Tests whose operator is an input are not
  among them.
\<close>

theorem null_test_requires_policy:
  assumes "filter_expr rend c scope f t = Inr (e, t')" and "written_null_test cs i f"
    and "policy_field_filter_for (rv_field_filters (filter_column_source scope cs)) (TargetColumn i) = Some pf"
  shows "\<exists>guard.
    render_policy_field_filter rend c (rv_context (filter_column_source scope cs)) pf t = Inr (guard, t') \<and>
    (\<forall>(I :: sql_expr \<Rightarrow> 'v sqlv) nonnull.
       holds I nonnull guard \<noteq> Some True \<longrightarrow> holds I nonnull e \<noteq> Some True)"
proof -
  obtain negated where "filter_expr rend c scope f = null_test_expr rend c scope (FColumn cs i) negated"
    using written_null_test_rendered[OF assms(2)] by blast
  with assms(1) have "null_test_expr rend c scope (FColumn cs i) negated t = Inr (e, t')" by simp
  from null_test_expr_guarded[OF this assms(3)] show ?thesis .
qed

text \<open>
  A comparison with null whose operator is an input is not guarded: its operand is the masked
  column, which is null on every row whose policy does not hold.
\<close>

lemma variant_null_test_masked:
  assumes "filter_value_expr rend c scope (FVariantBinary (FColumn cs i) path variants (FLiteral FlNull)) t
      = Inr (e, t')"
    and "policy_field_filter_for (rv_field_filters (filter_column_source scope cs)) (TargetColumn i) = Some pf"
  shows "\<exists>operator guard col. e = XCustWith (''$1 '' @ operator @ '' null'')
    [XCase guard (raw_column (filter_column_source scope cs) col) XNull]"
proof -
  have column: "filter_expr rend c scope (FColumn cs i)
      = masked_column_with (render_policy_field_filter rend c) c (filter_column_source scope cs) i"
  proof -
    have "filter_expr rend c scope (FColumn cs i) = filter_value_expr rend c scope (FColumn cs i)"
      by (rule atom_rendered) (simp only: conditional_filter_expr.simps)
    then show ?thesis by (simp only: filter_value_expr.simps policy_renderer)
  qed
  have "null_comparison_operand (FColumn cs i) (FLiteral FlNull) = Some (FColumn cs i)"
    by (simp add: null_comparison_operand_def)
  with assms(1) obtain operator u x where e: "e = XCustWith (''$1 '' @ operator @ '' null'') [x]"
    and "filter_expr rend c scope (FColumn cs i) u = Inr (x, t')"
    unfolding filter_value_expr.simps by (auto simp: gbind_Inr_iff)
  then have "masked_column_expression rend c (filter_column_source scope cs) i u = Inr (x, t')"
    by (simp only: column masked_column_expression_def)
  from masked_column_expression_hidden[OF this assms(2)] e show ?thesis by blast
qed

text \<open>
  C27: the dynamic operator \<open>is_null\<close> does not: its text tests the masked expression, which is
  null, and so the test is true, on every row whose policy does not hold.
\<close>

theorem dynamic_null_test_matches_hidden:
  assumes "generated_dynamic_predicate_fields rend c view [f] t = Inr (site_fields, t')"
    and "policy_field_filter_for (rv_field_filters view) (TargetColumn (dif_column f)) = Some pf"
    and "DpoIsNull \<in> set (dif_operators f)"
  shows "\<exists>e guard sql operator.
    render_policy_field_filter rend c (rv_context view) pf t = Inr (guard, t') \<and>
    strip_prefix (rend [QExpr e]) ''SELECT '' = Some sql \<and>
    operator \<in> set (gdf_operators (hd site_fields)) \<and> gdo_name operator = DpoIsNull \<and>
    \<lparr>vc_value = ''true'', vc_text = ''('' @ sql @ '') IS NULL''\<rparr> \<in> set (gdo_cases operator) \<and>
    (\<forall>I nonnull. holds I nonnull guard \<noteq> Some True \<longrightarrow>
       holds I nonnull (XCustWith ''$1 IS NULL'' [e]) = Some True)"
proof -
  from assms(1) obtain sql where "dynamic_field_expression rend c view (dif_column f) t = Inr (sql, t')"
    and sf: "site_fields = [\<lparr>gdf_key = dif_key f, gdf_data_type = dif_data_type f,
      gdf_operators = map (dynamic_operator sql (text_cast_target c (dif_column f))) (dif_operators f),
      gdf_directions = []\<rparr>]"
    by (auto simp: generated_dynamic_predicate_fields_def dynamic_predicate_fields_with_def
        dynamic_field_expression_def gbind_Inr_iff)
  then obtain e where e: "masked_column_expression rend c view (dif_column f) t = Inr (e, t')"
    "strip_prefix (rend [QExpr e]) ''SELECT '' = Some sql"
    by (auto simp: dynamic_field_expression_def dynamic_field_with_def masked_column_expression_def
        gbind_Inr_iff ok_or_def split: option.splits)
  from masked_column_expression_hidden[OF e(1) assms(2)] obtain guard col where g:
    "render_policy_field_filter rend c (rv_context view) pf t = Inr (guard, t')"
    "e = XCase guard (raw_column view col) XNull" by blast
  let ?op = "dynamic_operator sql (text_cast_target c (dif_column f)) DpoIsNull"
  have "\<forall>I nonnull. holds I nonnull guard \<noteq> Some True \<longrightarrow>
       holds I nonnull (XCustWith ''$1 IS NULL'' [e]) = Some True"
    by (simp add: g(2) holds_def)
  moreover have "?op \<in> set (gdf_operators (hd site_fields))"
    unfolding sf list.sel set_map generated_dynamic_site_field.select_convs by (rule imageI[OF assms(3)])
  ultimately show ?thesis
    using g(1) e(2) by (intro exI[of _ e] exI[of _ guard] exI[of _ sql] exI[of _ ?op]) simp
qed

end
