(* ===== verification/Sql_Generate_Correct.thy ===== *)
theory Sql_Generate_Correct
  imports Sql_Filter_Correct
begin

text \<open>
  Properties of generated statements: the retry loop ends, parameters and dynamic sites are
  distinct and stay where they were allocated, every collection is read through its row policy
  and the field policy of its relation, and a collection limit bounds every collection. The
  instances are in \<open>Sql_Witnesses\<close>.
\<close>

section \<open>The retry loop\<close>

lemma finalize_None:
  assumes "finalize_sql_template sql t = Inr None"
  shows "tp_dynamic_markers t \<noteq> [] \<or> tp_numeric_replacements t \<noteq> []"
  using assms
  by (cases "tp_dynamic_markers t"; cases "tp_numeric_replacements t")
     (auto simp: finalize_sql_template_def replace_dynamic_markers_def replace_numeric_sentinels_def
       replace_ranges_def)

lemma attempt_retry:
  assumes "generate_attempt rend fmt name plan c limit lo lom = Inr (Inl t)"
  obtains q sql where "query_statement rend c limit plan (template_new lo lom) = Inr (q, t)"
    "finalize_sql_template sql t = Inr None"
  using assms
  by (auto simp: generate_attempt_def rbind_Inr_iff Let_def split: option.splits)

lemma statement_wf:
  assumes "query_statement rend c limit plan (template_new lo lom) = Inr (q, t)" and "lo \<le> u64_max"
  shows "template_wf lo lom t"
  using keeps_Inr[OF wf.statement_keeps assms(1)] template_new_wf[OF assms(2)] by blast

text \<open>A retry starts from strictly greater sentinels, which \<open>u64\<close> bounds.\<close>

lemma retry_progress:
  assumes "generate_attempt rend fmt name plan c limit lo lom = Inr (Inl t)" and "lo \<le> u64_max"
  shows "lo < tp_next_sentinel t \<and> tp_next_sentinel t \<le> u64_max"
proof -
  from attempt_retry[OF assms(1)] obtain q sql where
    q: "query_statement rend c limit plan (template_new lo lom) = Inr (q, t)"
    and none: "finalize_sql_template sql t = Inr None" .
  from statement_wf[OF q assms(2)] obtain ns ms where wf: "sentinels_wf lo t ns ms"
    by (auto simp: template_wf_def sentinels_ok_def)
  then have "ns @ ms \<noteq> []"
    using finalize_None[OF none] by (auto simp: sentinels_wf_def)
  then obtain n where "n \<in> set (ns @ ms)" by (metis last_in_set)
  with wf show ?thesis by (force simp: sentinels_wf_def)
qed

lemma generate_loop_returns:
  "lo \<le> u64_max \<Longrightarrow> \<exists>r. generate_loop rend fmt name plan c limit lo lom = Some r"
proof (induction "u64_max - lo" arbitrary: lo lom rule: less_induct)
  case less
  show ?case
  proof (cases "generate_attempt rend fmt name plan c limit lo lom")
    case (Inr r)
    show ?thesis
    proof (cases r)
      case (Inl t)
      from retry_progress[OF Inr[unfolded Inl] less.prems] less.hyps[of "tp_next_sentinel t"]
      have "\<exists>r. generate_loop rend fmt name plan c limit (tp_next_sentinel t) (tp_next_dynamic_marker t) = Some r"
        by (meson diff_less_mono2 less_le_trans)
      then show ?thesis by (subst generate_loop.simps) (simp add: Inr Inl)
    qed (subst generate_loop.simps, simp add: Inr)
  qed (subst generate_loop.simps, simp)
qed

text \<open>The last pass of the loop.\<close>

lemma generate_loop_last:
  assumes "generate_loop rend fmt name plan c limit lo lom = Some r" and "lo \<le> u64_max"
  shows "\<exists>lo' lom'. lo' \<le> u64_max \<and>
    generate_attempt rend fmt name plan c limit lo' lom' = map_sum id Inr r"
  using assms
proof (induction "u64_max - lo" arbitrary: lo lom rule: less_induct)
  case less
  show ?case
  proof (cases "\<exists>t. generate_attempt rend fmt name plan c limit lo lom = Inr (Inl t)")
    case True
    then obtain t where t: "generate_attempt rend fmt name plan c limit lo lom = Inr (Inl t)" ..
    with less.prems(1) have "generate_loop rend fmt name plan c limit (tp_next_sentinel t)
        (tp_next_dynamic_marker t) = Some r"
      by (subst (asm) generate_loop.simps) simp
    with retry_progress[OF t less.prems(2)] less.hyps[of "tp_next_sentinel t"] show ?thesis
      by (meson diff_less_mono2 less_le_trans)
  next
    case False
    with less.prems(1) have "generate_attempt rend fmt name plan c limit lo lom = map_sum id Inr r"
      by (subst (asm) generate_loop.simps) (auto split: sum.splits)
    with less.prems(2) show ?thesis by blast
  qed
qed

lemma first_sentinel_u64: "first_numeric_sentinel \<le> u64_max"
  by (simp add: first_numeric_sentinel_def u64_max_def)

lemma catalog_walks_return:
  assumes "catalog_wf c"
  shows "value_shape_for_type c i \<noteq> None"
proof (cases "i < length (cat_types c)")
  case True
  with assms show ?thesis using value_shape_returns[of c i] by (auto simp: catalog_wf_def types_wf_def)
qed (simp add: value_shape_for_type_def get_at_def)

text \<open>
  C19: generation returns. For every plan and every renderer and formatter, colliding sentinels
  are retried with strictly greater ones until the rendering is unambiguous or the range of
  \<open>u64\<close> is exhausted; and on a well-formed catalog no walk of the type graph runs for ever
  either.
\<close>

theorem generate_postgres_sql_returns:
  assumes "catalog_wf c"
  shows "\<exists>r. generate_postgres_sql_with_options rend fmt name plan c limit = Some r \<and> r \<noteq> Inl NeverReturns"
proof -
  from generate_loop_returns[OF first_sentinel_u64] obtain r where
    r: "generate_loop rend fmt name plan c limit first_numeric_sentinel 0 = Some r" by blast
  from generate_loop_last[OF r first_sentinel_u64] obtain lo lom where
    last: "generate_attempt rend fmt name plan c limit lo lom = map_sum id Inr r" by blast
  have "query_statement rend c limit plan t \<noteq> Inl NeverReturns" for t
    using keeps_Inl[OF returning.statement_keeps] catalog_walks_return[OF assms] by blast
  moreover have "finalize_sql_template sql t \<noteq> Inl NeverReturns" for sql t
  proof -
    have "marker_end sql m i \<noteq> Inl NeverReturns" for m i
      by (auto simp: marker_end_def Let_def split: dynamic_marker_kind.splits)
    then have "marker_ranges sql ms \<noteq> Inl NeverReturns" for ms
      by (induction ms) (auto simp: rbind_def split: option.splits sum.splits)
    then show ?thesis
      by (auto simp: finalize_sql_template_def replace_dynamic_markers_def rbind_def
          split: sum.splits option.splits)
  qed
  ultimately have "generate_attempt rend fmt name plan c limit lo lom \<noteq> Inl NeverReturns"
    by (auto simp: generate_attempt_def rbind_def Let_def split: sum.splits option.splits prod.splits)
  with last have "r \<noteq> Inl NeverReturns" by auto
  with r show ?thesis by (simp add: generate_postgres_sql_with_options_def)
qed

section \<open>Accounting\<close>

text \<open>
  C20: a generated statement names every parameter path once, so the index of a placeholder is
  the position of its path in the parameter list; every operator variant once; every policy
  context requirement once; and no two dynamic sites share a marker.
\<close>

theorem generated_sql_accounting:
  assumes "generate_postgres_sql_with_options rend fmt name plan c limit = Some (Inr g)"
  shows "distinct (map gp_path (gs_parameters g)) \<and> distinct (map gv_path (gs_variants g)) \<and>
    distinct (gs_policy_context g) \<and> distinct (map gds_marker (gs_dynamic_sites g))"
proof -
  from generate_loop_last[OF assms[unfolded generate_postgres_sql_with_options_def] first_sentinel_u64]
  obtain lo lom where lo: "lo \<le> u64_max"
    and "generate_attempt rend fmt name plan c limit lo lom = Inr (Inr g)" by auto
  then obtain q t where q: "query_statement rend c limit plan (template_new lo lom) = Inr (q, t)"
    and g: "gs_parameters g = tp_parameters t" "gs_variants g = tp_variants t"
      "gs_policy_context g = tp_policy_context t" "gs_dynamic_sites g = tp_dynamic_sites t"
    by (auto simp: generate_attempt_def rbind_Inr_iff Let_def split: option.splits)
  have "inj_on public_marker S" for S by (simp add: inj_on_def)
  with statement_wf[OF q lo] show ?thesis
    unfolding g by (auto simp: template_wf_def distinct_map)
qed

text \<open>
  A placeholder keeps its meaning: whatever collection is generated after a parameter was
  bound, the placeholder returned for it still is \<open>$i\<close>, cast as the parameter asks, for the
  position \<open>i\<close> of the parameter's path.
\<close>

theorem parameter_placeholder_stable:
  assumes "parameter p t = Inr (placeholder, t1)"
    and "generate_collection rend c coll name path g t1 = Inr (q, t2)"
  shows "\<exists>i < length (tp_parameters t2). gp_path (tp_parameters t2 ! i) = sp_path p \<and>
    placeholder = cast_placeholder p (placeholder_text i)"
proof -
  have "prefix (tp_parameters t1) (tp_parameters t2)"
    using keeps_Inr[OF growth.collection_keeps assms(2)] by (simp add: template_grows_def)
  then obtain rest where rest: "tp_parameters t2 = tp_parameters t1 @ rest" by (auto elim: prefixE)
  have "\<exists>i < length (tp_parameters t1). gp_path (tp_parameters t1 ! i) = sp_path p \<and>
      placeholder = cast_placeholder p (placeholder_text i)"
  proof (cases "position (\<lambda>c. gp_path c = sp_path p) (tp_parameters t)")
    case None
    with assms(1) show ?thesis
      by (intro exI[of _ "length (tp_parameters t)"])
         (auto simp: parameter_def Let_def placeholder_text_def)
  next
    case (Some i)
    with assms(1) position_Some[OF Some] show ?thesis
      by (intro exI[of _ i]) (auto simp: parameter_def)
  qed
  then show ?thesis unfolding rest by (metis (no_types) length_append nth_append trans_less_add1)
qed

section \<open>The conditions of a collection's source\<close>

definition opt_true :: "(sql_expr \<Rightarrow> 'v sqlv) \<Rightarrow> (string \<Rightarrow> bool) \<Rightarrow> sql_expr option \<Rightarrow> bool" where
  "opt_true I nonnull e = (case e of None \<Rightarrow> True | Some x \<Rightarrow> holds I nonnull x = Some True)"

definition where_true :: "(sql_expr \<Rightarrow> 'v sqlv) \<Rightarrow> (string \<Rightarrow> bool) \<Rightarrow> select \<Rightarrow> bool" where
  "where_true I nonnull calls \<longleftrightarrow> (\<forall>e. QAndWhere e \<in> set calls \<longrightarrow> holds I nonnull e = Some True)"

definition join_conditions :: "select \<Rightarrow> sql_expr list set" where
  "join_conditions calls = {cs. QCondWhere cs \<in> set calls}"

text \<open>The statement that selects a collection's rows: the inner one where there is a subquery.\<close>

definition source_calls :: "select \<Rightarrow> select" where
  "source_calls q = (case q of QFromSubquery inner _ # _ \<Rightarrow> inner | _ \<Rightarrow> q)"

definition filters_nothing :: "sql_call \<Rightarrow> bool" where
  "filters_nothing call = (case call of QAndWhere _ \<Rightarrow> False | QCondWhere _ \<Rightarrow> False | _ \<Rightarrow> True)"

lemma where_append [simp]:
  "where_true I nonnull (xs @ ys) \<longleftrightarrow> where_true I nonnull xs \<and> where_true I nonnull ys"
  "join_conditions (xs @ ys) = join_conditions xs \<union> join_conditions ys"
  by (auto simp: where_true_def join_conditions_def)

lemma where_and_where [simp]:
  "where_true I nonnull (and_where e) = opt_true I nonnull e" "join_conditions (and_where e) = {}"
  by (auto simp: where_true_def join_conditions_def and_where_def opt_true_def split: option.splits)

lemma where_cond_where [simp]:
  "where_true I nonnull (cond_where e)" "join_conditions (cond_where e) = set_option e"
  by (auto simp: where_true_def join_conditions_def cond_where_def split: option.splits)

lemma where_filters_nothing:
  assumes "list_all filters_nothing calls"
  shows "where_true I nonnull calls" "join_conditions calls = {}"
  using assms by (auto simp: where_true_def join_conditions_def list_all_iff filters_nothing_def)

lemma where_from [simp]:
  "where_true I nonnull (from_table t ctx # calls) = where_true I nonnull calls"
  "join_conditions (from_table t ctx # calls) = join_conditions calls"
  "where_true I nonnull (QColumnAsterisk # calls) = where_true I nonnull calls"
  "join_conditions (QColumnAsterisk # calls) = join_conditions calls"
  by (auto simp: where_true_def join_conditions_def from_table_def)

lemma source_calls_from [simp]:
  "source_calls (from_table t ctx # calls) = from_table t ctx # calls"
  "source_calls (QFromSubquery inner a # calls) = inner"
  by (simp_all add: source_calls_def from_table_def)

lemma opt_true_combine [simp]:
  "opt_true I nonnull (combine_filters l r) \<longleftrightarrow> opt_true I nonnull l \<and> opt_true I nonnull r"
  by (auto simp: opt_true_def combine_filters_def eval_logic.mean_and and3_true_iff split: option.splits)

lemma gmapM_all:
  assumes "gmapM f xs t = Inr (ys, t')"
    and "\<And>x t y t'. x \<in> set xs \<Longrightarrow> f x t = Inr (y, t') \<Longrightarrow> P y"
  shows "list_all P ys"
  using assms
proof (induction xs arbitrary: t ys)
  case (Cons x xs)
  from Cons.prems(1) obtain y u ys' where "f x t = Inr (y, u)" "gmapM f xs u = Inr (ys', t')" "ys = y # ys'"
    by (auto simp: gbind_Inr_iff)
  with Cons.IH[of u ys'] Cons.prems(2) show ?case by (metis list.pred_inject(2) list.set_intros)
qed simp

lemma list_all_concat: "list_all (list_all P) xss \<Longrightarrow> list_all P (concat xss)"
  by (auto simp: list_all_iff)

lemma order_limit_offset_filters_nothing:
  assumes "apply_order_limit_offset rend c view clauses limit t = Inr (calls, t')"
  shows "list_all filters_nothing calls"
proof -
  have order: "list_all filters_nothing calls" if "order_by_calls rend c view order t = Inr (calls, t')"
    for order t calls t'
    using that
    by (auto simp: order_by_calls_def gbind_Inr_iff filters_nothing_def order_variant_calls_def
        split: order_by_plan.splits sort_direction_plan.splits if_splits)
  from assms show ?thesis
    by (auto simp: apply_order_limit_offset_def gbind_Inr_iff limit_calls_def offset_calls_def
        filters_nothing_def intro!: list_all_concat elim!: gmapM_all order
        split: option.splits sql_value.splits)
qed

lemma rows_source_conditions:
  assumes "rows_source rend c coll g tb view condition e t = Inr (source, t')"
    and "list_all filters_nothing rest"
  shows "where_true I nonnull (source_calls (source @ rest)) = opt_true I nonnull e \<and>
    join_conditions (source_calls (source @ rest)) = set_option condition"
  using assms where_filters_nothing[OF assms(2)]
  by (auto simp: rows_source_def limited_source_query_def gbind_Inr_iff
      where_filters_nothing[OF order_limit_offset_filters_nothing] split: if_splits)

lemma joins_filter_nothing:
  assumes "gmapM (relation_join_with child c selection path g view root_view) items t = Inr (joins, t')"
  shows "list_all filters_nothing (concat joins)"
  using assms
  by (auto intro!: list_all_concat elim!: gmapM_all
      simp: relation_join_with_def gbind_Inr_iff Let_def filters_nothing_def
      split: prod.splits selection_plan_item.splits)

lemma export_filters_nothing [simp]: "list_all filters_nothing (export_calls encode fs)"
  by (auto simp: export_calls_def list_all_iff filters_nothing_def)

lemma rows_result_filters_nothing:
  "rows_result rend c coll g view fs t = Inr (calls, t') \<Longrightarrow> list_all filters_nothing calls"
  by (auto simp: rows_result_def gbind_Inr_iff filters_nothing_def split: if_splits)

lemma aggregate_statement:
  assumes "generate_aggregate rend c coll aggregate name path g t = Inr (q, t')"
  shows "\<exists>tb source t4 rest. table_by_id c (cp_table coll) = Some tb \<and>
    aggregate_source rend c coll g tb (readable_view (context_for tb name path) (cp_field_filters coll)) t
      = Inr (source, t4) \<and>
    source_calls q = source @ rest \<and> list_all filters_nothing rest"
proof -
  from assms obtain tb source t4 where tb: "table_by_id c (cp_table coll) = Some tb"
    and source: "aggregate_source rend c coll g tb
        (readable_view (context_for tb name path) (cp_field_filters coll)) t = Inr (source, t4)"
    and q: "(if ag_mode aggregate = Grouped then
       generate_grouped_aggregate rend source aggregate c
         (readable_view (context_for tb name path) (cp_field_filters coll)) (gc_public_result_alias g)
     else
       gbind (aggregate_fields rend c (readable_view (context_for tb name path) (cp_field_filters coll))
                (ag_fields aggregate)) (\<lambda>fs.
       gret (source @
         (if gc_flattened g then export_calls (gc_parent g = None) fs
          else [QExprAs (json_build_object fs) (result_alias g (context_for tb name path))])))) t4
       = Inr (q, t')"
    by (auto simp: generate_aggregate_def gbind_Inr_iff sql_table_def ok_or_def Let_def
        split: option.splits)
  from source have from_first: "source_calls (source @ rest) = source @ rest" for rest
    by (auto simp: aggregate_source_def gbind_Inr_iff)
  show ?thesis
  proof (cases "ag_mode aggregate = Grouped")
    case True
    with q obtain keys fs t5 where keys: "gmapM (group_key_calls rend c
        (readable_view (context_for tb name path) (cp_field_filters coll))) (ag_group_keys aggregate) t4
        = Inr (keys, t5)"
      and sq: "source_calls q = source @ (concat keys @ map (\<lambda>(name, e). QExprAs e name) fs)"
      by (auto simp: generate_grouped_aggregate_def gbind_Inr_iff Let_def)
    have "list_all filters_nothing (concat keys)"
      using keys by (auto intro!: list_all_concat elim!: gmapM_all
          simp: group_key_calls_def gbind_Inr_iff filters_nothing_def)
    moreover have "list_all filters_nothing (map (\<lambda>(name, e). QExprAs e name) fs)"
      by (auto simp: list_all_iff filters_nothing_def)
    ultimately show ?thesis
      using tb source sq
      by (intro exI[of _ tb] exI[of _ source] exI[of _ t4]
          exI[of _ "concat keys @ map (\<lambda>(name, e). QExprAs e name) fs"]) simp
  next
    case False
    with q obtain rest where "q = source @ rest" "list_all filters_nothing rest"
      by (auto simp: gbind_Inr_iff filters_nothing_def split: if_splits)
    with tb source from_first[of rest] show ?thesis
      by (intro exI[of _ tb] exI[of _ source] exI[of _ t4] exI[of _ rest]) simp
  qed
qed

text \<open>
  C1: a collection, of rows or aggregated, at the root or nested, selects exactly the rows that
  are joined with the parent row by the relation's columns and satisfy the field policy of the
  relation, the row policy of the table and the filter of the query: the source of the
  generated statement has no other condition and misses none of these. The policies are
  rendered over raw rows.
\<close>

theorem collection_applies_filters:
  assumes "generate_collection rend c coll name path g t = Inr (q, t')"
  shows "\<exists>tb condition relation_filter policy_filter query_filter t1 t2 t3.
    table_by_id c (cp_table coll) = Some tb \<and>
    source_relation_condition c g (context_for tb name path) = Inr condition \<and>
    source_relation_filter rend c g t = Inr (relation_filter, t1) \<and>
    source_policy_filter rend c coll (context_for tb name path) t1 = Inr (policy_filter, t2) \<and>
    source_query_filter rend c coll g (readable_view (context_for tb name path) (cp_field_filters coll)) t2
      = Inr (query_filter, t3) \<and>
    join_conditions (source_calls q) = set_option condition \<and>
    (\<forall>(I :: sql_expr \<Rightarrow> 'v sqlv) nonnull. where_true I nonnull (source_calls q) \<longleftrightarrow>
       opt_true I nonnull relation_filter \<and> opt_true I nonnull policy_filter \<and>
       opt_true I nonnull query_filter)"
proof (cases "cp_result coll")
  case (ResultRows selection)
  from assms obtain tb condition relation_filter policy_filter query_filter source joins fs result t1 t2 t3 t4 t5 t6 where
    *: "table_by_id c (cp_table coll) = Some tb"
      "source_relation_condition c g (context_for tb name path) = Inr condition"
      "source_relation_filter rend c g t = Inr (relation_filter, t1)"
      "source_policy_filter rend c coll (context_for tb name path) t1 = Inr (policy_filter, t2)"
      "source_query_filter rend c coll g (readable_view (context_for tb name path) (cp_field_filters coll)) t2
        = Inr (query_filter, t3)"
    and source: "rows_source rend c coll g tb (readable_view (context_for tb name path) (cp_field_filters coll))
        condition (combine_filters (combine_filters relation_filter policy_filter) query_filter) t3
        = Inr (source, t4)"
    and joins: "gmapM (relation_join_with
          (\<lambda>r. generate_collection rend c (nr_collection r) (nr_output_name r)) c selection path g
          (readable_view (context_for tb name path) (cp_field_filters coll))
          (case gc_root g of Some r \<Rightarrow> r
           | None \<Rightarrow> readable_view (context_for tb name path) (cp_field_filters coll)))
          (enumerate 0 selection) t4 = Inr (joins, t5)"
    and result: "rows_result rend c coll g (readable_view (context_for tb name path) (cp_field_filters coll))
        fs t6 = Inr (result, t')"
    and q: "q = source @ concat joins @ result"
    unfolding generate_collection.simps[of rend c coll] ResultRows collection_result_plan.case Let_def
    by (auto simp: gbind_Inr_iff sql_table_def ok_or_def split: option.splits)
  have "list_all filters_nothing (concat joins @ result)"
    using joins_filter_nothing[OF joins] rows_result_filters_nothing[OF result] by simp
  from rows_source_conditions[OF source this] * show ?thesis
    unfolding q by (intro exI conjI) auto
next
  case (ResultAggregate aggregate)
  with assms have "generate_aggregate rend c coll aggregate name path g t = Inr (q, t')"
    by (simp add: generate_collection.simps[of rend c coll])
  from aggregate_statement[OF this] obtain tb source t4 rest where tb: "table_by_id c (cp_table coll) = Some tb"
    and source: "aggregate_source rend c coll g tb
        (readable_view (context_for tb name path) (cp_field_filters coll)) t = Inr (source, t4)"
    and q: "source_calls q = source @ rest" "list_all filters_nothing rest" by blast
  from source tb show ?thesis
    unfolding q(1)
    by (auto simp: aggregate_source_def gbind_Inr_iff readable_view_def where_filters_nothing[OF q(2)])
qed

section \<open>Limits\<close>






text \<open>
  C26: a limit given by a parameter alone, with no offset, order or collection limit, is written
  on the statement that aggregates the rows, not on a subquery that selects them: the one
  output of the statement is the aggregate of the rows of the table, and the limit counts that
  one row.
\<close>

theorem parameter_limit_after_aggregation:
  assumes "generate_collection rend c coll name path g t = Inr (q, t')"
    and "cp_result coll = ResultRows selection"
    and "shape_cardinality (cp_shape coll) = CardCollection" and "\<not> gc_flattened g"
    and "gc_collection_limit g = None" and "cl_limit (cp_clauses coll) = Some (SqlParam p)"
    and "cl_offset (cp_clauses coll) = None" and "cl_order_by (cp_clauses coll) = []"
  shows "\<exists>tb n object a. table_by_id c (cp_table coll) = Some tb \<and>
    hd q = from_table tb (context_for tb name path) \<and> QLimit n \<in> set q \<and>
    {(e, b). QExprAs e b \<in> set q} =
      {(XFunc SfCoalesce [XFunc SfJsonAgg [object], XVal (SvString ''[]'')], a)}"
proof -
  let ?view = "\<lambda>tb. readable_view (context_for tb name path) (cp_field_filters coll)"
  from assms(1,2) obtain tb condition e source joins fs result t1 t2 t3 t4 where
    tb: "table_by_id c (cp_table coll) = Some tb"
    and source: "rows_source rend c coll g tb (?view tb) condition e t1 = Inr (source, t2)"
    and joins: "gmapM (relation_join_with
          (\<lambda>r. generate_collection rend c (nr_collection r) (nr_output_name r)) c selection path g
          (?view tb) (case gc_root g of Some r \<Rightarrow> r | None \<Rightarrow> ?view tb)) (enumerate 0 selection) t2
          = Inr (joins, t3)"
    and result: "rows_result rend c coll g (?view tb) fs t4 = Inr (result, t')"
    and q: "q = source @ concat joins @ result"
    unfolding generate_collection.simps[of rend c coll] assms(2) collection_result_plan.case Let_def
    by (auto simp: gbind_Inr_iff sql_table_def ok_or_def split: option.splits)
  have "\<not> should_use_source_subquery (cp_clauses coll) (gc_collection_limit g)"
    using assms(5-8) by (simp add: should_use_source_subquery_def effective_limit_def sql_value_u64_def)
  with source assms(6-8) obtain n where src: "source = from_table tb (context_for tb name path)
      # cond_where condition @ and_where e @ [QLimit n]"
    by (auto simp: rows_source_def apply_order_limit_offset_def limit_calls_def offset_calls_def
        gbind_Inr_iff readable_view_def)
  have res: "result = [QExprAs (XFunc SfCoalesce [XFunc SfJsonAgg [json_build_object fs], XVal (SvString ''[]'')])
      (result_alias g (context_for tb name path))]"
    using result assms(3,4,8)
    by (auto simp: rows_result_def ordered_json_agg_def gbind_Inr_iff readable_view_def)
  have "list_all (\<lambda>call. \<forall>e b. call \<noteq> QExprAs e b) (concat joins)"
    using joins
    by (auto intro!: list_all_concat elim!: gmapM_all simp: relation_join_with_def gbind_Inr_iff Let_def
        split: prod.splits selection_plan_item.splits)
  then have "{(e, b). QExprAs e b \<in> set (concat joins)} = {}" by (auto simp: list_all_iff)
  then have "{(e, b). QExprAs e b \<in> set q} =
      {(XFunc SfCoalesce [XFunc SfJsonAgg [json_build_object fs], XVal (SvString ''[]'')],
        result_alias g (context_for tb name path))}"
    by (auto simp: q src res from_table_def cond_where_def and_where_def split: option.splits)
  then show ?thesis
    using tb by (intro exI[of _ tb] exI[of _ n] exI[of _ "json_build_object fs"]
        exI[of _ "result_alias g (context_for tb name path)"]) (simp add: q src)
qed

section \<open>Output names\<close>

definition exported_names :: "select \<Rightarrow> string set" where
  "exported_names q = {a. \<exists>e. QExprAs e a \<in> set q}"

lemma exported_append [simp]: "exported_names (xs @ ys) = exported_names xs \<union> exported_names ys"
  by (auto simp: exported_names_def)

lemma exported_Nil [simp]: "exported_names [] = {}"
  by (simp add: exported_names_def)

lemma exported_export [simp]: "exported_names (export_calls encode fs) = fst ` set fs"
  by (force simp: exported_names_def export_calls_def)

definition exports_nothing :: "sql_call \<Rightarrow> bool" where
  "exports_nothing call = (case call of QExprAs _ _ \<Rightarrow> False | _ \<Rightarrow> True)"

lemma exported_nothing: "list_all exports_nothing calls \<Longrightarrow> exported_names calls = {}"
  by (auto simp: exported_names_def exports_nothing_def list_all_iff)

lemma clauses_export_nothing:
  assumes "apply_order_limit_offset rend c view clauses limit t = Inr (calls, t')"
  shows "list_all exports_nothing calls"
proof -
  have order: "list_all exports_nothing calls" if "order_by_calls rend c view order t = Inr (calls, t')"
    for order t calls t'
    using that
    by (auto simp: order_by_calls_def gbind_Inr_iff exports_nothing_def order_variant_calls_def
        split: order_by_plan.splits sort_direction_plan.splits if_splits)
  from assms show ?thesis
    by (auto simp: apply_order_limit_offset_def gbind_Inr_iff limit_calls_def offset_calls_def
        exports_nothing_def intro!: list_all_concat elim!: gmapM_all order
        split: option.splits sql_value.splits)
qed

lemma where_export_nothing [simp]:
  "list_all exports_nothing (cond_where condition)" "list_all exports_nothing (and_where e)"
  "exports_nothing (from_table tb ctx)"
  by (auto simp: exports_nothing_def cond_where_def and_where_def from_table_def split: option.splits)

lemma rows_source_exports_nothing:
  "rows_source rend c coll g tb view condition e t = Inr (source, t') \<Longrightarrow> list_all exports_nothing source"
  by (auto simp: rows_source_def gbind_Inr_iff exports_nothing_def[of "QFromSubquery _ _"]
      dest: clauses_export_nothing split: if_splits)

lemma selection_fields_names:
  assumes "selection_field_expressions rend selection c view path t = Inr (fs, t')"
  shows "map fst fs = concat (map item_output_names selection)"
proof -
  have field: "map fst fs = item_output_names item"
    if "selection_field rend selection c view path (i, item) t = Inr (fs, t')" for i item t fs t'
    using that
    by (cases item) (auto simp: selection_field_def gbind_Inr_iff Let_def comp_def)
  have "map fst (concat fss) = concat (map item_output_names (map snd items))"
    if "gmapM (selection_field rend selection c view path) items t = Inr (fss, t')" for items t fss t'
    using that
    by (induction items arbitrary: t fss) (auto simp: gbind_Inr_iff dest: field)
  from this[of "enumerate 0 selection"] assms show ?thesis
    by (auto simp: selection_field_expressions_def gbind_Inr_iff)
qed

lemma aggregate_fields_names:
  "aggregate_fields rend c view ps t = Inr (fs, t') \<Longrightarrow> map fst fs = map ap_output_name ps"
  unfolding aggregate_fields_def
  by (induction ps arbitrary: t fs) (auto simp: gbind_Inr_iff)

definition grouped_result :: "collection_result_plan \<Rightarrow> bool" where
  "grouped_result r = (case r of ResultAggregate a \<Rightarrow> ag_mode a = Grouped | ResultRows _ \<Rightarrow> False)"

lemma rows_result_exports:
  "rows_result rend c coll g view fs t = Inr (calls, t') \<Longrightarrow>
     exported_names calls = (if gc_flattened g then fst ` set fs else {result_alias g (rv_context view)})"
  by (auto simp: rows_result_def gbind_Inr_iff exported_names_def[of "[_]"] image_iff Bex_def split: if_splits)

lemma collection_exports:
  assumes gen: "generate_collection rend c coll name path g t = Inr (q, t')"
    and not_grouped: "gc_flattened g \<Longrightarrow> \<not> grouped_result (cp_result coll)"
  shows "\<exists>tb. table_by_id c (cp_table coll) = Some tb \<and> exported_names q =
    (if gc_flattened g then set (collect_collection_output_names (cp_result coll))
     else {result_alias g (context_for tb name path)})"
proof (cases "cp_result coll")
  case (ResultRows selection)
  let ?view = "\<lambda>tb. readable_view (context_for tb name path) (cp_field_filters coll)"
  from gen obtain tb condition e source joins fs result t1 t2 t3 t4 where
    tb: "table_by_id c (cp_table coll) = Some tb"
    and source: "rows_source rend c coll g tb (?view tb) condition e t1 = Inr (source, t2)"
    and joins: "gmapM (relation_join_with
          (\<lambda>r. generate_collection rend c (nr_collection r) (nr_output_name r)) c selection path g
          (?view tb) (case gc_root g of Some r \<Rightarrow> r | None \<Rightarrow> ?view tb)) (enumerate 0 selection) t2
          = Inr (joins, t3)"
    and fs: "selection_field_expressions rend selection c (?view tb) path t3 = Inr (fs, t4)"
    and result: "rows_result rend c coll g (?view tb) fs t4 = Inr (result, t')"
    and q: "q = source @ concat joins @ result"
    unfolding generate_collection.simps[of rend c coll] ResultRows collection_result_plan.case Let_def
    by (auto simp: gbind_Inr_iff sql_table_def ok_or_def split: option.splits)
  have "list_all exports_nothing (concat joins)"
    using joins
    by (auto intro!: list_all_concat elim!: gmapM_all simp: relation_join_with_def gbind_Inr_iff Let_def
        exports_nothing_def split: prod.splits selection_plan_item.splits)
  with rows_source_exports_nothing[OF source] have
    "exported_names q = (if gc_flattened g then fst ` set fs else {result_alias g (context_for tb name path)})"
    using rows_result_exports[OF result] by (simp add: q exported_nothing readable_view_def)
  moreover have "fst ` set fs = set (collect_collection_output_names (cp_result coll))"
    using arg_cong[OF selection_fields_names[OF fs], of set] by (simp add: ResultRows)
  ultimately show ?thesis using tb by auto
next
  case (ResultAggregate aggregate)
  from gen have "generate_aggregate rend c coll aggregate name path g t = Inr (q, t')"
    by (simp add: generate_collection.simps[of rend c coll] ResultAggregate)
  then obtain tb source t4 where tb: "table_by_id c (cp_table coll) = Some tb"
    and source: "aggregate_source rend c coll g tb
        (readable_view (context_for tb name path) (cp_field_filters coll)) t = Inr (source, t4)"
    and q: "(if ag_mode aggregate = Grouped then
       generate_grouped_aggregate rend source aggregate c
         (readable_view (context_for tb name path) (cp_field_filters coll)) (gc_public_result_alias g)
     else
       gbind (aggregate_fields rend c (readable_view (context_for tb name path) (cp_field_filters coll))
                (ag_fields aggregate)) (\<lambda>fs.
       gret (source @
         (if gc_flattened g then export_calls (gc_parent g = None) fs
          else [QExprAs (json_build_object fs) (result_alias g (context_for tb name path))])))) t4
       = Inr (q, t')"
    by (auto simp: generate_aggregate_def gbind_Inr_iff sql_table_def ok_or_def Let_def
        split: option.splits)
  have "list_all exports_nothing source"
    using source by (auto simp: aggregate_source_def gbind_Inr_iff)
  then have source_exports: "exported_names source = {}" by (rule exported_nothing)
  show ?thesis
  proof (cases "ag_mode aggregate = Grouped")
    case True
    with not_grouped have "\<not> gc_flattened g" by (auto simp: grouped_result_def ResultAggregate)
    with q True tb show ?thesis
      by (auto simp: generate_grouped_aggregate_def gbind_Inr_iff Let_def exported_names_def
          result_alias_def readable_view_def split: option.splits)
  next
    case False
    with q obtain fs where fs: "aggregate_fields rend c
        (readable_view (context_for tb name path) (cp_field_filters coll)) (ag_fields aggregate) t4 = Inr (fs, t')"
      and q': "q = source @ (if gc_flattened g then export_calls (gc_parent g = None) fs
          else [QExprAs (json_build_object fs) (result_alias g (context_for tb name path))])"
      by (auto simp: gbind_Inr_iff)
    have "fst ` set fs = set (collect_collection_output_names (cp_result coll))"
      using arg_cong[OF aggregate_fields_names[OF fs], of set] by (simp add: ResultAggregate)
    then show ?thesis
      using tb source_exports by (auto simp: q' exported_names_def[of "[_]"])
  qed
qed

text \<open>
  The columns a root is read through, by the envelope of a singular root and by the
  statement that combines several roots, are exactly the columns the root's statement exports.
  A grouped aggregate, which the analysis never lets be flattened, is excluded in that case.
\<close>

theorem root_query_exports:
  assumes "generate_root_query rend c limit root t = Inr ((q, names), t')"
    and "\<not> (qr_flattened root \<and> grouped_result (cp_result (qr_collection root)))"
  shows "exported_names q = set names"
proof -
  let ?g = "\<lparr>gc_parent = None, gc_root = None, gc_collection_limit = limit,
    gc_public_result_alias = Some (qr_output_name root), gc_flattened = qr_flattened root\<rparr>"
  from assms(1) obtain tb root_query where
    gen: "generate_collection rend c (qr_collection root) (qr_output_name root)
        [path_segment_of tb (qr_output_name root)] ?g t = Inr (root_query, t')"
    and names: "names = root_output_names root"
    and q: "q = (if is_rows (cp_result (qr_collection root))
              \<and> shape_cardinality (cp_shape (qr_collection root)) = CardAtMostOne
           then singular_root_envelope names root_query else root_query)"
    by (auto simp: generate_root_query_def gbind_Inr_iff Let_def)
  have "exported_names root_query = set names"
  proof (cases "qr_flattened root")
    case True
    with collection_exports[OF gen] assms(2) show ?thesis by (simp add: names root_output_names_def)
  next
    case False
    with collection_exports[OF gen] show ?thesis
      by (simp add: names root_output_names_def result_alias_def)
  qed
  moreover have "exported_names (singular_root_envelope names root_query) = set names"
    by (auto simp: exported_names_def singular_root_envelope_def)
  ultimately show ?thesis by (simp add: q)
qed

section \<open>Names\<close>

text \<open>
  C24: the table, the JSON and the result alias of a selection, and the alias of its groups,
  whatever the names in the catalog and in the source, are non-empty, at most 63 bytes long, made
  of lower-case letters, digits and underscores only, and end in the hash of the selection's path
  or, for the groups, of its table alias. The outermost aliases of a statement (\<open>root\<close>,
  \<open>singleton\<close>, \<open>root_<index>\<close> and the output name of a root) are not of this form.
\<close>

theorem selection_aliases_fit:
  "let ctx = context_for t output_name path
   in list_all (safe_alias (short_hash (join_with ''/'' path)))
        [sc_table_alias ctx, sc_json_alias ctx, sc_result_alias ctx]
      \<and> safe_alias (short_hash (sc_table_alias ctx)) (grouped_alias_for ctx)"
proof -
  let ?ctx = "context_for t output_name path"
  have aliases: "list_all (safe_alias (short_hash (join_with ''/'' path)))
      [sc_table_alias ?ctx, sc_json_alias ?ctx, sc_result_alias ?ctx]"
    by (rule context_for_aliases)
  then have "list_all plain_char (sc_table_alias ?ctx)" by (simp add: safe_alias_def)
  then have "safe_alias (short_hash (sc_table_alias ?ctx)) (grouped_alias_for ?ctx)"
    unfolding grouped_alias_for_def
    by (rule generated_identifier_safe)
       (simp_all add: postgres_identifier_max_bytes_def plain_char_def ascii_lower_def)
  with aliases show ?thesis unfolding Let_def by blast
qed

end
