(* ===== verification/Aggregates.thy ===== *)
theory Aggregates
  imports Catalog_Lookup
begin

text \<open>
  Aggregate transforms (\<open>crates/dsql-core/src/entities/aggregate.rs\<close>): the resolution of
  aggregate values, fields and group keys against a table, the validation of output keys and
  the problems with their messages. Problems are collected in order; a function that reports
  into the list takes it and returns it extended. \<open>dbg\<close> is the rendering of string literals
  in messages (see \<open>Expression\<close>).
\<close>

section \<open>Problems\<close>

datatype aggregate_problem_kind =
    UnknownTransform string
  | SourceMustBeCollection string
  | PredicateSourceMustBeDirectCollection string
  | PredicateAggregateMustBeBoolean aggregate_function
  | EmptyBody
  | InvalidGroupKey string
  | GroupedCannotFlatten
  | ExistsInGroupedAggregate
  | UnknownFunction string
  | MissingOperand aggregate_function
  | UnexpectedOperand aggregate_function
  | AliasRequired aggregate_function
  | InvalidOperand string
  | UnsupportedOperandType aggregate_function data_type
  | DuplicateOutputKey string
  | OutputKeyTooLong string nat

record aggregate_problem =
  agp_span :: span
  agp_kind :: aggregate_problem_kind

definition postgres_result_alias_max_bytes :: nat where
  "postgres_result_alias_max_bytes = 63"

fun aggregate_problem_message :: "aggregate_problem_kind \<Rightarrow> string" where
  "aggregate_problem_message (UnknownTransform name) = ''unknown selection transform `'' @ name @ ''`''"
| "aggregate_problem_message (SourceMustBeCollection s) =
     ''aggregate source `'' @ s @ ''` must be a collection; singular and scalar sources cannot be aggregated''"
| "aggregate_problem_message (PredicateSourceMustBeDirectCollection s) =
     ''aggregate predicate source `'' @ s @ ''` must be a direct `.`-anchored collection relation''"
| "aggregate_problem_message (PredicateAggregateMustBeBoolean f) =
     ''aggregate function `'' @ aggregate_label f
       @ ''` must be compared to a value; only `exists` is a predicate by itself''"
| "aggregate_problem_message EmptyBody = ''aggregate body must contain at least one field''"
| "aggregate_problem_message (InvalidGroupKey written) =
     ''aggregate group key `'' @ written @ ''` must be a `.`-anchored direct scalar column''"
| "aggregate_problem_message GroupedCannotFlatten =
     ''grouped aggregate output is array-valued and cannot be flattened''"
| "aggregate_problem_message ExistsInGroupedAggregate =
     ''aggregate function `exists` is not meaningful in grouped output''"
| "aggregate_problem_message (UnknownFunction name) = ''unknown aggregate function `'' @ name @ ''`''"
| "aggregate_problem_message (MissingOperand f) =
     ''aggregate function `'' @ aggregate_label f @ ''` requires a direct column operand''"
| "aggregate_problem_message (UnexpectedOperand f) =
     ''aggregate function `'' @ aggregate_label f @ ''` does not accept an operand''"
| "aggregate_problem_message (AliasRequired f) =
     ''aggregate function `'' @ aggregate_label f @ ''` with an operand requires an output alias''"
| "aggregate_problem_message (InvalidOperand written) =
     ''aggregate operand `'' @ written @ ''` must be a `.`-anchored direct scalar column''"
| "aggregate_problem_message (UnsupportedOperandType f t) =
     ''aggregate function `'' @ aggregate_label f @ ''` does not support `'' @ data_type_name t @ ''` operands''"
| "aggregate_problem_message (DuplicateOutputKey key) =
     ''aggregate output key `'' @ key @ ''` is ambiguous; use a distinct alias''"
| "aggregate_problem_message (OutputKeyTooLong key bytes) =
     ''aggregate output key `'' @ key @ ''` is '' @ dec_string bytes
       @ '' bytes; PostgreSQL result aliases must be at most ''
       @ dec_string postgres_result_alias_max_bytes @ '' bytes''"

section \<open>Syntax and results\<close>

record aggregate_field_syntax =
  afs_alias :: "string option"
  afs_alias_span :: "span option"
  afs_function :: string
  afs_function_span :: span
  afs_operand :: "expr option"
  afs_span :: span

record aggregate_group_key_syntax =
  ags_alias :: "string option"
  ags_alias_span :: "span option"
  ags_path :: expr
  ags_span :: span

record aggregate_transform =
  atf_name :: string
  atf_name_span :: span
  atf_span :: span
  atf_group_keys :: "aggregate_group_key_syntax list"
  atf_fields :: "aggregate_field_syntax list"

record resolved_aggregate_value =
  rav_function :: "aggregate_function option"
  rav_operand :: "column_id option"
  rav_operand_span :: "span option"
  rav_operand_name_span :: "span option"
  rav_data_type :: "data_type option"
  rav_nullable :: bool

record resolved_aggregate_field =
  raf_function :: "aggregate_function option"
  raf_function_span :: span
  raf_output_name :: "string option"
  raf_output_span :: span
  raf_operand :: "column_id option"
  raf_operand_span :: "span option"
  raf_operand_name_span :: "span option"
  raf_data_type :: "data_type option"
  raf_nullable :: bool

record resolved_group_key =
  rgk_output_name :: string
  rgk_output_span :: span
  rgk_column :: column_id
  rgk_column_span :: span
  rgk_data_type :: data_type
  rgk_nullable :: bool

section \<open>Values\<close>

definition report :: "span \<Rightarrow> aggregate_problem_kind \<Rightarrow> aggregate_problem list \<Rightarrow> aggregate_problem list" where
  "report s k problems = problems @ [\<lparr>agp_span = s, agp_kind = k\<rparr>]"

definition aggregate_function_of :: "string \<Rightarrow> aggregate_function option" where
  "aggregate_function_of name =
     (if name = ''count'' then Some AggCount
      else if name = ''exists'' then Some AggExists
      else if name = ''min'' then Some AggMin
      else if name = ''max'' then Some AggMax
      else if name = ''sum'' then Some AggSum
      else if name = ''avg'' then Some AggAvg
      else None)"

definition contains_qualifier :: "string \<Rightarrow> bool" where
  "contains_qualifier s \<longleftrightarrow> split_once s ''::'' \<noteq> None"

text \<open>The direct column a \<open>.\<close>-anchored path of one plain segment names.\<close>

definition direct_operand_column :: "catalog \<Rightarrow> table_id \<Rightarrow> expr \<Rightarrow> column option" where
  "direct_operand_column c t operand =
     (case operand of
        EPath AnchorCurrent [segment] _ \<Rightarrow>
          (if seg_relation_path segment \<noteq> None \<or> contains_qualifier (seg_name segment) then None
           else case check_field_ref c t
                       \<lparr>fref_target = table_ref_parse (seg_name segment), fref_selector = None\<rparr> of
             FieldColumn col \<Rightarrow> Some col
           | _ \<Rightarrow> None)
      | _ \<Rightarrow> None)"

definition resolve_value_operand ::
  "(string \<Rightarrow> string) \<Rightarrow> catalog \<Rightarrow> table_id \<Rightarrow> expr \<Rightarrow> resolved_aggregate_value \<Rightarrow> aggregate_problem list
   \<Rightarrow> unit fault + (resolved_aggregate_value \<times> aggregate_problem list)" where
  "resolve_value_operand dbg c t operand resolved problems =
     (case direct_operand_column c t operand of
        None \<Rightarrow> Inr (resolved, report (expr_span operand) (InvalidOperand (expr_display dbg operand)) problems)
      | Some col \<Rightarrow>
          rbind (data_type_for_column c (col_id col)) (\<lambda>data_type.
          Inr (resolved\<lparr>rav_operand := Some (col_id col), rav_data_type := Some data_type\<rparr>, problems)))"

definition operand_name_span :: "expr option \<Rightarrow> span option" where
  "operand_name_span operand =
     (case operand of
        Some (EPath _ segments _) \<Rightarrow> (if segments = [] then None else Some (seg_span (last segments)))
      | _ \<Rightarrow> None)"

text \<open>The part of \<open>resolve_aggregate_value\<close> for \<open>min\<close>, \<open>max\<close>, \<open>sum\<close> and \<open>avg\<close> with an operand.\<close>

definition resolve_operand_aggregate ::
  "(string \<Rightarrow> string) \<Rightarrow> catalog \<Rightarrow> table_id \<Rightarrow> aggregate_mode \<Rightarrow> aggregate_function \<Rightarrow> expr
   \<Rightarrow> resolved_aggregate_value \<Rightarrow> aggregate_problem list
   \<Rightarrow> unit fault + (resolved_aggregate_value \<times> aggregate_problem list)" where
  "resolve_operand_aggregate dbg c t mode function operand resolved problems =
     rbind (resolve_value_operand dbg c t operand resolved problems) (\<lambda>(resolved, problems).
     let result_type =
           Option.bind (Option.bind (rav_operand resolved) (capabilities_for_column c)) (\<lambda>caps.
           Option.bind (rav_data_type resolved) (\<lambda>data_type.
           aggregate_result (cap_aggregates caps) function data_type));
         problems = (case (rav_data_type resolved, result_type) of
                       (Some data_type, None) \<Rightarrow>
                         report (expr_span operand) (UnsupportedOperandType function data_type) problems
                     | _ \<Rightarrow> problems);
         resolved = (case result_type of
                       Some r \<Rightarrow> resolved\<lparr>rav_data_type := Some r\<rparr>
                     | None \<Rightarrow> resolved) in
     Inr (resolved\<lparr>rav_nullable := mode = Ungrouped \<or>
            (case Option.bind (rav_operand resolved) (column_by_id c) of
               None \<Rightarrow> True | Some col \<Rightarrow> \<not> col_not_null col)\<rparr>, problems))"

definition resolve_aggregate_value ::
  "(string \<Rightarrow> string) \<Rightarrow> catalog \<Rightarrow> table_id \<Rightarrow> aggregate_mode \<Rightarrow> string \<Rightarrow> span \<Rightarrow> expr option \<Rightarrow> span
   \<Rightarrow> aggregate_problem list \<Rightarrow> unit fault + (resolved_aggregate_value \<times> aggregate_problem list)" where
  "resolve_aggregate_value dbg c t mode function_name function_span operand value_span problems =
     (let function = aggregate_function_of function_name;
          problems = (if function = None then report function_span (UnknownFunction function_name) problems
                      else problems);
          resolved = \<lparr>rav_function = function, rav_operand = None,
                      rav_operand_span = map_option expr_span operand,
                      rav_operand_name_span = operand_name_span operand,
                      rav_data_type = None, rav_nullable = False\<rparr> in
      case function of
        None \<Rightarrow> Inr (resolved, problems)
      | Some AggCount \<Rightarrow>
          rbind (case operand of
                   Some e \<Rightarrow> resolve_value_operand dbg c t e resolved problems
                 | None \<Rightarrow> Inr (resolved, problems)) (\<lambda>(resolved, problems).
          Inr (resolved\<lparr>rav_data_type := Some DtBigInt\<rparr>, problems))
      | Some AggExists \<Rightarrow>
          Inr (resolved\<lparr>rav_data_type := Some DtBoolean\<rparr>,
               (case operand of
                  Some e \<Rightarrow> report (expr_span e) (UnexpectedOperand AggExists) problems
                | None \<Rightarrow> problems))
      | Some f \<Rightarrow>
          (case operand of
             None \<Rightarrow> Inr (resolved, report function_span (MissingOperand f) problems)
           | Some e \<Rightarrow> resolve_operand_aggregate dbg c t mode f e resolved problems))"

section \<open>Fields and group keys\<close>

definition require_alias ::
  "aggregate_field_syntax \<Rightarrow> aggregate_function \<Rightarrow> aggregate_problem list \<Rightarrow> aggregate_problem list" where
  "require_alias field function problems =
     (if afs_alias field = None then report (afs_function_span field) (AliasRequired function) problems
      else problems)"

definition or_else :: "'a option \<Rightarrow> 'a \<Rightarrow> 'a" where
  "or_else x d = (case x of Some y \<Rightarrow> y | None \<Rightarrow> d)"

definition resolve_field ::
  "(string \<Rightarrow> string) \<Rightarrow> catalog \<Rightarrow> table_id \<Rightarrow> aggregate_mode \<Rightarrow> aggregate_field_syntax
   \<Rightarrow> aggregate_problem list \<Rightarrow> unit fault + (resolved_aggregate_field \<times> aggregate_problem list)" where
  "resolve_field dbg c t mode field problems =
     rbind (resolve_aggregate_value dbg c t mode (afs_function field) (afs_function_span field)
              (afs_operand field) (afs_span field) problems) (\<lambda>(value, problems).
     let resolved = \<lparr>raf_function = rav_function value, raf_function_span = afs_function_span field,
           raf_output_name = afs_alias field,
           raf_output_span = or_else (afs_alias_span field) (afs_function_span field),
           raf_operand = rav_operand value, raf_operand_span = rav_operand_span value,
           raf_operand_name_span = rav_operand_name_span value,
           raf_data_type = rav_data_type value, raf_nullable = rav_nullable value\<rparr> in
     case rav_function value of
       None \<Rightarrow> Inr (resolved, problems)
     | Some AggCount \<Rightarrow>
         (if afs_operand field \<noteq> None then Inr (resolved, require_alias field AggCount problems)
          else Inr (resolved\<lparr>raf_output_name := Some (or_else (afs_alias field) ''count'')\<rparr>, problems))
     | Some AggExists \<Rightarrow>
         Inr (resolved\<lparr>raf_output_name := Some (or_else (afs_alias field) ''exists'')\<rparr>, problems)
     | Some f \<Rightarrow>
         Inr (resolved, if afs_operand field \<noteq> None then require_alias field f problems else problems))"

definition resolve_group_key ::
  "(string \<Rightarrow> string) \<Rightarrow> catalog \<Rightarrow> table_id \<Rightarrow> aggregate_group_key_syntax \<Rightarrow> aggregate_problem list
   \<Rightarrow> unit fault + (resolved_group_key option \<times> aggregate_problem list)" where
  "resolve_group_key dbg c t key problems =
     (let invalid = Inr (None, report (ags_span key) (InvalidGroupKey (expr_display dbg (ags_path key))) problems) in
      case ags_path key of
        EPath anchor [segment] _ \<Rightarrow>
          (case check_field_ref c t \<lparr>fref_target = table_ref_parse (seg_name segment), fref_selector = None\<rparr> of
             FieldColumn col \<Rightarrow>
               (if anchor \<noteq> AnchorCurrent \<or> seg_relation_path segment \<noteq> None
                   \<or> contains_qualifier (seg_name segment) then invalid
                else rbind (data_type_for_column c (col_id col)) (\<lambda>data_type.
                  Inr (Some \<lparr>rgk_output_name = or_else (ags_alias key) (col_name col),
                             rgk_output_span = or_else (ags_alias_span key) (seg_span segment),
                             rgk_column = col_id col, rgk_column_span = seg_span segment,
                             rgk_data_type = data_type, rgk_nullable = \<not> col_not_null col\<rparr>, problems)))
           | _ \<Rightarrow> invalid)
      | _ \<Rightarrow> invalid)"

section \<open>Output keys\<close>

fun check_output_keys_loop ::
  "string list \<Rightarrow> (string \<times> span) list \<Rightarrow> aggregate_problem list \<Rightarrow> aggregate_problem list" where
  "check_output_keys_loop seen [] problems = problems"
| "check_output_keys_loop seen ((key, s) # rest) problems =
     (let problems' = (if key \<in> set seen then report s (DuplicateOutputKey key) problems else problems);
          seen' = (if key \<in> set seen then seen else seen @ [key]);
          problems'' = (if postgres_result_alias_max_bytes < length key
                        then report s (OutputKeyTooLong key (length key)) problems' else problems') in
      check_output_keys_loop seen' rest problems'')"

definition check_output_keys :: "(string \<times> span) list \<Rightarrow> aggregate_problem list \<Rightarrow> aggregate_problem list" where
  "check_output_keys = check_output_keys_loop []"

end
