(* ===== verification/Resolution.thy ===== *)
theory Resolution
  imports Aggregates Variable_Paths Plan_Types
begin

text \<open>
  Name resolution (\<open>crates/dsql-core/src/resolution.rs\<close>): what a selection's name means in its
  context, the shape of a selection and its proof of at most one row, predicate paths,
  existence predicates, predicate aggregates, and the resolution of whole clauses. The tracked
  systems of the incremental engine are modelled by the function each computes on its inputs.
\<close>

section \<open>Targets and values\<close>

datatype selection_resolution_problem =
    SrpTableNotFound string
  | SrpAmbiguousTable string "table_key list"
  | SrpFieldNotFound string string
  | SrpAmbiguousRelation string "string list"

record resolved_value_type =
  rvt_key :: type_key
  rvt_logical :: data_type
  rvt_readable :: string
  rvt_capabilities :: type_capabilities
  rvt_enum_variants :: "string list option"

definition resolved_value_type_for_column :: "catalog \<Rightarrow> column_id \<Rightarrow> resolved_value_type option" where
  "resolved_value_type_for_column c i =
     map_option (\<lambda>t. \<lparr>rvt_key = ty_key t, rvt_logical = logical_data_type t,
         rvt_readable = ty_readable_type t, rvt_capabilities = ty_capabilities t,
         rvt_enum_variants = map_option (\<lambda>e. map ev_variant (enum_variants e)) (ty_enumeration t)\<rparr>)
       (type_for_column c i)"

datatype selection_target =
    TargetTable table_id
  | TargetField column_id
  | TargetRel table_id relation_id string
  | TargetUnresolved

definition target_child_context :: "selection_target \<Rightarrow> table_id option" where
  "target_child_context t =
     (case t of
        TargetTable i \<Rightarrow> Some i
      | TargetRel i _ _ \<Rightarrow> Some i
      | TargetField _ \<Rightarrow> None
      | TargetUnresolved \<Rightarrow> None)"

datatype resolved_table_target =
    RttTable table_id
  | RttNotFound string
  | RttAmbiguous string "table_key list"

definition resolve_fragment_target :: "catalog \<Rightarrow> string \<Rightarrow> resolved_table_target" where
  "resolve_fragment_target c name =
     (case resolve_table_ref_for c (table_ref_parse name) of
        TableFound t \<Rightarrow> RttTable (tb_id t)
      | TableNotFound reference \<Rightarrow> RttNotFound reference
      | TableAmbiguous reference candidates \<Rightarrow> RttAmbiguous reference candidates)"

section \<open>Selection shapes\<close>

datatype selection_limit_syntax =
    LimitSyntaxNone
  | LimitSyntaxLiteral nat span
  | LimitSyntaxRuntime span

record selection_shape_syntax =
  sss_predicate :: "expr option"
  sss_has_offset :: bool
  sss_limit :: selection_limit_syntax

datatype fixed_value_identity =
    FviString string
  | FviNumber string
  | FviBool bool
  | FviNamed sigil string
  | FviAnonymous sigil span

type_synonym equality_map = "column_id \<rightharpoonup> fixed_value_identity set"

definition fixed_value_identity_of :: "expr \<Rightarrow> fixed_value_identity option" where
  "fixed_value_identity_of e =
     (case e of
        EVariable v _ \<Rightarrow>
          (case vr_name v of
             Some name \<Rightarrow> Some (FviNamed (vr_sigil v) name)
           | None \<Rightarrow> Some (FviAnonymous (vr_sigil v) (vr_span v)))
      | ELiteral (LitString s) _ \<Rightarrow> Some (FviString s)
      | ELiteral (LitNumber n) _ \<Rightarrow> Some (FviNumber n)
      | ELiteral (LitBool b) _ \<Rightarrow> Some (FviBool b)
      | _ \<Rightarrow> None)"

definition direct_current_column :: "catalog \<Rightarrow> table_id \<Rightarrow> expr \<Rightarrow> column_id option" where
  "direct_current_column c t e =
     (case e of
        EPath AnchorCurrent [segment] _ \<Rightarrow>
          (if seg_relation_path segment \<noteq> None then None
           else case check_field_ref c t
                       \<lparr>fref_target = table_ref_parse (seg_name segment), fref_selector = None\<rparr> of
             FieldColumn col \<Rightarrow> Some (col_id col)
           | _ \<Rightarrow> None)
      | _ \<Rightarrow> None)"

definition option_zip :: "'a option \<Rightarrow> 'b option \<Rightarrow> ('a \<times> 'b) option" where
  "option_zip a b = (case (a, b) of (Some x, Some y) \<Rightarrow> Some (x, y) | _ \<Rightarrow> None)"

definition equality_of :: "catalog \<Rightarrow> table_id \<Rightarrow> expr \<Rightarrow> expr \<Rightarrow> (column_id \<times> fixed_value_identity) option" where
  "equality_of c t left right =
     (case option_zip (direct_current_column c t left) (fixed_value_identity_of right) of
        Some r \<Rightarrow> Some r
      | None \<Rightarrow> option_zip (direct_current_column c t right) (fixed_value_identity_of left))"

definition identity_input ::
  "catalog \<Rightarrow> column_id \<Rightarrow> fixed_value_identity \<Rightarrow> string option \<Rightarrow> (variable_source \<times> string) option" where
  "identity_input c column identity anonymous_key =
     (case identity of
        FviNamed sigil name \<Rightarrow> Some (variable_source_of sigil, name)
      | FviAnonymous sigil _ \<Rightarrow>
          (case anonymous_key of
             Some key \<Rightarrow> Some (variable_source_of sigil, key)
           | None \<Rightarrow> map_option (\<lambda>col. (variable_source_of sigil, col_name col)) (column_by_id c column))
      | _ \<Rightarrow> None)"

definition nullable_identity ::
  "catalog \<Rightarrow> column_id \<Rightarrow> fixed_value_identity \<Rightarrow> input_refinement list \<Rightarrow> string option \<Rightarrow> bool" where
  "nullable_identity c column identity refinements anonymous_key =
     (case identity_input c column identity anonymous_key of
        None \<Rightarrow> False
      | Some (source, name) \<Rightarrow>
          list_ex (\<lambda>r. ref_source r = source \<and> ref_name r = name \<and> ref_nullable r) refinements)"

definition single_equality ::
  "catalog \<Rightarrow> table_id \<Rightarrow> binary_op \<Rightarrow> expr \<Rightarrow> expr \<Rightarrow> input_refinement list \<Rightarrow> equality_map" where
  "single_equality c t op lhs rhs refinements =
     (case equality_of c t lhs rhs of
        None \<Rightarrow> Map.empty
      | Some (column, identity) \<Rightarrow>
          if nullable_identity c column identity refinements (predicate_anonymous_key op) then Map.empty
          else [column \<mapsto> {identity}])"

definition only_equality :: "variable_ref \<Rightarrow> bool" where
  "only_equality v =
     (case vr_operators v of
        None \<Rightarrow> False
      | Some operators \<Rightarrow> operators \<noteq> [] \<and> list_all (\<lambda>op. op = CmpEq) operators)"

definition equalities_and :: "equality_map \<Rightarrow> equality_map \<Rightarrow> equality_map" where
  "equalities_and l r = (\<lambda>column.
     case (l column, r column) of
       (Some a, Some b) \<Rightarrow> Some (a \<union> b)
     | (Some a, None) \<Rightarrow> Some a
     | (None, b) \<Rightarrow> b)"

definition equalities_or :: "equality_map \<Rightarrow> equality_map \<Rightarrow> equality_map" where
  "equalities_or l r = (\<lambda>column.
     case (l column, r column) of
       (Some a, Some b) \<Rightarrow> (if a \<inter> b = {} then None else Some (a \<inter> b))
     | _ \<Rightarrow> None)"

fun guaranteed_equalities ::
  "catalog \<Rightarrow> table_id \<Rightarrow> expr \<Rightarrow> input_refinement list \<Rightarrow> equality_map" where
  "guaranteed_equalities c t (EBinary op lhs rhs s) refinements =
     (case op of
        OpAnd \<Rightarrow> equalities_and (guaranteed_equalities c t lhs refinements)
                   (guaranteed_equalities c t rhs refinements)
      | OpOr \<Rightarrow> equalities_or (guaranteed_equalities c t lhs refinements)
                   (guaranteed_equalities c t rhs refinements)
      | OpComparison CmpEq \<Rightarrow> single_equality c t op lhs rhs refinements
      | OpVariable v \<Rightarrow>
          if only_equality v then single_equality c t op lhs rhs refinements else Map.empty
      | _ \<Rightarrow> Map.empty)"
| "guaranteed_equalities c t _ refinements = Map.empty"

definition covers_key :: "equality_map \<Rightarrow> column_id list \<Rightarrow> bool" where
  "covers_key equalities key \<longleftrightarrow> key \<noteq> [] \<and> list_all (\<lambda>column. equalities column \<noteq> None) key"

definition unique_key_for_predicate ::
  "catalog \<Rightarrow> table_id \<Rightarrow> expr \<Rightarrow> input_refinement list \<Rightarrow> column_id list option" where
  "unique_key_for_predicate c t predicate refinements =
     (let equalities = guaranteed_equalities c t predicate refinements in
      case table_by_id c t of
        None \<Rightarrow> None
      | Some tb \<Rightarrow>
          if covers_key equalities (tb_primary_key tb) then Some (tb_primary_key tb)
          else find (covers_key equalities) (tb_unique_constraints tb))"

definition resolve_limit :: "selection_limit_syntax \<Rightarrow> resolved_selection_limit" where
  "resolve_limit l =
     (case l of
        LimitSyntaxNone \<Rightarrow> LimitNone
      | LimitSyntaxLiteral v s \<Rightarrow> LimitLiteral v s
      | LimitSyntaxRuntime s \<Rightarrow> LimitRuntime s)"

definition is_limit_one :: "resolved_selection_limit \<Rightarrow> bool" where
  "is_limit_one l = (case l of LimitLiteral v _ \<Rightarrow> v = 1 | _ \<Rightarrow> False)"

definition shape_proof_for ::
  "bool \<Rightarrow> column_id list option \<Rightarrow> resolved_selection_limit \<Rightarrow> selection_cardinality_proof option" where
  "shape_proof_for relation_is_singular unique_key limit =
     (if relation_is_singular then Some ProofRelation
      else case unique_key of
        Some columns \<Rightarrow> Some (ProofUniqueKey columns)
      | None \<Rightarrow> if is_limit_one limit then Some ProofLimitOne else None)"

definition shape_nullable_for ::
  "selection_target \<Rightarrow> relation option \<Rightarrow> bool \<Rightarrow> selection_shape_syntax \<Rightarrow> resolved_selection_limit \<Rightarrow> bool" where
  "shape_nullable_for target relation_fact relation_is_singular syn limit =
     (case target of
        TargetTable _ \<Rightarrow> True
      | TargetRel _ _ _ \<Rightarrow>
          \<not> relation_is_singular
          \<or> (case relation_fact of
               None \<Rightarrow> True
             | Some r \<Rightarrow> rel_nullable r \<or> sss_predicate syn \<noteq> None
                 \<or> sss_has_offset syn \<or> may_suppress limit)
      | _ \<Rightarrow> False)"

definition resolve_selection_shape ::
  "catalog \<Rightarrow> selection_shape_syntax \<Rightarrow> table_id option \<Rightarrow> selection_target \<Rightarrow> input_refinement list
   \<Rightarrow> resolved_selection_shape option" where
  "resolve_selection_shape c syn ctx target refinements =
     (case target_child_context target of
        None \<Rightarrow> None
      | Some t \<Rightarrow>
          (let relation_fact = (case target of
                 TargetRel _ r _ \<Rightarrow> map_option snd (option_zip ctx (relation_by_id c r))
               | _ \<Rightarrow> None);
               relation_is_singular = (case relation_fact of
                 Some r \<Rightarrow> rel_cardinality r = RelSingular | None \<Rightarrow> False);
               unique_key = Option.bind (sss_predicate syn)
                 (\<lambda>predicate. unique_key_for_predicate c t predicate refinements);
               limit = resolve_limit (sss_limit syn);
               evidence = shape_proof_for relation_is_singular unique_key limit;
               cardinality = (if evidence \<noteq> None then CardAtMostOne else CardCollection) in
           Some \<lparr>shape_cardinality = cardinality, shape_proof = evidence,
                 shape_nullable = cardinality = CardAtMostOne
                   \<and> shape_nullable_for target relation_fact relation_is_singular syn limit,
                 shape_limit = limit\<rparr>))"

section \<open>Selections\<close>

definition resolve_reference ::
  "catalog \<Rightarrow> table_id \<Rightarrow> string \<Rightarrow> string option
   \<Rightarrow> selection_target \<times> selection_resolution_problem option" where
  "resolve_reference c t name relation_path =
     (let reference = \<lparr>fref_target = table_ref_parse name, fref_selector = relation_path\<rparr> in
      case check_field_ref c t reference of
        FieldColumn col \<Rightarrow> (TargetField (col_id col), None)
      | FieldRelation r \<Rightarrow>
          (TargetRel (tb_id (rf_table r)) (rel_id (rf_relation r)) (rel_selector (rf_relation r)), None)
      | FieldNotFound \<Rightarrow>
          (TargetUnresolved,
           Some (SrpFieldNotFound (field_ref_display reference)
                  (case table_by_id c t of None \<Rightarrow> ''<unknown>'' | Some tb \<Rightarrow> tb_name tb)))
      | FieldAmbiguousRelation reference candidates \<Rightarrow>
          (TargetUnresolved, Some (SrpAmbiguousRelation reference candidates)))"

datatype def_kind = DefQuery | DefFragment

record field_selection_syntax =
  fsel_flattened :: bool
  fsel_name :: string
  fsel_relation_path :: "string option"
  fsel_name_span :: span
  fsel_alias_span :: "span option"
  fsel_shape_syntax :: selection_shape_syntax

record resolved_selection =
  rs_field :: entity
  rs_name :: string
  rs_written :: string
  rs_name_span :: span
  rs_alias_span :: "span option"
  rs_root :: "table_id option"
  rs_context :: "table_id option"
  rs_target :: selection_target
  rs_problem :: "selection_resolution_problem option"
  rs_value_type :: "resolved_value_type option"
  rs_definition_kind :: def_kind
  rs_shape :: "resolved_selection_shape option"
  rs_input_refinements :: "input_refinement list"

text \<open>The fact that \<open>emit\<close> inserts.\<close>

definition emit_selection ::
  "catalog \<Rightarrow> entity \<Rightarrow> field_selection_syntax \<Rightarrow> table_id option \<Rightarrow> table_id option \<Rightarrow> selection_target
   \<Rightarrow> selection_resolution_problem option \<Rightarrow> def_kind \<Rightarrow> input_refinement list \<Rightarrow> resolved_selection" where
  "emit_selection c field sel root ctx target problem kind refinements =
     \<lparr>rs_field = field, rs_name = fsel_name sel,
      rs_written = (case fsel_relation_path sel of
                      Some p \<Rightarrow> fsel_name sel @ ''->'' @ p | None \<Rightarrow> fsel_name sel),
      rs_name_span = fsel_name_span sel, rs_alias_span = fsel_alias_span sel, rs_root = root,
      rs_context = ctx, rs_target = target, rs_problem = problem,
      rs_value_type = (case target of
                         TargetField col \<Rightarrow> resolved_value_type_for_column c col | _ \<Rightarrow> None),
      rs_definition_kind = kind,
      rs_shape = resolve_selection_shape c (fsel_shape_syntax sel) ctx target refinements,
      rs_input_refinements = refinements\<rparr>"

text \<open>
  \<open>resolve_roots\<close>: a child of a definition. \<open>fragment_target\<close> is the name after \<open>on\<close> in a
  fragment declaration.
\<close>

definition resolve_root_selection ::
  "catalog \<Rightarrow> def_kind \<Rightarrow> string option \<Rightarrow> input_refinement list \<Rightarrow> entity \<Rightarrow> field_selection_syntax
   \<Rightarrow> resolved_selection" where
  "resolve_root_selection c kind fragment_target refinements field sel =
     (case kind of
        DefQuery \<Rightarrow>
          (case resolve_table_ref_for c (table_ref_parse (fsel_name sel)) of
             TableFound t \<Rightarrow>
               emit_selection c field sel (Some (tb_id t)) None (TargetTable (tb_id t)) None kind refinements
           | TableNotFound reference \<Rightarrow>
               emit_selection c field sel None None TargetUnresolved (Some (SrpTableNotFound reference))
                 kind refinements
           | TableAmbiguous reference candidates \<Rightarrow>
               emit_selection c field sel None None TargetUnresolved
                 (Some (SrpAmbiguousTable reference candidates)) kind refinements)
      | DefFragment \<Rightarrow>
          (case Option.bind fragment_target (\<lambda>name. table_ref_for c (table_ref_parse name)) of
             Some t \<Rightarrow>
               (let (target, problem) = resolve_reference c (tb_id t) (fsel_name sel) (fsel_relation_path sel) in
                emit_selection c field sel (Some (tb_id t)) (Some (tb_id t)) target problem kind refinements)
           | None \<Rightarrow> emit_selection c field sel None None TargetUnresolved None kind refinements))"

definition resolve_nested_selection ::
  "catalog \<Rightarrow> resolved_selection \<Rightarrow> entity \<Rightarrow> field_selection_syntax \<Rightarrow> resolved_selection" where
  "resolve_nested_selection c parent field sel =
     (let (ctx, target, problem) =
            (case target_child_context (rs_target parent) of
               Some t \<Rightarrow>
                 (let (target, problem) = resolve_reference c t (fsel_name sel) (fsel_relation_path sel) in
                  (Some t, target, problem))
             | None \<Rightarrow> (None, TargetUnresolved, None)) in
      emit_selection c field sel (if ctx \<noteq> None then rs_root parent else None) ctx target problem
        (rs_definition_kind parent) (rs_input_refinements parent))"

section \<open>Predicate paths\<close>

record clause_context =
  cc_root :: table_id
  cc_table :: table_id
  cc_parent :: "table_id option"

record resolved_relation_step =
  rrs_span :: span
  rrs_written :: string
  rrs_display :: string
  rrs_relation :: relation_id
  rrs_table :: table_id

datatype path_terminal =
    TerminalColumn span string string table_id column_id "resolved_value_type option"
  | TerminalFailed
  | TerminalOutOfScope

record resolved_path =
  rp_span :: span
  rp_anchor :: path_anchor
  rp_written :: string
  rp_relations :: "resolved_relation_step list"
  rp_terminal :: path_terminal

definition segment_reference :: "path_segment \<Rightarrow> field_ref" where
  "segment_reference s =
     \<lparr>fref_target = table_ref_parse (seg_name s), fref_selector = seg_relation_path s\<rparr>"

definition relation_step :: "path_segment \<Rightarrow> relation_field \<Rightarrow> resolved_relation_step" where
  "relation_step s r =
     \<lparr>rrs_span = seg_span s, rrs_written = seg_name s,
      rrs_display = field_ref_display (segment_reference s),
      rrs_relation = rel_id (rf_relation r), rrs_table = tb_id (rf_table r)\<rparr>"

text \<open>
  The walk from \<open>current\<close> along the segments, the last of which names the column; the relation
  steps that resolved are kept when a later one fails.
\<close>

fun resolve_segments ::
  "catalog \<Rightarrow> table_id \<Rightarrow> path_segment list \<Rightarrow> resolved_relation_step list \<times> path_terminal" where
  "resolve_segments c current [] = ([], TerminalFailed)"
| "resolve_segments c current [last_segment] =
     ([], case check_field_ref c current (segment_reference last_segment) of
            FieldColumn col \<Rightarrow>
              TerminalColumn (seg_span last_segment) (seg_name last_segment)
                (field_ref_display (segment_reference last_segment)) current (col_id col)
                (resolved_value_type_for_column c (col_id col))
          | _ \<Rightarrow> TerminalFailed)"
| "resolve_segments c current (segment # next # rest) =
     (case check_field_ref c current (segment_reference segment) of
        FieldRelation r \<Rightarrow>
          (let (steps, terminal) = resolve_segments c (tb_id (rf_table r)) (next # rest) in
           (relation_step segment r # steps, terminal))
      | _ \<Rightarrow> ([], TerminalFailed))"

definition path_start :: "clause_context \<Rightarrow> path_anchor \<Rightarrow> table_id option" where
  "path_start ctx anchor =
     (case anchor of
        AnchorCurrent \<Rightarrow> Some (cc_table ctx)
      | AnchorRoot \<Rightarrow> Some (cc_root ctx)
      | AnchorParent \<Rightarrow> cc_parent ctx)"

definition resolve_path ::
  "(string \<Rightarrow> string) \<Rightarrow> catalog \<Rightarrow> clause_context \<Rightarrow> path_anchor \<Rightarrow> path_segment list \<Rightarrow> span \<Rightarrow> resolved_path" where
  "resolve_path dbg c ctx anchor segments s =
     (let (steps, terminal) =
            (case path_start ctx anchor of
               None \<Rightarrow> ([], TerminalOutOfScope)
             | Some current \<Rightarrow> resolve_segments c current segments) in
      \<lparr>rp_span = s, rp_anchor = anchor, rp_written = expr_display dbg (EPath anchor segments s),
       rp_relations = steps, rp_terminal = terminal\<rparr>)"

definition resolved_display_path :: "resolved_path \<Rightarrow> string list option" where
  "resolved_display_path p =
     (case rp_terminal p of
        TerminalColumn _ _ display _ _ _ \<Rightarrow> Some (map rrs_display (rp_relations p) @ [display])
      | _ \<Rightarrow> None)"

section \<open>Existence predicates and predicate aggregates\<close>

datatype existence_problem_kind =
    ExSourceMustBeCollection
  | ExFieldNotFound string
  | ExAmbiguousRelation string "string list"
  | ExTableNotFound string
  | ExAmbiguousTable string "table_key list"

record existence_problem =
  exp_span :: span
  exp_kind :: existence_problem_kind

datatype resolved_existence_source =
    ExistsInRelation resolved_relation_step
  | ExistsInTable table_id

record resolved_existence =
  re_span :: span
  re_source :: "resolved_existence_source option"
  re_problems :: "existence_problem list"

definition not_a_collection :: "span \<Rightarrow> resolved_existence_source option \<times> existence_problem list" where
  "not_a_collection s = (None, [\<lparr>exp_span = s, exp_kind = ExSourceMustBeCollection\<rparr>])"

definition resolve_existence_source ::
  "catalog \<Rightarrow> clause_context \<Rightarrow> exists_source \<Rightarrow> resolved_existence_source option \<times> existence_problem list" where
  "resolve_existence_source c ctx source =
     (case source of
        SourceRelation path \<Rightarrow>
          (case path of
             EPath AnchorCurrent [segment] _ \<Rightarrow>
               (case check_field_ref c (cc_table ctx) (segment_reference segment) of
                  FieldRelation r \<Rightarrow>
                    (Some (ExistsInRelation (relation_step segment r)),
                     if rel_cardinality (rf_relation r) = RelCollection then []
                     else [\<lparr>exp_span = seg_span segment, exp_kind = ExSourceMustBeCollection\<rparr>])
                | FieldColumn _ \<Rightarrow> not_a_collection (seg_span segment)
                | FieldNotFound \<Rightarrow>
                    (None, [\<lparr>exp_span = seg_span segment,
                             exp_kind = ExFieldNotFound (field_ref_display (segment_reference segment))\<rparr>])
                | FieldAmbiguousRelation reference candidates \<Rightarrow>
                    (None, [\<lparr>exp_span = seg_span segment,
                             exp_kind = ExAmbiguousRelation reference candidates\<rparr>]))
           | _ \<Rightarrow> not_a_collection (expr_span path))
      | SourceTable name s \<Rightarrow>
          (case resolve_table_ref_for c (table_ref_parse name) of
             TableFound t \<Rightarrow> (Some (ExistsInTable (tb_id t)), [])
           | TableNotFound reference \<Rightarrow> (None, [\<lparr>exp_span = s, exp_kind = ExTableNotFound reference\<rparr>])
           | TableAmbiguous reference candidates \<Rightarrow>
               (None, [\<lparr>exp_span = s, exp_kind = ExAmbiguousTable reference candidates\<rparr>])))"

definition resolve_existence ::
  "catalog \<Rightarrow> clause_context \<Rightarrow> exists_source \<Rightarrow> span \<Rightarrow> resolved_existence" where
  "resolve_existence c ctx source s =
     (let (src, problems) = resolve_existence_source c ctx source in
      \<lparr>re_span = s, re_source = src, re_problems = problems\<rparr>)"

definition existence_table :: "resolved_existence \<Rightarrow> table_id option" where
  "existence_table e =
     map_option (\<lambda>s. case s of ExistsInRelation r \<Rightarrow> rrs_table r | ExistsInTable t \<Rightarrow> t) (re_source e)"

record resolved_predicate_aggregate =
  rpa_span :: span
  rpa_function_span :: span
  rpa_operand_name_span :: "span option"
  rpa_relation :: "resolved_relation_step option"
  rpa_function :: "aggregate_function option"
  rpa_operand :: "column_id option"
  rpa_data_type :: "data_type option"
  rpa_nullable :: bool
  rpa_problems :: "aggregate_problem list"

definition invalid_predicate_source :: "(string \<Rightarrow> string) \<Rightarrow> expr \<Rightarrow> aggregate_problem list" where
  "invalid_predicate_source dbg source =
     [\<lparr>agp_span = expr_span source,
       agp_kind = PredicateSourceMustBeDirectCollection (expr_display dbg source)\<rparr>]"

definition resolve_predicate_relation ::
  "(string \<Rightarrow> string) \<Rightarrow> catalog \<Rightarrow> clause_context \<Rightarrow> expr
   \<Rightarrow> resolved_relation_step option \<times> aggregate_problem list" where
  "resolve_predicate_relation dbg c ctx source =
     (case source of
        EPath AnchorCurrent [segment] _ \<Rightarrow>
          (case check_field_ref c (cc_table ctx) (segment_reference segment) of
             FieldRelation r \<Rightarrow>
               (Some (relation_step segment r),
                if rel_cardinality (rf_relation r) = RelCollection then []
                else invalid_predicate_source dbg source)
           | _ \<Rightarrow> (None, invalid_predicate_source dbg source))
      | _ \<Rightarrow> (None, invalid_predicate_source dbg source))"

definition resolve_predicate_aggregate ::
  "(string \<Rightarrow> string) \<Rightarrow> catalog \<Rightarrow> clause_context \<Rightarrow> expr \<Rightarrow> string \<Rightarrow> span \<Rightarrow> expr option \<Rightarrow> span
   \<Rightarrow> unit fault + resolved_predicate_aggregate" where
  "resolve_predicate_aggregate dbg c ctx source function function_span operand s =
     (case resolve_predicate_relation dbg c ctx source of
        (None, problems) \<Rightarrow>
          Inr \<lparr>rpa_span = s, rpa_function_span = function_span, rpa_operand_name_span = None,
               rpa_relation = None, rpa_function = None, rpa_operand = None, rpa_data_type = None,
               rpa_nullable = False, rpa_problems = problems\<rparr>
      | (Some r, problems) \<Rightarrow>
          rbind (resolve_aggregate_value dbg c (rrs_table r) Ungrouped function function_span operand s problems)
            (\<lambda>(value, problems).
          Inr \<lparr>rpa_span = s, rpa_function_span = function_span,
               rpa_operand_name_span = rav_operand_name_span value, rpa_relation = Some r,
               rpa_function = rav_function value, rpa_operand = rav_operand value,
               rpa_data_type = rav_data_type value, rpa_nullable = rav_nullable value,
               rpa_problems = problems\<rparr>))"

definition predicate_aggregate_is_valid :: "resolved_predicate_aggregate \<Rightarrow> bool" where
  "predicate_aggregate_is_valid a \<longleftrightarrow>
     rpa_problems a = [] \<and> rpa_relation a \<noteq> None \<and> rpa_function a \<noteq> None \<and> rpa_data_type a \<noteq> None"

definition predicate_aggregate_display_path ::
  "catalog \<Rightarrow> resolved_predicate_aggregate \<Rightarrow> string list option" where
  "predicate_aggregate_display_path c a =
     (case (rpa_relation a, rpa_function a) of
        (Some r, Some f) \<Rightarrow>
          Some ([rrs_display r, aggregate_label f]
            @ (case Option.bind (rpa_operand a) (column_by_id c) of
                 Some col \<Rightarrow> [col_name col] | None \<Rightarrow> []))
      | _ \<Rightarrow> None)"

section \<open>Clauses\<close>

datatype order_direction = OrdAsc | OrdDesc | OrdVariable variable_ref

record order_item =
  oi_field :: string
  oi_field_span :: span
  oi_direction :: "order_direction option"

datatype order_term =
    OrderTermColumn order_item
  | OrderTermDynamic variable_ref dynamic_input_surface

datatype clause_fact =
    ClauseFilterAssignment string span "expr option"
  | ClauseWhere expr
  | ClauseOrderBy "order_term list"
  | ClauseLimit expr
  | ClauseOffset expr

record resolved_order_item =
  roi_span :: span
  roi_column :: "column_id option"
  roi_value_type :: "resolved_value_type option"

record clause_values =
  cv_paths :: "resolved_path list"
  cv_aggregates :: "resolved_predicate_aggregate list"
  cv_existences :: "resolved_existence list"

definition no_clause_values :: clause_values where
  "no_clause_values = \<lparr>cv_paths = [], cv_aggregates = [], cv_existences = []\<rparr>"

fun collect_clause_values ::
  "(string \<Rightarrow> string) \<Rightarrow> catalog \<Rightarrow> clause_context \<Rightarrow> expr \<Rightarrow> clause_values \<Rightarrow> unit fault + clause_values"
and collect_clause_items ::
  "(string \<Rightarrow> string) \<Rightarrow> catalog \<Rightarrow> clause_context \<Rightarrow> expr list \<Rightarrow> clause_values \<Rightarrow> unit fault + clause_values"
  where
  "collect_clause_values dbg c ctx (EBinary op lhs rhs s) v =
     rbind (collect_clause_values dbg c ctx lhs v) (collect_clause_values dbg c ctx rhs)"
| "collect_clause_values dbg c ctx (EUnary op operand s) v = collect_clause_values dbg c ctx operand v"
| "collect_clause_values dbg c ctx (ENullTest operand negated s) v = collect_clause_values dbg c ctx operand v"
| "collect_clause_values dbg c ctx (EList items s) v = collect_clause_items dbg c ctx items v"
| "collect_clause_values dbg c ctx (EExists source filters None s) v =
     Inr (v\<lparr>cv_existences := cv_existences v @ [resolve_existence c ctx source s]\<rparr>)"
| "collect_clause_values dbg c ctx (EExists source filters (Some predicate) s) v =
     (let existence = resolve_existence c ctx source s;
          v = v\<lparr>cv_existences := cv_existences v @ [existence]\<rparr> in
      case existence_table existence of
        Some t \<Rightarrow>
          collect_clause_values dbg c
            \<lparr>cc_root = cc_root ctx, cc_table = t, cc_parent = Some (cc_table ctx)\<rparr> predicate v
      | None \<Rightarrow> Inr v)"
| "collect_clause_values dbg c ctx (EPath anchor segments s) v =
     Inr (v\<lparr>cv_paths := cv_paths v @ [resolve_path dbg c ctx anchor segments s]\<rparr>)"
| "collect_clause_values dbg c ctx (EAggregate source function function_span operand s) v =
     rbind (resolve_predicate_aggregate dbg c ctx source function function_span operand s) (\<lambda>a.
     Inr (v\<lparr>cv_aggregates := cv_aggregates v @ [a]\<rparr>))"
| "collect_clause_values dbg c ctx (ELiteral l s) v = Inr v"
| "collect_clause_values dbg c ctx (EVariable var s) v = Inr v"
| "collect_clause_values dbg c ctx (EDynamicPredicate var surface s) v = Inr v"
| "collect_clause_values dbg c ctx (EPredicateRef name s) v = Inr v"
| "collect_clause_values dbg c ctx (EError s) v = Inr v"
| "collect_clause_items dbg c ctx [] v = Inr v"
| "collect_clause_items dbg c ctx (e # es) v =
     rbind (collect_clause_values dbg c ctx e v) (collect_clause_items dbg c ctx es)"

definition resolve_order_item :: "catalog \<Rightarrow> table_id \<Rightarrow> order_term \<Rightarrow> resolved_order_item option" where
  "resolve_order_item c t term =
     (case term of
        OrderTermDynamic _ _ \<Rightarrow> None
      | OrderTermColumn item \<Rightarrow>
          (case check_field_ref c t \<lparr>fref_target = table_ref_parse (oi_field item), fref_selector = None\<rparr> of
             FieldColumn col \<Rightarrow>
               Some \<lparr>roi_span = oi_field_span item, roi_column = Some (col_id col),
                     roi_value_type = resolved_value_type_for_column c (col_id col)\<rparr>
           | _ \<Rightarrow>
               Some \<lparr>roi_span = oi_field_span item, roi_column = None, roi_value_type = None\<rparr>))"

record resolved_clause =
  rc_clause :: entity
  rc_definition_kind :: def_kind
  rc_source_has_transform :: bool
  rc_context_table_name :: "string option"
  rc_context :: "clause_context option"
  rc_values :: clause_values
  rc_order_items :: "resolved_order_item list"

definition clause_context_of :: "resolved_selection \<Rightarrow> clause_context option" where
  "clause_context_of parent =
     (case (rs_root parent, target_child_context (rs_target parent)) of
        (Some root, Some t) \<Rightarrow> Some \<lparr>cc_root = root, cc_table = t, cc_parent = None\<rparr>
      | _ \<Rightarrow> None)"

definition resolve_clause ::
  "(string \<Rightarrow> string) \<Rightarrow> catalog \<Rightarrow> bool \<Rightarrow> resolved_selection \<Rightarrow> entity \<Rightarrow> clause_fact
   \<Rightarrow> unit fault + resolved_clause" where
  "resolve_clause dbg c has_transform parent clause_entity clause =
     (let ctx = clause_context_of parent in
      rbind (case (ctx, clause) of
               (Some ctx, ClauseWhere e) \<Rightarrow> collect_clause_values dbg c ctx e no_clause_values
             | (Some ctx, ClauseLimit e) \<Rightarrow> collect_clause_values dbg c ctx e no_clause_values
             | (Some ctx, ClauseOffset e) \<Rightarrow> collect_clause_values dbg c ctx e no_clause_values
             | _ \<Rightarrow> Inr no_clause_values) (\<lambda>values.
      Inr \<lparr>rc_clause = clause_entity, rc_definition_kind = rs_definition_kind parent,
           rc_source_has_transform = has_transform,
           rc_context_table_name =
             Option.bind ctx (\<lambda>ctx. map_option tb_name (table_by_id c (cc_table ctx))),
           rc_context = ctx, rc_values = values,
           rc_order_items =
             (case (ctx, clause) of
                (Some ctx, ClauseOrderBy items) \<Rightarrow>
                  List.map_filter (resolve_order_item c (cc_table ctx)) items
              | _ \<Rightarrow> [])\<rparr>))"

section \<open>Aggregate transforms of a selection\<close>

record resolved_aggregate =
  rag_table :: "table_id option"
  rag_mode :: aggregate_mode
  rag_group_keys :: "resolved_group_key list"
  rag_fields :: "resolved_aggregate_field list"
  rag_problems :: "aggregate_problem list"

definition aggregate_source_of :: "resolved_selection \<Rightarrow> table_id option \<times> bool" where
  "aggregate_source_of r =
     (let collection = (case rs_shape r of
                          Some shape \<Rightarrow> shape_cardinality shape = CardCollection | None \<Rightarrow> False) in
      case rs_target r of
        TargetTable t \<Rightarrow> (Some t, collection)
      | TargetRel t _ _ \<Rightarrow> (Some t, collection)
      | _ \<Rightarrow> (None, False))"

text \<open>The loops over group keys and fields, which report into the shared list of problems.\<close>

fun resolve_each ::
  "('a \<Rightarrow> aggregate_problem list \<Rightarrow> unit fault + ('b \<times> aggregate_problem list)) \<Rightarrow> 'a list
   \<Rightarrow> aggregate_problem list \<Rightarrow> unit fault + ('b list \<times> aggregate_problem list)" where
  "resolve_each f [] problems = Inr ([], problems)"
| "resolve_each f (x # xs) problems =
     rbind (f x problems) (\<lambda>(y, problems).
     rbind (resolve_each f xs problems) (\<lambda>(ys, problems). Inr (y # ys, problems)))"

definition report_if :: "bool \<Rightarrow> span \<Rightarrow> aggregate_problem_kind \<Rightarrow> aggregate_problem list \<Rightarrow> aggregate_problem list" where
  "report_if b s k problems = (if b then report s k problems else problems)"

definition grouped_problems ::
  "field_selection_syntax \<Rightarrow> resolved_aggregate_field list \<Rightarrow> aggregate_problem list \<Rightarrow> aggregate_problem list" where
  "grouped_problems sel fs problems =
     foldl (\<lambda>problems f. report_if (raf_function f = Some AggExists) (raf_function_span f)
              ExistsInGroupedAggregate problems)
       (report_if (fsel_flattened sel) (fsel_name_span sel) GroupedCannotFlatten problems) fs"

definition aggregate_output_keys ::
  "resolved_group_key list \<Rightarrow> resolved_aggregate_field list \<Rightarrow> (string \<times> span) list" where
  "aggregate_output_keys keys fs =
     map (\<lambda>k. (rgk_output_name k, rgk_output_span k)) keys
     @ List.map_filter (\<lambda>f. map_option (\<lambda>name. (name, raf_output_span f)) (raf_output_name f)) fs"

definition resolve_aggregate ::
  "(string \<Rightarrow> string) \<Rightarrow> catalog \<Rightarrow> field_selection_syntax \<Rightarrow> resolved_selection \<Rightarrow> aggregate_transform
   \<Rightarrow> unit fault + resolved_aggregate" where
  "resolve_aggregate dbg c sel source transform =
     (let mode = (if atf_group_keys transform = [] then Ungrouped else Grouped);
          (tb, collection) = aggregate_source_of source;
          problems = report_if (atf_name transform \<noteq> ''aggregate'') (atf_name_span transform)
                       (UnknownTransform (atf_name transform)) [];
          problems = report_if (atf_fields transform = []) (atf_span transform) EmptyBody problems;
          problems = report_if (\<not> collection \<and> rs_target source \<noteq> TargetUnresolved) (fsel_name_span sel)
                       (SourceMustBeCollection (fsel_name sel)) problems in
      rbind (case tb of
               None \<Rightarrow> Inr ([], problems)
             | Some t \<Rightarrow> resolve_each (resolve_group_key dbg c t) (atf_group_keys transform) problems)
        (\<lambda>(keys, problems).
      rbind (case tb of
               None \<Rightarrow> Inr ([], problems)
             | Some t \<Rightarrow> resolve_each (resolve_field dbg c t mode) (atf_fields transform) problems)
        (\<lambda>(fs, problems).
      let keys = List.map_filter id keys;
          problems = (if mode = Grouped then grouped_problems sel fs problems else problems) in
      Inr \<lparr>rag_table = tb, rag_mode = mode, rag_group_keys = keys, rag_fields = fs,
           rag_problems = check_output_keys (aggregate_output_keys keys fs) problems\<rparr>)))"

definition aggregate_is_valid :: "resolved_aggregate \<Rightarrow> bool" where
  "aggregate_is_valid a \<longleftrightarrow> rag_problems a = []"

end
