(* ===== verification/Resolution_Correct.thy ===== *)
theory Resolution_Correct
  imports Resolution
begin

text \<open>
  Properties of name resolution: the proofs of at most one row are sound for rows that respect
  the catalog's keys, resolved paths follow the catalog's relations, resolution never indexes
  out of the catalog, and valid aggregates are what planning and generation rely on.
\<close>

section \<open>Rows\<close>

text \<open>A row gives each column a value or null.\<close>

type_synonym 'v row = "column_id \<Rightarrow> 'v option"

text \<open>A SQL unique constraint: no two rows agree on a key without nulls.\<close>

definition unique_on :: "'v row list \<Rightarrow> column_id list \<Rightarrow> bool" where
  "unique_on rows key \<longleftrightarrow>
     (\<forall>i < length rows. \<forall>j < length rows.
        (\<forall>column \<in> set key. (rows ! i) column \<noteq> None \<and> (rows ! i) column = (rows ! j) column) \<longrightarrow> i = j)"

definition respects_keys :: "catalog \<Rightarrow> table_id \<Rightarrow> 'v row list \<Rightarrow> bool" where
  "respects_keys c t rows \<longleftrightarrow>
     (case table_by_id c t of
        None \<Rightarrow> True
      | Some tb \<Rightarrow>
          (tb_primary_key tb \<noteq> [] \<longrightarrow> unique_on rows (tb_primary_key tb)) \<and>
          (\<forall>key \<in> set (tb_unique_constraints tb). unique_on rows key))"

definition requires_equality :: "binary_op \<Rightarrow> bool" where
  "requires_equality op =
     (case op of
        OpComparison cmp \<Rightarrow> cmp = CmpEq | OpVariable v \<Rightarrow> only_equality v | _ \<Rightarrow> False)"

text \<open>
  When a predicate is true on a row: an equality of a column with a value that is never null
  holds where the column has that value; \<open>val\<close> gives the values of literals and inputs, and
  every other predicate is left to \<open>I\<close>.
\<close>

fun predicate_true ::
  "catalog \<Rightarrow> table_id \<Rightarrow> input_refinement list \<Rightarrow> (fixed_value_identity \<Rightarrow> 'v) \<Rightarrow> (expr \<Rightarrow> 'v row \<Rightarrow> bool)
   \<Rightarrow> expr \<Rightarrow> 'v row \<Rightarrow> bool" where
  "predicate_true c t refinements val I (EBinary op lhs rhs s) row =
     (case op of
        OpAnd \<Rightarrow> predicate_true c t refinements val I lhs row \<and> predicate_true c t refinements val I rhs row
      | OpOr \<Rightarrow> predicate_true c t refinements val I lhs row \<or> predicate_true c t refinements val I rhs row
      | _ \<Rightarrow>
          (if requires_equality op then
             (case equality_of c t lhs rhs of
                Some (column, identity) \<Rightarrow>
                  if nullable_identity c column identity refinements (predicate_anonymous_key op)
                  then I (EBinary op lhs rhs s) row
                  else row column = Some (val identity)
              | None \<Rightarrow> I (EBinary op lhs rhs s) row)
           else I (EBinary op lhs rhs s) row))"
| "predicate_true c t refinements val I e row = I e row"

lemma guaranteed_equalities_sound:
  assumes "predicate_true c t refinements val I e row"
    and "guaranteed_equalities c t e refinements column = Some ids"
  shows "ids \<noteq> {} \<and> (\<forall>identity \<in> ids. row column = Some (val identity))"
  using assms
proof (induction e arbitrary: ids rule: expr.induct[where ?P2.0 = "\<lambda>_. True" and ?P3.0 = "\<lambda>_. True"])
  case (EBinary op lhs rhs s)
  have atom: ?case if "single_equality c t op lhs rhs refinements column = Some ids"
    and "requires_equality op"
    using that EBinary.prems
    by (auto simp: requires_equality_def single_equality_def split: option.splits if_splits binary_op.splits)
  show ?case
  proof (cases op)
    case OpAnd
    with EBinary show ?thesis
      by (fastforce simp: equalities_and_def split: option.splits)
  next
    case OpOr
    with EBinary show ?thesis
      by (fastforce simp: equalities_or_def split: option.splits if_splits)
  next
    case (OpComparison op')
    with EBinary.prems(2) have "op' = CmpEq" by (cases op') auto
    with OpComparison EBinary.prems(2) atom show ?thesis by (simp add: requires_equality_def)
  next
    case (OpVariable v)
    with EBinary.prems(2) atom show ?thesis
      by (simp add: requires_equality_def split: if_splits)
  qed (use EBinary.prems in simp_all)
qed simp_all

text \<open>A subsequence of rows with a unique key on which they agree has at most one row.\<close>

lemma filter_unique:
  assumes "\<And>i j. i < length xs \<Longrightarrow> j < length xs \<Longrightarrow> P (xs ! i) \<Longrightarrow> P (xs ! j) \<Longrightarrow> i = j"
  shows "length (filter P xs) \<le> 1"
proof -
  have "card {i. i < length xs \<and> P (xs ! i)} \<le> Suc 0"
    using assms by (subst card_le_Suc0_iff_eq) auto
  then show ?thesis by (simp add: length_filter_conv_card)
qed

lemma length_filter_mono': "(\<And>x. P x \<Longrightarrow> Q x) \<Longrightarrow> length (filter P xs) \<le> length (filter Q xs)"
  by (induction xs) auto

section \<open>At most one row\<close>

lemma unique_key_for_predicate_unique:
  assumes "unique_key_for_predicate c t predicate refinements = Some key"
    and keys: "respects_keys c t rows"
    and P: "\<And>r. P r \<Longrightarrow> predicate_true c t refinements val I predicate r"
  shows "length (filter P rows) \<le> 1"
proof (rule filter_unique)
  define eqs where "eqs = guaranteed_equalities c t predicate refinements"
  from assms(1) obtain tb where tb: "table_by_id c t = Some tb" and covers: "covers_key eqs key"
    and key: "key = tb_primary_key tb \<or> key \<in> set (tb_unique_constraints tb)"
    by (auto simp: unique_key_for_predicate_def Let_def eqs_def split: option.splits if_splits
        dest: find_SomeD)
  from covers have "key \<noteq> []" by (simp add: covers_key_def)
  with key keys tb have unique: "unique_on rows key" by (auto simp: respects_keys_def)
  have fixed: "\<exists>identity. \<forall>r. P r \<longrightarrow> r column = Some (val identity)" if "column \<in> set key" for column
  proof -
    from covers that obtain ids where ids: "eqs column = Some ids"
      by (auto simp: covers_key_def list_all_iff)
    show ?thesis
    proof (cases "\<exists>r. P r")
      case True
      then obtain r where "P r" by blast
      with guaranteed_equalities_sound[OF P] ids obtain identity where "identity \<in> ids"
        unfolding eqs_def by fastforce
      with guaranteed_equalities_sound[OF P] ids show ?thesis unfolding eqs_def by blast
    qed simp
  qed
  fix i j assume "i < length rows" "j < length rows" "P (rows ! i)" "P (rows ! j)"
  moreover have "\<forall>column \<in> set key. (rows ! i) column \<noteq> None \<and> (rows ! i) column = (rows ! j) column"
  proof
    fix column assume "column \<in> set key"
    from fixed[OF this] obtain identity where "\<And>r. P r \<Longrightarrow> r column = Some (val identity)" by blast
    from this[OF \<open>P (rows ! i)\<close>] this[OF \<open>P (rows ! j)\<close>]
    show "(rows ! i) column \<noteq> None \<and> (rows ! i) column = (rows ! j) column" by simp
  qed
  ultimately show "i = j" using unique by (auto simp: unique_on_def)
qed

text \<open>
  What the shape analysis takes from the database: a singular relation joins at most one row,
  and exactly one unless it is nullable. \<open>joins\<close> says which rows of the target belong to the
  row the selection is nested in.
\<close>

definition respects_relation :: "catalog \<Rightarrow> selection_target \<Rightarrow> ('v row \<Rightarrow> bool) \<Rightarrow> 'v row list \<Rightarrow> bool" where
  "respects_relation c target joins rows \<longleftrightarrow>
     (case target of
        TargetRel _ r _ \<Rightarrow>
          (case relation_by_id c r of
             None \<Rightarrow> True
           | Some rel \<Rightarrow>
               rel_cardinality rel = RelSingular \<longrightarrow>
                 length (filter joins rows) \<le> 1 \<and>
                 (\<not> rel_nullable rel \<longrightarrow> length (filter joins rows) = 1))
      | _ \<Rightarrow> True)"

definition source_rows :: "selection_target \<Rightarrow> ('v row \<Rightarrow> bool) \<Rightarrow> 'v row list \<Rightarrow> 'v row list" where
  "source_rows target joins rows =
     (case target of TargetRel _ _ _ \<Rightarrow> filter joins rows | _ \<Rightarrow> rows)"

text \<open>The rows a selection returns: filter, then offset, then limit.\<close>

definition selected_rows ::
  "('v row \<Rightarrow> bool) option \<Rightarrow> nat \<Rightarrow> nat option \<Rightarrow> 'v row list \<Rightarrow> 'v row list" where
  "selected_rows predicate off limit rows =
     (let kept = drop off (case predicate of None \<Rightarrow> rows | Some p \<Rightarrow> filter p rows) in
      case limit of None \<Rightarrow> kept | Some n \<Rightarrow> take n kept)"

definition limit_runs :: "resolved_selection_limit \<Rightarrow> nat option \<Rightarrow> bool" where
  "limit_runs l n \<longleftrightarrow>
     (case l of LimitNone \<Rightarrow> n = None | LimitLiteral v _ \<Rightarrow> n = Some v | LimitRuntime _ \<Rightarrow> True)"

lemma length_selected_rows_le:
  "length (selected_rows predicate off limit rows)
     \<le> length (case predicate of None \<Rightarrow> rows | Some p \<Rightarrow> filter p rows)"
  by (auto simp: selected_rows_def Let_def split: option.splits)

text \<open>
  C9: the analysis of a selection's shape is sound for every database that keeps the catalog's
  unique keys and singular relations: a selection proved to be at most one row returns at most
  one row, and one that is also not nullable returns exactly one, whatever the values of its
  inputs.
\<close>

theorem resolve_selection_shape_sound:
  assumes "resolve_selection_shape c syn ctx target refinements = Some shape"
    and "target_child_context target = Some t"
    and "respects_keys c t rows"
    and "respects_relation c target joins rows"
    and "limit_runs (shape_limit shape) limit"
    and "\<not> sss_has_offset syn \<Longrightarrow> off = 0"
    and "result = selected_rows (map_option (predicate_true c t refinements val I) (sss_predicate syn))
                    off limit (source_rows target joins rows)"
  shows "(shape_cardinality shape = CardAtMostOne \<longrightarrow> length result \<le> 1)
    \<and> (shape_cardinality shape = CardAtMostOne \<and> \<not> shape_nullable shape \<longrightarrow> length result = 1)"
proof -
  define rel where "rel = (case target of
      TargetRel _ r _ \<Rightarrow> map_option snd (option_zip ctx (relation_by_id c r)) | _ \<Rightarrow> None)"
  define singular where "singular = (case rel of Some r \<Rightarrow> rel_cardinality r = RelSingular | None \<Rightarrow> False)"
  define key where "key = Option.bind (sss_predicate syn)
      (\<lambda>predicate. unique_key_for_predicate c t predicate refinements)"
  note shape = assms(1)[unfolded resolve_selection_shape_def assms(2) option.case Let_def,
      folded rel_def, folded singular_def, folded key_def]
  have lim: "shape_limit shape = resolve_limit (sss_limit syn)"
    and proved: "shape_cardinality shape = CardAtMostOne \<longleftrightarrow>
      singular \<or> key \<noteq> None \<or> is_limit_one (shape_limit shape)"
    using shape by (auto simp: shape_proof_for_def split: if_splits option.splits)
  have is_rel: "\<exists>r s. target = TargetRel t r s \<and> relation_by_id c r = rel" if "rel \<noteq> None"
    using that assms(2)
    by (auto simp: rel_def option_zip_def target_child_context_def split: selection_target.splits option.splits)
  have one: "length (filter joins rows) \<le> 1
      \<and> ((\<exists>r. rel = Some r \<and> \<not> rel_nullable r) \<longrightarrow> length (filter joins rows) = 1)"
    and src: "source_rows target joins rows = filter joins rows" if singular
  proof -
    from that obtain r where "rel = Some r" "rel_cardinality r = RelSingular"
      by (auto simp: singular_def split: option.splits)
    with is_rel assms(4) show "length (filter joins rows) \<le> 1
      \<and> ((\<exists>r. rel = Some r \<and> \<not> rel_nullable r) \<longrightarrow> length (filter joins rows) = 1)"
      by (auto simp: respects_relation_def)
    from \<open>rel = Some r\<close> is_rel show "source_rows target joins rows = filter joins rows"
      by (auto simp: source_rows_def)
  qed
  have "length result \<le> 1" if "shape_cardinality shape = CardAtMostOne"
    using that[unfolded proved]
  proof (elim disjE)
    assume singular
    have "length result \<le> length (source_rows target joins rows)"
      unfolding assms(7) by (rule order_trans[OF length_selected_rows_le]) (auto split: option.splits)
    with src[OF \<open>singular\<close>] one[OF \<open>singular\<close>] show ?thesis by simp
  next
    assume "key \<noteq> None"
    then obtain predicate k where predicate: "sss_predicate syn = Some predicate"
      and k: "unique_key_for_predicate c t predicate refinements = Some k"
      by (auto simp: key_def bind_eq_Some_conv)
    let ?P = "predicate_true c t refinements val I predicate"
    have "length (filter ?P (source_rows target joins rows)) \<le> length (filter ?P rows)"
      by (auto simp: source_rows_def filter_filter intro!: length_filter_mono' split: selection_target.splits)
    also have "\<dots> \<le> 1" by (rule unique_key_for_predicate_unique[OF k assms(3)])
    finally show ?thesis
      using length_selected_rows_le[of "Some ?P" off limit "source_rows target joins rows"]
      by (simp add: assms(7) predicate)
  next
    assume "is_limit_one (shape_limit shape)"
    with assms(5) have "limit = Some 1"
      by (auto simp: is_limit_one_def limit_runs_def split: resolved_selection_limit.splits)
    then show ?thesis by (simp add: assms(7) selected_rows_def Let_def)
  qed
  moreover have "length result = 1"
    if "shape_cardinality shape = CardAtMostOne" "\<not> shape_nullable shape"
  proof -
    from shape that have "\<not> shape_nullable_for target rel singular syn (shape_limit shape)" by auto
    with assms(2) obtain r where r: singular "rel = Some r" "\<not> rel_nullable r"
      and plain: "sss_predicate syn = None" "\<not> sss_has_offset syn" "\<not> may_suppress (shape_limit shape)"
      by (auto simp: shape_nullable_for_def target_child_context_def
          split: selection_target.splits option.splits)
    from plain(3) assms(5) have "limit = None \<or> (\<exists>n. limit = Some n \<and> n \<noteq> 0)"
      by (auto simp: may_suppress_def limit_runs_def split: resolved_selection_limit.splits)
    moreover from plain assms(6) have "off = 0" by simp
    ultimately show ?thesis
      using one[OF r(1)] src[OF r(1)] r plain(1)
      by (auto simp: assms(7) selected_rows_def Let_def)
  qed
  ultimately show ?thesis by blast
qed

section \<open>Paths\<close>

text \<open>
  The relation steps of a path join up: each starts at the table where the previous one ends,
  the first at \<open>t\<close>, and the last leads to \<open>u\<close>.
\<close>

fun steps_connect :: "catalog \<Rightarrow> table_id \<Rightarrow> resolved_relation_step list \<Rightarrow> table_id \<Rightarrow> bool" where
  "steps_connect c t [] u = (t = u)"
| "steps_connect c t (s # ss) u =
     (case relation_by_id c (rrs_relation s) of
        None \<Rightarrow> False
      | Some r \<Rightarrow> rel_from_table r = t \<and> rel_to_table r = rrs_table s \<and> steps_connect c (rrs_table s) ss u)"

definition terminal_sound :: "catalog \<Rightarrow> table_id \<Rightarrow> resolved_relation_step list \<Rightarrow> path_terminal \<Rightarrow> bool" where
  "terminal_sound c start steps terminal \<longleftrightarrow>
     (case terminal of
        TerminalColumn _ _ _ t column value_type \<Rightarrow>
          steps_connect c start steps t \<and>
          (case column_by_id c column of
             None \<Rightarrow> False
           | Some col \<Rightarrow> col_table col = t \<and> col_visible col) \<and>
          value_type = resolved_value_type_for_column c column \<and> value_type \<noteq> None
      | _ \<Rightarrow> \<exists>u. steps_connect c start steps u)"

lemma column_has_type:
  assumes "catalog_wf c" and "column_by_id c i = Some col"
  shows "\<exists>t. type_by_id c (col_type_id col) = Some t"
proof -
  from assms(2) have "i < length (cat_columns c)" "cat_columns c ! i = col"
    by (auto simp: column_by_id_def get_at_Some_iff)
  with assms(1) have "col_type_id col < length (cat_types c)"
    by (auto simp: catalog_wf_defs Let_def)
  then show ?thesis by (auto simp: type_by_id_def get_at_Some_iff)
qed

lemma resolve_segments_sound:
  assumes "catalog_wf c"
  shows "case resolve_segments c start segments of (steps, terminal) \<Rightarrow> terminal_sound c start steps terminal"
proof (induction segments arbitrary: start rule: induct_list012)
  case 1
  show ?case by (auto simp: terminal_sound_def intro!: exI[of _ start])
next
  case (2 seg)
  show ?case
  proof (cases "check_field_ref c start (segment_reference seg)")
    case (FieldColumn col)
    from check_field_ref_column[OF assms this] have col: "col_visible col" "col_table col = start"
      "column_by_id c (col_id col) = Some col" by auto
    with column_has_type[OF assms col(3)] FieldColumn show ?thesis
      by (auto simp: terminal_sound_def resolved_value_type_for_column_def type_for_column_def)
  qed (auto simp: terminal_sound_def intro!: exI[of _ start])
next
  case (3 seg nxt rest)
  show ?case
  proof (cases "check_field_ref c start (segment_reference seg)")
    case (FieldRelation r)
    from check_field_ref_relation[OF assms this]
    have r: "relation_by_id c (rel_id (rf_relation r)) = Some (rf_relation r)"
      "rel_from_table (rf_relation r) = start" "rel_to_table (rf_relation r) = tb_id (rf_table r)" by auto
    from 3(2)[of "tb_id (rf_table r)"] FieldRelation show ?thesis
      by (auto simp: terminal_sound_def relation_step_def r split: prod.splits path_terminal.splits)
  qed (auto simp: terminal_sound_def intro!: exI[of _ start])
qed

text \<open>
  C23: a resolved predicate path follows the catalog: from the table its anchor names, each step
  is a relation that starts where the previous one ended, and a path that resolves ends in a
  visible column of the last table with the type the catalog gives it; a path without a start
  is out of scope.
\<close>

theorem resolve_path_sound:
  assumes "catalog_wf c"
  shows "case path_start ctx anchor of
      None \<Rightarrow> rp_terminal (resolve_path dbg c ctx anchor segments s) = TerminalOutOfScope
    | Some start \<Rightarrow>
        terminal_sound c start (rp_relations (resolve_path dbg c ctx anchor segments s))
          (rp_terminal (resolve_path dbg c ctx anchor segments s))"
proof (cases "path_start ctx anchor")
  case (Some start)
  with resolve_segments_sound[OF assms, of start segments] show ?thesis
    by (auto simp: resolve_path_def split: prod.splits)
qed (simp add: resolve_path_def)

section \<open>No panics\<close>

text \<open>\<open>returns m Q\<close>: the computation returns a result, and it satisfies \<open>Q\<close>.\<close>

definition returns :: "'e + 'a \<Rightarrow> ('a \<Rightarrow> bool) \<Rightarrow> bool" where
  "returns m Q \<longleftrightarrow> (case m of Inl _ \<Rightarrow> False | Inr x \<Rightarrow> Q x)"

lemma returns_simps [simp]:
  "returns (Inr x) Q \<longleftrightarrow> Q x"
  "\<not> returns (Inl e) Q"
  "returns (rbind m f) Q \<longleftrightarrow> returns m (\<lambda>x. returns (f x) Q)"
  by (simp_all add: returns_def rbind_def split: sum.splits)

lemma returns_mono: "returns m P \<Longrightarrow> (\<And>x. P x \<Longrightarrow> Q x) \<Longrightarrow> returns m Q"
  by (auto simp: returns_def split: sum.splits)

lemma returnsE: "returns m Q \<Longrightarrow> (\<And>x. m = Inr x \<Longrightarrow> Q x \<Longrightarrow> thesis) \<Longrightarrow> thesis"
  by (auto simp: returns_def split: sum.splits)

lemma data_type_for_column_returns:
  assumes "catalog_wf c" and "column_by_id c i = Some col"
  shows "returns (data_type_for_column c i) (\<lambda>t. True)"
proof -
  from assms(2) have "i < length (cat_columns c)" "cat_columns c ! i = col"
    by (simp_all add: column_by_id_def get_at_Some_iff)
  moreover obtain ty where "col_type_id col < length (cat_types c)"
    using column_has_type[OF assms] by (auto simp: type_by_id_def get_at_Some_iff)
  ultimately show ?thesis by (simp add: data_type_for_column_def index_at_def)
qed

section \<open>Aggregate values\<close>

text \<open>
  The contract of a resolved aggregate value without problems: which column it reads, the type
  the provider's capabilities give it, and when it may be null.
\<close>

definition value_typed ::
  "catalog \<Rightarrow> table_id \<Rightarrow> aggregate_mode \<Rightarrow> aggregate_function option \<Rightarrow> column_id option
   \<Rightarrow> data_type option \<Rightarrow> bool \<Rightarrow> bool" where
  "value_typed c t mode function operand data_type nullable \<longleftrightarrow>
     (case function of
        None \<Rightarrow> False
      | Some AggCount \<Rightarrow> data_type = Some DtBigInt \<and> \<not> nullable
      | Some AggExists \<Rightarrow> data_type = Some DtBoolean \<and> \<not> nullable \<and> operand = None
      | Some f \<Rightarrow>
          (case Option.bind operand (column_by_id c) of
             None \<Rightarrow> False
           | Some col \<Rightarrow>
               col_table col = t \<and> col_visible col \<and>
               data_type \<noteq> None \<and>
               data_type = Option.bind (capabilities_for_column c (col_id col)) (\<lambda>caps.
                 case data_type_for_column c (col_id col) of
                   Inl _ \<Rightarrow> None | Inr d \<Rightarrow> aggregate_result (cap_aggregates caps) f d) \<and>
               (nullable \<longleftrightarrow> mode = Ungrouped \<or> \<not> col_not_null col)))"

lemma direct_operand_column_facts:
  assumes "catalog_wf c" and "direct_operand_column c t operand = Some col"
  shows "col_visible col \<and> col_table col = t \<and> column_by_id c (col_id col) = Some col"
  using assms check_field_ref_column[OF assms(1)]
  by (auto simp: direct_operand_column_def split: expr.splits path_anchor.splits list.splits
      if_splits field_check_result.splits)

lemma report_nonempty [simp]: "report s k problems \<noteq> []"
  by (simp add: report_def)

lemma resolve_value_operand_facts:
  assumes "catalog_wf c"
  shows "returns (resolve_value_operand dbg c t operand resolved problems) (\<lambda>(v, problems').
    rav_function v = rav_function resolved \<and> rav_nullable v = rav_nullable resolved \<and>
    (problems' = [] \<longrightarrow> problems = [] \<and>
      (\<exists>col d. column_by_id c (col_id col) = Some col \<and> col_table col = t \<and> col_visible col \<and>
         rav_operand v = Some (col_id col) \<and> rav_data_type v = Some d \<and>
         data_type_for_column c (col_id col) = Inr d)))"
proof (cases "direct_operand_column c t operand")
  case None
  then show ?thesis by (simp add: resolve_value_operand_def)
next
  case (Some col)
  from direct_operand_column_facts[OF assms this] have col: "col_visible col" "col_table col = t"
    "column_by_id c (col_id col) = Some col" by auto
  from data_type_for_column_returns[OF assms col(3)] obtain d where
    "data_type_for_column c (col_id col) = Inr d" by (blast elim: returnsE)
  with Some col show ?thesis by (auto simp: resolve_value_operand_def)
qed

lemma resolve_operand_aggregate_facts:
  assumes "catalog_wf c" and "f \<noteq> AggCount" and "f \<noteq> AggExists" and "rav_function resolved = Some f"
  shows "returns (resolve_operand_aggregate dbg c t mode f operand resolved problems) (\<lambda>(v, problems').
    rav_function v = Some f \<and>
    (problems' = [] \<longrightarrow> problems = [] \<and>
      value_typed c t mode (rav_function v) (rav_operand v) (rav_data_type v) (rav_nullable v)))"
proof -
  have typed: "value_typed c t mode (Some f) (Some (col_id col)) (Some r) (mode = Ungrouped \<or> \<not> col_not_null col)"
    if "column_by_id c (col_id col) = Some col" "col_table col = t" "col_visible col"
      "data_type_for_column c (col_id col) = Inr d" "capabilities_for_column c (col_id col) = Some caps"
      "aggregate_result (cap_aggregates caps) f d = Some r" for col d caps r
    using that assms(2,3) by (cases f) (simp_all add: value_typed_def)
  from resolve_value_operand_facts[OF assms(1), of dbg t operand resolved problems]
  obtain v problems' where v: "resolve_value_operand dbg c t operand resolved problems = Inr (v, problems')"
    and "rav_function v = Some f"
    and clean: "problems' = [] \<longrightarrow> problems = [] \<and>
      (\<exists>col d. column_by_id c (col_id col) = Some col \<and> col_table col = t \<and> col_visible col \<and>
         rav_operand v = Some (col_id col) \<and> rav_data_type v = Some d \<and>
         data_type_for_column c (col_id col) = Inr d)"
    using assms(4) by (auto elim!: returnsE)
  show ?thesis
  proof (cases "problems' = []")
    case True
    with clean obtain col d where "problems = []" "column_by_id c (col_id col) = Some col"
      "col_table col = t" "col_visible col" "rav_operand v = Some (col_id col)" "rav_data_type v = Some d"
      "data_type_for_column c (col_id col) = Inr d" by blast
    with typed v \<open>rav_function v = Some f\<close> show ?thesis
      by (auto simp: resolve_operand_aggregate_def Let_def bind_eq_Some_conv split: option.splits)
  next
    case False
    with v \<open>rav_function v = Some f\<close> show ?thesis
      by (auto simp: resolve_operand_aggregate_def Let_def split: option.splits)
  qed
qed

lemma resolve_aggregate_value_facts:
  assumes "catalog_wf c"
  shows "returns (resolve_aggregate_value dbg c t mode name function_span operand value_span problems)
    (\<lambda>(v, problems').
      rav_function v = aggregate_function_of name \<and>
      (problems' = [] \<longrightarrow> problems = [] \<and>
        value_typed c t mode (rav_function v) (rav_operand v) (rav_data_type v) (rav_nullable v)))"
proof (cases "aggregate_function_of name")
  case None
  then show ?thesis by (simp add: resolve_aggregate_value_def Let_def)
next
  case (Some f)
  note operand_case = resolve_operand_aggregate_facts[OF assms, of f]
  show ?thesis
  proof (cases f)
    case AggCount
    with Some show ?thesis
    proof (cases operand)
      case (Some e)
      show ?thesis
        using \<open>aggregate_function_of name = Some f\<close> AggCount Some
        by (auto simp: resolve_aggregate_value_def Let_def value_typed_def
            intro!: returns_mono[OF resolve_value_operand_facts[OF assms]])
    qed (simp add: resolve_aggregate_value_def Let_def value_typed_def)
  next
    case AggExists
    with Some show ?thesis
      by (simp add: resolve_aggregate_value_def Let_def value_typed_def split: option.splits)
  qed (use Some operand_case in
      \<open>auto simp: resolve_aggregate_value_def Let_def split: option.splits\<close>)
qed

lemma require_alias_clean [simp]:
  "require_alias field f problems = [] \<longleftrightarrow> problems = [] \<and> afs_alias field \<noteq> None"
  by (simp add: require_alias_def)

lemma or_else_Some [simp]: "or_else (Some x) d = x" "or_else None d = d"
  by (simp_all add: or_else_def)

text \<open>A field without problems has a function, an output name and a type.\<close>

definition field_ready :: "catalog \<Rightarrow> table_id \<Rightarrow> aggregate_mode \<Rightarrow> aggregate_field_syntax \<Rightarrow> resolved_aggregate_field \<Rightarrow> bool" where
  "field_ready c t mode syn f \<longleftrightarrow>
     raf_function f = aggregate_function_of (afs_function syn) \<and> raf_output_name f \<noteq> None \<and>
     value_typed c t mode (raf_function f) (raf_operand f) (raf_data_type f) (raf_nullable f)"

lemma operand_missing:
  assumes "f \<noteq> AggCount" "f \<noteq> AggExists" "aggregate_function_of name = Some f"
  shows "resolve_aggregate_value dbg c t mode name function_span None value_span problems
    = Inr (\<lparr>rav_function = Some f, rav_operand = None, rav_operand_span = None,
        rav_operand_name_span = None, rav_data_type = None, rav_nullable = False\<rparr>,
        report function_span (MissingOperand f) problems)"
  using assms by (cases f) (auto simp: resolve_aggregate_value_def Let_def operand_name_span_def)

lemma resolve_field_facts:
  assumes "catalog_wf c"
  shows "returns (resolve_field dbg c t mode syn problems) (\<lambda>(f, problems').
    problems' = [] \<longrightarrow> problems = [] \<and> field_ready c t mode syn f)"
proof -
  from resolve_aggregate_value_facts[OF assms]
  obtain v problems1 where v: "resolve_aggregate_value dbg c t mode (afs_function syn)
      (afs_function_span syn) (afs_operand syn) (afs_span syn) problems = Inr (v, problems1)"
    and f: "rav_function v = aggregate_function_of (afs_function syn)"
    and clean: "problems1 = [] \<longrightarrow> problems = [] \<and>
        value_typed c t mode (rav_function v) (rav_operand v) (rav_data_type v) (rav_nullable v)"
    by (fastforce elim: returnsE)
  show ?thesis
  proof (cases "rav_function v")
    case None
    with v clean show ?thesis by (simp add: resolve_field_def Let_def value_typed_def)
  next
    case (Some g)
    show ?thesis
    proof (cases "afs_operand syn = None \<and> g \<noteq> AggCount \<and> g \<noteq> AggExists")
      case True
      with operand_missing[of g "afs_function syn"] f Some v
      have "problems1 \<noteq> []" by auto
      with True v Some show ?thesis by (cases g) (simp_all add: resolve_field_def Let_def)
    next
      case False
      have fg: "aggregate_function_of (afs_function syn) = Some g" using f Some by simp
      show ?thesis using False v Some clean
        by (cases g) (auto simp: resolve_field_def Let_def field_ready_def fg)
    qed
  qed
qed

text \<open>A group key without problems is a visible column of the source.\<close>

definition key_ready :: "catalog \<Rightarrow> table_id \<Rightarrow> resolved_group_key option \<Rightarrow> bool" where
  "key_ready c t key \<longleftrightarrow>
     (case key of
        None \<Rightarrow> False
      | Some k \<Rightarrow>
          (case column_by_id c (rgk_column k) of
             None \<Rightarrow> False
           | Some col \<Rightarrow> col_table col = t \<and> col_visible col \<and>
               data_type_for_column c (rgk_column k) = Inr (rgk_data_type k) \<and>
               rgk_nullable k = (\<not> col_not_null col)))"

lemma resolve_group_key_facts:
  assumes "catalog_wf c"
  shows "returns (resolve_group_key dbg c t syn problems) (\<lambda>(key, problems').
    problems' = [] \<longrightarrow> problems = [] \<and> key_ready c t key)"
proof -
  have invalid: "returns (Inr (None, report s k problems)) (\<lambda>(key, problems').
    problems' = [] \<longrightarrow> problems = [] \<and> key_ready c t key)" for s k
    by simp
  have column: "returns (rbind (data_type_for_column c (col_id col)) (\<lambda>d.
        Inr (Some \<lparr>rgk_output_name = n, rgk_output_span = os, rgk_column = col_id col,
          rgk_column_span = cs, rgk_data_type = d, rgk_nullable = \<not> col_not_null col\<rparr>, problems)))
      (\<lambda>(key, problems'). problems' = [] \<longrightarrow> problems = [] \<and> key_ready c t key)"
    if "check_field_ref c t r = FieldColumn col" for col r n os cs
  proof -
    from check_field_ref_column[OF assms that] have col: "col_visible col" "col_table col = t"
      "column_by_id c (col_id col) = Some col" by auto
    from data_type_for_column_returns[OF assms col(3)] obtain d where
      "data_type_for_column c (col_id col) = Inr d" by (blast elim: returnsE)
    with col show ?thesis by (simp add: key_ready_def)
  qed
  show ?thesis
    unfolding resolve_group_key_def Let_def
    using invalid column
    by (auto split: expr.splits list.splits field_check_result.splits simp del: returns_simps)
qed

lemma resolve_each_facts:
  assumes "\<And>x problems. returns (f x problems) (\<lambda>(y, problems'). problems' = [] \<longrightarrow> problems = [] \<and> Q x y)"
  shows "returns (resolve_each f xs problems) (\<lambda>(ys, problems').
    problems' = [] \<longrightarrow> problems = [] \<and> list_all2 Q xs ys)"
proof (induction xs arbitrary: problems)
  case Nil
  then show ?case by simp
next
  case (Cons x xs)
  from assms obtain y problems1 where y: "f x problems = Inr (y, problems1)"
    and "problems1 = [] \<longrightarrow> problems = [] \<and> Q x y" by (fastforce elim: returnsE)
  moreover from Cons.IH obtain ys problems2 where "resolve_each f xs problems1 = Inr (ys, problems2)"
    and "problems2 = [] \<longrightarrow> problems1 = [] \<and> list_all2 Q xs ys" by (fastforce elim: returnsE)
  ultimately show ?case by auto
qed

section \<open>Aggregate transforms\<close>

lemma check_output_keys_loop_clean:
  assumes "check_output_keys_loop seen keys problems = []"
  shows "problems = [] \<and> distinct (map fst keys) \<and> set (map fst keys) \<inter> set seen = {}
    \<and> list_all (\<lambda>(key, _). length key \<le> postgres_result_alias_max_bytes) keys"
  using assms
proof (induction seen keys problems rule: check_output_keys_loop.induct)
  case (2 seen key s rest problems)
  then show ?case by (auto simp: Let_def split: if_splits)
qed simp

lemma grouped_problems_clean:
  assumes "grouped_problems sel fs problems = []"
  shows "problems = [] \<and> \<not> fsel_flattened sel \<and> list_all (\<lambda>f. raf_function f \<noteq> Some AggExists) fs"
proof -
  have "foldl (\<lambda>problems f. report_if (raf_function f = Some AggExists) (raf_function_span f)
            ExistsInGroupedAggregate problems) problems fs = []
      \<Longrightarrow> problems = [] \<and> list_all (\<lambda>f. raf_function f \<noteq> Some AggExists) fs" for problems
  proof (induction fs arbitrary: problems)
    case (Cons f fs)
    from Cons.IH[OF Cons.prems[unfolded foldl_Cons]] show ?case
      by (simp add: report_if_def split: if_splits)
  qed simp
  from this[OF assms[unfolded grouped_problems_def]] show ?thesis
    by (auto simp: report_if_def split: if_splits)
qed

lemma ready_keys:
  assumes "list_all2 (\<lambda>_. key_ready c t) syns keys"
  shows "length (List.map_filter id keys) = length syns
    \<and> list_all (\<lambda>k. key_ready c t (Some k)) (List.map_filter id keys)"
  using assms
  by (induction rule: list_all2_induct) (auto simp: List.map_filter_simps key_ready_def split: option.splits)

text \<open>What planning relies on when an aggregate has no problems.\<close>

definition aggregate_ready ::
  "catalog \<Rightarrow> field_selection_syntax \<Rightarrow> aggregate_transform \<Rightarrow> table_id \<Rightarrow> resolved_aggregate \<Rightarrow> bool" where
  "aggregate_ready c sel transform t a \<longleftrightarrow>
     atf_name transform = ''aggregate'' \<and> rag_table a = Some t \<and> rag_fields a \<noteq> [] \<and>
     (rag_mode a = Ungrouped \<longleftrightarrow> rag_group_keys a = []) \<and>
     length (rag_group_keys a) = length (atf_group_keys transform) \<and>
     list_all (\<lambda>k. key_ready c t (Some k)) (rag_group_keys a) \<and>
     list_all2 (field_ready c t (rag_mode a)) (atf_fields transform) (rag_fields a) \<and>
     distinct (map fst (aggregate_output_keys (rag_group_keys a) (rag_fields a))) \<and>
     list_all (\<lambda>(key, _). length key \<le> postgres_result_alias_max_bytes)
       (aggregate_output_keys (rag_group_keys a) (rag_fields a)) \<and>
     (rag_mode a = Grouped \<longrightarrow>
        \<not> fsel_flattened sel \<and> list_all (\<lambda>f. raf_function f \<noteq> Some AggExists) (rag_fields a))"

lemma resolve_aggregate_facts:
  assumes "catalog_wf c"
  shows "returns (resolve_aggregate dbg c sel source transform) (\<lambda>a.
    rag_problems a = [] \<and> rs_target source \<noteq> TargetUnresolved \<longrightarrow>
      (\<exists>t. aggregate_source_of source = (Some t, True) \<and> aggregate_ready c sel transform t a))"
proof -
  obtain tb collection where src: "aggregate_source_of source = (tb, collection)" by fastforce
  define mode where "mode = (if atf_group_keys transform = [] then Ungrouped else Grouped)"
  define p0 where "p0 = report_if (\<not> collection \<and> rs_target source \<noteq> TargetUnresolved) (fsel_name_span sel)
      (SourceMustBeCollection (fsel_name sel))
      (report_if (atf_fields transform = []) (atf_span transform) EmptyBody
        (report_if (atf_name transform \<noteq> ''aggregate'') (atf_name_span transform)
          (UnknownTransform (atf_name transform)) []))"
  note unfolded = resolve_aggregate_def Let_def src prod.case mode_def[symmetric] p0_def[symmetric]
  have p0: "atf_name transform = ''aggregate'' \<and> atf_fields transform \<noteq> []
      \<and> (rs_target source \<noteq> TargetUnresolved \<longrightarrow> collection)" if "p0 = []"
    using that by (auto simp: p0_def report_if_def split: if_splits)
  show ?thesis
  proof (cases tb)
    case None
    with src have "\<not> collection"
      by (auto simp: aggregate_source_of_def Let_def split: selection_target.splits)
    with p0 have "rs_target source \<noteq> TargetUnresolved \<Longrightarrow> p0 \<noteq> []" by blast
    with None show ?thesis
      unfolding unfolded
      by (auto dest!: check_output_keys_loop_clean grouped_problems_clean
          simp: check_output_keys_def split: if_splits)
  next
    case (Some t)
    from resolve_each_facts[where f = "resolve_group_key dbg c t" and Q = "\<lambda>_. key_ready c t",
        OF resolve_group_key_facts[OF assms]]
    obtain keys p1 where keys: "resolve_each (resolve_group_key dbg c t) (atf_group_keys transform) p0
        = Inr (keys, p1)"
      and p1: "p1 = [] \<longrightarrow> p0 = [] \<and> list_all2 (\<lambda>_. key_ready c t) (atf_group_keys transform) keys"
      by (fastforce elim: returnsE)
    from resolve_each_facts[where f = "resolve_field dbg c t mode" and Q = "field_ready c t mode",
        OF resolve_field_facts[OF assms]]
    obtain fs p2 where fs: "resolve_each (resolve_field dbg c t mode) (atf_fields transform) p1
        = Inr (fs, p2)"
      and p2: "p2 = [] \<longrightarrow> p1 = [] \<and> list_all2 (field_ready c t mode) (atf_fields transform) fs"
      by (fastforce elim: returnsE)
    define ks where "ks = List.map_filter id keys"
    define p3 where "p3 = (if mode = Grouped then grouped_problems sel fs p2 else p2)"
    let ?a = "\<lparr>rag_table = tb, rag_mode = mode, rag_group_keys = ks, rag_fields = fs,
           rag_problems = check_output_keys (aggregate_output_keys ks fs) p3\<rparr>"
    have run: "resolve_aggregate dbg c sel source transform = Inr ?a"
      by (simp add: unfolded Some keys fs ks_def p3_def)
    show ?thesis
    proof (cases "rag_problems ?a = [] \<and> rs_target source \<noteq> TargetUnresolved")
      case True
      then have out: "p3 = []" "distinct (map fst (aggregate_output_keys ks fs))"
        "list_all (\<lambda>(key, _). length key \<le> postgres_result_alias_max_bytes) (aggregate_output_keys ks fs)"
        using check_output_keys_loop_clean[of "[]" "aggregate_output_keys ks fs" p3]
        by (simp_all add: check_output_keys_def)
      have grouped: "p2 = []" "mode = Grouped \<longrightarrow>
          \<not> fsel_flattened sel \<and> list_all (\<lambda>f. raf_function f \<noteq> Some AggExists) fs"
        using out(1) grouped_problems_clean[of sel fs p2] by (auto simp: p3_def split: if_splits)
      with p1 p2 have steps: "p0 = []" "list_all2 (\<lambda>_. key_ready c t) (atf_group_keys transform) keys"
        "list_all2 (field_ready c t mode) (atf_fields transform) fs" by auto
      from ready_keys[OF steps(2)] have ks: "length ks = length (atf_group_keys transform)"
        "list_all (\<lambda>k. key_ready c t (Some k)) ks" by (simp_all add: ks_def)
      have "fs \<noteq> []" using steps(3) p0[OF steps(1)] by auto
      moreover have "mode = Ungrouped \<longleftrightarrow> ks = []" using ks(1) by (auto simp: mode_def)
      ultimately have "aggregate_ready c sel transform t ?a"
        using p0[OF steps(1)] ks steps(3) out grouped Some by (simp add: aggregate_ready_def)
      with run p0[OF steps(1)] True Some src show ?thesis by auto
    qed (use run in auto)
  qed
qed

text \<open>
  C17: aggregate transforms resolve without panics, and one that resolves without problems is
  exactly what planning and SQL generation rely on: the source is a collection, every group key
  and every operand is a visible column of the source table, the result type is the one the
  type's capabilities give, the output keys are distinct and fit a PostgreSQL result alias, and
  a grouped transform is neither flattened nor an existence test.
\<close>

theorem resolve_aggregate_sound:
  assumes "catalog_wf c"
  shows "\<exists>a. resolve_aggregate dbg c sel source transform = Inr a \<and>
    (aggregate_is_valid a \<and> rs_target source \<noteq> TargetUnresolved \<longrightarrow>
      (\<exists>t. aggregate_source_of source = (Some t, True) \<and> aggregate_ready c sel transform t a))"
  using resolve_aggregate_facts[OF assms, of dbg sel source transform]
  by (auto simp: aggregate_is_valid_def elim: returnsE)

section \<open>Clauses\<close>

lemma resolve_predicate_aggregate_returns:
  assumes "catalog_wf c"
  shows "returns (resolve_predicate_aggregate dbg c ctx source function function_span operand s) (\<lambda>_. True)"
  by (auto simp: resolve_predicate_aggregate_def split: prod.splits option.splits
      intro!: returns_mono[OF resolve_aggregate_value_facts[OF assms]])

lemma collect_clause_values_returns:
  assumes "catalog_wf c"
  shows "returns (collect_clause_values dbg c ctx e v) (\<lambda>_. True)"
    and "returns (collect_clause_items dbg c ctx es v) (\<lambda>_. True)"
  using assms
proof (induction dbg c ctx e v and dbg c ctx es v rule: collect_clause_values_collect_clause_items.induct)
  case (6 dbg c ctx source filters predicate s v)
  then show ?case by (auto simp: Let_def split: option.splits)
next
  case (8 dbg c ctx source f fs operand s v)
  then show ?case by (simp add: resolve_predicate_aggregate_returns)
next
  case (1 dbg c ctx lhs op rhs s v)
  then show ?case by (fastforce simp: returns_def split: sum.splits)
next
  case (15 dbg c ctx e es v)
  then show ?case by (fastforce simp: returns_def split: sum.splits)
qed simp_all

text \<open>
  Resolving a clause never indexes outside the catalog: on a well-formed catalog every
  clause, whatever it contains, resolves to a value.
\<close>

theorem resolve_clause_total:
  assumes "catalog_wf c"
  shows "\<exists>rc. resolve_clause dbg c has_transform parent entity clause = Inr rc
    \<and> rc_context rc = clause_context_of parent
    \<and> rc_definition_kind rc = rs_definition_kind parent"
proof -
  have "returns (resolve_clause dbg c has_transform parent entity clause) (\<lambda>rc.
      rc_context rc = clause_context_of parent \<and> rc_definition_kind rc = rs_definition_kind parent)"
    using collect_clause_values_returns(1)[OF assms]
    by (auto simp: resolve_clause_def Let_def split: option.splits clause_fact.splits
        intro: returns_mono)
  then show ?thesis by (blast elim: returnsE)
qed

end
