(* ===== verification/Sql_Witnesses.thy ===== *)
theory Sql_Witnesses
  imports Catalog_Provider Sql_Generate_Correct Resolution_Correct
begin

text \<open>
  Concrete instances of the properties of SQL generation and name resolution on the development
  catalog: plans over its \<open>users\<close> and \<open>posts\<close> with policies, limits and dynamic inputs. The
  renderer is a constant function, since no property depends on it.
\<close>

section \<open>Sample plans\<close>

definition sample_rend :: "select \<Rightarrow> string" where
  "sample_rend q = ''SELECT x''"

text \<open>A policy that hides \<open>users.email\<close> from everyone.\<close>

definition sample_policy :: policy_field_filter where
  "sample_policy = PolicyFieldFilter (TargetColumn 2) (FLiteral (FlBool False)) []"

definition sample_view :: sql_row_view where
  "sample_view = readable_view (context_for (cat_tables hardcoded ! 0) ''users'' [''users'']) [sample_policy]"

definition sample_scope :: filter_sql_scope where
  "sample_scope = \<lparr>fs_current = sample_view, fs_root = sample_view, fs_predicate_source = sample_view,
     fs_parent = None\<rparr>"

definition sample_parameter :: "string \<Rightarrow> sql_parameter" where
  "sample_parameter path = \<lparr>sp_path = path, sp_text_cast = None, sp_collection = False\<rparr>"

definition sample_shape :: "selection_cardinality \<Rightarrow> resolved_selection_shape" where
  "sample_shape cardinality = \<lparr>shape_cardinality = cardinality, shape_proof = None, shape_nullable = False,
     shape_limit = LimitNone\<rparr>"

text \<open>\<open>users(where: .id == $id, limit: ...) { email }\<close> under the policy of the column.\<close>

definition sample_collection :: "sql_value option \<Rightarrow> collection_plan" where
  "sample_collection limit = CollectionPlan 0 (sample_shape CardCollection)
     \<lparr>cl_filter = Some (FBinary (FColumn ScopeCurrent 0) FopEq (FParameter (sample_parameter ''param.id''))),
      cl_order_by = [], cl_limit = limit, cl_offset = None\<rparr>
     (Some (FLiteral (FlBool True))) [sample_policy] [] [] []
     (ResultRows [ItemProjection \<lparr>pr_column = 2, pr_output_name = ''email''\<rparr>])"

definition sample_context :: "nat option \<Rightarrow> generation_context" where
  "sample_context limit = \<lparr>gc_parent = None, gc_root = None, gc_collection_limit = limit,
     gc_public_result_alias = Some ''users'', gc_flattened = False\<rparr>"

definition sample_root :: query_root_plan where
  "sample_root = \<lparr>qr_output_name = ''users'', qr_flattened = False,
     qr_collection = sample_collection (Some (SqlLiteral 5))\<rparr>"

definition sample_plan :: query_plan where
  "sample_plan = \<lparr>qp_roots = [sample_root], qp_policy_context = [], qp_dynamic_inputs = []\<rparr>"

section \<open>Evaluation\<close>

lemma sample_users: "sql_table hardcoded 0 = Inr (cat_tables hardcoded ! 0)"
  by (simp add: sql_table_def table_by_id_def ok_or_def get_at_def hardcoded_def hardcoded_tables_def)

lemma sample_column_eval:
  "i \<le> 10 \<Longrightarrow> sql_column hardcoded i = Inr (cat_columns hardcoded ! i)"
  "i \<le> 10 \<Longrightarrow> col_id (cat_columns hardcoded ! i) = i"
  using column_arena.lookup_ident[OF hardcoded_wf, of i "cat_columns hardcoded ! i"]
  by (simp_all add: sql_column_def column_by_id_def ok_or_def get_at_def hardcoded_def hardcoded_columns_def)

lemma sample_public_column: "\<exists>e'. public_column_expression e hardcoded i = Inr e'"
proof -
  have "\<exists>e'. public_catalog_expression e hardcoded t = Inr e'" for t
    using catalog_walks_return[OF hardcoded_wf, of "ty_id t"]
    by (auto simp: public_catalog_expression_def split: option.splits catalog_value_shape.splits)
  then show ?thesis by (simp add: public_column_expression_def split: option.splits)
qed

lemma sample_policy_renders:
  "render_policy_field_filter rend c ctx sample_policy t = Inr (XVal (SvBool False), t)"
  by (simp add: render_policy_field_filter_def sample_policy_def require_policy_context_def
      filter_expr.simps conditional_filter_expr.simps filter_value_expr.simps literal_value_expr_def
      gbind_def gret_def settle_def)

lemma sample_policy_for: "policy_field_filter_for [sample_policy] target =
    (if target = TargetColumn 2 then Some sample_policy else None)"
  by (auto simp: policy_field_filter_for_def sample_policy_def)

lemma sample_masked:
  assumes "i \<le> 10"
  shows "masked_column_expression rend hardcoded (readable_view ctx [sample_policy]) i t
     = Inr (let raw = raw_column (readable_view ctx [sample_policy]) (cat_columns hardcoded ! i) in
            if i = 2 then XCase (XVal (SvBool False)) raw XNull else raw, t)"
  using assms
  by (simp add: masked_column_expression_def masked_column_with_def sample_policy_renders gbind_def
      gret_def glift_def sample_policy_for sample_column_eval readable_view_def)

lemma sample_filter:
  "filter_expr rend hardcoded (query_filter_scope (sample_context g) (readable_view ctx [sample_policy]))
      (FBinary (FColumn ScopeCurrent 0) FopEq (FParameter p)) (template_new n m)
   = Inr (XBin SbEq (raw_column (readable_view ctx [sample_policy]) (cat_columns hardcoded ! 0))
            (XCust (cast_placeholder p (''$'' @ dec_string (Suc 0)))),
          (template_new n m)\<lparr>tp_parameters := [\<lparr>gp_path = sp_path p\<rparr>]\<rparr>)"
  by (simp add: filter_expr.simps conditional_filter_expr.simps filter_value_expr_simps gbind_def
      gret_def settle_def null_comparison_operand_def query_filter_scope_def sample_context_def
      filter_column_source_def sample_masked parameter_def template_new_def glift_def)

definition sample_template :: "nat \<Rightarrow> nat \<Rightarrow> sql_template" where
  "sample_template n m = (template_new n m)\<lparr>tp_parameters := [\<lparr>gp_path = ''param.id''\<rparr>]\<rparr>"

lemma sample_generate_from_source:
  assumes "rows_source rend hardcoded (sample_collection limit) (sample_context guard)
      (cat_tables hardcoded ! 0) (readable_view (context_for (cat_tables hardcoded ! 0) name path) [sample_policy])
      None (Some (x_and (XVal (SvBool True))
        (XBin SbEq (raw_column (readable_view (context_for (cat_tables hardcoded ! 0) name path) [sample_policy])
            (cat_columns hardcoded ! 0))
          (XCust (''$'' @ dec_string (Suc 0)))))) (sample_template n m) = Inr (source, t)"
  shows "\<exists>e a. generate_collection rend hardcoded (sample_collection limit) name path (sample_context guard)
      (template_new n m) = Inr (source @ [QExprAs e a], t)"
proof -
  obtain e' where e': "public_column_expression (XCase (XVal (SvBool False))
      (raw_column (readable_view (context_for (cat_tables hardcoded ! 0) name path) [sample_policy])
        (cat_columns hardcoded ! 2)) XNull) hardcoded 2 = Inr e'"
    using sample_public_column by blast
  have result: "cp_result (sample_collection limit)
      = ResultRows [ItemProjection \<lparr>pr_column = 2, pr_output_name = ''email''\<rparr>]"
    and table: "cp_table (sample_collection limit) = 0"
    and policies: "cp_field_filters (sample_collection limit) = [sample_policy]"
    and policy: "cp_policy_filter (sample_collection limit) = Some (FLiteral (FlBool True))"
    and filter: "cl_filter (cp_clauses (sample_collection limit))
      = Some (FBinary (FColumn ScopeCurrent 0) FopEq (FParameter (sample_parameter ''param.id'')))"
    and order: "cl_order_by (cp_clauses (sample_collection limit)) = []"
    and shape: "shape_cardinality (cp_shape (sample_collection limit)) = CardCollection"
    by (simp_all add: sample_collection_def sample_shape_def)
  have ctx: "gc_flattened (sample_context guard) = False" "gc_root (sample_context guard) = None"
    by (simp_all add: sample_context_def)
  have rel: "source_relation_filter rend c (sample_context guard) u = Inr (None, u)"
    "source_relation_condition c (sample_context guard) ctx = Inr None" for c ctx u
    by (simp_all add: gret_def source_relation_filter_def source_relation_condition_def sample_context_def)
  have row: "source_policy_filter rend c (sample_collection limit) ctx u = Inr (Some (XVal (SvBool True)), u)" for c ctx u
    by (simp add: source_policy_filter_def policy filter_expr.simps conditional_filter_expr.simps
        filter_value_expr_simps literal_value_expr_def gbind_def gret_def settle_def fun_eq_iff)
  have query: "source_query_filter rend hardcoded (sample_collection limit) (sample_context guard)
      (readable_view ctx [sample_policy]) (template_new n m)
    = Inr (Some (XBin SbEq (raw_column (readable_view ctx [sample_policy]) (cat_columns hardcoded ! 0))
            (XCust (''$'' @ dec_string (Suc 0)))), sample_template n m)" for ctx
    by (simp add: source_query_filter_def filter gbind_def sample_filter gret_def sample_template_def
        cast_placeholder_def sample_parameter_def)
  show ?thesis
    using assms
    by (subst generate_collection.simps)
       (simp add: result table policies Let_def gbind_def gret_def glift_def sample_users rel row
          query combine_filters_def relation_join_with_def selection_field_expressions_def
          selection_field_def sample_column_eval sample_masked e' rows_result_def ordered_json_agg_def
          order shape ctx)
qed

lemma sample_generate:
  assumes "\<And>tb view e. \<exists>source. rows_source rend hardcoded (sample_collection limit) (sample_context guard) tb view None e
      (sample_template n m) = Inr (source, t)"
  shows "\<exists>q. generate_collection rend hardcoded (sample_collection limit) name path (sample_context guard)
      (template_new n m) = Inr (q, t)"
proof -
  let ?view = "readable_view (context_for (cat_tables hardcoded ! 0) name path) [sample_policy]"
  from assms[of "cat_tables hardcoded ! 0" ?view] obtain source where
    "rows_source rend hardcoded (sample_collection limit) (sample_context guard) (cat_tables hardcoded ! 0) ?view
      None (Some (x_and (XVal (SvBool True))
        (XBin SbEq (raw_column ?view (cat_columns hardcoded ! 0)) (XCust (''$'' @ dec_string (Suc 0))))))
      (sample_template n m) = Inr (source, t)" by blast
  from sample_generate_from_source[OF this] show ?thesis by blast
qed

lemma sample_generate_ex:
  assumes "\<exists>t. \<forall>tb view e. \<exists>source. rows_source rend hardcoded (sample_collection limit)
      (sample_context guard) tb view None e (sample_template n m) = Inr (source, t)"
  shows "\<exists>q t. generate_collection rend hardcoded (sample_collection limit) name path (sample_context guard)
      (template_new n m) = Inr (q, t)"
  using assms sample_generate by blast

lemmas sample_source_eval = rows_source_def sample_collection_def sample_shape_def
  should_use_source_subquery_def sample_context_def effective_limit_def sql_value_u64_def
  apply_order_limit_offset_def gbind_def gret_def limit_calls_def offset_calls_def
  numeric_parameter_sentinel_def guarded_numeric_parameter_sentinel_def parameter_def
  sample_template_def template_new_def sample_parameter_def numeric_sentinel_def checked_succ_def
  u64_max_def limited_source_query_def Let_def

text \<open>\<open>users(where: .id == $id, limit: $limit) { email }\<close>, without and with a collection limit.\<close>

definition sample_limited :: collection_plan where
  "sample_limited = sample_collection (Some (SqlParam (sample_parameter ''param.limit'')))"

lemma sample_limited_shape:
  "cp_result sample_limited = ResultRows [ItemProjection \<lparr>pr_column = 2, pr_output_name = ''email''\<rparr>]"
  "shape_cardinality (cp_shape sample_limited) = CardCollection"
  "cl_limit (cp_clauses sample_limited) = Some (SqlParam (sample_parameter ''param.limit''))"
  "cl_offset (cp_clauses sample_limited) = None"
  "cl_order_by (cp_clauses sample_limited) = []"
  by (simp_all add: sample_limited_def sample_collection_def sample_shape_def)

lemma sample_generates_parameter_limit:
  "\<exists>q t. generate_collection rend hardcoded sample_limited name path (sample_context None) (template_new 0 0) = Inr (q, t)"
  unfolding sample_limited_def by (rule sample_generate_ex) (simp add: sample_source_eval)


lemma sample_generates_literal_limit:
  "\<exists>q. generate_collection rend hardcoded (sample_collection (Some (SqlLiteral 5))) name path
     (sample_context None) (template_new n m) = Inr (q, sample_template n m)"
  by (rule sample_generate) (simp add: sample_source_eval)

section \<open>Collections\<close>

theorem collection_applies_filters_witness:
  "\<exists>q t condition relation_filter policy_filter query_filter.
    generate_collection sample_rend hardcoded sample_limited ''users'' [] (sample_context None)
      (template_new 0 0) = Inr (q, t) \<and>
    join_conditions (source_calls q) = set_option condition \<and>
    (\<forall>(I :: sql_expr \<Rightarrow> nat sqlv) nonnull. where_true I nonnull (source_calls q) \<longleftrightarrow>
       opt_true I nonnull relation_filter \<and> opt_true I nonnull policy_filter \<and>
       opt_true I nonnull query_filter)"
proof -
  obtain q t where q: "generate_collection sample_rend hardcoded sample_limited ''users'' [] (sample_context None)
      (template_new 0 0) = Inr (q, t)"
    using sample_generates_parameter_limit by blast
  show ?thesis using collection_applies_filters[OF q, where ?'v = nat] using q by (elim exE conjE) (intro exI conjI)
qed


theorem parameter_limit_after_aggregation_witness:
  "\<exists>q t n e a. generate_collection sample_rend hardcoded sample_limited ''users'' [] (sample_context None)
      (template_new 0 0) = Inr (q, t) \<and> QLimit n \<in> set q \<and>
    {(e, b). QExprAs e b \<in> set q} = {(XFunc SfCoalesce [XFunc SfJsonAgg [e], XVal (SvString ''[]'')], a)}"
proof -
  obtain q t where q: "generate_collection sample_rend hardcoded sample_limited ''users'' [] (sample_context None)
      (template_new 0 0) = Inr (q, t)"
    using sample_generates_parameter_limit by blast
  have ctx: "\<not> gc_flattened (sample_context None)" "gc_collection_limit (sample_context None) = None"
    by (simp_all add: sample_context_def)
  from parameter_limit_after_aggregation[OF q sample_limited_shape(1,2) ctx sample_limited_shape(3-5)]
  obtain n e a where "QLimit n \<in> set q"
    "{(e, b). QExprAs e b \<in> set q} = {(XFunc SfCoalesce [XFunc SfJsonAgg [e], XVal (SvString ''[]'')], a)}"
    by blast
  with q show ?thesis by blast
qed

section \<open>Statements\<close>

definition plain_collection :: collection_plan where
  "plain_collection = CollectionPlan 0 (sample_shape CardAtMostOne)
     \<lparr>cl_filter = None, cl_order_by = [], cl_limit = None, cl_offset = None\<rparr> None [] [] [] [] (ResultRows [])"

lemma plain_generates:
  "\<exists>q. generate_collection rend hardcoded plain_collection name path (sample_context None) t = Inr (q, t)"
  by (subst generate_collection.simps)
     (simp add: plain_collection_def sample_shape_def sample_context_def sample_users gbind_def glift_def gret_def
       source_relation_condition_def source_relation_filter_def source_policy_filter_def
       source_query_filter_def rows_source_def apply_order_limit_offset_def limit_calls_def
       offset_calls_def selection_field_expressions_def rows_result_def Let_def)

theorem parameter_placeholder_stable_witness:
  "\<exists>placeholder q t1 t2. parameter (sample_parameter ''param.id'') (template_new 0 0) = Inr (placeholder, t1) \<and>
    generate_collection sample_rend hardcoded plain_collection ''users'' [] (sample_context None) t1 = Inr (q, t2) \<and>
    (\<exists>i < length (tp_parameters t2). placeholder = cast_placeholder (sample_parameter ''param.id'') (placeholder_text i))"
proof -
  obtain placeholder t1 where p: "parameter (sample_parameter ''param.id'') (template_new 0 0) = Inr (placeholder, t1)"
    by (simp add: parameter_def template_new_def)
  obtain q where q: "generate_collection sample_rend hardcoded plain_collection ''users'' [] (sample_context None) t1
      = Inr (q, t1)"
    using plain_generates by blast
  from parameter_placeholder_stable[OF p q] p q show ?thesis by blast
qed

lemma sample_root_generates:
  "\<exists>q. generate_root_query rend hardcoded None sample_root (template_new n m) = Inr ((q, [''users'']), sample_template n m)"
proof -
  let ?path = "[path_segment_of (cat_tables hardcoded ! 0) ''users'']"
  obtain q where q: "generate_collection rend hardcoded (sample_collection (Some (SqlLiteral 5))) ''users'' ?path
      (sample_context None) (template_new n m) = Inr (q, sample_template n m)"
    using sample_generates_literal_limit by blast
  have "cp_table (sample_collection limit) = 0"
    "shape_cardinality (cp_shape (sample_collection limit)) = CardCollection" for limit
    by (simp_all add: sample_collection_def sample_shape_def)
  with q show ?thesis
    by (simp add: generate_root_query_def sample_root_def gbind_def glift_def gret_def sample_users Let_def
        root_output_names_def sample_context_def[symmetric])
qed

theorem root_query_exports_witness:
  "\<exists>q t. generate_root_query sample_rend hardcoded None sample_root (template_new 0 0) = Inr ((q, [''users'']), t) \<and>
    exported_names q = {''users''}"
proof -
  obtain q where q: "generate_root_query sample_rend hardcoded None sample_root (template_new 0 0)
      = Inr ((q, [''users'']), sample_template 0 0)"
    using sample_root_generates by blast
  have "\<not> (qr_flattened sample_root \<and> grouped_result (cp_result (qr_collection sample_root)))"
    by (simp add: sample_root_def)
  from root_query_exports[OF q this] q show ?thesis by auto
qed

lemma sample_statement_generates:
  "\<exists>g. generate_postgres_sql_with_options sample_rend id ''q'' sample_plan hardcoded None = Some (Inr g) \<and>
     gs_parameters g = [\<lparr>gp_path = ''param.id''\<rparr>]"
proof -
  obtain q where q: "generate_root_query sample_rend hardcoded None sample_root (template_new first_numeric_sentinel 0)
      = Inr ((q, [''users'']), sample_template first_numeric_sentinel 0)"
    using sample_root_generates by blast
  then have "query_statement sample_rend hardcoded None sample_plan (template_new first_numeric_sentinel 0)
      = Inr (q, sample_template first_numeric_sentinel 0)"
    by (simp add: query_statement_def sample_plan_def gbind_def gret_def)
  moreover have "finalize_sql_template sql (sample_template n m) = Inr (Some sql)" for sql n m
    by (simp add: finalize_sql_template_def sample_template_def template_new_def replace_dynamic_markers_def
        replace_numeric_sentinels_def replace_ranges_def)
  ultimately show ?thesis
    by (simp add: generate_postgres_sql_with_options_def generate_loop.simps generate_attempt_def Let_def)
       (simp add: sample_template_def template_new_def)
qed

theorem generated_sql_accounting_witness:
  "\<exists>g. generate_postgres_sql_with_options sample_rend id ''q'' sample_plan hardcoded None = Some (Inr g) \<and>
     gs_parameters g = [\<lparr>gp_path = ''param.id''\<rparr>] \<and> distinct (map gp_path (gs_parameters g))"
proof -
  obtain g where g: "generate_postgres_sql_with_options sample_rend id ''q'' sample_plan hardcoded None = Some (Inr g)"
    "gs_parameters g = [\<lparr>gp_path = ''param.id''\<rparr>]"
    using sample_statement_generates by blast
  with generated_sql_accounting[OF g(1)] show ?thesis by blast
qed

theorem generate_postgres_sql_returns_witness:
  "\<exists>r. generate_postgres_sql_with_options sample_rend id ''q'' sample_plan hardcoded (Some 3) = Some r \<and> r \<noteq> Inl NeverReturns"
  by (rule generate_postgres_sql_returns[OF hardcoded_wf])

section \<open>Hidden columns\<close>

lemma sample_view_policy:
  "policy_field_filter_for (rv_field_filters sample_view) (TargetColumn 2) = Some sample_policy"
  by (simp add: sample_view_def readable_view_def sample_policy_for)

theorem masked_column_reads_through_policy_witness:
  "\<exists>e t'. masked_column_expression sample_rend hardcoded sample_view 2 (template_new 0 0) = Inr (e, t') \<and>
     (\<forall>(I :: sql_expr \<Rightarrow> nat sqlv) nonnull. eval I nonnull e = VNull)"
proof -
  let ?v = "sample_view" and ?t = "template_new 0 0"
  obtain e where e: "masked_column_expression sample_rend hardcoded ?v 2 ?t = Inr (e, ?t)"
    by (simp add: sample_view_def sample_masked)
  from masked_column_reads_through_policy[OF e sample_view_policy, where ?'a = nat] obtain guard col where
    "render_policy_field_filter sample_rend hardcoded (rv_context ?v) sample_policy ?t = Inr (guard, ?t)"
    and reads: "\<forall>(I :: sql_expr \<Rightarrow> nat sqlv) nonnull. eval I nonnull e =
       (if holds I nonnull guard = Some True then eval I nonnull (raw_column ?v col) else VNull)" by blast
  then have "guard = XVal (SvBool False)" by (simp add: sample_policy_renders)
  with reads have "\<forall>(I :: sql_expr \<Rightarrow> nat sqlv) nonnull. eval I nonnull e = VNull" by (simp add: holds_def)
  with e show ?thesis by blast
qed

theorem null_test_requires_policy_witness:
  "\<exists>e t'. filter_expr sample_rend hardcoded sample_scope (FNullTest (FColumn ScopeCurrent 2) False)
      (template_new 0 0) = Inr (e, t') \<and>
     (\<forall>(I :: sql_expr \<Rightarrow> nat sqlv) nonnull. holds I nonnull e \<noteq> Some True)"
proof -
  let ?test = "FNullTest (FColumn ScopeCurrent 2) False"
  have v: "filter_column_source sample_scope ScopeCurrent = sample_view"
    by (simp add: filter_column_source_def sample_scope_def)
  have test: "filter_expr rend c scope ?test = null_test_expr rend c scope (FColumn ScopeCurrent 2) False"
    for rend c scope
    unfolding null_test_expr_def policy_renderer[symmetric] filter_value_expr.simps(9)[symmetric]
    by (rule atom_rendered) (simp only: conditional_filter_expr.simps)
  obtain e t' where e: "filter_expr sample_rend hardcoded sample_scope ?test (template_new 0 0) = Inr (e, t')"
    unfolding test
    by (simp add: null_test_expr_def null_test_with_def v sample_view_policy gbind_def gret_def glift_def
        sample_policy_renders sample_column_eval)
  have "policy_field_filter_for (rv_field_filters (filter_column_source sample_scope ScopeCurrent)) (TargetColumn 2)
      = Some sample_policy"
    by (simp add: v sample_view_policy)
  from null_test_requires_policy[OF e written_null_test.is_null this, where ?'v = nat] obtain guard where
    "guard = XVal (SvBool False)"
    and "\<forall>(I :: sql_expr \<Rightarrow> nat sqlv) nonnull. holds I nonnull guard \<noteq> Some True \<longrightarrow> holds I nonnull e \<noteq> Some True"
    by (auto simp: sample_policy_renders)
  then have "\<forall>(I :: sql_expr \<Rightarrow> nat sqlv) nonnull. holds I nonnull e \<noteq> Some True" by (simp add: holds_def)
  with e show ?thesis by blast
qed

definition sample_input_field :: dynamic_input_field where
  "sample_input_field = \<lparr>dif_key = ''email'', dif_column = 2, dif_data_type = DtText, dif_nullable = True,
     dif_access = AccessRowDependent, dif_operators = [DpoIsNull], dif_directions = []\<rparr>"

theorem dynamic_null_test_matches_hidden_witness:
  "\<exists>fs t e. generated_dynamic_predicate_fields sample_rend hardcoded sample_view [sample_input_field]
      (template_new 0 0) = Inr (fs, t) \<and>
     (\<forall>(I :: sql_expr \<Rightarrow> nat sqlv) nonnull. holds I nonnull (XCustWith ''$1 IS NULL'' [e]) = Some True)"
proof -
  have prefix: "strip_prefix (sample_rend q) ''SELECT '' = Some ''x''" for q
    by (simp add: sample_rend_def strip_prefix_def)
  have masked: "masked_column_with (render_policy_field_filter sample_rend hardcoded) hardcoded sample_view 2 t
     = Inr (XCase (XVal (SvBool False)) (raw_column sample_view (cat_columns hardcoded ! 2)) XNull, t)" for t
    using sample_masked[of 2] by (simp add: masked_column_expression_def sample_view_def Let_def)
  have "\<exists>fs t. generated_dynamic_predicate_fields sample_rend hardcoded sample_view [sample_input_field]
      (template_new 0 0) = Inr (fs, t)"
    by (simp add: generated_dynamic_predicate_fields_def dynamic_predicate_fields_with_def
        dynamic_field_with_def gbind_def gret_def glift_def sample_input_field_def masked ok_or_def prefix)
  then obtain fs t where fs: "generated_dynamic_predicate_fields sample_rend hardcoded sample_view [sample_input_field]
      (template_new 0 0) = Inr (fs, t)" by blast
  have "policy_field_filter_for (rv_field_filters sample_view) (TargetColumn (dif_column sample_input_field))
      = Some sample_policy" and op: "DpoIsNull \<in> set (dif_operators sample_input_field)"
    by (simp_all add: sample_input_field_def sample_view_policy)
  from dynamic_null_test_matches_hidden[OF fs this, where ?'a = nat] obtain e guard where
    "render_policy_field_filter sample_rend hardcoded (rv_context sample_view) sample_policy (template_new 0 0) = Inr (guard, t)"
    and matches: "\<forall>(I :: sql_expr \<Rightarrow> nat sqlv) nonnull. holds I nonnull guard \<noteq> Some True \<longrightarrow>
       holds I nonnull (XCustWith ''$1 IS NULL'' [e]) = Some True" by blast
  then have "guard = XVal (SvBool False)" by (simp add: sample_policy_renders)
  with matches have "\<forall>(I :: sql_expr \<Rightarrow> nat sqlv) nonnull. holds I nonnull (XCustWith ''$1 IS NULL'' [e]) = Some True"
    by (simp add: holds_def)
  with fs show ?thesis by blast
qed

section \<open>Resolution\<close>

definition sample_row :: "string option \<Rightarrow> string row" where
  "sample_row x = (\<lambda>column. if column = 0 then x else None)"

definition sample_span :: span where
  "sample_span = \<lparr>span_start = 0, span_end = 0\<rparr>"

definition sample_segment :: "string \<Rightarrow> path_segment" where
  "sample_segment name = \<lparr>seg_name = name, seg_relation_path = None, seg_span = sample_span\<rparr>"

text \<open>The selection \<open>users(where: .id == "a")\<close>.\<close>

definition sample_predicate :: expr where
  "sample_predicate = EBinary (OpComparison CmpEq) (EPath AnchorCurrent [sample_segment ''id''] sample_span)
     (ELiteral (LitString ''a'') sample_span) sample_span"

definition sample_syntax :: selection_shape_syntax where
  "sample_syntax = \<lparr>sss_predicate = Some sample_predicate, sss_has_offset = False, sss_limit = LimitSyntaxNone\<rparr>"

lemma sample_id_column: "direct_current_column hardcoded 0 (EPath AnchorCurrent [sample_segment ''id''] s) = Some 0"
  by (simp add: direct_current_column_def sample_segment_def check_field_ref_def table_ref_parse_def
      get_at_def direct_column_def hardcoded_eval List.map_filter_simps)

lemma sample_users_keys:
  "\<exists>tb. table_by_id hardcoded 0 = Some tb \<and> tb_primary_key tb = [0] \<and> tb_unique_constraints tb = [[0]]"
  by (simp add: table_by_id_def get_at_def hardcoded_eval)

lemma sample_shape_at_most_one:
  "\<exists>shape. resolve_selection_shape hardcoded sample_syntax None (TargetTable 0) [] = Some shape \<and>
     shape_cardinality shape = CardAtMostOne \<and> shape_limit shape = LimitNone"
proof -
  obtain tb where "table_by_id hardcoded 0 = Some tb" "tb_primary_key tb = [0]"
    using sample_users_keys by blast
  then have "unique_key_for_predicate hardcoded 0 sample_predicate [] = Some [0]"
    by (simp add: unique_key_for_predicate_def sample_predicate_def single_equality_def equality_of_def
        sample_id_column fixed_value_identity_of_def option_zip_def nullable_identity_def identity_input_def
        covers_key_def Let_def)
  then show ?thesis
    by (simp add: resolve_selection_shape_def sample_syntax_def target_child_context_def resolve_limit_def
        shape_proof_for_def Let_def)
qed

theorem resolve_selection_shape_sound_witness:
  "\<exists>shape. resolve_selection_shape hardcoded sample_syntax None (TargetTable 0) [] = Some shape \<and>
     length (selected_rows (Some (predicate_true hardcoded 0 [] (\<lambda>_. ''a'') (\<lambda>_ _. True) sample_predicate)) 0 None
       [sample_row (Some ''a''), sample_row (Some ''b'')]) \<le> 1"
proof -
  obtain shape where shape: "resolve_selection_shape hardcoded sample_syntax None (TargetTable 0) [] = Some shape"
    "shape_cardinality shape = CardAtMostOne" "shape_limit shape = LimitNone"
    using sample_shape_at_most_one by blast
  have keys: "respects_keys hardcoded 0 [sample_row (Some ''a''), sample_row (Some ''b'')]"
    using sample_users_keys
    by (auto simp: respects_keys_def unique_on_def sample_row_def less_Suc_eq)
  have rel: "respects_relation hardcoded (TargetTable 0) (\<lambda>_. True) [sample_row (Some ''a''), sample_row (Some ''b'')]"
    by (simp add: respects_relation_def)
  have child: "target_child_context (TargetTable 0) = Some 0" by (simp add: target_child_context_def)
  have runs: "limit_runs (shape_limit shape) None" by (simp add: shape(3) limit_runs_def)
  have rows: "source_rows (TargetTable 0) (\<lambda>_. True) rows = rows" for rows :: "string row list"
    by (simp add: source_rows_def)
  from resolve_selection_shape_sound[OF shape(1) child keys rel runs, where off = 0 and val = "\<lambda>_. ''a''"
      and I = "\<lambda>_ _. True", OF _ refl] shape
  show ?thesis by (simp add: rows sample_syntax_def)
qed

definition sample_clause_context :: clause_context where
  "sample_clause_context = \<lparr>cc_root = 1, cc_table = 1, cc_parent = None\<rparr>"

theorem resolve_path_sound_witness:
  "terminal_sound hardcoded 1
     (rp_relations (resolve_path id hardcoded sample_clause_context AnchorCurrent
        [sample_segment ''users'', sample_segment ''name''] sample_span))
     (rp_terminal (resolve_path id hardcoded sample_clause_context AnchorCurrent
        [sample_segment ''users'', sample_segment ''name''] sample_span))"
  using resolve_path_sound[OF hardcoded_wf, where ctx = sample_clause_context and anchor = AnchorCurrent and dbg = id and
      segments = "[sample_segment ''users'', sample_segment ''name'']" and s = sample_span]
  by (simp add: path_start_def sample_clause_context_def)

definition sample_selection :: field_selection_syntax where
  "sample_selection = \<lparr>fsel_flattened = False, fsel_name = ''users'', fsel_relation_path = None,
     fsel_name_span = sample_span, fsel_alias_span = None,
     fsel_shape_syntax = \<lparr>sss_predicate = None, sss_has_offset = False, sss_limit = LimitSyntaxNone\<rparr>\<rparr>"

definition sample_source :: resolved_selection where
  "sample_source = \<lparr>rs_field = 0, rs_name = ''users'', rs_written = ''users'',
     rs_name_span = sample_span, rs_alias_span = None, rs_root = Some 0, rs_context = None,
     rs_target = TargetTable 0, rs_problem = None, rs_value_type = None, rs_definition_kind = DefQuery,
     rs_shape = resolve_selection_shape hardcoded (fsel_shape_syntax sample_selection) None (TargetTable 0) [],
     rs_input_refinements = []\<rparr>"

definition sample_transform :: aggregate_transform where
  "sample_transform = \<lparr>atf_name = ''aggregate'', atf_name_span = sample_span, atf_span = sample_span,
     atf_group_keys = [],
     atf_fields = [\<lparr>afs_alias = None, afs_alias_span = None, afs_function = ''count'',
       afs_function_span = sample_span, afs_operand = None, afs_span = sample_span\<rparr>]\<rparr>"

theorem resolve_aggregate_sound_witness:
  "\<exists>a. resolve_aggregate id hardcoded sample_selection sample_source sample_transform = Inr a \<and>
     aggregate_is_valid a \<and> aggregate_ready hardcoded sample_selection sample_transform 0 a"
proof -
  from resolve_aggregate_sound[OF hardcoded_wf, of id sample_selection sample_source sample_transform]
  obtain a where a: "resolve_aggregate id hardcoded sample_selection sample_source sample_transform = Inr a"
    and ready: "aggregate_is_valid a \<and> rs_target sample_source \<noteq> TargetUnresolved \<longrightarrow>
      (\<exists>t. aggregate_source_of sample_source = (Some t, True) \<and>
         aggregate_ready hardcoded sample_selection sample_transform t a)" by blast
  have source: "aggregate_source_of sample_source = (Some 0, True)"
    by (simp add: aggregate_source_of_def sample_source_def sample_selection_def resolve_selection_shape_def
        target_child_context_def shape_proof_for_def resolve_limit_def is_limit_one_def Let_def)
  from a have "aggregate_is_valid a"
    by (auto simp: resolve_aggregate_def source sample_transform_def report_if_def resolve_field_def
        resolve_aggregate_value_def aggregate_function_of_def check_output_keys_def aggregate_output_keys_def
        List.map_filter_simps postgres_result_alias_max_bytes_def aggregate_is_valid_def
        operand_name_span_def Let_def)
  moreover have "rs_target sample_source \<noteq> TargetUnresolved" by (simp add: sample_source_def)
  ultimately show ?thesis using a ready source by auto
qed

theorem resolve_clause_total_witness:
  "\<exists>rc. resolve_clause id hardcoded False sample_source 0 (ClauseWhere sample_predicate) = Inr rc
     \<and> rc_context rc = Some \<lparr>cc_root = 0, cc_table = 0, cc_parent = None\<rparr>"
proof -
  from resolve_clause_total[OF hardcoded_wf, of id False sample_source 0 "ClauseWhere sample_predicate"]
  obtain rc where "resolve_clause id hardcoded False sample_source 0 (ClauseWhere sample_predicate) = Inr rc"
    "rc_context rc = clause_context_of sample_source" by blast
  moreover have "clause_context_of sample_source = Some \<lparr>cc_root = 0, cc_table = 0, cc_parent = None\<rparr>"
    by (simp add: clause_context_of_def sample_source_def target_child_context_def)
  ultimately show ?thesis by auto
qed

end
