(* ===== verification/Operation_Metadata.thy ===== *)
theory Operation_Metadata
  imports Catalog_Types
begin

text \<open>
  The public contract of a compiled operation (\<open>crates/dsql-metadata/src/lib.rs\<close>): what code
  generation writes and the native executor reads. One record per struct, one datatype per
  enum, with the fields in the order of the code. \<open>WireEncoding\<close> is \<open>wire_encoding\<close> of
  \<open>Catalog_Types\<close>. Unsigned integers are natural numbers; the generation identity, whose
  overflow the publisher checks, is kept in 64 bits where it is computed.
\<close>

section \<open>Enumerations\<close>

datatype definition_kind = DefQuery | DefFragment

fun definition_kind_as_ref :: "definition_kind \<Rightarrow> string" where
  "definition_kind_as_ref DefQuery = ''query''"
| "definition_kind_as_ref DefFragment = ''fragment''"

datatype sql_dialect = DialectPostgres

datatype result_field_kind = FieldScalar | FieldObject | FieldArray

datatype result_value_shape = ShapeScalar | ShapeDatabaseArray | ShapeObject

section \<open>The build manifest\<close>

text \<open>\<open>OperationManifestEntry\<close> and \<open>FragmentManifestEntry\<close> have the same fields.\<close>

record manifest_entry =
  me_name :: string
  me_kind :: definition_kind
  me_path :: string
  me_hash :: string
  me_source :: string

record build_manifest =
  bm_version :: nat
  bm_generation_id :: nat
  bm_operations :: "manifest_entry list"
  bm_fragments :: "manifest_entry list"

definition build_manifest_version :: nat where
  "build_manifest_version = 7"

section \<open>Values and inputs\<close>

record provider_type_metadata =
  ptm_schema :: string
  ptm_name :: string

record wire_metadata =
  wm_encoding :: wire_encoding
  wm_provider_type :: "provider_type_metadata option"

record closed_value_metadata =
  cvm_value :: string
  cvm_label :: "string option"
  cvm_description :: "string option"

record closed_value_set_metadata =
  cvs_description :: "string option"
  cvs_values :: "closed_value_metadata list"

record input_validation_metadata =
  ivm_pattern :: "string option"

text \<open>\<open>InputDefault\<close> nests: the fields are \<open>kind\<close>, \<open>value\<close>, \<open>boolean\<close> and \<open>items\<close>.\<close>

datatype default_metadata =
  InputDefault (def_kind: string) (def_value: "string option") (def_boolean: "bool option")
    (def_items: "default_metadata list option")

record metadata_input =
  in_path :: string
  in_data_type :: string
  in_wire :: wire_metadata
  in_validation :: input_validation_metadata
  in_collection :: "bool option"
  in_closed_values :: closed_value_set_metadata
  in_required :: bool
  in_nullable :: bool
  in_default :: "default_metadata option"

section \<open>SQL\<close>

record sql_parameter_metadata =
  spm_path :: string

record sql_variant_case_metadata =
  vcm_value :: string
  vcm_text :: string

record sql_variant_metadata =
  svm_path :: string
  svm_cases :: "sql_variant_case_metadata list"
  svm_null_text :: "string option"

record sql_metadata =
  sm_dialect :: sql_dialect
  sm_text :: string
  sm_compact_text :: string
  sm_parameters :: "sql_parameter_metadata list"
  sm_variants :: "sql_variant_metadata list"

section \<open>Dynamic inputs\<close>

record dynamic_field_metadata =
  dfm_key :: string
  dfm_catalog_path :: string
  dfm_data_type :: string
  dfm_wire :: wire_metadata
  dfm_validation :: input_validation_metadata
  dfm_closed_values :: closed_value_set_metadata
  dfm_nullable :: bool
  dfm_access :: string
  dfm_operators :: "string list"
  dfm_directions :: "string list"

record dynamic_operator_metadata =
  dom_name :: string
  dom_value_kind :: string
  dom_before_value :: "string option"
  dom_after_value :: "string option"
  dom_cases :: "sql_variant_case_metadata list"

record dynamic_site_field =
  dsf_key :: string
  dsf_operators :: "dynamic_operator_metadata list"
  dsf_directions :: "sql_variant_case_metadata list"

record dynamic_input_site =
  dis_marker :: string
  dis_identity_sql :: string
  dis_fields :: "dynamic_site_field list"

record dynamic_input_metadata =
  dim_path :: string
  dim_kind :: string
  dim_surface :: string
  dim_fields :: "dynamic_field_metadata list"
  dim_sites :: "dynamic_input_site list"

section \<open>Results, policies and sources\<close>

record result_value_type_metadata =
  rvt_shape :: result_value_shape
  rvt_name :: string
  rvt_display :: "string option"
  rvt_wire :: wire_metadata
  rvt_closed_values :: closed_value_set_metadata

record result_field =
  rfm_path :: string
  rfm_name :: string
  rfm_parent_path :: string
  rfm_kind :: result_field_kind
  rfm_value_type :: result_value_type_metadata
  rfm_nullable :: bool
  rfm_access :: string

record result_shape =
  rs_fields :: "result_field list"

record source_range =
  sr_start :: nat
  sr_end :: nat

record source_map_entry =
  sme_id :: string
  sme_file :: string
  sme_range :: source_range
  sme_content_range :: "source_range option"

record policy_field_access_metadata =
  pfm_name :: string
  pfm_kind :: string
  pfm_access :: string

record policy_application_metadata =
  pam_path :: string
  pam_target :: string
  pam_assignment :: string
  pam_rows_filtered :: bool
  pam_fields :: "policy_field_access_metadata list"

record policy_metadata =
  pm_scope :: string
  pm_defined_in :: string
  pm_name :: string
  pm_default_active :: bool
  pm_enforcement :: string
  pm_conditions :: "string list"
  pm_context :: "string list"
  pm_source :: source_map_entry
  pm_applications :: "policy_application_metadata list"

record provided_context_metadata =
  pcm_name :: string
  pcm_source_path :: string

record handoff_metadata =
  hm_name :: string
  hm_parent_path :: string
  hm_parent_identity :: "string list"
  hm_relation :: string
  hm_child_params :: "string list"
  hm_provided_context :: "provided_context_metadata list"

record fragment_spread_metadata =
  fsm_path :: string
  fsm_fragment :: string

section \<open>Operations and fragments\<close>

record operation_metadata =
  om_name :: string
  om_kind :: definition_kind
  om_sql :: sql_metadata
  om_result :: result_shape
  om_params :: "metadata_input list"
  om_input :: "metadata_input list"
  om_context :: "metadata_input list"
  om_dynamic_inputs :: "dynamic_input_metadata list"
  om_policies :: "policy_metadata list"
  om_handoffs :: "handoff_metadata list"
  om_fragment_spreads :: "fragment_spread_metadata list"
  om_source_map :: "source_map_entry list"

record fragment_metadata =
  fm_name :: string
  fm_kind :: definition_kind
  fm_table :: string
  fm_result :: result_shape
  fm_params :: "metadata_input list"
  fm_input :: "metadata_input list"
  fm_dynamic_inputs :: "dynamic_input_metadata list"
  fm_fragment_spreads :: "fragment_spread_metadata list"
  fm_source_map :: "source_map_entry list"

end
