(* ===== verification/Execution.thy ===== *)
theory Execution
  imports Operation_Metadata Capabilities Sql_Render
begin

text \<open>
  Native execution of compiled operations (\<open>crates/dsql-execute/src/lib.rs\<close>): the inputs of
  one execution are validated and defaulted, variants and dynamic inputs are written into the
  statement, and the ordered parameters are bound to the database driver.

  Values of the third-party crates are payloads: \<open>'n\<close> for the numbers of \<open>facet_value\<close> and
  \<open>'x\<close> for the parsed values of \<open>uuid\<close>, \<open>chrono\<close>, \<open>bigdecimal\<close> and the floating-point and
  raw JSON values. Their functions are the record \<open>codec\<close>, an argument of every operation that
  uses one. The compiled-pattern cache of \<open>pattern_is_valid\<close> only remembers what the
  regular-expression engine returns, so a pattern is looked up in the engine directly.
\<close>

section \<open>Values\<close>

text \<open>
  \<open>facet_value::Value\<close>: an object is the list of its entries in iteration order, with distinct
  keys; \<open>JOther\<close> is any kind of value JSON text has no form for.
\<close>

datatype 'n json =
    JNull
  | JBool bool
  | JNumber 'n
  | JString string
  | JArray "'n json list"
  | JObject "(string \<times> 'n json) list"
  | JOther 'n

fun is_null :: "'n json \<Rightarrow> bool" where
  "is_null JNull = True"
| "is_null _ = False"

fun as_bool :: "'n json \<Rightarrow> bool option" where
  "as_bool (JBool b) = Some b"
| "as_bool _ = None"

fun as_number :: "'n json \<Rightarrow> 'n option" where
  "as_number (JNumber n) = Some n"
| "as_number _ = None"

fun as_array :: "'n json \<Rightarrow> 'n json list option" where
  "as_array (JArray vs) = Some vs"
| "as_array _ = None"

fun as_object :: "'n json \<Rightarrow> (string \<times> 'n json) list option" where
  "as_object (JObject entries) = Some entries"
| "as_object _ = None"

fun string_value :: "'n json \<Rightarrow> string option" where
  "string_value (JString s) = Some s"
| "string_value _ = None"

text \<open>
  The library functions execution calls: accessors and constructors of numbers, the parsers of
  the scalar encodings, the regular-expression engine (\<open>None\<close>: the pattern does not compile),
  JSON text, and the equality of values.
\<close>

record ('n, 'x) codec =
  number_is_integer :: "'n \<Rightarrow> bool"
  number_to_i64 :: "'n \<Rightarrow> int option"
  number_to_f64_lossy :: "'n \<Rightarrow> 'x"
  number_from_i64 :: "int \<Rightarrow> 'n"
  value_from_f64 :: "'x \<Rightarrow> 'n json"
  finite_f64 :: "'x \<Rightarrow> bool"
  parse_f64 :: "string \<Rightarrow> 'x option"
  parse_uuid :: "string \<Rightarrow> 'x option"
  parse_rfc3339 :: "string \<Rightarrow> 'x option"
  parse_decimal :: "string \<Rightarrow> 'x option"
  regex_new :: "string \<Rightarrow> (string \<Rightarrow> bool) option"
  json_to_string :: "'n json \<Rightarrow> string + string"
  raw_json_from_string :: "string \<Rightarrow> string + 'x"
  json_from_str :: "string \<Rightarrow> string + 'n json"
  value_eq :: "'n json \<Rightarrow> 'n json \<Rightarrow> bool"

text \<open>
  \<open>str::parse::<i64>\<close> and the bounds of safe integers are those of \<open>Capabilities\<close>, where the
  compiler checks literals by the same rules.
\<close>

definition is_safe_integer :: "int \<Rightarrow> bool" where
  "is_safe_integer value \<longleftrightarrow> min_safe_integer \<le> value \<and> value \<le> max_safe_integer"

definition integer_value :: "('n, 'x) codec \<Rightarrow> 'n json \<Rightarrow> int option" where
  "integer_value codec value =
     (case as_number value of
        None \<Rightarrow> None
      | Some n \<Rightarrow> if number_is_integer codec n then number_to_i64 codec n else None)"

definition big_integer_value :: "'n json \<Rightarrow> int option" where
  "big_integer_value value = (case string_value value of None \<Rightarrow> None | Some s \<Rightarrow> parse_i64 s)"

definition float_value :: "('n, 'x) codec \<Rightarrow> 'n json \<Rightarrow> 'x option" where
  "float_value codec value =
     (case as_number value of
        None \<Rightarrow> None
      | Some n \<Rightarrow>
          if finite_f64 codec (number_to_f64_lossy codec n)
          then Some (number_to_f64_lossy codec n) else None)"

text \<open>\<open>Option::is_some_and\<close>.\<close>

definition is_some_and :: "'a option \<Rightarrow> ('a \<Rightarrow> bool) \<Rightarrow> bool" where
  "is_some_and x p = (case x of None \<Rightarrow> False | Some y \<Rightarrow> p y)"

lemma is_some_and_iff: "is_some_and x p \<longleftrightarrow> (\<exists>y. x = Some y \<and> p y)"
  by (auto simp: is_some_and_def split: option.splits)

section \<open>Errors and results\<close>

datatype 'd execute_error =
    Database 'd
  | UndeclaredParameter string
  | MissingInput string
  | InvalidInput string string
  | InvalidVariant string string
  | UnsupportedType string string
  | InvalidProviderInput string string
  | InvalidDynamicMetadata string
  | UnsupportedOperationKind string
  | InvalidOutput string
  | InvalidJsonParameter string string

definition invalid :: "string \<Rightarrow> string \<Rightarrow> 'd execute_error" where
  "invalid path expected = InvalidInput path expected"

record 'n bindings =
  eb_variables :: "'n json"
  eb_context :: "'n json"

definition bindings_default :: "'n bindings" where
  "bindings_default = \<lparr>eb_variables = JObject [], eb_context = JObject []\<rparr>"

record 'n bound_parameter =
  bp_path :: string
  bp_data_type :: string
  bp_wire :: wire_encoding
  bp_provider_type :: "(string \<times> string) option"
  bp_collection :: bool
  bp_value :: "'n json"

record 'n materialized_operation =
  mo_sql :: string
  mo_parameters :: "'n bound_parameter list"

definition provider_type_from_wire :: "wire_metadata \<Rightarrow> (string \<times> string) option" where
  "provider_type_from_wire wire =
     map_option (\<lambda>provider. (ptm_schema provider, ptm_name provider)) (wm_provider_type wire)"

definition field_wire :: "metadata_input \<Rightarrow> wire_encoding" where
  "field_wire field = wm_encoding (in_wire field)"

definition dynamic_field_wire :: "dynamic_field_metadata \<Rightarrow> wire_encoding" where
  "dynamic_field_wire field = wm_encoding (dfm_wire field)"

definition field_provider_type :: "metadata_input \<Rightarrow> (string \<times> string) option" where
  "field_provider_type field = provider_type_from_wire (in_wire field)"

section \<open>Validation\<close>

definition pattern_is_valid :: "('n, 'x) codec \<Rightarrow> string option \<Rightarrow> 'n json \<Rightarrow> bool" where
  "pattern_is_valid codec pattern value =
     (case pattern of
        None \<Rightarrow> True
      | Some pattern \<Rightarrow>
          (case string_value value of
             None \<Rightarrow> False
           | Some value \<Rightarrow>
               (case regex_new codec pattern of
                  None \<Rightarrow> False
                | Some matches \<Rightarrow> matches value)))"

text \<open>The shape a wire encoding asks of one scalar; both validators share its string cases.\<close>

definition input_scalar_is_valid :: "('n, 'x) codec \<Rightarrow> metadata_input \<Rightarrow> 'n json \<Rightarrow> bool" where
  "input_scalar_is_valid codec field value =
     (let valid = (case field_wire field of
          WireUuid \<Rightarrow> is_some_and (string_value value) (\<lambda>s. parse_uuid codec s \<noteq> None)
        | WireText \<Rightarrow> string_value value \<noteq> None
        | WireTextCast \<Rightarrow> string_value value \<noteq> None
        | WireTimestamptz \<Rightarrow> is_some_and (string_value value) (\<lambda>s. parse_rfc3339 codec s \<noteq> None)
        | WireBigInteger \<Rightarrow> big_integer_value value \<noteq> None
        | WireNumeric \<Rightarrow> is_some_and (string_value value) (\<lambda>s. parse_decimal codec s \<noteq> None)
        | WireFloat \<Rightarrow> float_value codec value \<noteq> None
        | WireBoolean \<Rightarrow> as_bool value \<noteq> None
        | WireJson \<Rightarrow> True
        | WireInteger \<Rightarrow> False
        | WireUnsupported \<Rightarrow> False)
      in valid \<and> pattern_is_valid codec (ivm_pattern (in_validation field)) value)"

definition validate_safe_integer ::
  "('n, 'x) codec \<Rightarrow> metadata_input \<Rightarrow> 'n json \<Rightarrow> 'd execute_error + unit" where
  "validate_safe_integer codec field value =
     (if is_null value \<or> field_wire field \<noteq> WireInteger then Inr ()
      else if in_collection field = Some True then
        (case as_array value of
           None \<Rightarrow> Inl (invalid (in_path field) ''an array of safe integers'')
         | Some values \<Rightarrow>
             if list_all (\<lambda>v. is_null v \<or> is_some_and (integer_value codec v) is_safe_integer) values
             then Inr ()
             else Inl (invalid (in_path field) ''an array of safe integers''))
      else if is_some_and (integer_value codec value) is_safe_integer then Inr ()
      else Inl (invalid (in_path field) ''a safe integer''))"

definition validate_input_wire ::
  "('n, 'x) codec \<Rightarrow> metadata_input \<Rightarrow> 'n json \<Rightarrow> 'd execute_error + unit" where
  "validate_input_wire codec field value =
     (if is_null value \<or> field_wire field = WireInteger
         \<or> in_data_type field \<in> {''dynamic_predicate'', ''dynamic_order''} then Inr ()
      else if in_collection field = Some True then
        (case as_array value of
           None \<Rightarrow> Inl (invalid (in_path field) (''an array of '' @ in_data_type field))
         | Some values \<Rightarrow>
             if list_all (\<lambda>v. is_null v \<or> input_scalar_is_valid codec field v) values then Inr ()
             else Inl (invalid (in_path field)
                    (''an array of valid '' @ in_data_type field @ '' values'')))
      else if input_scalar_is_valid codec field value then Inr ()
      else Inl (invalid (in_path field) (''a valid '' @ in_data_type field)))"

definition validate_dynamic_scalar ::
  "('n, 'x) codec \<Rightarrow> dynamic_field_metadata \<Rightarrow> 'n json \<Rightarrow> string \<Rightarrow> 'd execute_error + unit" where
  "validate_dynamic_scalar codec field value path =
     (let data_type = dfm_data_type field in
      if is_null value then Inl (invalid path (''a non-null '' @ data_type @ '' value''))
      else if dynamic_field_wire field = WireUnsupported then Inl (UnsupportedType path data_type)
      else
        let valid = (case dynamic_field_wire field of
            WireUuid \<Rightarrow> is_some_and (string_value value) (\<lambda>s. parse_uuid codec s \<noteq> None)
          | WireText \<Rightarrow> string_value value \<noteq> None
          | WireTextCast \<Rightarrow> string_value value \<noteq> None
          | WireTimestamptz \<Rightarrow> is_some_and (string_value value) (\<lambda>s. parse_rfc3339 codec s \<noteq> None)
          | WireInteger \<Rightarrow> is_some_and (integer_value codec value) is_safe_integer
          | WireBigInteger \<Rightarrow> big_integer_value value \<noteq> None
          | WireNumeric \<Rightarrow> is_some_and (string_value value) (\<lambda>s. parse_decimal codec s \<noteq> None)
          | WireFloat \<Rightarrow> is_some_and (float_value codec value) (finite_f64 codec)
          | WireBoolean \<Rightarrow> as_bool value \<noteq> None
          | WireJson \<Rightarrow> True
          | WireUnsupported \<Rightarrow> False)
        in if valid \<and> pattern_is_valid codec (ivm_pattern (dfm_validation field)) value then Inr ()
           else Inl (invalid path (''a valid '' @ data_type @ '' value'')))"

text \<open>The loop over the items of a collection operand stops at the first invalid item.\<close>

definition validate_dynamic_collection ::
  "('n, 'x) codec \<Rightarrow> dynamic_field_metadata \<Rightarrow> 'n json \<Rightarrow> string \<Rightarrow> 'd execute_error + unit" where
  "validate_dynamic_collection codec field value path =
     (case as_array value of
        None \<Rightarrow> Inl (invalid path (''an array of '' @ dfm_data_type field @ '' values''))
      | Some items \<Rightarrow>
          rfold (\<lambda>_ item.
              if is_null item then Inl (invalid path ''a collection without null elements'')
              else validate_dynamic_scalar codec field item path) () items)"

end
