(* ===== verification/Materialization.thy ===== *)
theory Materialization
  imports Execution
begin

text \<open>
  Materialization of one execution (\<open>materialize\<close> of \<open>crates/dsql-execute/src/lib.rs\<close>): the
  values of the declared inputs, the variants, the static parameters, and the dynamic predicates
  and orders that are rendered into their compiler-owned markers.

  \<open>traverse\<close> is the loop over a list that threads the mutable state (here the parameters and
  the operand index) and stops at the first error. Sorting keys is \<open>sort\<close> on strings: the
  byte-wise order of \<open>str\<close>. Integers that count parameters do not overflow and are natural
  numbers.
\<close>

section \<open>Loops over mutable state\<close>

fun traverse :: "('s \<Rightarrow> 'a \<Rightarrow> 'e + 'b \<times> 's) \<Rightarrow> 's \<Rightarrow> 'a list \<Rightarrow> 'e + 'b list \<times> 's" where
  "traverse f s [] = Inr ([], s)"
| "traverse f s (x # xs) =
     rbind (f s x) (\<lambda>(y, s). rbind (traverse f s xs) (\<lambda>(ys, s). Inr (y # ys, s)))"

lemma traverse_cong [fundef_cong]:
  "s = t \<Longrightarrow> xs = ys \<Longrightarrow> (\<And>s x. x \<in> set ys \<Longrightarrow> f s x = g s x) \<Longrightarrow> traverse f s xs = traverse g t ys"
proof (induction xs arbitrary: s t ys)
  case (Cons x xs)
  then have "f t x = g t x" and "\<And>u. traverse f u xs = traverse g u xs" by auto
  with Cons.prems(1,2) show ?case by auto
qed simp

text \<open>What one step guarantees of a state and its outcome, the loop guarantees of the run.\<close>

inductive traversed :: "('s \<Rightarrow> 'a \<Rightarrow> 'b \<Rightarrow> 's \<Rightarrow> bool) \<Rightarrow> 's \<Rightarrow> 'a list \<Rightarrow> 'b list \<Rightarrow> 's \<Rightarrow> bool"
  for R where
  traversed_Nil: "traversed R s [] [] s"
| traversed_Cons: "R s x y t \<Longrightarrow> traversed R t xs ys u \<Longrightarrow> traversed R s (x # xs) (y # ys) u"

lemma traverse_traversed:
  assumes "traverse f s xs = Inr (ys, t)"
    and "\<And>s x y t. x \<in> set xs \<Longrightarrow> f s x = Inr (y, t) \<Longrightarrow> R s x y t"
  shows "traversed R s xs ys t"
  using assms
proof (induction xs arbitrary: s ys)
  case Nil
  then show ?case by (simp add: traversed_Nil)
next
  case (Cons x xs)
  from Cons.prems(1) obtain y u zs where
    step: "f s x = Inr (y, u)" "traverse f u xs = Inr (zs, t)" "ys = y # zs" by auto
  have "traversed R u xs zs t"
    by (rule Cons.IH[OF step(2)]) (simp add: Cons.prems(2))
  with step Cons.prems(2)[of x s y u] show ?case by (auto intro: traversed_Cons)
qed

lemma traversed_mono:
  assumes "traversed R s xs ys t"
    and "\<And>s x y t. x \<in> set xs \<Longrightarrow> R s x y t \<Longrightarrow> R' s x y t"
  shows "traversed R' s xs ys t"
  using assms by (induction rule: traversed.induct) (blast intro: traversed.intros list.set_intros)+

section \<open>Text of the standard library\<close>

text \<open>\<open>sql.replacen(marker, rendered, 1)\<close>: the first match only.\<close>

definition replace_first :: "string \<Rightarrow> string \<Rightarrow> string \<Rightarrow> string" where
  "replace_first needle replacement s =
     (case find_sub needle s of
        None \<Rightarrow> s
      | Some i \<Rightarrow> take i s @ replacement @ drop (i + length needle) s)"

text \<open>
  Whether \<open>match_indices(needle)\<close> yields exactly one match; the empty needle matches at every
  boundary, so exactly once in the empty text only.
\<close>

definition occurs_once :: "string \<Rightarrow> string \<Rightarrow> bool" where
  "occurs_once needle s =
     (if needle = [] then s = []
      else (case find_sub needle s of None \<Rightarrow> False | Some i \<Rightarrow> \<not> occurs_again needle s i))"

section \<open>Input values\<close>

fun lookup_segments ::
  "string \<Rightarrow> string list \<Rightarrow> 'n json \<Rightarrow> 'd execute_error + 'n json option" where
  "lookup_segments field_path [] current = Inr (Some current)"
| "lookup_segments field_path (segment # segments) current =
     (case as_object current of
        None \<Rightarrow> Inl (invalid field_path ''an object input envelope'')
      | Some entries \<Rightarrow>
          (case map_of entries segment of
             None \<Rightarrow> Inr None
           | Some value \<Rightarrow> lookup_segments field_path segments value))"

definition lookup_path ::
  "'n json \<Rightarrow> string \<Rightarrow> string \<Rightarrow> 'd execute_error + 'n json option" where
  "lookup_path root path field_path = lookup_segments field_path (split_dots path) root"

text \<open>
  The arms of \<open>materialize_default\<close> in the order of its match. Items of a collection default are
  materialized for the field with its collection flag cleared.
\<close>

definition number_default ::
  "('n, 'x) codec \<Rightarrow> metadata_input \<Rightarrow> string option \<Rightarrow> 'd execute_error + 'n json" where
  "number_default codec field value =
     (if in_collection field = Some True
      then Inl (invalid (in_path field) ''a compatible number default'')
      else case value of
        None \<Rightarrow> Inl (invalid (in_path field) ''a valid number default'')
      | Some s \<Rightarrow>
          (case field_wire field of
             WireInteger \<Rightarrow>
               (case parse_i64 s of
                  Some n \<Rightarrow>
                    if is_safe_integer n then Inr (JNumber (number_from_i64 codec n))
                    else Inl (invalid (in_path field) ''a safe integer default'')
                | None \<Rightarrow> Inl (invalid (in_path field) ''a safe integer default''))
           | WireFloat \<Rightarrow>
               (case parse_f64 codec s of
                  Some x \<Rightarrow>
                    if finite_f64 codec x then Inr (value_from_f64 codec x)
                    else Inl (invalid (in_path field) ''a finite float default'')
                | None \<Rightarrow> Inl (invalid (in_path field) ''a finite float default''))
           | WireNumeric \<Rightarrow>
               (case parse_decimal codec s of
                  Some _ \<Rightarrow> Inr (JString s)
                | None \<Rightarrow> Inl (invalid (in_path field) ''a numeric default''))
           | _ \<Rightarrow> Inl (invalid (in_path field) ''a compatible number default'')))"

definition string_default ::
  "('n, 'x) codec \<Rightarrow> metadata_input \<Rightarrow> string option \<Rightarrow> 'd execute_error + 'n json" where
  "string_default codec field value =
     rbind (ok_or value (invalid (in_path field) ''a valid string default'')) (\<lambda>s.
       let closed = cvs_values (in_closed_values field) in
       if closed \<noteq> [] \<and> \<not> list_ex (\<lambda>c. cvm_value c = s) closed
       then Inl (invalid (in_path field) ''a declared string default'')
       else if \<not> pattern_is_valid codec (ivm_pattern (in_validation field)) (JString s)
       then Inl (invalid (in_path field) (''a valid '' @ in_data_type field @ '' default''))
       else Inr (JString s))"

fun materialize_default ::
  "('n, 'x) codec \<Rightarrow> metadata_input \<Rightarrow> default_metadata \<Rightarrow> 'd execute_error + 'n json" where
  "materialize_default codec field (InputDefault kind value boolean items) =
     (if kind = ''string'' \<and> in_collection field \<noteq> Some True then string_default codec field value
      else if kind = ''number'' then number_default codec field value
      else if kind = ''boolean'' \<and> in_collection field \<noteq> Some True \<and> field_wire field = WireBoolean
      then rbind (ok_or boolean (invalid (in_path field) ''a valid boolean default''))
             (\<lambda>b. Inr (JBool b))
      else if kind = ''null'' then Inr JNull
      else if kind = ''collection''
              \<and> (in_collection field = Some True \<or> in_data_type field = ''dynamic_order'')
      then (case items of
              None \<Rightarrow> Inl (invalid (in_path field) ''a valid collection default'')
            | Some items \<Rightarrow>
                if in_data_type field = ''dynamic_order'' \<and> items \<noteq> []
                then Inl (invalid (in_path field) ''an empty dynamic order default'')
                else rbind (collect_results (\<lambda>item.
                         if def_kind item \<in> {''null'', ''collection'', ''empty_object''}
                         then Inl (invalid (in_path field) ''a valid collection default'')
                         else materialize_default codec (field\<lparr>in_collection := None\<rparr>) item) items)
                       (\<lambda>vs. Inr (JArray vs)))
      else if kind = ''empty_object'' \<and> in_collection field \<noteq> Some True
              \<and> in_data_type field = ''dynamic_predicate''
      then Inr (JObject [])
      else if kind = ''string'' then Inl (invalid (in_path field) ''a compatible string default'')
      else if kind = ''boolean'' then Inl (invalid (in_path field) ''a compatible boolean default'')
      else if kind = ''collection''
      then Inl (invalid (in_path field) ''a compatible collection default'')
      else if kind = ''empty_object''
      then Inl (invalid (in_path field) ''a dynamic predicate default'')
      else Inl (invalid (in_path field) ''a recognized input default''))"

text \<open>
  The value of one declared input. Trusted context has no default; an omitted optional input
  without a default has no value.
\<close>

definition check_input_value ::
  "('n, 'x) codec \<Rightarrow> metadata_input \<Rightarrow> 'n json \<Rightarrow> 'd execute_error + 'n json option" where
  "check_input_value codec field value =
     (if is_null value \<and> \<not> in_nullable field
      then Inl (invalid (in_path field) (''a non-null '' @ in_data_type field))
      else rbind (validate_safe_integer codec field value) (\<lambda>_.
           rbind (validate_input_wire codec field value) (\<lambda>_. Inr (Some value))))"

definition input_value ::
  "('n, 'x) codec \<Rightarrow> 'n bindings \<Rightarrow> metadata_input \<Rightarrow> 'd execute_error + 'n json option" where
  "input_value codec bindings field =
     (let (root, path, trusted) = (case strip_prefix (in_path field) ''context.'' of
          None \<Rightarrow> (eb_variables bindings, in_path field, False)
        | Some path \<Rightarrow> (eb_context bindings, path, True))
      in rbind (lookup_path root path (in_path field)) (\<lambda>found.
         case found of
           Some value \<Rightarrow> check_input_value codec field value
         | None \<Rightarrow>
             if trusted then Inl (MissingInput (in_path field))
             else (case in_default field of
                     Some d \<Rightarrow> rbind (materialize_default codec field d) (check_input_value codec field)
                   | None \<Rightarrow>
                       if in_required field then Inl (MissingInput (in_path field)) else Inr None)))"

section \<open>Dynamic inputs\<close>

definition dynamic_site_field_for ::
  "dynamic_input_metadata \<Rightarrow> dynamic_input_site \<Rightarrow> string \<Rightarrow> string
     \<Rightarrow> 'd execute_error + dynamic_site_field" where
  "dynamic_site_field_for input site key path =
     (if \<not> list_ex (\<lambda>f. dfm_key f = key) (dim_fields input)
      then Inl (invalid (path @ ''.'' @ key) ''a selected dynamic field'')
      else ok_or (find (\<lambda>f. dsf_key f = key) (dis_fields site))
             (InvalidDynamicMetadata (''site `'' @ dis_marker site @ ''` has no lowering for field `''
                @ key @ ''`'')))"

definition dynamic_field ::
  "dynamic_input_metadata \<Rightarrow> string \<Rightarrow> 'd execute_error + dynamic_field_metadata" where
  "dynamic_field input key =
     ok_or (find (\<lambda>f. dfm_key f = key) (dim_fields input))
       (InvalidDynamicMetadata (''input `'' @ dim_path input @ ''` has no field `'' @ key @ ''`''))"

text \<open>
  The state of a rendering: the bound parameters and the index of the next operand. The first
  site of an input appends its operands; a later site meets the operands already there and has
  to agree with them.
\<close>

type_synonym 'n operands = "'n bound_parameter list \<times> nat"

definition dynamic_bound ::
  "string \<Rightarrow> dynamic_field_metadata \<Rightarrow> bool \<Rightarrow> 'n json \<Rightarrow> 'n bound_parameter" where
  "dynamic_bound path field collection value =
     \<lparr>bp_path = path, bp_data_type = dfm_data_type field, bp_wire = dynamic_field_wire field,
      bp_provider_type = provider_type_from_wire (dfm_wire field), bp_collection = collection,
      bp_value = value\<rparr>"

text \<open>The placeholder of the one-based position in the argument list.\<close>

definition dollar :: "nat \<Rightarrow> string" where
  "dollar n = ''$'' @ dec_string n"

definition dynamic_parameter ::
  "('n, 'x) codec \<Rightarrow> string \<Rightarrow> dynamic_field_metadata \<Rightarrow> bool \<Rightarrow> 'n json \<Rightarrow> 'n operands
     \<Rightarrow> 'd execute_error + string \<times> 'n operands" where
  "dynamic_parameter codec path field collection value st =
     (let (parameters, index) = st;
          done = (\<lambda>ps. Inr (dollar (index + 1), (ps, index + 1)))
      in
      if index = length parameters then done (parameters @ [dynamic_bound path field collection value])
      else case get_at parameters index of
        None \<Rightarrow> Inl (InvalidDynamicMetadata ''dynamic operand allocation is not contiguous'')
      | Some existing \<Rightarrow>
          if bp_data_type existing \<noteq> dfm_data_type field
             \<or> bp_wire existing \<noteq> dynamic_field_wire field
             \<or> bp_provider_type existing \<noteq> provider_type_from_wire (dfm_wire field)
             \<or> bp_collection existing \<noteq> collection
             \<or> \<not> value_eq codec (bp_value existing) value
          then Inl (InvalidDynamicMetadata
                 (''reused dynamic site disagrees at operand `'' @ path @ ''`''))
          else done parameters)"

definition parenthesized_join :: "string list \<Rightarrow> string \<Rightarrow> string" where
  "parenthesized_join items separator = ''('' @ join_with separator items @ '')''"

definition operator_text :: "dynamic_operator_metadata \<Rightarrow> string \<Rightarrow> string" where
  "operator_text operator placeholder =
     (case dom_before_value operator of None \<Rightarrow> [] | Some s \<Rightarrow> s) @ placeholder
       @ (case dom_after_value operator of None \<Rightarrow> [] | Some s \<Rightarrow> s)"

text \<open>One operator of a field: the body of the innermost loop.\<close>

definition render_dynamic_operator ::
  "('n, 'x) codec \<Rightarrow> dynamic_input_metadata \<Rightarrow> dynamic_site_field \<Rightarrow> string \<Rightarrow> string \<Rightarrow> string
     \<Rightarrow> 'n json \<Rightarrow> 'n operands \<Rightarrow> 'd execute_error + string \<times> 'n operands" where
  "render_dynamic_operator codec input site_field path field_key operator_name operand st =
     (let operand_path = path @ ''.'' @ field_key @ ''.'' @ operator_name in
      rbind (ok_or (find (\<lambda>d. dom_name d = operator_name) (dsf_operators site_field))
              (invalid operand_path ''a declared dynamic predicate operator'')) (\<lambda>operator.
      if dom_value_kind operator = ''scalar'' then
        rbind (dynamic_field input field_key) (\<lambda>field.
        rbind (validate_dynamic_scalar codec field operand operand_path) (\<lambda>_.
        rbind (dynamic_parameter codec operand_path field False operand st) (\<lambda>(placeholder, st).
          Inr (operator_text operator placeholder, st))))
      else if dom_value_kind operator = ''collection'' then
        rbind (dynamic_field input field_key) (\<lambda>field.
        rbind (validate_dynamic_collection codec field operand operand_path) (\<lambda>_.
        rbind (ok_or (as_array operand) (invalid operand_path ''a collection'')) (\<lambda>items.
          if items = [] then
            Inr (if operator_name = ''in'' then ''FALSE'' else ''TRUE'', st)
          else
            rbind (dynamic_parameter codec operand_path field True operand st) (\<lambda>(placeholder, st).
              Inr (operator_text operator placeholder, st)))))
      else if dom_value_kind operator = ''boolean'' then
        rbind (ok_or (as_bool operand) (invalid operand_path ''a boolean'')) (\<lambda>b.
          let value = (if b then ''true'' else ''false'') in
          rbind (ok_or (find (\<lambda>c. vcm_value c = value) (dom_cases operator))
                  (InvalidDynamicMetadata (''operator `'' @ operator_name @ ''` has no `'' @ value
                     @ ''` lowering''))) (\<lambda>c.
            Inr (vcm_text c, st)))
      else Inl (InvalidDynamicMetadata (''operator `'' @ operator_name @ ''` has unknown value kind `''
                  @ dom_value_kind operator @ ''`''))))"

definition render_dynamic_field ::
  "('n, 'x) codec \<Rightarrow> dynamic_input_metadata \<Rightarrow> dynamic_input_site \<Rightarrow> string \<Rightarrow> string
     \<Rightarrow> 'n json \<Rightarrow> 'n operands \<Rightarrow> 'd execute_error + string list \<times> 'n operands" where
  "render_dynamic_field codec input site path field_key value st =
     rbind (dynamic_site_field_for input site field_key path) (\<lambda>site_field.
     rbind (ok_or (as_object value)
             (invalid (path @ ''.'' @ field_key) ''a dynamic field-operator object'')) (\<lambda>operators.
     rbind (traverse (\<lambda>st operator_name.
              case map_of operators operator_name of
                None \<Rightarrow> Inr ([], st)
              | Some operand \<Rightarrow>
                  rbind (render_dynamic_operator codec input site_field path field_key
                           operator_name operand st) (\<lambda>(text, st). Inr ([text], st)))
             st (sort (map fst operators))) (\<lambda>(texts, st). Inr (concat texts, st))))"

text \<open>The children of \<open>and\<close> and \<open>or\<close> that render to nothing are left out.\<close>

definition present :: "'a option list \<Rightarrow> 'a list" where
  "present xs = List.map_filter (\<lambda>x. x) xs"

function render_dynamic_predicate ::
  "('n, 'x) codec \<Rightarrow> dynamic_input_metadata \<Rightarrow> dynamic_input_site \<Rightarrow> 'n json \<Rightarrow> string
     \<Rightarrow> 'n operands \<Rightarrow> 'd execute_error + string option \<times> 'n operands" where
  "render_dynamic_predicate codec input site value path st =
     (case as_object value of
        None \<Rightarrow> Inl (invalid path ''a dynamic predicate object'')
      | Some object \<Rightarrow>
          rbind (traverse (\<lambda>st key.
            case map_of object key of
              None \<Rightarrow> Inr ([], st)
            | Some v \<Rightarrow>
                if key = ''and'' then
                  rbind (ok_or (as_array v) (invalid (path @ ''.and'') ''an array of predicates''))
                    (\<lambda>items.
                  rbind (traverse (\<lambda>st (i, item).
                           render_dynamic_predicate codec input site item
                             (path @ ''.and['' @ dec_string i @ '']'') st) st (enumerate 0 items))
                    (\<lambda>(children, st).
                      Inr (if present children = [] then []
                           else [parenthesized_join (present children) '' AND ''], st)))
                else if key = ''or'' then
                  rbind (ok_or (as_array v) (invalid (path @ ''.or'') ''an array of predicates''))
                    (\<lambda>items.
                  rbind (traverse (\<lambda>st (i, item).
                           render_dynamic_predicate codec input site item
                             (path @ ''.or['' @ dec_string i @ '']'') st) st (enumerate 0 items))
                    (\<lambda>(children, st).
                      Inr ([if present children = [] then ''FALSE''
                            else parenthesized_join (present children) '' OR ''], st)))
                else if key = ''not'' then
                  rbind (render_dynamic_predicate codec input site v (path @ ''.not'') st)
                    (\<lambda>(child, st).
                      Inr (case child of None \<Rightarrow> [] | Some c \<Rightarrow> [''NOT ('' @ c @ '')''], st))
                else render_dynamic_field codec input site path key v st)
            st (sort (map fst object)))
            (\<lambda>(texts, st).
              let predicates = concat texts in
              Inr (if predicates = [] then None
                   else Some (parenthesized_join predicates '' AND ''), st)))"
  by pat_completeness auto

lemma object_entry_size: "map_of object key = Some v \<Longrightarrow> size v < size (JObject object)"
proof -
  assume "map_of object key = Some v"
  then have "(key, v) \<in> set object" by (rule map_of_SomeD)
  then show ?thesis by (induction object) auto
qed

lemma array_item_size: "item \<in> set items \<Longrightarrow> size item < size (JArray items)"
  by (induction items) auto

lemma as_object_Some: "as_object v = Some object \<longleftrightarrow> v = JObject object"
  by (cases v) auto

lemma as_array_Some: "as_array v = Some items \<longleftrightarrow> v = JArray items"
  by (cases v) auto

lemma enumerate_item: "(i, item) \<in> set (enumerate n items) \<Longrightarrow> item \<in> set items"
  by (auto simp: in_set_enumerate_eq)

termination render_dynamic_predicate
  apply (relation "measure (\<lambda>(codec, input, site, value, path, st). size value)")
  apply (auto simp: as_object_Some as_array_Some dest!: object_entry_size enumerate_item
      intro: less_trans array_item_size)
  done

declare render_dynamic_predicate.simps [simp del]

definition render_order_item ::
  "dynamic_input_metadata \<Rightarrow> dynamic_input_site \<Rightarrow> string \<Rightarrow> nat \<times> 'n json
     \<Rightarrow> 'd execute_error + string" where
  "render_order_item input site path p =
     (let (i, item) = p;
          item_path = path @ ''['' @ dec_string i @ '']'';
          shape = invalid item_path ''a single-field order object''
      in rbind (ok_or (as_object item) shape) (\<lambda>object.
         case object of
           [(field_key, direction)] \<Rightarrow>
             rbind (dynamic_site_field_for input site field_key path) (\<lambda>field.
             rbind (ok_or (string_value direction)
                     (invalid item_path ''a dynamic order direction'')) (\<lambda>direction.
             rbind (ok_or (find (\<lambda>c. vcm_value c = direction) (dsf_directions field))
                     (invalid item_path ''a declared dynamic order direction'')) (\<lambda>c.
               Inr (vcm_text c))))
         | _ \<Rightarrow> Inl shape))"

definition render_dynamic_order ::
  "dynamic_input_metadata \<Rightarrow> dynamic_input_site \<Rightarrow> 'n json \<Rightarrow> string
     \<Rightarrow> 'd execute_error + string option" where
  "render_dynamic_order input site value path =
     rbind (ok_or (as_array value) (invalid path ''an array of dynamic order entries'')) (\<lambda>items.
     rbind (collect_results (render_order_item input site path) (enumerate 0 items)) (\<lambda>rendered.
       Inr (if rendered = [] then None else Some (join_with '', '' rendered))))"

definition replace_dynamic_marker ::
  "string \<Rightarrow> dynamic_input_site \<Rightarrow> string \<Rightarrow> 'd execute_error + string" where
  "replace_dynamic_marker sql site rendered =
     (if occurs_once (dis_marker site) sql then Inr (replace_first (dis_marker site) rendered sql)
      else Inl (InvalidDynamicMetadata (''marker `'' @ dis_marker site
                  @ ''` does not identify exactly one SQL site'')))"

definition unwrap_or :: "'a option \<Rightarrow> 'a \<Rightarrow> 'a" where
  "unwrap_or x d = (case x of None \<Rightarrow> d | Some y \<Rightarrow> y)"

text \<open>The text of one site, with the operands it consumed.\<close>

definition render_dynamic_site ::
  "('n, 'x) codec \<Rightarrow> dynamic_input_metadata \<Rightarrow> 'n json \<Rightarrow> nat \<Rightarrow> 'n bound_parameter list
     \<Rightarrow> dynamic_input_site \<Rightarrow> 'd execute_error + string \<times> 'n operands" where
  "render_dynamic_site codec input value start parameters site =
     (if dim_kind input = ''predicate'' then
        rbind (render_dynamic_predicate codec input site value (dim_path input) (parameters, start))
          (\<lambda>(rendered, st). Inr (unwrap_or rendered (dis_identity_sql site), st))
      else if dim_kind input = ''order'' then
        rbind (render_dynamic_order input site value (dim_path input))
          (\<lambda>rendered. Inr (unwrap_or rendered (dis_identity_sql site), (parameters, start)))
      else Inl (InvalidDynamicMetadata (''input `'' @ dim_path input @ ''` has unknown kind `''
                  @ dim_kind input @ ''`'')))"

text \<open>
  One iteration over the sites of an input; the state is the statement, the parameters and the
  operand index the first site ended with.
\<close>

definition materialize_site ::
  "('n, 'x) codec \<Rightarrow> dynamic_input_metadata \<Rightarrow> 'n json \<Rightarrow> nat
     \<Rightarrow> string \<times> 'n bound_parameter list \<times> nat option \<Rightarrow> dynamic_input_site
     \<Rightarrow> 'd execute_error + string \<times> 'n bound_parameter list \<times> nat option" where
  "materialize_site codec input value start st site =
     (let (sql, parameters, expected) = st in
      rbind (render_dynamic_site codec input value start parameters site)
        (\<lambda>(rendered, parameters, index).
      rbind (case expected of
               None \<Rightarrow> Inr (Some index)
             | Some e \<Rightarrow>
                 if index \<noteq> e then Inl (InvalidDynamicMetadata (''sites for `'' @ dim_path input
                                        @ ''` do not consume the same operands''))
                 else Inr (Some e)) (\<lambda>expected.
      rbind (replace_dynamic_marker sql site rendered) (\<lambda>sql.
        Inr (sql, parameters, expected)))))"

definition materialized_value ::
  "(string \<rightharpoonup> 'n json) \<Rightarrow> string \<Rightarrow> 'd execute_error + 'n json" where
  "materialized_value vals path = ok_or (vals path) (MissingInput path)"

definition declared ::
  "(string \<rightharpoonup> metadata_input) \<Rightarrow> string \<Rightarrow> 'd execute_error + metadata_input" where
  "declared inputs path = ok_or (inputs path) (UndeclaredParameter path)"

definition dynamic_input_value ::
  "(string \<rightharpoonup> 'n json) \<Rightarrow> dynamic_input_metadata \<Rightarrow> 'd execute_error + 'n json" where
  "dynamic_input_value vals input =
     rbind (materialized_value vals (dim_path input)) (\<lambda>value.
       if is_null value then
         (if dim_kind input = ''predicate'' then Inr (JObject [])
          else if dim_kind input = ''order'' then Inr (JArray [])
          else Inl (InvalidDynamicMetadata (''input `'' @ dim_path input @ ''` has unknown kind `''
                      @ dim_kind input @ ''`'')))
       else Inr value)"

definition materialize_dynamic_input ::
  "('n, 'x) codec \<Rightarrow> (string \<rightharpoonup> 'n json) \<Rightarrow> string \<times> 'n bound_parameter list
     \<Rightarrow> dynamic_input_metadata \<Rightarrow> 'd execute_error + string \<times> 'n bound_parameter list" where
  "materialize_dynamic_input codec vals st input =
     (let (sql, parameters) = st in
      rbind (dynamic_input_value vals input) (\<lambda>value.
      rbind (rfold (materialize_site codec input value (length parameters))
               (sql, parameters, None) (dim_sites input)) (\<lambda>(sql, parameters, _).
        if dim_sites input = [] then
          Inl (InvalidDynamicMetadata (''input `'' @ dim_path input @ ''` has no SQL usage sites''))
        else Inr (sql, parameters))))"

definition materialize_dynamic_inputs ::
  "('n, 'x) codec \<Rightarrow> (string \<rightharpoonup> 'n json) \<Rightarrow> dynamic_input_metadata list
     \<Rightarrow> string \<times> 'n bound_parameter list \<Rightarrow> 'd execute_error + string \<times> 'n bound_parameter list" where
  "materialize_dynamic_inputs codec vals inputs st =
     rfold (materialize_dynamic_input codec vals) st inputs"

section \<open>The operation\<close>

definition declared_fields :: "operation_metadata \<Rightarrow> metadata_input list" where
  "declared_fields operation = om_params operation @ om_input operation @ om_context operation"

text \<open>Collecting pairs into a map keeps the last of equal keys.\<close>

definition fields_by_path :: "operation_metadata \<Rightarrow> string \<rightharpoonup> metadata_input" where
  "fields_by_path operation =
     map_of (rev (map (\<lambda>field. (in_path field, field)) (declared_fields operation)))"

definition insert_input ::
  "('n, 'x) codec \<Rightarrow> 'n bindings \<Rightarrow> (string \<rightharpoonup> 'n json) \<Rightarrow> metadata_input
     \<Rightarrow> 'd execute_error + (string \<rightharpoonup> 'n json)" where
  "insert_input codec bindings vals field =
     rbind (input_value codec bindings field) (\<lambda>found.
       Inr (case found of None \<Rightarrow> vals | Some value \<Rightarrow> vals(in_path field \<mapsto> value)))"

definition variant_marker :: "string \<Rightarrow> string" where
  "variant_marker path = ''{{'' @ path @ ''}}''"

definition variant_text ::
  "(string \<rightharpoonup> 'n json) \<Rightarrow> sql_variant_metadata \<Rightarrow> 'd execute_error + string" where
  "variant_text vals sv =
     rbind (materialized_value vals (svm_path sv)) (\<lambda>value.
       if is_null value then
         ok_or (svm_null_text sv) (invalid (svm_path sv) ''a non-null string variant'')
       else
         rbind (ok_or (string_value value) (invalid (svm_path sv) ''a string variant'')) (\<lambda>s.
         rbind (ok_or (find (\<lambda>c. vcm_value c = s) (svm_cases sv))
                 (InvalidVariant (svm_path sv) s)) (\<lambda>c.
           Inr (vcm_text c))))"

definition materialize_variant ::
  "(string \<rightharpoonup> metadata_input) \<Rightarrow> (string \<rightharpoonup> 'n json) \<Rightarrow> string \<Rightarrow> sql_variant_metadata
     \<Rightarrow> 'd execute_error + string" where
  "materialize_variant inputs vals sql sv =
     rbind (declared inputs (svm_path sv)) (\<lambda>_.
     rbind (variant_text vals sv) (\<lambda>text.
       Inr (replace_all (variant_marker (svm_path sv)) text sql)))"

definition static_bound :: "metadata_input \<Rightarrow> string \<Rightarrow> 'n json \<Rightarrow> 'n bound_parameter" where
  "static_bound field path value =
     \<lparr>bp_path = path, bp_data_type = in_data_type field, bp_wire = field_wire field,
      bp_provider_type = field_provider_type field,
      bp_collection = (in_collection field = Some True), bp_value = value\<rparr>"

definition materialize_parameter ::
  "(string \<rightharpoonup> metadata_input) \<Rightarrow> (string \<rightharpoonup> 'n json) \<Rightarrow> sql_parameter_metadata
     \<Rightarrow> 'd execute_error + 'n bound_parameter" where
  "materialize_parameter inputs vals sp =
     rbind (declared inputs (spm_path sp)) (\<lambda>field.
     rbind (materialized_value vals (spm_path sp)) (\<lambda>value.
       Inr (static_bound field (spm_path sp) value)))"

definition materialize ::
  "('n, 'x) codec \<Rightarrow> operation_metadata \<Rightarrow> 'n bindings
     \<Rightarrow> 'd execute_error + 'n materialized_operation" where
  "materialize codec operation bindings =
     (if om_kind operation \<noteq> DefQuery
      then Inl (UnsupportedOperationKind (definition_kind_as_ref (om_kind operation)))
      else
        let inputs = fields_by_path operation in
        rbind (rfold (insert_input codec bindings) Map.empty (declared_fields operation)) (\<lambda>vals.
        rbind (rfold (materialize_variant inputs vals) (sm_text (om_sql operation))
                 (sm_variants (om_sql operation))) (\<lambda>sql.
        rbind (collect_results (materialize_parameter inputs vals)
                 (sm_parameters (om_sql operation))) (\<lambda>parameters.
        rbind (materialize_dynamic_inputs codec vals (om_dynamic_inputs operation) (sql, parameters))
          (\<lambda>(sql, parameters).
          Inr \<lparr>mo_sql = sql, mo_parameters = parameters\<rparr>)))))"

end
