(* ===== verification/Execution_Run.thy ===== *)
theory Execution_Run
  imports Materialization
begin

text \<open>
  Binding and running a materialized operation (\<open>crates/dsql-execute/src/lib.rs\<close>): \<open>bind\<close> and
  its null and collection forms, \<open>execute_materialized\<close>, the probe of text casts after a data
  exception, and the canonical key order of the result.

  A bind call appends one typed argument to the query. The database is a parameter: its two
  fetch operations and the error code accessor of the driver, over a state of its own that
  every call may change.
\<close>

section \<open>Arguments\<close>

text \<open>The Rust type an argument is encoded from, and its value.\<close>

datatype pg_type = TyUuid | TyText | TyTimestamptz | TyInt8 | TyNumeric | TyFloat8 | TyBool | TyJson

datatype 'x pg_value =
    PgUuid 'x | PgText string | PgTimestamptz 'x | PgInt8 int | PgNumeric 'x | PgFloat8 'x
  | PgBool bool | PgJson 'x

datatype 'x argument =
    ArgScalar "'x pg_value"
  | ArgNull pg_type
  | ArgArray pg_type "'x pg_value option list"
  | ArgNullArray pg_type

text \<open>A query is the text and the arguments bound so far.\<close>

type_synonym 'x query = "string \<times> 'x argument list"

definition query_bind :: "'x query \<Rightarrow> 'x argument \<Rightarrow> 'x query" where
  "query_bind query argument = (fst query, snd query @ [argument])"

definition json_raw_value ::
  "('n, 'x) codec \<Rightarrow> string \<Rightarrow> 'n json \<Rightarrow> 'd execute_error + 'x" where
  "json_raw_value codec path value =
     (case json_to_string codec value of
        Inl message \<Rightarrow> Inl (InvalidJsonParameter path message)
      | Inr serialized \<Rightarrow>
          (case raw_json_from_string codec serialized of
             Inl message \<Rightarrow> Inl (InvalidJsonParameter path message)
           | Inr raw \<Rightarrow> Inr raw))"

definition json_value :: "('n, 'x) codec \<Rightarrow> 'n bound_parameter \<Rightarrow> 'd execute_error + 'x" where
  "json_value codec p = json_raw_value codec (bp_path p) (bp_value p)"

text \<open>The type of a null: the \<open>None\<close> of the option type the encoding binds.\<close>

definition null_type :: "wire_encoding \<Rightarrow> pg_type option" where
  "null_type wire = (case wire of
       WireUuid \<Rightarrow> Some TyUuid
     | WireText \<Rightarrow> Some TyText
     | WireTextCast \<Rightarrow> Some TyText
     | WireTimestamptz \<Rightarrow> Some TyTimestamptz
     | WireInteger \<Rightarrow> Some TyInt8
     | WireBigInteger \<Rightarrow> Some TyInt8
     | WireNumeric \<Rightarrow> Some TyNumeric
     | WireFloat \<Rightarrow> Some TyFloat8
     | WireBoolean \<Rightarrow> Some TyBool
     | WireJson \<Rightarrow> Some TyJson
     | WireUnsupported \<Rightarrow> None)"

definition unsupported :: "'n bound_parameter \<Rightarrow> 'd execute_error" where
  "unsupported p = UnsupportedType (bp_path p) (bp_data_type p)"

definition bind_null_scalar ::
  "'x query \<Rightarrow> 'n bound_parameter \<Rightarrow> 'd execute_error + 'x query" where
  "bind_null_scalar query p =
     (case null_type (bp_wire p) of
        Some ty \<Rightarrow> Inr (query_bind query (ArgNull ty))
      | None \<Rightarrow> Inl (unsupported p))"

definition bind_null_collection ::
  "'x query \<Rightarrow> 'n bound_parameter \<Rightarrow> 'd execute_error + 'x query" where
  "bind_null_collection query p =
     (case null_type (bp_wire p) of
        Some ty \<Rightarrow> Inr (query_bind query (ArgNullArray ty))
      | None \<Rightarrow> Inl (unsupported p))"

text \<open>A string value that a library parser accepts.\<close>

definition parsed_string :: "(string \<Rightarrow> 'b option) \<Rightarrow> 'n json \<Rightarrow> 'b option" where
  "parsed_string parse value = (case string_value value of None \<Rightarrow> None | Some s \<Rightarrow> parse s)"

definition bind_scalar ::
  "('n, 'x) codec \<Rightarrow> 'x query \<Rightarrow> 'n bound_parameter \<Rightarrow> 'd execute_error + 'x query" where
  "bind_scalar codec query p =
     (let v = bp_value p;
          error = invalid (bp_path p) (bp_data_type p);
          done = (\<lambda>arg. Inr (query_bind query (ArgScalar arg)))
      in
      if is_null v then bind_null_scalar query p
      else case bp_wire p of
        WireUuid \<Rightarrow> rbind (ok_or (parsed_string (parse_uuid codec) v) error) (\<lambda>x. done (PgUuid x))
      | WireText \<Rightarrow> rbind (ok_or (string_value v) error) (\<lambda>s. done (PgText s))
      | WireTextCast \<Rightarrow> rbind (ok_or (string_value v) error) (\<lambda>s. done (PgText s))
      | WireTimestamptz \<Rightarrow>
          rbind (ok_or (parsed_string (parse_rfc3339 codec) v) error) (\<lambda>x. done (PgTimestamptz x))
      | WireInteger \<Rightarrow> rbind (ok_or (integer_value codec v) error) (\<lambda>n. done (PgInt8 n))
      | WireBigInteger \<Rightarrow> rbind (ok_or (big_integer_value v) error) (\<lambda>n. done (PgInt8 n))
      | WireNumeric \<Rightarrow>
          rbind (ok_or (parsed_string (parse_decimal codec) v) error) (\<lambda>x. done (PgNumeric x))
      | WireFloat \<Rightarrow> rbind (ok_or (float_value codec v) error) (\<lambda>x. done (PgFloat8 x))
      | WireBoolean \<Rightarrow> rbind (ok_or (as_bool v) error) (\<lambda>b. done (PgBool b))
      | WireJson \<Rightarrow> rbind (json_value codec p) (\<lambda>x. done (PgJson x))
      | WireUnsupported \<Rightarrow> Inl (unsupported p))"

text \<open>
  The elements of an array argument: \<open>parse_strings\<close> tests for null first, the scalar accessors
  are tried before null; \<open>collect::<Option<_>>\<close> is \<open>those\<close>.
\<close>

definition parse_strings :: "(string \<Rightarrow> 'b option) \<Rightarrow> 'n json list \<Rightarrow> 'b option list option" where
  "parse_strings parse vals =
     those (map (\<lambda>v. if is_null v then Some None else map_option Some (parsed_string parse v)) vals)"

definition optional_values :: "('n json \<Rightarrow> 'b option) \<Rightarrow> 'n json list \<Rightarrow> 'b option list option" where
  "optional_values read vals =
     those (map (\<lambda>v. case map_option Some (read v) of
                       Some y \<Rightarrow> Some y
                     | None \<Rightarrow> if is_null v then Some None else None) vals)"

definition json_elements ::
  "('n, 'x) codec \<Rightarrow> string \<Rightarrow> 'n json list \<Rightarrow> 'd execute_error + 'x option list" where
  "json_elements codec path vals =
     collect_results (\<lambda>v. if is_null v then Inr None
        else rbind (json_raw_value codec path v) (\<lambda>x. Inr (Some x))) vals"

definition bind_collection ::
  "('n, 'x) codec \<Rightarrow> 'x query \<Rightarrow> 'n bound_parameter \<Rightarrow> 'd execute_error + 'x query" where
  "bind_collection codec query p =
     (let error = invalid (bp_path p) (''an array of '' @ bp_data_type p);
          done = (\<lambda>ty pg xs. Inr (query_bind query (ArgArray ty (map (map_option pg) xs))))
      in
      if is_null (bp_value p) then bind_null_collection query p
      else rbind (ok_or (as_array (bp_value p)) error) (\<lambda>vals.
        case bp_wire p of
          WireUuid \<Rightarrow> rbind (ok_or (parse_strings (parse_uuid codec) vals) error) (done TyUuid PgUuid)
        | WireText \<Rightarrow> rbind (ok_or (parse_strings Some vals) error)
                        (\<lambda>xs. Inr (query_bind query (ArgArray TyText (map (map_option PgText) xs))))
        | WireTextCast \<Rightarrow> rbind (ok_or (parse_strings Some vals) error)
                        (\<lambda>xs. Inr (query_bind query (ArgArray TyText (map (map_option PgText) xs))))
        | WireTimestamptz \<Rightarrow>
            rbind (ok_or (parse_strings (parse_rfc3339 codec) vals) error) (done TyTimestamptz PgTimestamptz)
        | WireInteger \<Rightarrow> rbind (ok_or (optional_values (integer_value codec) vals) error)
                        (\<lambda>xs. Inr (query_bind query (ArgArray TyInt8 (map (map_option PgInt8) xs))))
        | WireBigInteger \<Rightarrow> rbind (ok_or (parse_strings parse_i64 vals) error)
                        (\<lambda>xs. Inr (query_bind query (ArgArray TyInt8 (map (map_option PgInt8) xs))))
        | WireNumeric \<Rightarrow>
            rbind (ok_or (parse_strings (parse_decimal codec) vals) error) (done TyNumeric PgNumeric)
        | WireFloat \<Rightarrow> rbind (ok_or (optional_values (float_value codec) vals) error) (done TyFloat8 PgFloat8)
        | WireBoolean \<Rightarrow> rbind (ok_or (optional_values as_bool vals) error)
                        (\<lambda>xs. Inr (query_bind query (ArgArray TyBool (map (map_option PgBool) xs))))
        | WireJson \<Rightarrow> rbind (json_elements codec (bp_path p) vals) (done TyJson PgJson)
        | WireUnsupported \<Rightarrow> Inl (unsupported p)))"

definition bind_parameter ::
  "('n, 'x) codec \<Rightarrow> 'x query \<Rightarrow> 'n bound_parameter \<Rightarrow> 'd execute_error + 'x query" where
  "bind_parameter codec query p =
     (if bp_collection p then bind_collection codec query p else bind_scalar codec query p)"

definition bind_parameters ::
  "('n, 'x) codec \<Rightarrow> 'x query \<Rightarrow> 'n bound_parameter list \<Rightarrow> 'd execute_error + 'x query" where
  "bind_parameters codec query ps = rfold (bind_parameter codec) query ps"

section \<open>Results\<close>

text \<open>
  Keys in byte order at every level. The entries are cleared and inserted again in sorted order;
  since keys are distinct, every insertion appends.
\<close>

fun sort_object_keys :: "'n json \<Rightarrow> 'n json" where
  "sort_object_keys (JArray vs) = JArray (map sort_object_keys vs)"
| "sort_object_keys (JObject entries) =
     JObject (sort_key fst (map (\<lambda>(key, v). (key, sort_object_keys v)) entries))"
| "sort_object_keys v = v"

section \<open>Execution\<close>

text \<open>
  The driver: \<open>fetch_one\<close> and \<open>fetch_optional\<close> of a scalar query over \<open>Option<String>\<close>, and the
  code of a database error (\<open>None\<close> for errors of other kinds or without a code).
\<close>

record ('s, 'd, 'x) database =
  fetch_one :: "'x query \<Rightarrow> 's \<Rightarrow> ('d + string option) \<times> 's"
  fetch_optional :: "'x query \<Rightarrow> 's \<Rightarrow> ('d + string option option) \<times> 's"
  error_code :: "'d \<Rightarrow> string option"

definition database_error_is_class :: "('s, 'd, 'x) database \<Rightarrow> 'd \<Rightarrow> string \<Rightarrow> bool" where
  "database_error_is_class db error class =
     is_some_and (error_code db error) (\<lambda>code. starts_with code class)"

text \<open>\<open>str::trim\<close> and \<open>trim_end_matches(';')\<close>.\<close>

fun trim_end_reversed :: "string \<Rightarrow> string" where
  "trim_end_reversed (c # s) =
     (if whitespace_width [c] = 1 then trim_end_reversed s
      else case s of
        [] \<Rightarrow> c # s
      | c2 # s2 \<Rightarrow>
          if whitespace_width [c2, c] = 2 then trim_end_reversed s2
          else (case s2 of
            [] \<Rightarrow> c # s
          | c3 # s3 \<Rightarrow>
              if whitespace_width [c3, c2, c] = 3 then trim_end_reversed s3 else c # s))"
| "trim_end_reversed [] = []"

definition trim_end :: "string \<Rightarrow> string" where
  "trim_end s = rev (trim_end_reversed (rev s))"

definition trim :: "string \<Rightarrow> string" where
  "trim s = trim_end (drop (leading_whitespace s) s)"

definition trim_end_semicolons :: "string \<Rightarrow> string" where
  "trim_end_semicolons s = rev (dropWhile (\<lambda>c. c = CHR '';'') (rev s))"

definition execution_sql :: "string \<Rightarrow> string" where
  "execution_sql sql =
     ''select ROW_TO_JSON(\"result\")::text from ('' @ trim_end_semicolons (trim sql)
       @ '') as \"result\"''"

definition quote_identifier :: "string \<Rightarrow> string" where
  "quote_identifier s = CHR 34 # concat (map (\<lambda>c. if c = CHR 34 then [c, c] else [c]) s) @ [CHR 34]"

definition probe_sql :: "string \<Rightarrow> string \<Rightarrow> bool \<Rightarrow> string" where
  "probe_sql schema name collection =
     (let type_name = quote_identifier schema @ ''.'' @ quote_identifier name in
      if collection then ''select ((($1)::text[])::'' @ type_name @ ''[])::text''
      else ''select ((($1)::text)::'' @ type_name @ '')::text'')"

text \<open>
  The probe runs one cast per text-cast parameter, in order, and stops at the first the database
  rejects as a data exception.
\<close>

fun probe_text_cast_parameters ::
  "('n, 'x) codec \<Rightarrow> ('s, 'd, 'x) database \<Rightarrow> 'n bound_parameter list \<Rightarrow> 's
     \<Rightarrow> 'd execute_error option \<times> 's" where
  "probe_text_cast_parameters codec db [] st = (None, st)"
| "probe_text_cast_parameters codec db (p # ps) st =
     (if bp_wire p \<noteq> WireTextCast \<or> is_null (bp_value p)
      then probe_text_cast_parameters codec db ps st
      else case bp_provider_type p of
        None \<Rightarrow> probe_text_cast_parameters codec db ps st
      | Some (schema, name) \<Rightarrow>
          (case (bind_parameter codec (probe_sql schema name (bp_collection p), []) p
                 :: 'd execute_error + 'x query) of
             Inl _ \<Rightarrow> probe_text_cast_parameters codec db ps st
           | Inr query \<Rightarrow>
               (case fetch_optional db query st of
                  (Inl error, st) \<Rightarrow>
                    if database_error_is_class db error ''22''
                    then (Some (InvalidProviderInput (bp_path p) (schema @ ''.'' @ name)), st)
                    else probe_text_cast_parameters codec db ps st
                | (Inr _, st) \<Rightarrow> probe_text_cast_parameters codec db ps st)))"

definition decode_output :: "('n, 'x) codec \<Rightarrow> string option \<Rightarrow> 'd execute_error + 'n json" where
  "decode_output codec output =
     (case output of
        None \<Rightarrow> Inr JNull
      | Some text \<Rightarrow>
          (case json_from_str codec text of
             Inl message \<Rightarrow> Inl (InvalidOutput message)
           | Inr v \<Rightarrow> Inr (sort_object_keys v)))"

definition execute_materialized ::
  "('n, 'x) codec \<Rightarrow> ('s, 'd, 'x) database \<Rightarrow> 'n materialized_operation \<Rightarrow> 's
     \<Rightarrow> ('d execute_error + 'n json) \<times> 's" where
  "execute_materialized codec db m st =
     (case bind_parameters codec (execution_sql (mo_sql m), []) (mo_parameters m) of
        Inl e \<Rightarrow> (Inl e, st)
      | Inr query \<Rightarrow>
          (case fetch_one db query st of
             (Inr output, st) \<Rightarrow> (decode_output codec output, st)
           | (Inl error, st) \<Rightarrow>
               if database_error_is_class db error ''22'' then
                 (case probe_text_cast_parameters codec db (mo_parameters m) st of
                    (Some invalid_input, st) \<Rightarrow> (Inl invalid_input, st)
                  | (None, st) \<Rightarrow> (Inl (Database error), st))
               else (Inl (Database error), st)))"

definition execute ::
  "('n, 'x) codec \<Rightarrow> ('s, 'd, 'x) database \<Rightarrow> operation_metadata \<Rightarrow> 'n bindings \<Rightarrow> 's
     \<Rightarrow> ('d execute_error + 'n json) \<times> 's" where
  "execute codec db operation bindings st =
     (case materialize codec operation bindings of
        Inl e \<Rightarrow> (Inl e, st)
      | Inr m \<Rightarrow> execute_materialized codec db m st)"

end
