(* ===== verification/Materialization_Correct.thy ===== *)
theory Materialization_Correct
  imports Execution_Run
begin

text \<open>
  What materialization guarantees: the text of a statement is made of compiler-owned text and
  placeholders only, the parameters are the static ones followed by the operands of the dynamic
  inputs, every site of an input uses the same operands, and every materialized parameter can be
  bound.

  The operands of a dynamic value are specified by a function that walks the value once, without
  a state; rendering implements it over the shared parameter list.
\<close>

section \<open>Values that bind\<close>

text \<open>The values the driver can encode for an encoding.\<close>

definition bindable :: "('n, 'x) codec \<Rightarrow> wire_encoding \<Rightarrow> 'n json \<Rightarrow> bool" where
  "bindable codec wire v = (case wire of
       WireUuid \<Rightarrow> parsed_string (parse_uuid codec) v \<noteq> None
     | WireText \<Rightarrow> string_value v \<noteq> None
     | WireTextCast \<Rightarrow> string_value v \<noteq> None
     | WireTimestamptz \<Rightarrow> parsed_string (parse_rfc3339 codec) v \<noteq> None
     | WireInteger \<Rightarrow> integer_value codec v \<noteq> None
     | WireBigInteger \<Rightarrow> big_integer_value v \<noteq> None
     | WireNumeric \<Rightarrow> parsed_string (parse_decimal codec) v \<noteq> None
     | WireFloat \<Rightarrow> float_value codec v \<noteq> None
     | WireBoolean \<Rightarrow> as_bool v \<noteq> None
     | WireJson \<Rightarrow> True
     | WireUnsupported \<Rightarrow> False)"

text \<open>A parameter is ready when its value, or each element of its collection, is bindable.\<close>

definition ready :: "('n, 'x) codec \<Rightarrow> 'n bound_parameter \<Rightarrow> bool" where
  "ready codec p \<longleftrightarrow> bp_wire p \<noteq> WireUnsupported
     \<and> (is_null (bp_value p)
        \<or> (if bp_collection p
           then (case as_array (bp_value p) of
                   None \<Rightarrow> False
                 | Some vs \<Rightarrow> list_all (\<lambda>v. is_null v \<or> bindable codec (bp_wire p) v) vs)
           else bindable codec (bp_wire p) (bp_value p)))"

lemma unit_loop: "rfold (\<lambda>_ x. f x) () xs = Inr () \<Longrightarrow> \<forall>x \<in> set xs. f x = Inr ()"
  by (induction xs) auto

lemma validate_dynamic_scalar_bindable:
  assumes "(validate_dynamic_scalar codec field v path :: 'd execute_error + unit) = Inr ()"
  shows "dynamic_field_wire field \<noteq> WireUnsupported \<and> bindable codec (dynamic_field_wire field) v
    \<and> \<not> is_null v"
  using assms
  by (cases "dynamic_field_wire field")
     (auto simp: validate_dynamic_scalar_def bindable_def parsed_string_def is_some_and_def Let_def
        split: if_splits option.splits)

lemma validate_dynamic_collection_bindable:
  assumes "(validate_dynamic_collection codec field v path :: 'd execute_error + unit) = Inr ()"
    and "as_array v = Some items" and "items \<noteq> []"
  shows "dynamic_field_wire field \<noteq> WireUnsupported
    \<and> list_all (bindable codec (dynamic_field_wire field)) items"
proof -
  from assms(1,2) have "(rfold (\<lambda>_ item.
      if is_null item then Inl (invalid path ''a collection without null elements'')
      else validate_dynamic_scalar codec field item path) () items :: 'd execute_error + unit) = Inr ()"
    by (simp add: validate_dynamic_collection_def)
  from unit_loop[OF this]
  have "\<forall>item \<in> set items. (validate_dynamic_scalar codec field item path :: 'd execute_error + unit) = Inr ()"
    by (auto split: if_splits)
  with assms(3) show ?thesis
    by (cases items) (auto simp: list_all_iff dest: validate_dynamic_scalar_bindable)
qed

lemma ready_scalar:
  assumes "(validate_dynamic_scalar codec field v path :: 'd execute_error + unit) = Inr ()"
  shows "ready codec (dynamic_bound path' field False v)"
  using validate_dynamic_scalar_bindable[OF assms] by (simp add: ready_def dynamic_bound_def)

lemma ready_collection:
  assumes "(validate_dynamic_collection codec field v path :: 'd execute_error + unit) = Inr ()"
    and "as_array v = Some items" and "items \<noteq> []"
  shows "ready codec (dynamic_bound path' field True v)"
  using validate_dynamic_collection_bindable[OF assms]
  by (auto simp: ready_def dynamic_bound_def assms(2) list_all_iff)

section \<open>Operands\<close>

text \<open>The operand one operator binds, if any, as the parameter it is bound to.\<close>

definition operator_operands ::
  "dynamic_input_metadata \<Rightarrow> dynamic_site_field \<Rightarrow> string \<Rightarrow> string \<Rightarrow> string \<Rightarrow> 'n json
     \<Rightarrow> 'n bound_parameter list" where
  "operator_operands input site_field path key name operand =
     (case (find (\<lambda>d. dom_name d = name) (dsf_operators site_field),
            find (\<lambda>f. dfm_key f = key) (dim_fields input)) of
        (Some operator, Some field) \<Rightarrow>
          (let operand_path = path @ ''.'' @ key @ ''.'' @ name in
           if dom_value_kind operator = ''scalar''
           then [dynamic_bound operand_path field False operand]
           else if dom_value_kind operator = ''collection'' \<and> as_array operand \<noteq> Some []
           then [dynamic_bound operand_path field True operand]
           else [])
      | _ \<Rightarrow> [])"

definition field_operands ::
  "dynamic_input_metadata \<Rightarrow> dynamic_input_site \<Rightarrow> string \<Rightarrow> string \<Rightarrow> 'n json
     \<Rightarrow> 'n bound_parameter list" where
  "field_operands input site path key v =
     (case (find (\<lambda>f. dsf_key f = key) (dis_fields site), as_object v) of
        (Some site_field, Some operators) \<Rightarrow>
          concat (map (\<lambda>name. case map_of operators name of
              None \<Rightarrow> []
            | Some operand \<Rightarrow> operator_operands input site_field path key name operand)
            (sort (map fst operators)))
      | _ \<Rightarrow> [])"

function predicate_operands ::
  "dynamic_input_metadata \<Rightarrow> dynamic_input_site \<Rightarrow> 'n json \<Rightarrow> string \<Rightarrow> 'n bound_parameter list"
where
  "predicate_operands input site v path =
     (case as_object v of
        None \<Rightarrow> []
      | Some object \<Rightarrow>
          concat (map (\<lambda>key.
            case map_of object key of
              None \<Rightarrow> []
            | Some w \<Rightarrow>
                if key = ''and'' \<or> key = ''or'' then
                  (case as_array w of
                     None \<Rightarrow> []
                   | Some items \<Rightarrow>
                       concat (map (\<lambda>(i, item).
                         predicate_operands input site item
                           (path @ ''.'' @ key @ ''['' @ dec_string i @ '']'')) (enumerate 0 items)))
                else if key = ''not'' then predicate_operands input site w (path @ ''.not'')
                else field_operands input site path key w)
            (sort (map fst object))))"
  by pat_completeness auto

termination predicate_operands
  by (relation "measure (\<lambda>(input, site, v, path). size v)")
     (auto simp: as_object_Some as_array_Some dest!: object_entry_size enumerate_item
        intro: less_trans array_item_size)

declare predicate_operands.simps [simp del]

definition site_operands ::
  "dynamic_input_metadata \<Rightarrow> dynamic_input_site \<Rightarrow> 'n json \<Rightarrow> 'n bound_parameter list" where
  "site_operands input site v =
     (if dim_kind input = ''predicate'' then predicate_operands input site v (dim_path input) else [])"

text \<open>
  A later site agrees with a parameter that is already bound when everything but the path is the
  same.
\<close>

definition agrees :: "('n, 'x) codec \<Rightarrow> 'n bound_parameter \<Rightarrow> 'n bound_parameter \<Rightarrow> bool" where
  "agrees codec existing p \<longleftrightarrow>
     bp_data_type existing = bp_data_type p \<and> bp_wire existing = bp_wire p
     \<and> bp_provider_type existing = bp_provider_type p
     \<and> bp_collection existing = bp_collection p
     \<and> value_eq codec (bp_value existing) (bp_value p)"

inductive consumes ::
  "('n, 'x) codec \<Rightarrow> 'n operands \<Rightarrow> 'n bound_parameter list \<Rightarrow> 'n operands \<Rightarrow> bool"
  for codec where
  consumes_Nil: "consumes codec st [] st"
| consumes_append: "consumes codec (ps @ [p], Suc (length ps)) os st \<Longrightarrow>
    consumes codec (ps, length ps) (p # os) st"
| consumes_reuse: "i < length ps \<Longrightarrow> agrees codec (ps ! i) p \<Longrightarrow>
    consumes codec (ps, Suc i) os st \<Longrightarrow> consumes codec (ps, i) (p # os) st"

lemma consumes_trans:
  "consumes codec st os st' \<Longrightarrow> consumes codec st' os' st'' \<Longrightarrow> consumes codec st (os @ os') st''"
  by (induction rule: consumes.induct) (auto intro: consumes.intros)

lemma consumes_one:
  "consumes codec st [p] st' \<longleftrightarrow>
     (snd st = length (fst st) \<and> st' = (fst st @ [p], Suc (snd st)))
     \<or> (snd st < length (fst st) \<and> agrees codec (fst st ! snd st) p \<and> st' = (fst st, Suc (snd st)))"
  by (cases st) (auto elim!: consumes.cases intro: consumes.intros)

text \<open>A run from inside the list reuses what is there and appends the rest.\<close>

lemma consumes_result:
  assumes "consumes codec st os st'" and "snd st \<le> length (fst st)"
  shows "snd st' = snd st + length os
    \<and> fst st' = fst st @ drop (length (fst st) - snd st) os
    \<and> snd st' \<le> length (fst st')
    \<and> list_all2 (agrees codec) (take (length os) (drop (snd st) (fst st)))
        (take (length (fst st) - snd st) os)"
  using assms
proof (induction rule: consumes.induct)
  case (consumes_reuse i ps p os st)
  then have IH: "snd st = Suc i + length os"
      "fst st = ps @ drop (length ps - Suc i) os" "snd st \<le> length (fst st)"
      "list_all2 (agrees codec) (take (length os) (drop (Suc i) ps)) (take (length ps - Suc i) os)"
    by simp_all
  have d: "drop i ps = ps ! i # drop (Suc i) ps" and n: "length ps - i = Suc (length ps - Suc i)"
    using consumes_reuse.hyps(1) by (simp_all add: Cons_nth_drop_Suc)
  show ?case using IH consumes_reuse.hyps(2) by (simp add: d n)
qed auto

lemma consumes_extends:
  "consumes codec st os st' \<Longrightarrow> \<exists>qs. fst st' = fst st @ qs"
  by (induction rule: consumes.induct) auto

lemma traversed_consumes:
  assumes "traversed (\<lambda>s x y t. consumes codec s (g x) t \<and> list_all (ready codec) (g x)
      \<and> ok (fst t) y) s xs ys t"
    and mono: "\<And>ps qs y. ok ps y \<Longrightarrow> ok (ps @ qs) y"
  shows "consumes codec s (concat (map g xs)) t \<and> list_all (ready codec) (concat (map g xs))
    \<and> (\<forall>y \<in> set ys. ok (fst t) y)"
  using assms(1)
proof (induction rule: traversed.induct)
  case (traversed_Nil s)
  then show ?case by (simp add: consumes_Nil)
next
  case (traversed_Cons s x y t xs ys u)
  then obtain qs where "fst u = fst t @ qs" using consumes_extends by blast
  with traversed_Cons mono show ?case by (auto intro: consumes_trans)
qed

section \<open>Compiler-owned text\<close>

text \<open>
  The text a predicate may render to: constants and connectives of the executor, the texts the
  compiler wrote into the site, and placeholders of parameters that have the type of the field
  whose operator they complete. Nothing else can appear, in particular no input value.
\<close>

inductive predicate_text ::
  "dynamic_input_metadata \<Rightarrow> dynamic_input_site \<Rightarrow> 'n bound_parameter list \<Rightarrow> string \<Rightarrow> bool"
  for input site ps where
  text_false: "predicate_text input site ps ''FALSE''"
| text_true: "predicate_text input site ps ''TRUE''"
| text_operand:
    "\<lbrakk>sf \<in> set (dis_fields site); operator \<in> set (dsf_operators sf);
      field \<in> set (dim_fields input); dfm_key field = dsf_key sf;
      i < length ps; bp_data_type (ps ! i) = dfm_data_type field;
      bp_wire (ps ! i) = dynamic_field_wire field;
      bp_provider_type (ps ! i) = provider_type_from_wire (dfm_wire field);
      bp_collection (ps ! i) = (dom_value_kind operator = ''collection'')\<rbrakk> \<Longrightarrow>
     predicate_text input site ps (operator_text operator (dollar (Suc i)))"
| text_case:
    "\<lbrakk>sf \<in> set (dis_fields site); operator \<in> set (dsf_operators sf);
      c \<in> set (dom_cases operator)\<rbrakk> \<Longrightarrow> predicate_text input site ps (vcm_text c)"
| text_and: "\<lbrakk>ts \<noteq> []; \<And>t. t \<in> set ts \<Longrightarrow> predicate_text input site ps t\<rbrakk> \<Longrightarrow>
     predicate_text input site ps (parenthesized_join ts '' AND '')"
| text_or: "\<lbrakk>ts \<noteq> []; \<And>t. t \<in> set ts \<Longrightarrow> predicate_text input site ps t\<rbrakk> \<Longrightarrow>
     predicate_text input site ps (parenthesized_join ts '' OR '')"
| text_not: "predicate_text input site ps t \<Longrightarrow>
     predicate_text input site ps (''NOT ('' @ t @ '')'')"

lemma predicate_text_extends:
  "predicate_text input site ps t \<Longrightarrow> predicate_text input site (ps @ qs) t"
proof (induction rule: predicate_text.induct)
  case (text_operand sf operator field i)
  then show ?case
    by (intro predicate_text.text_operand[of sf site operator field input i]) (simp_all add: nth_append)
qed (blast intro: predicate_text.intros)+

text \<open>The text of one site: what its value renders to, or the identity of the site.\<close>

definition order_text :: "dynamic_input_site \<Rightarrow> string \<Rightarrow> bool" where
  "order_text site t \<longleftrightarrow>
     (\<exists>ts. ts \<noteq> [] \<and> t = join_with '', '' ts
        \<and> (\<forall>u \<in> set ts. \<exists>sf \<in> set (dis_fields site). \<exists>c \<in> set (dsf_directions sf). u = vcm_text c))"

definition site_text ::
  "dynamic_input_metadata \<Rightarrow> dynamic_input_site \<Rightarrow> 'n bound_parameter list \<Rightarrow> string \<Rightarrow> bool" where
  "site_text input site ps t \<longleftrightarrow>
     t = dis_identity_sql site
     \<or> dim_kind input = ''predicate'' \<and> predicate_text input site ps t
     \<or> dim_kind input = ''order'' \<and> order_text site t"

lemma site_text_extends: "site_text input site ps t \<Longrightarrow> site_text input site (ps @ qs) t"
  by (auto simp: site_text_def intro: predicate_text_extends)

section \<open>Rendering\<close>

lemma dynamic_parameter_facts:
  assumes "dynamic_parameter codec path field collection v st = Inr (placeholder, st')"
  shows "consumes codec st [dynamic_bound path field collection v] st'
    \<and> (\<exists>i < length (fst st'). placeholder = dollar (Suc i)
        \<and> bp_data_type (fst st' ! i) = dfm_data_type field
        \<and> bp_wire (fst st' ! i) = dynamic_field_wire field
        \<and> bp_provider_type (fst st' ! i) = provider_type_from_wire (dfm_wire field)
        \<and> bp_collection (fst st' ! i) = collection)"
proof -
  obtain ps i where st: "st = (ps, i)" by (cases st)
  show ?thesis
  proof (cases "i = length ps")
    case True
    with assms st show ?thesis
      by (auto simp: dynamic_parameter_def consumes_one dynamic_bound_def nth_append)
  next
    case False
    with assms st show ?thesis
      by (auto simp: dynamic_parameter_def consumes_one dynamic_bound_def agrees_def Let_def
          get_at_Some_iff split: option.splits if_splits)
  qed
qed

lemma render_dynamic_operator_facts:
  assumes "(render_dynamic_operator codec input sf path key name operand st
      :: 'd execute_error + string \<times> 'n operands) = Inr (t, st')"
    and sf: "find (\<lambda>f. dsf_key f = key) (dis_fields site) = Some sf"
  shows "consumes codec st (operator_operands input sf path key name operand) st'
    \<and> list_all (ready codec) (operator_operands input sf path key name operand)
    \<and> predicate_text input site (fst st') t"
proof -
  define operand_path where "operand_path = path @ ''.'' @ key @ ''.'' @ name"
  from assms(1) obtain d where d: "find (\<lambda>d. dom_name d = name) (dsf_operators sf) = Some d"
    by (auto simp: render_dynamic_operator_def Let_def)
  have mem: "sf \<in> set (dis_fields site)" "dsf_key sf = key" "d \<in> set (dsf_operators sf)"
    using find_SomeD[OF sf] find_SomeD[OF d] by auto
  note unfolded = assms(1)[unfolded render_dynamic_operator_def Let_def, folded operand_path_def,
      simplified d ok_or_simps rbind_simps]
  consider (scalar) "dom_value_kind d = ''scalar''" | (collection) "dom_value_kind d = ''collection''"
    | (boolean) "dom_value_kind d = ''boolean''"
    using unfolded by (auto split: if_splits)
  then show ?thesis
  proof cases
    case scalar
    from unfolded scalar obtain field placeholder where
      f: "(dynamic_field input key :: 'd execute_error + _) = Inr field"
      "(dynamic_parameter codec operand_path field False operand st
         :: 'd execute_error + string \<times> 'n operands) = Inr (placeholder, st')"
      "t = operator_text d placeholder"
      "(validate_dynamic_scalar codec field operand operand_path :: 'd execute_error + unit) = Inr ()"
      by auto
    then have field: "find (\<lambda>f. dfm_key f = key) (dim_fields input) = Some field"
      by (simp add: dynamic_field_def)
    have "operator_operands input sf path key name operand = [dynamic_bound operand_path field False operand]"
      by (simp add: operator_operands_def d field scalar operand_path_def)
    moreover have "predicate_text input site (fst st') t"
      using dynamic_parameter_facts[OF f(2)] find_SomeD[OF field] mem scalar f(3)
      by (auto intro!: predicate_text.text_operand)
    ultimately show ?thesis using dynamic_parameter_facts[OF f(2)] ready_scalar[OF f(4)] by simp
  next
    case collection
    from unfolded collection obtain field items where
      f: "(dynamic_field input key :: 'd execute_error + _) = Inr field" "as_array operand = Some items"
      "(if items = [] then Inr (if name = ''in'' then ''FALSE'' else ''TRUE'', st)
        else rbind (dynamic_parameter codec operand_path field True operand st) (\<lambda>(placeholder, st).
               Inr (operator_text d placeholder, st)))
          = (Inr (t, st') :: 'd execute_error + string \<times> 'n operands)"
      "(validate_dynamic_collection codec field operand operand_path :: 'd execute_error + unit) = Inr ()"
      by auto
    then have field: "find (\<lambda>f. dfm_key f = key) (dim_fields input) = Some field"
      by (simp add: dynamic_field_def)
    show ?thesis
    proof (cases "items = []")
      case True
      with f(2,3) show ?thesis
        by (auto simp: operator_operands_def d field collection intro: consumes_Nil
            predicate_text.text_false predicate_text.text_true simp del: append.simps split: if_splits)
    next
      case False
      with f(3) obtain placeholder where
        g: "(dynamic_parameter codec operand_path field True operand st
           :: 'd execute_error + string \<times> 'n operands) = Inr (placeholder, st')"
        "t = operator_text d placeholder" by auto
      have "operator_operands input sf path key name operand = [dynamic_bound operand_path field True operand]"
        using False f(2) by (simp add: operator_operands_def d field collection operand_path_def)
      moreover have "predicate_text input site (fst st') t"
        using dynamic_parameter_facts[OF g(1)] find_SomeD[OF field] mem collection g(2)
        by (auto intro!: predicate_text.text_operand)
      ultimately show ?thesis
        using dynamic_parameter_facts[OF g(1)] ready_collection[OF f(4,2) False] by simp
    qed
  next
    case boolean
    with unfolded obtain c where "c \<in> set (dom_cases d)" "t = vcm_text c" "st' = st"
      by (auto simp: Let_def dest!: find_SomeD split: if_splits)
    with mem boolean show ?thesis
      by (auto simp: operator_operands_def d intro: consumes_Nil predicate_text.text_case
          split: option.splits)
  qed
qed

lemma render_dynamic_field_facts:
  assumes "(render_dynamic_field codec input site path key v st
      :: 'd execute_error + string list \<times> 'n operands) = Inr (ts, st')"
  shows "consumes codec st (field_operands input site path key v) st'
    \<and> list_all (ready codec) (field_operands input site path key v)
    \<and> (\<forall>t \<in> set ts. predicate_text input site (fst st') t)"
proof -
  from assms obtain sf operators tss where
    sf: "find (\<lambda>f. dsf_key f = key) (dis_fields site) = Some sf"
    and v: "as_object v = Some operators" and ts: "ts = concat tss"
    and run: "(traverse (\<lambda>st name. case map_of operators name of
          None \<Rightarrow> Inr ([], st)
        | Some operand \<Rightarrow>
            rbind (render_dynamic_operator codec input sf path key name operand st)
              (\<lambda>(t, st). Inr ([t], st))) st (sort (map fst operators))
        :: 'd execute_error + string list list \<times> 'n operands) = Inr (tss, st')"
    by (auto simp: render_dynamic_field_def dynamic_site_field_for_def split: if_splits)
  define g where "g name = (case map_of operators name of
      None \<Rightarrow> []
    | Some operand \<Rightarrow> operator_operands input sf path key name operand)" for name
  have "traversed (\<lambda>s name y t. consumes codec s (g name) t \<and> list_all (ready codec) (g name)
      \<and> (\<forall>u \<in> set y. predicate_text input site (fst t) u)) st (sort (map fst operators)) tss st'"
    by (rule traverse_traversed[OF run])
       (auto simp: g_def intro: consumes_Nil dest!: render_dynamic_operator_facts[OF _ sf]
          split: option.splits)
  from traversed_consumes[OF this] show ?thesis
    by (auto simp: field_operands_def sf v ts g_def[abs_def] intro: predicate_text_extends)
qed

lemma children_text:
  assumes "\<forall>y \<in> set ys. \<forall>t. y = Some t \<longrightarrow> P t"
  shows "\<forall>t \<in> set (present ys). P t"
  using assms by (auto simp: present_def map_filter_def)

lemma render_dynamic_predicate_facts:
  assumes "(render_dynamic_predicate codec input site v path st
      :: 'd execute_error + string option \<times> 'n operands) = Inr (r, st')"
  shows "consumes codec st (predicate_operands input site v path) st'
    \<and> list_all (ready codec) (predicate_operands input site v path)
    \<and> (\<forall>t. r = Some t \<longrightarrow> predicate_text input site (fst st') t)"
  using assms
proof (induction v arbitrary: path st r st' rule: measure_induct_rule[of size])
  case (less v)
  from less.prems obtain object tss where
    v: "v = JObject object" and r: "r = (if concat tss = [] then None
        else Some (parenthesized_join (concat tss) '' AND ''))"
    and run: "(traverse (\<lambda>st key.
            case map_of object key of
              None \<Rightarrow> Inr ([], st)
            | Some w \<Rightarrow>
                if key = ''and'' then
                  rbind (ok_or (as_array w) (invalid (path @ ''.and'') ''an array of predicates''))
                    (\<lambda>items.
                  rbind (traverse (\<lambda>st (i, item).
                           render_dynamic_predicate codec input site item
                             (path @ ''.and['' @ dec_string i @ '']'') st) st (enumerate 0 items))
                    (\<lambda>(children, st).
                      Inr (if present children = [] then []
                           else [parenthesized_join (present children) '' AND ''], st)))
                else if key = ''or'' then
                  rbind (ok_or (as_array w) (invalid (path @ ''.or'') ''an array of predicates''))
                    (\<lambda>items.
                  rbind (traverse (\<lambda>st (i, item).
                           render_dynamic_predicate codec input site item
                             (path @ ''.or['' @ dec_string i @ '']'') st) st (enumerate 0 items))
                    (\<lambda>(children, st).
                      Inr ([if present children = [] then ''FALSE''
                            else parenthesized_join (present children) '' OR ''], st)))
                else if key = ''not'' then
                  rbind (render_dynamic_predicate codec input site w (path @ ''.not'') st)
                    (\<lambda>(child, st).
                      Inr (case child of None \<Rightarrow> [] | Some c \<Rightarrow> [''NOT ('' @ c @ '')''], st))
                else render_dynamic_field codec input site path key w st)
            st (sort (map fst object)) :: 'd execute_error + string list list \<times> 'n operands)
       = Inr (tss, st')"
    by (subst (asm) render_dynamic_predicate.simps)
       (auto simp: as_object_Some Let_def simp del: append.simps split: option.splits)
  have children: "consumes codec s (concat (map (\<lambda>(i, item).
        predicate_operands input site item (pre @ dec_string i @ '']'')) (enumerate 0 items))) t
      \<and> list_all (ready codec) (concat (map (\<lambda>(i, item).
        predicate_operands input site item (pre @ dec_string i @ '']'')) (enumerate 0 items)))
      \<and> (\<forall>u \<in> set (present ys). predicate_text input site (fst t) u)"
    if "w = JArray items" and "map_of object key = Some w"
      and "(traverse (\<lambda>st (i, item). render_dynamic_predicate codec input site item
             (pre @ dec_string i @ '']'') st) s (enumerate 0 items)
          :: 'd execute_error + string option list \<times> 'n operands) = Inr (ys, t)"
    for w items key pre s ys t
  proof -
    have sizes: "size item < size v" if "(i, item) \<in> set (enumerate 0 items)" for i item
      using array_item_size[OF enumerate_item[OF that]] object_entry_size[OF \<open>map_of object key = Some w\<close>]
      by (simp add: v \<open>w = JArray items\<close>)
    have "traversed (\<lambda>s p y t. consumes codec s
          (case p of (i, item) \<Rightarrow> predicate_operands input site item (pre @ dec_string i @ '']'')) t
        \<and> list_all (ready codec)
          (case p of (i, item) \<Rightarrow> predicate_operands input site item (pre @ dec_string i @ '']''))
        \<and> (\<forall>u. y = Some u \<longrightarrow> predicate_text input site (fst t) u)) s (enumerate 0 items) ys t"
      by (rule traverse_traversed[OF that(3)]) (auto dest!: less.IH[rotated] sizes)
    from traversed_consumes[OF this] show ?thesis
      by (auto intro: predicate_text_extends intro!: children_text)
  qed
  define g where "g key = (case map_of object key of
      None \<Rightarrow> []
    | Some w \<Rightarrow>
        if key = ''and'' \<or> key = ''or'' then
          (case as_array w of
             None \<Rightarrow> []
           | Some items \<Rightarrow>
               concat (map (\<lambda>(i, item).
                 predicate_operands input site item
                   (path @ ''.'' @ key @ ''['' @ dec_string i @ '']'')) (enumerate 0 items)))
        else if key = ''not'' then predicate_operands input site w (path @ ''.not'')
        else field_operands input site path key w)" for key
  have "traversed (\<lambda>s key y t. consumes codec s (g key) t \<and> list_all (ready codec) (g key)
      \<and> (\<forall>u \<in> set y. predicate_text input site (fst t) u)) st (sort (map fst object)) tss st'"
  proof (rule traverse_traversed[OF run], goal_cases)
    case (1 s key y t)
    show ?case
    proof (cases "map_of object key")
      case None
      with 1 show ?thesis by (simp add: g_def consumes_Nil)
    next
      case (Some w)
      consider (connective) "key = ''and'' \<or> key = ''or''" | (negation) "key = ''not''"
        | (field) "key \<notin> {''and'', ''or'', ''not''}" by auto
      then show ?thesis
      proof cases
        case connective
        with 1 Some obtain items ys where
          w: "w = JArray items"
          and ys: "(traverse (\<lambda>st (i, item). render_dynamic_predicate codec input site item
               ((path @ ''.'' @ key @ ''['') @ dec_string i @ '']'') st) s (enumerate 0 items)
             :: 'd execute_error + string option list \<times> 'n operands) = Inr (ys, t)"
          and y: "y = (if present ys = [] then if key = ''and'' then [] else [''FALSE'']
            else [parenthesized_join (present ys) (if key = ''and'' then '' AND '' else '' OR '')])"
          by (auto simp: as_array_Some split: if_splits)
        from children[OF w Some ys] y show ?thesis
          by (auto simp: g_def Some w connective
              intro: predicate_text.text_false predicate_text.text_and predicate_text.text_or)
      next
        case negation
        with 1 Some obtain child where
          child: "(render_dynamic_predicate codec input site w (path @ ''.not'') s
              :: 'd execute_error + string option \<times> 'n operands) = Inr (child, t)"
          and y: "y = (case child of None \<Rightarrow> [] | Some c \<Rightarrow> [''NOT ('' @ c @ '')''])"
          by auto
        have g: "g key = predicate_operands input site w (path @ ''.not'')"
          using Some negation by (simp add: g_def)
        have "size w < size v" using object_entry_size[OF Some] by (simp add: v)
        from less.IH[OF this child] y show ?thesis
          unfolding g by (cases child) (simp_all add: predicate_text.text_not del: append.simps)
      next
        case field
        with 1 Some have "(render_dynamic_field codec input site path key w s
            :: 'd execute_error + string list \<times> 'n operands) = Inr (y, t)" by simp
        from render_dynamic_field_facts[OF this] field show ?thesis by (simp add: g_def Some)
      qed
    qed
  qed
  from traversed_consumes[OF this]
  have "consumes codec st (concat (map g (sort (map fst object)))) st'"
    and "list_all (ready codec) (concat (map g (sort (map fst object))))"
    and "\<forall>t \<in> set (concat tss). predicate_text input site (fst st') t"
    by (auto intro: predicate_text_extends)
  moreover have "predicate_operands input site v path = concat (map g (sort (map fst object)))"
    by (subst predicate_operands.simps) (simp add: v g_def[abs_def])
  ultimately show ?case
    by (auto simp: r simp del: set_concat concat_eq_Nil_conv intro!: predicate_text.text_and)
qed

lemma render_dynamic_order_facts:
  fixes v :: "'n json"
  assumes "(render_dynamic_order input site v path :: 'd execute_error + string option) = Inr (Some t)"
  shows "order_text site t"
proof -
  from assms obtain items :: "'n json list" and ts where
    ts: "(collect_results (render_order_item input site path) (enumerate 0 items)
      :: 'd execute_error + string list) = Inr ts" "ts \<noteq> []" "t = join_with '', '' ts"
    by (auto simp: render_dynamic_order_def split: if_splits)
  have "\<exists>sf \<in> set (dis_fields site). \<exists>c \<in> set (dsf_directions sf). u = vcm_text c"
    if u: "u \<in> set ts" for u
  proof -
    from collect_results_set[OF ts(1) u] obtain p :: "nat \<times> 'n json" where
      "(render_order_item input site path p :: 'd execute_error + string) = Inr u" by auto
    then show ?thesis
      by (fastforce simp: render_order_item_def dynamic_site_field_for_def Let_def
          dest!: find_SomeD split: prod.splits list.splits if_splits)
  qed
  with ts show ?thesis by (auto simp: order_text_def)
qed

text \<open>One site: its text is vetted and it consumes exactly its operands.\<close>

lemma render_dynamic_site_facts:
  assumes "(render_dynamic_site codec input v start ps site
      :: 'd execute_error + string \<times> 'n operands) = Inr (t, st')"
  shows "consumes codec (ps, start) (site_operands input site v) st'
    \<and> list_all (ready codec) (site_operands input site v) \<and> site_text input site (fst st') t"
proof (cases "dim_kind input = ''predicate''")
  case True
  with assms obtain r where
    r: "(render_dynamic_predicate codec input site v (dim_path input) (ps, start)
        :: 'd execute_error + string option \<times> 'n operands) = Inr (r, st')"
      "t = unwrap_or r (dis_identity_sql site)"
    by (auto simp: render_dynamic_site_def)
  from render_dynamic_predicate_facts[OF r(1)] r(2) True show ?thesis
    by (auto simp: site_operands_def site_text_def unwrap_or_def split: option.splits)
next
  case False
  with assms obtain r where
    r: "(render_dynamic_order input site v (dim_path input) :: 'd execute_error + string option) = Inr r"
      "t = unwrap_or r (dis_identity_sql site)" "dim_kind input = ''order''" "st' = (ps, start)"
    by (auto simp: render_dynamic_site_def split: if_splits)
  then show ?thesis
    using render_dynamic_order_facts[of input site v "dim_path input"]
    by (auto simp: site_operands_def site_text_def unwrap_or_def consumes_Nil split: option.splits)
qed

section \<open>Statements\<close>

text \<open>The markers of the sites are replaced one after the other, each at its only occurrence.\<close>

inductive sites_replaced ::
  "'n bound_parameter list \<Rightarrow> (dynamic_input_metadata \<times> dynamic_input_site) list \<Rightarrow> string
     \<Rightarrow> string \<Rightarrow> bool" for ps where
  sites_done: "sites_replaced ps [] sql sql"
| sites_step: "\<lbrakk>occurs_once (dis_marker site) sql; site_text input site ps t;
    sites_replaced ps rest (replace_first (dis_marker site) t sql) sql'\<rbrakk> \<Longrightarrow>
    sites_replaced ps ((input, site) # rest) sql sql'"

lemma sites_replaced_trans:
  "sites_replaced ps xs sql sql' \<Longrightarrow> sites_replaced ps ys sql' sql'' \<Longrightarrow>
     sites_replaced ps (xs @ ys) sql sql''"
  by (induction rule: sites_replaced.induct) (auto intro: sites_replaced.intros)

lemma sites_replaced_extends:
  "sites_replaced ps xs sql sql' \<Longrightarrow> sites_replaced (ps @ qs) xs sql sql'"
  by (induction rule: sites_replaced.induct) (auto intro: sites_replaced.intros site_text_extends)

lemma materialize_site_facts:
  fixes v :: "'n json"
  assumes "(materialize_site codec input v start (sql, ps, expected) site
      :: 'd execute_error + _) = Inr (sql', ps', expected')"
  obtains t i where "consumes codec (ps, start) (site_operands input site v) (ps', i)
      \<and> list_all (ready codec) (site_operands input site v)"
    and "site_text input site ps' t" and "expected' = Some i"
    and "expected = None \<or> expected = Some i"
    and "occurs_once (dis_marker site) sql" and "sql' = replace_first (dis_marker site) t sql"
proof -
  from assms obtain t i where
    r: "(render_dynamic_site codec input v start ps site :: 'd execute_error + string \<times> 'n operands)
       = Inr (t, (ps', i))"
    "expected' = Some i" "expected = None \<or> expected = Some i"
    "occurs_once (dis_marker site) sql" "sql' = replace_first (dis_marker site) t sql"
    by (fastforce simp: materialize_site_def replace_dynamic_marker_def split: if_splits option.splits)
  show ?thesis using render_dynamic_site_facts[OF r(1)] r(2-) by (auto intro: that)
qed

text \<open>The later sites of an input leave the parameters alone and agree with the first.\<close>

lemma materialize_later_sites:
  fixes v :: "'n json"
  assumes "(rfold (materialize_site codec input v (length ps))
        (sql, ps @ os, Some (length (ps @ os))) sites :: 'd execute_error + _) = Inr (sql', ps', e)"
  shows "ps' = ps @ os \<and> sites_replaced (ps @ os) (map (Pair input) sites) sql sql'
    \<and> (\<forall>site \<in> set sites. list_all2 (agrees codec) os (site_operands input site v))"
  using assms
proof (induction sites arbitrary: sql)
  case Nil
  then show ?case by (simp add: sites_done)
next
  case (Cons site sites)
  from Cons.prems obtain sql1 ps1 e1 where
    step: "(materialize_site codec input v (length ps) (sql, ps @ os, Some (length (ps @ os))) site
        :: 'd execute_error + _) = Inr (sql1, ps1, e1)"
    and rest: "(rfold (materialize_site codec input v (length ps)) (sql1, ps1, e1) sites
        :: 'd execute_error + _) = Inr (sql', ps', e)"
    by auto
  from step obtain t i where
    t: "consumes codec (ps @ os, length ps) (site_operands input site v) (ps1, i)
      \<and> list_all (ready codec) (site_operands input site v)"
      "site_text input site ps1 t" "e1 = Some i"
      "Some (length (ps @ os)) = None \<or> Some (length (ps @ os)) = Some i"
      "occurs_once (dis_marker site) sql" "sql1 = replace_first (dis_marker site) t sql"
    by (rule materialize_site_facts)
  from t(4) have i: "i = length (ps @ os)" by simp
  from consumes_result[OF conjunct1[OF t(1)]] i
  have "ps1 = ps @ os" and agree: "list_all2 (agrees codec) os (site_operands input site v)"
    by auto
  with rest t(3) i have "ps' = ps @ os \<and> sites_replaced (ps @ os) (map (Pair input) sites) sql1 sql'
      \<and> (\<forall>site \<in> set sites. list_all2 (agrees codec) os (site_operands input site v))"
    by (intro Cons.IH) simp
  with t(2,5,6) agree \<open>ps1 = ps @ os\<close> show ?case
    by (simp add: sites_step[OF t(5)])
qed

lemma materialize_sites:
  fixes v :: "'n json"
  assumes "(rfold (materialize_site codec input v (length ps)) (sql, ps, None) (site # sites)
      :: 'd execute_error + _) = Inr (sql', ps', e)"
  shows "ps' = ps @ site_operands input site v \<and> list_all (ready codec) (site_operands input site v)
    \<and> sites_replaced ps' (map (Pair input) (site # sites)) sql sql'
    \<and> (\<forall>site' \<in> set sites. list_all2 (agrees codec) (site_operands input site v)
          (site_operands input site' v))"
proof -
  from assms obtain sql1 ps1 e1 where
    step: "(materialize_site codec input v (length ps) (sql, ps, None) site
        :: 'd execute_error + _) = Inr (sql1, ps1, e1)"
    and rest: "(rfold (materialize_site codec input v (length ps)) (sql1, ps1, e1) sites
        :: 'd execute_error + _) = Inr (sql', ps', e)"
    by auto
  from step obtain t i where
    t: "consumes codec (ps, length ps) (site_operands input site v) (ps1, i)
      \<and> list_all (ready codec) (site_operands input site v)"
      "site_text input site ps1 t" "e1 = Some i" "(None :: nat option) = None \<or> None = Some i"
      "occurs_once (dis_marker site) sql" "sql1 = replace_first (dis_marker site) t sql"
    by (rule materialize_site_facts)
  from consumes_result[OF conjunct1[OF t(1)]]
  have ps1: "ps1 = ps @ site_operands input site v" and "i = length ps1" by simp_all
  with rest t(3) have later: "(rfold (materialize_site codec input v (length ps))
      (sql1, ps @ site_operands input site v, Some (length (ps @ site_operands input site v))) sites
        :: 'd execute_error + _) = Inr (sql', ps', e)"
    by simp
  from materialize_later_sites[OF later] ps1 t(1,2,6) show ?thesis
    by (simp add: sites_step[OF t(5)])
qed

text \<open>The operands of an input are those of its first site.\<close>

definition input_operands ::
  "(string \<rightharpoonup> 'n json) \<Rightarrow> dynamic_input_metadata \<Rightarrow> 'n bound_parameter list" where
  "input_operands vals input =
     (case (dynamic_input_value vals input :: unit execute_error + 'n json, dim_sites input) of
        (Inr v, site # _) \<Rightarrow> site_operands input site v
      | _ \<Rightarrow> [])"

definition sites_agree ::
  "('n, 'x) codec \<Rightarrow> (string \<rightharpoonup> 'n json) \<Rightarrow> dynamic_input_metadata \<Rightarrow> bool" where
  "sites_agree codec vals input \<longleftrightarrow>
     (case (dynamic_input_value vals input :: unit execute_error + 'n json) of
        Inl _ \<Rightarrow> False
      | Inr v \<Rightarrow> dim_sites input \<noteq> []
          \<and> list_all (\<lambda>site. list_all2 (agrees codec) (input_operands vals input)
                (site_operands input site v)) (tl (dim_sites input)))"

lemma dynamic_input_value_any_error:
  "(dynamic_input_value vals input :: 'd execute_error + 'n json) = Inr v \<Longrightarrow>
   (dynamic_input_value vals input :: 'e execute_error + 'n json) = Inr v"
  by (auto simp: dynamic_input_value_def materialized_value_def rbind_Inr_iff split: if_splits)

lemma materialize_dynamic_input_facts:
  assumes "(materialize_dynamic_input codec vals (sql, ps) input
      :: 'd execute_error + string \<times> 'n bound_parameter list) = Inr (sql', ps')"
  shows "ps' = ps @ input_operands vals input \<and> list_all (ready codec) (input_operands vals input)
    \<and> sites_agree codec vals input
    \<and> sites_replaced ps' (map (Pair input) (dim_sites input)) sql sql'"
proof -
  from assms obtain v e where
    v: "(dynamic_input_value vals input :: 'd execute_error + 'n json) = Inr v"
    and run: "(rfold (materialize_site codec input v (length ps)) (sql, ps, None) (dim_sites input)
        :: 'd execute_error + _) = Inr (sql', ps', e)"
    and sites: "dim_sites input \<noteq> []"
    by (auto simp: materialize_dynamic_input_def split: if_splits)
  then obtain site rest where s: "dim_sites input = site # rest" by (cases "dim_sites input") auto
  have v': "(dynamic_input_value vals input :: unit execute_error + 'n json) = Inr v"
    by (rule dynamic_input_value_any_error[OF v])
  from materialize_sites[OF run[unfolded s]] show ?thesis
    by (auto simp: input_operands_def sites_agree_def v' s list_all_iff)
qed

lemma materialize_dynamic_inputs_facts:
  assumes "(materialize_dynamic_inputs codec vals inputs (sql, ps)
      :: 'd execute_error + string \<times> 'n bound_parameter list) = Inr (sql', ps')"
  shows "ps' = ps @ concat (map (input_operands vals) inputs)
    \<and> list_all (ready codec) (concat (map (input_operands vals) inputs))
    \<and> list_all (sites_agree codec vals) inputs
    \<and> sites_replaced ps' (concat (map (\<lambda>input. map (Pair input) (dim_sites input)) inputs)) sql sql'"
  using assms
proof (induction inputs arbitrary: sql ps)
  case Nil
  then show ?case by (simp add: materialize_dynamic_inputs_def sites_done)
next
  case (Cons input inputs)
  from Cons.prems obtain sql1 ps1 where
    step: "(materialize_dynamic_input codec vals (sql, ps) input
        :: 'd execute_error + string \<times> 'n bound_parameter list) = Inr (sql1, ps1)"
    and rest: "(materialize_dynamic_inputs codec vals inputs (sql1, ps1)
        :: 'd execute_error + string \<times> 'n bound_parameter list) = Inr (sql', ps')"
    by (auto simp: materialize_dynamic_inputs_def)
  note first = materialize_dynamic_input_facts[OF step] and others = Cons.IH[OF rest]
  from first others
  have ps': "ps' = ps1 @ concat (map (input_operands vals) inputs)"
    and "sites_replaced ps1 (map (Pair input) (dim_sites input)) sql sql1" by auto
  then have "sites_replaced ps' (map (Pair input) (dim_sites input)) sql sql1"
    by (simp add: sites_replaced_extends)
  with first others show ?case by (auto intro: sites_replaced_trans)
qed

section \<open>Values\<close>

text \<open>A value of the map is the validated value of a declared input with that path.\<close>

lemma inserted_value:
  assumes "(rfold (insert_input codec bindings) Map.empty inputs
      :: 'd execute_error + (string \<rightharpoonup> 'n json)) = Inr vals"
    and "vals path = Some v"
  shows "\<exists>field \<in> set inputs. in_path field = path
    \<and> (input_value codec bindings field :: 'd execute_error + 'n json option) = Inr (Some v)"
proof -
  have "\<forall>path v. vals path = Some v \<longrightarrow> (\<exists>field \<in> set inputs. in_path field = path
    \<and> (input_value codec bindings field :: 'd execute_error + 'n json option) = Inr (Some v))"
    by (rule rfold_invariant[OF assms(1)])
       (auto simp: insert_input_def split: option.splits if_splits)
  with assms(2) show ?thesis by blast
qed

lemma fields_by_path_Some:
  "fields_by_path operation path = Some field \<Longrightarrow>
     field \<in> set (declared_fields operation) \<and> in_path field = path"
  unfolding fields_by_path_def by (auto dest!: map_of_SomeD)

lemma fields_by_path_unique:
  assumes "distinct (map in_path (declared_fields operation))"
    and "field \<in> set (declared_fields operation)"
  shows "fields_by_path operation (in_path field) = Some field"
proof -
  have "map fst (rev (map (\<lambda>field. (in_path field, field)) (declared_fields operation)))
      = rev (map in_path (declared_fields operation))"
    by (simp add: rev_map comp_def)
  with assms(1)
  have "distinct (map fst (rev (map (\<lambda>field. (in_path field, field)) (declared_fields operation))))"
    by simp
  then show ?thesis
    unfolding fields_by_path_def using assms(2) by (intro map_of_is_SomeI) auto
qed

definition validated :: "('n, 'x) codec \<Rightarrow> metadata_input \<Rightarrow> 'n json \<Rightarrow> bool" where
  "validated codec field v \<longleftrightarrow>
     (validate_safe_integer codec field v :: unit execute_error + unit) = Inr ()
     \<and> (validate_input_wire codec field v :: unit execute_error + unit) = Inr ()
     \<and> (is_null v \<longrightarrow> in_nullable field)"

lemma validated_any_error:
  "validate_safe_integer codec field v = (Inr () :: 'd execute_error + unit) \<Longrightarrow>
     validate_safe_integer codec field v = (Inr () :: 'e execute_error + unit)"
  "validate_input_wire codec field v = (Inr () :: 'd execute_error + unit) \<Longrightarrow>
     validate_input_wire codec field v = (Inr () :: 'e execute_error + unit)"
  by (auto simp: validate_safe_integer_def validate_input_wire_def split: if_splits option.splits)

lemma check_input_value_validated:
  assumes "(check_input_value codec field v :: 'd execute_error + 'n json option) = Inr (Some w)"
  shows "w = v \<and> validated codec field v"
  using assms
  by (auto simp: check_input_value_def validated_def dest: validated_any_error split: if_splits)

lemma input_value_validated:
  assumes "(input_value codec bindings field :: 'd execute_error + 'n json option) = Inr (Some v)"
  shows "validated codec field v"
  using assms
  by (auto simp: input_value_def Let_def dest!: check_input_value_validated
      split: option.splits if_splits prod.splits)

section \<open>Materialization\<close>

definition operation_sites ::
  "operation_metadata \<Rightarrow> (dynamic_input_metadata \<times> dynamic_input_site) list" where
  "operation_sites operation =
     concat (map (\<lambda>input. map (Pair input) (dim_sites input)) (om_dynamic_inputs operation))"

text \<open>The texts a variant can be replaced by, and the replacement of all variants in order.\<close>

definition variant_texts :: "sql_variant_metadata \<Rightarrow> string set" where
  "variant_texts sv = set (map vcm_text (svm_cases sv)) \<union> set_option (svm_null_text sv)"

definition replace_variants :: "sql_variant_metadata list \<Rightarrow> string list \<Rightarrow> string \<Rightarrow> string" where
  "replace_variants svs texts sql =
     fold (\<lambda>(sv, t). replace_all (variant_marker (svm_path sv)) t) (zip svs texts) sql"

lemma materialize_variants_facts:
  assumes "(rfold (materialize_variant inputs vals) sql svs :: 'd execute_error + string) = Inr sql'"
  shows "\<exists>texts. list_all2 (\<lambda>sv t. t \<in> variant_texts sv) svs texts
    \<and> sql' = replace_variants svs texts sql"
  using assms
proof (induction svs arbitrary: sql)
  case Nil
  then show ?case by (simp add: replace_variants_def)
next
  case (Cons sv svs)
  from Cons.prems obtain sql1 where
    step: "(materialize_variant inputs vals sql sv :: 'd execute_error + string) = Inr sql1"
    and "(rfold (materialize_variant inputs vals) sql1 svs :: 'd execute_error + string) = Inr sql'"
    by auto
  moreover from step obtain t where
    t: "(variant_text vals sv :: 'd execute_error + string) = Inr t"
    and "sql1 = replace_all (variant_marker (svm_path sv)) t sql"
    by (auto simp: materialize_variant_def)
  ultimately have rest: "(rfold (materialize_variant inputs vals)
      (replace_all (variant_marker (svm_path sv)) t sql) svs :: 'd execute_error + string) = Inr sql'"
    by simp
  from t have "t \<in> variant_texts sv"
    by (auto simp: variant_text_def variant_texts_def dest!: find_SomeD split: if_splits)
  moreover from Cons.IH[OF rest] obtain texts where
    "list_all2 (\<lambda>sv t. t \<in> variant_texts sv) svs texts"
    "sql' = replace_variants svs texts (replace_all (variant_marker (svm_path sv)) t sql)" by blast
  ultimately show ?case
    by (intro exI[of _ "t # texts"]) (simp add: replace_variants_def)
qed

text \<open>The parts of a successful materialization.\<close>

lemma materialize_parts:
  assumes "(materialize codec operation bindings :: 'd execute_error + 'n materialized_operation) = Inr m"
  obtains vals sql static where
    "(rfold (insert_input codec bindings) Map.empty (declared_fields operation)
        :: 'd execute_error + (string \<rightharpoonup> 'n json)) = Inr vals"
    and "(rfold (materialize_variant (fields_by_path operation) vals) (sm_text (om_sql operation))
        (sm_variants (om_sql operation)) :: 'd execute_error + string) = Inr sql"
    and "(collect_results (materialize_parameter (fields_by_path operation) vals)
        (sm_parameters (om_sql operation)) :: 'd execute_error + 'n bound_parameter list) = Inr static"
    and "(materialize_dynamic_inputs codec vals (om_dynamic_inputs operation) (sql, static)
        :: 'd execute_error + string \<times> 'n bound_parameter list) = Inr (mo_sql m, mo_parameters m)"
proof -
  from assms show ?thesis
    by (auto simp: materialize_def Let_def split: if_splits intro: that)
qed

text \<open>
  C4: The statement of a materialized operation is the compiled text in which every variant marker
  is replaced by a text the compiler declared for it and every dynamic marker, at its only
  occurrence, by vetted text: connectives, compiler-written fragments, and placeholders of
  parameters that exist and have the type of the field whose operator they complete. No text of an
  input value ever reaches the statement.
\<close>

theorem materialized_text_is_compiled:
  assumes "materialize codec operation bindings = Inr m"
  shows "\<exists>texts. list_all2 (\<lambda>sv t. t \<in> variant_texts sv) (sm_variants (om_sql operation)) texts
    \<and> sites_replaced (mo_parameters m) (operation_sites operation)
        (replace_variants (sm_variants (om_sql operation)) texts (sm_text (om_sql operation)))
        (mo_sql m)"
proof -
  from assms obtain vals sql static where
    parts: "rfold (materialize_variant (fields_by_path operation) vals) (sm_text (om_sql operation))
        (sm_variants (om_sql operation)) = (Inr sql :: 'a execute_error + string)"
      "materialize_dynamic_inputs codec vals (om_dynamic_inputs operation) (sql, static)
        = (Inr (mo_sql m, mo_parameters m) :: 'a execute_error + _)"
    by (rule materialize_parts)
  from materialize_variants_facts[OF parts(1)] materialize_dynamic_inputs_facts[OF parts(2)]
  show ?thesis by (auto simp: operation_sites_def)
qed

text \<open>
  C12: Materialization refines its specification: the parameters are the static ones, one for each
  declared SQL parameter in order with the metadata of its input and its validated value, followed
  by the operands of each dynamic input, in the order a single walk of its value lists them.
  However many sites an input has, its operands are bound once, and every other site asks for the
  same ones.
\<close>

theorem materialized_parameters_refine:
  assumes "materialize codec operation bindings = (Inr m :: 'd execute_error + 'n materialized_operation)"
  shows "\<exists>vals static.
    rfold (insert_input codec bindings) Map.empty (declared_fields operation)
      = (Inr vals :: 'd execute_error + (string \<rightharpoonup> 'n json))
    \<and> list_all2 (\<lambda>sp p. \<exists>field v. fields_by_path operation (spm_path sp) = Some field
          \<and> vals (spm_path sp) = Some v \<and> p = static_bound field (spm_path sp) v)
        (sm_parameters (om_sql operation)) static
    \<and> mo_parameters m = static @ concat (map (input_operands vals) (om_dynamic_inputs operation))
    \<and> list_all (sites_agree codec vals) (om_dynamic_inputs operation)"
proof -
  from assms obtain vals sql static where
    vals: "rfold (insert_input codec bindings) Map.empty (declared_fields operation)
      = (Inr vals :: 'd execute_error + (string \<rightharpoonup> 'n json))"
    and static: "(collect_results (materialize_parameter (fields_by_path operation) vals)
        (sm_parameters (om_sql operation)) :: 'd execute_error + 'n bound_parameter list) = Inr static"
    and dynamic: "(materialize_dynamic_inputs codec vals (om_dynamic_inputs operation) (sql, static)
        :: 'd execute_error + string \<times> 'n bound_parameter list) = Inr (mo_sql m, mo_parameters m)"
    by (rule materialize_parts)
  have "list_all2 (\<lambda>sp p. \<exists>field v. fields_by_path operation (spm_path sp) = Some field
          \<and> vals (spm_path sp) = Some v \<and> p = static_bound field (spm_path sp) v)
        (sm_parameters (om_sql operation)) static"
    using collect_results_Inr[OF static]
    by (auto simp: list_all2_conv_all_nth materialize_parameter_def declared_def
        materialized_value_def)
  with vals materialize_dynamic_inputs_facts[OF dynamic] show ?thesis by blast
qed

end
