(* ===== verification/Execution_Correct.thy ===== *)
theory Execution_Correct
  imports Materialization_Correct
begin

text \<open>
  What execution guarantees after materialization: validated values bind, each to one argument of
  the type its encoding asks for; a data exception is blamed on an input only when the database
  rejects that input's own cast; results have one canonical key order.
\<close>

section \<open>Binding\<close>

fun value_type :: "'x pg_value \<Rightarrow> pg_type" where
  "value_type (PgUuid _) = TyUuid"
| "value_type (PgText _) = TyText"
| "value_type (PgTimestamptz _) = TyTimestamptz"
| "value_type (PgInt8 _) = TyInt8"
| "value_type (PgNumeric _) = TyNumeric"
| "value_type (PgFloat8 _) = TyFloat8"
| "value_type (PgBool _) = TyBool"
| "value_type (PgJson _) = TyJson"

text \<open>An argument has the type of the encoding, and is an array exactly for a collection.\<close>

fun argument_fits :: "wire_encoding \<Rightarrow> bool \<Rightarrow> 'x argument \<Rightarrow> bool" where
  "argument_fits wire collection (ArgScalar x) \<longleftrightarrow>
     \<not> collection \<and> null_type wire = Some (value_type x)"
| "argument_fits wire collection (ArgNull ty) \<longleftrightarrow> \<not> collection \<and> null_type wire = Some ty"
| "argument_fits wire collection (ArgArray ty xs) \<longleftrightarrow>
     collection \<and> null_type wire = Some ty \<and> list_all (pred_option (\<lambda>x. value_type x = ty)) xs"
| "argument_fits wire collection (ArgNullArray ty) \<longleftrightarrow> collection \<and> null_type wire = Some ty"

text \<open>Documented behaviour of the JSON library: every value has a text, and the text is JSON.\<close>

definition json_encodes :: "('n, 'x) codec \<Rightarrow> bool" where
  "json_encodes codec \<longleftrightarrow>
     (\<forall>v. \<exists>s x. json_to_string codec v = Inr s \<and> raw_json_from_string codec s = Inr x)"

lemma json_raw_value_total:
  assumes "json_encodes codec"
  shows "\<exists>x. json_raw_value codec path v = (Inr x :: 'd execute_error + 'x)"
proof -
  from assms obtain s x where "json_to_string codec v = Inr s" "raw_json_from_string codec s = Inr x"
    unfolding json_encodes_def by blast
  then show ?thesis by (simp add: json_raw_value_def)
qed

lemma those_total: "(\<forall>x \<in> set xs. f x \<noteq> None) \<Longrightarrow> \<exists>ys. those (map f xs) = Some ys"
  by (induction xs) auto

lemma bind_scalar_ready:
  assumes "ready codec p" and "\<not> bp_collection p" and "json_encodes codec"
  shows "\<exists>a. bind_scalar codec query p = (Inr (query_bind query a) :: 'd execute_error + 'x query)
    \<and> argument_fits (bp_wire p) False a"
proof (cases "is_null (bp_value p)")
  case True
  with assms show ?thesis
    by (auto simp: bind_scalar_def bind_null_scalar_def null_type_def ready_def
        split: wire_encoding.splits option.splits)
next
  case False
  obtain x where x: "json_raw_value codec (bp_path p) (bp_value p) = (Inr x :: 'd execute_error + 'x)"
    using json_raw_value_total[OF assms(3)] by blast
  from False assms(1,2) show ?thesis
    by (cases "bp_wire p")
       (auto simp: bind_scalar_def bindable_def ready_def null_type_def json_value_def x)
qed

lemma elements_parsed:
  assumes "list_all (\<lambda>v. is_null v \<or> (\<exists>y. parsed_string parse v = Some y)) vs"
  shows "\<exists>xs. parse_strings parse vs = Some xs"
  unfolding parse_strings_def by (rule those_total) (use assms in \<open>auto simp: list_all_iff\<close>)

lemma elements_read:
  assumes "list_all (\<lambda>v. is_null v \<or> (\<exists>y. read v = Some y)) vs"
  shows "\<exists>xs. optional_values read vs = Some xs"
  unfolding optional_values_def
  by (rule those_total) (use assms in \<open>auto simp: list_all_iff split: option.splits\<close>)

lemma json_elements_total:
  assumes "json_encodes codec"
  shows "\<exists>xs. json_elements codec path vs = (Inr xs :: 'd execute_error + 'x option list)"
proof (induction vs)
  case (Cons v vs)
  obtain x where "json_raw_value codec path v = (Inr x :: 'd execute_error + 'x)"
    using json_raw_value_total[OF assms] by blast
  with Cons show ?case by (auto simp: json_elements_def)
qed (simp add: json_elements_def)

lemma parsed_Some: "parsed_string Some v = string_value v"
  by (cases v) (auto simp: parsed_string_def)

lemma parsed_i64: "parsed_string parse_i64 v = big_integer_value v"
  by (simp add: parsed_string_def big_integer_value_def)

lemmas elements_text = elements_parsed[where parse = Some, unfolded parsed_Some]
lemmas elements_i64 = elements_parsed[where parse = parse_i64, unfolded parsed_i64]
lemmas elements_numbers =
  elements_read[where read = "integer_value codec" for codec]
  elements_read[where read = "float_value codec" for codec]
  elements_read[where read = as_bool]

lemma mapped_elements_fit: "(\<And>x. value_type (pg x) = ty) \<Longrightarrow>
    list_all (pred_option (\<lambda>x. value_type x = ty)) (map (map_option pg) xs)"
  by (auto simp: list_all_iff pred_option_def)

lemma bind_collection_ready:
  assumes "ready codec p" and "bp_collection p" and "json_encodes codec"
  shows "\<exists>a. bind_collection codec query p = (Inr (query_bind query a) :: 'd execute_error + 'x query)
    \<and> argument_fits (bp_wire p) True a"
proof (cases "is_null (bp_value p)")
  case True
  with assms show ?thesis
    by (auto simp: bind_collection_def bind_null_collection_def null_type_def ready_def
        split: wire_encoding.splits option.splits)
next
  case False
  with assms(1,2) obtain vs where vs: "as_array (bp_value p) = Some vs"
      "list_all (\<lambda>v. is_null v \<or> bindable codec (bp_wire p) v) vs"
    and w: "bp_wire p \<noteq> WireUnsupported"
    by (auto simp: ready_def split: option.splits)
  obtain xs where xs: "json_elements codec (bp_path p) vs = (Inr xs :: 'd execute_error + 'x option list)"
    using json_elements_total[OF assms(3)] by blast
  from vs(2) w show ?thesis
    by (cases "bp_wire p")
       (auto simp: bind_collection_def False vs(1) bindable_def null_type_def xs parsed_Some parsed_i64
          mapped_elements_fit Let_def
          dest!: elements_text elements_i64 elements_parsed elements_numbers)
qed

text \<open>A query that binds ready parameters succeeds, with one fitting argument for each.\<close>

lemma bind_parameters_ready:
  assumes "list_all (ready codec) ps" and "json_encodes codec"
  shows "\<exists>args. bind_parameters codec (sql, bound) ps
      = (Inr (sql, bound @ args) :: 'd execute_error + 'x query)
    \<and> list_all2 (\<lambda>p a. argument_fits (bp_wire p) (bp_collection p) a) ps args"
  using assms(1)
proof (induction ps arbitrary: bound)
  case Nil
  then show ?case by (simp add: bind_parameters_def)
next
  case (Cons p ps)
  then have "ready codec p" by simp
  then obtain a where
    a: "bind_parameter codec (sql, bound) p
        = (Inr (query_bind (sql, bound) a) :: 'd execute_error + 'x query)"
      "argument_fits (bp_wire p) (bp_collection p) a"
    using bind_scalar_ready[OF _ _ assms(2), of p] bind_collection_ready[OF _ _ assms(2), of p]
    unfolding bind_parameter_def by (cases "bp_collection p") force+
  from Cons.IH[of "bound @ [a]"] Cons.prems obtain args where
    "bind_parameters codec (sql, bound @ [a]) ps
      = (Inr (sql, (bound @ [a]) @ args) :: 'd execute_error + 'x query)"
    "list_all2 (\<lambda>p a. argument_fits (bp_wire p) (bp_collection p) a) ps args" by auto
  with a show ?case
    by (intro exI[of _ "a # args"]) (simp add: bind_parameters_def query_bind_def)
qed

text \<open>A validated input is ready, when its encoding can be an input at all.\<close>

definition is_dynamic_type :: "metadata_input \<Rightarrow> bool" where
  "is_dynamic_type field \<longleftrightarrow> in_data_type field \<in> {''dynamic_predicate'', ''dynamic_order''}"

lemma input_scalar_bindable:
  "input_scalar_is_valid codec field v \<Longrightarrow> bindable codec (field_wire field) v"
  by (cases "field_wire field")
     (auto simp: input_scalar_is_valid_def bindable_def parsed_string_def is_some_and_def Let_def
        split: option.splits)

lemma safe_integer_bindable:
  "is_some_and (integer_value codec v) is_safe_integer \<Longrightarrow> bindable codec WireInteger v"
  by (auto simp: bindable_def is_some_and_iff)

lemma validated_ready:
  assumes "validated codec field v" and "\<not> is_dynamic_type field"
    and "field_wire field \<noteq> WireUnsupported"
  shows "ready codec (static_bound field path v)"
proof (cases "is_null v")
  case True
  with assms(3) show ?thesis by (simp add: ready_def static_bound_def)
next
  case False
  show ?thesis
  proof (cases "field_wire field = WireInteger")
    case True
    with False assms(1) show ?thesis
      by (auto simp: validated_def validate_safe_integer_def ready_def static_bound_def list_all_iff
          dest: safe_integer_bindable split: if_splits option.splits)
  next
    case wire: False
    with False assms show ?thesis
      by (auto simp: validated_def validate_input_wire_def ready_def static_bound_def list_all_iff
          is_dynamic_type_def dest: input_scalar_bindable split: if_splits option.splits)
  qed
qed

text \<open>
  The metadata the compiler writes: input paths are distinct, and a static SQL parameter is
  neither a dynamic input nor of an encoding that cannot be an input.
\<close>

definition parameters_supported :: "operation_metadata \<Rightarrow> bool" where
  "parameters_supported operation \<longleftrightarrow>
     distinct (map in_path (declared_fields operation))
     \<and> list_all (\<lambda>field. in_path field \<in> set (map spm_path (sm_parameters (om_sql operation)))
          \<longrightarrow> \<not> is_dynamic_type field \<and> field_wire field \<noteq> WireUnsupported)
        (declared_fields operation)"

text \<open>
  C13: Everything materialization accepts can be bound: each parameter of a materialized operation
  becomes exactly one argument, in order, of the type its wire encoding asks for and an array
  exactly when it is a collection. Execution therefore fails after materialization only with an
  answer of the database: the statement it sends is the wrapped text with these arguments.
\<close>

theorem materialized_parameters_bind:
  assumes "materialize codec operation bindings = (Inr m :: 'd execute_error + 'n materialized_operation)"
    and "parameters_supported operation" and "json_encodes codec"
  shows "\<exists>args. list_all2 (\<lambda>p a. argument_fits (bp_wire p) (bp_collection p) a) (mo_parameters m) args
    \<and> bind_parameters codec (sql, []) (mo_parameters m) = (Inr (sql, args) :: 'd execute_error + 'x query)"
proof -
  from assms(1) obtain vals stmt static where
    vals: "(rfold (insert_input codec bindings) Map.empty (declared_fields operation)
        :: 'd execute_error + (string \<rightharpoonup> 'n json)) = Inr vals"
    and static: "(collect_results (materialize_parameter (fields_by_path operation) vals)
        (sm_parameters (om_sql operation)) :: 'd execute_error + 'n bound_parameter list) = Inr static"
    and dynamic: "(materialize_dynamic_inputs codec vals (om_dynamic_inputs operation) (stmt, static)
        :: 'd execute_error + string \<times> 'n bound_parameter list) = Inr (mo_sql m, mo_parameters m)"
    by (rule materialize_parts)
  have "ready codec p" if "p \<in> set static" for p
  proof -
    from collect_results_set[OF static that] obtain sp field v where
      sp: "sp \<in> set (sm_parameters (om_sql operation))"
      and field: "fields_by_path operation (spm_path sp) = Some field"
      and v: "vals (spm_path sp) = Some v" and p: "p = static_bound field (spm_path sp) v"
      by (auto simp: materialize_parameter_def declared_def materialized_value_def)
    from inserted_value[OF vals v] obtain field' where
      "field' \<in> set (declared_fields operation)" "in_path field' = spm_path sp"
      and valid: "(input_value codec bindings field' :: 'd execute_error + 'n json option) = Inr (Some v)"
      by blast
    with fields_by_path_unique[of operation field'] assms(2) field
    have "field' = field" by (auto simp: parameters_supported_def)
    moreover have "\<not> is_dynamic_type field" "field_wire field \<noteq> WireUnsupported"
      using fields_by_path_Some[OF field] sp assms(2)
      by (auto simp: parameters_supported_def list_all_iff)
    ultimately show ?thesis using input_value_validated[OF valid] validated_ready p by simp
  qed
  with materialize_dynamic_inputs_facts[OF dynamic]
  have "list_all (ready codec) (mo_parameters m)" by (auto simp: list_all_iff)
  from bind_parameters_ready[OF this assms(3), of sql "[]"] show ?thesis by auto
qed

section \<open>Errors\<close>

lemma bind_parameter_not_provider:
  "bind_parameter codec query p \<noteq> (Inl (InvalidProviderInput path ty) :: 'd execute_error + 'x query)"
proof -
  have "json_raw_value codec q v \<noteq> (Inl (InvalidProviderInput path ty) :: 'd execute_error + 'x)" for q v
    by (simp add: json_raw_value_def split: sum.splits)
  moreover from this
  have "json_elements codec q vs \<noteq> (Inl (InvalidProviderInput path ty) :: 'd execute_error + 'x option list)"
    for q vs
    by (auto simp: json_elements_def rbind_Inl_iff dest!: collect_results_Inl split: if_splits)
  ultimately show ?thesis
    by (cases "bp_wire p")
       (auto simp: bind_parameter_def bind_scalar_def bind_collection_def bind_null_scalar_def
          bind_null_collection_def null_type_def unsupported_def invalid_def json_value_def Let_def
          rbind_Inl_iff ok_or_Inl_iff split: if_splits)
qed

lemma bind_parameters_not_provider:
  "bind_parameters codec query ps \<noteq> (Inl (InvalidProviderInput path ty) :: 'd execute_error + 'x query)"
proof
  assume "bind_parameters codec query ps = (Inl (InvalidProviderInput path ty) :: 'd execute_error + 'x query)"
  from rfold_error[OF this[unfolded bind_parameters_def], of "\<lambda>_. True"]
  show False using bind_parameter_not_provider by fastforce
qed

text \<open>The cast of one parameter, run in some state of the database, fails as a data exception.\<close>

definition cast_rejected ::
  "('n, 'x) codec \<Rightarrow> ('s, 'd, 'x) database \<Rightarrow> 'n bound_parameter \<Rightarrow> string \<Rightarrow> string \<Rightarrow> bool" where
  "cast_rejected codec db p schema name \<longleftrightarrow>
     bp_wire p = WireTextCast \<and> \<not> is_null (bp_value p) \<and> bp_provider_type p = Some (schema, name)
     \<and> (\<exists>query st error st'.
          bind_parameter codec (probe_sql schema name (bp_collection p), []) p
            = (Inr query :: 'd execute_error + 'x query)
          \<and> fetch_optional db query st = (Inl error, st')
          \<and> database_error_is_class db error ''22'')"

lemma probe_rejected:
  fixes db :: "('s, 'd, 'x) database"
  assumes "probe_text_cast_parameters codec db ps st = (Some e, st')"
  shows "\<exists>p \<in> set ps. \<exists>schema name. cast_rejected codec db p schema name
    \<and> e = InvalidProviderInput (bp_path p) (schema @ ''.'' @ name)"
  using assms
proof (induction ps arbitrary: st)
  case (Cons p ps)
  from Cons.prems consider
      (later) s where "probe_text_cast_parameters codec db ps s = (Some e, st')"
    | (here) schema name query error s where "bp_wire p = WireTextCast" "\<not> is_null (bp_value p)"
        "bp_provider_type p = Some (schema, name)"
        "bind_parameter codec (probe_sql schema name (bp_collection p), []) p
          = (Inr query :: 'd execute_error + 'x query)"
        "fetch_optional db query st = (Inl error, s)" "database_error_is_class db error ''22''"
        "e = InvalidProviderInput (bp_path p) (schema @ ''.'' @ name)"
    by (auto split: if_splits option.splits prod.splits sum.splits)
  then show ?case
  proof cases
    case later
    then show ?thesis using Cons.IH by auto
  next
    case here
    then have "cast_rejected codec db p schema name" unfolding cast_rejected_def by blast
    with here show ?thesis by auto
  qed
qed simp

text \<open>
  C29: An execution blames an input for a provider type only after the database rejected the
  statement itself with a data exception, and then rejected the cast of that one parameter, a
  non-null text-cast parameter of the operation, with a data exception too; the error names the
  path and the provider type of that parameter.
\<close>

theorem provider_error_is_attributed:
  fixes db :: "('s, 'd, 'x) database"
  assumes "execute_materialized codec db m st = (Inl (InvalidProviderInput path ty), st')"
  shows "\<exists>query error st1.
      bind_parameters codec (execution_sql (mo_sql m), []) (mo_parameters m) = (Inr query :: 'd execute_error + 'x query)
    \<and> fetch_one db query st = (Inl error, st1) \<and> database_error_is_class db error ''22''
    \<and> (\<exists>p \<in> set (mo_parameters m). \<exists>schema name. cast_rejected codec db p schema name
          \<and> path = bp_path p \<and> ty = schema @ ''.'' @ name)"
proof -
  have decode: "decode_output codec row \<noteq> (Inl (InvalidProviderInput path ty) :: 'd execute_error + _)"
    for row
    by (simp add: decode_output_def split: option.splits sum.splits)
  note bound = bind_parameters_not_provider[of codec "(execution_sql (mo_sql m), [])" "mo_parameters m"
      path ty, where 'd = 'd]
  from assms bound decode obtain query error st1 where
    run: "bind_parameters codec (execution_sql (mo_sql m), []) (mo_parameters m)
        = (Inr query :: 'd execute_error + 'x query)"
      "fetch_one db query st = (Inl error, st1)" "database_error_is_class db error ''22''"
      "probe_text_cast_parameters codec db (mo_parameters m) st1
        = (Some (InvalidProviderInput path ty), st')"
    unfolding execute_materialized_def
    by (auto split: sum.splits prod.splits if_splits option.splits)
  from probe_rejected[OF run(4)] run(1-3) show ?thesis by blast
qed

section \<open>Results\<close>

text \<open>Equal up to the order of object entries, at every level.\<close>

inductive same_json :: "'n json \<Rightarrow> 'n json \<Rightarrow> bool" where
  same_refl: "same_json v v"
| same_array: "list_all2 same_json vs ws \<Longrightarrow> same_json (JArray vs) (JArray ws)"
| same_object: "list_all2 (\<lambda>a b. fst a = fst b \<and> same_json (snd a) (snd b)) entries' others \<Longrightarrow>
    mset entries' = mset entries \<Longrightarrow> same_json (JObject entries) (JObject others)"

fun distinct_keys :: "'n json \<Rightarrow> bool" where
  "distinct_keys (JArray vs) = list_all distinct_keys vs"
| "distinct_keys (JObject entries) =
     (distinct (map fst entries) \<and> list_all (\<lambda>(_, v). distinct_keys v) entries)"
| "distinct_keys v = True"

lemma sort_key_distinct_mset:
  assumes "distinct (map f xs)" and "mset xs = mset ys"
  shows "sort_key f xs = sort_key f ys"
proof (rule properties_for_sort_key)
  show "mset (sort_key f ys) = mset xs" using assms(2) by simp
  have xs: "inj_on f (set xs)" "distinct xs" using assms(1) by (auto simp: distinct_map)
  have ys: "set ys = set xs" using assms(2) by (metis set_mset_mset)
  have d: "distinct (sort_key f ys)" 
    using assms(2) xs(2) by (metis distinct_sort mset_eq_imp_distinct_iff)
  fix k assume "k \<in> set (sort_key f ys)"
  then have k: "k \<in> set xs" using ys by simp
  have one: "filter (\<lambda>x. f k = f x) zs = [k]" if "set zs = set xs" "distinct zs" for zs
  proof -
    have "set (filter (\<lambda>x. f k = f x) zs) = {k}" using that(1) xs(1) k by (auto dest: inj_onD)
    moreover have "distinct (filter (\<lambda>x. f k = f x) zs)" using that(2) by simp
    ultimately show ?thesis
    proof (cases "filter (\<lambda>x. f k = f x) zs")
      case (Cons a rest)
      with \<open>set (filter _ zs) = {k}\<close> \<open>distinct (filter _ zs)\<close>
      have "a = k" "set rest \<subseteq> {k}" "k \<notin> set rest" by auto
      then have "rest = []" by (cases rest) auto
      with Cons \<open>a = k\<close> show ?thesis by simp
    qed simp
  qed
  show "filter (\<lambda>x. f k = f x) (sort_key f ys) = filter (\<lambda>x. f k = f x) xs"
    using one[of "sort_key f ys"] one[of xs] ys d xs(2) by simp
qed (rule sorted_sort_key)


lemma distinct_keys_mset:
  "distinct_keys (JObject xs) \<Longrightarrow> mset ys = mset xs \<Longrightarrow> distinct_keys (JObject ys)"
proof -
  assume d: "distinct_keys (JObject xs)" and m: "mset ys = mset xs"
  have "mset (map fst ys) = mset (map fst xs)" using m by (metis mset_map)
  from mset_eq_imp_distinct_iff[OF this] d have "distinct (map fst ys)" by simp
  moreover have "set ys = set xs" using m by (metis set_mset_mset)
  ultimately show ?thesis using d by (simp add: list_all_iff)
qed

text \<open>
  Results have one canonical form: two answers of the database that differ only in the order of
  their object keys, at any level, are returned as the same value.
\<close>

theorem sort_object_keys_canonical:
  assumes "same_json v w" and "distinct_keys v"
  shows "sort_object_keys v = sort_object_keys w"
  using assms
proof (induction rule: same_json.induct)
  case (same_array vs ws)
  then have "map sort_object_keys vs = map sort_object_keys ws"
    by (auto simp: list_all2_conv_all_nth list_all_length intro!: nth_equalityI)
  then show ?case by simp
next
  case (same_object entries' others entries)
  define f where "f = (\<lambda>(key :: string, v :: 'a json). (key, sort_object_keys v))"
  have keys: "fst \<circ> f = fst" by (auto simp: f_def)
  have d: "distinct_keys (JObject entries')"
    using distinct_keys_mset[OF same_object.prems same_object.hyps(1)] .
  have "map f entries' = map f others"
    using same_object.IH d
    by (auto simp: list_all2_conv_all_nth list_all_length f_def split_beta intro!: nth_equalityI)
  moreover have "sort_key fst (map f entries') = sort_key fst (map f entries)"
    by (rule sort_key_distinct_mset) (use d same_object.hyps(1) in \<open>simp_all add: keys\<close>)
  ultimately show ?case by (simp add: f_def)
qed simp

end
