(* ===== verification/Execution_Witnesses.thy ===== *)
theory Execution_Witnesses
  imports Execution_Correct
begin

text \<open>
  Concrete instances of the execution properties: an operation with a static parameter, a
  variant, and a dynamic predicate used at two sites, executed with numbers as integers, texts
  as their own library values, and databases that answer or reject.
\<close>

definition sample_codec :: "(int, string) codec" where
  "sample_codec = \<lparr>number_is_integer = (\<lambda>_. True), number_to_i64 = Some,
     number_to_f64_lossy = (\<lambda>n. dec_string (nat n)), number_from_i64 = (\<lambda>n. n),
     value_from_f64 = JString, finite_f64 = (\<lambda>_. True), parse_f64 = Some, parse_uuid = Some,
     parse_rfc3339 = Some, parse_decimal = Some, regex_new = (\<lambda>_. None),
     json_to_string = (\<lambda>_. Inr ''null''), raw_json_from_string = Inr,
     json_from_str = (\<lambda>s. Inr (JString s)), value_eq = (=)\<rparr>"

definition open_values :: closed_value_set_metadata where
  "open_values = \<lparr>cvs_description = None, cvs_values = []\<rparr>"

definition sample_wire :: "wire_encoding \<Rightarrow> wire_metadata" where
  "sample_wire wire = \<lparr>wm_encoding = wire,
     wm_provider_type = (if wire = WireTextCast
       then Some \<lparr>ptm_schema = ''public'', ptm_name = ''email''\<rparr> else None)\<rparr>"

definition sample_field :: "string \<Rightarrow> string \<Rightarrow> wire_encoding \<Rightarrow> metadata_input" where
  "sample_field path data_type wire =
     \<lparr>in_path = path, in_data_type = data_type, in_wire = sample_wire wire,
      in_validation = \<lparr>ivm_pattern = None\<rparr>, in_collection = None, in_closed_values = open_values,
      in_required = True, in_nullable = False, in_default = None\<rparr>"

definition sample_name :: dynamic_field_metadata where
  "sample_name = \<lparr>dfm_key = ''name'', dfm_catalog_path = ''name'', dfm_data_type = ''text'',
     dfm_wire = sample_wire WireText, dfm_validation = \<lparr>ivm_pattern = None\<rparr>,
     dfm_closed_values = open_values, dfm_nullable = False, dfm_access = ''unconditional'',
     dfm_operators = [''eq''], dfm_directions = []\<rparr>"

definition sample_eq :: dynamic_operator_metadata where
  "sample_eq = \<lparr>dom_name = ''eq'', dom_value_kind = ''scalar'',
     dom_before_value = Some ''u.name = '', dom_after_value = None, dom_cases = []\<rparr>"

definition sample_site :: "string \<Rightarrow> dynamic_input_site" where
  "sample_site marker = \<lparr>dis_marker = marker, dis_identity_sql = ''TRUE'',
     dis_fields = [\<lparr>dsf_key = ''name'', dsf_operators = [sample_eq], dsf_directions = []\<rparr>]\<rparr>"

definition sample_dynamic :: dynamic_input_metadata where
  "sample_dynamic = \<lparr>dim_path = ''input.where'', dim_kind = ''predicate'', dim_surface = ''filter'',
     dim_fields = [sample_name], dim_sites = [sample_site ''%a'', sample_site ''%b'']\<rparr>"

definition sample_sql :: sql_metadata where
  "sample_sql = \<lparr>sm_dialect = DialectPostgres, sm_text = ''s $1 %a %b {{d}}'', sm_compact_text = [],
     sm_parameters = [\<lparr>spm_path = ''input.email''\<rparr>],
     sm_variants = [\<lparr>svm_path = ''d'',
       svm_cases = [\<lparr>vcm_value = ''asc'', vcm_text = ''ASC''\<rparr>], svm_null_text = None\<rparr>]\<rparr>"

definition sample_operation :: operation_metadata where
  "sample_operation = \<lparr>om_name = ''q'', om_kind = DefQuery, om_sql = sample_sql,
     om_result = \<lparr>rs_fields = []\<rparr>, om_params = [sample_field ''d'' ''order_direction'' WireText],
     om_input = [sample_field ''input.email'' ''email'' WireTextCast,
                 sample_field ''input.where'' ''dynamic_predicate'' WireJson],
     om_context = [], om_dynamic_inputs = [sample_dynamic], om_policies = [], om_handoffs = [],
     om_fragment_spreads = [], om_source_map = []\<rparr>"

definition sample_predicate :: "int json" where
  "sample_predicate = JObject [(''or'', JArray []), (''name'', JObject [(''eq'', JString ''x'')])]"

definition sample_bindings :: "int bindings" where
  "sample_bindings = \<lparr>eb_variables = JObject [(''d'', JString ''asc''),
       (''input'', JObject [(''email'', JString ''e''), (''where'', sample_predicate)])],
     eb_context = JObject []\<rparr>"

definition sample_email :: "int bound_parameter" where
  "sample_email = \<lparr>bp_path = ''input.email'', bp_data_type = ''email'', bp_wire = WireTextCast,
     bp_provider_type = Some (''public'', ''email''), bp_collection = False, bp_value = JString ''e''\<rparr>"

definition sample_materialized :: "int materialized_operation" where
  "sample_materialized =
     \<lparr>mo_sql = ''s $1 (u.name = $2 AND FALSE) (u.name = $2 AND FALSE) ASC'',
      mo_parameters = [sample_email,
        \<lparr>bp_path = ''input.where.name.eq'', bp_data_type = ''text'', bp_wire = WireText,
         bp_provider_type = None, bp_collection = False, bp_value = JString ''x''\<rparr>]\<rparr>"

lemma sample_materializes:
  "materialize sample_codec sample_operation sample_bindings
     = (Inr sample_materialized :: unit execute_error + int materialized_operation)"
  by code_simp

section \<open>The properties\<close>

lemma materialized_text_is_compiled_witness:
  "\<exists>texts. list_all2 (\<lambda>sv t. t \<in> variant_texts sv) (sm_variants (om_sql sample_operation)) texts
    \<and> sites_replaced (mo_parameters sample_materialized) (operation_sites sample_operation)
        (replace_variants (sm_variants (om_sql sample_operation)) texts
          (sm_text (om_sql sample_operation)))
        (mo_sql sample_materialized)"
  by (rule materialized_text_is_compiled[OF sample_materializes])

lemma materialized_parameters_refine_witness:
  "\<exists>vals static.
    rfold (insert_input sample_codec sample_bindings) Map.empty (declared_fields sample_operation)
      = (Inr vals :: unit execute_error + (string \<rightharpoonup> int json))
    \<and> list_all2 (\<lambda>sp p. \<exists>field v. fields_by_path sample_operation (spm_path sp) = Some field
          \<and> vals (spm_path sp) = Some v \<and> p = static_bound field (spm_path sp) v)
        (sm_parameters (om_sql sample_operation)) static
    \<and> mo_parameters sample_materialized
        = static @ concat (map (input_operands vals) (om_dynamic_inputs sample_operation))
    \<and> list_all (sites_agree sample_codec vals) (om_dynamic_inputs sample_operation)"
  by (rule materialized_parameters_refine[OF sample_materializes])

lemma materialized_parameters_bind_witness:
  "\<exists>args. list_all2 (\<lambda>p a. argument_fits (bp_wire p) (bp_collection p) a)
      (mo_parameters sample_materialized) args
    \<and> bind_parameters sample_codec (''sql'', []) (mo_parameters sample_materialized)
        = (Inr (''sql'', args) :: unit execute_error + string query)"
proof (rule materialized_parameters_bind[OF sample_materializes])
  show "parameters_supported sample_operation" by code_simp
  show "json_encodes sample_codec" by (simp add: json_encodes_def sample_codec_def)
qed

definition rejecting_database :: "(nat, string, string) database" where
  "rejecting_database = \<lparr>fetch_one = (\<lambda>q n. (Inl ''22P02'', Suc n)),
     fetch_optional = (\<lambda>q n. (Inl ''22P02'', Suc n)), error_code = Some\<rparr>"

lemma sample_rejected:
  "execute_materialized sample_codec rejecting_database sample_materialized 0
     = (Inl (InvalidProviderInput ''input.email'' ''public.email''), 2)"
  by code_simp

lemma provider_error_is_attributed_witness:
  "\<exists>query error st1.
      bind_parameters sample_codec (execution_sql (mo_sql sample_materialized), [])
          (mo_parameters sample_materialized)
        = (Inr query :: string execute_error + string query)
    \<and> fetch_one rejecting_database query 0 = (Inl error, st1)
    \<and> database_error_is_class rejecting_database error ''22''
    \<and> (\<exists>p \<in> set (mo_parameters sample_materialized). \<exists>schema name.
          cast_rejected sample_codec rejecting_database p schema name
          \<and> ''input.email'' = bp_path p \<and> ''public.email'' = schema @ ''.'' @ name)"
  by (rule provider_error_is_attributed[OF sample_rejected])

definition answer_one :: "int json" where
  "answer_one = JObject [(''b'', JNull), (''a'', JArray [JObject [(''d'', JNumber 1), (''c'', JNull)]])]"

definition answer_two :: "int json" where
  "answer_two = JObject [(''a'', JArray [JObject [(''c'', JNull), (''d'', JNumber 1)]]), (''b'', JNull)]"

lemma sort_object_keys_canonical_witness:
  "sort_object_keys answer_one = sort_object_keys answer_two"
proof (rule sort_object_keys_canonical)
  have inner: "same_json (JObject [(''d'', JNumber (1 :: int)), (''c'', JNull)])
      (JObject [(''c'', JNull), (''d'', JNumber 1)])"
    by (rule same_object[of "[(''c'', JNull), (''d'', JNumber 1)]"]) (auto intro: same_refl)
  show "same_json answer_one answer_two"
    unfolding answer_one_def answer_two_def
    by (rule same_object[of "[(''a'', JArray [JObject [(''d'', JNumber 1), (''c'', JNull)]]),
            (''b'', JNull)]"])
       (auto intro: same_refl same_array inner)
  show "distinct_keys answer_one" by code_simp
qed

end
