(* ===== verification/Match_Lock.thy ===== *)
theory Match_Lock
  imports Execution_Run "HOL-Library.Product_Lexorder"
begin

text \<open>
  The filter match lock (\<open>crates/dsql-generate/src/match_lock.rs\<close>): the decisions which tables
  every filter of a scope applies to, in canonical order, with its text form.

  The derived order of a struct is the lexicographic order of its fields, given here by a key of
  nested tuples; an ordered map is the list of its entries in key order. The YAML library is the
  record \<open>yaml_codec\<close>, over the document the lock serializes as.
\<close>

record locked_policy_reference =
  lpr_scope :: string
  lpr_name :: string

record locked_filter_match =
  lfm_target :: string
  lfm_fields :: "(string \<times> string) list"

record locked_filter =
  lf_scope :: string
  lf_defined_in :: string
  lf_name :: string
  lf_conditions :: "locked_policy_reference list"
  lf_matches :: "locked_filter_match list"

record filter_match_lock =
  fml_version :: nat
  fml_filters :: "locked_filter list"

definition filter_match_lock_version :: nat where
  "filter_match_lock_version = 1"

definition lock_empty :: filter_match_lock where
  "lock_empty = \<lparr>fml_version = filter_match_lock_version, fml_filters = []\<rparr>"

definition lock_is_empty :: "filter_match_lock \<Rightarrow> bool" where
  "lock_is_empty lock \<longleftrightarrow> fml_filters lock = []"

section \<open>Canonical order\<close>

definition reference_key :: "locked_policy_reference \<Rightarrow> string \<times> string" where
  "reference_key r = (lpr_scope r, lpr_name r)"

definition match_key :: "locked_filter_match \<Rightarrow> string \<times> (string \<times> string) list" where
  "match_key m = (lfm_target m, lfm_fields m)"

definition filter_key ::
  "locked_filter \<Rightarrow> string \<times> string \<times> string \<times> (string \<times> string) list
     \<times> (string \<times> (string \<times> string) list) list" where
  "filter_key f = (lf_scope f, lf_defined_in f, lf_name f, map reference_key (lf_conditions f),
     map match_key (lf_matches f))"

text \<open>\<open>sort()\<close> followed by \<open>dedup()\<close>.\<close>

definition sort_dedup :: "('a \<Rightarrow> 'k::linorder) \<Rightarrow> 'a list \<Rightarrow> 'a list" where
  "sort_dedup key xs = remdups_adj (sort_key key xs)"

definition canonicalize_filter :: "locked_filter \<Rightarrow> locked_filter" where
  "canonicalize_filter f = f\<lparr>lf_conditions := sort_dedup reference_key (lf_conditions f),
     lf_matches := sort_dedup match_key (lf_matches f)\<rparr>"

definition canonicalize :: "filter_match_lock \<Rightarrow> filter_match_lock" where
  "canonicalize lock =
     lock\<lparr>fml_filters := sort_dedup filter_key (map canonicalize_filter (fml_filters lock))\<rparr>"

section \<open>Text\<close>

record yaml_codec =
  yaml_to_string :: "filter_match_lock \<Rightarrow> string + string"
  yaml_from_str :: "string \<Rightarrow> string + filter_match_lock"
  yaml_version :: "string \<Rightarrow> nat option"

text \<open>
  \<open>str::lines\<close>: the pieces ended by line feeds; a last piece that is empty is not a line. The
  carriage return that \<open>lines\<close> drops is white space, which the caller trims anyway.
\<close>

fun split_lines :: "string \<Rightarrow> string list" where
  "split_lines [] = []"
| "split_lines (c # s) =
     (if c = CHR 10 then [] # split_lines s
      else (case split_lines s of [] \<Rightarrow> [[c]] | l # ls \<Rightarrow> (c # l) # ls))"

text \<open>The serialized text without white space at the ends of its lines.\<close>

definition tidy_lines :: "string \<Rightarrow> string" where
  "tidy_lines serialized =
     (let canonical = join_with [CHR 10] (map trim_end (split_lines serialized))
      in if serialized \<noteq> [] \<and> last serialized = CHR 10 then canonical @ [CHR 10] else canonical)"

definition lock_to_yaml :: "yaml_codec \<Rightarrow> filter_match_lock \<Rightarrow> string + string" where
  "lock_to_yaml yaml lock =
     rbind (yaml_to_string yaml (canonicalize lock)) (\<lambda>serialized. Inr (tidy_lines serialized))"

definition lock_from_yaml :: "yaml_codec \<Rightarrow> string \<Rightarrow> string + filter_match_lock" where
  "lock_from_yaml yaml text = rbind (yaml_from_str yaml text) (\<lambda>lock. Inr (canonicalize lock))"

definition match_line :: "locked_filter \<Rightarrow> locked_filter_match \<Rightarrow> string" where
  "match_line f m =
     (let conditions = join_with '','' (map (\<lambda>r. lpr_scope r @ ''::'' @ lpr_name r) (lf_conditions f));
          shown = join_with '','' (map (\<lambda>(name, ty). name @ '':'' @ ty) (lfm_fields m))
      in lf_scope f @ '' <- '' @ lf_defined_in f @ ''::'' @ lf_name f @ '': '' @ lfm_target m @ '' [''
         @ shown @ ''] conditions ['' @ conditions @ '']'')"

text \<open>The ordered set of lines, as the sorted list of its elements.\<close>

definition semantic_lines :: "filter_match_lock \<Rightarrow> string list" where
  "semantic_lines lock =
     sort (remdups (concat (map (\<lambda>f. map (match_line f) (lf_matches f)) (fml_filters lock))))"

definition stale_match_lock_message ::
  "filter_match_lock option \<Rightarrow> filter_match_lock \<Rightarrow> string \<Rightarrow> string" where
  "stale_match_lock_message current desired detail =
     join_with [CHR 10] ([detail]
       @ (case current of
            None \<Rightarrow> map (\<lambda>l. ''+ '' @ l) (semantic_lines desired)
          | Some cur \<Rightarrow>
              (if fml_version cur \<noteq> fml_version desired
               then [''- version '' @ dec_string (fml_version cur),
                     ''+ version '' @ dec_string (fml_version desired)] else [])
              @ (let old = semantic_lines cur; new = semantic_lines desired in
                 map (\<lambda>l. ''- '' @ l) (filter (\<lambda>l. l \<notin> set new) old)
                 @ map (\<lambda>l. ''+ '' @ l) (filter (\<lambda>l. l \<notin> set old) new)))
       @ [''run `dsql lock` to review and accept the current matches''])"

section \<open>Canonical forms\<close>

lemma sorted_remdups_adj: "sorted (map key xs) \<Longrightarrow> sorted (map key (remdups_adj xs))"
  by (induction xs rule: remdups_adj.induct) (auto simp: remdups_adj_set)

lemma sort_dedup_set [simp]: "set (sort_dedup key xs) = set xs"
  by (simp add: sort_dedup_def)

lemma sort_dedup_sorted: "sorted (map key (sort_dedup key xs))"
  unfolding sort_dedup_def by (rule sorted_remdups_adj) simp

text \<open>Canonicalizing again changes nothing.\<close>

lemma sort_dedup_idem: "sort_dedup key (sort_dedup key xs) = sort_dedup key xs"
proof -
  have "sort_key key (sort_dedup key xs) = sort_dedup key xs"
    by (rule sort_key_id_if_sorted) (rule sort_dedup_sorted)
  then show ?thesis by (simp add: sort_dedup_def distinct_adj_altdef[symmetric])
qed

text \<open>The canonical list of a collection is the sorted list of its elements.\<close>

lemma distinct_remdups_adj_sorted: "sorted xs \<Longrightarrow> distinct (remdups_adj xs)"
  by (induction xs rule: remdups_adj.induct) (auto simp: order.antisym)

lemma sort_dedup_keys:
  assumes "inj key"
  shows "map key (sort_dedup key xs) = sorted_list_of_set (key ` set xs)"
proof -
  have "map key (sort_dedup key xs) = remdups_adj (map key (sort_key key xs))"
    by (simp add: sort_dedup_def remdups_adj_map_injective[OF assms])
  then have "distinct (map key (sort_dedup key xs))"
    using distinct_remdups_adj_sorted[OF sorted_sort_key] by simp
  then show ?thesis
    using sorted_list_of_set.idem_if_sorted_distinct[OF sort_dedup_sorted] by (metis set_map sort_dedup_set)
qed

lemma sort_dedup_eq_iff:
  assumes "inj key"
  shows "sort_dedup key xs = sort_dedup key ys \<longleftrightarrow> set xs = set ys"
proof
  assume "sort_dedup key xs = sort_dedup key ys"
  then have "set (sort_dedup key xs) = set (sort_dedup key ys)" by (rule arg_cong)
  then show "set xs = set ys" by simp
next
  assume "set xs = set ys"
  then have "map key (sort_dedup key xs) = map key (sort_dedup key ys)"
    by (simp add: sort_dedup_keys[OF assms])
  with assms show "sort_dedup key xs = sort_dedup key ys" by (simp add: inj_map_eq_map)
qed

lemma inj_keys [simp]: "inj reference_key" "inj match_key"
  by (auto intro!: injI simp: reference_key_def match_key_def)

lemma inj_filter_key [simp]: "inj filter_key"
  by (auto intro!: injI simp: filter_key_def inj_map_eq_map)

text \<open>What a filter of the lock decides, whatever the order and repetition of its parts.\<close>

definition filter_meaning ::
  "locked_filter \<Rightarrow> string \<times> string \<times> string \<times> locked_policy_reference set \<times> locked_filter_match set" where
  "filter_meaning f =
     (lf_scope f, lf_defined_in f, lf_name f, set (lf_conditions f), set (lf_matches f))"

definition same_matches :: "filter_match_lock \<Rightarrow> filter_match_lock \<Rightarrow> bool" where
  "same_matches a b \<longleftrightarrow> fml_version a = fml_version b
     \<and> filter_meaning ` set (fml_filters a) = filter_meaning ` set (fml_filters b)"

lemma canonicalize_filter_eq_iff:
  "canonicalize_filter f = canonicalize_filter g \<longleftrightarrow> filter_meaning f = filter_meaning g"
  by (cases f; cases g) (simp add: canonicalize_filter_def filter_meaning_def sort_dedup_eq_iff)

lemma filter_meaning_canonicalize [simp]: "filter_meaning (canonicalize_filter f) = filter_meaning f"
  by (simp add: filter_meaning_def canonicalize_filter_def)

lemma image_eq_iff_kernel:
  assumes "\<And>x y. f x = f y \<longleftrightarrow> g x = g y"
  shows "f ` A = f ` B \<longleftrightarrow> g ` A = g ` B"
  unfolding set_eq_subset subset_iff image_iff ball_simps using assms by blast

text \<open>Two locks have the same canonical form exactly when they decide the same.\<close>

lemma canonicalize_eq_iff: "canonicalize a = canonicalize b \<longleftrightarrow> same_matches a b"
proof -
  have "canonicalize_filter ` set (fml_filters a) = canonicalize_filter ` set (fml_filters b)
      \<longleftrightarrow> filter_meaning ` set (fml_filters a) = filter_meaning ` set (fml_filters b)"
    by (rule image_eq_iff_kernel) (rule canonicalize_filter_eq_iff)
  then show ?thesis
    by (cases a; cases b) (simp add: canonicalize_def same_matches_def sort_dedup_eq_iff)
qed

lemma canonicalize_idem [simp]: "canonicalize (canonicalize a) = canonicalize a"
  unfolding canonicalize_eq_iff by (simp add: same_matches_def canonicalize_def image_image)

section \<open>Round trip\<close>

text \<open>The YAML library reads back the document it wrote; white space at line ends carries nothing.\<close>

definition yaml_reads :: "yaml_codec \<Rightarrow> filter_match_lock \<Rightarrow> bool" where
  "yaml_reads yaml lock \<longleftrightarrow>
     (\<forall>serialized. yaml_to_string yaml lock = Inr serialized \<longrightarrow>
        yaml_from_str yaml (tidy_lines serialized) = Inr lock)"

text \<open>
  C28: the text of a lock stands for its decisions and for nothing else. Where the YAML library reads
  back the documents it wrote, a lock that is written and read again is its canonical form, and two
  locks have the same text exactly when they have the same version and decide the same matches of the
  same filters under the same conditions, in whatever order and however often either lists them.
\<close>

theorem lock_roundtrip:
  assumes "yaml_reads yaml (canonicalize a)" and "yaml_reads yaml (canonicalize b)"
    and "lock_to_yaml yaml a = Inr text_a" and "lock_to_yaml yaml b = Inr text_b"
  shows "lock_from_yaml yaml text_a = Inr (canonicalize a) \<and> (text_a = text_b \<longleftrightarrow> same_matches a b)"
proof -
  have reads: "lock_from_yaml yaml t = Inr (canonicalize l)"
    if "yaml_reads yaml (canonicalize l)" "lock_to_yaml yaml l = Inr t" for l t
    using that by (auto simp: lock_to_yaml_def lock_from_yaml_def yaml_reads_def rbind_def split: sum.splits)
  note reread = reads[OF assms(1,3)] reads[OF assms(2,4)]
  have "text_a = text_b \<longleftrightarrow> canonicalize a = canonicalize b"
  proof
    assume "text_a = text_b"
    with reread show "canonicalize a = canonicalize b" by simp
  next
    assume "canonicalize a = canonicalize b"
    with assms(3,4) show "text_a = text_b" by (simp add: lock_to_yaml_def)
  qed
  with reread(1) show ?thesis by (simp add: canonicalize_eq_iff)
qed

end
