(* ===== verification/Scope_Imports.thy ===== *)
theory Scope_Imports
  imports Prelude
begin

text \<open>
  The import graph of resolution scopes (\<open>ScopeImports\<close> of \<open>crates/dsql-core/src/source.rs\<close>):
  generation targets, the scopes visible from a scope, and the search for an import cycle.

  The ordered map is the list of its entries in key order. Both searches recurse through the
  imports of a scope with the set of scopes already seen as mutable state, so a call returns the
  new state; they end because every level of the recursion marks a configured scope that was not
  marked before.
\<close>

section \<open>The graph\<close>

type_synonym scope_graph = "(string \<times> string list) list"

definition is_generation_target :: "scope_graph \<Rightarrow> string \<Rightarrow> bool" where
  "is_generation_target graph scope \<longleftrightarrow>
     scope \<in> set (map fst graph) \<and> \<not> list_ex (\<lambda>(_, imports). scope \<in> set imports) graph"

definition generation_targets :: "scope_graph \<Rightarrow> string list" where
  "generation_targets graph = filter (is_generation_target graph) (map fst graph)"

definition edges :: "scope_graph \<Rightarrow> (string \<times> string) set" where
  "edges graph = {(scope, import) | scope import targets.
     map_of graph scope = Some targets \<and> import \<in> set targets}"

definition unseen :: "scope_graph \<Rightarrow> string set \<Rightarrow> nat" where
  "unseen graph seen = card (set (map fst graph) - seen)"

lemma unseen_mono: "seen \<subseteq> seen' \<Longrightarrow> unseen graph seen' \<le> unseen graph seen"
  unfolding unseen_def by (rule card_mono) auto

lemma unseen_insert:
  assumes "map_of graph scope = Some imports" and "scope \<notin> seen"
  shows "unseen graph (insert scope seen) < unseen graph seen"
proof -
  have "scope \<in> set (map fst graph)" using assms(1) by (metis domI dom_map_of_conv_image_fst list.set_map)
  with assms(2) show ?thesis unfolding unseen_def by (intro psubset_card_mono) auto
qed

section \<open>Visible scopes\<close>

function collect_scope ::
  "scope_graph \<Rightarrow> string \<Rightarrow> string set \<times> string list \<Rightarrow> string set \<times> string list"
and collect_imports ::
  "scope_graph \<Rightarrow> string list \<Rightarrow> string set \<times> string list \<Rightarrow> string set \<times> string list"
where
  "collect_scope graph scope (seen, visible) =
     (if scope \<in> seen then (seen, visible)
      else case map_of graph scope of
        None \<Rightarrow> (insert scope seen, visible @ [scope])
      | Some imports \<Rightarrow> collect_imports graph imports (insert scope seen, visible @ [scope]))"
| "collect_imports graph [] st = st"
| "collect_imports graph (import # imports) st =
     collect_imports graph imports (collect_scope graph import st)"
  by pat_completeness auto

lemma collect_seen_grows:
  "collect_scope_collect_imports_dom (Inl (graph, scope, st)) \<Longrightarrow>
     fst st \<subseteq> fst (collect_scope graph scope st)"
  "collect_scope_collect_imports_dom (Inr (graph, imports, st)) \<Longrightarrow>
     fst st \<subseteq> fst (collect_imports graph imports st)"
  by (induction rule: collect_scope_collect_imports.pinduct)
     (auto simp: collect_scope.psimps collect_imports.psimps split: option.splits)

termination collect_scope
proof (relation "inv_image (less_than <*lex*> less_than)
    (case_sum (\<lambda>(graph, _, st). (unseen graph (fst st), 0))
       (\<lambda>(graph, imports, st). (unseen graph (fst st), Suc (length imports))))", goal_cases)
  case (2 graph scope seen visible targets)
  then show ?case using unseen_insert by simp
next
  case (4 graph import targets st)
  then have "unseen graph (fst (collect_scope graph import st)) \<le> unseen graph (fst st)"
    by (intro unseen_mono collect_seen_grows)
  then show ?case by auto
qed auto

definition visible_from :: "scope_graph \<Rightarrow> string \<Rightarrow> string list" where
  "visible_from graph scope = snd (collect_scope graph scope ({}, []))"

definition imports_of :: "scope_graph \<Rightarrow> string \<Rightarrow> string list" where
  "imports_of graph scope = drop 1 (visible_from graph scope)"

section \<open>Import cycles\<close>

datatype visit_state = Visiting | Visited

type_synonym visit_memory = "(string \<rightharpoonup> visit_state) \<times> string list"

function visit_scope ::
  "scope_graph \<Rightarrow> string \<Rightarrow> visit_memory \<Rightarrow> string list option \<times> visit_memory"
and visit_imports ::
  "scope_graph \<Rightarrow> string list \<Rightarrow> visit_memory \<Rightarrow> string list option \<times> visit_memory"
where
  "visit_scope graph scope (states, stack) =
     (case states scope of
        Some Visited \<Rightarrow> (None, (states, stack))
      | Some Visiting \<Rightarrow>
          (case position (\<lambda>entry. entry = scope) stack of
             None \<Rightarrow> (None, (states, stack))
           | Some start \<Rightarrow> (Some (drop start stack @ [scope]), (states, stack)))
      | None \<Rightarrow>
          (case map_of graph scope of
             None \<Rightarrow> (None, (states(scope \<mapsto> Visited), stack))
           | Some imports \<Rightarrow>
               (case visit_imports graph imports (states(scope \<mapsto> Visiting), stack @ [scope]) of
                  (Some cycle, st) \<Rightarrow> (Some cycle, st)
                | (None, (states, stack)) \<Rightarrow> (None, (states(scope \<mapsto> Visited), butlast stack)))))"
| "visit_imports graph [] st = (None, st)"
| "visit_imports graph (import # imports) st =
     (case visit_scope graph import st of
        (Some cycle, st) \<Rightarrow> (Some cycle, st)
      | (None, st) \<Rightarrow> visit_imports graph imports st)"
  by pat_completeness auto

lemma visit_states_keep:
  "visit_scope_visit_imports_dom (Inl (graph, scope, st)) \<Longrightarrow>
     \<forall>x. fst st x \<noteq> None \<longrightarrow> fst (snd (visit_scope graph scope st)) x \<noteq> None"
  "visit_scope_visit_imports_dom (Inr (graph, imports, st)) \<Longrightarrow>
     \<forall>x. fst st x \<noteq> None \<longrightarrow> fst (snd (visit_imports graph imports st)) x \<noteq> None"
proof (induction rule: visit_scope_visit_imports.pinduct)
  case (1 graph scope states stack)
  then show ?case
    by (auto simp: visit_scope.psimps split: option.splits visit_state.splits prod.splits if_splits)
next
  case (3 graph import targets st)
  then show ?case
    by (auto simp: visit_imports.psimps split: option.splits prod.splits)
qed (auto simp: visit_imports.psimps)

lemma visit_states_grow:
  "visit_scope_visit_imports_dom (Inl (graph, scope, st)) \<Longrightarrow>
     dom (fst st) \<subseteq> dom (fst (snd (visit_scope graph scope st)))"
  using visit_states_keep(1) by blast

termination visit_scope
proof (relation "inv_image (less_than <*lex*> less_than)
    (case_sum (\<lambda>(graph, _, st). (unseen graph (dom (fst st)), 0))
       (\<lambda>(graph, imports, st). (unseen graph (dom (fst st)), Suc (length imports))))", goal_cases)
  case (2 graph scope states stack targets)
  then show ?case using unseen_insert[of graph scope targets "dom states"] by auto
next
  case (4 graph import targets st r st')
  then have "dom (fst st) \<subseteq> dom (fst st')"
    using visit_states_grow[of graph import st] by (metis snd_conv)
  then have "unseen graph (dom (fst st')) \<le> unseen graph (dom (fst st))" by (rule unseen_mono)
  then show ?case by auto
qed auto

text \<open>The roots in key order; the first cycle ends the loop.\<close>

fun cycle_from :: "scope_graph \<Rightarrow> string list \<Rightarrow> visit_memory \<Rightarrow> string list option" where
  "cycle_from graph [] st = None"
| "cycle_from graph (scope # scopes) st =
     (case visit_scope graph scope st of
        (Some cycle, _) \<Rightarrow> Some cycle
      | (None, st) \<Rightarrow> cycle_from graph scopes st)"

definition import_cycle :: "scope_graph \<Rightarrow> string list option" where
  "import_cycle graph = cycle_from graph (map fst graph) (Map.empty, [])"

section \<open>Visible scopes are the reachable ones\<close>

lemma edges_lookup: "map_of graph scope = Some targets \<Longrightarrow> edges graph `` {scope} = set targets"
  by (auto simp: edges_def)

lemma edges_missing: "map_of graph scope = None \<Longrightarrow> edges graph `` {scope} = {}"
  by (auto simp: edges_def)

text \<open>The set and the list of the state agree, and a call only appends.\<close>

lemma collect_frame:
  "fst st = set (snd st) \<Longrightarrow> distinct (snd st) \<Longrightarrow>
     (let st' = collect_scope graph scope st in
      fst st' = set (snd st') \<and> distinct (snd st') \<and> (\<exists>new. snd st' = snd st @ new)
      \<and> fst st \<subseteq> fst st' \<and> scope \<in> fst st')"
  "fst st = set (snd st) \<Longrightarrow> distinct (snd st) \<Longrightarrow>
     (let st' = collect_imports graph targets st in
      fst st' = set (snd st') \<and> distinct (snd st') \<and> (\<exists>new. snd st' = snd st @ new)
      \<and> fst st \<subseteq> fst st' \<and> set targets \<subseteq> fst st')"
proof (induction graph scope st and graph targets st rule: collect_scope_collect_imports.induct)
  case (1 graph scope seen visible)
  then show ?case by (auto simp: Let_def split: option.splits)
next
  case (3 graph import targets st)
  then show ?case by (fastforce simp: Let_def)
qed simp

text \<open>What a call adds is reachable, and its successors are seen.\<close>

lemma collect_closed:
  "(let st' = collect_scope graph scope st in
     (\<forall>x \<in> fst st' - fst st. (scope, x) \<in> (edges graph)\<^sup>* \<and> edges graph `` {x} \<subseteq> fst st')
     \<and> fst st \<subseteq> fst st' \<and> scope \<in> fst st')"
  "(let st' = collect_imports graph targets st in
     (\<forall>x \<in> fst st' - fst st. (\<exists>i \<in> set targets. (i, x) \<in> (edges graph)\<^sup>*)
        \<and> edges graph `` {x} \<subseteq> fst st')
     \<and> fst st \<subseteq> fst st' \<and> set targets \<subseteq> fst st')"
proof (induction graph scope st and graph targets st rule: collect_scope_collect_imports.induct)
  case (1 graph scope seen visible)
  show ?case
  proof (cases "scope \<in> seen")
    case False
    show ?thesis
    proof (cases "map_of graph scope")
      case None
      with False show ?thesis by (auto simp: edges_def)
    next
      case (Some targets)
      define st' where "st' = collect_imports graph targets (insert scope seen, visible @ [scope])"
      have IH: "\<forall>x \<in> fst st' - insert scope seen. (\<exists>i \<in> set targets. (i, x) \<in> (edges graph)\<^sup>*)
          \<and> edges graph `` {x} \<subseteq> fst st'"
        and sub: "insert scope seen \<subseteq> fst st'" "set targets \<subseteq> fst st'"
        using 1[OF False Some] by (simp_all add: st'_def Let_def)
      have "(scope, x) \<in> (edges graph)\<^sup>* \<and> edges graph `` {x} \<subseteq> fst st'"
        if x: "x \<in> fst st' - seen" for x
      proof (cases "x = scope")
        case True
        with sub(2) show ?thesis by (simp add: edges_lookup[OF Some])
      next
        case False
        with IH x obtain i where i: "i \<in> set targets" "(i, x) \<in> (edges graph)\<^sup>*"
          and cl: "edges graph `` {x} \<subseteq> fst st'" by blast
        from i(1) have "(scope, i) \<in> edges graph" using Some by (auto simp: edges_def)
        with i(2) cl show ?thesis by (blast intro: converse_rtrancl_into_rtrancl)
      qed
      with sub show ?thesis by (simp add: False Some Let_def flip: st'_def)
    qed
  qed simp
next
  case (3 graph import targets st)
  define st1 where "st1 = collect_scope graph import st"
  define st2 where "st2 = collect_imports graph targets st1"
  from 3 have one: "\<forall>x \<in> fst st1 - fst st. (import, x) \<in> (edges graph)\<^sup>* \<and> edges graph `` {x} \<subseteq> fst st1"
      "fst st \<subseteq> fst st1" "import \<in> fst st1"
    and two: "\<forall>x \<in> fst st2 - fst st1. (\<exists>i \<in> set targets. (i, x) \<in> (edges graph)\<^sup>*)
        \<and> edges graph `` {x} \<subseteq> fst st2" "fst st1 \<subseteq> fst st2" "set targets \<subseteq> fst st2"
    by (simp_all add: Let_def st1_def st2_def)
  have "(\<exists>i \<in> set (import # targets). (i, x) \<in> (edges graph)\<^sup>*) \<and> edges graph `` {x} \<subseteq> fst st2"
    if "x \<in> fst st2 - fst st" for x
    using one(1) two(1,2) that by (cases "x \<in> fst st1") auto
  with one(2,3) two(2,3) have "(\<forall>x \<in> fst st2 - fst st.
      (\<exists>i \<in> set (import # targets). (i, x) \<in> (edges graph)\<^sup>*) \<and> edges graph `` {x} \<subseteq> fst st2)
      \<and> fst st \<subseteq> fst st2 \<and> set (import # targets) \<subseteq> fst st2"
    by auto
  then show ?case by (simp add: st1_def st2_def)
qed simp

lemma closed_contains_reachable:
  assumes "(a, b) \<in> r\<^sup>*" and "a \<in> A" and "\<forall>x \<in> A. r `` {x} \<subseteq> A"
  shows "b \<in> A"
  using assms by (induction rule: rtrancl_induct) auto

text \<open>
  C35: The scopes visible from a scope are exactly the scopes its imports reach, each listed once
  and the scope itself first, whatever cycles or diamonds the graph has.
\<close>

theorem visible_from_reachable:
  "set (visible_from graph scope) = {x. (scope, x) \<in> (edges graph)\<^sup>*}
   \<and> distinct (visible_from graph scope)
   \<and> visible_from graph scope = scope # imports_of graph scope"
proof -
  define st where "st = collect_scope graph scope ({}, [])"
  have frame: "fst st = set (snd st)" "distinct (snd st)"
    using collect_frame(1)[of "({}, [])" graph scope] by (simp_all add: st_def Let_def)
  have closed: "\<forall>x \<in> fst st. (scope, x) \<in> (edges graph)\<^sup>* \<and> edges graph `` {x} \<subseteq> fst st"
    and self: "scope \<in> fst st"
    using collect_closed(1)[of graph scope "({}, [])"] by (simp_all add: st_def Let_def)
  have "snd st = scope # drop 1 (snd st)"
  proof (cases "map_of graph scope")
    case None
    then show ?thesis by (simp add: st_def)
  next
    case (Some targets)
    then have "st = collect_imports graph targets ({scope}, [scope])" by (simp add: st_def)
    with collect_frame(2)[of "({scope}, [scope])" graph targets]
    obtain new where "snd st = [scope] @ new" by (auto simp: Let_def)
    then show ?thesis by simp
  qed
  moreover have "fst st = {x. (scope, x) \<in> (edges graph)\<^sup>*}"
    using closed closed_contains_reachable[of scope _ "edges graph" "fst st"] self by blast
  ultimately show ?thesis
    using frame unfolding visible_from_def imports_of_def st_def[symmetric] by simp
qed

section \<open>The cycle search\<close>

text \<open>A path follows imports from its first to its last scope.\<close>

definition import_path :: "scope_graph \<Rightarrow> string list \<Rightarrow> bool" where
  "import_path graph path \<longleftrightarrow> (\<forall>i. Suc i < length path \<longrightarrow> (path ! i, path ! Suc i) \<in> edges graph)"

text \<open>
  The memory of the search: the stack is a path of the scopes being visited; what is visited is
  closed under imports and has no cycle.
\<close>

definition memory_ok :: "scope_graph \<Rightarrow> visit_memory \<Rightarrow> bool" where
  "memory_ok graph st \<longleftrightarrow>
     {x. fst st x = Some Visiting} = set (snd st) \<and> distinct (snd st) \<and> import_path graph (snd st)
     \<and> (\<forall>x. fst st x = Some Visited \<longrightarrow>
          (\<forall>y. (x, y) \<in> edges graph \<longrightarrow> fst st y = Some Visited) \<and> (x, x) \<notin> (edges graph)\<^sup>+)"

definition is_cycle :: "scope_graph \<Rightarrow> string list \<Rightarrow> bool" where
  "is_cycle graph cycle \<longleftrightarrow> import_path graph cycle \<and> 2 \<le> length cycle \<and> hd cycle = last cycle"

definition may_follow :: "scope_graph \<Rightarrow> string list \<Rightarrow> string \<Rightarrow> bool" where
  "may_follow graph stack scope \<longleftrightarrow> stack = [] \<or> (last stack, scope) \<in> edges graph"

lemma import_path_snoc:
  "import_path graph (path @ [x]) \<longleftrightarrow> import_path graph path \<and> may_follow graph path x"
proof (cases path rule: rev_cases)
  case (snoc ys y)
  then show ?thesis
    by (auto simp: import_path_def may_follow_def nth_append less_Suc_eq)
qed (simp add: import_path_def may_follow_def)

lemma import_path_drop: "import_path graph path \<Longrightarrow> import_path graph (drop n path)"
  by (simp add: import_path_def)

lemma visited_closed:
  assumes "memory_ok graph st" and "fst st x = Some Visited" and "(x, y) \<in> (edges graph)\<^sup>*"
  shows "fst st y = Some Visited"
  using assms(3,2) assms(1) by (induction rule: rtrancl_induct) (auto simp: memory_ok_def)

lemma found_cycle:
  assumes "import_path graph stack" and "may_follow graph stack scope"
    and "position (\<lambda>entry. entry = scope) stack = Some start"
  shows "is_cycle graph (drop start stack @ [scope])"
proof -
  from position_Some[OF assms(3)] have start: "start < length stack" "stack ! start = scope" by auto
  then have "may_follow graph (drop start stack) scope"
    using assms(2) by (auto simp: may_follow_def)
  with assms(1) have "import_path graph (drop start stack @ [scope])"
    by (simp add: import_path_snoc import_path_drop)
  moreover have "hd (drop start stack @ [scope]) = scope"
    using start by (simp add: hd_append hd_drop_conv_nth)
  moreover have "2 \<le> length (drop start stack @ [scope])" using start by simp
  ultimately show ?thesis by (simp add: is_cycle_def)
qed

text \<open>A scope that is not configured, and a scope whose imports are all visited, may be closed.\<close>

lemma close_scope:
  assumes ok: "memory_ok graph (states, stack @ [scope])"
    and visited: "\<forall>y. (scope, y) \<in> edges graph \<longrightarrow> states y = Some Visited"
  shows "memory_ok graph (states(scope \<mapsto> Visited), stack)"
proof -
  have "scope \<in> {x. states x = Some Visiting}" using ok by (auto simp: memory_ok_def)
  then have visiting: "states scope = Some Visiting" by simp
  have no_cycle: "(scope, scope) \<notin> (edges graph)\<^sup>+"
  proof
    assume "(scope, scope) \<in> (edges graph)\<^sup>+"
    then obtain y where "(scope, y) \<in> edges graph" "(y, scope) \<in> (edges graph)\<^sup>*"
      by (meson tranclD)
    with visited visited_closed[OF ok, of y scope] have "states scope = Some Visited" by simp
    with visiting show False by simp
  qed
  from ok have path: "import_path graph stack" by (simp add: memory_ok_def import_path_snoc)
  from ok have "{x. states x = Some Visiting} = set stack \<union> {scope}" "scope \<notin> set stack" "distinct stack"
    by (auto simp: memory_ok_def)
  then have "{x. (states(scope \<mapsto> Visited)) x = Some Visiting} = set stack" by auto
  moreover have "(\<forall>y. (x, y) \<in> edges graph \<longrightarrow> (states(scope \<mapsto> Visited)) y = Some Visited)
      \<and> (x, x) \<notin> (edges graph)\<^sup>+" if "(states(scope \<mapsto> Visited)) x = Some Visited" for x
    using that ok visited no_cycle by (cases "x = scope") (auto simp: memory_ok_def)
  ultimately show ?thesis using path \<open>distinct stack\<close> unfolding memory_ok_def by simp
qed

lemma open_scope:
  assumes ok: "memory_ok graph (states, stack)" and "states scope = None"
    and "may_follow graph stack scope"
  shows "memory_ok graph (states(scope \<mapsto> Visiting), stack @ [scope])"
proof -
  have visiting: "{x. states x = Some Visiting} = set stack" using ok by (simp add: memory_ok_def)
  then have "scope \<notin> set stack"
    using assms(2) by (metis (mono_tags) mem_Collect_eq option.distinct(1))
  moreover have "(\<forall>y. (x, y) \<in> edges graph \<longrightarrow> (states(scope \<mapsto> Visiting)) y = Some Visited)
      \<and> (x, x) \<notin> (edges graph)\<^sup>+" if "(states(scope \<mapsto> Visiting)) x = Some Visited" for x
    using that ok assms(2) by (auto simp: memory_ok_def split: if_splits)
  ultimately show ?thesis
    using ok assms(3) visiting unfolding memory_ok_def by (auto simp: import_path_snoc)
qed

definition search_result ::
  "scope_graph \<Rightarrow> string list \<Rightarrow> visit_memory \<Rightarrow> string list option \<times> visit_memory \<Rightarrow> bool" where
  "search_result graph scopes st r \<longleftrightarrow>
     (case r of
        (Some cycle, _) \<Rightarrow> is_cycle graph cycle
      | (None, st') \<Rightarrow> memory_ok graph st' \<and> snd st' = snd st
          \<and> (\<forall>x. fst st x = Some Visited \<longrightarrow> fst st' x = Some Visited)
          \<and> (\<forall>x \<in> set scopes. fst st' x = Some Visited))"

lemma visit_correct:
  "memory_ok graph st \<Longrightarrow> may_follow graph (snd st) scope \<Longrightarrow>
     search_result graph [scope] st (visit_scope graph scope st)"
  "memory_ok graph st \<Longrightarrow> \<forall>x \<in> set targets. may_follow graph (snd st) x \<Longrightarrow>
     search_result graph targets st (visit_imports graph targets st)"
proof (induction graph scope st and graph targets st rule: visit_scope_visit_imports.induct)
  case (1 graph scope states stack)
  show ?case
  proof (cases "states scope")
    case None
    show ?thesis
    proof (cases "map_of graph scope")
      case missing: None
      then have "edges graph `` {scope} = {}" by (auto simp: edges_def)
      with close_scope[OF open_scope[OF 1(2) None]] 1(3)
      have "memory_ok graph (states(scope \<mapsto> Visited), stack)" by (auto split: if_splits)
      with None missing show ?thesis by (simp add: search_result_def)
    next
      case (Some targets)
      let ?st = "(states(scope \<mapsto> Visiting), stack @ [scope])"
      have follow: "\<forall>x \<in> set targets. may_follow graph (snd ?st) x"
        using Some by (auto simp: may_follow_def edges_def)
      have opened: "memory_ok graph ?st" using open_scope[OF 1(2) None] 1(3) by simp
      have IH: "search_result graph targets ?st (visit_imports graph targets ?st)"
        by (rule 1(1)[OF None Some opened follow])
      obtain r st' where Pair: "visit_imports graph targets ?st = (r, st')" by (metis surj_pair)
      show ?thesis
        proof (cases r)
          case None': None
          obtain states' where st': "st' = (states', stack @ [scope])"
            using IH Pair None' by (cases st') (auto simp: search_result_def)
          from IH Pair None' st' have facts: "memory_ok graph (states', stack @ [scope])"
            "\<forall>x. (states(scope \<mapsto> Visiting)) x = Some Visited \<longrightarrow> states' x = Some Visited"
            "\<forall>x \<in> set targets. states' x = Some Visited"
            by (simp_all add: search_result_def)
          from facts(3) have "\<forall>y. (scope, y) \<in> edges graph \<longrightarrow> states' y = Some Visited"
            using Some by (auto simp: edges_def)
          from close_scope[OF facts(1) this] facts(2) None show ?thesis
            by (auto simp: search_result_def None Some Pair None' st')
        next
          case (Some cycle)
          with IH Pair None \<open>map_of graph scope = Some targets\<close> show ?thesis
            by (simp add: search_result_def)
        qed
    qed
  next
    case (Some state)
    show ?thesis
    proof (cases state)
      case Visiting
      with 1(2) Some have "scope \<in> set stack" by (auto simp: memory_ok_def)
      then obtain start where start: "position (\<lambda>entry. entry = scope) stack = Some start"
        by (cases "position (\<lambda>entry. entry = scope) stack") (auto simp: position_None_iff)
      with found_cycle[OF _ _ start] 1(2,3) show ?thesis
        by (simp add: search_result_def Some Visiting memory_ok_def)
    next
      case Visited
      with 1(2) Some show ?thesis by (simp add: search_result_def)
    qed
  qed
next
  case (2 graph st)
  then show ?case by (simp add: search_result_def)
next
  case (3 graph import targets st)
  have one: "search_result graph [import] st (visit_scope graph import st)"
    using 3 by simp
  obtain r st1 where Pair: "visit_scope graph import st = (r, st1)" by (metis surj_pair)
  show ?case
    proof (cases r)
      case None
      with one Pair have st1: "memory_ok graph st1" "snd st1 = snd st"
        "\<forall>x. fst st x = Some Visited \<longrightarrow> fst st1 x = Some Visited" "fst st1 import = Some Visited"
        by (simp_all add: search_result_def)
      have "search_result graph targets st1 (visit_imports graph targets st1)"
        using 3 Pair None st1 by simp
      with st1 Pair None show ?thesis
        by (auto simp: search_result_def split: option.splits prod.splits)
    next
      case (Some cycle)
      with one Pair show ?thesis by (simp add: search_result_def)
    qed
qed

lemma cycle_from_correct:
  assumes "memory_ok graph st" and "snd st = []"
  shows "case cycle_from graph scopes st of
      Some cycle \<Rightarrow> is_cycle graph cycle
    | None \<Rightarrow> (\<forall>x. x \<in> set scopes \<or> fst st x = Some Visited \<longrightarrow> (x, x) \<notin> (edges graph)\<^sup>+)"
  using assms
proof (induction scopes arbitrary: st)
  case Nil
  then show ?case by (simp add: memory_ok_def)
next
  case (Cons scope scopes)
  have one: "search_result graph [scope] st (visit_scope graph scope st)"
    by (rule visit_correct) (simp_all add: Cons.prems may_follow_def)
  obtain r st1 where Pair: "visit_scope graph scope st = (r, st1)" by (metis surj_pair)
  show ?case
  proof (cases r)
    case None
    with one Pair have st1: "memory_ok graph st1" "snd st1 = []"
      "\<forall>x. fst st x = Some Visited \<longrightarrow> fst st1 x = Some Visited" "fst st1 scope = Some Visited"
      by (simp_all add: search_result_def Cons.prems)
    from Cons.IH[OF st1(1,2)] st1(3,4) Pair None show ?thesis
      by (auto split: option.splits)
  next
    case (Some cycle)
    with one Pair show ?thesis by (simp add: search_result_def)
  qed
qed

lemma path_reaches:
  "import_path graph path \<Longrightarrow> i < j \<Longrightarrow> j < length path \<Longrightarrow> (path ! i, path ! j) \<in> (edges graph)\<^sup>+"
proof (induction j)
  case (Suc j)
  then have step: "(path ! j, path ! Suc j) \<in> edges graph" by (simp add: import_path_def)
  show ?case
  proof (cases "i = j")
    case True
    with step show ?thesis by auto
  next
    case False
    with Suc have "(path ! i, path ! j) \<in> (edges graph)\<^sup>+" by simp
    with step show ?thesis by (meson trancl.trancl_into_trancl)
  qed
qed simp

lemma is_cycle_not_acyclic:
  assumes "is_cycle graph cycle"
  shows "\<not> acyclic (edges graph)"
proof -
  have "(cycle ! 0, cycle ! (length cycle - 1)) \<in> (edges graph)\<^sup>+"
    by (rule path_reaches) (use assms in \<open>auto simp: is_cycle_def\<close>)
  moreover have "cycle ! 0 = cycle ! (length cycle - 1)"
    using assms by (cases "cycle = []") (auto simp: is_cycle_def hd_conv_nth last_conv_nth)
  ultimately show ?thesis by (auto simp: acyclic_def)
qed

text \<open>
  C34: The cycle search is exact: it answers none precisely for an acyclic import graph, and what it
  answers otherwise is a genuine cycle, a path of imports of at least one step that ends where it
  begins.
\<close>

theorem import_cycle_correct:
  "(import_cycle graph = None \<longleftrightarrow> acyclic (edges graph))
   \<and> (case import_cycle graph of None \<Rightarrow> True | Some cycle \<Rightarrow> is_cycle graph cycle)"
proof -
  have "memory_ok graph (Map.empty, [])" by (simp add: memory_ok_def import_path_def)
  from cycle_from_correct[OF this, of "map fst graph"]
  have search: "case import_cycle graph of
      Some cycle \<Rightarrow> is_cycle graph cycle
    | None \<Rightarrow> (\<forall>x \<in> set (map fst graph). (x, x) \<notin> (edges graph)\<^sup>+)"
    by (simp add: import_cycle_def split: option.splits)
  have key: "x \<in> set (map fst graph)" if "(x, x) \<in> (edges graph)\<^sup>+" for x
  proof -
    from that obtain y where "(x, y) \<in> edges graph" by (meson tranclD)
    then have "map_of graph x \<noteq> None" by (auto simp: edges_def)
    then show ?thesis by (simp add: map_of_eq_None_iff)
  qed
  show ?thesis
  proof (cases "import_cycle graph")
    case None
    with search key have "acyclic (edges graph)" by (auto simp: acyclic_def)
    with None show ?thesis by simp
  next
    case (Some cycle)
    with search is_cycle_not_acyclic[of graph cycle] show ?thesis by simp
  qed
qed

end
