(* ===== verification/Snapshot.thy ===== *)
theory Snapshot
  imports Operation_Metadata Sql_Names Match_Lock Scope_Imports
begin

text \<open>
  The generation snapshot (\<open>crates/dsql-generate/src/snapshot.rs\<close>, \<open>layout.rs\<close>,
  \<open>contract.rs\<close> and the assembly of artifacts and groups in \<open>pipeline.rs\<close>): artifacts with their
  content addresses, the groups of every scope, the project contract and the names of the files
  of a build tree. SHA-256 and the JSON library are parameters.
\<close>

section \<open>Errors of generation\<close>

datatype generate_error =
    GenProject string
  | GenLanguageDiagnostics nat string
  | GenAssembly string string
  | GenSerialize string string
  | GenArtifactScopeNotConfigured string string
  | GenArtifactCollision (collision_kind: string) (collision_first: string)
      (collision_first_source: string) (collision_second: string) (collision_second_source: string)
      (collision_path: string)
  | GenAddressCollision (address_path: string) (address_id: string)
  | GenPublicationLocked
  | GenMatchLock string string
  | GenInternal string
  | GenWrite string
  | GenIo string
  | GenGenerator "string list" string
  | GenSpawn "string list"

text \<open>\<open>GenerateError::named\<close> fills in the name of an assembly error that has none.\<close>

definition error_named :: "string \<Rightarrow> generate_error \<Rightarrow> generate_error" where
  "error_named artifact e =
     (case e of GenAssembly [] message \<Rightarrow> GenAssembly artifact message | _ \<Rightarrow> e)"

section \<open>Artifacts\<close>

datatype artifact_family = FamilyOperation | FamilyFragment

fun family_label :: "artifact_family \<Rightarrow> string" where
  "family_label FamilyOperation = ''operation''"
| "family_label FamilyFragment = ''fragment''"

fun artifact_directory :: "artifact_family \<Rightarrow> string" where
  "artifact_directory FamilyOperation = ''operations''"
| "artifact_directory FamilyFragment = ''fragments''"

record snapshot_artifact =
  sa_id :: string
  sa_family :: artifact_family
  sa_kind :: definition_kind
  sa_scope :: string
  sa_name :: string
  sa_serialized :: string
  sa_hash :: string
  sa_source :: string

record snapshot_group =
  sg_name :: string
  sg_imports :: "string list"
  sg_generation_target :: bool
  sg_artifacts :: "string list"

record project_contract_scope =
  pcs_name :: string
  pcs_imports :: "string list"
  pcs_generation_target :: bool

record project_contract =
  pc_algorithm :: string
  pc_value :: string
  pc_scopes :: "project_contract_scope list"

record generation_snapshot =
  gs_artifacts :: "snapshot_artifact list"
  gs_groups :: "snapshot_group list"
  gs_project_contract :: project_contract
  gs_filter_match_lock :: filter_match_lock

definition artifact_address :: "string \<Rightarrow> string" where
  "artifact_address hash = take (min 16 (length hash)) hash"

text \<open>
  The file stem keeps ASCII letters, digits, \<open>-\<close> and \<open>_\<close> and replaces any other character by one
  \<open>_\<close>; of a character beyond ASCII the first byte stands for the whole, the others are dropped.
\<close>

definition is_continuation_byte :: "char \<Rightarrow> bool" where
  "is_continuation_byte c \<longleftrightarrow> 128 \<le> (of_char c :: nat) \<and> (of_char c :: nat) < 192"

definition stem_char :: "char \<Rightarrow> string" where
  "stem_char c =
     (if is_ascii_alphanumeric c \<or> c = CHR ''-'' \<or> c = CHR ''_'' then [c]
      else if is_continuation_byte c then [] else ''_'')"

definition artifact_file_stem :: "string \<Rightarrow> string" where
  "artifact_file_stem name =
     (let stem = concat (map stem_char name) in if stem = [] then ''operation'' else stem)"

definition artifact_collision_key :: "artifact_family \<Rightarrow> string \<Rightarrow> string" where
  "artifact_collision_key family name =
     artifact_directory family @ ''/'' @ map to_ascii_lowercase (artifact_file_stem name)"

text \<open>\<open>layout.rs\<close>: file names relative to the build directory.\<close>

definition manifest_file :: string where
  "manifest_file = ''manifest.json''"

definition generation_manifest_file :: "nat \<Rightarrow> string" where
  "generation_manifest_file generation_id = ''manifest.'' @ dec_string generation_id @ ''.json''"

definition artifact_file_name :: "artifact_family \<Rightarrow> string \<Rightarrow> string \<Rightarrow> string" where
  "artifact_file_name family name hash =
     artifact_directory family @ ''/'' @ artifact_file_stem name @ ''.'' @ artifact_address hash
       @ ''.json''"

section \<open>Assembly of a snapshot\<close>

definition assemble_artifact ::
  "(string \<Rightarrow> string) \<Rightarrow> artifact_family \<Rightarrow> string \<Rightarrow> definition_kind \<Rightarrow> string + string \<Rightarrow> string
     \<Rightarrow> string \<Rightarrow> generate_error + snapshot_artifact" where
  "assemble_artifact sha256 family name kind encoded scope source =
     (case encoded of
        Inl message \<Rightarrow> Inl (GenSerialize name message)
      | Inr serialized \<Rightarrow>
          Inr \<lparr>sa_id = scope @ ''/'' @ family_label family @ ''/'' @ name, sa_family = family,
            sa_kind = kind, sa_scope = scope, sa_name = name, sa_serialized = serialized,
            sa_hash = sha256 serialized, sa_source = source\<rparr>)"

text \<open>The map of the keys already seen, in the order they were inserted.\<close>

fun validate_artifact_paths_loop ::
  "(string \<rightharpoonup> snapshot_artifact) \<Rightarrow> snapshot_artifact list \<Rightarrow> generate_error + unit" where
  "validate_artifact_paths_loop seen [] = Inr ()"
| "validate_artifact_paths_loop seen (a # artifacts) =
     (let key = artifact_collision_key (sa_family a) (sa_name a) in
      case seen key of
        Some first \<Rightarrow> Inl (GenArtifactCollision (family_label (sa_family a)) (sa_name first)
            (sa_source first) (sa_name a) (sa_source a) key)
      | None \<Rightarrow> validate_artifact_paths_loop (seen(key \<mapsto> a)) artifacts)"

definition validate_artifact_paths :: "snapshot_artifact list \<Rightarrow> generate_error + unit" where
  "validate_artifact_paths artifacts = validate_artifact_paths_loop Map.empty artifacts"

text \<open>Without a configured graph every scope that owns an artifact stands alone.\<close>

definition scope_graph_for ::
  "scope_graph \<Rightarrow> snapshot_artifact list \<Rightarrow> generate_error + scope_graph" where
  "scope_graph_for configured artifacts =
     (if configured = [] then Inr (map (\<lambda>scope. (scope, [])) (sort (remdups (map sa_scope artifacts))))
      else rbind (rfold (\<lambda>_ a.
             if sa_scope a \<notin> set (map fst configured)
             then Inl (GenArtifactScopeNotConfigured (sa_id a) (sa_scope a)) else Inr ()) () artifacts)
           (\<lambda>_. Inr configured))"

definition snapshot_groups :: "scope_graph \<Rightarrow> snapshot_artifact list \<Rightarrow> snapshot_group list" where
  "snapshot_groups graph artifacts = map (\<lambda>(name, targets).
     \<lparr>sg_name = name, sg_imports = targets, sg_generation_target = is_generation_target graph name,
      sg_artifacts = map sa_id (filter (\<lambda>a. sa_scope a \<in> set (visible_from graph name)) artifacts)\<rparr>)
     graph"

definition contract_scopes :: "scope_graph \<Rightarrow> project_contract_scope list" where
  "contract_scopes graph = map (\<lambda>(name, targets).
     \<lparr>pcs_name = name, pcs_imports = sort_dedup (\<lambda>s. s) targets,
      pcs_generation_target = is_generation_target graph name\<rparr>) graph"

definition contract_from_imports ::
  "(string \<Rightarrow> string) \<Rightarrow> (project_contract_scope list \<Rightarrow> string + string) \<Rightarrow> scope_graph
     \<Rightarrow> generate_error + project_contract" where
  "contract_from_imports sha256 encode graph =
     (case encode (contract_scopes graph) of
        Inl message \<Rightarrow> Inl (GenSerialize ''project contract'' message)
      | Inr serialized \<Rightarrow>
          Inr \<lparr>pc_algorithm = ''sha256'', pc_value = sha256 serialized,
               pc_scopes = contract_scopes graph\<rparr>)"

definition assemble_snapshot ::
  "(string \<Rightarrow> string) \<Rightarrow> (project_contract_scope list \<Rightarrow> string + string) \<Rightarrow> scope_graph
     \<Rightarrow> filter_match_lock \<Rightarrow> snapshot_artifact list \<Rightarrow> generate_error + generation_snapshot" where
  "assemble_snapshot sha256 encode configured lock unsorted =
     (let artifacts = sort_key sa_id unsorted in
      rbind (validate_artifact_paths artifacts) (\<lambda>_.
      rbind (scope_graph_for configured artifacts) (\<lambda>graph.
      rbind (contract_from_imports sha256 encode graph) (\<lambda>contract.
        Inr \<lparr>gs_artifacts = artifacts, gs_groups = snapshot_groups graph artifacts,
             gs_project_contract = contract, gs_filter_match_lock = lock\<rparr>))))"

section \<open>Distinct files\<close>

text \<open>Validation accepts exactly the lists whose collision keys are distinct.\<close>

lemma validate_loop_iff:
  "validate_artifact_paths_loop seen artifacts = Inr () \<longleftrightarrow>
     distinct (map (\<lambda>a. artifact_collision_key (sa_family a) (sa_name a)) artifacts)
     \<and> (\<forall>a \<in> set artifacts. seen (artifact_collision_key (sa_family a) (sa_name a)) = None)"
proof (induction artifacts arbitrary: seen)
  case (Cons a artifacts)
  let ?key = "\<lambda>a. artifact_collision_key (sa_family a) (sa_name a)"
  show ?case
  proof (cases "seen (?key a)")
    case None
    have "(\<forall>b \<in> set artifacts. (seen(?key a \<mapsto> a)) (?key b) = None) \<longleftrightarrow>
        ?key a \<notin> ?key ` set artifacts \<and> (\<forall>b \<in> set artifacts. seen (?key b) = None)"
      by (simp add: image_iff) metis
    with None Cons.IH[of "seen(?key a \<mapsto> a)"] show ?thesis
      by (simp add: Let_def del: fun_upd_apply) blast
  qed (simp add: Let_def)
qed simp

lemma validate_artifact_paths_iff:
  "validate_artifact_paths artifacts = Inr () \<longleftrightarrow>
     distinct (map (\<lambda>a. artifact_collision_key (sa_family a) (sa_name a)) artifacts)"
  by (simp add: validate_artifact_paths_def validate_loop_iff)

lemma stem_char_ok: "c \<in> set (stem_char x) \<Longrightarrow>
    is_ascii_alphanumeric c \<or> c = CHR ''-'' \<or> c = CHR ''_''"
  by (auto simp: stem_char_def split: if_splits)

lemma operation_chars: "list_all is_ascii_alphanumeric ''operation''"
  by code_simp

lemma stem_chars: "c \<in> set (artifact_file_stem name) \<Longrightarrow>
    is_ascii_alphanumeric c \<or> c = CHR ''-'' \<or> c = CHR ''_''"
proof (cases "concat (map stem_char name) = []")
  case True
  moreover assume "c \<in> set (artifact_file_stem name)"
  ultimately have "c \<in> set ''operation''" by (simp add: artifact_file_stem_def Let_def)
  with operation_chars have "is_ascii_alphanumeric c" unfolding list_all_iff by blast
  then show ?thesis by blast
next
  case False
  moreover assume "c \<in> set (artifact_file_stem name)"
  ultimately have "c \<in> set (concat (map stem_char name))"
    unfolding artifact_file_stem_def Let_def by (simp only: if_False)
  then obtain x where "c \<in> set (stem_char x)" by auto
  then show ?thesis by (rule stem_char_ok)
qed

lemma stem_nonempty: "artifact_file_stem name \<noteq> []"
  by (simp add: artifact_file_stem_def Let_def)

lemma dot_slash_not_stem: "CHR ''.'' \<notin> set (artifact_file_stem name)"
    "CHR ''/'' \<notin> set (artifact_file_stem name)"
  by (auto dest!: stem_chars simp: is_ascii_alphanumeric_def ascii_lower_def ascii_upper_def
      ascii_digit_def)

lemma append_dot_inject:
  assumes "s @ CHR ''.'' # r = s' @ CHR ''.'' # r'" and "CHR ''.'' \<notin> set s" and "CHR ''.'' \<notin> set s'"
  shows "s = s' \<and> r = r'"
  using assms
proof (induction s arbitrary: s')
  case Nil
  then show ?case by (cases s') auto
next
  case (Cons c s)
  then show ?case by (cases s') auto
qed

text \<open>Artifacts of a validated snapshot have different file names.\<close>

lemma artifact_file_name_inject:
  assumes "artifact_file_name family name hash = artifact_file_name family' name' hash'"
  shows "family = family' \<and> artifact_file_stem name = artifact_file_stem name'"
proof -
  have same: "family = family'"
    using assms by (cases family; cases family') (simp_all add: artifact_file_name_def)
  with assms have "artifact_file_stem name @ CHR ''.'' # artifact_address hash @ ''.json''
      = artifact_file_stem name' @ CHR ''.'' # artifact_address hash' @ ''.json''"
    by (simp add: artifact_file_name_def)
  from append_dot_inject[OF this] same show ?thesis by (simp add: dot_slash_not_stem)
qed

lemma validated_files_distinct:
  assumes "validate_artifact_paths artifacts = Inr ()"
  shows "distinct (map (\<lambda>a. artifact_file_name (sa_family a) (sa_name a) (sa_hash a)) artifacts)"
proof -
  have "inj_on (\<lambda>a. artifact_file_name (sa_family a) (sa_name a) (sa_hash a)) (set artifacts)"
  proof (rule inj_onI)
    fix a b assume ab: "a \<in> set artifacts" "b \<in> set artifacts"
      "artifact_file_name (sa_family a) (sa_name a) (sa_hash a)
        = artifact_file_name (sa_family b) (sa_name b) (sa_hash b)"
    from artifact_file_name_inject[OF ab(3)]
    have "artifact_collision_key (sa_family a) (sa_name a)
        = artifact_collision_key (sa_family b) (sa_name b)"
      by (simp add: artifact_collision_key_def)
    with ab(1,2) assms show "a = b"
      by (auto simp: validate_artifact_paths_iff distinct_map dest: inj_onD)
  qed
  with assms show ?thesis by (auto simp: validate_artifact_paths_iff distinct_map)
qed

end
