(* ===== verification/File_System.thy ===== *)
theory File_System
  imports Prelude "HOL-Library.AList"
begin

text \<open>
  Programs over a file system that can fail and a process that can die: the vocabulary of
  \<open>crates/dsql-generate/src/publish.rs\<close>.

  A world is the files by path and the number of file-system operations so far. The environment
  decides how each operation ends: it proceeds, it is refused with an error, or the process dies
  in it; a refused or interrupted write leaves a prefix of its bytes, an interrupted rename or
  removal may or may not have happened. Errors can be handled, death cannot. Directories are not
  represented: creating one is an operation without effect, listing one gives the names of the
  files directly in it.
\<close>

section \<open>Worlds and programs\<close>

datatype outcome = Proceed | Refuse nat | Die nat

type_synonym environment = "nat \<Rightarrow> outcome"

record world =
  fs_files :: "(string \<times> string) list"
  fs_ticks :: nat
  fs_counter :: nat

datatype io_kind = NotFound | OtherError

datatype 'e stop = Died | Raised 'e

type_synonym ('e, 'a) program = "environment \<Rightarrow> world \<Rightarrow> ('e stop + 'a) \<times> world"

definition preturn :: "'a \<Rightarrow> ('e, 'a) program" where
  "preturn x env w = (Inr x, w)"

definition praise :: "'e \<Rightarrow> ('e, 'a) program" where
  "praise e env w = (Inl (Raised e), w)"

definition pbind :: "('e, 'a) program \<Rightarrow> ('a \<Rightarrow> ('e, 'b) program) \<Rightarrow> ('e, 'b) program" where
  "pbind c f env w =
     (case c env w of (Inl s, w') \<Rightarrow> (Inl s, w') | (Inr x, w') \<Rightarrow> f x env w')"

text \<open>A handler sees the error of its program; \<open>map_err\<close> is a handler that raises another.\<close>

definition phandle :: "('e, 'a) program \<Rightarrow> ('e \<Rightarrow> ('f, 'a) program) \<Rightarrow> ('f, 'a) program" where
  "phandle c h env w =
     (case c env w of
        (Inl Died, w') \<Rightarrow> (Inl Died, w')
      | (Inl (Raised e), w') \<Rightarrow> h e env w'
      | (Inr x, w') \<Rightarrow> (Inr x, w'))"

definition map_err :: "('e \<Rightarrow> 'f) \<Rightarrow> ('e, 'a) program \<Rightarrow> ('f, 'a) program" where
  "map_err f c = phandle c (\<lambda>e. praise (f e))"

text \<open>A pure result, a loop that collects, and a loop over a state.\<close>

definition plift :: "'e + 'a \<Rightarrow> ('e, 'a) program" where
  "plift r = (case r of Inl e \<Rightarrow> praise e | Inr x \<Rightarrow> preturn x)"

fun pfold :: "('s \<Rightarrow> 'a \<Rightarrow> ('e, 's) program) \<Rightarrow> 's \<Rightarrow> 'a list \<Rightarrow> ('e, 's) program" where
  "pfold f s [] = preturn s"
| "pfold f s (x # xs) = pbind (f s x) (\<lambda>s. pfold f s xs)"

section \<open>Operations\<close>

definition path_join :: "string \<Rightarrow> string \<Rightarrow> string" where
  "path_join dir relative = dir @ ''/'' @ relative"

definition file_name :: "string \<Rightarrow> string" where
  "file_name path = rev (takeWhile (\<lambda>c. c \<noteq> CHR ''/'') (rev path))"

definition parent_prefix :: "string \<Rightarrow> string" where
  "parent_prefix path = take (length path - length (file_name path)) path"

text \<open>
  One operation: what a refusal or a death leaves behind, and what happens otherwise.
\<close>

definition operation ::
  "(nat \<Rightarrow> (string \<times> string) list \<Rightarrow> (string \<times> string) list)
     \<Rightarrow> (nat \<Rightarrow> (string \<times> string) list \<Rightarrow> (string \<times> string) list)
     \<Rightarrow> ((string \<times> string) list \<Rightarrow> (io_kind + 'a) \<times> (string \<times> string) list)
     \<Rightarrow> (io_kind, 'a) program" where
  "operation refused died run env w =
     (let w' = w\<lparr>fs_ticks := Suc (fs_ticks w)\<rparr> in
      case env (fs_ticks w) of
        Proceed \<Rightarrow>
          (case run (fs_files w) of
             (Inl k, fs) \<Rightarrow> (Inl (Raised k), w'\<lparr>fs_files := fs\<rparr>)
           | (Inr x, fs) \<Rightarrow> (Inr x, w'\<lparr>fs_files := fs\<rparr>))
      | Refuse n \<Rightarrow> (Inl (Raised OtherError), w'\<lparr>fs_files := refused n (fs_files w)\<rparr>)
      | Die n \<Rightarrow> (Inl Died, w'\<lparr>fs_files := died n (fs_files w)\<rparr>))"

abbreviation unchanged :: "nat \<Rightarrow> (string \<times> string) list \<Rightarrow> (string \<times> string) list" where
  "unchanged \<equiv> \<lambda>_ fs. fs"

text \<open>Operations without an effect on files: creating directories, flushing, syncing, opening.\<close>

definition fs_nothing :: "(io_kind, unit) program" where
  "fs_nothing = operation unchanged unchanged (\<lambda>fs. (Inr (), fs))"

definition fs_read :: "string \<Rightarrow> (io_kind, string) program" where
  "fs_read path = operation unchanged unchanged
     (\<lambda>fs. (case map_of fs path of None \<Rightarrow> Inl NotFound | Some b \<Rightarrow> Inr b, fs))"

text \<open>\<open>exists()\<close> is false when the file cannot be examined.\<close>

definition fs_exists :: "string \<Rightarrow> ('e, bool) program" where
  "fs_exists path = phandle (operation unchanged unchanged (\<lambda>fs. (Inr (map_of fs path \<noteq> None), fs)))
     (\<lambda>_. preturn False)"

definition fs_create_new :: "string \<Rightarrow> (io_kind, unit) program" where
  "fs_create_new path = operation unchanged
     (\<lambda>n fs. if n = 0 \<or> map_of fs path \<noteq> None then fs else AList.update path [] fs)
     (\<lambda>fs. if map_of fs path \<noteq> None then (Inl OtherError, fs)
           else (Inr (), AList.update path [] fs))"

text \<open>Opening for writing without truncation creates an absent file.\<close>

definition touched :: "string \<Rightarrow> (string \<times> string) list \<Rightarrow> (string \<times> string) list" where
  "touched path fs = (if map_of fs path \<noteq> None then fs else AList.update path [] fs)"

definition fs_touch :: "string \<Rightarrow> (io_kind, unit) program" where
  "fs_touch path = operation unchanged (\<lambda>n fs. if n = 0 then fs else touched path fs)
     (\<lambda>fs. (Inr (), touched path fs))"

definition fs_write_all :: "string \<Rightarrow> string \<Rightarrow> (io_kind, unit) program" where
  "fs_write_all path content = operation
     (\<lambda>n fs. AList.update path (take n content) fs)
     (\<lambda>n fs. AList.update path (take n content) fs)
     (\<lambda>fs. (Inr (), AList.update path content fs))"

definition renamed :: "string \<Rightarrow> string \<Rightarrow> (string \<times> string) list \<Rightarrow> (string \<times> string) list" where
  "renamed source target fs =
     (case map_of fs source of
        None \<Rightarrow> fs
      | Some b \<Rightarrow> AList.update target b (AList.delete source fs))"

definition fs_rename :: "string \<Rightarrow> string \<Rightarrow> (io_kind, unit) program" where
  "fs_rename source target = operation unchanged
     (\<lambda>n fs. if n = 0 then fs else renamed source target fs)
     (\<lambda>fs. if map_of fs source = None then (Inl NotFound, fs) else (Inr (), renamed source target fs))"

definition fs_remove :: "string \<Rightarrow> (io_kind, unit) program" where
  "fs_remove path = operation unchanged
     (\<lambda>n fs. if n = 0 then fs else AList.delete path fs)
     (\<lambda>fs. if map_of fs path = None then (Inl NotFound, fs) else (Inr (), AList.delete path fs))"

text \<open>
  Listing a directory reads its entries one by one, and each may fail; the whole listing of a
  directory without files is not found or empty, which its callers treat alike.
\<close>

definition child_name :: "string \<Rightarrow> string \<Rightarrow> string option" where
  "child_name dir path =
     (case strip_prefix path (dir @ ''/'') of
        None \<Rightarrow> None
      | Some name \<Rightarrow> if name \<noteq> [] \<and> CHR ''/'' \<notin> set name then Some name else None)"

definition fs_list :: "string \<Rightarrow> (io_kind, string list) program" where
  "fs_list dir = operation unchanged unchanged
     (\<lambda>fs. (Inr (List.map_filter (\<lambda>(path, _). child_name dir path) fs), fs))"

text \<open>The next value of the process-wide counter of temporary names, in 64 bits.\<close>

definition next_counter :: "('e, nat) program" where
  "next_counter env w = (Inr (fs_counter w), w\<lparr>fs_counter := (fs_counter w + 1) mod 2 ^ 64\<rparr>)"

text \<open>The result of a program as a value, for code that matches on it.\<close>

definition ptry :: "('e, 'a) program \<Rightarrow> ('f, 'e + 'a) program" where
  "ptry c = phandle (pbind c (\<lambda>x. preturn (Inr x))) (\<lambda>e. preturn (Inl e))"

section \<open>Hoare triples\<close>

type_synonym file_map = "string \<rightharpoonup> string"

text \<open>
  \<open>triple P c Q J\<close>: from files that satisfy \<open>P\<close> the program returns with \<open>Q\<close> or stops, by an error
  or by death, with \<open>J\<close>; whatever the environment does.
\<close>

definition files :: "world \<Rightarrow> file_map" where
  "files w = map_of (fs_files w)"

definition triple ::
  "(file_map \<Rightarrow> bool) \<Rightarrow> ('e, 'a) program \<Rightarrow> ('a \<Rightarrow> file_map \<Rightarrow> bool) \<Rightarrow> (file_map \<Rightarrow> bool) \<Rightarrow> bool" where
  "triple P c Q J \<longleftrightarrow> (\<forall>env w. P (files w) \<longrightarrow>
     (case c env w of (Inr x, w') \<Rightarrow> Q x (files w') | (Inl _, w') \<Rightarrow> J (files w')))"

lemma tripleD:
  assumes "triple P c Q J" and "P (files w)" and "c env w = (r, w')"
  shows "case r of Inr x \<Rightarrow> Q x (files w') | Inl _ \<Rightarrow> J (files w')"
  using assms(1)[unfolded triple_def, rule_format, OF assms(2), of env] assms(3)
  by (simp split: sum.splits)

lemma triple_return: "(\<And>d. P d \<Longrightarrow> Q x d) \<Longrightarrow> triple P (preturn x) Q J"
  by (simp add: triple_def preturn_def)

lemma triple_raise: "(\<And>d. P d \<Longrightarrow> J d) \<Longrightarrow> triple P (praise e) Q J"
  by (simp add: triple_def praise_def)

lemma triple_bind:
  assumes "triple P c R J" and "\<And>x. triple (R x) (f x) Q J"
  shows "triple P (pbind c f) Q J"
  unfolding triple_def pbind_def
proof (intro allI impI)
  fix env w assume "P (files w)"
  obtain r w1 where c: "c env w = (r, w1)" by fastforce
  from tripleD[OF assms(1) \<open>P (files w)\<close> c] assms(2)
  show "case (case c env w of (Inl s, w') \<Rightarrow> (Inl s, w') | (Inr x, w') \<Rightarrow> f x env w') of
      (Inr x, w') \<Rightarrow> Q x (files w') | (Inl _, w') \<Rightarrow> J (files w')"
    unfolding c by (cases r) (auto simp: triple_def)
qed

lemma triple_handle:
  assumes "triple P c Q E" and "\<And>e. triple E (h e) Q J" and "\<And>d. E d \<Longrightarrow> J d"
  shows "triple P (phandle c h) Q J"
  unfolding triple_def phandle_def
proof (intro allI impI)
  fix env w assume "P (files w)"
  obtain r w1 where c: "c env w = (r, w1)" by fastforce
  from tripleD[OF assms(1) \<open>P (files w)\<close> c] assms(2,3)
  show "case (case c env w of
      (Inl Died, w') \<Rightarrow> (Inl Died, w')
    | (Inl (Raised e), w') \<Rightarrow> h e env w'
    | (Inr x, w') \<Rightarrow> (Inr x, w')) of (Inr x, w') \<Rightarrow> Q x (files w') | (Inl _, w') \<Rightarrow> J (files w')"
    unfolding c by (cases r) (auto simp: triple_def split: stop.splits)
qed

lemma triple_map_err: "triple P c Q J \<Longrightarrow> triple P (map_err f c) Q J"
  unfolding map_err_def by (rule triple_handle[where E = J]) (auto intro: triple_raise)

lemma triple_lift:
  "(\<And>x d. r = Inr x \<Longrightarrow> P d \<Longrightarrow> Q x d) \<Longrightarrow> (\<And>d. P d \<Longrightarrow> J d) \<Longrightarrow> triple P (plift r) Q J"
  by (cases r) (auto simp: plift_def intro: triple_raise triple_return)

lemma triple_mono:
  "triple P c Q J \<Longrightarrow> (\<And>d. P' d \<Longrightarrow> P d) \<Longrightarrow> (\<And>x d. Q x d \<Longrightarrow> Q' x d) \<Longrightarrow> (\<And>d. J d \<Longrightarrow> J' d) \<Longrightarrow>
     triple P' c Q' J'"
  unfolding triple_def by (fastforce split: sum.splits prod.splits)

lemma triple_pre: "(\<And>d. P d \<Longrightarrow> triple (\<lambda>d'. d' = d) c Q J) \<Longrightarrow> triple P c Q J"
  unfolding triple_def by (metis (full_types))

lemma triple_fold:
  assumes "\<And>x s. x \<in> set xs \<Longrightarrow> triple (I s) (f s x) I J" and "\<And>s d. I s d \<Longrightarrow> J d"
  shows "triple (I s) (pfold f s xs) I J"
  using assms(1)
proof (induction xs arbitrary: s)
  case Nil
  then show ?case by (simp add: triple_return)
next
  case (Cons x xs)
  show ?case unfolding pfold.simps
    by (rule triple_bind[where R = I]) (use Cons in auto)
qed

text \<open>The operations. An operation without an effect keeps every condition.\<close>

lemma triple_nothing: "triple P fs_nothing (\<lambda>_. P) P"
  by (simp add: triple_def fs_nothing_def operation_def files_def Let_def split: outcome.splits)

lemma triple_read: "triple P (fs_read path) (\<lambda>b d. P d \<and> d path = Some b) P"
  by (simp add: triple_def fs_read_def operation_def files_def Let_def
      split: outcome.splits option.splits)

lemma triple_try_read:
  "triple P (ptry (fs_read path)) (\<lambda>r d. P d \<and> (case r of
       Inr b \<Rightarrow> d path = Some b | Inl NotFound \<Rightarrow> d path = None | Inl OtherError \<Rightarrow> True)) P"
  by (simp add: triple_def ptry_def phandle_def pbind_def preturn_def fs_read_def operation_def
      files_def Let_def split: outcome.splits option.splits)

lemma triple_exists: "triple P (fs_exists path) (\<lambda>b d. P d \<and> (b \<longrightarrow> d path \<noteq> None)) P"
  by (simp add: triple_def fs_exists_def phandle_def preturn_def operation_def files_def Let_def
      split: outcome.splits)

lemma triple_create_new:
  "triple (\<lambda>d. d = D) (fs_create_new path) (\<lambda>_ d. D path = None \<and> d = D(path \<mapsto> []))
     (\<lambda>d. d = D \<or> d = D(path \<mapsto> []))"
  by (auto simp: triple_def fs_create_new_def operation_def files_def Let_def update_conv'
      split: outcome.splits)

lemma triple_touch:
  "triple (\<lambda>d. d = D) (fs_touch path) (\<lambda>_ d. d = D \<or> d = D(path \<mapsto> []))
     (\<lambda>d. d = D \<or> d = D(path \<mapsto> []))"
  by (auto simp: triple_def fs_touch_def touched_def operation_def files_def Let_def update_conv'
      split: outcome.splits)

lemma triple_write_all:
  "triple (\<lambda>d. d = D) (fs_write_all path content) (\<lambda>_ d. d = D(path \<mapsto> content))
     (\<lambda>d. \<exists>b. d = D(path \<mapsto> b))"
  by (auto simp: triple_def fs_write_all_def operation_def files_def Let_def update_conv'
      split: outcome.splits)

lemma triple_rename:
  "triple (\<lambda>d. d = D) (fs_rename source target)
     (\<lambda>_ d. \<exists>b. D source = Some b \<and> d = (D(source := None))(target \<mapsto> b))
     (\<lambda>d. d = D \<or> (\<exists>b. D source = Some b \<and> d = (D(source := None))(target \<mapsto> b)))"
  by (auto simp: triple_def fs_rename_def renamed_def operation_def files_def Let_def update_conv'
      delete_conv' split: outcome.splits option.splits)

lemma triple_remove:
  "triple (\<lambda>d. d = D) (fs_remove path) (\<lambda>_ d. d = D(path := None))
     (\<lambda>d. d = D \<or> d = D(path := None))"
  by (auto simp: triple_def fs_remove_def operation_def files_def Let_def delete_conv'
      split: outcome.splits)

lemma triple_list:
  "triple P (fs_list dir) (\<lambda>names d. P d \<and>
     (\<forall>path. d path \<noteq> None \<longrightarrow> (\<forall>name. child_name dir path = Some name \<longrightarrow> name \<in> set names))) P"
proof -
  have "name \<in> set (List.map_filter (\<lambda>(path, _). child_name dir path) fs)"
    if "map_of fs path = Some b" "child_name dir path = Some name" for fs path b name
    using map_of_SomeD[OF that(1)] that(2) by (force simp: map_filter_def)
  then show ?thesis
    by (auto simp: triple_def fs_list_def operation_def files_def Let_def split: outcome.splits)
qed

lemma triple_next_counter: "triple P next_counter (\<lambda>_. P) J"
  by (simp add: triple_def next_counter_def files_def)

end
