(* ===== verification/Publish.thy ===== *)
theory Publish
  imports Snapshot File_System
begin

text \<open>
  Transactional publication of a generation (\<open>crates/dsql-generate/src/publish.rs\<close>): the
  publication lock, atomic writes, the allocation of generation identities, the match lock, the
  publication itself and pruning, as programs over a file system that may fail or die at every
  operation.

  The libraries are the record \<open>publisher\<close>: the SHA-256 digest, the JSON form of a manifest, the
  YAML form of the match lock, the message of an invalid UTF-8 sequence, and the identity of the
  process. An \<open>io::Error\<close> in an error value is dropped; warnings on standard error are not
  represented.
\<close>

section \<open>Text of the standard library\<close>

text \<open>\<open>{byte:02x}\<close>.\<close>

definition hex_byte :: "char \<Rightarrow> string" where
  "hex_byte c = [hex_digit ((of_char c :: nat) div 16), hex_digit ((of_char c :: nat) mod 16)]"

text \<open>\<open>str::from_utf8\<close>: the well-formed sequences of Unicode.\<close>

definition in_range :: "nat \<Rightarrow> nat \<Rightarrow> char \<Rightarrow> bool" where
  "in_range lo hi c \<longleftrightarrow> lo \<le> of_char c \<and> (of_char c :: nat) \<le> hi"

definition sequence_width :: "string \<Rightarrow> nat option" where
  "sequence_width s = (case s of
      [] \<Rightarrow> None
    | a # s1 \<Rightarrow>
        if in_range 0 127 a then Some 1
        else (case s1 of
          [] \<Rightarrow> None
        | b # s2 \<Rightarrow>
            if in_range 194 223 a \<and> in_range 128 191 b then Some 2
            else (case s2 of
              [] \<Rightarrow> None
            | c # s3 \<Rightarrow>
                if ((in_range 224 224 a \<and> in_range 160 191 b) \<or> (in_range 225 236 a \<and> in_range 128 191 b)
                    \<or> (in_range 237 237 a \<and> in_range 128 159 b)
                    \<or> (in_range 238 239 a \<and> in_range 128 191 b)) \<and> in_range 128 191 c
                then Some 3
                else (case s3 of
                  [] \<Rightarrow> None
                | d # _ \<Rightarrow>
                    if ((in_range 240 240 a \<and> in_range 144 191 b)
                        \<or> (in_range 241 243 a \<and> in_range 128 191 b)
                        \<or> (in_range 244 244 a \<and> in_range 128 143 b))
                       \<and> in_range 128 191 c \<and> in_range 128 191 d
                    then Some 4 else None))))"

function utf8_valid :: "string \<Rightarrow> bool" where
  "utf8_valid s = (s = [] \<or> (case sequence_width s of None \<Rightarrow> False | Some n \<Rightarrow> utf8_valid (drop n s)))"
  by pat_completeness auto
termination utf8_valid
proof (relation "measure length", goal_cases)
  case (2 s n)
  then have "0 < n \<and> s \<noteq> []" by (auto simp: sequence_width_def split: list.splits if_splits)
  then show ?case by simp
qed simp

declare utf8_valid.simps [simp del]

text \<open>\<open>str::parse::<u64>\<close>.\<close>

definition parse_u64 :: "string \<Rightarrow> nat option" where
  "parse_u64 s =
     (case parse_digits (case s of c # r \<Rightarrow> if c = CHR ''+'' then r else s | [] \<Rightarrow> s) of
        None \<Rightarrow> None
      | Some n \<Rightarrow> if n < 2 ^ 64 then Some n else None)"

section \<open>Parameters and results\<close>

record publisher =
  pb_digest :: "string \<Rightarrow> string"
  pb_manifest_to_json :: "build_manifest \<Rightarrow> string + string"
  pb_manifest_from_json :: "string \<Rightarrow> string + build_manifest"
  pb_yaml :: yaml_codec
  pb_utf8_error :: "string \<Rightarrow> string"
  pb_process_id :: nat

definition sha256_hex :: "publisher \<Rightarrow> string \<Rightarrow> string" where
  "sha256_hex pb bytes = concat (map hex_byte (pb_digest pb bytes))"

datatype match_lock_mode = ModeUpdate | ModeLocked

record match_lock_status =
  mls_changed :: bool
  mls_content_hash :: "string option"

record published_generation =
  pg_generation_id :: nat
  pg_manifest_path :: string
  pg_manifest_json :: string
  pg_current_manifest_path :: string
  pg_written :: "string list"
  pg_filter_match_lock_hash :: "string option"
  pg_predecessor :: "nat option"

section \<open>The publication lock\<close>

definition lock_file :: string where "lock_file = ''.lock''"
definition lock_deadline :: nat where "lock_deadline = 3000"
definition lock_poll :: nat where "lock_poll = 50"

definition acquire_lock :: "string \<Rightarrow> (generate_error, unit) program" where
  "acquire_lock build_dir =
     pbind (map_err (\<lambda>_. GenWrite build_dir) fs_nothing) (\<lambda>_.
       map_err (\<lambda>_. GenWrite (path_join build_dir lock_file)) (fs_touch (path_join build_dir lock_file)))"

text \<open>
  The attempts to take the lock: what the \<open>k\<close>-th answers and the time, in milliseconds since the
  wait began, at which a failed attempt looks at the clock.
\<close>

datatype lock_answer = LockGranted | LockWouldBlock | LockError

record lock_attempts =
  la_answer :: "nat \<Rightarrow> lock_answer"
  la_time :: "nat \<Rightarrow> nat"

partial_function (option) wait_for_lock ::
  "lock_attempts \<Rightarrow> nat \<Rightarrow> string \<Rightarrow> nat \<Rightarrow> (generate_error + unit) option" where
  "wait_for_lock attempts wait lock_path k =
     (case la_answer attempts k of
        LockGranted \<Rightarrow> Some (Inr ())
      | LockError \<Rightarrow> Some (Inl (GenWrite lock_path))
      | LockWouldBlock \<Rightarrow>
          if wait \<le> la_time attempts k then Some (Inl GenPublicationLocked)
          else wait_for_lock attempts wait lock_path (Suc k))"

declare wait_for_lock.simps [code]

text \<open>\<open>None\<close> is a wait that never ends. The guard is dropped however the body ends.\<close>

definition with_publication_lock ::
  "lock_attempts \<Rightarrow> string \<Rightarrow> nat \<Rightarrow> (generate_error, 'a) program \<Rightarrow> environment \<Rightarrow> world
     \<Rightarrow> ((generate_error stop + 'a) \<times> world) option" where
  "with_publication_lock attempts build_dir wait body env w =
     (case acquire_lock build_dir env w of
        (Inl s, w) \<Rightarrow> Some (Inl s, w)
      | (Inr _, w) \<Rightarrow>
          (case wait_for_lock attempts wait (path_join build_dir lock_file) 0 of
             None \<Rightarrow> None
           | Some (Inl e) \<Rightarrow> Some (Inl (Raised e), w)
           | Some (Inr _) \<Rightarrow> Some (body env w)))"

section \<open>Atomic writes\<close>

definition temp_path :: "publisher \<Rightarrow> string \<Rightarrow> nat \<Rightarrow> string" where
  "temp_path pb path unique =
     parent_prefix path @ ''.'' @ file_name path @ ''.tmp-'' @ dec_string (pb_process_id pb)
       @ ''-'' @ dec_string unique"

definition sync_parent :: "(io_kind, unit) program" where
  "sync_parent = pbind fs_nothing (\<lambda>_. fs_nothing)"

text \<open>Create, write, flush, sync, rename, sync of the directory.\<close>

definition write_and_rename :: "string \<Rightarrow> string \<Rightarrow> string \<Rightarrow> (io_kind, unit) program" where
  "write_and_rename temp path content =
     pbind (fs_create_new temp) (\<lambda>_.
     pbind (fs_write_all temp content) (\<lambda>_.
     pbind fs_nothing (\<lambda>_.
     pbind fs_nothing (\<lambda>_.
     pbind (fs_rename temp path) (\<lambda>_.
       sync_parent)))))"

definition atomic_write :: "publisher \<Rightarrow> string \<Rightarrow> string \<Rightarrow> (generate_error, unit) program" where
  "atomic_write pb path content =
     pbind (map_err (\<lambda>_. GenWrite (butlast (parent_prefix path))) fs_nothing) (\<lambda>_.
     pbind next_counter (\<lambda>unique.
       let temp = temp_path pb path unique in
       phandle (write_and_rename temp path content)
         (\<lambda>_. pbind (ptry (fs_remove temp)) (\<lambda>_. praise (GenWrite path)))))"

section \<open>The generation on disk\<close>

text \<open>A missing, unreadable, malformed or foreign pointer counts as no current generation.\<close>

definition manifest_generation :: "publisher \<Rightarrow> string \<Rightarrow> nat option" where
  "manifest_generation pb raw =
     (if utf8_valid raw then
        (case pb_manifest_from_json pb raw of
           Inl _ \<Rightarrow> None
         | Inr manifest \<Rightarrow>
             if bm_version manifest = build_manifest_version then Some (bm_generation_id manifest)
             else None)
      else None)"

definition pointer_generation ::
  "publisher \<Rightarrow> string \<Rightarrow> (generate_error, nat option) program" where
  "pointer_generation pb build_dir =
     pbind (ptry (fs_read (path_join build_dir manifest_file))) (\<lambda>r.
       preturn (case r of Inl _ \<Rightarrow> None | Inr raw \<Rightarrow> manifest_generation pb raw))"

definition manifest_id :: "string \<Rightarrow> nat option" where
  "manifest_id name =
     (if utf8_valid name then
        (case strip_prefix name ''manifest.'' of
           None \<Rightarrow> None
         | Some rest \<Rightarrow>
             (case strip_suffix rest ''.json'' of None \<Rightarrow> None | Some digits \<Rightarrow> parse_u64 digits))
      else None)"

definition generation_ids_on_disk :: "string \<Rightarrow> (generate_error, nat list) program" where
  "generation_ids_on_disk build_dir =
     pbind (map_err (\<lambda>_. GenWrite build_dir) (fs_list build_dir)) (\<lambda>names.
       pfold (\<lambda>ids name.
           pbind (map_err (\<lambda>_. GenWrite build_dir) fs_nothing) (\<lambda>_.
             preturn (case manifest_id name of None \<Rightarrow> ids | Some i \<Rightarrow> ids @ [i]))) [] names)"

text \<open>The largest identity plus one, in 64 bits.\<close>

definition next_generation :: "nat list \<Rightarrow> nat option \<Rightarrow> generate_error + nat" where
  "next_generation ids predecessor =
     (let known = ids @ (case predecessor of None \<Rightarrow> [] | Some p \<Rightarrow> [p]);
          largest = (if known = [] then 0 else Max (set known))
      in if largest + 1 < 2 ^ 64 then Inr (largest + 1)
         else Inl (GenAssembly manifest_file ''generation counter overflow''))"

section \<open>The match lock\<close>

definition read_match_lock :: "string \<Rightarrow> (generate_error, string option) program" where
  "read_match_lock path =
     pbind (ptry (fs_read path)) (\<lambda>r.
       case r of
         Inr bytes \<Rightarrow> preturn (Some bytes)
       | Inl NotFound \<Rightarrow> preturn None
       | Inl OtherError \<Rightarrow> praise (GenIo path))"

definition newer_match_lock_version :: "publisher \<Rightarrow> string \<Rightarrow> nat option" where
  "newer_match_lock_version pb bytes =
     (if utf8_valid bytes then
        (case yaml_version (pb_yaml pb) bytes of
           None \<Rightarrow> None
         | Some version \<Rightarrow> if filter_match_lock_version < version then Some version else None)
      else None)"

text \<open>The \<open>Locked\<close> mode compares without touching any file.\<close>

definition check_locked ::
  "publisher \<Rightarrow> string \<Rightarrow> filter_match_lock \<Rightarrow> string option \<Rightarrow> generate_error + match_lock_status"
where
  "check_locked pb path desired existing =
     (if lock_is_empty desired then
        (case existing of
           None \<Rightarrow> Inr \<lparr>mls_changed = False, mls_content_hash = None\<rparr>
         | Some _ \<Rightarrow> Inl (GenMatchLock path (stale_match_lock_message None desired
             ''the lock file should be absent because the project has no effective filters'')))
      else
        (case existing of
           None \<Rightarrow> Inl (GenMatchLock path
             (stale_match_lock_message None desired ''the lock file is missing''))
         | Some raw \<Rightarrow>
             if \<not> utf8_valid raw then
               Inl (GenMatchLock path (''the lock is not UTF-8: '' @ pb_utf8_error pb raw @ [CHR 10]
                 @ ''run `dsql lock` to replace it''))
             else (case lock_from_yaml (pb_yaml pb) raw of
               Inl error \<Rightarrow> Inl (GenMatchLock path (''the lock is malformed: '' @ error @ [CHR 10]
                 @ ''run `dsql lock` to replace it''))
             | Inr current \<Rightarrow>
                 if current \<noteq> desired then
                   Inl (GenMatchLock path (stale_match_lock_message (Some current) desired
                     ''the accepted filter matches are stale''))
                 else Inr \<lparr>mls_changed = False, mls_content_hash = Some (sha256_hex pb raw)\<rparr>)))"

definition update_match_lock ::
  "publisher \<Rightarrow> string \<Rightarrow> filter_match_lock \<Rightarrow> string option
     \<Rightarrow> (generate_error, match_lock_status) program" where
  "update_match_lock pb path desired existing =
     (if lock_is_empty desired then
        (case existing of
           None \<Rightarrow> preturn \<lparr>mls_changed = False, mls_content_hash = None\<rparr>
         | Some _ \<Rightarrow>
             pbind (map_err (\<lambda>_. GenWrite path) (fs_remove path)) (\<lambda>_.
             pbind (map_err (\<lambda>_. GenWrite path) sync_parent) (\<lambda>_.
               preturn \<lparr>mls_changed = True, mls_content_hash = None\<rparr>)))
      else
        pbind (plift (case lock_to_yaml (pb_yaml pb) desired of
                 Inl message \<Rightarrow> Inl (GenSerialize path message) | Inr s \<Rightarrow> Inr s)) (\<lambda>serialized.
        let changed = (existing \<noteq> Some serialized) in
        pbind (if changed then atomic_write pb path serialized else preturn ()) (\<lambda>_.
          preturn \<lparr>mls_changed = changed, mls_content_hash = Some (sha256_hex pb serialized)\<rparr>)))"

definition reconcile_match_lock_inner ::
  "publisher \<Rightarrow> string \<Rightarrow> filter_match_lock \<Rightarrow> match_lock_mode
     \<Rightarrow> (generate_error, match_lock_status) program" where
  "reconcile_match_lock_inner pb path desired mode =
     (if fml_version desired \<noteq> filter_match_lock_version then
        praise (GenInternal (''assembled filter match lock has unsupported version ''
          @ dec_string (fml_version desired)))
      else
        pbind (read_match_lock path) (\<lambda>existing.
          case (case existing of None \<Rightarrow> None | Some bytes \<Rightarrow> newer_match_lock_version pb bytes) of
            Some version \<Rightarrow> praise (GenMatchLock path (''version '' @ dec_string version
                @ '' is newer than supported version '' @ dec_string filter_match_lock_version
                @ ''; refusing to overwrite it''))
          | None \<Rightarrow>
              (case mode of
                 ModeUpdate \<Rightarrow> update_match_lock pb path desired existing
               | ModeLocked \<Rightarrow> plift (check_locked pb path desired existing))))"

definition reconcile_match_lock ::
  "publisher \<Rightarrow> lock_attempts \<Rightarrow> string \<Rightarrow> string \<Rightarrow> filter_match_lock \<Rightarrow> match_lock_mode
     \<Rightarrow> environment \<Rightarrow> world \<Rightarrow> ((generate_error stop + match_lock_status) \<times> world) option" where
  "reconcile_match_lock pb attempts build_dir path desired mode =
     with_publication_lock attempts build_dir lock_deadline
       (reconcile_match_lock_inner pb path desired mode)"

section \<open>Publication\<close>

definition manifest_entry_of :: "snapshot_artifact \<Rightarrow> manifest_entry" where
  "manifest_entry_of a = \<lparr>me_name = sa_name a, me_kind = sa_kind a,
     me_path = artifact_file_name (sa_family a) (sa_name a) (sa_hash a),
     me_hash = sa_hash a, me_source = sa_source a\<rparr>"

definition manifest_for :: "generation_snapshot \<Rightarrow> nat \<Rightarrow> build_manifest" where
  "manifest_for snapshot generation_id =
     \<lparr>bm_version = build_manifest_version, bm_generation_id = generation_id,
      bm_operations = map manifest_entry_of
        (filter (\<lambda>a. sa_family a = FamilyOperation) (gs_artifacts snapshot)),
      bm_fragments = map manifest_entry_of
        (filter (\<lambda>a. sa_family a = FamilyFragment) (gs_artifacts snapshot))\<rparr>"

text \<open>Only an absent file is written; different bytes at the address are an error.\<close>

definition publish_artifact ::
  "publisher \<Rightarrow> string \<Rightarrow> string list \<Rightarrow> snapshot_artifact \<Rightarrow> (generate_error, string list) program"
where
  "publish_artifact pb build_dir written a =
     (let relative = artifact_file_name (sa_family a) (sa_name a) (sa_hash a);
          path = path_join build_dir relative
      in pbind (ptry (fs_read path)) (\<lambda>r.
         case r of
           Inr existing \<Rightarrow>
             if existing = sa_serialized a then preturn written
             else praise (GenAddressCollision relative (sa_id a))
         | Inl OtherError \<Rightarrow> praise (GenWrite path)
         | Inl NotFound \<Rightarrow>
             pbind (atomic_write pb path (sa_serialized a)) (\<lambda>_. preturn (written @ [path]))))"

definition commit_generation ::
  "publisher \<Rightarrow> string \<Rightarrow> generation_snapshot \<Rightarrow> match_lock_status \<Rightarrow> nat option \<Rightarrow> nat
     \<Rightarrow> string list \<Rightarrow> (generate_error, published_generation) program" where
  "commit_generation pb build_dir snapshot status predecessor generation_id written =
     pbind (plift (case pb_manifest_to_json pb (manifest_for snapshot generation_id) of
              Inl message \<Rightarrow> Inl (GenSerialize manifest_file message)
            | Inr s \<Rightarrow> Inr s)) (\<lambda>serialized.
     let manifest_path = path_join build_dir (generation_manifest_file generation_id);
         current_path = path_join build_dir manifest_file
     in
     pbind (fs_exists manifest_path) (\<lambda>taken.
     if taken then
       praise (GenAddressCollision (generation_manifest_file generation_id)
         (''generation '' @ dec_string generation_id))
     else
     pbind (atomic_write pb manifest_path serialized) (\<lambda>_.
     pbind (atomic_write pb current_path serialized) (\<lambda>_.
       preturn \<lparr>pg_generation_id = generation_id, pg_manifest_path = manifest_path,
         pg_manifest_json = serialized, pg_current_manifest_path = current_path,
         pg_written = written @ [manifest_path],
         pg_filter_match_lock_hash = mls_content_hash status, pg_predecessor = predecessor\<rparr>))))"

definition publish_locked ::
  "publisher \<Rightarrow> string \<Rightarrow> string \<Rightarrow> generation_snapshot \<Rightarrow> match_lock_mode
     \<Rightarrow> (generate_error, published_generation) program" where
  "publish_locked pb build_dir match_lock_path snapshot mode =
     pbind (reconcile_match_lock_inner pb match_lock_path (gs_filter_match_lock snapshot) mode)
       (\<lambda>status.
     pbind (pointer_generation pb build_dir) (\<lambda>predecessor.
     pbind (generation_ids_on_disk build_dir) (\<lambda>ids.
     pbind (plift (next_generation ids predecessor)) (\<lambda>generation_id.
     pbind (pfold (publish_artifact pb build_dir) [] (gs_artifacts snapshot)) (\<lambda>written.
       commit_generation pb build_dir snapshot status predecessor generation_id written)))))"

definition publish_with_deadline ::
  "publisher \<Rightarrow> lock_attempts \<Rightarrow> string \<Rightarrow> string \<Rightarrow> generation_snapshot \<Rightarrow> match_lock_mode \<Rightarrow> nat
     \<Rightarrow> environment \<Rightarrow> world \<Rightarrow> ((generate_error stop + published_generation) \<times> world) option" where
  "publish_with_deadline pb attempts build_dir match_lock_path snapshot mode wait =
     with_publication_lock attempts build_dir wait
       (publish_locked pb build_dir match_lock_path snapshot mode)"

definition publish ::
  "publisher \<Rightarrow> lock_attempts \<Rightarrow> string \<Rightarrow> string \<Rightarrow> generation_snapshot \<Rightarrow> match_lock_mode
     \<Rightarrow> environment \<Rightarrow> world \<Rightarrow> ((generate_error stop + published_generation) \<times> world) option" where
  "publish pb attempts build_dir match_lock_path snapshot mode =
     publish_with_deadline pb attempts build_dir match_lock_path snapshot mode lock_deadline"

section \<open>Pruning\<close>

text \<open>A failure that is only reported.\<close>

definition best_effort :: "('e, 'a) program \<Rightarrow> ('f, unit) program" where
  "best_effort c = pbind (ptry c) (\<lambda>_. preturn ())"

definition manifest_paths :: "build_manifest \<Rightarrow> string list" where
  "manifest_paths m = map me_path (bm_operations m) @ map me_path (bm_fragments m)"

definition retain_manifest :: "publisher \<Rightarrow> string \<Rightarrow> nat \<Rightarrow> (generate_error, string list) program" where
  "retain_manifest pb build_dir i =
     (let path = path_join build_dir (generation_manifest_file i) in
      pbind (map_err (\<lambda>_. GenWrite path) (fs_read path)) (\<lambda>raw.
      if \<not> utf8_valid raw then praise (GenWrite path)
      else (case pb_manifest_from_json pb raw of
        Inl message \<Rightarrow> praise (GenSerialize path message)
      | Inr manifest \<Rightarrow> preturn (manifest_paths manifest))))"

definition prune_manifest :: "string \<Rightarrow> published_generation \<Rightarrow> unit \<Rightarrow> nat \<Rightarrow> ('e, unit) program" where
  "prune_manifest build_dir published u i =
     (if Some i \<noteq> pg_predecessor published \<and> i \<noteq> pg_generation_id published
      then best_effort (fs_remove (path_join build_dir (generation_manifest_file i)))
      else preturn ())"

text \<open>An entry that cannot be read is left out.\<close>

definition prune_entry :: "string \<Rightarrow> string list \<Rightarrow> string \<Rightarrow> unit \<Rightarrow> string \<Rightarrow> ('e, unit) program" where
  "prune_entry build_dir retained family u name =
     pbind (ptry fs_nothing) (\<lambda>r.
       case r of
         Inl _ \<Rightarrow> preturn ()
       | Inr _ \<Rightarrow>
           if \<not> utf8_valid name \<or> starts_with name ''.'' then preturn ()
           else
             let relative = family @ ''/'' @ name in
             if relative \<in> set retained then preturn ()
             else best_effort (fs_remove (path_join build_dir relative)))"

definition prune_family :: "string \<Rightarrow> string list \<Rightarrow> unit \<Rightarrow> string \<Rightarrow> ('e, unit) program" where
  "prune_family build_dir retained u family =
     pbind (ptry (fs_list (path_join build_dir family))) (\<lambda>r.
       case r of
         Inl _ \<Rightarrow> preturn ()
       | Inr names \<Rightarrow> pfold (prune_entry build_dir retained family) () names)"

definition prune_locked ::
  "publisher \<Rightarrow> string \<Rightarrow> published_generation \<Rightarrow> (generate_error, unit) program" where
  "prune_locked pb build_dir published =
     pbind (pointer_generation pb build_dir) (\<lambda>current.
     if current \<noteq> Some (pg_generation_id published) then preturn ()
     else
       pbind (retain_manifest pb build_dir (pg_generation_id published)) (\<lambda>kept.
       pbind (case pg_predecessor published of
                None \<Rightarrow> preturn []
              | Some p \<Rightarrow> retain_manifest pb build_dir p) (\<lambda>kept'.
       pbind (generation_ids_on_disk build_dir) (\<lambda>ids.
       pbind (pfold (prune_manifest build_dir published) () ids) (\<lambda>_.
         pfold (prune_family build_dir (kept @ kept')) () [''operations'', ''fragments''])))))"

text \<open>The outcome is only reported, so pruning returns whatever happened.\<close>

definition prune ::
  "publisher \<Rightarrow> lock_attempts \<Rightarrow> string \<Rightarrow> published_generation \<Rightarrow> environment \<Rightarrow> world
     \<Rightarrow> world option" where
  "prune pb attempts build_dir published env w =
     map_option snd (with_publication_lock attempts build_dir lock_deadline
       (prune_locked pb build_dir published) env w)"

end
