(* ===== verification/Publish_Correct.thy ===== *)
theory Publish_Correct
  imports Publish
begin

text \<open>
  What publication guarantees whatever fails and wherever a process dies: the pointer always names
  a complete generation, a publication replaces it in one step or not at all, identities of
  committed generations only grow, and pruning keeps what the current generation and its
  predecessor refer to.
\<close>

section \<open>Paths\<close>

text \<open>
  Names that begin with a dot are temporary files and the lock file; the other paths are visible.
\<close>

definition hidden :: "string \<Rightarrow> bool" where
  "hidden path \<longleftrightarrow> starts_with (file_name path) ''.''"

definition visible :: "file_map \<Rightarrow> file_map" where
  "visible d = (\<lambda>path. if hidden path then None else d path)"

lemma visible_hidden_update [simp]: "hidden path \<Longrightarrow> visible (d(path := x)) = visible d"
  by (auto simp: visible_def)

lemma visible_update [simp]: "\<not> hidden path \<Longrightarrow> visible (d(path := x)) = (visible d)(path := x)"
  by (auto simp: visible_def)

lemma visible_apply: "\<not> hidden path \<Longrightarrow> visible d path = d path"
  by (simp add: visible_def)

lemma file_name_join:
  assumes "CHR ''/'' \<notin> set name"
  shows "file_name (path_join dir name) = name"
proof -
  have "takeWhile (\<lambda>c. c \<noteq> CHR ''/'') (rev name @ CHR ''/'' # rev dir) = rev name"
    using assms by (subst takeWhile_append2) auto
  then show ?thesis by (simp add: file_name_def path_join_def)
qed

lemma file_name_no_slash: "CHR ''/'' \<notin> set (file_name path)"
  by (auto simp: file_name_def dest: set_takeWhileD)

lemma parent_prefix_file_name: "path = parent_prefix path @ file_name path"
proof -
  have "file_name path = rev (take (length (file_name path)) (rev path))"
    unfolding file_name_def by (simp add: takeWhile_eq_take[symmetric])
  then have "file_name path = drop (length path - length (file_name path)) path"
    by (simp add: rev_take)
  then show ?thesis by (metis append_take_drop_id parent_prefix_def)
qed

lemma parent_prefix_end: "parent_prefix path = [] \<or> last (parent_prefix path) = CHR ''/''"
proof -
  let ?q = "\<lambda>c. c \<noteq> CHR ''/''"
  have "path = rev (dropWhile ?q (rev path)) @ file_name path"
    by (metis file_name_def rev_append rev_rev_ident takeWhile_dropWhile_id)
  with parent_prefix_file_name[of path] have "parent_prefix path = rev (dropWhile ?q (rev path))"
    by (metis append_same_eq)
  moreover have "dropWhile ?q (rev path) = [] \<or> hd (dropWhile ?q (rev path)) = CHR ''/''"
    using hd_dropWhile by blast
  ultimately show ?thesis by (auto simp: last_rev)
qed

lemma digit_chars: "list_all (\<lambda>d. digit_char d \<in> set ''0123456789'') [0..<10]"
  by code_simp

lemma dec_string_digits: "set (dec_string n) \<subseteq> set ''0123456789''"
proof (induction n rule: dec_string.induct)
  case (1 n)
  have digit: "digit_char d \<in> set ''0123456789''" if "d < 10" for d
    using digit_chars that unfolding list_all_iff by auto
  show ?case
  proof (cases "n < 10")
    case True
    then show ?thesis using digit[of n] by (subst dec_string.simps) simp
  next
    case False
    then show ?thesis using 1 digit[of "n mod 10"] by (subst dec_string.simps) auto
  qed
qed

lemma dec_string_plain: "CHR ''/'' \<notin> set (dec_string n)" "CHR ''.'' \<notin> set (dec_string n)"
  using dec_string_digits[of n] by auto

lemma temp_path_hidden: "hidden (temp_path pb path unique)"
proof -
  let ?name = "''.'' @ file_name path @ ''.tmp-'' @ dec_string (pb_process_id pb) @ ''-'' @ dec_string unique"
  have "CHR ''/'' \<notin> set ?name" using file_name_no_slash dec_string_plain by simp
  then have "file_name (temp_path pb path unique) = ?name"
  proof (cases "parent_prefix path = []")
    case True
    have "takeWhile (\<lambda>c. c \<noteq> CHR ''/'') (rev ?name) = rev ?name"
      using \<open>CHR ''/'' \<notin> set ?name\<close> by (subst takeWhile_eq_all_conv) auto
    with True show ?thesis by (simp add: temp_path_def file_name_def)
  next
    case False
    with parent_prefix_end[of path] obtain dir where "parent_prefix path = dir @ ''/''"
      by (metis append_butlast_last_id)
    with file_name_join[OF \<open>CHR ''/'' \<notin> set ?name\<close>, of dir] show ?thesis
      by (simp add: temp_path_def path_join_def)
  qed
  then show ?thesis by (simp add: hidden_def)
qed

section \<open>Atomic writes\<close>

lemma write_and_rename_triple:
  assumes "hidden temp" and "\<not> hidden path"
  shows "triple (\<lambda>d. visible d = V) (write_and_rename temp path content)
     (\<lambda>_ d. visible d = V(path \<mapsto> content)) (\<lambda>d. visible d = V \<or> visible d = V(path \<mapsto> content))"
proof -
  let ?ok = "\<lambda>(_ :: unit) d. visible d = V(path \<mapsto> content)"
  let ?stop = "\<lambda>d. visible d = V \<or> visible d = V(path \<mapsto> content)"
  have create: "triple (\<lambda>d. visible d = V) (fs_create_new temp)
      (\<lambda>_ d. visible d = V) ?stop"
    by (rule triple_pre, rule triple_mono[OF triple_create_new]) (auto simp: assms)
  have written: "triple (\<lambda>d. visible d = V) (fs_write_all temp content)
      (\<lambda>_ d. visible d = V \<and> d temp = Some content) ?stop"
    by (rule triple_pre, rule triple_mono[OF triple_write_all]) (auto simp: assms)
  have rename: "triple (\<lambda>d. visible d = V \<and> d temp = Some content) (fs_rename temp path) ?ok ?stop"
    by (rule triple_pre, rule triple_mono[OF triple_rename]) (auto simp: assms)
  have frame: "triple P fs_nothing (\<lambda>_. P) ?stop" if "\<And>d. P d \<Longrightarrow> ?stop d" for P
    by (rule triple_mono[OF triple_nothing[of P]]) (use that in auto)
  have sync: "triple (?ok ()) sync_parent ?ok ?stop"
    unfolding sync_parent_def
    by (rule triple_bind[where R = ?ok]; rule triple_mono[OF frame[where P = "?ok ()"]]) auto
  show ?thesis
    unfolding write_and_rename_def
    by (rule triple_bind[OF create], rule triple_bind[OF written],
        rule triple_bind[OF frame], simp, rule triple_bind[OF frame], simp,
        rule triple_bind[OF rename], rule sync)
qed

text \<open>An atomic write replaces the target as a whole or leaves everything visible as it was.\<close>

lemma atomic_write_triple:
  assumes "\<not> hidden path"
  shows "triple (\<lambda>d. visible d = V) (atomic_write pb path content)
     (\<lambda>_ d. visible d = V(path \<mapsto> content)) (\<lambda>d. visible d = V \<or> visible d = V(path \<mapsto> content))"
proof -
  let ?stop = "\<lambda>d. visible d = V \<or> visible d = V(path \<mapsto> content)"
  have remove: "triple ?stop (ptry (fs_remove temp)) (\<lambda>_. ?stop) ?stop" if "hidden temp" for temp
    unfolding ptry_def
    by (rule triple_handle[where E = ?stop], rule triple_bind[where R = "\<lambda>_. ?stop"],
        rule triple_pre, rule triple_mono[OF triple_remove])
       (auto simp: that intro!: triple_return)
  have handler: "triple ?stop
      (pbind (ptry (fs_remove temp)) (\<lambda>_. praise (GenWrite path) :: (generate_error, unit) program))
      (\<lambda>_ d. visible d = V(path \<mapsto> content)) ?stop" if "hidden temp" for temp
    by (rule triple_bind[OF remove[OF that]]) (auto intro: triple_raise)
  show ?thesis
    unfolding atomic_write_def Let_def
    apply (rule triple_bind[where R = "\<lambda>_ d. visible d = V"])
     apply (rule triple_map_err, rule triple_mono[OF triple_nothing[of "\<lambda>d. visible d = V"]], auto)[1]
    apply (rule triple_bind[where R = "\<lambda>_ d. visible d = V"])
     apply (rule triple_next_counter)
    apply (rule triple_handle[OF write_and_rename_triple[OF temp_path_hidden assms]])
     apply (rule handler[OF temp_path_hidden])
    apply assumption
    done
qed

section \<open>The paths of a build tree\<close>

abbreviation pointer_path :: "string \<Rightarrow> string" where
  "pointer_path build_dir \<equiv> path_join build_dir manifest_file"

abbreviation manifest_path_of :: "string \<Rightarrow> nat \<Rightarrow> string" where
  "manifest_path_of build_dir i \<equiv> path_join build_dir (generation_manifest_file i)"

abbreviation artifact_path :: "string \<Rightarrow> snapshot_artifact \<Rightarrow> string" where
  "artifact_path build_dir a \<equiv>
     path_join build_dir (artifact_file_name (sa_family a) (sa_name a) (sa_hash a))"

text \<open>The match lock is a visible file outside the build directory.\<close>

definition lock_apart :: "string \<Rightarrow> string \<Rightarrow> bool" where
  "lock_apart build_dir lock_path \<longleftrightarrow>
     \<not> hidden lock_path \<and> \<not> starts_with lock_path (build_dir @ ''/'')"

text \<open>What assembly guarantees of the artifacts: the hash is that of the serialized text.\<close>

definition hashes_ok :: "publisher \<Rightarrow> generation_snapshot \<Rightarrow> bool" where
  "hashes_ok pb snapshot \<longleftrightarrow>
     list_all (\<lambda>a. sa_hash a = sha256_hex pb (sa_serialized a)) (gs_artifacts snapshot)"

lemma path_join_inject [simp]: "path_join dir x = path_join dir y \<longleftrightarrow> x = y"
  by (simp add: path_join_def)

lemma lock_apart_join: "lock_apart build_dir lock_path \<Longrightarrow> path_join build_dir x \<noteq> lock_path"
  by (auto simp: lock_apart_def path_join_def starts_with_iff)

lemma hex_digit_chars: "list_all (\<lambda>n. hex_digit n \<noteq> CHR ''/'') [0..<16]"
  by code_simp

lemma hex_no_slash: "CHR ''/'' \<notin> set (sha256_hex pb bytes)"
proof -
  have "hex_digit n \<noteq> CHR ''/''" if "n < 16" for n
    using hex_digit_chars that unfolding list_all_iff by auto
  moreover have "(of_char c :: nat) div 16 < 16" "(of_char c :: nat) mod 16 < 16" for c
    using nat_of_char_less_256[of c] by (auto simp del: nat_of_char_less_256)
  ultimately have "CHR ''/'' \<notin> set (hex_byte c)" for c
    unfolding hex_byte_def by (metis empty_iff empty_set set_ConsD)
  then show ?thesis by (simp add: sha256_hex_def)
qed

lemma artifact_directory_cases:
  "artifact_directory f = ''operations'' \<or> artifact_directory f = ''fragments''"
  by (cases f) simp_all

lemma artifact_not_manifest:
  "artifact_file_name f name hash \<noteq> generation_manifest_file i"
  "artifact_file_name f name hash \<noteq> manifest_file"
  using artifact_directory_cases[of f]
  by (auto simp: artifact_file_name_def generation_manifest_file_def manifest_file_def)

lemma generation_manifest_not_pointer: "generation_manifest_file i \<noteq> manifest_file"
proof
  assume "generation_manifest_file i = manifest_file"
  then have "dec_string i @ ''.json'' = ''json''"
    by (simp add: generation_manifest_file_def manifest_file_def)
  then have "length (dec_string i @ ''.json'') = length ''json''" by (rule arg_cong)
  then show False by simp
qed

lemma generation_manifest_inject [simp]:
  "generation_manifest_file i = generation_manifest_file j \<longleftrightarrow> i = j"
  by (simp add: generation_manifest_file_def)

lemma manifest_visible:
  "\<not> hidden (manifest_path_of build_dir i)" "\<not> hidden (pointer_path build_dir)"
proof -
  have "CHR ''/'' \<notin> set (generation_manifest_file i)" "CHR ''/'' \<notin> set manifest_file"
    using dec_string_plain by (simp_all add: generation_manifest_file_def manifest_file_def)
  from this[THEN file_name_join]
  show "\<not> hidden (manifest_path_of build_dir i)" "\<not> hidden (pointer_path build_dir)"
    by (simp_all add: hidden_def generation_manifest_file_def manifest_file_def)
qed

lemma artifact_name_visible:
  assumes "CHR ''/'' \<notin> set hash"
  shows "\<not> hidden (path_join build_dir (artifact_file_name f name hash))"
proof -
  let ?name = "artifact_file_stem name @ ''.'' @ artifact_address hash @ ''.json''"
  have "CHR ''/'' \<notin> set (artifact_address hash)"
    using assms by (auto simp: artifact_address_def dest: in_set_takeD)
  then have "CHR ''/'' \<notin> set ?name" by (simp add: dot_slash_not_stem)
  moreover have "path_join build_dir (artifact_file_name f name hash)
      = path_join (path_join build_dir (artifact_directory f)) ?name"
    by (simp add: path_join_def artifact_file_name_def)
  ultimately have "file_name (path_join build_dir (artifact_file_name f name hash)) = ?name"
    by (metis file_name_join)
  moreover have "hd ?name \<noteq> CHR ''.''" "?name \<noteq> []"
    using stem_nonempty[of name] dot_slash_not_stem(1)[of name]
    by (cases "artifact_file_stem name"; auto)+
  ultimately show ?thesis
    by (cases ?name) (auto simp: hidden_def)
qed

lemma artifact_visible:
  "hashes_ok pb snapshot \<Longrightarrow> a \<in> set (gs_artifacts snapshot) \<Longrightarrow>
     \<not> hidden (artifact_path build_dir a)"
  using hex_no_slash by (intro artifact_name_visible) (auto simp: hashes_ok_def list_all_iff)

lemma path_not_hidden_file: "\<not> hidden path \<Longrightarrow> hidden path' \<Longrightarrow> path \<noteq> path'"
  by blast

text \<open>Generation identities read back from the names of their manifests.\<close>

lemma parse_u64_dec: "i < 2 ^ 64 \<Longrightarrow> parse_u64 (dec_string i) = Some i"
proof -
  assume i: "i < 2 ^ 64"
  have digits: "list_all is_digit (dec_string i)"
    using dec_string_digits[of i] unfolding list_all_iff is_digit_def by blast
  then have "is_digit (hd (dec_string i))"
    using dec_string_nonempty[of i] by (cases "dec_string i") simp_all
  moreover have "\<not> is_digit CHR ''+''" by code_simp
  ultimately have "hd (dec_string i) \<noteq> CHR ''+''" by metis
  then have "(case dec_string i of c # r \<Rightarrow> if c = CHR ''+'' then r else dec_string i
      | [] \<Rightarrow> dec_string i) = dec_string i"
    by (cases "dec_string i") simp_all
  with i digits show ?thesis by (simp add: parse_u64_def parse_digits_def)
qed

lemma utf8_valid_ascii: "list_all (\<lambda>c. (of_char c :: nat) < 128) s \<Longrightarrow> utf8_valid s"
proof (induction s)
  case Nil
  then show ?case by (simp add: utf8_valid.simps)
next
  case (Cons c s)
  then have "sequence_width (c # s) = Some 1" by (simp add: sequence_width_def in_range_def)
  with Cons show ?case by (subst utf8_valid.simps) simp
qed

lemma ascii_digits: "list_all (\<lambda>c. (of_char c :: nat) < 128) ''0123456789''"
  by code_simp

lemma manifest_id_file:
  assumes "i < 2 ^ 64"
  shows "manifest_id (generation_manifest_file i) = Some i"
proof -
  have "list_all (\<lambda>c. (of_char c :: nat) < 128) (dec_string i)"
    using ascii_digits dec_string_digits[of i] unfolding list_all_iff by blast
  moreover have "list_all (\<lambda>c. (of_char c :: nat) < 128) ''manifest.''"
    "list_all (\<lambda>c. (of_char c :: nat) < 128) ''.json''" by code_simp+
  ultimately have "utf8_valid (generation_manifest_file i)"
    unfolding generation_manifest_file_def by (intro utf8_valid_ascii) (simp only: list_all_append)
  moreover have "strip_prefix (generation_manifest_file i) ''manifest.'' = Some (dec_string i @ ''.json'')"
    by (simp add: strip_prefix_def generation_manifest_file_def)
  ultimately show ?thesis
    using parse_u64_dec[OF assms] unfolding manifest_id_def
    by (simp only: if_True option.case strip_suffix_append)
qed

lemma child_name_file:
  assumes "CHR ''/'' \<notin> set name" and "name \<noteq> []"
  shows "child_name dir (path_join dir name) = Some name"
proof -
  have "strip_prefix (path_join dir name) (dir @ ''/'') = Some name"
    by (simp add: strip_prefix_def path_join_def starts_with_iff)
  with assms show ?thesis by (simp add: child_name_def)
qed

lemma generation_manifest_child:
  "child_name dir (manifest_path_of dir i) = Some (generation_manifest_file i)"
  by (rule child_name_file) (use dec_string_plain in \<open>simp_all add: generation_manifest_file_def\<close>)

text \<open>The scan finds the identity of every manifest on disk.\<close>

lemma generation_ids_triple:
  "triple P (generation_ids_on_disk build_dir)
     (\<lambda>ids d. P d \<and> (\<forall>i < 2 ^ 64. d (manifest_path_of build_dir i) \<noteq> None \<longrightarrow> i \<in> set ids)) P"
proof -
  let ?R = "\<lambda>names d. P d \<and> (\<forall>path. d path \<noteq> None \<longrightarrow>
      (\<forall>name. child_name build_dir path = Some name \<longrightarrow> name \<in> set names))"
  have scan: "triple (\<lambda>d. ?R (seen @ names) d \<and> (\<forall>name \<in> set seen. \<forall>i. manifest_id name = Some i \<longrightarrow> i \<in> set ids))
      (pfold (\<lambda>ids name. pbind (map_err (\<lambda>_. GenWrite build_dir) fs_nothing) (\<lambda>_.
         preturn (case manifest_id name of None \<Rightarrow> ids | Some i \<Rightarrow> ids @ [i]))) ids names)
      (\<lambda>ids d. ?R (seen @ names) d
         \<and> (\<forall>name \<in> set (seen @ names). \<forall>i. manifest_id name = Some i \<longrightarrow> i \<in> set ids)) P"
    for seen names ids
  proof (induction names arbitrary: seen ids)
    case Nil
    then show ?case by (auto intro: triple_return)
  next
    case (Cons name names)
    let ?I = "\<lambda>d. ?R (seen @ name # names) d
        \<and> (\<forall>n \<in> set seen. \<forall>i. manifest_id n = Some i \<longrightarrow> i \<in> set ids)"
    let ?N = "\<lambda>ids' d. ?R ((seen @ [name]) @ names) d
        \<and> (\<forall>n \<in> set (seen @ [name]). \<forall>i. manifest_id n = Some i \<longrightarrow> i \<in> set ids')"
    have entry: "triple ?I (map_err (\<lambda>_. GenWrite build_dir) fs_nothing) (\<lambda>_. ?I) P"
      by (rule triple_map_err, rule triple_mono[OF triple_nothing[of ?I]]) auto
    have one: "triple ?I (pbind (map_err (\<lambda>_. GenWrite build_dir) fs_nothing) (\<lambda>_.
         preturn (case manifest_id name of None \<Rightarrow> ids | Some i \<Rightarrow> ids @ [i]))) ?N P"
      by (rule triple_bind[OF entry]) (auto intro!: triple_return split: option.splits)
    show ?case
      unfolding pfold.simps
      by (rule triple_bind[OF one]) (use Cons.IH[of "seen @ [name]"] in simp)
  qed
  show ?thesis
    unfolding generation_ids_on_disk_def
  proof (rule triple_bind[where R = ?R])
    show "triple P (map_err (\<lambda>_. GenWrite build_dir) (fs_list build_dir)) ?R P"
      by (rule triple_map_err, rule triple_list)
    fix names
    show "triple (?R names)
        (pfold (\<lambda>ids name. pbind (map_err (\<lambda>_. GenWrite build_dir) fs_nothing) (\<lambda>_.
           preturn (case manifest_id name of None \<Rightarrow> ids | Some i \<Rightarrow> ids @ [i]))) [] names)
        (\<lambda>ids d. P d \<and> (\<forall>i < 2 ^ 64. d (manifest_path_of build_dir i) \<noteq> None \<longrightarrow> i \<in> set ids)) P"
    proof (rule triple_mono[OF scan[of "[]" names "[]"]])
      fix ids d
      assume d: "?R ([] @ names) d
        \<and> (\<forall>name \<in> set ([] @ names). \<forall>i. manifest_id name = Some i \<longrightarrow> i \<in> set ids)"
      have "i \<in> set ids" if "i < 2 ^ 64" "d (manifest_path_of build_dir i) \<noteq> None" for i
        using d that(2) manifest_id_file[OF that(1)] generation_manifest_child[of build_dir i]
        by (metis append_Nil)
      with d show "P d \<and> (\<forall>i < 2 ^ 64. d (manifest_path_of build_dir i) \<noteq> None \<longrightarrow> i \<in> set ids)"
        by blast
    qed simp_all
  qed
qed

section \<open>What a publication may change\<close>

text \<open>
  Before its commit a publication only adds files, and only where nothing was; the pointer stays,
  and only the match lock may be replaced.
\<close>

definition kept :: "string \<Rightarrow> string \<Rightarrow> file_map \<Rightarrow> file_map \<Rightarrow> bool" where
  "kept build_dir lock_path V V' \<longleftrightarrow>
     (\<forall>p. p \<noteq> lock_path \<and> V p \<noteq> None \<longrightarrow> V' p = V p)
     \<and> V' (pointer_path build_dir) = V (pointer_path build_dir)"

text \<open>No manifest has been added yet.\<close>

definition same_manifests :: "string \<Rightarrow> file_map \<Rightarrow> file_map \<Rightarrow> bool" where
  "same_manifests build_dir V V' \<longleftrightarrow>
     (\<forall>i. V' (manifest_path_of build_dir i) = V (manifest_path_of build_dir i))"

lemma kept_refl [simp]: "kept build_dir lock_path V V" "same_manifests build_dir V V"
  by (simp_all add: kept_def same_manifests_def)

lemma kept_lock:
  assumes "lock_apart build_dir lock_path" and "kept build_dir lock_path V V'"
  shows "kept build_dir lock_path V (V'(lock_path := x))"
    and "same_manifests build_dir V V' \<Longrightarrow> same_manifests build_dir V (V'(lock_path := x))"
  using assms by (auto simp: kept_def same_manifests_def lock_apart_join)

lemma kept_new:
  assumes "kept build_dir lock_path V V'" and "V' path = None" and "path \<noteq> pointer_path build_dir"
    and "path \<noteq> lock_path"
  shows "kept build_dir lock_path V (V'(path \<mapsto> x))"
  using assms by (auto simp: kept_def)

lemma triple_weaken_stop: "triple P c Q J \<Longrightarrow> (\<And>d. J d \<Longrightarrow> J' d) \<Longrightarrow> triple P c Q J'"
  by (erule triple_mono) auto

text \<open>Programs that only read keep every condition.\<close>

lemma read_match_lock_triple: "triple P (read_match_lock path) (\<lambda>_. P) P"
  unfolding read_match_lock_def
  by (rule triple_bind[OF triple_try_read])
     (auto intro: triple_return triple_raise split: sum.splits io_kind.splits)

lemma pointer_generation_triple:
  "triple P (pointer_generation pb build_dir) (\<lambda>r d. P d \<and>
     (\<forall>i. r = Some i \<longrightarrow> (\<exists>raw. d (pointer_path build_dir) = Some raw \<and> manifest_generation pb raw = Some i))) P"
  unfolding pointer_generation_def
  by (rule triple_bind[OF triple_try_read]) (auto intro!: triple_return split: sum.splits)

lemma reconcile_triple:
  assumes "lock_apart build_dir lock_path"
  shows "triple (\<lambda>d. visible d = V) (reconcile_match_lock_inner pb lock_path desired mode)
     (\<lambda>_ d. kept build_dir lock_path V (visible d) \<and> same_manifests build_dir V (visible d))
     (\<lambda>d. kept build_dir lock_path V (visible d) \<and> same_manifests build_dir V (visible d))"
proof -
  let ?K = "\<lambda>d. kept build_dir lock_path V (visible d) \<and> same_manifests build_dir V (visible d)"
  have vis: "\<not> hidden lock_path" using assms by (simp add: lock_apart_def)
  have lock: "kept build_dir lock_path V (V(lock_path := x))
      \<and> same_manifests build_dir V (V(lock_path := x))" for x
    using kept_lock[OF assms kept_refl(1)] by simp
  have removed: "triple (\<lambda>d. visible d = V) (map_err (\<lambda>_. GenWrite lock_path) (fs_remove lock_path))
      (\<lambda>_. ?K) ?K"
    by (rule triple_map_err, rule triple_pre, rule triple_mono[OF triple_remove])
       (use lock vis in auto)
  have synced: "triple ?K (map_err (\<lambda>_. GenWrite lock_path) sync_parent) (\<lambda>_. ?K) ?K"
    unfolding sync_parent_def
    by (rule triple_map_err, rule triple_bind[where R = "\<lambda>_. ?K"])
       (rule triple_nothing)+
  have stored: "triple (\<lambda>d. visible d = V) (atomic_write pb lock_path content) (\<lambda>_. ?K) ?K" for content
    by (rule triple_mono[OF atomic_write_triple[OF vis]]) (use lock in auto)
  have start: "?K d" if "visible d = V" for d using that by simp
  have update: "triple (\<lambda>d. visible d = V) (update_match_lock pb lock_path desired existing) (\<lambda>_. ?K) ?K"
    for existing
  proof (cases "lock_is_empty desired")
    case True
    then show ?thesis
      unfolding update_match_lock_def
      by (cases existing)
         (auto intro!: triple_return triple_bind[OF removed] triple_bind[OF synced])
  next
    case False
    have pure: "triple (\<lambda>d. visible d = V)
        (plift (case lock_to_yaml (pb_yaml pb) desired of
             Inl message \<Rightarrow> Inl (GenSerialize lock_path message) | Inr s \<Rightarrow> Inr s))
        (\<lambda>_ d. visible d = V) ?K"
      by (rule triple_lift) simp_all
    have maybe: "triple (\<lambda>d. visible d = V)
        (if changed then atomic_write pb lock_path content else preturn ()) (\<lambda>_. ?K) ?K"
      for changed content
      using stored by (auto intro: triple_return)
    show ?thesis
      unfolding update_match_lock_def Let_def using False
      by (simp, intro triple_bind[OF pure] triple_bind[OF maybe] triple_return) simp
  qed
  have checked: "triple (\<lambda>d. visible d = V) (plift (check_locked pb lock_path desired existing))
      (\<lambda>_. ?K) ?K" for existing
    by (rule triple_lift) simp_all
  have read: "triple (\<lambda>d. visible d = V) (read_match_lock lock_path) (\<lambda>_ d. visible d = V) ?K"
    by (rule triple_weaken_stop[OF read_match_lock_triple]) simp
  show ?thesis
    unfolding reconcile_match_lock_inner_def
    using update checked
    by (auto intro!: triple_raise triple_bind[OF read] split: option.splits match_lock_mode.splits)
qed

text \<open>A program that starts from one of several visible trees.\<close>

lemma triple_visible:
  assumes "\<And>V. P V \<Longrightarrow> triple (\<lambda>d. visible d = V) c Q J"
  shows "triple (\<lambda>d. P (visible d)) c Q J"
  unfolding triple_def
proof (intro allI impI)
  fix env w assume "P (visible (files w))"
  from assms[OF this, unfolded triple_def, rule_format, OF refl]
  show "case c env w of (Inr x, w') \<Rightarrow> Q x (files w') | (Inl _, w') \<Rightarrow> J (files w')" .
qed

text \<open>The artifacts so far are in place and nothing else has changed but the lock.\<close>

definition prepared ::
  "string \<Rightarrow> string \<Rightarrow> file_map \<Rightarrow> snapshot_artifact set \<Rightarrow> file_map \<Rightarrow> bool" where
  "prepared build_dir lock_path V done V' \<longleftrightarrow>
     kept build_dir lock_path V V' \<and> same_manifests build_dir V V'
     \<and> (\<forall>a \<in> done. V' (artifact_path build_dir a) = Some (sa_serialized a))"

lemma prepared_add:
  assumes "lock_apart build_dir lock_path" and "prepared build_dir lock_path V done V'"
    and "V' (artifact_path build_dir a) = None"
  shows "prepared build_dir lock_path V (insert a done)
     (V'(artifact_path build_dir a \<mapsto> sa_serialized a))"
proof -
  have "kept build_dir lock_path V (V'(artifact_path build_dir a \<mapsto> sa_serialized a))"
    using assms lock_apart_join[OF assms(1)]
    by (intro kept_new) (simp_all add: prepared_def artifact_not_manifest)
  moreover have "same_manifests build_dir V (V'(artifact_path build_dir a \<mapsto> sa_serialized a))"
    using assms(2) artifact_not_manifest(1)[symmetric]
    by (simp add: prepared_def same_manifests_def)
  moreover have "artifact_path build_dir b \<noteq> artifact_path build_dir a" if "b \<in> done" for b
    using assms(2,3) that by (auto simp: prepared_def)
  ultimately show ?thesis using assms(2) by (auto simp: prepared_def)
qed

lemma publish_artifact_triple:
  assumes apart: "lock_apart build_dir lock_path" and vis: "\<not> hidden (artifact_path build_dir a)"
  shows "triple (\<lambda>d. prepared build_dir lock_path V done (visible d))
     (publish_artifact pb build_dir written a)
     (\<lambda>_ d. prepared build_dir lock_path V (insert a done) (visible d))
     (\<lambda>d. prepared build_dir lock_path V done (visible d)
        \<or> prepared build_dir lock_path V (insert a done) (visible d))"
    (is "triple (\<lambda>d. ?P (visible d)) _ (\<lambda>_ d. ?Q (visible d)) ?J")
proof -
  let ?path = "artifact_path build_dir a"
  have new: "triple (\<lambda>d. ?P (visible d) \<and> visible d ?path = None)
      (pbind (atomic_write pb ?path (sa_serialized a)) (\<lambda>_. preturn (written @ [?path])))
      (\<lambda>_ d. ?Q (visible d)) ?J"
  proof (rule triple_visible, elim conjE)
    fix V' assume "?P V'" "V' ?path = None"
    with prepared_add[OF apart] have "?Q (V'(?path \<mapsto> sa_serialized a))" by blast
    with \<open>?P V'\<close> show "triple (\<lambda>d. visible d = V')
        (pbind (atomic_write pb ?path (sa_serialized a)) (\<lambda>_. preturn (written @ [?path])))
        (\<lambda>_ d. ?Q (visible d)) ?J"
      by (intro triple_bind[OF triple_weaken_stop[OF atomic_write_triple[OF vis]]] triple_return)
         (auto simp del: fun_upd_apply)
  qed
  have keep: "?Q V'" if "?P V'" "V' ?path = Some (sa_serialized a)" for V'
    using that by (simp add: prepared_def)
  show ?thesis
    unfolding publish_artifact_def Let_def
    by (rule triple_bind[OF triple_weaken_stop[OF triple_try_read]])
       (auto intro!: triple_return triple_raise triple_mono[OF new] keep
          simp: visible_apply[OF vis] split: sum.splits io_kind.splits)
qed

text \<open>All artifacts of a snapshot.\<close>

lemma publish_artifacts_triple:
  assumes "lock_apart build_dir lock_path"
    and "\<And>a. a \<in> set artifacts \<Longrightarrow> \<not> hidden (artifact_path build_dir a)"
  shows "triple (\<lambda>d. prepared build_dir lock_path V done (visible d))
     (pfold (publish_artifact pb build_dir) written artifacts)
     (\<lambda>_ d. prepared build_dir lock_path V (done \<union> set artifacts) (visible d))
     (\<lambda>d. prepared build_dir lock_path V {} (visible d))"
  using assms(2)
proof (induction artifacts arbitrary: written "done")
  case Nil
  then show ?case by (simp add: triple_return prepared_def)
next
  case (Cons a artifacts)
  have "\<not> hidden (artifact_path build_dir a)" using Cons.prems by simp
  from publish_artifact_triple[OF assms(1) this]
  have "triple (\<lambda>d. prepared build_dir lock_path V done (visible d))
      (publish_artifact pb build_dir written a)
      (\<lambda>_ d. prepared build_dir lock_path V (insert a done) (visible d))
      (\<lambda>d. prepared build_dir lock_path V {} (visible d))"
    by (rule triple_weaken_stop) (auto simp: prepared_def)
  then show ?case
    unfolding pfold.simps using Cons.IH[of "insert a done"] Cons.prems
    by (intro triple_bind) (auto simp: Un_insert_left)
qed

section \<open>Commit\<close>

text \<open>
  \<open>committed \<dots> i V V'\<close>: the visible tree \<open>V'\<close> is \<open>V\<close> with a complete generation \<open>i\<close> of the snapshot
  added and made current; \<open>i\<close> is larger than every identity that had a manifest.
\<close>

definition committed ::
  "publisher \<Rightarrow> string \<Rightarrow> string \<Rightarrow> generation_snapshot \<Rightarrow> nat \<Rightarrow> file_map \<Rightarrow> file_map \<Rightarrow> bool" where
  "committed pb build_dir lock_path snapshot i V V' \<longleftrightarrow>
     (\<exists>W s. prepared build_dir lock_path V (set (gs_artifacts snapshot)) W
        \<and> pb_manifest_to_json pb (manifest_for snapshot i) = Inr s
        \<and> V' = W(manifest_path_of build_dir i \<mapsto> s, pointer_path build_dir \<mapsto> s)
        \<and> i < 2 ^ 64
        \<and> (\<forall>j < 2 ^ 64. V (manifest_path_of build_dir j) \<noteq> None \<longrightarrow> j < i))"

text \<open>A publication that has stopped early.\<close>

definition interrupted ::
  "publisher \<Rightarrow> string \<Rightarrow> string \<Rightarrow> generation_snapshot \<Rightarrow> file_map \<Rightarrow> file_map \<Rightarrow> bool" where
  "interrupted pb build_dir lock_path snapshot V V' \<longleftrightarrow>
     kept build_dir lock_path V V' \<or> (\<exists>i. committed pb build_dir lock_path snapshot i V V')"

lemma commit_triple:
  assumes apart: "lock_apart build_dir lock_path" and small: "i < 2 ^ 64"
    and fresh: "\<And>j. j < 2 ^ 64 \<Longrightarrow> V (manifest_path_of build_dir j) \<noteq> None \<Longrightarrow> j < i"
  shows "triple (\<lambda>d. prepared build_dir lock_path V (set (gs_artifacts snapshot)) (visible d))
     (commit_generation pb build_dir snapshot status predecessor i written)
     (\<lambda>r d. pg_generation_id r = i \<and> pg_predecessor r = predecessor
        \<and> committed pb build_dir lock_path snapshot i V (visible d))
     (\<lambda>d. interrupted pb build_dir lock_path snapshot V (visible d))"
proof (rule triple_visible)
  fix W assume W: "prepared build_dir lock_path V (set (gs_artifacts snapshot)) W"
  let ?J = "\<lambda>d. interrupted pb build_dir lock_path snapshot V (visible d)"
  let ?m = "manifest_path_of build_dir i"
  have K: "kept build_dir lock_path V W" using W by (simp add: prepared_def)
  have "V ?m = None" using fresh[OF small] by blast
  then have "W ?m = None" using W by (simp add: prepared_def same_manifests_def)
  then have K': "kept build_dir lock_path V (W(?m \<mapsto> s))" for s
    using K lock_apart_join[OF apart] generation_manifest_not_pointer
    by (intro kept_new) simp_all
  have pure: "triple (\<lambda>d. visible d = W) (plift (case pb_manifest_to_json pb (manifest_for snapshot i) of
        Inl message \<Rightarrow> Inl (GenSerialize manifest_file message) | Inr s \<Rightarrow> Inr s))
      (\<lambda>s d. visible d = W \<and> pb_manifest_to_json pb (manifest_for snapshot i) = Inr s) ?J"
    by (rule triple_lift) (use K in \<open>auto simp: interrupted_def split: sum.splits\<close>)
  have exists: "triple (\<lambda>d. visible d = W) (fs_exists path) (\<lambda>_ d. visible d = W) ?J" for path
    by (rule triple_mono[OF triple_exists[of "\<lambda>d. visible d = W"]])
       (use K in \<open>auto simp: interrupted_def\<close>)
  have first: "triple (\<lambda>d. visible d = W) (atomic_write pb ?m s) (\<lambda>_ d. visible d = W(?m \<mapsto> s)) ?J" for s
    by (rule triple_weaken_stop[OF atomic_write_triple[OF manifest_visible(1)]])
       (use K K' in \<open>auto simp: interrupted_def\<close>)
  have whole: "committed pb build_dir lock_path snapshot i V (W(?m \<mapsto> s, pointer_path build_dir \<mapsto> s))"
    if "pb_manifest_to_json pb (manifest_for snapshot i) = Inr s" for s
    unfolding committed_def using W that small fresh by blast
  have second: "triple (\<lambda>d. visible d = W(?m \<mapsto> s)) (atomic_write pb (pointer_path build_dir) s)
      (\<lambda>_ d. committed pb build_dir lock_path snapshot i V (visible d)) ?J"
    if "pb_manifest_to_json pb (manifest_for snapshot i) = Inr s" for s
    by (rule triple_mono[OF atomic_write_triple[OF manifest_visible(2)]])
       (use K' whole[OF that] in \<open>auto simp: interrupted_def\<close>)
  show "triple (\<lambda>d. visible d = W) (commit_generation pb build_dir snapshot status predecessor i written)
      (\<lambda>r d. pg_generation_id r = i \<and> pg_predecessor r = predecessor
         \<and> committed pb build_dir lock_path snapshot i V (visible d)) ?J"
    unfolding commit_generation_def
  proof (rule triple_bind[OF pure])
    fix s
    show "triple (\<lambda>d. visible d = W \<and> pb_manifest_to_json pb (manifest_for snapshot i) = Inr s)
      (let manifest_path = ?m; current_path = pointer_path build_dir in
        pbind (fs_exists manifest_path) (\<lambda>taken.
        if taken then praise (GenAddressCollision (generation_manifest_file i)
          (''generation '' @ dec_string i))
        else pbind (atomic_write pb manifest_path s) (\<lambda>_.
          pbind (atomic_write pb current_path s) (\<lambda>_.
            preturn \<lparr>pg_generation_id = i, pg_manifest_path = manifest_path,
              pg_manifest_json = s, pg_current_manifest_path = current_path,
              pg_written = written @ [manifest_path],
              pg_filter_match_lock_hash = mls_content_hash status, pg_predecessor = predecessor\<rparr>))))
      (\<lambda>r d. pg_generation_id r = i \<and> pg_predecessor r = predecessor
         \<and> committed pb build_dir lock_path snapshot i V (visible d)) ?J"
    proof (cases "pb_manifest_to_json pb (manifest_for snapshot i) = Inr s")
      case True
      have "triple (\<lambda>d. visible d = W) (praise e) Q ?J" for e Q
        by (rule triple_raise) (use K in \<open>auto simp: interrupted_def\<close>)
      with True show ?thesis
        unfolding Let_def
        by (simp, intro triple_bind[OF exists])
           (auto intro!: triple_bind[OF first] triple_bind[OF second[OF True]] triple_return)
    qed (simp add: triple_def)
  qed
qed

lemma next_generation_fresh:
  assumes "next_generation ids predecessor = Inr i"
  shows "i < 2 ^ 64" and "j \<in> set ids \<Longrightarrow> j < i" and "predecessor = Some p \<Longrightarrow> p < i"
proof -
  let ?known = "ids @ (case predecessor of None \<Rightarrow> [] | Some p \<Rightarrow> [p])"
  have i: "i = (if ?known = [] then 0 else Max (set ?known)) + 1 \<and> i < 2 ^ 64"
    using assms unfolding next_generation_def Let_def by (metis sum.inject(2) sum.distinct(1))
  then have "k < i" if "k \<in> set ?known" for k
    using that Max_ge[OF finite_set that] by auto
  with i show "i < 2 ^ 64" "j \<in> set ids \<Longrightarrow> j < i" "predecessor = Some p \<Longrightarrow> p < i" by auto
qed

text \<open>The whole publication, under the lock.\<close>

lemma publish_locked_triple:
  assumes apart: "lock_apart build_dir lock_path" and hashes: "hashes_ok pb snapshot"
  shows "triple (\<lambda>d. visible d = V) (publish_locked pb build_dir lock_path snapshot mode)
     (\<lambda>r d. committed pb build_dir lock_path snapshot (pg_generation_id r) V (visible d))
     (\<lambda>d. interrupted pb build_dir lock_path snapshot V (visible d))"
proof -
  let ?J = "\<lambda>d. interrupted pb build_dir lock_path snapshot V (visible d)"
  let ?I = "\<lambda>d. prepared build_dir lock_path V {} (visible d)"
  have I_J: "?J d" if "?I d" for d using that by (simp add: prepared_def interrupted_def)
  have reconciled: "triple (\<lambda>d. visible d = V)
      (reconcile_match_lock_inner pb lock_path (gs_filter_match_lock snapshot) mode) (\<lambda>_. ?I) ?J"
    by (rule triple_mono[OF reconcile_triple[OF apart]]) (auto simp: prepared_def interrupted_def)
  have pointer: "triple ?I (pointer_generation pb build_dir) (\<lambda>_. ?I) ?J"
    by (rule triple_mono[OF pointer_generation_triple[of ?I]]) (use I_J in auto)
  let ?found = "\<lambda>ids. \<forall>j < 2 ^ 64. V (manifest_path_of build_dir j) \<noteq> None \<longrightarrow> j \<in> set ids"
  have scan: "triple ?I (generation_ids_on_disk build_dir) (\<lambda>ids d. ?I d \<and> ?found ids) ?J"
  proof (rule triple_mono[OF generation_ids_triple[of ?I]])
    fix ids d
    assume d: "?I d \<and> (\<forall>i < 2 ^ 64. d (manifest_path_of build_dir i) \<noteq> None \<longrightarrow> i \<in> set ids)"
    have "d (manifest_path_of build_dir j) = V (manifest_path_of build_dir j)" for j
      using d visible_apply[OF manifest_visible(1), of d build_dir j]
      by (simp add: prepared_def same_manifests_def)
    with d show "?I d \<and> ?found ids" by simp
  qed (use I_J in auto)
  have allocate: "triple (\<lambda>d. ?I d \<and> ?found ids) (plift (next_generation ids predecessor))
      (\<lambda>i d. ?I d \<and> i < 2 ^ 64 \<and> (\<forall>j < 2 ^ 64. V (manifest_path_of build_dir j) \<noteq> None \<longrightarrow> j < i)) ?J"
    for ids predecessor
    by (rule triple_lift) (use I_J in \<open>auto dest: next_generation_fresh\<close>)
  have artifacts: "triple ?I (pfold (publish_artifact pb build_dir) [] (gs_artifacts snapshot))
      (\<lambda>_ d. prepared build_dir lock_path V (set (gs_artifacts snapshot)) (visible d)) ?J"
    using publish_artifacts_triple[OF apart artifact_visible[OF hashes], of "gs_artifacts snapshot" V "{}"]
    by (rule triple_mono) (use I_J in auto)
  have rest: "triple (\<lambda>d. ?I d \<and> i < 2 ^ 64
        \<and> (\<forall>j < 2 ^ 64. V (manifest_path_of build_dir j) \<noteq> None \<longrightarrow> j < i))
      (pbind (pfold (publish_artifact pb build_dir) [] (gs_artifacts snapshot)) (\<lambda>written.
         commit_generation pb build_dir snapshot status predecessor i written))
      (\<lambda>r d. committed pb build_dir lock_path snapshot (pg_generation_id r) V (visible d)) ?J"
    for i status predecessor
  proof (cases "i < 2 ^ 64 \<and> (\<forall>j < 2 ^ 64. V (manifest_path_of build_dir j) \<noteq> None \<longrightarrow> j < i)")
    case True
    then have "triple ?I
        (pbind (pfold (publish_artifact pb build_dir) [] (gs_artifacts snapshot)) (\<lambda>written.
           commit_generation pb build_dir snapshot status predecessor i written))
        (\<lambda>r d. committed pb build_dir lock_path snapshot (pg_generation_id r) V (visible d)) ?J"
      by (intro triple_bind[OF artifacts] triple_mono[OF commit_triple[OF apart]]) auto
    then show ?thesis by (rule triple_mono) auto
  next
    case False
    then show ?thesis unfolding triple_def by blast
  qed
  show ?thesis
    unfolding publish_locked_def
    by (intro triple_bind[OF reconciled] triple_bind[OF pointer] triple_bind[OF scan]
        triple_bind[OF allocate] rest)
qed

end
