(* ===== verification/Publish_Tree.thy ===== *)
theory Publish_Tree
  imports Publish_Correct
begin

text \<open>
  Build trees under any sequence of publications, reconciliations and prunings by any processes,
  each of which may fail or die at any operation: the tree invariant, the refinement of the
  abstract current generation, what pruning keeps, and the return of an undisturbed publication.
\<close>

section \<open>Pruning\<close>

text \<open>What the manifest of a generation refers to.\<close>

definition retained_paths :: "publisher \<Rightarrow> string \<Rightarrow> file_map \<Rightarrow> nat \<Rightarrow> string set" where
  "retained_paths pb build_dir V i =
     (case V (manifest_path_of build_dir i) of
        None \<Rightarrow> {}
      | Some raw \<Rightarrow>
          (case pb_manifest_from_json pb raw of Inl _ \<Rightarrow> {} | Inr m \<Rightarrow> set (manifest_paths m)))"

definition predecessor_paths :: "publisher \<Rightarrow> string \<Rightarrow> file_map \<Rightarrow> nat option \<Rightarrow> string set" where
  "predecessor_paths pb build_dir V predecessor =
     (case predecessor of None \<Rightarrow> {} | Some p \<Rightarrow> retained_paths pb build_dir V p)"

text \<open>The files a pruning by \<open>published\<close> may remove.\<close>

definition removable :: "publisher \<Rightarrow> string \<Rightarrow> published_generation \<Rightarrow> file_map \<Rightarrow> string \<Rightarrow> bool" where
  "removable pb build_dir published V path \<longleftrightarrow>
     (\<exists>raw. V (pointer_path build_dir) = Some raw
        \<and> manifest_generation pb raw = Some (pg_generation_id published))
     \<and> ((\<exists>j. path = manifest_path_of build_dir j \<and> Some j \<noteq> pg_predecessor published
            \<and> j \<noteq> pg_generation_id published)
        \<or> (\<exists>family name. family \<in> {''operations'', ''fragments''}
            \<and> path = path_join build_dir (family @ ''/'' @ name)
            \<and> family @ ''/'' @ name \<notin> retained_paths pb build_dir V (pg_generation_id published)
            \<and> family @ ''/'' @ name \<notin> predecessor_paths pb build_dir V (pg_predecessor published)))"

definition pruned :: "publisher \<Rightarrow> string \<Rightarrow> published_generation \<Rightarrow> file_map \<Rightarrow> file_map \<Rightarrow> bool" where
  "pruned pb build_dir published V V' \<longleftrightarrow>
     (\<forall>path. V' path \<noteq> V path \<longrightarrow> V' path = None \<and> removable pb build_dir published V path)"

lemma pruned_refl [simp]: "pruned pb build_dir published V V"
  by (simp add: pruned_def)

lemma retain_manifest_triple:
  "triple (\<lambda>d. d = D) (retain_manifest pb build_dir i)
     (\<lambda>paths d. d = D \<and> set paths = retained_paths pb build_dir D i) (\<lambda>d. d = D)"
proof -
  let ?path = "manifest_path_of build_dir i"
  have read: "triple (\<lambda>d. d = D) (map_err (\<lambda>_. GenWrite ?path) (fs_read ?path))
      (\<lambda>raw d. d = D \<and> D ?path = Some raw) (\<lambda>d. d = D)"
    by (rule triple_map_err, rule triple_mono[OF triple_read[of "\<lambda>d. d = D"]]) auto
  have decode: "triple (\<lambda>d. d = D \<and> D ?path = Some raw)
      (if \<not> utf8_valid raw then praise (GenWrite ?path)
       else (case pb_manifest_from_json pb raw of
         Inl message \<Rightarrow> praise (GenSerialize ?path message)
       | Inr manifest \<Rightarrow> preturn (manifest_paths manifest)))
      (\<lambda>paths d. d = D \<and> set paths = retained_paths pb build_dir D i) (\<lambda>d. d = D)" for raw
    by (cases "pb_manifest_from_json pb raw")
       (auto intro!: triple_return triple_raise simp: retained_paths_def)
  show ?thesis
    unfolding retain_manifest_def Let_def by (rule triple_bind[OF read decode])
qed

text \<open>A removal that is allowed keeps a tree a pruned one, whether it succeeds or not.\<close>

lemma remove_triple:
  assumes "removable pb build_dir published D path"
  shows "triple (pruned pb build_dir published D) (best_effort (fs_remove path))
     (\<lambda>_. pruned pb build_dir published D) (pruned pb build_dir published D)"
proof -
  let ?I = "pruned pb build_dir published D"
  have removed: "?I (d(path := None))" if "?I d" for d
    unfolding pruned_def using that assms by (metis fun_upd_apply pruned_def)
  have "triple ?I (fs_remove path) (\<lambda>_. ?I) ?I"
    by (rule triple_pre, rule triple_mono[OF triple_remove]) (use removed in auto)
  then have "triple ?I (ptry (fs_remove path)) (\<lambda>_. ?I) ?I"
    unfolding ptry_def
    by (intro triple_handle[where E = ?I] triple_bind[where R = "\<lambda>_. ?I"] triple_return)
  then show ?thesis
    unfolding best_effort_def by (rule triple_bind) (rule triple_return)
qed

lemma prune_family_triple:
  assumes "\<And>name. family @ ''/'' @ name \<notin> set retained \<Longrightarrow>
      removable pb build_dir published D (path_join build_dir (family @ ''/'' @ name))"
  shows "triple (pruned pb build_dir published D) (prune_family build_dir retained () family)
     (\<lambda>_. pruned pb build_dir published D) (pruned pb build_dir published D)"
proof -
  let ?I = "pruned pb build_dir published D"
  have tried: "triple ?I (ptry c) (\<lambda>_. ?I) ?I" if "triple ?I c (\<lambda>_. ?I) ?I" for c :: "(io_kind, 'x) program"
    unfolding ptry_def using that
    by (intro triple_handle[where E = ?I] triple_bind[where R = "\<lambda>_. ?I"] triple_return)
  have listed: "triple ?I (fs_list dir) (\<lambda>_. ?I) ?I" for dir
    by (rule triple_mono[OF triple_list]) auto
  have entry: "triple ?I (prune_entry build_dir retained family u name) (\<lambda>_. ?I) ?I" for u name
    unfolding prune_entry_def Let_def
    by (rule triple_bind[OF tried[OF triple_nothing]])
       (auto simp del: append.simps simp: append_assoc intro!: triple_return remove_triple assms
          split: sum.splits)
  have loop: "triple ?I (pfold (prune_entry build_dir retained family) () names) (\<lambda>_. ?I) ?I" for names
    by (rule triple_fold[where I = "\<lambda>_. ?I"]) (use entry in auto)
  show ?thesis
    unfolding prune_family_def
    by (rule triple_bind[OF tried[OF listed]]) (auto intro!: triple_return loop split: sum.splits)
qed

lemma prune_locked_triple:
  "triple (\<lambda>d. d = D) (prune_locked pb build_dir published)
     (\<lambda>_. pruned pb build_dir published D) (pruned pb build_dir published D)"
proof -
  let ?I = "pruned pb build_dir published D"
  let ?g = "pg_generation_id published" and ?p = "pg_predecessor published"
  have start: "triple (\<lambda>d. d = D) (pointer_generation pb build_dir)
      (\<lambda>r d. d = D \<and> (\<forall>i. r = Some i \<longrightarrow> (\<exists>raw. D (pointer_path build_dir) = Some raw
         \<and> manifest_generation pb raw = Some i))) ?I"
    by (rule triple_mono[OF pointer_generation_triple[of "\<lambda>d. d = D"]]) auto
  have body: "triple (\<lambda>d. d = D)
      (pbind (retain_manifest pb build_dir ?g) (\<lambda>kept.
       pbind (case ?p of None \<Rightarrow> preturn [] | Some p \<Rightarrow> retain_manifest pb build_dir p) (\<lambda>kept'.
       pbind (generation_ids_on_disk build_dir) (\<lambda>ids.
       pbind (pfold (prune_manifest build_dir published) () ids) (\<lambda>_.
         pfold (prune_family build_dir (kept @ kept')) () [''operations'', ''fragments''])))))
      (\<lambda>_. ?I) ?I"
    if current: "\<exists>raw. D (pointer_path build_dir) = Some raw \<and> manifest_generation pb raw = Some ?g"
  proof -
    have manifest: "triple ?I (prune_manifest build_dir published u i) (\<lambda>_. ?I) ?I" for u i
      unfolding prune_manifest_def
      by (auto intro!: triple_return remove_triple simp: removable_def current)
    have manifests: "triple ?I (pfold (prune_manifest build_dir published) () ids) (\<lambda>_. ?I) ?I" for ids
      by (rule triple_fold[where I = "\<lambda>_. ?I"]) (use manifest in auto)
    have unreferenced: "removable pb build_dir published D (path_join build_dir (family @ ''/'' @ name))"
      if "family \<in> {''operations'', ''fragments''}"
        "family @ ''/'' @ name \<notin> retained_paths pb build_dir D ?g"
        "family @ ''/'' @ name \<notin> predecessor_paths pb build_dir D ?p" for family name
      unfolding removable_def using that current by blast
    have families: "triple ?I (pfold (prune_family build_dir (kept @ kept')) ()
        [''operations'', ''fragments'']) (\<lambda>_. ?I) ?I"
      if "set kept = retained_paths pb build_dir D ?g"
        "set kept' = predecessor_paths pb build_dir D ?p" for kept kept'
    proof (rule triple_fold[where I = "\<lambda>_. ?I"])
      fix family u assume "family \<in> set [''operations'', ''fragments'']"
      then have "family \<in> {''operations'', ''fragments''}" by simp
      with unreferenced that
      have "triple ?I (prune_family build_dir (kept @ kept') () family) (\<lambda>_. ?I) ?I"
        by (intro prune_family_triple) (simp del: append.simps)
      then show "triple ?I (prune_family build_dir (kept @ kept') u family) (\<lambda>_. ?I) ?I" by simp
    qed simp
    have listed: "triple ?I (generation_ids_on_disk build_dir) (\<lambda>_. ?I) ?I"
      by (rule triple_mono[OF generation_ids_triple]) auto
    have rest: "triple (\<lambda>d. d = D \<and> set kept = retained_paths pb build_dir D ?g
          \<and> set kept' = predecessor_paths pb build_dir D ?p)
        (pbind (generation_ids_on_disk build_dir) (\<lambda>ids.
         pbind (pfold (prune_manifest build_dir published) () ids) (\<lambda>_.
           pfold (prune_family build_dir (kept @ kept')) () [''operations'', ''fragments''])))
        (\<lambda>_. ?I) ?I" for kept kept'
    proof (cases "set kept = retained_paths pb build_dir D ?g
        \<and> set kept' = predecessor_paths pb build_dir D ?p")
      case True
      then have "triple ?I (pbind (generation_ids_on_disk build_dir) (\<lambda>ids.
           pbind (pfold (prune_manifest build_dir published) () ids) (\<lambda>_.
             pfold (prune_family build_dir (kept @ kept')) () [''operations'', ''fragments''])))
          (\<lambda>_. ?I) ?I"
        by (intro triple_bind[OF listed] triple_bind[OF manifests] families) simp_all
      then show ?thesis by (rule triple_mono) auto
    next
      case False
      then show ?thesis unfolding triple_def by blast
    qed
    have second: "triple (\<lambda>d. d = D \<and> set kept = retained_paths pb build_dir D ?g)
        (case ?p of None \<Rightarrow> preturn [] | Some p \<Rightarrow> retain_manifest pb build_dir p)
        (\<lambda>kept' d. d = D \<and> set kept = retained_paths pb build_dir D ?g
           \<and> set kept' = predecessor_paths pb build_dir D ?p) ?I" for kept
    proof (cases ?p)
      case (Some p)
      show ?thesis
      proof (cases "set kept = retained_paths pb build_dir D ?g")
        case True
        then show ?thesis unfolding Some option.case
          by (intro triple_mono[OF retain_manifest_triple[of D]]) (auto simp: predecessor_paths_def)
      qed (simp add: triple_def)
    qed (auto intro: triple_return simp: predecessor_paths_def)
    show ?thesis
      by (rule triple_bind[OF triple_weaken_stop[OF retain_manifest_triple]], simp,
          rule triple_bind[OF second rest])
  qed
  show ?thesis
    unfolding prune_locked_def
  proof (rule triple_bind[OF start])
    fix current
    let ?c = "if current \<noteq> Some ?g then preturn () else
       pbind (retain_manifest pb build_dir ?g) (\<lambda>kept.
       pbind (case ?p of None \<Rightarrow> preturn [] | Some p \<Rightarrow> retain_manifest pb build_dir p) (\<lambda>kept'.
       pbind (generation_ids_on_disk build_dir) (\<lambda>ids.
       pbind (pfold (prune_manifest build_dir published) () ids) (\<lambda>_.
         pfold (prune_family build_dir (kept @ kept')) () [''operations'', ''fragments'']))))"
    let ?here = "\<forall>i. current = Some i \<longrightarrow> (\<exists>raw. D (pointer_path build_dir) = Some raw
         \<and> manifest_generation pb raw = Some i)"
    show "triple (\<lambda>d. d = D \<and> ?here) ?c (\<lambda>_. ?I) ?I"
    proof (cases "current = Some ?g \<and> ?here")
      case True
      then have "triple (\<lambda>d. d = D) ?c (\<lambda>_. ?I) ?I" using body by simp
      then show ?thesis by (rule triple_mono) auto
    next
      case False
      then show ?thesis by (auto simp: triple_def preturn_def)
    qed
  qed
qed

section \<open>Under the lock\<close>

lemma lock_file_hidden: "hidden (path_join build_dir lock_file)"
proof -
  have "file_name (path_join build_dir lock_file) = lock_file"
    by (rule file_name_join) (simp add: lock_file_def)
  then show ?thesis by (simp add: hidden_def lock_file_def)
qed

lemma acquire_lock_triple: "triple (\<lambda>d. visible d = V) (acquire_lock build_dir)
    (\<lambda>_ d. visible d = V) (\<lambda>d. visible d = V)"
proof -
  let ?P = "\<lambda>d. visible d = V"
  have "triple ?P (fs_touch (path_join build_dir lock_file)) (\<lambda>_. ?P) ?P"
    by (rule triple_pre, rule triple_mono[OF triple_touch]) (auto simp: lock_file_hidden)
  then show ?thesis
    unfolding acquire_lock_def
    by (intro triple_bind[where R = "\<lambda>_. ?P"] triple_map_err triple_nothing)
qed

text \<open>Work under the lock changes what its body changes, or nothing visible.\<close>

lemma under_lock:
  assumes run: "with_publication_lock attempts build_dir wait body env w = Some (r, w')"
    and body: "\<And>d. visible d = V \<Longrightarrow> triple (\<lambda>d'. d' = d) body Q J"
    and V: "visible (files w) = V" and idle: "\<And>d. visible d = V \<Longrightarrow> J d"
  shows "case r of Inr x \<Rightarrow> Q x (files w') | Inl _ \<Rightarrow> J (files w')"
proof -
  obtain r1 w1 where acquired: "acquire_lock build_dir env w = (r1, w1)" by (metis surj_pair)
  from tripleD[OF acquire_lock_triple V acquired] have w1: "visible (files w1) = V"
    by (cases r1) simp_all
  show ?thesis
  proof (cases r1)
    case (Inl s)
    with run acquired have "r = Inl s" "w' = w1" by (simp_all add: with_publication_lock_def)
    with idle[OF w1] show ?thesis by simp
  next
    case (Inr x)
    note run' = run[unfolded with_publication_lock_def acquired Inr prod.case sum.case]
    show ?thesis
    proof (cases "wait_for_lock attempts wait (path_join build_dir lock_file) 0")
      case None
      with run' show ?thesis by simp
    next
      case (Some a)
      show ?thesis
      proof (cases a)
        case (Inl e)
        with run' Some idle[OF w1] show ?thesis by auto
      next
        case a: (Inr u)
        with run' Some have b: "body env w1 = (r, w')" by simp
        from tripleD[OF body[OF w1] refl b] show ?thesis .
      qed
    qed
  qed
qed

lemma pruned_visible:
  assumes "pruned pb build_dir published D D'"
  shows "pruned pb build_dir published (visible D) (visible D')"
proof -
  have "retained_paths pb build_dir (visible D) i = retained_paths pb build_dir D i" for i
    by (simp add: retained_paths_def visible_apply[OF manifest_visible(1)])
  then have "removable pb build_dir published (visible D) path = removable pb build_dir published D path"
    for path
    by (simp add: removable_def predecessor_paths_def visible_apply[OF manifest_visible(2)]
        cong: option.case_cong)
  with assms show ?thesis by (auto simp: pruned_def visible_def)
qed

lemma prune_effect:
  assumes "prune pb attempts build_dir published env w = Some w'"
  shows "pruned pb build_dir published (visible (files w)) (visible (files w'))"
proof -
  from assms obtain r where run: "with_publication_lock attempts build_dir lock_deadline
      (prune_locked pb build_dir published) env w = Some (r, w')"
    by (auto simp: prune_def)
  let ?J = "\<lambda>d. pruned pb build_dir published (visible (files w)) (visible d)"
  have body: "triple (\<lambda>d'. d' = d) (prune_locked pb build_dir published) (\<lambda>_. ?J) ?J"
    if "visible d = visible (files w)" for d
    by (rule triple_mono[OF prune_locked_triple[of d]])
       (use pruned_visible[of pb build_dir published d] that in auto)
  from under_lock[OF run body refl] show ?thesis by (simp split: sum.splits)
qed

lemma publish_effect:
  assumes "publish_with_deadline pb attempts build_dir lock_path snapshot mode wait env w = Some (r, w')"
    and "lock_apart build_dir lock_path" and "hashes_ok pb snapshot"
  shows "case r of
      Inr g \<Rightarrow> committed pb build_dir lock_path snapshot (pg_generation_id g) (visible (files w)) (visible (files w'))
    | Inl _ \<Rightarrow> interrupted pb build_dir lock_path snapshot (visible (files w)) (visible (files w'))"
proof (rule under_lock[OF assms(1)[unfolded publish_with_deadline_def] _ refl])
  fix d assume "visible d = visible (files w)"
  then show "triple (\<lambda>d'. d' = d) (publish_locked pb build_dir lock_path snapshot mode)
      (\<lambda>g d. committed pb build_dir lock_path snapshot (pg_generation_id g) (visible (files w)) (visible d))
      (\<lambda>d. interrupted pb build_dir lock_path snapshot (visible (files w)) (visible d))"
    by (intro triple_mono[OF publish_locked_triple[OF assms(2,3)]]) auto
  from \<open>visible d = visible (files w)\<close>
  show "interrupted pb build_dir lock_path snapshot (visible (files w)) (visible d)"
    by (simp add: interrupted_def)
qed

lemma reconcile_effect:
  assumes "reconcile_match_lock pb attempts build_dir lock_path desired mode env w = Some (r, w')"
    and "lock_apart build_dir lock_path"
  shows "kept build_dir lock_path (visible (files w)) (visible (files w'))"
proof -
  let ?J = "\<lambda>d. kept build_dir lock_path (visible (files w)) (visible d)"
  have body: "triple (\<lambda>d'. d' = d) (reconcile_match_lock_inner pb lock_path desired mode) (\<lambda>_. ?J) ?J"
    if "visible d = visible (files w)" for d
    by (rule triple_mono[OF reconcile_triple[OF assms(2), of "visible (files w)"]]) (use that in auto)
  from under_lock[OF assms(1)[unfolded reconcile_match_lock_def] body refl]
  show ?thesis by (simp split: sum.splits)
qed

section \<open>The tree invariant\<close>

text \<open>The JSON library reads back what it wrote, and writes UTF-8.\<close>

definition codec_ok :: "publisher \<Rightarrow> bool" where
  "codec_ok pb \<longleftrightarrow> (\<forall>m s. pb_manifest_to_json pb m = Inr s \<longrightarrow>
     pb_manifest_from_json pb s = Inr m \<and> utf8_valid s)"

text \<open>The current generation: the manifest the pointer holds.\<close>

definition current_manifest :: "publisher \<Rightarrow> string \<Rightarrow> file_map \<Rightarrow> build_manifest option" where
  "current_manifest pb build_dir V =
     (case V (pointer_path build_dir) of
        None \<Rightarrow> None
      | Some raw \<Rightarrow>
          if utf8_valid raw then
            (case pb_manifest_from_json pb raw of
               Inl _ \<Rightarrow> None
             | Inr m \<Rightarrow> if bm_version m = build_manifest_version then Some m else None)
          else None)"

definition entry_present :: "publisher \<Rightarrow> string \<Rightarrow> file_map \<Rightarrow> manifest_entry \<Rightarrow> bool" where
  "entry_present pb build_dir V e \<longleftrightarrow>
     (starts_with (me_path e) ''operations/'' \<or> starts_with (me_path e) ''fragments/'')
     \<and> (case V (path_join build_dir (me_path e)) of
          None \<Rightarrow> False | Some b \<Rightarrow> sha256_hex pb b = me_hash e)"

text \<open>
  A complete generation: its immutable manifest has the text of the pointer, and every entry is a
  file whose content has the hash of the entry.
\<close>

definition complete :: "publisher \<Rightarrow> string \<Rightarrow> file_map \<Rightarrow> build_manifest \<Rightarrow> bool" where
  "complete pb build_dir V m \<longleftrightarrow>
     bm_generation_id m < 2 ^ 64
     \<and> V (manifest_path_of build_dir (bm_generation_id m)) = V (pointer_path build_dir)
     \<and> (\<forall>e \<in> set (bm_operations m @ bm_fragments m). entry_present pb build_dir V e)"

definition tree_ok :: "publisher \<Rightarrow> string \<Rightarrow> file_map \<Rightarrow> bool" where
  "tree_ok pb build_dir V \<longleftrightarrow>
     V (pointer_path build_dir) = None
     \<or> (\<exists>m. current_manifest pb build_dir V = Some m \<and> complete pb build_dir V m)"

lemma current_manifest_cong:
  "V' (pointer_path build_dir) = V (pointer_path build_dir) \<Longrightarrow>
     current_manifest pb build_dir V' = current_manifest pb build_dir V"
  by (simp add: current_manifest_def)

lemma current_manifestD:
  assumes "current_manifest pb build_dir V = Some m"
  obtains raw where "V (pointer_path build_dir) = Some raw" and "pb_manifest_from_json pb raw = Inr m"
    and "manifest_generation pb raw = Some (bm_generation_id m)"
  using assms that
  by (auto simp: current_manifest_def manifest_generation_def split: option.splits if_splits sum.splits)

text \<open>What is kept keeps the generation complete.\<close>

lemma complete_mono:
  assumes "complete pb build_dir V m" and "V (pointer_path build_dir) \<noteq> None"
    and "V' (pointer_path build_dir) = V (pointer_path build_dir)"
    and "V' (manifest_path_of build_dir (bm_generation_id m))
        = V (manifest_path_of build_dir (bm_generation_id m))"
    and "\<And>e. e \<in> set (bm_operations m @ bm_fragments m) \<Longrightarrow>
        V' (path_join build_dir (me_path e)) = V (path_join build_dir (me_path e))"
  shows "complete pb build_dir V' m"
  using assms by (auto simp: complete_def entry_present_def)

lemma tree_ok_kept:
  assumes apart: "lock_apart build_dir lock_path" and K: "kept build_dir lock_path V V'"
    and ok: "tree_ok pb build_dir V"
  shows "tree_ok pb build_dir V'"
proof (cases "V (pointer_path build_dir)")
  case None
  with K show ?thesis by (simp add: tree_ok_def kept_def)
next
  case (Some raw)
  with ok obtain m where m: "current_manifest pb build_dir V = Some m" "complete pb build_dir V m"
    by (auto simp: tree_ok_def)
  have same: "V' (path_join build_dir x) = V (path_join build_dir x)"
    if "V (path_join build_dir x) \<noteq> None" for x
    using K that lock_apart_join[OF apart] by (simp add: kept_def)
  have "complete pb build_dir V' m"
  proof (rule complete_mono[OF m(2)])
    fix e assume "e \<in> set (bm_operations m @ bm_fragments m)"
    with m(2) have "entry_present pb build_dir V e" by (simp add: complete_def)
    then show "V' (path_join build_dir (me_path e)) = V (path_join build_dir (me_path e))"
      by (intro same) (auto simp: entry_present_def split: option.splits)
  qed (use Some same m(2) in \<open>simp_all add: complete_def\<close>)
  moreover have "current_manifest pb build_dir V' = Some m"
    using m(1) current_manifest_cong[of V' build_dir V pb] K by (simp add: kept_def)
  ultimately show ?thesis by (auto simp: tree_ok_def)
qed

text \<open>A commit makes its generation current and complete.\<close>

lemma manifest_for_entries:
  "set (bm_operations (manifest_for snapshot i) @ bm_fragments (manifest_for snapshot i))
     = manifest_entry_of ` set (gs_artifacts snapshot)"
proof -
  have "sa_family a = FamilyOperation \<or> sa_family a = FamilyFragment" for a
    by (cases "sa_family a") simp_all
  then show ?thesis unfolding manifest_for_def by (simp, blast)
qed

lemma committed_current:
  assumes codec: "codec_ok pb" and hashes: "hashes_ok pb snapshot"
    and C: "committed pb build_dir lock_path snapshot i V V'"
  shows "current_manifest pb build_dir V' = Some (manifest_for snapshot i)"
    and "complete pb build_dir V' (manifest_for snapshot i)"
    and "a \<in> set (gs_artifacts snapshot) \<Longrightarrow> V' (artifact_path build_dir a) = Some (sa_serialized a)"
proof -
  from C obtain W s where W: "prepared build_dir lock_path V (set (gs_artifacts snapshot)) W"
    and s: "pb_manifest_to_json pb (manifest_for snapshot i) = Inr s" and i: "i < 2 ^ 64"
    and V': "V' = W(manifest_path_of build_dir i \<mapsto> s, pointer_path build_dir \<mapsto> s)"
    by (auto simp: committed_def)
  from codec s have reads: "pb_manifest_from_json pb s = Inr (manifest_for snapshot i)" "utf8_valid s"
    by (auto simp: codec_ok_def)
  then show "current_manifest pb build_dir V' = Some (manifest_for snapshot i)"
    by (simp add: current_manifest_def V' manifest_for_def)
  show present: "V' (artifact_path build_dir a) = Some (sa_serialized a)"
    if "a \<in> set (gs_artifacts snapshot)" for a
    using W that by (simp add: V' prepared_def artifact_not_manifest)
  have "entry_present pb build_dir V' (manifest_entry_of a)" if a: "a \<in> set (gs_artifacts snapshot)" for a
  proof -
    have "starts_with (artifact_file_name (sa_family a) (sa_name a) (sa_hash a)) ''operations/''
        \<or> starts_with (artifact_file_name (sa_family a) (sa_name a) (sa_hash a)) ''fragments/''"
      by (cases "sa_family a") (simp_all add: artifact_file_name_def starts_with_iff)
    moreover have "sha256_hex pb (sa_serialized a) = sa_hash a"
      using hashes a by (simp add: hashes_ok_def list_all_iff)
    ultimately show ?thesis
      using present[OF a] by (simp add: entry_present_def manifest_entry_of_def)
  qed
  then show "complete pb build_dir V' (manifest_for snapshot i)"
    unfolding complete_def manifest_for_entries using i
    by (simp add: V' manifest_for_def generation_manifest_not_pointer)
qed

text \<open>A committed identity is larger than that of the generation it replaces.\<close>

lemma committed_larger:
  assumes "committed pb build_dir lock_path snapshot i V V'" and "tree_ok pb build_dir V"
    and "current_manifest pb build_dir V = Some m"
  shows "bm_generation_id m < i"
proof -
  from assms(3) obtain raw where "V (pointer_path build_dir) = Some raw" by (rule current_manifestD)
  with assms(2,3) have "bm_generation_id m < 2 ^ 64"
    "V (manifest_path_of build_dir (bm_generation_id m)) \<noteq> None"
    by (auto simp: tree_ok_def complete_def)
  with assms(1) show ?thesis by (auto simp: committed_def)
qed

text \<open>Pruning keeps the current generation complete.\<close>

lemma retained_not_removable:
  assumes "path \<in> retained_paths pb build_dir V (pg_generation_id published)
      \<or> path \<in> predecessor_paths pb build_dir V (pg_predecessor published)"
    and "starts_with path ''operations/'' \<or> starts_with path ''fragments/''"
  shows "\<not> removable pb build_dir published V (path_join build_dir path)"
proof -
  have "path \<noteq> generation_manifest_file j" for j
    using assms(2) by (auto simp: generation_manifest_file_def starts_with_iff)
  with assms(1) show ?thesis by (auto simp: removable_def)
qed

lemma pointer_not_removable: "\<not> removable pb build_dir published V (pointer_path build_dir)"
proof -
  have "manifest_file \<noteq> family @ ''/'' @ name" if "family \<in> {''operations'', ''fragments''}" for family name
    using that by (auto simp: manifest_file_def)
  then show ?thesis
    using generation_manifest_not_pointer[symmetric] unfolding removable_def by auto
qed

lemma pruned_same:
  "pruned pb build_dir published V V' \<Longrightarrow> \<not> removable pb build_dir published V path \<Longrightarrow> V' path = V path"
  by (auto simp: pruned_def)

lemma manifest_not_removable:
  assumes "i = pg_generation_id published \<or> Some i = pg_predecessor published"
  shows "\<not> removable pb build_dir published V (manifest_path_of build_dir i)"
proof -
  have "generation_manifest_file i \<noteq> family @ ''/'' @ name" if "family \<in> {''operations'', ''fragments''}" for family name
    using that by (auto simp: generation_manifest_file_def)
  with assms show ?thesis unfolding removable_def by auto
qed

lemma tree_ok_pruned:
  assumes P: "pruned pb build_dir published V V'" and ok: "tree_ok pb build_dir V"
  shows "tree_ok pb build_dir V'"
    and "current_manifest pb build_dir V' = current_manifest pb build_dir V"
proof -
  have pointer: "V' (pointer_path build_dir) = V (pointer_path build_dir)"
    using pruned_same[OF P pointer_not_removable] .
  then show current: "current_manifest pb build_dir V' = current_manifest pb build_dir V"
    by (rule current_manifest_cong)
  show "tree_ok pb build_dir V'"
  proof (cases "V (pointer_path build_dir)")
    case None
    with pointer show ?thesis by (simp add: tree_ok_def)
  next
    case (Some raw)
    with ok obtain m where m: "current_manifest pb build_dir V = Some m" "complete pb build_dir V m"
      by (auto simp: tree_ok_def)
    from m(1) Some have json: "pb_manifest_from_json pb raw = Inr m"
      "manifest_generation pb raw = Some (bm_generation_id m)"
      by (auto elim: current_manifestD)
    have keep: "V' path = V path" if "path = manifest_path_of build_dir (bm_generation_id m)
        \<or> (\<exists>e \<in> set (bm_operations m @ bm_fragments m). path = path_join build_dir (me_path e))" for path
    proof (cases "pg_generation_id published = bm_generation_id m")
      case True
      have paths: "retained_paths pb build_dir V (bm_generation_id m)
          = me_path ` set (bm_operations m @ bm_fragments m)"
        using m(2) Some json(1)
        by (simp add: retained_paths_def complete_def manifest_paths_def image_Un)
      have artifact: "starts_with (me_path e) ''operations/'' \<or> starts_with (me_path e) ''fragments/''"
        if "e \<in> set (bm_operations m @ bm_fragments m)" for e
        using m(2) that by (simp add: complete_def entry_present_def)
      have entries: "\<not> removable pb build_dir published V (path_join build_dir (me_path e))"
        if "e \<in> set (bm_operations m @ bm_fragments m)" for e
        by (rule retained_not_removable[OF disjI1 artifact[OF that]])
           (simp only: True paths imageI[OF that])
      have "\<not> removable pb build_dir published V (manifest_path_of build_dir (bm_generation_id m))"
        by (rule manifest_not_removable) (simp add: True)
      with that entries have "\<not> removable pb build_dir published V path" by (elim disjE bexE) simp_all
      then show ?thesis by (rule pruned_same[OF P])
    next
      case False
      with Some json(2) have "\<not> removable pb build_dir published V path" by (simp add: removable_def)
      then show ?thesis by (rule pruned_same[OF P])
    qed
    have "complete pb build_dir V' m"
      by (rule complete_mono[OF m(2)]) (use Some pointer keep in auto)
    with current m(1) show ?thesis by (auto simp: tree_ok_def)
  qed
qed

section \<open>Reachable trees\<close>

text \<open>
  One step of any process: it begins with any counter and number of operations, under any
  environment, and ends in any way, death included. The processes share the libraries, the build
  directory and the path of the match lock.
\<close>

inductive build_step ::
  "publisher \<Rightarrow> string \<Rightarrow> string \<Rightarrow> (string \<times> string) list \<Rightarrow> (string \<times> string) list \<Rightarrow> bool"
  for pb build_dir lock_path
where
  publish_step: "publish_with_deadline (pb\<lparr>pb_process_id := p\<rparr>) attempts build_dir lock_path snapshot
      mode wait env w = Some (r, w') \<Longrightarrow> hashes_ok pb snapshot \<Longrightarrow>
    build_step pb build_dir lock_path (fs_files w) (fs_files w')"
| reconcile_step: "reconcile_match_lock (pb\<lparr>pb_process_id := p\<rparr>) attempts build_dir lock_path desired
      mode env w = Some (s, w') \<Longrightarrow>
    build_step pb build_dir lock_path (fs_files w) (fs_files w')"
| prune_step: "prune (pb\<lparr>pb_process_id := p\<rparr>) attempts build_dir published env w = Some w' \<Longrightarrow>
    build_step pb build_dir lock_path (fs_files w) (fs_files w')"

text \<open>Build trees begin without a pointer; whatever else the directory holds does not matter.\<close>

inductive build_tree :: "publisher \<Rightarrow> string \<Rightarrow> string \<Rightarrow> (string \<times> string) list \<Rightarrow> bool"
  for pb build_dir lock_path
where
  unpublished: "map_of fs (pointer_path build_dir) = None \<Longrightarrow> build_tree pb build_dir lock_path fs"
| later: "build_tree pb build_dir lock_path fs \<Longrightarrow> build_step pb build_dir lock_path fs fs' \<Longrightarrow>
    build_tree pb build_dir lock_path fs'"

abbreviation tree :: "(string \<times> string) list \<Rightarrow> file_map" where
  "tree fs \<equiv> visible (map_of fs)"

lemma process_id_irrelevant [simp]:
  "codec_ok (pb\<lparr>pb_process_id := p\<rparr>) = codec_ok pb"
  "hashes_ok (pb\<lparr>pb_process_id := p\<rparr>) snapshot = hashes_ok pb snapshot"
  "current_manifest (pb\<lparr>pb_process_id := p\<rparr>) build_dir V = current_manifest pb build_dir V"
  "tree_ok (pb\<lparr>pb_process_id := p\<rparr>) build_dir V = tree_ok pb build_dir V"
  by (simp_all add: codec_ok_def hashes_ok_def sha256_hex_def current_manifest_def tree_ok_def
      complete_def entry_present_def cong: option.case_cong sum.case_cong if_cong)

lemma interrupted_tree:
  assumes codec: "codec_ok pb" and apart: "lock_apart build_dir lock_path"
    and hashes: "hashes_ok pb snapshot" and ok: "tree_ok pb build_dir V"
    and I: "interrupted pb build_dir lock_path snapshot V V'"
  shows "tree_ok pb build_dir V'"
    and "current_manifest pb build_dir V' = current_manifest pb build_dir V
      \<or> (\<exists>i. current_manifest pb build_dir V' = Some (manifest_for snapshot i)
           \<and> (\<forall>m. current_manifest pb build_dir V = Some m \<longrightarrow> bm_generation_id m < i))"
proof -
  have "tree_ok pb build_dir V' \<and> (current_manifest pb build_dir V' = current_manifest pb build_dir V
      \<or> (\<exists>i. current_manifest pb build_dir V' = Some (manifest_for snapshot i)
           \<and> (\<forall>m. current_manifest pb build_dir V = Some m \<longrightarrow> bm_generation_id m < i)))"
    using I unfolding interrupted_def
  proof (elim disjE exE)
    assume K: "kept build_dir lock_path V V'"
    then show ?thesis
      using tree_ok_kept[OF apart K ok] current_manifest_cong[of V' build_dir V pb]
      by (simp add: kept_def)
  next
    fix i assume C: "committed pb build_dir lock_path snapshot i V V'"
    show ?thesis
      using committed_current(1,2)[OF codec hashes C] committed_larger[OF C ok]
      by (auto simp: tree_ok_def)
  qed
  then show "tree_ok pb build_dir V'"
    and "current_manifest pb build_dir V' = current_manifest pb build_dir V
      \<or> (\<exists>i. current_manifest pb build_dir V' = Some (manifest_for snapshot i)
           \<and> (\<forall>m. current_manifest pb build_dir V = Some m \<longrightarrow> bm_generation_id m < i))"
    by blast+
qed

text \<open>The abstract current generation: it stays, or a generation with a larger identity replaces it.\<close>

inductive generation_step :: "build_manifest option \<Rightarrow> build_manifest option \<Rightarrow> bool" where
  stays: "generation_step c c"
| replaced: "(\<And>m. c = Some m \<Longrightarrow> bm_generation_id m < bm_generation_id m') \<Longrightarrow> generation_step c (Some m')"

lemma build_step_simulates:
  assumes codec: "codec_ok pb" and apart: "lock_apart build_dir lock_path"
    and ok: "tree_ok pb build_dir (tree fs)" and step: "build_step pb build_dir lock_path fs fs'"
  shows "tree_ok pb build_dir (tree fs')
    \<and> generation_step (current_manifest pb build_dir (tree fs)) (current_manifest pb build_dir (tree fs'))"
  using step
proof (cases rule: build_step.cases)
  case (publish_step p attempts snapshot mode wait env w r w')
  let ?pb = "pb\<lparr>pb_process_id := p\<rparr>"
  from publish_effect[OF publish_step(3) apart] publish_step(4)
  have "interrupted ?pb build_dir lock_path snapshot (tree fs) (tree fs')"
    unfolding publish_step(1,2) files_def[symmetric]
    by (cases r) (auto simp: interrupted_def)
  from interrupted_tree[OF _ apart _ _ this] codec publish_step(4) ok
  have "tree_ok pb build_dir (tree fs')"
    "current_manifest pb build_dir (tree fs') = current_manifest pb build_dir (tree fs)
      \<or> (\<exists>i. current_manifest pb build_dir (tree fs') = Some (manifest_for snapshot i)
           \<and> (\<forall>m. current_manifest pb build_dir (tree fs) = Some m \<longrightarrow> bm_generation_id m < i))"
    by simp_all
  moreover have "bm_generation_id (manifest_for snapshot i) = i" for i
    by (simp add: manifest_for_def)
  ultimately show ?thesis by (metis generation_step.intros)
next
  case (reconcile_step p attempts desired mode env w s w')
  from reconcile_effect[OF reconcile_step(3) apart]
  have K: "kept build_dir lock_path (tree fs) (tree fs')"
    unfolding reconcile_step(1,2) files_def .
  show ?thesis
    using tree_ok_kept[OF apart K ok] current_manifest_cong[of "tree fs'" build_dir "tree fs" pb] K
    by (simp add: kept_def stays)
next
  case (prune_step p attempts published env w w')
  from prune_effect[OF prune_step(3)]
  have P: "pruned (pb\<lparr>pb_process_id := p\<rparr>) build_dir published (tree fs) (tree fs')"
    unfolding prune_step(1,2) files_def .
  from tree_ok_pruned[OF P] ok show ?thesis by (simp add: stays)
qed

lemma unpublished_tree_ok:
  "map_of fs (pointer_path build_dir) = None \<Longrightarrow> tree_ok pb build_dir (tree fs)"
  by (simp add: tree_ok_def visible_def)

lemma build_tree_ok:
  assumes "codec_ok pb" and "lock_apart build_dir lock_path" and "build_tree pb build_dir lock_path fs"
  shows "tree_ok pb build_dir (tree fs)"
  using assms(3)
proof (induction rule: build_tree.induct)
  case (unpublished fs)
  then show ?case by (rule unpublished_tree_ok)
next
  case (later fs fs')
  then show ?case using build_step_simulates[OF assms(1,2)] by blast
qed

section \<open>Properties\<close>

text \<open>
  C3: The tree invariant. After any sequence of publications, reconciliations and prunings by any
  processes, each failing or dying at any operation, the pointer is absent or names a complete
  generation: its immutable manifest is on disk with the same text, and every artifact it lists is
  a file with the recorded hash.
\<close>

theorem reachable_trees_complete:
  assumes "codec_ok pb" and "lock_apart build_dir lock_path" and "build_tree pb build_dir lock_path fs"
  shows "tree_ok pb build_dir (tree fs)"
  using assms by (rule build_tree_ok)

text \<open>
  C11: Refinement. Every step of a build tree is a step of the abstract current generation: it stays
  as it is or is replaced, at once, by one with a larger identity.
\<close>

theorem build_step_refines:
  assumes "codec_ok pb" and "lock_apart build_dir lock_path" and "build_tree pb build_dir lock_path fs"
    and "build_step pb build_dir lock_path fs fs'"
  shows "generation_step (current_manifest pb build_dir (tree fs)) (current_manifest pb build_dir (tree fs'))"
  using build_step_simulates[OF assms(1,2) build_tree_ok[OF assms(1-3)] assms(4)] by blast

text \<open>
  C30: A publication that returns has made the generation it reports current, with the manifest of
  its snapshot and every artifact on disk with exactly its serialized text; one that fails or dies
  leaves the current generation as it was or has replaced it with a complete new one.
\<close>

theorem publish_correct:
  assumes "codec_ok pb" and "lock_apart build_dir lock_path" and "hashes_ok pb snapshot"
    and "tree_ok pb build_dir (tree (fs_files w))"
    and "publish pb attempts build_dir lock_path snapshot mode env w = Some (r, w')"
  shows "case r of
      Inr g \<Rightarrow>
        current_manifest pb build_dir (tree (fs_files w')) = Some (manifest_for snapshot (pg_generation_id g))
        \<and> list_all (\<lambda>a. tree (fs_files w') (artifact_path build_dir a) = Some (sa_serialized a))
            (gs_artifacts snapshot)
    | Inl _ \<Rightarrow>
        current_manifest pb build_dir (tree (fs_files w')) = current_manifest pb build_dir (tree (fs_files w))
        \<or> (\<exists>i. current_manifest pb build_dir (tree (fs_files w')) = Some (manifest_for snapshot i)
             \<and> tree_ok pb build_dir (tree (fs_files w')))"
proof -
  note effect = publish_effect[OF assms(5)[unfolded publish_def] assms(2,3), unfolded files_def]
  show ?thesis
  proof (cases r)
    case (Inl e)
    with effect have I: "interrupted pb build_dir lock_path snapshot (tree (fs_files w)) (tree (fs_files w'))"
      by simp
    from interrupted_tree[OF assms(1-4) I] show ?thesis by (auto simp: Inl)
  next
    case (Inr g)
    with effect have "committed pb build_dir lock_path snapshot (pg_generation_id g)
        (tree (fs_files w)) (tree (fs_files w'))" by simp
    from committed_current[OF assms(1,3) this] show ?thesis by (simp add: Inr list_all_iff)
  qed
qed

text \<open>
  C31: Pruning, however it ends, never touches what readers may still use: the pointer, the manifests
  of the published generation and of its recorded predecessor, and every file either refers to.
\<close>

theorem prune_keeps_retained:
  assumes "prune pb attempts build_dir published env w = Some w'"
    and "i = pg_generation_id published \<or> Some i = pg_predecessor published"
    and "tree (fs_files w) (manifest_path_of build_dir i) = Some raw"
    and "pb_manifest_from_json pb raw = Inr m"
    and "e \<in> set (bm_operations m @ bm_fragments m)"
    and "starts_with (me_path e) ''operations/'' \<or> starts_with (me_path e) ''fragments/''"
  shows "tree (fs_files w') (manifest_path_of build_dir i) = Some raw
    \<and> tree (fs_files w') (pointer_path build_dir) = tree (fs_files w) (pointer_path build_dir)
    \<and> tree (fs_files w') (path_join build_dir (me_path e)) = tree (fs_files w) (path_join build_dir (me_path e))"
proof (intro conjI)
  note P = prune_effect[OF assms(1), unfolded files_def]
  show "tree (fs_files w') (manifest_path_of build_dir i) = Some raw"
    using pruned_same[OF P manifest_not_removable[OF assms(2)]] assms(3) by simp
  show "tree (fs_files w') (pointer_path build_dir) = tree (fs_files w) (pointer_path build_dir)"
    by (rule pruned_same[OF P pointer_not_removable])
  have "me_path e \<in> retained_paths pb build_dir (tree (fs_files w)) i"
    using assms(3-5) by (auto simp: retained_paths_def manifest_paths_def)
  with assms(2) have "me_path e \<in> retained_paths pb build_dir (tree (fs_files w)) (pg_generation_id published)
      \<or> me_path e \<in> predecessor_paths pb build_dir (tree (fs_files w)) (pg_predecessor published)"
    by (auto simp: predecessor_paths_def split: option.splits)
  from pruned_same[OF P retained_not_removable[OF this assms(6)]]
  show "tree (fs_files w') (path_join build_dir (me_path e)) = tree (fs_files w) (path_join build_dir (me_path e))" .
qed

end
