(* ===== verification/Publish_Live.thy ===== *)
theory Publish_Live
  imports Publish_Tree
begin

text \<open>
  Progress of publication: the wait for the lock ends, so every operation on a build tree returns,
  and a publication that nothing disturbs succeeds. The conditions of success are what the code
  itself turns into errors: a match lock of a newer version, values that do not serialize, different
  bytes at an address, temporary files left behind by a process of the same identity, and
  identities at the end of their range.
\<close>

section \<open>The wait ends\<close>

text \<open>Every failed attempt is followed by a pause, so the deadline passes.\<close>

lemma wait_returns:
  assumes "\<And>k. la_time attempts k + lock_poll \<le> la_time attempts (Suc k)"
  shows "\<exists>r. wait_for_lock attempts wait lock_path k = Some r"
proof (induction "wait - la_time attempts k" arbitrary: k rule: less_induct)
  case less
  show ?case
  proof (cases "la_answer attempts k = LockWouldBlock \<and> la_time attempts k < wait")
    case True
    moreover have "0 < lock_poll" by (simp add: lock_poll_def)
    ultimately have "wait - la_time attempts (Suc k) < wait - la_time attempts k"
      using assms[of k] by linarith
    from less[OF this] True show ?thesis by (subst wait_for_lock.simps) simp
  next
    case False
    then show ?thesis by (subst wait_for_lock.simps) (auto split: lock_answer.split)
  qed
qed

lemma with_lock_returns:
  assumes "\<And>k. la_time attempts k + lock_poll \<le> la_time attempts (Suc k)"
  shows "\<exists>r w'. with_publication_lock attempts build_dir wait body env w = Some (r, w')"
proof -
  from wait_returns[where attempts = attempts, OF assms] obtain r
    where "wait_for_lock attempts wait (path_join build_dir lock_file) 0 = Some r" by blast
  then show ?thesis
    unfolding with_publication_lock_def
    by (cases "acquire_lock build_dir env w"; cases "fst (acquire_lock build_dir env w)"; cases r;
        cases "body env (snd (acquire_lock build_dir env w))") auto
qed

text \<open>
  C32: Nothing waits for ever. When failed attempts look at the clock at least a pause apart,
  publication, reconciliation and pruning return, whatever the lock answers and whatever happens
  to the file system.
\<close>

theorem publication_returns:
  assumes "\<And>k. la_time attempts k + lock_poll \<le> la_time attempts (Suc k)"
  shows "(\<exists>r w'. publish_with_deadline pb attempts build_dir lock_path snapshot mode wait env w = Some (r, w'))
    \<and> (\<exists>r w'. reconcile_match_lock pb attempts build_dir lock_path desired mode env w = Some (r, w'))
    \<and> (\<exists>w'. prune pb attempts build_dir published env w = Some w')"
  unfolding publish_with_deadline_def reconcile_match_lock_def prune_def
  using with_lock_returns[where attempts = attempts, OF assms] by (metis option.simps(9))

section \<open>Programs that succeed when every operation does\<close>

definition achieves :: "(file_map \<Rightarrow> bool) \<Rightarrow> ('e, 'a) program \<Rightarrow> ('a \<Rightarrow> file_map \<Rightarrow> bool) \<Rightarrow> bool" where
  "achieves P c Q \<longleftrightarrow> (\<forall>w. P (files w) \<longrightarrow> (\<exists>x w'. c (\<lambda>_. Proceed) w = (Inr x, w') \<and> Q x (files w')))"

lemma achievesD:
  assumes "achieves P c Q" and "P (files w)"
  obtains x w' where "c (\<lambda>_. Proceed) w = (Inr x, w')" and "Q x (files w')"
  using assms unfolding achieves_def by blast

lemma total_return: "(\<And>d. P d \<Longrightarrow> Q x d) \<Longrightarrow> achieves P (preturn x) Q"
  by (simp add: achieves_def preturn_def)

lemma total_bind:
  assumes "achieves P c R" and "\<And>x. achieves (R x) (f x) Q"
  shows "achieves P (pbind c f) Q"
  unfolding achieves_def
proof (intro allI impI)
  fix w assume "P (files w)"
  with assms(1) obtain x w1 where c: "c (\<lambda>_. Proceed) w = (Inr x, w1)" "R x (files w1)"
    by (rule achievesD)
  from achievesD[OF assms(2) c(2)] obtain y w2 where "f x (\<lambda>_. Proceed) w1 = (Inr y, w2)" "Q y (files w2)" .
  with c(1) show "\<exists>y w'. pbind c f (\<lambda>_. Proceed) w = (Inr y, w') \<and> Q y (files w')"
    by (simp add: pbind_def)
qed

lemma total_handle: "achieves P c Q \<Longrightarrow> achieves P (phandle c h) Q"
  unfolding achieves_def phandle_def by fastforce

lemma total_map_err: "achieves P c Q \<Longrightarrow> achieves P (map_err f c) Q"
  unfolding map_err_def by (rule total_handle)

lemma total_lift: "(\<And>d. P d \<Longrightarrow> \<exists>x. r = Inr x \<and> Q x d) \<Longrightarrow> achieves P (plift r) Q"
  by (cases r) (auto simp: plift_def achieves_def praise_def preturn_def)

lemma total_mono:
  "achieves P c Q \<Longrightarrow> (\<And>d. P' d \<Longrightarrow> P d) \<Longrightarrow> (\<And>x d. Q x d \<Longrightarrow> Q' x d) \<Longrightarrow> achieves P' c Q'"
  unfolding achieves_def by blast

text \<open>What holds whenever a program returns holds when it does.\<close>

lemma total_triple:
  assumes "achieves P c Q" and "triple P c R J"
  shows "achieves P c (\<lambda>x d. Q x d \<and> R x d)"
  unfolding achieves_def
proof (intro allI impI)
  fix w assume w: "P (files w)"
  with assms(1) obtain x w' where c: "c (\<lambda>_. Proceed) w = (Inr x, w')" "Q x (files w')" by (rule achievesD)
  from tripleD[OF assms(2) w c(1)] c
  show "\<exists>x w'. c (\<lambda>_. Proceed) w = (Inr x, w') \<and> Q x (files w') \<and> R x (files w')" by auto
qed

lemma total_and:
  "achieves (\<lambda>d. P d \<and> F) c Q \<Longrightarrow> achieves (\<lambda>d. P d \<and> F) c (\<lambda>x d. Q x d \<and> F)"
  unfolding achieves_def by blast

lemma total_nothing: "achieves P fs_nothing (\<lambda>_. P)"
  by (simp add: achieves_def fs_nothing_def operation_def files_def Let_def)

lemma total_try_read:
  "achieves P (ptry (fs_read path)) (\<lambda>r d. P d
     \<and> r = (case d path of None \<Rightarrow> Inl NotFound | Some b \<Rightarrow> Inr b))"
  by (simp add: achieves_def ptry_def phandle_def pbind_def preturn_def fs_read_def operation_def
      files_def Let_def split: option.splits)

lemma total_exists: "achieves P (fs_exists path) (\<lambda>b d. P d \<and> b = (d path \<noteq> None))"
  by (simp add: achieves_def fs_exists_def phandle_def operation_def files_def Let_def)

lemma total_list:
  "achieves P (fs_list dir) (\<lambda>names d. P d
     \<and> (\<forall>name \<in> set names. \<exists>path. d path \<noteq> None \<and> child_name dir path = Some name))"
proof -
  have "\<exists>path. map_of fs path \<noteq> None \<and> child_name dir path = Some name"
    if "name \<in> set (List.map_filter (\<lambda>(path, _). child_name dir path) fs)" for fs name
  proof -
    from that obtain path b where "(path, b) \<in> set fs" "child_name dir path = Some name"
      by (auto simp: map_filter_def split: option.splits)
    then show ?thesis by (metis domIff map_of_eq_None_iff fst_conv image_eqI)
  qed
  then show ?thesis
    unfolding achieves_def fs_list_def operation_def files_def Let_def by (simp, blast)
qed

lemma total_remove:
  "achieves (\<lambda>d. d = D \<and> D path \<noteq> None) (fs_remove path) (\<lambda>_ d. d = D(path := None))"
  by (auto simp: achieves_def fs_remove_def operation_def files_def Let_def delete_conv')

section \<open>A publication that nothing disturbs\<close>

text \<open>No temporary file of this process exists.\<close>

definition no_temps :: "publisher \<Rightarrow> file_map \<Rightarrow> bool" where
  "no_temps pb d \<longleftrightarrow> (\<forall>path n. d (temp_path pb path n) = None)"

lemma no_temps_update: "no_temps pb d \<Longrightarrow> \<not> hidden path \<Longrightarrow> no_temps pb (d(path := x))"
  using temp_path_hidden by (auto simp: no_temps_def)

lemma lock_not_temp: "path_join build_dir lock_file \<noteq> temp_path pb path n"
proof -
  have "last (path_join build_dir lock_file) = CHR ''k''" by (simp add: path_join_def lock_file_def)
  moreover have "last (temp_path pb path n) \<in> set (dec_string n)"
    using dec_string_nonempty[of n] by (simp add: temp_path_def)
  moreover have "CHR ''k'' \<notin> set (dec_string n)" using dec_string_digits[of n] by auto
  ultimately show ?thesis by metis
qed

lemma total_write_and_rename:
  "achieves (\<lambda>d. d = D \<and> D temp = None) (write_and_rename temp path content)
     (\<lambda>_ d. d = D(path \<mapsto> content))"
proof -
  have "D(temp := None, path \<mapsto> content) = D(path \<mapsto> content)" if "D temp = None" for D :: file_map
    using that by auto
  then show ?thesis
    by (auto simp: achieves_def write_and_rename_def sync_parent_def pbind_def fs_create_new_def
        fs_write_all_def fs_nothing_def fs_rename_def renamed_def operation_def files_def Let_def
        update_conv' delete_conv')
qed

lemma total_atomic_write:
  "achieves (\<lambda>d. d = D \<and> no_temps pb D) (atomic_write pb path content) (\<lambda>_ d. d = D(path \<mapsto> content))"
proof -
  let ?I = "\<lambda>d. d = D \<and> no_temps pb D"
  have counter: "achieves ?I next_counter (\<lambda>_. ?I)"
    by (simp add: achieves_def next_counter_def files_def)
  show ?thesis
    unfolding atomic_write_def Let_def
    by (rule total_bind[OF total_map_err[OF total_nothing]], rule total_bind[OF counter],
        rule total_handle, rule total_mono[OF total_write_and_rename[of D]])
       (auto simp: no_temps_def)
qed

text \<open>
  The match lock suits the desired decisions: \<open>dsql lock\<close> can write them, a locked build finds them
  accepted (the file absent when there are none).
\<close>

definition match_lock_suits ::
  "publisher \<Rightarrow> filter_match_lock \<Rightarrow> match_lock_mode \<Rightarrow> string option \<Rightarrow> bool" where
  "match_lock_suits pb desired mode existing \<longleftrightarrow>
     (case mode of
        ModeUpdate \<Rightarrow> lock_is_empty desired \<or> (\<exists>s. lock_to_yaml (pb_yaml pb) desired = Inr s)
      | ModeLocked \<Rightarrow>
          if lock_is_empty desired then existing = None
          else (\<exists>raw. existing = Some raw \<and> utf8_valid raw
             \<and> lock_from_yaml (pb_yaml pb) raw = Inr desired))"

lemma check_locked_suits:
  "(\<exists>status. check_locked pb lock_path desired existing = Inr status)
     \<longleftrightarrow> match_lock_suits pb desired ModeLocked existing"
  by (auto simp: check_locked_def match_lock_suits_def split: option.splits sum.splits)

text \<open>The match lock is brought up to date, or accepted as it is.\<close>

lemma total_reconcile:
  assumes version: "fml_version desired = filter_match_lock_version"
    and older: "\<And>raw. D lock_path = Some raw \<Longrightarrow> newer_match_lock_version pb raw = None"
    and suits: "match_lock_suits pb desired mode (D lock_path)"
  shows "achieves (\<lambda>d. d = D \<and> no_temps pb D) (reconcile_match_lock_inner pb lock_path desired mode)
     (\<lambda>_ d. \<exists>x. d = D(lock_path := x))"
proof -
  let ?I = "\<lambda>d. d = D \<and> no_temps pb D" and ?Q = "\<lambda>_ d. \<exists>x. d = D(lock_path := x)"
  have I_Q: "?Q u d" if "?I d" for u d using that by (intro exI[of _ "D lock_path"]) simp
  have read: "achieves ?I (read_match_lock lock_path) (\<lambda>existing d. ?I d \<and> existing = D lock_path)"
    unfolding read_match_lock_def
    by (rule total_bind[OF total_try_read])
       (auto simp: achieves_def preturn_def praise_def split: option.splits)
  have sync: "achieves P (map_err f sync_parent) (\<lambda>_. P)" for P f
    unfolding sync_parent_def by (rule total_map_err, rule total_bind[OF total_nothing total_nothing])
  have update: "achieves ?I (update_match_lock pb lock_path desired (D lock_path)) ?Q"
    if "mode = ModeUpdate"
  proof (cases "lock_is_empty desired")
    case True
    show ?thesis
    proof (cases "D lock_path")
      case None
      with True I_Q show ?thesis
        by (auto simp: update_match_lock_def intro!: total_return)
    next
      case (Some b)
      have "achieves ?I (map_err (\<lambda>_. GenWrite lock_path) (fs_remove lock_path))
          (\<lambda>_ d. d = D(lock_path := None))"
        by (rule total_map_err, rule total_mono[OF total_remove[of D]]) (use Some in auto)
      with True Some show ?thesis
        unfolding update_match_lock_def
        by (auto intro!: total_bind[where R = "\<lambda>_ d. d = D(lock_path := None)"] sync total_return)
    qed
  next
    case False
    with suits that obtain s where s: "lock_to_yaml (pb_yaml pb) desired = Inr s"
      by (auto simp: match_lock_suits_def)
    have pure: "achieves ?I (plift (Inr s)) (\<lambda>s' d. ?I d \<and> s' = s)" by (rule total_lift) simp
    have store: "achieves ?I (if changed then atomic_write pb lock_path s else preturn ()) ?Q" for changed
      using total_mono[OF total_atomic_write[of D pb lock_path s], of ?I ?Q] I_Q
      by (auto intro: total_return)
    have rest: "achieves (\<lambda>d. ?I d \<and> s' = s)
        (let changed = D lock_path \<noteq> Some s' in
          pbind (if changed then atomic_write pb lock_path s' else preturn ()) (\<lambda>_.
            preturn \<lparr>mls_changed = changed, mls_content_hash = Some (sha256_hex pb s')\<rparr>)) ?Q" for s'
    proof (cases "s' = s")
      case True
      show ?thesis unfolding Let_def True
        by (rule total_bind[where R = ?Q], rule total_mono[OF store]) (auto intro: total_return)
    qed (simp add: achieves_def)
    show ?thesis
      unfolding update_match_lock_def using False s by (simp add: total_bind[OF pure rest])
  qed
  have accept: "achieves ?I (plift (check_locked pb lock_path desired (D lock_path))) ?Q"
    if "mode = ModeLocked"
    using suits that check_locked_suits[of pb lock_path desired "D lock_path"]
    by (intro total_lift) (use I_Q in blast)
  have not_newer: "(case D lock_path of None \<Rightarrow> None | Some bytes \<Rightarrow> newer_match_lock_version pb bytes) = None"
    using older by (simp split: option.split)
  have after: "achieves (\<lambda>d. ?I d \<and> existing = D lock_path)
      (case (case existing of None \<Rightarrow> None | Some bytes \<Rightarrow> newer_match_lock_version pb bytes) of
         Some version \<Rightarrow> praise (GenMatchLock lock_path (''version '' @ dec_string version
           @ '' is newer than supported version '' @ dec_string filter_match_lock_version
           @ ''; refusing to overwrite it''))
       | None \<Rightarrow> (case mode of
           ModeUpdate \<Rightarrow> update_match_lock pb lock_path desired existing
         | ModeLocked \<Rightarrow> plift (check_locked pb lock_path desired existing))) ?Q" for existing
  proof (cases "existing = D lock_path")
    case True
    have "achieves ?I (case mode of
        ModeUpdate \<Rightarrow> update_match_lock pb lock_path desired (D lock_path)
      | ModeLocked \<Rightarrow> plift (check_locked pb lock_path desired (D lock_path))) ?Q"
      using update accept by (cases mode) simp_all
    then show ?thesis unfolding not_newer True option.case by (rule total_mono) auto
  qed (simp add: achieves_def)
  show ?thesis
    unfolding reconcile_match_lock_inner_def using version
    by (simp only: if_False not_True_eq_False simp_thms) (rule total_bind[OF read after])
qed

text \<open>Identities: the scan finds no other name than those on disk.\<close>

lemma total_generation_ids:
  "achieves P (generation_ids_on_disk build_dir)
     (\<lambda>ids d. P d \<and> (\<forall>i \<in> set ids. \<exists>path name. d path \<noteq> None
        \<and> child_name build_dir path = Some name \<and> manifest_id name = Some i))"
proof -
  let ?on_disk = "\<lambda>d i. \<exists>path name. d path \<noteq> None
        \<and> child_name build_dir path = Some name \<and> manifest_id name = Some i"
  let ?names = "\<lambda>names d. \<forall>name \<in> set names. \<exists>path. d path \<noteq> None \<and> child_name build_dir path = Some name"
  let ?body = "\<lambda>ids name. pbind (map_err (\<lambda>_. GenWrite build_dir) fs_nothing) (\<lambda>_.
      preturn (case manifest_id name of None \<Rightarrow> ids | Some i \<Rightarrow> ids @ [i]))"
  have loop: "achieves (\<lambda>d. P d \<and> ?names names d \<and> (\<forall>i \<in> set ids. ?on_disk d i))
      (pfold ?body ids names) (\<lambda>ids d. P d \<and> (\<forall>i \<in> set ids. ?on_disk d i))" for names ids
  proof (induction names arbitrary: ids)
    case Nil
    then show ?case by (auto intro: total_return)
  next
    case (Cons name names)
    have "achieves (\<lambda>d. P d \<and> ?names (name # names) d \<and> (\<forall>i \<in> set ids. ?on_disk d i)) (?body ids name)
        (\<lambda>ids d. P d \<and> ?names names d \<and> (\<forall>i \<in> set ids. ?on_disk d i))"
      by (rule total_bind[OF total_map_err[OF total_nothing]])
         (auto intro!: total_return split: option.splits, blast+)
    from total_bind[OF this Cons.IH] show ?case by simp
  qed
  show ?thesis
    unfolding generation_ids_on_disk_def
    by (rule total_bind[OF total_map_err[OF total_list[of P]]], rule total_mono[OF loop]) auto
qed

text \<open>Artifacts: absent, or already there with the same bytes.\<close>

lemma total_publish_artifacts:
  assumes "distinct (map (\<lambda>a. artifact_path build_dir a) artifacts)"
    and "\<And>a. a \<in> set artifacts \<Longrightarrow> \<not> hidden (artifact_path build_dir a)"
    and "\<And>a. a \<in> set artifacts \<Longrightarrow> D (artifact_path build_dir a) \<in> {None, Some (sa_serialized a)}"
  shows "achieves (\<lambda>d. d = D \<and> no_temps pb D) (pfold (publish_artifact pb build_dir) written artifacts)
     (\<lambda>_ d. no_temps pb d \<and> (\<forall>i. d (manifest_path_of build_dir i) = D (manifest_path_of build_dir i)))"
  using assms
proof (induction artifacts arbitrary: D written)
  case Nil
  then show ?case by (auto intro: total_return)
next
  case (Cons a artifacts)
  let ?path = "artifact_path build_dir a"
  let ?D = "D(?path \<mapsto> sa_serialized a)"
  have visible: "\<not> hidden ?path" using Cons.prems(2) by simp
  have one: "achieves (\<lambda>d. d = D \<and> no_temps pb D) (publish_artifact pb build_dir written a)
      (\<lambda>_ d. d = ?D \<and> no_temps pb ?D)"
  proof (cases "D ?path")
    case None
    have new: "achieves (\<lambda>d. d = D \<and> no_temps pb D) (atomic_write pb ?path (sa_serialized a))
        (\<lambda>_ d. d = ?D \<and> no_temps pb ?D)"
      by (rule total_mono[OF total_and[OF total_atomic_write[of D pb]]])
         (use no_temps_update[OF _ visible] in auto)
    show ?thesis
      unfolding publish_artifact_def Let_def
      by (rule total_bind[where R = "\<lambda>r d. (d = D \<and> no_temps pb D) \<and> r = Inl NotFound"],
          rule total_mono[OF total_try_read])
         (use None new in \<open>auto simp: achieves_def pbind_def preturn_def split: sum.splits io_kind.splits\<close>)
  next
    case (Some b)
    with Cons.prems(3)[of a] have same: "b = sa_serialized a" "?D = D" by auto
    show ?thesis
      unfolding publish_artifact_def Let_def same
      by (rule total_bind[where R = "\<lambda>r d. (d = D \<and> no_temps pb D) \<and> r = Inr (sa_serialized a)"],
          rule total_mono[OF total_try_read])
         (use Some same in \<open>auto simp: achieves_def preturn_def split: sum.splits\<close>)
  qed
  have rest: "achieves (\<lambda>d. d = ?D \<and> no_temps pb ?D) (pfold (publish_artifact pb build_dir) written' artifacts)
     (\<lambda>_ d. no_temps pb d \<and> (\<forall>i. d (manifest_path_of build_dir i) = ?D (manifest_path_of build_dir i)))"
    for written'
  proof (rule Cons.IH)
    fix b assume b: "b \<in> set artifacts"
    with Cons.prems(1) have "artifact_path build_dir b \<noteq> ?path" by (auto simp: image_iff)
    with b Cons.prems(3)[of b] show "?D (artifact_path build_dir b) \<in> {None, Some (sa_serialized b)}"
      by simp
  qed (use Cons.prems in auto)
  show ?case
    unfolding pfold.simps
    by (rule total_bind[OF one], rule total_mono[OF rest])
       (use artifact_not_manifest(1)[symmetric] in auto)
qed

lemma total_commit:
  assumes "D (manifest_path_of build_dir i) = None"
    and "pb_manifest_to_json pb (manifest_for snapshot i) = Inr s"
  shows "achieves (\<lambda>d. d = D \<and> no_temps pb D)
     (commit_generation pb build_dir snapshot status predecessor i written) (\<lambda>_ _. True)"
proof -
  let ?I = "\<lambda>d. d = D \<and> no_temps pb D" and ?m = "manifest_path_of build_dir i"
  have pure: "achieves ?I (plift (Inr s)) (\<lambda>s' d. ?I d \<and> s' = s)" by (rule total_lift) simp
  have first: "achieves ?I (atomic_write pb ?m s) (\<lambda>_ d. d = D(?m \<mapsto> s) \<and> no_temps pb (D(?m \<mapsto> s)))"
    by (rule total_mono[OF total_and[OF total_atomic_write[of D pb]]])
       (use no_temps_update[OF _ manifest_visible(1)] in auto)
  have rest: "achieves (\<lambda>d. ?I d \<and> s' = s)
      (let manifest_path = ?m; current_path = pointer_path build_dir in
        pbind (fs_exists manifest_path) (\<lambda>taken.
        if taken then praise (GenAddressCollision (generation_manifest_file i)
          (''generation '' @ dec_string i))
        else pbind (atomic_write pb manifest_path s') (\<lambda>_.
          pbind (atomic_write pb current_path s') (\<lambda>_.
            preturn \<lparr>pg_generation_id = i, pg_manifest_path = manifest_path,
              pg_manifest_json = s', pg_current_manifest_path = current_path,
              pg_written = written @ [manifest_path],
              pg_filter_match_lock_hash = mls_content_hash status, pg_predecessor = predecessor\<rparr>))))
      (\<lambda>_ _. True)" for s'
  proof (cases "s' = s")
    case True
    have free: "achieves ?I (fs_exists ?m) (\<lambda>taken d. ?I d \<and> \<not> taken)"
      by (rule total_mono[OF total_exists]) (use assms(1) in auto)
    have go: "achieves (\<lambda>d. ?I d \<and> \<not> taken)
        (if taken then praise e else pbind (atomic_write pb ?m s) (\<lambda>_.
          pbind (atomic_write pb (pointer_path build_dir) s) (\<lambda>_. preturn r))) (\<lambda>_ _. True)"
      for taken e r
    proof (cases taken)
      case False
      have "achieves ?I (pbind (atomic_write pb ?m s) (\<lambda>_.
          pbind (atomic_write pb (pointer_path build_dir) s) (\<lambda>_. preturn r))) (\<lambda>_ _. True)"
        by (rule total_bind[OF first], rule total_bind[OF total_atomic_write], rule total_return) simp
      with False show ?thesis by simp
    qed (simp add: achieves_def)
    show ?thesis unfolding Let_def True
      by (rule total_mono[OF total_bind[OF free go]]) simp_all
  qed (simp add: achieves_def)
  show ?thesis
    unfolding commit_generation_def assms(2) sum.case by (rule total_bind[OF pure rest])
qed

lemma next_generation_some:
  assumes "\<And>i. i \<in> set ids \<or> predecessor = Some i \<Longrightarrow> i < 2 ^ 64 - 1"
  shows "\<exists>i. next_generation ids predecessor = Inr i"
proof -
  let ?known = "ids @ (case predecessor of None \<Rightarrow> [] | Some p \<Rightarrow> [p])"
  have "Max (set ?known) < 2 ^ 64 - 1" if "?known \<noteq> []"
  proof -
    from that have "Max (set ?known) \<in> set ?known" by (metis Max_in finite_set set_empty)
    then show ?thesis by (intro assms) (auto split: option.splits)
  qed
  then show ?thesis by (auto simp: next_generation_def Let_def)
qed

lemma total_publish_locked:
  assumes apart: "lock_apart build_dir lock_path" and hashes: "hashes_ok pb snapshot"
    and paths: "validate_artifact_paths (gs_artifacts snapshot) = Inr ()"
    and version: "fml_version (gs_filter_match_lock snapshot) = filter_match_lock_version"
    and older: "\<And>raw. D lock_path = Some raw \<Longrightarrow> newer_match_lock_version pb raw = None"
    and suits: "match_lock_suits pb (gs_filter_match_lock snapshot) mode (D lock_path)"
    and json: "\<And>i. \<exists>s. pb_manifest_to_json pb (manifest_for snapshot i) = Inr s"
    and addresses: "\<And>a. a \<in> set (gs_artifacts snapshot) \<Longrightarrow>
      D (artifact_path build_dir a) \<in> {None, Some (sa_serialized a)}"
    and temps: "no_temps pb D"
    and ids: "\<And>path name i. D path \<noteq> None \<Longrightarrow> child_name build_dir path = Some name \<Longrightarrow>
      manifest_id name = Some i \<Longrightarrow> i < 2 ^ 64 - 1"
    and pointer: "\<And>raw i. D (pointer_path build_dir) = Some raw \<Longrightarrow>
      manifest_generation pb raw = Some i \<Longrightarrow> i < 2 ^ 64 - 1"
  shows "achieves (\<lambda>d. d = D) (publish_locked pb build_dir lock_path snapshot mode) (\<lambda>_ _. True)"
proof -
  let ?I = "\<lambda>d. (\<exists>x. d = D(lock_path := x)) \<and> no_temps pb d"
  have vis: "\<not> hidden lock_path" using apart by (simp add: lock_apart_def)
  note here = lock_apart_join[OF apart]
  have reconciled: "achieves (\<lambda>d. d = D)
      (reconcile_match_lock_inner pb lock_path (gs_filter_match_lock snapshot) mode) (\<lambda>_. ?I)"
    by (rule total_mono[OF total_reconcile[where D = D and lock_path = lock_path, OF version older suits]])
       (use temps no_temps_update[OF temps vis] in auto)
  have current: "achieves ?I (pointer_generation pb build_dir)
      (\<lambda>r d. ?I d \<and> (\<forall>i. r = Some i \<longrightarrow> i < 2 ^ 64 - 1))"
  proof (rule total_mono[OF total_triple[OF _ pointer_generation_triple[of ?I]]])
    show "achieves ?I (pointer_generation pb build_dir) (\<lambda>_ _. True)"
      unfolding pointer_generation_def
      by (rule total_bind[OF total_try_read], rule total_return) simp
    fix r d assume "True \<and> ?I d \<and> (\<forall>i. r = Some i \<longrightarrow>
        (\<exists>raw. d (pointer_path build_dir) = Some raw \<and> manifest_generation pb raw = Some i))"
    then show "?I d \<and> (\<forall>i. r = Some i \<longrightarrow> i < 2 ^ 64 - 1)"
      using pointer here by auto
  qed simp_all
  have scan: "achieves ?I (generation_ids_on_disk build_dir) (\<lambda>found d. ?I d
      \<and> (\<forall>i \<in> set found. i < 2 ^ 64 - 1)
      \<and> (\<forall>i < 2 ^ 64. d (manifest_path_of build_dir i) \<noteq> None \<longrightarrow> i \<in> set found))"
  proof (rule total_mono[OF total_triple[OF total_generation_ids[of ?I] generation_ids_triple[of ?I]]])
    fix found d
    assume d: "(?I d \<and> (\<forall>i \<in> set found. \<exists>path name. d path \<noteq> None
          \<and> child_name build_dir path = Some name \<and> manifest_id name = Some i))
        \<and> ?I d \<and> (\<forall>i < 2 ^ 64. d (manifest_path_of build_dir i) \<noteq> None \<longrightarrow> i \<in> set found)"
    have "i < 2 ^ 64 - 1" if "i \<in> set found" for i
    proof -
      from d that obtain path name where n: "d path \<noteq> None" "child_name build_dir path = Some name"
        "manifest_id name = Some i" by blast
      then have "path \<noteq> lock_path"
        using apart by (auto simp: child_name_def strip_prefix_def lock_apart_def split: if_splits)
      with n d have "D path \<noteq> None" by auto
      from ids[OF this n(2,3)] show ?thesis .
    qed
    with d show "?I d \<and> (\<forall>i \<in> set found. i < 2 ^ 64 - 1)
        \<and> (\<forall>i < 2 ^ 64. d (manifest_path_of build_dir i) \<noteq> None \<longrightarrow> i \<in> set found)" by blast
  qed simp_all
  have files: "distinct (map (\<lambda>a. artifact_path build_dir a) (gs_artifacts snapshot))"
    using validated_files_distinct[OF paths] by (simp add: distinct_map inj_on_def)
  have commit: "achieves (\<lambda>d. ?I d \<and> d (manifest_path_of build_dir i) = None)
      (pbind (pfold (publish_artifact pb build_dir) [] (gs_artifacts snapshot)) (\<lambda>written.
         commit_generation pb build_dir snapshot status predecessor i written)) (\<lambda>_ _. True)"
    for status predecessor i
    unfolding achieves_def
  proof (intro allI impI)
    fix w assume w: "?I (files w) \<and> files w (manifest_path_of build_dir i) = None"
    then obtain x where x: "files w = D(lock_path := x)" by blast
    have "achieves (\<lambda>d. d = files w \<and> no_temps pb (files w))
        (pfold (publish_artifact pb build_dir) [] (gs_artifacts snapshot))
        (\<lambda>_ d. no_temps pb d \<and> (\<forall>i. d (manifest_path_of build_dir i) = files w (manifest_path_of build_dir i)))"
    proof (rule total_publish_artifacts[OF files artifact_visible[OF hashes]])
      fix a assume "a \<in> set (gs_artifacts snapshot)"
      from addresses[OF this] here show "files w (artifact_path build_dir a) \<in> {None, Some (sa_serialized a)}"
        by (simp add: x)
    qed
    from this[unfolded achieves_def, rule_format, OF conjI[OF refl conjunct2[OF conjunct1[OF w]]]]
    obtain written w1
      where "pfold (publish_artifact pb build_dir) [] (gs_artifacts snapshot) (\<lambda>_. Proceed) w = (Inr written, w1)"
        "no_temps pb (files w1)"
        "files w1 (manifest_path_of build_dir i) = files w (manifest_path_of build_dir i)" by blast
    note w1 = this(1,2) this(3)[unfolded conjunct2[OF w]]
    from json obtain s where "pb_manifest_to_json pb (manifest_for snapshot i) = Inr s" by blast
    note step = total_commit[where D = "files w1", OF w1(3) this]
    from step[of status predecessor written] w1(2) obtain r w2
      where "commit_generation pb build_dir snapshot status predecessor i written (\<lambda>_. Proceed) w1 = (Inr r, w2)"
      unfolding achieves_def by blast
    with w1(1) show "\<exists>r w'. pbind (pfold (publish_artifact pb build_dir) [] (gs_artifacts snapshot)) (\<lambda>written.
         commit_generation pb build_dir snapshot status predecessor i written) (\<lambda>_. Proceed) w
         = (Inr r, w') \<and> True"
      by (simp add: pbind_def)
  qed
  have allocate: "achieves (\<lambda>d. ?I d \<and> (\<forall>i \<in> set found. i < 2 ^ 64 - 1)
        \<and> (\<forall>i < 2 ^ 64. d (manifest_path_of build_dir i) \<noteq> None \<longrightarrow> i \<in> set found))
      (plift (next_generation found predecessor))
      (\<lambda>i d. ?I d \<and> d (manifest_path_of build_dir i) = None)"
    if "\<And>i. predecessor = Some i \<Longrightarrow> i < 2 ^ 64 - 1" for found predecessor
  proof (rule total_lift)
    fix d assume d: "?I d \<and> (\<forall>i \<in> set found. i < 2 ^ 64 - 1)
        \<and> (\<forall>i < 2 ^ 64. d (manifest_path_of build_dir i) \<noteq> None \<longrightarrow> i \<in> set found)"
    with that next_generation_some[of found predecessor] obtain i
      where i: "next_generation found predecessor = Inr i" by blast
    from next_generation_fresh(1,2)[OF i] d have "d (manifest_path_of build_dir i) = None" by blast
    with i d show "\<exists>i. next_generation found predecessor = Inr i \<and> ?I d
        \<and> d (manifest_path_of build_dir i) = None" by blast
  qed
  have rest: "achieves (\<lambda>d. ?I d \<and> (\<forall>i. predecessor = Some i \<longrightarrow> i < 2 ^ 64 - 1))
      (pbind (generation_ids_on_disk build_dir) (\<lambda>found.
       pbind (plift (next_generation found predecessor)) (\<lambda>generation_id.
       pbind (pfold (publish_artifact pb build_dir) [] (gs_artifacts snapshot)) (\<lambda>written.
         commit_generation pb build_dir snapshot status predecessor generation_id written)))) (\<lambda>_ _. True)"
    for status predecessor
  proof (cases "\<forall>i. predecessor = Some i \<longrightarrow> i < 2 ^ 64 - 1")
    case True
    then show ?thesis
      by (intro total_mono[OF total_bind[OF scan total_bind[OF allocate commit]]]) simp_all
  next
    case False
    then show ?thesis unfolding achieves_def by blast
  qed
  show ?thesis
    unfolding publish_locked_def by (rule total_bind[OF reconciled total_bind[OF current rest]])
qed

lemma wait_granted:
  assumes "la_answer attempts k = LockGranted"
    and "\<And>j. j < k \<Longrightarrow> la_answer attempts j = LockWouldBlock \<and> la_time attempts j < wait"
    and "i \<le> k"
  shows "wait_for_lock attempts wait lock_path i = Some (Inr ())"
  using assms(3)
proof (induction i rule: inc_induct)
  case base
  show ?case using assms(1) by (subst wait_for_lock.simps) simp
next
  case (step i)
  then show ?case using assms(2)[of i] by (subst wait_for_lock.simps) simp
qed

section \<open>Properties\<close>

text \<open>
  C33: Progress, in either mode. A publication to which the lock is granted before the deadline and
  whose operations all proceed returns a generation when nothing the code reports stands in its way:
  the artifact paths validate, the match lock has a supported version and is accepted (a locked build)
  or can be written (an update), the manifest serializes, the addresses of the artifacts hold no other
  bytes, no temporary file of the process is left over and the identities on disk are below the last.
\<close>

theorem publish_succeeds:
  assumes "lock_apart build_dir lock_path" and "hashes_ok pb snapshot"
    and "validate_artifact_paths (gs_artifacts snapshot) = Inr ()"
    and "fml_version (gs_filter_match_lock snapshot) = filter_match_lock_version"
    and "\<And>raw. files w lock_path = Some raw \<Longrightarrow> newer_match_lock_version pb raw = None"
    and "match_lock_suits pb (gs_filter_match_lock snapshot) mode (files w lock_path)"
    and "\<And>i. \<exists>s. pb_manifest_to_json pb (manifest_for snapshot i) = Inr s"
    and "\<And>a. a \<in> set (gs_artifacts snapshot) \<Longrightarrow>
      files w (artifact_path build_dir a) \<in> {None, Some (sa_serialized a)}"
    and "no_temps pb (files w)"
    and "\<And>path name i. files w path \<noteq> None \<Longrightarrow> child_name build_dir path = Some name \<Longrightarrow>
      manifest_id name = Some i \<Longrightarrow> i < 2 ^ 64 - 1"
    and "\<And>raw i. files w (pointer_path build_dir) = Some raw \<Longrightarrow>
      manifest_generation pb raw = Some i \<Longrightarrow> i < 2 ^ 64 - 1"
    and "la_answer attempts k = LockGranted"
    and "\<And>j. j < k \<Longrightarrow> la_answer attempts j = LockWouldBlock \<and> la_time attempts j < lock_deadline"
  shows "\<exists>g w'. publish pb attempts build_dir lock_path snapshot mode (\<lambda>_. Proceed) w = Some (Inr g, w')"
proof -
  let ?lock = "path_join build_dir lock_file"
  obtain w1 where w1: "acquire_lock build_dir (\<lambda>_. Proceed) w = (Inr (), w1)"
    and disk: "files w1 = files w \<or> files w1 = (files w)(?lock \<mapsto> [])"
    by (auto simp: acquire_lock_def map_err_def phandle_def pbind_def fs_nothing_def fs_touch_def
        touched_def operation_def files_def Let_def update_conv')
  have same: "files w1 path = files w path" if "\<not> hidden path" for path
    using disk that lock_file_hidden by auto
  have visible: "\<not> hidden lock_path" using assms(1) by (simp add: lock_apart_def)
  have lock_id: "manifest_id lock_file = None" by code_simp
  have lock_child: "child_name build_dir ?lock = Some lock_file"
    by (rule child_name_file) (simp_all add: lock_file_def)
  have "achieves (\<lambda>d. d = files w1) (publish_locked pb build_dir lock_path snapshot mode) (\<lambda>_ _. True)"
  proof (rule total_publish_locked[OF assms(1-4) _ _ assms(7)])
    show "match_lock_suits pb (gs_filter_match_lock snapshot) mode (files w1 lock_path)"
      using assms(6) same[OF visible] by simp
    show "files w1 lock_path = Some raw \<Longrightarrow> newer_match_lock_version pb raw = None" for raw
      using assms(5) same[OF visible] by simp
    show "files w1 (artifact_path build_dir a) \<in> {None, Some (sa_serialized a)}"
      if "a \<in> set (gs_artifacts snapshot)" for a
      using assms(8)[OF that] same[OF artifact_visible[OF assms(2) that]] by simp
    show "no_temps pb (files w1)"
      using assms(9) disk lock_not_temp[symmetric] by (auto simp: no_temps_def)
    show "i < 2 ^ 64 - 1" if "files w1 path \<noteq> None" "child_name build_dir path = Some name"
      "manifest_id name = Some i" for path name i
    proof (rule assms(10)[OF _ that(2,3)])
      have "path \<noteq> ?lock" using that(2,3) lock_id lock_child by auto
      with that(1) disk show "files w path \<noteq> None" by auto
    qed
    show "i < 2 ^ 64 - 1" if "files w1 (pointer_path build_dir) = Some raw"
      "manifest_generation pb raw = Some i" for raw i
      using assms(11)[OF _ that(2)] that(1) same[OF manifest_visible(2)] by simp
  qed
  then obtain g w' where "publish_locked pb build_dir lock_path snapshot mode (\<lambda>_. Proceed) w1 = (Inr g, w')"
    unfolding achieves_def by blast
  with w1 wait_granted[OF assms(12,13), of 0] show ?thesis
    by (simp add: publish_def publish_with_deadline_def with_publication_lock_def)
qed

end
