(* ===== verification/Publish_Witnesses.thy ===== *)
theory Publish_Witnesses imports Publish_Live "HOL-Library.Code_Target_Nat" begin

text \<open>
  Concrete build trees: publications, a pruning, a publisher that dies between its manifest and the
  pointer, and one whose last sync fails.
\<close>

definition artifact1 :: snapshot_artifact where
  "artifact1 = \<lparr>sa_id = ''s/operation/q'', sa_family = FamilyOperation, sa_kind = DefQuery,
     sa_scope = ''s'', sa_name = ''q'', sa_serialized = ''{}'', sa_hash = ''6162'', sa_source = ''q.dsql''\<rparr>"
definition snapshot1 :: generation_snapshot where
  "snapshot1 = \<lparr>gs_artifacts = [artifact1], gs_groups = [],
     gs_project_contract = \<lparr>pc_algorithm = ''sha256'', pc_value = '''', pc_scopes = []\<rparr>,
     gs_filter_match_lock = lock_empty\<rparr>"
definition snapshot2 :: generation_snapshot where
  "snapshot2 = snapshot1\<lparr>gs_artifacts := [artifact1\<lparr>sa_name := ''r'', sa_id := ''s/operation/r''\<rparr>]\<rparr>"
definition yaml1 :: yaml_codec where
  "yaml1 = \<lparr>yaml_to_string = (\<lambda>_. Inr ''l''), yaml_from_str = (\<lambda>_. Inl ''e''), yaml_version = (\<lambda>_. None)\<rparr>"
definition publisher1 :: publisher where
  "publisher1 = \<lparr>pb_digest = (\<lambda>_. ''ab''),
     pb_manifest_to_json = (\<lambda>m. if m = manifest_for snapshot1 1 then Inr ''{1}''
        else if m = manifest_for snapshot2 2 then Inr ''{2}''
        else if m = manifest_for snapshot1 3 then Inr ''{3}'' else Inl ''e''),
     pb_manifest_from_json = (\<lambda>s. if s = ''{1}'' then Inr (manifest_for snapshot1 1)
        else if s = ''{2}'' then Inr (manifest_for snapshot2 2)
        else if s = ''{3}'' then Inr (manifest_for snapshot1 3) else Inl ''e''),
     pb_yaml = yaml1, pb_utf8_error = (\<lambda>_. ''e''), pb_process_id = 7\<rparr>"
definition attempts1 :: lock_attempts where
  "attempts1 = \<lparr>la_answer = (\<lambda>k. if k = 0 then LockWouldBlock else LockGranted), la_time = (\<lambda>k. 50 * k)\<rparr>"
definition world0 :: world where "world0 = \<lparr>fs_files = [], fs_ticks = 0, fs_counter = 0\<rparr>"


definition published1 :: published_generation where
  "published1 = \<lparr>pg_generation_id = 1, pg_manifest_path = ''b/manifest.1.json'',
     pg_manifest_json = ''{1}'', pg_current_manifest_path = ''b/manifest.json'',
     pg_written = [''b/operations/q.6162.json'', ''b/manifest.1.json''],
     pg_filter_match_lock_hash = None, pg_predecessor = None\<rparr>"

definition world1 :: world where
  "world1 = \<lparr>fs_files = [(''b/.lock'', []), (''b/operations/q.6162.json'', ''{}''),
     (''b/manifest.1.json'', ''{1}''), (''b/manifest.json'', ''{1}'')], fs_ticks = 32, fs_counter = 3\<rparr>"

lemma publish1: "publish publisher1 attempts1 ''b'' ''l'' snapshot1 ModeUpdate (\<lambda>_. Proceed) world0
    = Some (Inr published1, world1)"
  by code_simp

definition published2 :: published_generation where
  "published2 = \<lparr>pg_generation_id = 2, pg_manifest_path = ''b/manifest.2.json'',
     pg_manifest_json = ''{2}'', pg_current_manifest_path = ''b/manifest.json'',
     pg_written = [''b/operations/r.6162.json'', ''b/manifest.2.json''],
     pg_filter_match_lock_hash = None, pg_predecessor = Some 1\<rparr>"

definition world2 :: world where
  "world2 = \<lparr>fs_files = [(''b/.lock'', []), (''b/operations/q.6162.json'', ''{}''),
     (''b/manifest.1.json'', ''{1}''), (''b/manifest.json'', ''{2}''),
     (''b/operations/r.6162.json'', ''{}''), (''b/manifest.2.json'', ''{2}'')],
     fs_ticks = 66, fs_counter = 6\<rparr>"

lemma publish2: "publish publisher1 attempts1 ''b'' ''l'' snapshot2 ModeUpdate (\<lambda>_. Proceed) world1
    = Some (Inr published2, world2)"
  by code_simp

definition published3 :: published_generation where
  "published3 = \<lparr>pg_generation_id = 3, pg_manifest_path = ''b/manifest.3.json'',
     pg_manifest_json = ''{3}'', pg_current_manifest_path = ''b/manifest.json'',
     pg_written = [''b/manifest.3.json''], pg_filter_match_lock_hash = None, pg_predecessor = Some 2\<rparr>"

definition world3 :: world where
  "world3 = \<lparr>fs_files = [(''b/.lock'', []), (''b/operations/q.6162.json'', ''{}''),
     (''b/manifest.1.json'', ''{1}''), (''b/manifest.json'', ''{3}''),
     (''b/operations/r.6162.json'', ''{}''), (''b/manifest.2.json'', ''{2}''),
     (''b/manifest.3.json'', ''{3}'')], fs_ticks = 93, fs_counter = 8\<rparr>"

lemma publish3: "publish publisher1 attempts1 ''b'' ''l'' snapshot1 ModeUpdate (\<lambda>_. Proceed) world2
    = Some (Inr published3, world3)"
  by code_simp

definition world4 :: world where
  "world4 = \<lparr>fs_files = [(''b/.lock'', []), (''b/operations/q.6162.json'', ''{}''),
     (''b/manifest.json'', ''{3}''), (''b/operations/r.6162.json'', ''{}''),
     (''b/manifest.2.json'', ''{2}''), (''b/manifest.3.json'', ''{3}'')],
     fs_ticks = 109, fs_counter = 8\<rparr>"

lemma prune3: "prune publisher1 attempts1 ''b'' published3 (\<lambda>_. Proceed) world3 = Some world4"
  by code_simp

section \<open>Interrupted publications\<close>

text \<open>
  A publisher that dies between its manifest and the pointer strands an identity; the pruning of the
  current generation removes its manifest, and the next publication allocates the same identity.
\<close>

lemma stranded_identity_reused:
  "case publish publisher1 attempts1 ''b'' ''l'' snapshot2 ModeUpdate
       (\<lambda>t. if t = 58 then Die 0 else Proceed) world1 of
     Some (Inl Died, stranded) \<Rightarrow>
       map_of (fs_files stranded) ''b/manifest.2.json'' = Some ''{2}''
       \<and> (case prune publisher1 attempts1 ''b'' published1 (\<lambda>_. Proceed) stranded of
            Some w \<Rightarrow>
              (case publish publisher1 attempts1 ''b'' ''l'' snapshot2 ModeUpdate (\<lambda>_. Proceed) w of
                 Some (Inr g, _) \<Rightarrow> pg_generation_id g = 2 | _ \<Rightarrow> False)
          | None \<Rightarrow> False)
   | _ \<Rightarrow> False"
  by code_simp

text \<open>
  A refusal of the last sync, after the pointer was renamed: the publication fails and its
  generation is current.
\<close>

lemma failed_publication_is_current:
  "case publish publisher1 attempts1 ''b'' ''l'' snapshot2 ModeUpdate
       (\<lambda>t. if t = 65 then Refuse 0 else Proceed) world1 of
     Some (Inl (Raised (GenWrite path)), w) \<Rightarrow>
       path = ''b/manifest.json'' \<and> map_of (fs_files w) ''b/manifest.json'' = Some ''{2}''
   | _ \<Rightarrow> False"
  by code_simp

section \<open>Witnesses\<close>

lemma manifests_differ:
  "manifest_for snapshot2 2 \<noteq> manifest_for snapshot1 1" "manifest_for snapshot1 3 \<noteq> manifest_for snapshot1 1"
  "manifest_for snapshot1 3 \<noteq> manifest_for snapshot2 2"
  by (simp_all add: manifest_for_def)

lemma codec1: "codec_ok publisher1"
proof -
  have "utf8_valid ''{1}''" "utf8_valid ''{2}''" "utf8_valid ''{3}''" by code_simp+
  then show ?thesis
    by (auto simp: codec_ok_def publisher1_def manifests_differ split: if_splits)
qed

lemma hashes1: "hashes_ok publisher1 snapshot1" "hashes_ok publisher1 snapshot2"
  by code_simp+

lemma apart1: "lock_apart ''b'' ''l''"
  by code_simp

lemma process1: "publisher1\<lparr>pb_process_id := 7\<rparr> = publisher1"
  by (simp add: publisher1_def)

lemma step_publish:
  assumes "publish publisher1 attempts1 ''b'' ''l'' snapshot mode env w = Some (r, w')"
    and "hashes_ok publisher1 snapshot"
  shows "build_step publisher1 ''b'' ''l'' (fs_files w) (fs_files w')"
  using assms unfolding publish_def by (intro publish_step[where p = 7]) (simp_all only: process1)

lemma tree2: "build_tree publisher1 ''b'' ''l'' (fs_files world2)"
proof -
  have "build_tree publisher1 ''b'' ''l'' (fs_files world0)"
    by (rule unpublished) (simp add: world0_def)
  from later[OF later[OF this step_publish[OF publish1 hashes1(1)]] step_publish[OF publish2 hashes1(2)]]
  show ?thesis .
qed

lemma step3: "build_step publisher1 ''b'' ''l'' (fs_files world2) (fs_files world3)"
  by (rule step_publish[OF publish3 hashes1(1)])

lemma tree4: "build_tree publisher1 ''b'' ''l'' (fs_files world4)"
proof -
  have "build_step publisher1 ''b'' ''l'' (fs_files world3) (fs_files world4)"
    using prune3 by (intro prune_step[where p = 7]) (simp only: process1)
  from later[OF later[OF tree2 step3] this] show ?thesis .
qed

text \<open>Three publications and a pruning leave a complete generation.\<close>

theorem reachable_trees_complete_witness: "tree_ok publisher1 ''b'' (tree (fs_files world4))"
  by (rule reachable_trees_complete[OF codec1 apart1 tree4])

theorem build_step_refines_witness:
  "generation_step (current_manifest publisher1 ''b'' (tree (fs_files world2)))
     (current_manifest publisher1 ''b'' (tree (fs_files world3)))"
  by (rule build_step_refines[OF codec1 apart1 tree2 step3])

theorem publish_correct_witness:
  "current_manifest publisher1 ''b'' (tree (fs_files world2)) = Some (manifest_for snapshot2 2)"
proof -
  have "build_tree publisher1 ''b'' ''l'' (fs_files world1)"
    by (rule later[OF unpublished step_publish[OF publish1 hashes1(1)]]) (simp add: world0_def)
  from build_tree_ok[OF codec1 apart1 this]
  have "tree_ok publisher1 ''b'' (tree (fs_files world1))" .
  from publish_correct[OF codec1 apart1 hashes1(2) this publish2]
  show ?thesis by (simp add: published2_def)
qed

theorem prune_keeps_retained_witness:
  "tree (fs_files world4) (manifest_path_of ''b'' 2) = Some ''{2}''
   \<and> tree (fs_files world4) (pointer_path ''b'') = tree (fs_files world3) (pointer_path ''b'')
   \<and> tree (fs_files world4) (path_join ''b'' ''operations/r.6162.json'')
       = tree (fs_files world3) (path_join ''b'' ''operations/r.6162.json'')"
proof -
  define e where "e = manifest_entry_of (artifact1\<lparr>sa_name := ''r'', sa_id := ''s/operation/r''\<rparr>)"
  have "tree (fs_files world3) (manifest_path_of ''b'' 2) = Some ''{2}''" by code_simp
  moreover have "pb_manifest_from_json publisher1 ''{2}'' = Inr (manifest_for snapshot2 2)"
    by (simp add: publisher1_def)
  moreover have "e \<in> set (bm_operations (manifest_for snapshot2 2) @ bm_fragments (manifest_for snapshot2 2))"
    by (simp add: e_def manifest_for_def snapshot2_def snapshot1_def artifact1_def)
  moreover have path: "me_path e = ''operations/r.6162.json''" unfolding e_def by code_simp
  moreover have "starts_with ''operations/r.6162.json'' ''operations/''" by code_simp
  ultimately show ?thesis
    using prune_keeps_retained[OF prune3, of 2 "''{2}''" "manifest_for snapshot2 2" e]
    by (simp only: path published3_def published_generation.simps simp_thms)
qed

theorem publication_returns_witness:
  "\<exists>r w'. publish_with_deadline publisher1 \<lparr>la_answer = (\<lambda>_. LockWouldBlock), la_time = (\<lambda>k. 50 * k)\<rparr>
     ''b'' ''l'' snapshot1 ModeUpdate 1000 (\<lambda>_. Proceed) world0 = Some (r, w')"
  using publication_returns[where attempts = "\<lparr>la_answer = (\<lambda>_. LockWouldBlock), la_time = (\<lambda>k. 50 * k)\<rparr>"]
  by (simp add: lock_poll_def)

definition publisher2 :: publisher where
  "publisher2 = publisher1\<lparr>pb_manifest_to_json := \<lambda>m. Inr (dec_string (bm_generation_id m))\<rparr>"

theorem publish_succeeds_witness:
  "\<exists>g w'. publish publisher2 attempts1 ''b'' ''l'' snapshot2 ModeLocked (\<lambda>_. Proceed) world1 = Some (Inr g, w')"
proof (rule publish_succeeds[where k = 1])
  have paths: "files world1 path \<noteq> None \<Longrightarrow> path = path_join ''b'' lock_file \<or> path = ''b/operations/q.6162.json''
      \<or> path = ''b/manifest.1.json'' \<or> path = ''b/manifest.json''" for path
    by (auto simp: files_def world1_def path_join_def lock_file_def split: if_splits)
  have shown: "\<not> hidden ''b/operations/q.6162.json''" "\<not> hidden ''b/manifest.1.json''"
    "\<not> hidden ''b/manifest.json''" by code_simp+
  show "no_temps publisher2 (files world1)"
    using paths shown temp_path_hidden[of publisher2] lock_not_temp[of "''b''" publisher2]
    unfolding no_temps_def by metis
  have children: "child_name ''b'' (path_join ''b'' lock_file) = Some lock_file"
    "child_name ''b'' ''b/operations/q.6162.json'' = None"
    "child_name ''b'' ''b/manifest.1.json'' = Some ''manifest.1.json''"
    "child_name ''b'' ''b/manifest.json'' = Some ''manifest.json''" by code_simp+
  have identities: "manifest_id lock_file = None" "manifest_id ''manifest.1.json'' = Some 1"
    "manifest_id ''manifest.json'' = None" by code_simp+
  show "i < 2 ^ 64 - 1" if "files world1 path \<noteq> None" "child_name ''b'' path = Some name"
    "manifest_id name = Some i" for path name i
    using paths[OF that(1)] that(2,3) children identities by auto
  have "manifest_generation publisher2 ''{1}'' = Some 1" by code_simp
  moreover have "files world1 (pointer_path ''b'') = Some ''{1}''" by code_simp
  ultimately show "i < 2 ^ 64 - 1" if "files world1 (pointer_path ''b'') = Some raw"
    "manifest_generation publisher2 raw = Some i" for raw i
    using that by simp
  show "lock_apart ''b'' ''l''" by (rule apart1)
  show "hashes_ok publisher2 snapshot2" by code_simp
  show "validate_artifact_paths (gs_artifacts snapshot2) = Inr ()" by code_simp
  show "fml_version (gs_filter_match_lock snapshot2) = filter_match_lock_version" by code_simp
  have "files world1 ''l'' = None" by code_simp
  then show "files world1 ''l'' = Some raw \<Longrightarrow> newer_match_lock_version publisher2 raw = None" for raw
    by simp
  have "lock_is_empty (gs_filter_match_lock snapshot2)" by code_simp
  then show "match_lock_suits publisher2 (gs_filter_match_lock snapshot2) ModeLocked (files world1 ''l'')"
    by (simp add: match_lock_suits_def \<open>files world1 ''l'' = None\<close>)
  show "\<exists>s. pb_manifest_to_json publisher2 (manifest_for snapshot2 i) = Inr s" for i
    by (simp add: publisher2_def)
  have "files world1 (artifact_path ''b'' (artifact1\<lparr>sa_name := ''r'', sa_id := ''s/operation/r''\<rparr>)) = None"
    by code_simp
  then show "files world1 (artifact_path ''b'' a) \<in> {None, Some (sa_serialized a)}"
    if "a \<in> set (gs_artifacts snapshot2)" for a
    using that by (simp add: snapshot2_def)
  show "la_answer attempts1 1 = LockGranted" by (simp add: attempts1_def)
  show "la_answer attempts1 j = LockWouldBlock \<and> la_time attempts1 j < lock_deadline" if "j < 1" for j
    using that by (simp add: attempts1_def lock_deadline_def)
qed

section \<open>A lock and its text\<close>

text \<open>A codec for locks that name scopes only: one line for each filter.\<close>

definition scope_filter :: "string \<Rightarrow> locked_filter" where
  "scope_filter scope = \<lparr>lf_scope = scope, lf_defined_in = [], lf_name = [], lf_conditions = [],
     lf_matches = []\<rparr>"
definition scope_lock :: "string list \<Rightarrow> filter_match_lock" where
  "scope_lock scopes = \<lparr>fml_version = filter_match_lock_version, fml_filters = map scope_filter scopes\<rparr>"
definition scope_yaml :: yaml_codec where
  "scope_yaml = yaml1\<lparr>
     yaml_to_string := \<lambda>lock. Inr (concat (map (\<lambda>f. lf_scope f @ '' '' @ [CHR 10]) (fml_filters lock))),
     yaml_from_str := \<lambda>t. Inr (scope_lock (split_lines t))\<rparr>"

theorem lock_roundtrip_witness:
  "lock_from_yaml scope_yaml (''a'' @ [CHR 10] @ ''b'' @ [CHR 10])
     = Inr (canonicalize (scope_lock [''b'', ''a'', ''b'']))
   \<and> same_matches (scope_lock [''b'', ''a'', ''b'']) (scope_lock [''a'', ''b''])"
proof -
  have reads: "yaml_reads scope_yaml (canonicalize (scope_lock [''b'', ''a'', ''b'']))"
    "yaml_reads scope_yaml (canonicalize (scope_lock [''a'', ''b'']))"
    unfolding yaml_reads_def scope_yaml_def by (simp, code_simp)+
  have texts: "lock_to_yaml scope_yaml (scope_lock [''b'', ''a'', ''b'']) = Inr (''a'' @ [CHR 10] @ ''b'' @ [CHR 10])"
    "lock_to_yaml scope_yaml (scope_lock [''a'', ''b'']) = Inr (''a'' @ [CHR 10] @ ''b'' @ [CHR 10])"
    by code_simp+
  from lock_roundtrip[OF reads texts] show ?thesis by simp
qed

end
