(* ===== verification/Policy_Types.thy ===== *)
theory Policy_Types
  imports Plan_Types Scope_Imports
begin

text \<open>
  Filters and conditions as declared, resolved and compiled
  (\<open>crates/dsql-core/src/entities/policy.rs\<close>), with the contracts of trusted context they use
  (\<open>entities/context.rs\<close>). What the incremental engine keeps per declaration site (its visible
  providers, its context candidates) is the record the site's compilation reads.
\<close>

section \<open>Trusted context\<close>

record context_value_contract =
  cvc_data_type :: data_type
  cvc_wire :: wire_encoding
  cvc_provider_type :: "type_key option"
  cvc_collection :: bool
  cvc_closed_values :: "string list"

definition context_type_label :: "context_value_contract \<Rightarrow> string" where
  "context_type_label contract =
     (let base = (case cvc_provider_type contract of
                    None \<Rightarrow> data_type_name (cvc_data_type contract)
                  | Some key \<Rightarrow> tyk_schema key @ ''::'' @ tyk_name key)
      in if cvc_collection contract then base @ ''[]'' else base)"

definition context_type_matches :: "context_value_contract \<Rightarrow> context_value_contract \<Rightarrow> bool" where
  "context_type_matches declared expected \<longleftrightarrow>
     (if cvc_wire declared = WireTextCast \<or> cvc_wire expected = WireTextCast
      then cvc_wire declared = cvc_wire expected
           \<and> cvc_provider_type declared = cvc_provider_type expected
      else cvc_data_type declared = cvc_data_type expected
           \<and> cvc_wire declared = cvc_wire expected)
     \<and> cvc_collection declared = cvc_collection expected"

definition validate_context_use ::
  "string \<Rightarrow> context_value_contract \<Rightarrow> context_value_contract \<Rightarrow> string + string list" where
  "validate_context_use name declared expected =
     (if \<not> context_type_matches declared expected then
        Inl (''trusted context `context.'' @ name @ ''` is declared as `'' @ context_type_label declared
             @ ''` but this use requires `'' @ context_type_label expected @ ''`'')
      else if cvc_closed_values expected = [] then Inr (cvc_closed_values declared)
      else if cvc_closed_values declared = []
              \<or> list_all (\<lambda>v. v \<in> set (cvc_closed_values declared)) (cvc_closed_values expected)
      then Inr (cvc_closed_values expected)
      else Inl (''trusted context `context.'' @ name
                @ ''` does not allow every value required by this use''))"

section \<open>Declarations\<close>

datatype policy_kind = PolicyFilter | PolicyCondition

fun policy_kind_display :: "policy_kind \<Rightarrow> string" where
  "policy_kind_display PolicyFilter = ''filter''"
| "policy_kind_display PolicyCondition = ''condition''"

record shape_field =
  sf_name :: string
  sf_name_span :: span
  sf_type_name :: string
  sf_type_span :: span

datatype policy_target_syntax =
    TargetConcrete string span
  | TargetShape "shape_field list" span

record apply_rule =
  ar_span :: span
  ar_condition :: "expr option"

record policy_field_rule =
  pfr_fields :: "(string \<times> span) list"
  pfr_condition :: expr
  pfr_span :: span

record policy_decl =
  pd_kind :: policy_kind
  pd_name :: string
  pd_name_span :: span
  pd_span :: span
  pd_source_hash :: nat
  pd_target :: "policy_target_syntax option"
  pd_apply :: "apply_rule option"
  pd_apply_count :: nat
  pd_row_rules :: "expr list"
  pd_field_rules :: "policy_field_rule list"

datatype policy_target_problem =
    TargetMissing
  | TargetEmptyShape
  | TargetUnknownType string span
  | TargetDuplicateShapeField string span
  | TargetTableNotFound string span
  | TargetAmbiguousTable string "string list" span

record policy_entry =
  pe_entity :: entity
  pe_scope :: string
  pe_kind :: policy_kind
  pe_name :: string
  pe_matches :: "table_id list"
  pe_target_fields :: "(string \<times> data_type) list"
  pe_has_target :: bool
  pe_target_problem :: "policy_target_problem option"
  pe_default_active :: bool
  pe_always_enforced :: bool

record policy_context_candidate =
  pcc_name :: string
  pcc_provider_scope :: string
  pcc_contract :: "context_value_contract option"

record visible_policy_candidate =
  vpc_declaration :: policy_decl
  vpc_entry :: policy_entry
  vpc_contexts :: "policy_context_candidate list"

section \<open>Compiled policies\<close>

datatype compiled_policy_field = CompiledColumn column_id | CompiledRelation relation_id

record compiled_policy_field_rule =
  cfr_fields :: "compiled_policy_field list"
  cfr_condition :: filter_expr

record compiled_policy_target =
  cpt_table :: table_id
  cpt_enforcement :: "filter_expr option"
  cpt_row_rule :: "filter_expr option"
  cpt_field_rules :: "compiled_policy_field_rule list"
  cpt_context :: "policy_context_requirement list"

record compiled_policy_reference =
  cpr_scope :: string
  cpr_name :: string

record compiled_policy_entry =
  cpe_entity :: entity
  cpe_scope :: string
  cpe_name :: string
  cpe_default_active :: bool
  cpe_has_field_rules :: bool
  cpe_conditions :: "compiled_policy_reference list"
  cpe_targets :: "compiled_policy_target list"

text \<open>The two indexes planning reads: declarations, and filters by compiled entry.\<close>

type_synonym policy_index = "policy_entry list"
type_synonym compiled_policy_index = "compiled_policy_entry list"

definition policy_index_entry :: "policy_index \<Rightarrow> entity \<Rightarrow> policy_entry option" where
  "policy_index_entry index entity = find (\<lambda>entry. pe_entity entry = entity) index"

definition visible_policies ::
  "policy_index \<Rightarrow> string \<Rightarrow> policy_kind \<Rightarrow> string \<Rightarrow> scope_graph \<Rightarrow> policy_entry list" where
  "visible_policies index scope kind name graph =
     filter (\<lambda>entry. pe_kind entry = kind \<and> pe_name entry = name
        \<and> pe_scope entry \<in> set (visible_from graph scope)) index"

definition compiled_index_entry :: "compiled_policy_index \<Rightarrow> entity \<Rightarrow> compiled_policy_entry option" where
  "compiled_index_entry index entity = find (\<lambda>entry. cpe_entity entry = entity) index"

definition compiled_index_target ::
  "compiled_policy_index \<Rightarrow> entity \<Rightarrow> table_id \<Rightarrow> compiled_policy_target option" where
  "compiled_index_target index entity table =
     (case compiled_index_entry index entity of
        None \<Rightarrow> None
      | Some entry \<Rightarrow> find (\<lambda>target. cpt_table target = table) (cpe_targets entry))"

section \<open>Targets\<close>

text \<open>\<open>any\<close> over a test that may panic stops at the first element that passes.\<close>

fun any_result :: "('a \<Rightarrow> 'e + bool) \<Rightarrow> 'a list \<Rightarrow> 'e + bool" where
  "any_result p [] = Inr False"
| "any_result p (x # xs) = rbind (p x) (\<lambda>b. if b then Inr True else any_result p xs)"

fun all_result :: "('a \<Rightarrow> 'e + bool) \<Rightarrow> 'a list \<Rightarrow> 'e + bool" where
  "all_result p [] = Inr True"
| "all_result p (x # xs) = rbind (p x) (\<lambda>b. if b then all_result p xs else Inr False)"

fun filter_result :: "('a \<Rightarrow> 'e + bool) \<Rightarrow> 'a list \<Rightarrow> 'e + 'a list" where
  "filter_result p [] = Inr []"
| "filter_result p (x # xs) =
     rbind (p x) (\<lambda>b. rbind (filter_result p xs) (\<lambda>ys. Inr (if b then x # ys else ys)))"

text \<open>The fields of a shape, up to its first problem.\<close>

fun resolve_shape_fields ::
  "string set \<Rightarrow> (string \<times> data_type) list \<Rightarrow> shape_field list
     \<Rightarrow> (string \<times> data_type) list \<times> policy_target_problem option" where
  "resolve_shape_fields seen resolved [] = (resolved, None)"
| "resolve_shape_fields seen resolved (field # shape) =
     (if sf_name field \<in> seen then
        (resolved, Some (TargetDuplicateShapeField (sf_name field) (sf_name_span field)))
      else (case data_type_from_logical_name (sf_type_name field) of
        None \<Rightarrow> (resolved, Some (TargetUnknownType (sf_type_name field) (sf_type_span field)))
      | Some data_type \<Rightarrow>
          resolve_shape_fields (insert (sf_name field) seen) (resolved @ [(sf_name field, data_type)])
            shape))"

definition has_shape_field :: "catalog \<Rightarrow> table \<Rightarrow> string \<times> data_type \<Rightarrow> unit fault + bool" where
  "has_shape_field c t field =
     any_result (\<lambda>col. if col_name col = fst field
         then rbind (data_type_for_column c (col_id col)) (\<lambda>d. Inr (d = snd field))
         else Inr False) (columns_for_table c (tb_id t))"

definition resolve_shape_target ::
  "catalog \<Rightarrow> shape_field list \<Rightarrow>
     unit fault + table_id list \<times> (string \<times> data_type) list \<times> policy_target_problem option" where
  "resolve_shape_target c shape =
     (if shape = [] then Inr ([], [], Some TargetEmptyShape)
      else (case resolve_shape_fields {} [] shape of
        (resolved, Some problem) \<Rightarrow> Inr ([], resolved, Some problem)
      | (resolved, None) \<Rightarrow>
          rbind (filter_result (\<lambda>t. all_result (has_shape_field c t) resolved) (cat_tables c))
            (\<lambda>tables. Inr (map tb_id tables, resolved, None))))"

definition resolve_target ::
  "catalog \<Rightarrow> policy_decl \<Rightarrow>
     unit fault + table_id list \<times> (string \<times> data_type) list \<times> policy_target_problem option" where
  "resolve_target c decl =
     (case pd_target decl of
        None \<Rightarrow>
          (if pd_kind decl = PolicyCondition then Inr ([], [], None)
           else Inr ([], [], Some TargetMissing))
      | Some (TargetConcrete name span) \<Rightarrow>
          (case resolve_table_ref_for c (table_ref_parse name) of
             TableFound t \<Rightarrow> Inr ([tb_id t], [], None)
           | TableNotFound reference \<Rightarrow> Inr ([], [], Some (TargetTableNotFound reference span))
           | TableAmbiguous reference candidates \<Rightarrow>
               Inr ([], [], Some (TargetAmbiguousTable reference
                 (map (\<lambda>k. tbk_schema k @ ''::'' @ tbk_table k) candidates) span)))
      | Some (TargetShape shape span) \<Rightarrow> resolve_shape_target c shape)"

definition always_enforced :: "policy_decl \<Rightarrow> bool" where
  "always_enforced decl \<longleftrightarrow>
     (case pd_apply decl of
        None \<Rightarrow> False
      | Some rule \<Rightarrow> (case ar_condition rule of Some (ELiteral (LitBool True) _) \<Rightarrow> True | _ \<Rightarrow> False))"

definition resolve_entry :: "catalog \<Rightarrow> entity \<Rightarrow> policy_decl \<Rightarrow> string \<Rightarrow> unit fault + policy_entry" where
  "resolve_entry c entity decl scope =
     rbind (resolve_target c decl) (\<lambda>(targets, target_fields, problem).
       Inr \<lparr>pe_entity = entity, pe_scope = scope, pe_kind = pd_kind decl, pe_name = pd_name decl,
         pe_matches = targets, pe_target_fields = target_fields,
         pe_has_target = (pd_target decl \<noteq> None), pe_target_problem = problem,
         pe_default_active = (pd_apply decl \<noteq> None), pe_always_enforced = always_enforced decl\<rparr>)"

end
