(* ===== verification/Policy_Compile.thy ===== *)
theory Policy_Compile
  imports Policy_Types Type_Graph Match_Lock
begin

text \<open>
  The compilation of filters (\<open>PolicyCompiler\<close> and \<open>compile_policy\<close> of
  \<open>crates/dsql-core/src/entities/policy.rs\<close>): the rules of a declaration, translated for one
  table into filter expressions of the plan.

  The compiler keeps its context requirements, the conditions it met, its problems and whether it
  failed. An expression yields an option, and \<open>None\<close> ends the rule without undoing the state. A
  referenced condition is compiled in place, with nothing that bounds the nesting: \<open>fuel\<close> is the
  depth of references followed, and running out of it (the outer \<open>None\<close>) stands for a recursion
  that is still going on, as does a walk of the type graph that does not end.
\<close>

section \<open>The compiler's state\<close>

datatype policy_diagnostic_code = CodeTrustedContextTypeMismatch | CodeInvalidPolicyDefinition

record compiler_state =
  cs_context :: "policy_context_requirement list"
  cs_conditions :: "compiled_policy_reference list"
  cs_problems :: "(span \<times> policy_diagnostic_code \<times> string) list"
  cs_failed :: bool

type_synonym 'a compiler = "compiler_state \<Rightarrow> ('a option \<times> compiler_state) option"

definition cret :: "'a \<Rightarrow> 'a compiler" where "cret x s = Some (Some x, s)"

text \<open>An absent value that is not recorded as a failure, a recorded failure, and no return.\<close>

definition cnone :: "'a compiler" where "cnone s = Some (None, s)"
definition cfail :: "'a compiler" where "cfail s = Some (None, s\<lparr>cs_failed := True\<rparr>)"
definition cloops :: "'a compiler" where "cloops s = None"

definition cbind :: "'a compiler \<Rightarrow> ('a \<Rightarrow> 'b compiler) \<Rightarrow> 'b compiler" where
  "cbind m f s = (case m s of
      None \<Rightarrow> None
    | Some (None, s') \<Rightarrow> Some (None, s')
    | Some (Some x, s') \<Rightarrow> f x s')"

text \<open>The option as a value.\<close>

definition ctry :: "'a compiler \<Rightarrow> 'a option compiler" where
  "ctry m s = (case m s of None \<Rightarrow> None | Some (r, s') \<Rightarrow> Some (Some r, s'))"

definition cproblem :: "span \<Rightarrow> policy_diagnostic_code \<Rightarrow> string \<Rightarrow> 'a compiler" where
  "cproblem span code message s =
     cfail (s\<lparr>cs_problems := cs_problems s @ [(span, code, message)]\<rparr>)"

fun cmap :: "('a \<Rightarrow> 'b compiler) \<Rightarrow> 'a list \<Rightarrow> 'b list compiler" where
  "cmap f [] = cret []"
| "cmap f (x # xs) = cbind (f x) (\<lambda>y. cbind (cmap f xs) (\<lambda>ys. cret (y # ys)))"

section \<open>Rows, types, paths\<close>

record policy_row_context =
  prc_root :: table_id
  prc_current :: table_id
  prc_parent :: "table_id option"

definition row_root :: "table_id \<Rightarrow> policy_row_context" where
  "row_root t = \<lparr>prc_root = t, prc_current = t, prc_parent = None\<rparr>"

definition row_nested :: "policy_row_context \<Rightarrow> table_id \<Rightarrow> policy_row_context" where
  "row_nested row t = \<lparr>prc_root = prc_root row, prc_current = t, prc_parent = Some (prc_current row)\<rparr>"

record policy_expected_type =
  pet_data_type :: data_type
  pet_wire :: wire_encoding
  pet_provider_type :: "type_key option"
  pet_closed_values :: "string list"

definition expected_builtin :: "data_type \<Rightarrow> policy_expected_type" where
  "expected_builtin d = \<lparr>pet_data_type = d, pet_wire = cap_wire (capabilities_builtin d),
     pet_provider_type = None, pet_closed_values = []\<rparr>"

abbreviation expected_boolean :: policy_expected_type where
  "expected_boolean \<equiv> expected_builtin DtBoolean"

record compiled_path =
  cp_value :: filter_expr
  cp_data_type :: data_type
  cp_wire :: wire_encoding
  cp_provider_type :: type_key
  cp_closed_values :: "string list"
  cp_relation_scope :: filter_column_scope
  cp_relations :: "(relation_id \<times> table_id) list"

definition expected_from_path :: "compiled_path \<Rightarrow> policy_expected_type" where
  "expected_from_path path = \<lparr>pet_data_type = cp_data_type path, pet_wire = cp_wire path,
     pet_provider_type = Some (cp_provider_type path), pet_closed_values = cp_closed_values path\<rparr>"

record compiler_env =
  ce_catalog :: catalog
  ce_candidates :: "visible_policy_candidate list"
  ce_contexts :: "policy_context_candidate list"
  ce_debug :: "string \<Rightarrow> string"

definition policy_field_ref :: "path_segment \<Rightarrow> field_ref" where
  "policy_field_ref segment =
     \<lparr>fref_target = table_ref_parse (seg_name segment), fref_selector = seg_relation_path segment\<rparr>"

definition policy_field :: "compiler_env \<Rightarrow> table_id \<Rightarrow> string \<Rightarrow> compiled_policy_field compiler" where
  "policy_field env table name =
     (case check_field_ref (ce_catalog env) table
             \<lparr>fref_target = table_ref_parse name, fref_selector = None\<rparr> of
        FieldColumn col \<Rightarrow> cret (CompiledColumn (col_id col))
      | FieldRelation r \<Rightarrow> cret (CompiledRelation (rel_id (rf_relation r)))
      | _ \<Rightarrow> cfail)"

fun anchor_scope :: "path_anchor \<Rightarrow> filter_column_scope" where
  "anchor_scope AnchorCurrent = ScopeCurrent"
| "anchor_scope AnchorRoot = ScopeRoot"
| "anchor_scope AnchorParent = ScopeParent"

definition closed_values_for :: "catalog \<Rightarrow> type_id \<Rightarrow> string list compiler" where
  "closed_values_for c i =
     (case enum_type_for_type c i of
        None \<Rightarrow> cloops
      | Some None \<Rightarrow> cret []
      | Some (Some (_, enumeration)) \<Rightarrow> cret (map ev_variant (enum_variants enumeration)))"

definition policy_path_column ::
  "compiler_env \<Rightarrow> path_anchor \<Rightarrow> (relation_id \<times> table_id) list \<Rightarrow> column \<Rightarrow> compiled_path compiler" where
  "policy_path_column env anchor relations col =
     (case type_for_column (ce_catalog env) (col_id col) of
        None \<Rightarrow> cnone
      | Some catalog_type \<Rightarrow>
          cbind (closed_values_for (ce_catalog env) (ty_id catalog_type)) (\<lambda>closed_values.
          cret \<lparr>cp_value = FColumn (if relations = [] then anchor_scope anchor else ScopeCurrent) (col_id col),
            cp_data_type = logical_data_type catalog_type,
            cp_wire = cap_wire (ty_capabilities catalog_type),
            cp_provider_type = ty_key catalog_type, cp_closed_values = closed_values,
            cp_relation_scope = anchor_scope anchor, cp_relations = relations\<rparr>))"

fun policy_path_loop ::
  "compiler_env \<Rightarrow> path_anchor \<Rightarrow> table_id \<Rightarrow> (relation_id \<times> table_id) list \<Rightarrow> path_segment list
     \<Rightarrow> compiled_path compiler" where
  "policy_path_loop env anchor table relations [] = cfail"
| "policy_path_loop env anchor table relations (segment # rest) =
     (case check_field_ref (ce_catalog env) table (policy_field_ref segment) of
        FieldRelation r \<Rightarrow>
          if rest \<noteq> [] then
            policy_path_loop env anchor (tb_id (rf_table r))
              (relations @ [(rel_id (rf_relation r), tb_id (rf_table r))]) rest
          else cfail
      | FieldColumn col \<Rightarrow>
          if rest = [] then policy_path_column env anchor relations col else cfail
      | _ \<Rightarrow> cfail)"

definition anchor_table :: "policy_row_context \<Rightarrow> path_anchor \<Rightarrow> table_id option" where
  "anchor_table row anchor =
     (case anchor of
        AnchorCurrent \<Rightarrow> Some (prc_current row)
      | AnchorRoot \<Rightarrow> Some (prc_root row)
      | AnchorParent \<Rightarrow> prc_parent row)"

definition policy_path ::
  "compiler_env \<Rightarrow> path_anchor \<Rightarrow> path_segment list \<Rightarrow> policy_row_context option \<Rightarrow> compiled_path compiler"
where
  "policy_path env anchor segments row =
     (case row of
        None \<Rightarrow> cnone
      | Some row \<Rightarrow>
          (case anchor_table row anchor of
             None \<Rightarrow> cnone
           | Some table \<Rightarrow> policy_path_loop env anchor table [] segments))"

definition wrap_relations :: "filter_expr \<Rightarrow> compiled_path \<Rightarrow> filter_expr" where
  "wrap_relations inside path =
     foldr (\<lambda>(i, relation, table) inner.
         FExists (Some relation) table ExistsRelationshipPredicate
           (if i = 0 then cp_relation_scope path else ScopeCurrent) None [] (Some inner))
       (zip [0..<length (cp_relations path)] (cp_relations path)) inside"

text \<open>The source of an existence test.\<close>

definition policy_exists_source ::
  "compiler_env \<Rightarrow> exists_source \<Rightarrow> policy_row_context \<Rightarrow> (relation_id option \<times> table_id) compiler" where
  "policy_exists_source env source row =
     (case source of
        SourceTable name _ \<Rightarrow>
          (case table_ref_for (ce_catalog env) (table_ref_parse name) of
             Some t \<Rightarrow> cret (None, tb_id t)
           | None \<Rightarrow> cfail)
      | SourceRelation (EPath AnchorCurrent [segment] _) \<Rightarrow>
          (case check_field_ref (ce_catalog env) (prc_current row) (policy_field_ref segment) of
             FieldRelation r \<Rightarrow> cret (Some (rel_id (rf_relation r)), tb_id (rf_table r))
           | _ \<Rightarrow> cfail)
      | _ \<Rightarrow> cfail)"

section \<open>Context parameters, literals, operators\<close>

definition require_context :: "policy_context_requirement \<Rightarrow> unit compiler" where
  "require_context requirement s =
     cret () (if list_ex (\<lambda>item. pcr_path item = pcr_path requirement) (cs_context s) then s
              else s\<lparr>cs_context := cs_context s @ [requirement]\<rparr>)"

definition context_parameter_value ::
  "compiler_env \<Rightarrow> variable_ref \<Rightarrow> policy_expected_type \<Rightarrow> bool \<Rightarrow> sql_parameter compiler" where
  "context_parameter_value env variable expected collection =
     (if vr_sigil variable \<noteq> SigilContext then cfail
      else case vr_name variable of
        None \<Rightarrow> cnone
      | Some name \<Rightarrow>
          (case filter (\<lambda>candidate. pcc_name candidate = name) (ce_contexts env) of
             [candidate] \<Rightarrow>
               (case pcc_contract candidate of
                  None \<Rightarrow> cfail
                | Some contract \<Rightarrow>
                    (case validate_context_use name contract
                       \<lparr>cvc_data_type = pet_data_type expected, cvc_wire = pet_wire expected,
                        cvc_provider_type = pet_provider_type expected, cvc_collection = collection,
                        cvc_closed_values = pet_closed_values expected\<rparr> of
                       Inl message \<Rightarrow> cproblem (vr_span variable) CodeTrustedContextTypeMismatch message
                     | Inr _ \<Rightarrow>
                         cbind (require_context
                           \<lparr>pcr_path = ''context.'' @ name, pcr_data_type = cvc_data_type contract,
                            pcr_wire = cvc_wire contract, pcr_provider_type = cvc_provider_type contract,
                            pcr_collection = cvc_collection contract\<rparr>) (\<lambda>_.
                         cret \<lparr>sp_path = ''context.'' @ name,
                           sp_text_cast = (if cvc_wire contract = WireTextCast
                             then cvc_provider_type contract else None),
                           sp_collection = cvc_collection contract\<rparr>)))
           | _ \<Rightarrow> cfail))"

fun closed_literal_allowed :: "string list \<Rightarrow> literal_value \<Rightarrow> bool" where
  "closed_literal_allowed closed_values LitNull = True"
| "closed_literal_allowed closed_values (LitString v) = (v \<in> set closed_values)"
| "closed_literal_allowed closed_values _ = False"

fun filter_literal_of :: "literal_value \<Rightarrow> filter_literal" where
  "filter_literal_of (LitString s) = FlString s"
| "filter_literal_of (LitNumber s) = FlNumber s"
| "filter_literal_of (LitBool b) = FlBool b"
| "filter_literal_of LitNull = FlNull"

definition policy_literal ::
  "compiler_env \<Rightarrow> literal_value \<Rightarrow> span \<Rightarrow> policy_expected_type option \<Rightarrow> filter_expr compiler" where
  "policy_literal env value span expected =
     (case expected of
        Some expected_type \<Rightarrow>
          if pet_closed_values expected_type \<noteq> []
             \<and> \<not> closed_literal_allowed (pet_closed_values expected_type) value
          then cproblem span CodeInvalidPolicyDefinition
            (''expected a variant of `''
             @ (case pet_provider_type expected_type of
                  None \<Rightarrow> ''closed value''
                | Some key \<Rightarrow> tyk_schema key @ ''.'' @ tyk_name key)
             @ ''`; allowed values are ''
             @ join_with '', '' (map (ce_debug env) (pet_closed_values expected_type)))
          else cret (FLiteral (filter_literal_of value))
      | None \<Rightarrow> cret (FLiteral (filter_literal_of value)))"

fun policy_filter_op :: "binary_op \<Rightarrow> filter_op compiler" where
  "policy_filter_op (OpComparison op) = cret (filter_op_of op)"
| "policy_filter_op OpAnd = cret FopAnd"
| "policy_filter_op OpOr = cret FopOr"
| "policy_filter_op _ = cfail"

text \<open>The side of a comparison that is a path, and whether that is the right one.\<close>

definition path_side :: "expr \<Rightarrow> expr \<Rightarrow> (path_anchor \<times> path_segment list \<times> bool) option" where
  "path_side lhs rhs =
     (case lhs of
        EPath anchor segments _ \<Rightarrow> Some (anchor, segments, False)
      | _ \<Rightarrow> (case rhs of EPath anchor segments _ \<Rightarrow> Some (anchor, segments, True) | _ \<Rightarrow> None))"

text \<open>A comparison whose path side is compiled, by its other side.\<close>

definition policy_comparison :: "binary_op \<Rightarrow> compiled_path \<Rightarrow> bool \<Rightarrow> filter_expr \<Rightarrow> filter_expr compiler" where
  "policy_comparison op path reversed other =
     cbind (policy_filter_op op) (\<lambda>filter_op.
       cret (wrap_relations
         (if reversed then FBinary other filter_op (cp_value path)
          else FBinary (cp_value path) filter_op other) path))"

definition policy_membership :: "binary_op \<Rightarrow> compiled_path \<Rightarrow> filter_collection \<Rightarrow> filter_expr" where
  "policy_membership op path collection =
     wrap_relations (FMembership (cp_value path) collection (op = OpNotIn)) path"

text \<open>The condition a name stands for.\<close>

definition condition_candidates :: "compiler_env \<Rightarrow> string \<Rightarrow> visible_policy_candidate list" where
  "condition_candidates env name =
     filter (\<lambda>candidate. pe_kind (vpc_entry candidate) = PolicyCondition
        \<and> pe_name (vpc_entry candidate) = name) (ce_candidates env)"

definition record_condition :: "policy_entry \<Rightarrow> unit compiler" where
  "record_condition entry s =
     cret () (s\<lparr>cs_conditions :=
        cs_conditions s @ [\<lparr>cpr_scope = pe_scope entry, cpr_name = pe_name entry\<rparr>]\<rparr>)"

section \<open>Expressions\<close>

function (sequential) policy_expr ::
  "compiler_env \<Rightarrow> nat \<Rightarrow> expr \<Rightarrow> policy_row_context option \<Rightarrow> policy_expected_type option
     \<Rightarrow> filter_expr compiler"
and policy_items ::
  "compiler_env \<Rightarrow> nat \<Rightarrow> expr list \<Rightarrow> policy_row_context option \<Rightarrow> policy_expected_type
     \<Rightarrow> filter_expr list compiler"
where
  "policy_expr env fuel (EError _) row expected = cfail"
| "policy_expr env fuel (EAggregate _ _ _ _ _) row expected = cfail"
| "policy_expr env fuel (EDynamicPredicate _ _ _) row expected = cfail"
| "policy_expr env fuel (EPredicateRef name _) row expected =
     (case condition_candidates env name of
        [condition] \<Rightarrow>
          cbind (record_condition (vpc_entry condition)) (\<lambda>_.
          case pd_row_rules (vpc_declaration condition) of
            [] \<Rightarrow> cfail
          | rule # _ \<Rightarrow>
              (case fuel of
                 0 \<Rightarrow> cloops
               | Suc fuel \<Rightarrow>
                   policy_expr (env\<lparr>ce_contexts := vpc_contexts condition\<rparr>) fuel rule row
                     (Some expected_boolean)))
      | _ \<Rightarrow> cfail)"
| "policy_expr env fuel (EVariable variable _) row expected =
     cbind (context_parameter_value env variable
              (case expected of Some e \<Rightarrow> e | None \<Rightarrow> expected_boolean) False)
       (\<lambda>p. cret (FParameter p))"
| "policy_expr env fuel (EPath anchor segments _) row expected =
     cbind (policy_path env anchor segments row) (\<lambda>path. cret (wrap_relations (cp_value path) path))"
| "policy_expr env fuel (EUnary _ operand _) row expected =
     cbind (policy_expr env fuel operand row (Some expected_boolean)) (\<lambda>f. cret (FNot f))"
| "policy_expr env fuel (ENullTest (EPath anchor segments _) negated _) row expected =
     cbind (policy_path env anchor segments row) (\<lambda>path.
       cret (wrap_relations (FNullTest (cp_value path) negated) path))"
| "policy_expr env fuel (ENullTest operand negated _) row expected =
     cbind (policy_expr env fuel operand row None) (\<lambda>f. cret (FNullTest f negated))"
| "policy_expr env fuel (EList _ _) row expected = cfail"
| "policy_expr env fuel (EExists source _ predicate _) row expected =
     (case row of
        None \<Rightarrow> cnone
      | Some row \<Rightarrow>
          cbind (policy_exists_source env source row) (\<lambda>(relation, table).
          cbind (case predicate of
                   None \<Rightarrow> cret None
                 | Some p \<Rightarrow> ctry (policy_expr env fuel p (Some (row_nested row table)) (Some expected_boolean)))
            (\<lambda>inner. cret (FExists relation table ExistsExplicit ScopeCurrent None [] inner))))"
| "policy_expr env fuel (ELiteral value span) row expected = policy_literal env value span expected"
| "policy_expr env fuel (EBinary op lhs rhs _) row expected =
     (if op = OpAnd \<or> op = OpOr then
        cbind (policy_expr env fuel lhs row (Some expected_boolean)) (\<lambda>l.
        cbind (policy_expr env fuel rhs row (Some expected_boolean)) (\<lambda>r.
          cret (FBinary l (if op = OpAnd then FopAnd else FopOr) r)))
      else (case path_side lhs rhs of
        Some (anchor, segments, reversed) \<Rightarrow>
          cbind (policy_path env anchor segments row) (\<lambda>path.
          if op = OpIn \<or> op = OpNotIn then
            (if reversed then cfail
             else case rhs of
               EList items _ \<Rightarrow>
                 cbind (policy_items env fuel items row (expected_from_path path)) (\<lambda>items.
                   cret (policy_membership op path (CollList items)))
             | EVariable variable _ \<Rightarrow>
                 cbind (context_parameter_value env variable (expected_from_path path) True) (\<lambda>p.
                   cret (policy_membership op path (CollParameter p)))
             | _ \<Rightarrow> cfail)
          else
            cbind (policy_expr env fuel (if reversed then lhs else rhs) row (Some (expected_from_path path)))
              (policy_comparison op path reversed))
      | None \<Rightarrow>
          cbind (policy_expr env fuel lhs row None) (\<lambda>l.
          cbind (policy_filter_op op) (\<lambda>filter_op.
          cbind (policy_expr env fuel rhs row None) (\<lambda>r. cret (FBinary l filter_op r))))))"
| "policy_items env fuel [] row expected = cret []"
| "policy_items env fuel (item # items) row expected =
     cbind (policy_expr env fuel item row (Some expected)) (\<lambda>f.
     cbind (policy_items env fuel items row expected) (\<lambda>fs. cret (f # fs)))"
  by pat_completeness auto
termination policy_expr
  by (relation "measures [\<lambda>x. case x of Inl (_, fuel, _) \<Rightarrow> fuel | Inr (_, fuel, _) \<Rightarrow> fuel,
       \<lambda>x. case x of Inl (_, _, e, _) \<Rightarrow> size e | Inr (_, _, es, _) \<Rightarrow> size_list size es]") auto

section \<open>Declarations\<close>

definition compiler_start :: compiler_state where
  "compiler_start = \<lparr>cs_context = [], cs_conditions = [], cs_problems = [], cs_failed = False\<rparr>"

text \<open>One field rule: its condition, then its fields; it is kept when both compile.\<close>

definition compile_field_rule ::
  "compiler_env \<Rightarrow> nat \<Rightarrow> table_id \<Rightarrow> policy_field_rule \<Rightarrow> compiled_policy_field_rule option compiler" where
  "compile_field_rule env fuel table rule =
     cbind (ctry (policy_expr env fuel (pfr_condition rule) (Some (row_root table)) (Some expected_boolean)))
       (\<lambda>condition.
     cbind (ctry (cmap (\<lambda>(name, _). policy_field env table name) (pfr_fields rule))) (\<lambda>names.
     cret (case (condition, names) of
             (Some condition, Some names) \<Rightarrow> Some \<lparr>cfr_fields = names, cfr_condition = condition\<rparr>
           | _ \<Rightarrow> None)))"

definition compile_optional ::
  "compiler_env \<Rightarrow> nat \<Rightarrow> table_id \<Rightarrow> expr option \<Rightarrow> filter_expr option compiler" where
  "compile_optional env fuel table rule =
     (case rule of
        None \<Rightarrow> cret None
      | Some e \<Rightarrow> ctry (policy_expr env fuel e (Some (row_root table)) (Some expected_boolean)))"

definition first_rule :: "'a list \<Rightarrow> 'a option" where
  "first_rule rules = (case rules of [] \<Rightarrow> None | rule # _ \<Rightarrow> Some rule)"

definition apply_condition :: "policy_decl \<Rightarrow> expr option" where
  "apply_condition decl = Option.bind (pd_apply decl) ar_condition"

text \<open>One table: its target, unless the compiler failed, with the conditions and problems met.\<close>

definition compile_rules ::
  "compiler_env \<Rightarrow> nat \<Rightarrow> policy_decl \<Rightarrow> table_id
     \<Rightarrow> (filter_expr option \<times> filter_expr option \<times> compiled_policy_field_rule list) compiler" where
  "compile_rules env fuel decl table =
     cbind (compile_optional env fuel table (apply_condition decl)) (\<lambda>enforcement.
     cbind (compile_optional env fuel table (first_rule (pd_row_rules decl))) (\<lambda>row_rule.
     cbind (cmap (compile_field_rule env fuel table) (pd_field_rules decl)) (\<lambda>rules.
       cret (enforcement, row_rule, List.map_filter (\<lambda>rule. rule) rules))))"

definition compile_target ::
  "compiler_env \<Rightarrow> nat \<Rightarrow> policy_decl \<Rightarrow> table_id \<Rightarrow> (compiled_policy_target option \<times> compiler_state) option"
where
  "compile_target env fuel decl table =
     (case compile_rules env fuel decl table compiler_start of
        None \<Rightarrow> None
      | Some (None, s) \<Rightarrow> Some (None, s)
      | Some (Some (enforcement, row_rule, field_rules), s) \<Rightarrow>
          Some (if cs_failed s then None
                else Some \<lparr>cpt_table = table, cpt_enforcement = enforcement, cpt_row_rule = row_rule,
                  cpt_field_rules = field_rules, cpt_context = sort_key pcr_path (cs_context s)\<rparr>, s))"

record policy_compile_problem =
  pcp_entity :: entity
  pcp_span :: span
  pcp_code :: policy_diagnostic_code
  pcp_message :: string

text \<open>The derived order of problems: span, then code, then message; the entity is the same.\<close>

fun code_rank :: "policy_diagnostic_code \<Rightarrow> nat" where
  "code_rank CodeTrustedContextTypeMismatch = 0"
| "code_rank CodeInvalidPolicyDefinition = 1"

definition problem_key :: "policy_compile_problem \<Rightarrow> nat \<times> nat \<times> nat \<times> string" where
  "problem_key p = (span_start (pcp_span p), span_end (pcp_span p), code_rank (pcp_code p), pcp_message p)"

definition compiled_reference_key :: "compiled_policy_reference \<Rightarrow> string \<times> string" where
  "compiled_reference_key r = (cpr_scope r, cpr_name r)"

fun compile_targets ::
  "compiler_env \<Rightarrow> nat \<Rightarrow> policy_decl \<Rightarrow> table_id list
     \<Rightarrow> (compiled_policy_target option \<times> compiler_state) list option" where
  "compile_targets env fuel decl [] = Some []"
| "compile_targets env fuel decl (table # tables) =
     (case compile_target env fuel decl table of
        None \<Rightarrow> None
      | Some r \<Rightarrow> map_option ((#) r) (compile_targets env fuel decl tables))"

definition compile_policy ::
  "compiler_env \<Rightarrow> nat \<Rightarrow> policy_decl \<Rightarrow> policy_entry
     \<Rightarrow> (compiled_policy_entry \<times> policy_compile_problem list) option" where
  "compile_policy env fuel decl entry =
     (case compile_targets env fuel decl (pe_matches entry) of
        None \<Rightarrow> None
      | Some results \<Rightarrow>
          Some (\<lparr>cpe_entity = pe_entity entry, cpe_scope = pe_scope entry, cpe_name = pe_name entry,
              cpe_default_active = pe_default_active entry,
              cpe_has_field_rules = (pd_field_rules decl \<noteq> []),
              cpe_conditions = sort_dedup compiled_reference_key
                (concat (map (\<lambda>(target, s). if target = None then [] else cs_conditions s) results)),
              cpe_targets = List.map_filter fst results\<rparr>,
            sort_dedup problem_key (concat (map (\<lambda>(_, s).
              map (\<lambda>(span, code, message). \<lparr>pcp_entity = pe_entity entry, pcp_span = span,
                pcp_code = code, pcp_message = message\<rparr>) (cs_problems s)) results))))"

end
