(* ===== verification/Policy_Plan.thy ===== *)
theory Policy_Plan
  imports Policy_Compile Variable_Paths Resolution Sql_Names
begin

text \<open>
  The effective filters of one source of a query (\<open>crates/dsql-core/src/plan/build.rs\<close>): the
  assignments that are in force there, the guards of its rows and flds, the audit record of every
  filter, and what a shared result type must assume about the flds of a table.

  The planner's view of the definition is what it reads: the filters visible from a scope, the
  compiled filters, the clauses written under a node, the resolution of a trusted-context use. An
  ordered map of assignments is the list of its insertions, of which the last of a key counts; the
  identities are visited in the order of the entities.
\<close>

section \<open>Boolean filters\<close>

definition boolean_filter :: "bool \<Rightarrow> filter_expr" where
  "boolean_filter b = FLiteral (FlBool b)"

fun filter_boolean :: "filter_expr \<Rightarrow> bool option" where
  "filter_boolean (FLiteral (FlBool b)) = Some b"
| "filter_boolean _ = None"

fun not_filter :: "filter_expr \<Rightarrow> filter_expr" where
  "not_filter (FLiteral (FlBool b)) = boolean_filter (\<not> b)"
| "not_filter (FNot operand) = operand"
| "not_filter f = FNot f"

definition or_filter :: "filter_expr \<Rightarrow> filter_expr \<Rightarrow> filter_expr" where
  "or_filter l r =
     (if filter_boolean l = Some True \<or> filter_boolean r = Some True then boolean_filter True
      else if filter_boolean l = Some False then r
      else if filter_boolean r = Some False then l
      else FBinary l FopOr r)"

definition and_filter :: "filter_expr \<Rightarrow> filter_expr \<Rightarrow> filter_expr" where
  "and_filter l r =
     (if filter_boolean l = Some False \<or> filter_boolean r = Some False then boolean_filter False
      else if filter_boolean l = Some True then r
      else if filter_boolean r = Some True then l
      else FBinary l FopAnd r)"

definition active_policy_guard :: "filter_expr \<Rightarrow> filter_expr \<Rightarrow> filter_expr" where
  "active_policy_guard active condition =
     (if filter_boolean active = Some True then condition
      else or_filter (not_filter active) condition)"

fun input_default_filter :: "input_default \<Rightarrow> filter_expr option" where
  "input_default_filter (DefaultString s) = Some (FLiteral (FlString s))"
| "input_default_filter (DefaultNumber n) = Some (FLiteral (FlNumber n))"
| "input_default_filter (DefaultBoolean b) = Some (FLiteral (FlBool b))"
| "input_default_filter DefaultNull = Some FAbsent"
| "input_default_filter (DefaultCollection _) = None"
| "input_default_filter DefaultEmptyObject = None"

section \<open>Parameters of a filter\<close>

fun filter_parameter_paths :: "filter_expr \<Rightarrow> string set"
and collection_parameter_paths :: "filter_collection \<Rightarrow> string set"
and field_parameter_paths :: "policy_field_filter \<Rightarrow> string set" where
  "filter_parameter_paths (FOptional p f) = insert (sp_path p) (filter_parameter_paths f)"
| "filter_parameter_paths (FParameter p) = {sp_path p}"
| "filter_parameter_paths (FBinary l _ r) = filter_parameter_paths l \<union> filter_parameter_paths r"
| "filter_parameter_paths (FVariantBinary l _ _ r) = filter_parameter_paths l \<union> filter_parameter_paths r"
| "filter_parameter_paths (FNot f) = filter_parameter_paths f"
| "filter_parameter_paths (FNullTest f _) = filter_parameter_paths f"
| "filter_parameter_paths (FMembership f c _) = filter_parameter_paths f \<union> collection_parameter_paths c"
| "filter_parameter_paths (FExists _ _ _ _ policy flds inner) =
     (case policy of None \<Rightarrow> {} | Some f \<Rightarrow> filter_parameter_paths f)
     \<union> (case inner of None \<Rightarrow> {} | Some f \<Rightarrow> filter_parameter_paths f)
     \<union> \<Union> (set (map field_parameter_paths flds))"
| "filter_parameter_paths (FRelationAggregate _ _ _ _ policy flds) =
     (case policy of None \<Rightarrow> {} | Some f \<Rightarrow> filter_parameter_paths f)
     \<union> \<Union> (set (map field_parameter_paths flds))"
| "filter_parameter_paths FAbsent = {}"
| "filter_parameter_paths (FColumn _ _) = {}"
| "filter_parameter_paths (FLiteral _) = {}"
| "filter_parameter_paths (FDynamicPredicate _ _ _) = {}"
| "collection_parameter_paths (CollList items) = \<Union> (set (map filter_parameter_paths items))"
| "collection_parameter_paths (CollParameter p) = {sp_path p}"
| "field_parameter_paths (PolicyFieldFilter _ f _) = filter_parameter_paths f"

section \<open>Context requirements\<close>

definition extend_unique_context ::
  "policy_context_requirement list \<Rightarrow> policy_context_requirement list \<Rightarrow> policy_context_requirement list"
where
  "extend_unique_context context requirements =
     foldl (\<lambda>acc r. if r \<in> set acc then acc else acc @ [r]) context requirements"

text \<open>The first requirement of a path is kept; the result is in the order of the paths.\<close>

definition deduplicate_policy_context ::
  "policy_context_requirement list \<Rightarrow> policy_context_requirement list" where
  "deduplicate_policy_context context =
     map (\<lambda>path. the (find (\<lambda>r. pcr_path r = path) context)) (sort (remdups (map pcr_path context)))"

fun policy_field_target_sort_key :: "policy_field_target \<Rightarrow> nat \<times> nat" where
  "policy_field_target_sort_key (TargetColumn column) = (0, column)"
| "policy_field_target_sort_key (TargetRelation relation) = (1, relation)"

section \<open>The planner\<close>

datatype context_use_resolution =
    ContextResolved entity context_value_contract
  | ContextUnknown
  | ContextAmbiguous "string list"
  | ContextInvalid

record planned_policy_assignment =
  ppa_filter :: entity
  ppa_desired :: filter_expr
  ppa_context :: "policy_context_requirement list"

record source_policy_plan =
  spp_row_filter :: "filter_expr option"
  spp_field_filters :: "policy_field_filter list"
  spp_applications :: "policy_application_plan list"

definition source_policy_default :: source_policy_plan where
  "source_policy_default =
     \<lparr>spp_row_filter = None, spp_field_filters = [], spp_applications = []\<rparr>"

record instance_node =
  in_source :: entity
  in_instance :: "entity option"

record planner =
  pl_scope :: string
  pl_imports :: scope_graph
  pl_policy_index :: policy_index
  pl_compiled_policies :: compiled_policy_index
  pl_shape_policies :: compiled_policy_index
  pl_operation_assignments :: "planned_policy_assignment list"
  pl_clauses_under :: "instance_node \<Rightarrow> clause_fact list"
  pl_context_resolution_at :: "entity option \<Rightarrow> span \<Rightarrow> context_use_resolution option"

fun field_target_of :: "compiled_policy_field \<Rightarrow> policy_field_target" where
  "field_target_of (CompiledColumn column) = TargetColumn column"
| "field_target_of (CompiledRelation relation) = TargetRelation relation"

definition push_unique :: "'a list \<Rightarrow> 'a \<Rightarrow> 'a list" where
  "push_unique xs x = (if x \<in> set xs then xs else xs @ [x])"

text \<open>The field rules any filter of the project has for a table.\<close>

definition shape_field_rules :: "compiled_policy_index \<Rightarrow> table_id \<Rightarrow> compiled_policy_field_rule list" where
  "shape_field_rules index table =
     concat (map cpt_field_rules
       (filter (\<lambda>target. cpt_table target = table) (concat (map cpe_targets index))))"

definition policy_nullable_fields :: "planner \<Rightarrow> table_id \<Rightarrow> policy_field_target list" where
  "policy_nullable_fields pl table =
     foldl push_unique []
       (map field_target_of (concat (map cfr_fields (shape_field_rules (pl_shape_policies pl) table))))"

definition add_field_access :: "policy_access \<Rightarrow> policy_field_access list \<Rightarrow> policy_field_target
    \<Rightarrow> policy_field_access list" where
  "add_field_access access flds target =
     (case position (\<lambda>f. pfa_target f = target) flds of
        Some i \<Rightarrow> flds[i := (flds ! i)\<lparr>pfa_access := access_combine (pfa_access (flds ! i)) access\<rparr>]
      | None \<Rightarrow> flds @ [\<lparr>pfa_target = target, pfa_access = access\<rparr>])"

definition policy_field_access_of :: "planner \<Rightarrow> table_id \<Rightarrow> policy_field_access list" where
  "policy_field_access_of pl table =
     foldl (\<lambda>flds rule.
         let access = access_for_guard (cfr_condition rule) in
         if access = AccessUnconditional then flds
         else foldl (add_field_access access) flds (map field_target_of (cfr_fields rule)))
       [] (shape_field_rules (pl_shape_policies pl) table)"

section \<open>Assignments\<close>

fun lower_snake_from :: "bool \<Rightarrow> string \<Rightarrow> string" where
  "lower_snake_from first [] = []"
| "lower_snake_from first (ch # cs) =
     (if ascii_upper ch then (if first then [] else ''_'') @ [to_ascii_lowercase ch] else [ch])
     @ lower_snake_from False cs"

definition lower_snake_case :: "string \<Rightarrow> string" where
  "lower_snake_case name = lower_snake_from True name"

record assignment_site =
  as_instance :: "entity option"
  as_filter_name :: string
  as_selection_path :: "string list"
  as_variable_scope :: variable_path_scope

definition assignment_expected :: context_value_contract where
  "assignment_expected = \<lparr>cvc_data_type = DtBoolean, cvc_wire = WireBoolean, cvc_provider_type = None,
     cvc_collection = False, cvc_closed_values = []\<rparr>"

definition plan_assignment_variable ::
  "planner \<Rightarrow> assignment_site \<Rightarrow> variable_ref \<Rightarrow> policy_context_requirement list
     \<Rightarrow> filter_expr option \<times> policy_context_requirement list" where
  "plan_assignment_variable pl site variable context =
     (if vr_sigil variable = SigilContext then
        (case vr_name variable of
           None \<Rightarrow> (None, context)
         | Some name \<Rightarrow>
             (case pl_context_resolution_at pl (as_instance site) (vr_span variable) of
                Some (ContextResolved _ contract) \<Rightarrow>
                  (case validate_context_use name contract assignment_expected of
                     Inl _ \<Rightarrow> (None, context)
                   | Inr _ \<Rightarrow>
                       (Some (FParameter \<lparr>sp_path = ''context.'' @ name,
                          sp_text_cast = (if cvc_wire contract = WireTextCast
                            then cvc_provider_type contract else None),
                          sp_collection = cvc_collection contract\<rparr>),
                        context @ [\<lparr>pcr_path = ''context.'' @ name,
                          pcr_data_type = cvc_data_type contract, pcr_wire = cvc_wire contract,
                          pcr_provider_type = cvc_provider_type contract,
                          pcr_collection = cvc_collection contract\<rparr>]))
              | _ \<Rightarrow> (None, context)))
      else
        (Some (FParameter \<lparr>sp_path = variable_path (as_selection_path site)
             \<lparr>vpc_role = RoleFilterAssignment,
              vpc_inferred_path = [lower_snake_case (as_filter_name site)],
              vpc_anonymous_key = None\<rparr>
             (as_variable_scope site) (vr_sigil variable) (vr_name variable),
           sp_text_cast = None, sp_collection = False\<rparr>), context))"

fun assignment_op :: "binary_op \<Rightarrow> filter_op option" where
  "assignment_op OpAnd = Some FopAnd"
| "assignment_op OpOr = Some FopOr"
| "assignment_op (OpComparison op) = Some (filter_op_of op)"
| "assignment_op _ = None"

text \<open>The context collected so far is kept where an expression fails.\<close>

fun plan_assignment_expr ::
  "planner \<Rightarrow> assignment_site \<Rightarrow> expr \<Rightarrow> policy_context_requirement list
     \<Rightarrow> filter_expr option \<times> policy_context_requirement list" where
  "plan_assignment_expr pl site (EVariable variable _) context =
     plan_assignment_variable pl site variable context"
| "plan_assignment_expr pl site (ELiteral (LitBool b) _) context = (Some (boolean_filter b), context)"
| "plan_assignment_expr pl site (EUnary _ operand _) context =
     (let (f, context) = plan_assignment_expr pl site operand context
      in (map_option not_filter f, context))"
| "plan_assignment_expr pl site (EBinary op lhs rhs _) context =
     (case plan_assignment_expr pl site lhs context of
        (None, context) \<Rightarrow> (None, context)
      | (Some l, context) \<Rightarrow>
          (case plan_assignment_expr pl site rhs context of
             (None, context) \<Rightarrow> (None, context)
           | (Some r, context) \<Rightarrow> (map_option (\<lambda>op. FBinary l op r) (assignment_op op), context)))"
| "plan_assignment_expr pl site (ENullTest operand negated _) context =
     (let (f, context) = plan_assignment_expr pl site operand context
      in (map_option (\<lambda>f. FNullTest f negated) f, context))"
| "plan_assignment_expr pl site _ context = (None, context)"

definition plan_assignment ::
  "planner \<Rightarrow> entity option \<Rightarrow> string \<Rightarrow> expr option \<Rightarrow> string list \<Rightarrow> variable_path_scope \<Rightarrow> string
     \<Rightarrow> planned_policy_assignment option" where
  "plan_assignment pl instance name condition selection_path scope definition_scope =
     (case visible_policies (pl_policy_index pl) definition_scope PolicyFilter name (pl_imports pl) of
        [entry] \<Rightarrow>
          (case (case condition of
                   None \<Rightarrow> (Some (boolean_filter True), [])
                 | Some e \<Rightarrow> plan_assignment_expr pl
                     \<lparr>as_instance = instance, as_filter_name = name,
                      as_selection_path = selection_path, as_variable_scope = scope\<rparr> e []) of
             (None, _) \<Rightarrow> None
           | (Some desired, context) \<Rightarrow>
               Some \<lparr>ppa_filter = pe_entity entry, ppa_desired = desired, ppa_context = context\<rparr>)
      | _ \<Rightarrow> None)"

definition plan_assignments ::
  "planner \<Rightarrow> instance_node \<Rightarrow> string list \<Rightarrow> variable_path_scope \<Rightarrow> string
     \<Rightarrow> planned_policy_assignment list" where
  "plan_assignments pl parent selection_path scope definition_scope =
     List.map_filter (\<lambda>clause. case clause of
         ClauseFilterAssignment name _ condition \<Rightarrow>
           plan_assignment pl (in_instance parent) name condition selection_path scope definition_scope
       | _ \<Rightarrow> None)
       (pl_clauses_under pl parent)"

section \<open>The filters of one source\<close>

text \<open>The assignment in force for a filter: the last that was inserted under its identity.\<close>

definition assigned :: "planned_policy_assignment list \<Rightarrow> entity \<Rightarrow> planned_policy_assignment option" where
  "assigned assignments identity = find (\<lambda>a. ppa_filter a = identity) (rev assignments)"

text \<open>
  Operation-wide assignments, then those written at the source, then those of an \<open>exists\<close>.
\<close>

definition source_assignments ::
  "planner \<Rightarrow> instance_node option \<Rightarrow> entity option \<Rightarrow> string list \<Rightarrow> variable_path_scope \<Rightarrow> string
     \<Rightarrow> filter_assignment list \<Rightarrow> planned_policy_assignment list" where
  "source_assignments pl source instance selection_path scope definition_scope explicit =
     pl_operation_assignments pl
     @ (case source of
          None \<Rightarrow> []
        | Some node \<Rightarrow> plan_assignments pl node selection_path scope definition_scope)
     @ List.map_filter (\<lambda>a. case a of FilterAssignment name _ condition _ \<Rightarrow>
          plan_assignment pl instance name condition selection_path scope definition_scope) explicit"

definition applicable_filters :: "planner \<Rightarrow> table_id \<Rightarrow> entity list" where
  "applicable_filters pl table =
     map pe_entity (filter (\<lambda>entry. pe_kind entry = PolicyFilter \<and> table \<in> set (pe_matches entry)
        \<and> pe_scope entry \<in> set (visible_from (pl_imports pl) (pl_scope pl))) (pl_policy_index pl))"

definition policy_identities :: "planner \<Rightarrow> table_id \<Rightarrow> planned_policy_assignment list \<Rightarrow> entity list" where
  "policy_identities pl table assignments =
     sort (remdups (applicable_filters pl table @ map ppa_filter assignments))"

definition desired_state ::
  "planned_policy_assignment option \<Rightarrow> compiled_policy_entry \<Rightarrow> filter_expr" where
  "desired_state assignment compiled =
     (case assignment of
        Some a \<Rightarrow> ppa_desired a | None \<Rightarrow> boolean_filter (cpe_default_active compiled))"

definition assignment_state ::
  "planned_policy_assignment option \<Rightarrow> filter_expr \<Rightarrow> policy_assignment_state" where
  "assignment_state assignment desired =
     (case assignment of
        None \<Rightarrow> PasDefault
      | Some _ \<Rightarrow> (case filter_boolean desired of
           Some True \<Rightarrow> PasEnabled | Some False \<Rightarrow> PasDisabled | None \<Rightarrow> PasConditional))"

definition enforcement_state :: "compiled_policy_target \<Rightarrow> policy_enforcement" where
  "enforcement_state target =
     (case cpt_enforcement target of
        None \<Rightarrow> EnforceNone
      | Some enforcement \<Rightarrow> (case filter_boolean enforcement of
           Some True \<Rightarrow> EnforceAlways | Some False \<Rightarrow> EnforceNone | None \<Rightarrow> EnforceConditional))"

definition active_state :: "compiled_policy_target \<Rightarrow> filter_expr \<Rightarrow> filter_expr" where
  "active_state target desired =
     (case cpt_enforcement target of None \<Rightarrow> desired | Some enforcement \<Rightarrow> or_filter enforcement desired)"

definition collect_policy_context ::
  "compiled_policy_target \<Rightarrow> planned_policy_assignment option \<Rightarrow> filter_expr
     \<Rightarrow> policy_context_requirement list" where
  "collect_policy_context target assignment guard =
     filter (\<lambda>r. pcr_path r \<in> filter_parameter_paths guard) (cpt_context target)
     @ (case assignment of
          None \<Rightarrow> []
        | Some a \<Rightarrow> filter (\<lambda>r. pcr_path r \<in> filter_parameter_paths guard) (ppa_context a))"

definition add_application_field ::
  "policy_access \<Rightarrow> policy_application_field list \<Rightarrow> policy_field_target \<Rightarrow> policy_application_field list"
where
  "add_application_field access flds target =
     (if access = AccessUnconditional then flds
      else case position (\<lambda>f. paf_target f = target) flds of
        Some i \<Rightarrow>
          flds[i := (flds ! i)\<lparr>paf_access := access_combine (paf_access (flds ! i)) access\<rparr>]
      | None \<Rightarrow> flds @ [\<lparr>paf_target = target, paf_access = access\<rparr>])"

definition add_field_filter ::
  "filter_expr \<Rightarrow> policy_context_requirement list \<Rightarrow> policy_field_filter list \<Rightarrow> policy_field_target
     \<Rightarrow> policy_field_filter list" where
  "add_field_filter guard context filters target =
     (case position (\<lambda>f. pf_target f = target) filters of
        Some i \<Rightarrow>
          filters[i := PolicyFieldFilter target (and_filter (pf_filter (filters ! i)) guard)
            (extend_unique_context (pf_context (filters ! i)) context)]
      | None \<Rightarrow> filters @ [PolicyFieldFilter target guard context])"

record policy_step =
  ps_plan :: source_policy_plan
  ps_context :: "policy_context_requirement list"

text \<open>The row rule of an active filter.\<close>

definition plan_row_rule ::
  "compiled_policy_target \<Rightarrow> planned_policy_assignment option \<Rightarrow> filter_expr
     \<Rightarrow> policy_application_plan \<times> policy_step \<Rightarrow> policy_application_plan \<times> policy_step" where
  "plan_row_rule target assignment active st =
     (case st of (application, step) \<Rightarrow>
      case cpt_row_rule target of
        None \<Rightarrow> (application, step)
      | Some rule \<Rightarrow>
          (let guard = active_policy_guard active rule;
               rule_context = collect_policy_context target assignment guard;
               plan = ps_plan step
           in (application\<lparr>pap_context := extend_unique_context (pap_context application) rule_context,
                 pap_rows_filtered := (access_for_guard guard \<noteq> AccessUnconditional)\<rparr>,
               \<lparr>ps_plan = plan\<lparr>spp_row_filter := Some (case spp_row_filter plan of
                    None \<Rightarrow> guard | Some current \<Rightarrow> and_filter current guard)\<rparr>,
                ps_context = extend_unique_context (ps_context step) rule_context\<rparr>)))"

definition plan_field_rule ::
  "compiled_policy_target \<Rightarrow> planned_policy_assignment option \<Rightarrow> filter_expr
     \<Rightarrow> policy_application_plan \<times> policy_step \<Rightarrow> compiled_policy_field_rule
     \<Rightarrow> policy_application_plan \<times> policy_step" where
  "plan_field_rule target assignment active st rule =
     (case st of (application, step) \<Rightarrow>
      let guard = active_policy_guard active (cfr_condition rule);
          access = access_for_guard guard;
          field_context = collect_policy_context target assignment guard;
          targets = map field_target_of (cfr_fields rule);
          plan = ps_plan step
      in (application\<lparr>pap_context := extend_unique_context (pap_context application) field_context,
            pap_fields := foldl (add_application_field access) (pap_fields application) targets\<rparr>,
          step\<lparr>ps_plan := plan\<lparr>spp_field_filters :=
            foldl (add_field_filter guard field_context) (spp_field_filters plan) targets\<rparr>\<rparr>))"

definition policy_identity_of :: "compiled_policy_reference \<Rightarrow> policy_identity" where
  "policy_identity_of r = \<lparr>pid_scope = cpr_scope r, pid_name = cpr_name r\<rparr>"

definition policy_application_start ::
  "entity \<Rightarrow> compiled_policy_entry \<Rightarrow> compiled_policy_target \<Rightarrow> planned_policy_assignment option
     \<Rightarrow> string list \<Rightarrow> table_id \<Rightarrow> policy_application_plan" where
  "policy_application_start identity compiled target assignment selection_path table =
     \<lparr>pap_filter = identity,
      pap_identity = \<lparr>pid_scope = cpe_scope compiled, pid_name = cpe_name compiled\<rparr>,
      pap_conditions = map policy_identity_of (cpe_conditions compiled),
      pap_path = join_with ''.'' selection_path, pap_target = table,
      pap_default_active = cpe_default_active compiled,
      pap_enforcement = enforcement_state target,
      pap_assignment = assignment_state assignment (desired_state assignment compiled),
      pap_rows_filtered = False, pap_fields = [], pap_context = []\<rparr>"

definition push_application :: "policy_application_plan \<Rightarrow> policy_step \<Rightarrow> policy_step" where
  "push_application application step =
     step\<lparr>ps_plan := (ps_plan step)\<lparr>spp_applications := spp_applications (ps_plan step) @ [application]\<rparr>\<rparr>"

text \<open>One identity: nothing without a compiled target, only a record where it is inactive.\<close>

definition plan_policy ::
  "planner \<Rightarrow> table_id \<Rightarrow> string list \<Rightarrow> planned_policy_assignment list \<Rightarrow> policy_step \<Rightarrow> entity
     \<Rightarrow> policy_step" where
  "plan_policy pl table selection_path assignments step identity =
     (case compiled_index_entry (pl_compiled_policies pl) identity of
        None \<Rightarrow> step
      | Some compiled \<Rightarrow>
          (case compiled_index_target (pl_compiled_policies pl) identity table of
             None \<Rightarrow> step
           | Some target \<Rightarrow>
               (let assignment = assigned assignments identity;
                    active = active_state target (desired_state assignment compiled);
                    application = policy_application_start identity compiled target assignment
                      selection_path table
                in if filter_boolean active = Some False then push_application application step
                   else (case foldl (plan_field_rule target assignment active)
                            (plan_row_rule target assignment active (application, step))
                            (cpt_field_rules target) of
                       (application, step) \<Rightarrow>
                         push_application (application\<lparr>
                             pap_fields := sort_key (\<lambda>f. policy_field_target_sort_key (paf_target f))
                               (pap_fields application),
                             pap_context := sort_key pcr_path (pap_context application)\<rparr>) step))))"

definition application_key :: "policy_application_plan \<Rightarrow> string \<times> string \<times> string \<times> nat" where
  "application_key a =
     (pap_path a, pid_scope (pap_identity a), pid_name (pap_identity a), pap_target a)"

definition plan_source_policies ::
  "planner \<Rightarrow> table_id \<Rightarrow> instance_node option \<Rightarrow> entity option \<Rightarrow> string list \<Rightarrow> variable_path_scope
     \<Rightarrow> string \<Rightarrow> filter_assignment list \<Rightarrow> policy_context_requirement list
     \<Rightarrow> source_policy_plan \<times> policy_context_requirement list" where
  "plan_source_policies pl table source instance selection_path scope definition_scope explicit context =
     (let assignments =
            source_assignments pl source instance selection_path scope definition_scope explicit;
          step = foldl (plan_policy pl table selection_path assignments)
            \<lparr>ps_plan = source_policy_default, ps_context = context\<rparr>
            (policy_identities pl table assignments)
      in ((ps_plan step)\<lparr>spp_applications := sort_key application_key (spp_applications (ps_plan step))\<rparr>,
          ps_context step))"

section \<open>Dynamic inputs\<close>

fun dynamic_operator_of :: "comparison_op \<Rightarrow> dynamic_predicate_operator" where
  "dynamic_operator_of CmpEq = DpoEq"
| "dynamic_operator_of CmpNe = DpoNeq"
| "dynamic_operator_of CmpGt = DpoGt"
| "dynamic_operator_of CmpGe = DpoGte"
| "dynamic_operator_of CmpLt = DpoLt"
| "dynamic_operator_of CmpLe = DpoLte"
| "dynamic_operator_of CmpLike = DpoLike"

definition dynamic_predicate_operators :: "type_capabilities \<Rightarrow> dynamic_predicate_operator list" where
  "dynamic_predicate_operators capabilities =
     map dynamic_operator_of (cap_operators capabilities) @ [DpoIn, DpoNotIn, DpoIsNull]"

definition require_dynamic_field_context ::
  "dynamic_input_field list \<Rightarrow> policy_field_filter list \<Rightarrow> policy_context_requirement list
     \<Rightarrow> policy_context_requirement list" where
  "require_dynamic_field_context flds field_filters context =
     foldl (\<lambda>context field.
         case find (\<lambda>f. pf_target f = TargetColumn (dif_column field)) field_filters of
           None \<Rightarrow> context
         | Some f \<Rightarrow> extend_unique_context context (pf_context f)) context flds"

type_synonym dynamic_surface_fields = "dynamic_input_surface \<rightharpoonup> dynamic_input_field list"

fun attach_dynamic_fields :: "dynamic_surface_fields \<Rightarrow> filter_expr \<Rightarrow> filter_expr"
and attach_dynamic_collection :: "dynamic_surface_fields \<Rightarrow> filter_collection \<Rightarrow> filter_collection"
and attach_dynamic_field :: "dynamic_surface_fields \<Rightarrow> policy_field_filter \<Rightarrow> policy_field_filter" where
  "attach_dynamic_fields m (FDynamicPredicate path surface planned) =
     FDynamicPredicate path surface (case m surface of None \<Rightarrow> planned | Some flds \<Rightarrow> flds)"
| "attach_dynamic_fields m (FOptional p f) = FOptional p (attach_dynamic_fields m f)"
| "attach_dynamic_fields m (FNot f) = FNot (attach_dynamic_fields m f)"
| "attach_dynamic_fields m (FNullTest f negated) = FNullTest (attach_dynamic_fields m f) negated"
| "attach_dynamic_fields m (FBinary l op r) =
     FBinary (attach_dynamic_fields m l) op (attach_dynamic_fields m r)"
| "attach_dynamic_fields m (FVariantBinary l path cases r) =
     FVariantBinary (attach_dynamic_fields m l) path cases (attach_dynamic_fields m r)"
| "attach_dynamic_fields m (FMembership f c negated) =
     FMembership (attach_dynamic_fields m f) (attach_dynamic_collection m c) negated"
| "attach_dynamic_fields m (FExists relation table kind scope policy flds inner) =
     FExists relation table kind scope (map_option (attach_dynamic_fields m) policy)
       (map (attach_dynamic_field m) flds) (map_option (attach_dynamic_fields m) inner)"
| "attach_dynamic_fields m (FRelationAggregate relation table function column policy flds) =
     FRelationAggregate relation table function column (map_option (attach_dynamic_fields m) policy)
       (map (attach_dynamic_field m) flds)"
| "attach_dynamic_fields m FAbsent = FAbsent"
| "attach_dynamic_fields m (FColumn scope column) = FColumn scope column"
| "attach_dynamic_fields m (FLiteral l) = FLiteral l"
| "attach_dynamic_fields m (FParameter p) = FParameter p"
| "attach_dynamic_collection m (CollList items) = CollList (map (attach_dynamic_fields m) items)"
| "attach_dynamic_collection m (CollParameter p) = CollParameter p"
| "attach_dynamic_field m (PolicyFieldFilter target f context) =
     PolicyFieldFilter target (attach_dynamic_fields m f) context"

definition wrap_optional_atom :: "filter_expr \<Rightarrow> sql_parameter list \<Rightarrow> filter_expr" where
  "wrap_optional_atom f parameters = foldr FOptional parameters f"

end
