(* ===== verification/Policy_Validation.thy ===== *)
theory Policy_Validation
  imports Policy_Compile
begin

text \<open>
  The checks on declared filters and conditions (\<open>PolicyValidation\<close> and
  \<open>check_policy_definitions\<close> of \<open>crates/dsql-core/src/entities/policy.rs\<close>). Emitting a diagnostic
  is adding it to the list that is returned; all have the code \<open>InvalidPolicyDefinition\<close>.
\<close>

type_synonym policy_diagnostic = "span \<times> string"

section \<open>Boolean rules, targets, declared fields\<close>

fun expr_is_boolean :: "expr \<Rightarrow> bool" where
  "expr_is_boolean (EBinary _ _ _ _) = True"
| "expr_is_boolean (EUnary _ _ _) = True"
| "expr_is_boolean (ENullTest _ _ _) = True"
| "expr_is_boolean (EExists _ _ _ _) = True"
| "expr_is_boolean (EPredicateRef _ _) = True"
| "expr_is_boolean (EVariable _ _) = True"
| "expr_is_boolean (EDynamicPredicate _ _ _) = True"
| "expr_is_boolean (ELiteral (LitBool _) _) = True"
| "expr_is_boolean (EAggregate _ function _ _ _) = (function = ''exists'')"
| "expr_is_boolean _ = False"

definition validate_boolean_rule :: "expr \<Rightarrow> policy_diagnostic list" where
  "validate_boolean_rule e =
     (if expr_is_boolean e then []
      else [(expr_span e, ''filter and condition rules must be boolean predicates'')])"

fun target_span :: "policy_target_syntax \<Rightarrow> span" where
  "target_span (TargetConcrete _ s) = s"
| "target_span (TargetShape _ s) = s"

definition diagnose_target_problem :: "policy_decl \<Rightarrow> policy_entry \<Rightarrow> policy_diagnostic list" where
  "diagnose_target_problem decl entry =
     (case pe_target_problem entry of
        None \<Rightarrow> []
      | Some problem \<Rightarrow>
          [case problem of
             TargetMissing \<Rightarrow>
               (pd_name_span decl, ''filter `'' @ pd_name decl @ ''` must declare an `on` target'')
           | TargetEmptyShape \<Rightarrow>
               (case pd_target decl of None \<Rightarrow> pd_name_span decl | Some target \<Rightarrow> target_span target,
                ''structural targets must declare at least one field'')
           | TargetUnknownType name span \<Rightarrow>
               (span, ''unknown logical type `'' @ name @ ''` in policy target'')
           | TargetDuplicateShapeField name span \<Rightarrow>
               (span, ''duplicate field `'' @ name @ ''` in policy target'')
           | TargetTableNotFound reference span \<Rightarrow> (span, ''table `'' @ reference @ ''` not found'')
           | TargetAmbiguousTable reference candidates span \<Rightarrow>
               (span, ''table `'' @ reference @ ''` is ambiguous; use one of: ''
                  @ join_with '', '' candidates)])"

definition has_shape_target :: "policy_decl \<Rightarrow> bool" where
  "has_shape_target decl \<longleftrightarrow> (case pd_target decl of Some (TargetShape _ _) \<Rightarrow> True | _ \<Rightarrow> False)"

definition validate_declared_field ::
  "policy_decl \<Rightarrow> policy_entry \<Rightarrow> string \<Rightarrow> span \<Rightarrow> catalog \<Rightarrow> policy_diagnostic list" where
  "validate_declared_field decl entry field span c =
     (if has_shape_target decl then
        (if field \<in> set (map fst (pe_target_fields entry)) then []
         else [(span, ''field `'' @ field @ ''` must be declared in the structural target'')])
      else concat (map (\<lambda>table.
          if \<not> list_ex (\<lambda>col. col_name col = field) (columns_for_table c table)
             \<and> list_all (\<lambda>r. rf_name r \<noteq> field) (relation_fields_for_table c table)
          then [(span, ''field `'' @ field @ ''` not found on policy target'')] else [])
        (pe_matches entry)))"

section \<open>Expressions\<close>

text \<open>What a validation reads: \<open>PolicyValidation\<close> without its sink.\<close>

record policy_validation =
  pv_decl :: policy_decl
  pv_entry :: policy_entry
  pv_candidates :: "visible_policy_candidate list"
  pv_catalog :: catalog

definition validate_condition ::
  "policy_validation \<Rightarrow> string \<Rightarrow> span \<Rightarrow> bool \<Rightarrow> policy_diagnostic list" where
  "validate_condition pv name span context_only =
     (if pd_kind (pv_decl pv) = PolicyCondition
      then [(span, ''conditions cannot reference other conditions'')]
      else case filter (\<lambda>candidate. pe_kind (vpc_entry candidate) = PolicyCondition
                  \<and> pe_name (vpc_entry candidate) = name) (pv_candidates pv) of
        [] \<Rightarrow> [(span, ''condition `'' @ name @ ''` not found'')]
      | [condition] \<Rightarrow>
          (if context_only \<and> pe_has_target (vpc_entry condition)
           then [(span, ''condition `'' @ name @ ''` has a row target and cannot be used by `apply where`'')]
           else [])
          @ (if \<not> context_only \<and> pe_matches (vpc_entry condition) \<noteq> []
                \<and> list_ex (\<lambda>table. table \<notin> set (pe_matches (vpc_entry condition)))
                    (pe_matches (pv_entry pv))
             then [(span, ''filter target does not satisfy condition `'' @ name @ ''` target'')]
             else [])
      | _ \<Rightarrow> [(span, ''condition `'' @ name @ ''` is ambiguous'')])"

definition validate_anchor_table ::
  "path_anchor \<Rightarrow> policy_row_context \<Rightarrow> span \<Rightarrow> policy_diagnostic list \<times> table_id option" where
  "validate_anchor_table anchor row span =
     (case anchor of
        AnchorCurrent \<Rightarrow> ([], Some (prc_current row))
      | AnchorRoot \<Rightarrow> ([], Some (prc_root row))
      | AnchorParent \<Rightarrow>
          (case prc_parent row of
             Some parent \<Rightarrow> ([], Some parent)
           | None \<Rightarrow> ([(span, ''this policy expression has no parent row'')], None)))"

fun validate_path_loop :: "catalog \<Rightarrow> table_id \<Rightarrow> path_segment list \<Rightarrow> policy_diagnostic list" where
  "validate_path_loop c table [] = []"
| "validate_path_loop c table (segment # rest) =
     (let not_found =
        [(seg_span segment, ''field path `'' @ seg_name segment @ ''` not found on table `''
          @ (case table_by_id c table of None \<Rightarrow> ''<unknown>'' | Some t \<Rightarrow> tb_name t) @ ''`'')]
      in case check_field_ref c table (policy_field_ref segment) of
        FieldColumn col \<Rightarrow>
          (if rest = [] then
             (case type_for_column c (col_id col) of
                None \<Rightarrow> []
              | Some data_type \<Rightarrow>
                  if cap_wire (ty_capabilities data_type) = WireUnsupported
                  then [(seg_span segment, ''database type `'' @ ty_readable_type data_type
                         @ ''` cannot be used as an input'')]
                  else [])
           else not_found)
      | FieldRelation r \<Rightarrow>
          (if rest \<noteq> [] then validate_path_loop c (tb_id (rf_table r)) rest else not_found)
      | FieldAmbiguousRelation reference candidates \<Rightarrow>
          [(seg_span segment, ''relation `'' @ reference @ ''` is ambiguous; use one of: ''
             @ join_with '', '' candidates)]
      | FieldNotFound \<Rightarrow> not_found)"

definition validate_path ::
  "policy_validation \<Rightarrow> path_anchor \<Rightarrow> path_segment list \<Rightarrow> policy_row_context option
     \<Rightarrow> policy_diagnostic list" where
  "validate_path pv anchor segments row =
     (case segments of
        [] \<Rightarrow> []
      | first # rest \<Rightarrow>
          if has_shape_target (pv_decl pv) then
            (if anchor \<noteq> AnchorCurrent \<or> rest \<noteq> [] \<or> seg_relation_path first \<noteq> None
             then [(seg_span first,
               ''relationship and correlated paths require a concrete policy target'')]
             else if seg_name first \<notin> set (map fst (pe_target_fields (pv_entry pv)))
             then [(seg_span first,
               ''field `'' @ seg_name first @ ''` must be declared in the structural target'')]
             else [])
          else (case row of
              None \<Rightarrow> [(seg_span first, ''row paths require an `on` target'')]
            | Some row \<Rightarrow>
                (case validate_anchor_table anchor row (seg_span first) of
                   (diagnostics, None) \<Rightarrow> diagnostics
                 | (diagnostics, Some table) \<Rightarrow>
                     diagnostics @ validate_path_loop (pv_catalog pv) table segments)))"

definition relation_source_error :: string where
  "relation_source_error = ''`exists` relation source must be one direct collection relation''"

definition validate_relation_source ::
  "policy_validation \<Rightarrow> expr \<Rightarrow> policy_row_context \<Rightarrow> policy_diagnostic list \<times> policy_row_context option"
where
  "validate_relation_source pv path row =
     (case path of
        EPath AnchorCurrent [segment] _ \<Rightarrow>
          (case check_field_ref (pv_catalog pv) (prc_current row) (policy_field_ref segment) of
             FieldRelation r \<Rightarrow>
               ((if rel_cardinality (rf_relation r) \<noteq> RelCollection
                 then [(seg_span segment, ''`exists` relation source must be a collection'')] else []),
                Some (row_nested row (tb_id (rf_table r))))
           | FieldAmbiguousRelation reference candidates \<Rightarrow>
               ([(seg_span segment, ''relation `'' @ reference @ ''` is ambiguous; use one of: ''
                  @ join_with '', '' candidates)], None)
           | _ \<Rightarrow> ([(seg_span segment, ''`exists` relation source must be a collection'')], None))
      | _ \<Rightarrow> ([(expr_span path, relation_source_error)], None))"

definition validate_exists_source ::
  "policy_validation \<Rightarrow> exists_source \<Rightarrow> bool \<Rightarrow> policy_row_context option \<Rightarrow> span
     \<Rightarrow> policy_diagnostic list \<times> policy_row_context option" where
  "validate_exists_source pv source context_only row span =
     (if context_only then ([(span, ''`apply where` cannot traverse rows or tables'')], None)
      else case row of
        None \<Rightarrow> ([(span, ''table traversal requires an `on` target'')], None)
      | Some row \<Rightarrow>
          if has_shape_target (pv_decl pv)
          then ([(span, ''relationship and table traversal require a concrete policy target'')], None)
          else (case source of
              SourceRelation path \<Rightarrow> validate_relation_source pv path row
            | SourceTable name table_span \<Rightarrow>
                (case resolve_table_ref_for (pv_catalog pv) (table_ref_parse name) of
                   TableFound t \<Rightarrow> ([], Some (row_nested row (tb_id t)))
                 | TableNotFound reference \<Rightarrow>
                     ([(table_span, ''table `'' @ reference @ ''` not found'')], None)
                 | TableAmbiguous reference candidates \<Rightarrow>
                     ([(table_span, ''table `'' @ reference @ ''` is ambiguous; use one of: ''
                        @ join_with '', '' (map (\<lambda>k. tbk_schema k @ ''::'' @ tbk_table k) candidates))],
                      None))))"

fun filter_assignment_span :: "filter_assignment \<Rightarrow> span" where
  "filter_assignment_span (FilterAssignment _ _ _ s) = s"

fun validate_expr ::
  "policy_validation \<Rightarrow> expr \<Rightarrow> bool \<Rightarrow> policy_row_context option \<Rightarrow> policy_diagnostic list" where
  "validate_expr pv (EVariable variable _) context_only row =
     (if vr_sigil variable \<noteq> SigilContext then
        [(vr_span variable, policy_kind_display (pd_kind (pv_decl pv))
          @ '' rules may use trusted `$:` context but not public or build variables'')]
      else [])"
| "validate_expr pv (EDynamicPredicate v s span) context_only row =
     [(span, ''bounded dynamic inputs are only supported in query definitions'')]"
| "validate_expr pv (EPath anchor segments span) context_only row =
     (if context_only then [(span, ''`apply where` must depend only on trusted context'')]
      else validate_path pv anchor segments row)"
| "validate_expr pv (EPredicateRef name span) context_only row =
     validate_condition pv name span context_only"
| "validate_expr pv (EBinary _ lhs rhs _) context_only row =
     validate_expr pv lhs context_only row @ validate_expr pv rhs context_only row"
| "validate_expr pv (EUnary _ operand _) context_only row = validate_expr pv operand context_only row"
| "validate_expr pv (ENullTest operand _ _) context_only row =
     validate_expr pv operand context_only row"
| "validate_expr pv (EList items _) context_only row =
     concat (map (\<lambda>item. validate_expr pv item context_only row) items)"
| "validate_expr pv (EExists source filters predicate span) context_only row =
     map (\<lambda>a. (filter_assignment_span a,
        ''filter-authored `exists` sources cannot assign query filters'')) filters
     @ (let (diagnostics, nested) = validate_exists_source pv source context_only row span
        in diagnostics
           @ (case (predicate, nested) of
                (Some p, Some nested) \<Rightarrow> validate_expr pv p context_only (Some nested)
              | _ \<Rightarrow> []))"
| "validate_expr pv (EAggregate _ _ _ _ span) context_only row =
     [(span, ''aggregate expressions are not supported in filter definitions yet'')]"
| "validate_expr pv (ELiteral _ _) context_only row = []"
| "validate_expr pv (EError _) context_only row = []"

section \<open>Declarations\<close>

text \<open>One declaration, in the order the diagnostics are emitted.\<close>

definition check_policy_definition ::
  "policy_validation \<Rightarrow> bool \<Rightarrow> policy_diagnostic list" where
  "check_policy_definition pv embedded =
     (let decl = pv_decl pv; entry = pv_entry pv; c = pv_catalog pv;
          kind = policy_kind_display (pd_kind decl);
          row = (case pe_matches entry of [] \<Rightarrow> None | table # _ \<Rightarrow> Some (row_root table))
      in (if embedded
          then [(pd_name_span decl, kind @ '' definitions must live in standalone dsql files'')] else [])
       @ diagnose_target_problem decl entry
       @ (if pd_target decl \<noteq> None \<and> pe_target_problem entry = None \<and> pe_matches entry = []
          then [(pd_name_span decl, kind @ '' `'' @ pd_name decl @ ''` matches no catalog table'')] else [])
       @ (if pd_kind decl = PolicyFilter \<and> pd_row_rules decl = [] \<and> pd_field_rules decl = []
          then [(pd_span decl, ''filter `'' @ pd_name decl @ ''` must contain a row or field rule'')]
          else [])
       @ (if 1 < pd_apply_count decl
          then [(case pd_apply decl of None \<Rightarrow> pd_span decl | Some rule \<Rightarrow> ar_span rule,
                 ''filter `'' @ pd_name decl @ ''` may contain only one `apply` rule'')] else [])
       @ map (\<lambda>rule. (expr_span rule, kind @ '' `'' @ pd_name decl
            @ ''` may contain only one `where` rule'')) (tl (pd_row_rules decl))
       @ (if pd_kind decl = PolicyCondition \<and> pd_row_rules decl = []
          then [(pd_span decl, ''condition `'' @ pd_name decl @ ''` must contain one `where` rule'')]
          else [])
       @ (if 1 < length (filter (\<lambda>candidate. pe_kind (vpc_entry candidate) = pd_kind decl
                 \<and> pe_name (vpc_entry candidate) = pd_name decl) (pv_candidates pv))
          then [(pd_name_span decl, kind @ '' `'' @ pd_name decl @ ''` is ambiguous in scope `''
                 @ pe_scope entry @ ''`'')] else [])
       @ concat (map (\<lambda>e. validate_boolean_rule e @ validate_expr pv e False row) (pd_row_rules decl))
       @ concat (map (\<lambda>rule.
            concat (map (\<lambda>(field, span). validate_declared_field decl entry field span c)
              (pfr_fields rule))
            @ validate_boolean_rule (pfr_condition rule)
            @ validate_expr pv (pfr_condition rule) False row) (pd_field_rules decl))
       @ (case apply_condition decl of
            None \<Rightarrow> []
          | Some condition \<Rightarrow> validate_boolean_rule condition @ validate_expr pv condition True None))"

text \<open>With the problems its compilation found first, of its own entity only.\<close>

definition check_policy_definitions ::
  "policy_validation \<Rightarrow> bool \<Rightarrow> policy_compile_problem list
     \<Rightarrow> (span \<times> policy_diagnostic_code \<times> string) list" where
  "check_policy_definitions pv embedded problems =
     map (\<lambda>p. (pcp_span p, pcp_code p, pcp_message p))
       (filter (\<lambda>p. pcp_entity p = pe_entity (pv_entry pv)) problems)
     @ map (\<lambda>(span, message). (span, CodeInvalidPolicyDefinition, message))
         (check_policy_definition pv embedded)"

end
