(* ===== verification/Policy_Compile_Correct.thy ===== *)
theory Policy_Compile_Correct
  imports Policy_Plan Policy_Validation
begin

text \<open>
  What the compilation of filters guarantees: it returns for checked declarations and never ends
  where a condition names itself; a compiled target has every rule of its declaration; its filters
  read only rows that are in scope, of the raw catalog, and name the trusted context they need.

  A triple \<open>cspec R N s m Q\<close> says of a step of the compiler that the state it leaves is related
  to \<open>s\<close> by \<open>R\<close> and satisfies \<open>N\<close> where the step ends the rule, \<open>Q\<close> with the result
  otherwise. The rules of the sequencing are proved once, for every relation that is a preorder and
  allows a recorded failure.
\<close>

section \<open>Steps of the compiler\<close>

definition cspec ::
  "(compiler_state \<Rightarrow> compiler_state \<Rightarrow> bool) \<Rightarrow> (compiler_state \<Rightarrow> bool) \<Rightarrow> compiler_state
     \<Rightarrow> 'a compiler \<Rightarrow> ('a \<Rightarrow> compiler_state \<Rightarrow> bool) \<Rightarrow> bool" where
  "cspec R N s m Q \<longleftrightarrow>
     (\<forall>r s'. m s = Some (r, s') \<longrightarrow> R s s' \<and> (case r of None \<Rightarrow> N s' | Some x \<Rightarrow> Q x s'))"

lemma cspecI:
  "(\<And>r s'. m s = Some (r, s') \<Longrightarrow> R s s' \<and> (case r of None \<Rightarrow> N s' | Some x \<Rightarrow> Q x s')) \<Longrightarrow> cspec R N s m Q"
  by (simp add: cspec_def)

lemma cspec_mono:
  "cspec R N s m Q \<Longrightarrow> (\<And>x s'. R s s' \<Longrightarrow> Q x s' \<Longrightarrow> Q' x s') \<Longrightarrow> cspec R N s m Q'"
  unfolding cspec_def by (fastforce split: option.splits)

lemma cspec_loops [simp]: "cspec R N s cloops Q"
  by (simp add: cspec_def cloops_def)

locale compiler_logic =
  fixes R :: "compiler_state \<Rightarrow> compiler_state \<Rightarrow> bool"
    and N :: "compiler_state \<Rightarrow> bool"
  assumes refl: "R s s"
    and trans: "R s s' \<Longrightarrow> R s' s'' \<Longrightarrow> R s s''"
    and failed: "R s (s\<lparr>cs_failed := True\<rparr>)" "N (s\<lparr>cs_failed := True\<rparr>)"
    and problems: "R s (s\<lparr>cs_problems := p\<rparr>)"
begin

lemma ret: "Q x s \<Longrightarrow> cspec R N s (cret x) Q"
  by (simp add: cspec_def cret_def refl)

lemma fail: "cspec R N s cfail Q"
  by (simp add: cspec_def cfail_def failed)

lemma problem: "cspec R N s (cproblem span code message) Q"
  unfolding cspec_def cproblem_def cfail_def using trans[OF problems failed(1)] failed(2) by simp

lemma bind:
  assumes "cspec R N s m Q" and "\<And>x s'. R s s' \<Longrightarrow> Q x s' \<Longrightarrow> cspec R N s' (f x) P"
  shows "cspec R N s (cbind m f) P"
proof (rule cspecI)
  fix r s' assume run: "cbind m f s = Some (r, s')"
  then obtain r1 s1 where m: "m s = Some (r1, s1)"
    by (auto simp: cbind_def split: option.splits prod.splits)
  with assms(1) have m': "R s s1" "case r1 of None \<Rightarrow> N s1 | Some x \<Rightarrow> Q x s1"
    by (simp_all add: cspec_def)
  show "R s s' \<and> (case r of None \<Rightarrow> N s' | Some x \<Rightarrow> P x s')"
  proof (cases r1)
    case None
    with run m have "r = None" "s' = s1" by (simp_all add: cbind_def)
    with m' None show ?thesis by simp
  next
    case (Some x)
    with run m have "f x s1 = Some (r, s')" by (simp add: cbind_def)
    with assms(2)[of s1 x] m' Some have "R s1 s' \<and> (case r of None \<Rightarrow> N s' | Some x \<Rightarrow> P x s')"
      by (simp add: cspec_def)
    with m'(1) trans show ?thesis by blast
  qed
qed

lemma attempt:
  assumes "cspec R N s m Q"
  shows "cspec R N s (ctry m) (\<lambda>r s'. case r of None \<Rightarrow> N s' | Some x \<Rightarrow> Q x s')"
  using assms unfolding cspec_def ctry_def by (auto split: option.splits)

lemma each:
  assumes "\<And>x s'. x \<in> set xs \<Longrightarrow> R s s' \<Longrightarrow> cspec R N s' (f x) (Q x)"
    and stable: "\<And>x y s' s''. Q x y s' \<Longrightarrow> R s' s'' \<Longrightarrow> Q x y s''"
  shows "cspec R N s (cmap f xs) (\<lambda>ys s'. list_all2 (\<lambda>x y. Q x y s') xs ys)"
  using assms(1)
proof (induction xs arbitrary: s)
  case Nil
  show ?case by (simp add: ret)
next
  case (Cons x xs)
  have head: "cspec R N s (f x) (Q x)" using Cons.prems refl by simp
  show ?case unfolding cmap.simps
  proof (rule bind[OF head])
    fix y s' assume y: "R s s'" "Q x y s'"
    have tail: "cspec R N s' (cmap f xs) (\<lambda>ys s'. list_all2 (\<lambda>x y. Q x y s') xs ys)"
      using Cons.prems trans y(1) by (intro Cons.IH) (meson list.set_intros(2))
    show "cspec R N s' (cbind (cmap f xs) (\<lambda>ys. cret (y # ys)))
        (\<lambda>ys s'. list_all2 (\<lambda>x y. Q x y s') (x # xs) ys)"
      by (rule bind[OF tail], rule ret) (simp add: stable[OF y(2)])
  qed
qed

end

section \<open>No silent absence\<close>

text \<open>
  A step that ends a rule has recorded a failure, and a recorded failure stays. What the code does
  not record are a parent path of a row without a parent, a trusted-context variable without a
  name and a column without a type.
\<close>

abbreviation keeps_failure :: "compiler_state \<Rightarrow> compiler_state \<Rightarrow> bool" where
  "keeps_failure s s' \<equiv> cs_failed s \<longrightarrow> cs_failed s'"

interpretation honest: compiler_logic keeps_failure cs_failed
  by unfold_locales auto

fun row_safe :: "bool \<Rightarrow> expr \<Rightarrow> bool" where
  "row_safe nested (EBinary _ l r _) = (row_safe nested l \<and> row_safe nested r)"
| "row_safe nested (EUnary _ e _) = row_safe nested e"
| "row_safe nested (ENullTest e _ _) = row_safe nested e"
| "row_safe nested (EList items _) = list_all (row_safe nested) items"
| "row_safe nested (EExists _ _ predicate _) =
     (case predicate of None \<Rightarrow> True | Some p \<Rightarrow> row_safe True p)"
| "row_safe nested (EPath anchor segments _) = (anchor = AnchorParent \<longrightarrow> nested)"
| "row_safe nested (EVariable v _) = (vr_sigil v = SigilContext \<longrightarrow> vr_name v \<noteq> None)"
| "row_safe nested (ELiteral _ _) = True"
| "row_safe nested (EDynamicPredicate _ _ _) = True"
| "row_safe nested (EPredicateRef _ _) = True"
| "row_safe nested (EAggregate _ _ _ _ _) = True"
| "row_safe nested (EError _) = True"

lemma row_safe_mono: "row_safe False e \<Longrightarrow> row_safe nested e"
  by (cases nested) (induction False e rule: row_safe.induct,
      auto simp: list_all_iff split: option.splits)

definition candidate_rule :: "visible_policy_candidate \<Rightarrow> expr option" where
  "candidate_rule candidate = first_rule (pd_row_rules (vpc_declaration candidate))"

definition conditions_safe :: "visible_policy_candidate list \<Rightarrow> bool" where
  "conditions_safe candidates \<longleftrightarrow>
     (\<forall>candidate \<in> set candidates. pe_kind (vpc_entry candidate) = PolicyCondition \<longrightarrow>
        (case candidate_rule candidate of None \<Rightarrow> True | Some rule \<Rightarrow> row_safe False rule))"

lemma condition_candidates_mem:
  "condition_candidates env name = [condition] \<Longrightarrow>
     condition \<in> set (ce_candidates env) \<and> pe_kind (vpc_entry condition) = PolicyCondition"
  unfolding condition_candidates_def by (drule arg_cong[of _ _ set]) (auto simp: filter_eq_Cons_iff)

lemma checked_column_typed:
  assumes "catalog_wf c" and "check_field_ref c i f = FieldColumn col"
  obtains t where "type_for_column c (col_id col) = Some t"
proof -
  from check_field_ref_column[OF assms] have "column_by_id c (col_id col) = Some col" by blast
  moreover from this assms(1) have "col_type_id col < length (cat_types c)"
    by (auto simp: column_by_id_def get_at_Some_iff catalog_wf_defs Let_def)
  ultimately show ?thesis
    using that by (auto simp: type_for_column_def type_by_id_def get_at_def)
qed

definition honest_step :: "'a compiler \<Rightarrow> bool" where
  "honest_step m \<longleftrightarrow> (\<forall>s. cspec keeps_failure cs_failed s m (\<lambda>_ _. True))"

lemma honest_ret [simp]: "honest_step (cret x)"
  by (simp add: honest_step_def honest.ret)

lemma honest_fail [simp]: "honest_step cfail"
  by (simp add: honest_step_def honest.fail)

lemma honest_problem [simp]: "honest_step (cproblem span code message)"
  by (simp add: honest_step_def honest.problem)

lemma honest_loops [simp]: "honest_step cloops"
  by (simp add: honest_step_def)

lemma honest_bind [intro!]:
  assumes "honest_step m" and "\<And>x. honest_step (f x)"
  shows "honest_step (cbind m f)"
  unfolding honest_step_def
proof
  fix s
  show "cspec keeps_failure cs_failed s (cbind m f) (\<lambda>_ _. True)"
    by (rule honest.bind[of _ _ "\<lambda>_ _. True"]) (use assms in \<open>simp_all add: honest_step_def\<close>)
qed

lemma honest_try [simp]: "honest_step m \<Longrightarrow> honest_step (ctry m)"
  unfolding honest_step_def
proof
  fix s assume "\<forall>s. cspec keeps_failure cs_failed s m (\<lambda>_ _. True)"
  then have "cspec keeps_failure cs_failed s m (\<lambda>_ _. True)" by blast
  from honest.attempt[OF this] show "cspec keeps_failure cs_failed s (ctry m) (\<lambda>_ _. True)"
    by (rule cspec_mono) simp
qed

lemma honest_require [simp]: "honest_step (require_context r)"
  by (auto simp: honest_step_def require_context_def cret_def cspec_def)

lemma honest_record [simp]: "honest_step (record_condition entry)"
  by (auto simp: honest_step_def record_condition_def cret_def cspec_def)

lemma honest_closed_values [simp]: "honest_step (closed_values_for c i)"
  by (auto simp: closed_values_for_def split: option.splits)

lemma honest_filter_op [simp]: "honest_step (policy_filter_op op)"
  by (cases op) auto

lemma honest_field [simp]: "honest_step (policy_field env table name)"
  by (auto simp: policy_field_def split: field_check_result.splits)

lemma honest_exists_source [simp]: "honest_step (policy_exists_source env source row)"
proof (cases source)
  case (SourceRelation path)
  show ?thesis
  proof (cases "\<exists>segment sp. path = EPath AnchorCurrent [segment] sp")
    case True
    then show ?thesis
      by (auto simp: SourceRelation policy_exists_source_def split: field_check_result.split)
  next
    case False
    then show ?thesis
      by (cases path) (auto simp: SourceRelation policy_exists_source_def
          split: path_anchor.split list.split)
  qed
next
  case (SourceTable name sp)
  then show ?thesis by (simp add: policy_exists_source_def split: option.split)
qed

lemma honest_literal [simp]: "honest_step (policy_literal env value span expected)"
  by (auto simp: policy_literal_def split: option.splits)

lemma honest_comparison [simp]: "honest_step (policy_comparison op path reversed other)"
  by (auto simp: policy_comparison_def)

lemma honest_context_parameter:
  "(vr_sigil v = SigilContext \<longrightarrow> vr_name v \<noteq> None) \<Longrightarrow>
     honest_step (context_parameter_value env v expected collection)"
  unfolding context_parameter_value_def by (auto split: option.splits list.splits sum.splits)

lemma honest_path_loop:
  "catalog_wf (ce_catalog env) \<Longrightarrow> honest_step (policy_path_loop env anchor table relations segments)"
proof (induction env anchor table relations segments rule: policy_path_loop.induct)
  case (2 env anchor table relations segment rest)
  show ?case
  proof (cases "check_field_ref (ce_catalog env) table (policy_field_ref segment)")
    case (FieldColumn col)
    from checked_column_typed[OF 2(2) this] obtain t
      where t: "type_for_column (ce_catalog env) (col_id col) = Some t" by blast
    have "honest_step (policy_path_column env anchor relations col)"
      unfolding policy_path_column_def t option.case by (rule honest_bind) simp_all
    then show ?thesis by (simp add: FieldColumn)
  next
    case (FieldRelation r)
    then show ?thesis using 2 by simp
  qed simp_all
qed simp

lemma honest_path:
  "catalog_wf (ce_catalog env) \<Longrightarrow> (anchor = AnchorParent \<longrightarrow> prc_parent row \<noteq> None) \<Longrightarrow>
     honest_step (policy_path env anchor segments (Some row))"
  by (auto simp: policy_path_def anchor_table_def intro: honest_path_loop
      split: path_anchor.splits option.splits)

lemma path_side_cases:
  assumes "path_side l r = Some (anchor, segments, reversed)"
  obtains sp where "\<not> reversed" "l = EPath anchor segments sp"
  | sp where "reversed" "r = EPath anchor segments sp"
proof (cases "\<exists>a ss sp. l = EPath a ss sp")
  case True
  then show ?thesis using assms that by (auto simp: path_side_def)
next
  case False
  then have "path_side l r =
      (case r of EPath anchor segments _ \<Rightarrow> Some (anchor, segments, True) | _ \<Rightarrow> None)"
    by (cases l) (simp_all add: path_side_def)
  then show ?thesis using assms that by (cases r) simp_all
qed

lemma path_side_safe:
  "path_side l r = Some (anchor, segments, reversed) \<Longrightarrow> row_safe nested l \<Longrightarrow> row_safe nested r \<Longrightarrow>
     anchor = AnchorParent \<longrightarrow> nested"
  by (erule path_side_cases) auto

section \<open>Induction over the expressions compiled\<close>

fun compound :: "expr \<Rightarrow> bool" where
  "compound (EBinary _ _ _ _) = True"
| "compound (EUnary _ _ _) = True"
| "compound (ENullTest _ _ _) = True"
| "compound (EExists _ _ _ _) = True"
| "compound (EPredicateRef _ _) = True"
| "compound (EList _ _) = False"
| "compound (EPath _ _ _) = False"
| "compound (EVariable _ _) = False"
| "compound (ELiteral _ _) = False"
| "compound (EDynamicPredicate _ _ _) = False"
| "compound (EAggregate _ _ _ _ _) = False"
| "compound (EError _) = False"

lemma policy_expr_induct [case_names leaf ref unary null exists binary]:
  assumes leaf: "\<And>env fuel e row ty. \<not> compound e \<Longrightarrow> P env fuel e row ty"
    and ref: "\<And>env fuel name sp row ty.
        (\<And>env n rule ty. fuel = Suc n \<Longrightarrow> P env n rule row ty) \<Longrightarrow> P env fuel (EPredicateRef name sp) row ty"
    and unary: "\<And>env fuel op e sp row ty.
        (\<And>ty. P env fuel e row ty) \<Longrightarrow> P env fuel (EUnary op e sp) row ty"
    and null: "\<And>env fuel e negated sp row ty.
        (\<And>ty. P env fuel e row ty) \<Longrightarrow> P env fuel (ENullTest e negated sp) row ty"
    and exists: "\<And>env fuel source filters predicate sp row ty.
        (\<And>p row ty. predicate = Some p \<Longrightarrow> P env fuel p row ty) \<Longrightarrow>
        P env fuel (EExists source filters predicate sp) row ty"
    and binary: "\<And>env fuel op l r sp row ty.
        (\<And>ty. P env fuel l row ty) \<Longrightarrow> (\<And>ty. P env fuel r row ty) \<Longrightarrow>
        (\<And>items sp' item ty. r = EList items sp' \<Longrightarrow> item \<in> set items \<Longrightarrow> P env fuel item row ty) \<Longrightarrow>
        P env fuel (EBinary op l r sp) row ty"
  shows "P env fuel e row ty"
proof (induction fuel arbitrary: env e row ty rule: less_induct)
  case (less fuel env e row ty)
  have deeper: "P env' n rule row' ty'" if "fuel = Suc n" for env' n rule row' ty'
    using less that by simp
  show ?case
  proof (induction e arbitrary: row ty rule: measure_induct_rule[of size])
    case (less e row ty)
    have smaller: "P env fuel e' row' ty'" if "size e' < size e" for e' row' ty'
      using less.IH that by blast
    show ?case
    proof (cases e)
      case (EBinary op l r sp)
      have "size item < size e" if "r = EList items sp'" "item \<in> set items" for items sp' item
        using that EBinary size_list_estimation'[of item items "size item" size] by simp
      note smaller[OF this]
      moreover have "P env fuel l row ty'" "P env fuel r row ty'" for ty'
        by (rule smaller; simp add: EBinary)+
      ultimately show ?thesis unfolding EBinary by (intro binary)
    next
      case (EExists source filters predicate sp)
      have "P env fuel p row' ty'" if "predicate = Some p" for p row' ty'
        by (rule smaller) (simp add: EExists that)
      then show ?thesis unfolding EExists by (intro exists)
    next
      case (EPredicateRef name sp)
      show ?thesis unfolding EPredicateRef by (intro ref deeper)
    next
      case (EUnary op e' sp)
      have "P env fuel e' row ty'" for ty' by (rule smaller) (simp add: EUnary)
      then show ?thesis unfolding EUnary by (intro unary)
    next
      case (ENullTest e' negated sp)
      have "P env fuel e' row ty'" for ty' by (rule smaller) (simp add: ENullTest)
      then show ?thesis unfolding ENullTest by (intro null)
    qed (simp_all add: leaf)
  qed
qed

lemma policy_items_cmap:
  "policy_items env fuel items row ty = cmap (\<lambda>item. policy_expr env fuel item row (Some ty)) items"
  by (induction items) simp_all

lemma policy_null_test:
  "policy_expr env fuel (ENullTest operand negated sp) row ty =
     (case operand of
        EPath anchor segments _ \<Rightarrow>
          cbind (policy_path env anchor segments row) (\<lambda>path.
            cret (wrap_relations (FNullTest (cp_value path) negated) path))
      | _ \<Rightarrow> cbind (policy_expr env fuel operand row None) (\<lambda>f. cret (FNullTest f negated)))"
  by (cases operand) simp_all

text \<open>\<open>nested\<close> says that the row has a parent.\<close>

lemma honest_map: "(\<And>x. x \<in> set xs \<Longrightarrow> honest_step (f x)) \<Longrightarrow> honest_step (cmap f xs)"
  by (induction xs) auto

lemma honest_binary:
  assumes l: "\<And>ty. honest_step (policy_expr env fuel l row ty)"
    and r: "\<And>ty. honest_step (policy_expr env fuel r row ty) \<or> (\<exists>items sp. r = EList items sp)"
    and items: "\<And>items sp item ty. r = EList items sp \<Longrightarrow> item \<in> set items \<Longrightarrow>
        honest_step (policy_expr env fuel item row ty)"
    and path: "\<And>anchor segments reversed. path_side l r = Some (anchor, segments, reversed) \<Longrightarrow>
        honest_step (policy_path env anchor segments row)"
    and variable: "\<And>v sp path. r = EVariable v sp \<Longrightarrow> honest_step (context_parameter_value env v path True)"
  shows "honest_step (policy_expr env fuel (EBinary op l r sp) row ty)"
proof -
  have r': "honest_step (policy_expr env fuel r row ty)" for ty
    using r[of ty] by auto
  have collection: "honest_step (case r of
      EList items _ \<Rightarrow> cbind (policy_items env fuel items row (expected_from_path path)) (\<lambda>items.
        cret (policy_membership op path (CollList items)))
    | EVariable variable _ \<Rightarrow> cbind (context_parameter_value env variable (expected_from_path path) True)
        (\<lambda>p. cret (policy_membership op path (CollParameter p)))
    | _ \<Rightarrow> cfail)" for path
    by (cases r) (auto simp: policy_items_cmap intro!: honest_map items variable)
  show ?thesis
    using collection by (auto simp: l r' path split: option.split)
qed

lemma honest_expr:
  "row = Some r \<Longrightarrow> catalog_wf (ce_catalog env) \<Longrightarrow> conditions_safe (ce_candidates env) \<Longrightarrow>
     row_safe (prc_parent r \<noteq> None) e \<Longrightarrow> honest_step (policy_expr env fuel e row ty)"
proof (induction env fuel e row ty arbitrary: r rule: policy_expr_induct)
  case (leaf env fuel e row ty)
  then show ?case by (cases e) (auto intro!: honest_context_parameter honest_path)
next
  case (ref env fuel name sp row ty)
  show ?case
  proof (cases "\<exists>condition. condition_candidates env name = [condition]")
    case True
    then obtain condition where c: "condition_candidates env name = [condition]" by blast
    from condition_candidates_mem[OF c] ref.prems(3)
    have safe: "case candidate_rule condition of None \<Rightarrow> True | Some rule \<Rightarrow> row_safe False rule"
      by (auto simp: conditions_safe_def)
    have step: "honest_step (policy_expr (env\<lparr>ce_contexts := vpc_contexts condition\<rparr>) n rule row
        (Some expected_boolean))"
      if "pd_row_rules (vpc_declaration condition) = rule # rules" "fuel = Suc n" for rule rules n
      by (rule ref.IH[OF that(2) ref.prems(1)])
         (use ref.prems safe that in \<open>auto simp: candidate_rule_def first_rule_def intro: row_safe_mono\<close>)
    show ?thesis using c step by (auto split: list.split nat.split)
  next
    case False
    then show ?thesis by (auto split: list.split)
  qed
next
  case (unary env fuel op e sp row ty)
  then show ?case by auto
next
  case (null env fuel e negated sp row ty)
  have operand: "honest_step (policy_expr env fuel e row None)" using null by auto
  have path: "honest_step (policy_path env anchor segments row)"
    if "e = EPath anchor segments sp'" for anchor segments sp'
    using null.prems that by (auto intro!: honest_path)
  show ?case unfolding policy_null_test
    by (split expr.split) (use operand path in \<open>auto simp del: policy_expr.simps\<close>)
next
  case (exists env fuel source filters predicate sp row ty)
  have "honest_step (policy_expr env fuel p (Some (row_nested r table)) ty)"
    if "predicate = Some p" for p table ty
    using exists.IH[OF that refl] exists.prems that by (simp add: row_nested_def)
  then show ?case using exists.prems(1) by (auto split: option.split)
next
  case (binary env fuel op l e sp row ty)
  have paths: "honest_step (policy_path env anchor segments row)"
    if "path_side l e = Some (anchor, segments, reversed)" for anchor segments reversed
    using path_side_safe[OF that, of "prc_parent r \<noteq> None"] binary.prems
    by (auto intro!: honest_path)
  show ?case
    by (rule honest_binary)
       (use binary paths in \<open>auto simp: list_all_iff intro!: honest_context_parameter\<close>)
qed

section \<open>What a step depends on\<close>

text \<open>
  What a step makes of a rule, and whether it fails, does not depend on what was compiled before:
  the state only collects.
\<close>

definition outcome :: "('a option \<times> compiler_state) option \<Rightarrow> ('a option \<times> bool) option" where
  "outcome run = map_option (\<lambda>(r, s). (r, cs_failed s)) run"

definition uniform :: "'a compiler \<Rightarrow> bool" where
  "uniform m \<longleftrightarrow> (\<forall>s s'. cs_failed s = cs_failed s' \<longrightarrow> outcome (m s) = outcome (m s'))"

lemma uniform_basic [simp]:
  "uniform (cret x)" "uniform cnone" "uniform cfail" "uniform cloops" "uniform (cproblem span code message)"
  by (simp_all add: uniform_def outcome_def cret_def cnone_def cfail_def cloops_def cproblem_def)

lemma uniform_bind [intro!]:
  assumes "uniform m" and "\<And>x. uniform (f x)"
  shows "uniform (cbind m f)"
  unfolding uniform_def
proof (intro allI impI)
  fix s s' :: compiler_state assume "cs_failed s = cs_failed s'"
  with assms(1) have m: "outcome (m s) = outcome (m s')" unfolding uniform_def by blast
  have f: "outcome (f x t) = outcome (f x t')" if "cs_failed t = cs_failed t'" for x and t t' :: compiler_state
    using assms(2) that unfolding uniform_def by blast
  show "outcome (cbind m f s) = outcome (cbind m f s')"
  proof (cases "m s")
    case None
    with m have "m s' = None" by (simp add: outcome_def)
    with None show ?thesis by (simp add: cbind_def outcome_def)
  next
    case (Some run)
    obtain r t where t: "m s = Some (r, t)" using Some by (cases run) simp
    with m obtain t' where t': "m s' = Some (r, t')" "cs_failed t = cs_failed t'"
      by (cases "m s'") (auto simp: outcome_def)
    show ?thesis
    proof (cases r)
      case None
      with t t' show ?thesis by (simp add: cbind_def outcome_def)
    next
      case (Some x)
      with t t' f[OF t'(2), of x] show ?thesis by (simp add: cbind_def)
    qed
  qed
qed

lemma uniform_try [simp]:
  assumes "uniform m"
  shows "uniform (ctry m)"
proof -
  have "outcome (ctry m s) = map_option (\<lambda>(r, failed). (Some r, failed)) (outcome (m s))" for s
    by (simp add: ctry_def outcome_def split: option.split)
  note through = this
  show ?thesis unfolding uniform_def through
  proof (intro allI impI)
    fix s s' :: compiler_state assume "cs_failed s = cs_failed s'"
    with assms have "outcome (m s) = outcome (m s')" unfolding uniform_def by blast
    then show "map_option (\<lambda>(r, failed). (Some r, failed)) (outcome (m s))
        = map_option (\<lambda>(r, failed). (Some r, failed)) (outcome (m s'))" by (rule arg_cong)
  qed
qed

lemma uniform_map [intro!]: "(\<And>x. x \<in> set xs \<Longrightarrow> uniform (f x)) \<Longrightarrow> uniform (cmap f xs)"
  by (induction xs) auto

lemma uniform_collect [simp]: "uniform (require_context r)" "uniform (record_condition entry)"
  by (simp_all add: uniform_def outcome_def require_context_def record_condition_def cret_def)

lemma uniform_closed_values [simp]: "uniform (closed_values_for c i)"
  by (auto simp: closed_values_for_def split: option.split)

lemma uniform_filter_op [simp]: "uniform (policy_filter_op op)"
  by (cases op) auto

lemma uniform_exists_source [simp]: "uniform (policy_exists_source env source row)"
proof (cases source)
  case (SourceRelation path)
  show ?thesis
  proof (cases "\<exists>segment sp. path = EPath AnchorCurrent [segment] sp")
    case True
    then show ?thesis
      by (auto simp: SourceRelation policy_exists_source_def split: field_check_result.split)
  next
    case False
    then show ?thesis
      by (cases path) (auto simp: SourceRelation policy_exists_source_def
          split: path_anchor.split list.split)
  qed
next
  case (SourceTable name sp)
  then show ?thesis by (simp add: policy_exists_source_def split: option.split)
qed

lemma uniform_literal [simp]: "uniform (policy_literal env value span expected)"
  by (auto simp: policy_literal_def split: option.split)

lemma uniform_comparison [simp]: "uniform (policy_comparison op path reversed other)"
  by (auto simp: policy_comparison_def)

lemma uniform_context_parameter [simp]: "uniform (context_parameter_value env v expected collection)"
  unfolding context_parameter_value_def by (auto split: option.split list.split sum.split)

lemma uniform_path [simp]: "uniform (policy_path env anchor segments row)"
proof -
  have "uniform (policy_path_loop env anchor table relations segments)" for table relations
    by (induction env anchor table relations segments rule: policy_path_loop.induct)
       (auto simp: policy_path_column_def split: field_check_result.split option.split)
  then show ?thesis by (auto simp: policy_path_def split: option.split)
qed

lemma uniform_expr: "uniform (policy_expr env fuel e row ty)"
proof (induction env fuel e row ty rule: policy_expr_induct)
  case (leaf env fuel e row ty)
  then show ?case by (cases e) auto
next
  case (ref env fuel name sp row ty)
  then show ?case by (auto split: list.split nat.split)
next
  case (unary env fuel op e sp row ty)
  then show ?case by auto
next
  case (null env fuel e negated sp row ty)
  then show ?case unfolding policy_null_test
    by (split expr.split) (auto simp del: policy_expr.simps)
next
  case (exists env fuel source filters predicate sp row ty)
  then show ?case by (auto split: option.split)
next
  case (binary env fuel op l e sp row ty)
  have collection: "uniform (case e of
      EList items _ \<Rightarrow> cbind (policy_items env fuel items row (expected_from_path path)) (\<lambda>items.
        cret (policy_membership op path (CollList items)))
    | EVariable variable _ \<Rightarrow> cbind (context_parameter_value env variable (expected_from_path path) True)
        (\<lambda>p. cret (policy_membership op path (CollParameter p)))
    | _ \<Rightarrow> cfail)" for path
    using binary.IH(3) by (cases e) (auto simp: policy_items_cmap)
  show ?case using collection binary.IH(1,2) by (auto split: option.split)
qed

text \<open>The value of a step that succeeds without a recorded failure, from the first state.\<close>

definition clean_value :: "'a compiler \<Rightarrow> 'a \<Rightarrow> bool" where
  "clean_value m x \<longleftrightarrow> (\<exists>s. m compiler_start = Some (Some x, s) \<and> \<not> cs_failed s)"

lemma honest_value:
  assumes "honest_step m" and "uniform m"
  shows "cspec keeps_failure cs_failed s m (\<lambda>x s'. \<not> cs_failed s' \<longrightarrow> clean_value m x)"
proof (rule cspecI)
  fix r s' assume run: "m s = Some (r, s')"
  with assms(1) have kept: "keeps_failure s s'" and none: "r = None \<Longrightarrow> cs_failed s'"
    by (auto simp: honest_step_def cspec_def split: option.splits)
  have "clean_value m x" if x: "r = Some x" and clean: "\<not> cs_failed s'" for x
  proof -
    have "cs_failed s = cs_failed compiler_start" using kept clean by (simp add: compiler_start_def)
    with assms(2) have "outcome (m compiler_start) = outcome (m s)" by (metis uniform_def)
    then obtain t where "m compiler_start = Some (Some x, t)" "\<not> cs_failed t"
      using run x clean by (auto simp: outcome_def)
    then show ?thesis by (auto simp: clean_value_def)
  qed
  with kept none show "keeps_failure s s' \<and>
      (case r of None \<Rightarrow> cs_failed s' | Some x \<Rightarrow> \<not> cs_failed s' \<longrightarrow> clean_value m x)"
    by (auto split: option.split)
qed

section \<open>Checked declarations\<close>

text \<open>
  What the grammar gives (\<open>grammar/dsql.llw\<close>): a path has a segment and \<open>$:\<close> has a name.
\<close>

fun parsed_expr :: "expr \<Rightarrow> bool" where
  "parsed_expr (EBinary _ l r _) = (parsed_expr l \<and> parsed_expr r)"
| "parsed_expr (EUnary _ e _) = parsed_expr e"
| "parsed_expr (ENullTest e _ _) = parsed_expr e"
| "parsed_expr (EList items _) = list_all parsed_expr items"
| "parsed_expr (EExists _ _ predicate _) = (case predicate of None \<Rightarrow> True | Some p \<Rightarrow> parsed_expr p)"
| "parsed_expr (EPath _ segments _) = (segments \<noteq> [])"
| "parsed_expr (EVariable v _) = (vr_sigil v = SigilContext \<longrightarrow> vr_name v \<noteq> None)"
| "parsed_expr (ELiteral _ _) = True"
| "parsed_expr (EDynamicPredicate _ _ _) = True"
| "parsed_expr (EPredicateRef _ _) = True"
| "parsed_expr (EAggregate _ _ _ _ _) = True"
| "parsed_expr (EError _) = True"

definition parsed_decl :: "policy_decl \<Rightarrow> bool" where
  "parsed_decl decl \<longleftrightarrow>
     list_all parsed_expr (pd_row_rules decl)
     \<and> list_all (\<lambda>rule. parsed_expr (pfr_condition rule)) (pd_field_rules decl)
     \<and> (case apply_condition decl of None \<Rightarrow> True | Some condition \<Rightarrow> parsed_expr condition)"

text \<open>A declaration the checks report nothing for.\<close>

definition checked_policy ::
  "catalog \<Rightarrow> visible_policy_candidate list \<Rightarrow> policy_decl \<Rightarrow> policy_entry \<Rightarrow> bool" where
  "checked_policy c candidates decl entry \<longleftrightarrow>
     parsed_decl decl \<and> pe_kind entry = pd_kind decl
     \<and> check_policy_definition \<lparr>pv_decl = decl, pv_entry = entry, pv_candidates = candidates,
          pv_catalog = c\<rparr> False = []"

text \<open>The conditions a filter sees, each checked against the candidates of its own site.\<close>

definition checked_conditions ::
  "catalog \<Rightarrow> (visible_policy_candidate \<Rightarrow> visible_policy_candidate list)
     \<Rightarrow> visible_policy_candidate list \<Rightarrow> bool" where
  "checked_conditions c site candidates \<longleftrightarrow>
     (\<forall>candidate \<in> set candidates. pe_kind (vpc_entry candidate) = PolicyCondition \<longrightarrow>
        checked_policy c (site candidate) (vpc_declaration candidate) (vpc_entry candidate))"

definition has_parent :: "policy_row_context option \<Rightarrow> bool" where
  "has_parent row \<longleftrightarrow> (case row of None \<Rightarrow> False | Some r \<Rightarrow> prc_parent r \<noteq> None)"

lemma relation_source_nested:
  "(fst (validate_relation_source pv path row) = [] \<longrightarrow> snd (validate_relation_source pv path row) \<noteq> None)
   \<and> (\<forall>nested. snd (validate_relation_source pv path row) = Some nested \<longrightarrow> prc_parent nested \<noteq> None)"
proof (cases "\<exists>segment sp. path = EPath AnchorCurrent [segment] sp")
  case True
  then obtain segment sp where path: "path = EPath AnchorCurrent [segment] sp" by blast
  show ?thesis
    by (cases "check_field_ref (pv_catalog pv) (prc_current row) (policy_field_ref segment)")
       (simp_all add: path validate_relation_source_def row_nested_def)
next
  case False
  then show ?thesis
    by (cases path) (auto simp: validate_relation_source_def split: path_anchor.split list.split)
qed

lemma exists_source_nested:
  "(fst (validate_exists_source pv source context_only row sp) = [] \<longrightarrow>
      snd (validate_exists_source pv source context_only row sp) \<noteq> None)
   \<and> (\<forall>nested. snd (validate_exists_source pv source context_only row sp) = Some nested \<longrightarrow>
        has_parent (Some nested))"
proof (cases "context_only \<or> row = None \<or> has_shape_target (pv_decl pv)")
  case True
  then show ?thesis
    by (cases row; cases context_only; cases "has_shape_target (pv_decl pv)")
       (simp_all add: validate_exists_source_def)
next
  case False
  then obtain r where r: "\<not> context_only" "row = Some r" "\<not> has_shape_target (pv_decl pv)" by (cases row) auto
  show ?thesis
  proof (cases source)
    case (SourceRelation path)
    then show ?thesis using relation_source_nested[of pv path r]
      by (simp add: validate_exists_source_def r has_parent_def)
  next
    case (SourceTable name table_span)
    then show ?thesis
      by (cases "resolve_table_ref_for (pv_catalog pv) (table_ref_parse name)")
         (simp_all add: validate_exists_source_def r has_parent_def row_nested_def)
  qed
qed

lemma validate_path_safe:
  "validate_path pv anchor segments row = [] \<Longrightarrow> segments \<noteq> [] \<Longrightarrow> anchor = AnchorParent \<Longrightarrow> has_parent row"
  by (auto simp: validate_path_def validate_anchor_table_def has_parent_def
      split: list.splits if_splits option.splits)

lemma validated_row_safe:
  "validate_expr pv e context_only row = [] \<Longrightarrow> parsed_expr e \<Longrightarrow> row_safe (has_parent row) e"
proof (induction pv e context_only row rule: validate_expr.induct)
  case (9 pv source filters predicate sp context_only row)
  show ?case
  proof (cases predicate)
    case (Some p)
    obtain diagnostics nested
      where source: "validate_exists_source pv source context_only row sp = (diagnostics, nested)"
      by (cases "validate_exists_source pv source context_only row sp")
    with 9(2) have "diagnostics = []" by simp
    with source exists_source_nested[of pv source context_only row sp] obtain r
      where r: "nested = Some r" "has_parent (Some r)" by auto
    have "row_safe (has_parent (Some r)) p"
      by (rule 9(1)[OF refl source[symmetric] refl Some r(1)]) (use 9(2,3) source Some r in auto)
    with r Some show ?thesis by simp
  qed simp
qed (auto simp: list_all_iff validate_path_safe split: if_splits)

lemma checked_parts:
  fixes decl entry candidates c
  defines "pv \<equiv> \<lparr>pv_decl = decl, pv_entry = entry, pv_candidates = candidates, pv_catalog = c\<rparr>"
    and "row \<equiv> (case pe_matches entry of [] \<Rightarrow> None | table # _ \<Rightarrow> Some (row_root table))"
  assumes "checked_policy c candidates decl entry"
  shows "e \<in> set (pd_row_rules decl) \<Longrightarrow> validate_expr pv e False row = [] \<and> parsed_expr e"
    and "rule \<in> set (pd_field_rules decl) \<Longrightarrow>
      validate_expr pv (pfr_condition rule) False row = [] \<and> parsed_expr (pfr_condition rule)"
    and "apply_condition decl = Some condition \<Longrightarrow>
      validate_expr pv condition True None = [] \<and> parsed_expr condition"
proof -
  have sel: "pv_decl pv = decl" "pv_entry pv = entry" by (simp_all add: pv_def)
  from assms(3) have check: "check_policy_definition pv False = []" and parsed: "parsed_decl decl"
    by (simp_all add: checked_policy_def pv_def)
  from check have "concat (map (\<lambda>e. validate_boolean_rule e @ validate_expr pv e False row)
      (pd_row_rules decl)) = []"
    and "concat (map (\<lambda>rule.
            concat (map (\<lambda>(field, span). validate_declared_field decl entry field span (pv_catalog pv))
              (pfr_fields rule))
            @ validate_boolean_rule (pfr_condition rule)
            @ validate_expr pv (pfr_condition rule) False row) (pd_field_rules decl)) = []"
    and "(case apply_condition decl of None \<Rightarrow> []
        | Some condition \<Rightarrow> validate_boolean_rule condition @ validate_expr pv condition True None) = []"
    unfolding check_policy_definition_def Let_def append_is_Nil_conv sel row_def by blast+
  then show "e \<in> set (pd_row_rules decl) \<Longrightarrow> validate_expr pv e False row = [] \<and> parsed_expr e"
    and "rule \<in> set (pd_field_rules decl) \<Longrightarrow>
      validate_expr pv (pfr_condition rule) False row = [] \<and> parsed_expr (pfr_condition rule)"
    and "apply_condition decl = Some condition \<Longrightarrow>
      validate_expr pv condition True None = [] \<and> parsed_expr condition"
    using parsed by (auto simp: parsed_decl_def list_all_iff)
qed

lemma checked_rules_safe:
  assumes "checked_policy c candidates decl entry"
  shows "e \<in> set (pd_row_rules decl) \<Longrightarrow> row_safe False e"
    and "rule \<in> set (pd_field_rules decl) \<Longrightarrow> row_safe False (pfr_condition rule)"
    and "apply_condition decl = Some condition \<Longrightarrow> row_safe False condition"
proof -
  have row: "has_parent (case pe_matches entry of [] \<Rightarrow> None | table # _ \<Rightarrow> Some (row_root table)) = False"
    by (simp add: has_parent_def row_root_def split: list.split)
  have none: "has_parent None = False" by (simp add: has_parent_def)
  note parts = checked_parts[OF assms]
  show "row_safe False e" if "e \<in> set (pd_row_rules decl)"
    using parts(1)[OF that] validated_row_safe row by metis
  show "row_safe False (pfr_condition rule)" if "rule \<in> set (pd_field_rules decl)"
    using parts(2)[OF that] validated_row_safe row by metis
  show "row_safe False condition" if "apply_condition decl = Some condition"
    using parts(3)[OF that] validated_row_safe none by metis
qed

lemma checked_conditions_safe:
  assumes "checked_conditions c site candidates"
  shows "conditions_safe candidates"
  unfolding conditions_safe_def
proof (intro ballI impI)
  fix candidate
  assume "candidate \<in> set candidates" "pe_kind (vpc_entry candidate) = PolicyCondition"
  with assms have "checked_policy c (site candidate) (vpc_declaration candidate) (vpc_entry candidate)"
    by (simp add: checked_conditions_def)
  note safe = checked_rules_safe(1)[OF this]
  show "case candidate_rule candidate of None \<Rightarrow> True | Some rule \<Rightarrow> row_safe False rule"
    using safe by (auto simp: candidate_rule_def first_rule_def split: list.split)
qed

section \<open>Every rule is compiled\<close>

definition decl_safe :: "policy_decl \<Rightarrow> bool" where
  "decl_safe decl \<longleftrightarrow>
     list_all (row_safe False) (pd_row_rules decl)
     \<and> list_all (\<lambda>rule. row_safe False (pfr_condition rule)) (pd_field_rules decl)
     \<and> (case apply_condition decl of None \<Rightarrow> True | Some condition \<Rightarrow> row_safe False condition)"

text \<open>A declaration the checks accept is safe.\<close>

lemma checked_decl_safe: "checked_policy c candidates decl entry \<Longrightarrow> decl_safe decl"
  using checked_rules_safe[of c candidates decl entry]
  by (auto simp: decl_safe_def list_all_iff split: option.split)

text \<open>
  The filter a rule of a table means: what the compiler makes of it, all of it, without a failure.
  The field a name means: the column, or the relation it alone refers to.
\<close>

definition rule_means :: "compiler_env \<Rightarrow> nat \<Rightarrow> table_id \<Rightarrow> expr \<Rightarrow> filter_expr \<Rightarrow> bool" where
  "rule_means env fuel table e f \<longleftrightarrow>
     clean_value (policy_expr env fuel e (Some (row_root table)) (Some expected_boolean)) f"

definition field_means :: "compiler_env \<Rightarrow> table_id \<Rightarrow> string \<Rightarrow> compiled_policy_field \<Rightarrow> bool" where
  "field_means env table name field \<longleftrightarrow>
     (case check_field_ref (ce_catalog env) table
             \<lparr>fref_target = table_ref_parse name, fref_selector = None\<rparr> of
        FieldColumn col \<Rightarrow> field = CompiledColumn (col_id col)
      | FieldRelation r \<Rightarrow> field = CompiledRelation (rel_id (rf_relation r))
      | _ \<Rightarrow> False)"

definition field_rule_kept ::
  "compiler_env \<Rightarrow> nat \<Rightarrow> table_id \<Rightarrow> policy_field_rule \<Rightarrow> compiled_policy_field_rule \<Rightarrow> bool" where
  "field_rule_kept env fuel table rule compiled \<longleftrightarrow>
     rule_means env fuel table (pfr_condition rule) (cfr_condition compiled)
     \<and> list_all2 (\<lambda>(name, _) field. field_means env table name field) (pfr_fields rule) (cfr_fields compiled)"

lemma compile_optional_kept:
  assumes "\<And>e. rule = Some e \<Longrightarrow>
      honest_step (policy_expr env fuel e (Some (row_root table)) (Some expected_boolean))"
  shows "cspec keeps_failure cs_failed s (compile_optional env fuel table rule)
    (\<lambda>x s'. \<not> cs_failed s' \<longrightarrow> rel_option (rule_means env fuel table) rule x)"
proof (cases rule)
  case None
  then show ?thesis by (simp add: compile_optional_def honest.ret)
next
  case (Some e)
  from honest.attempt[OF honest_value[OF assms[OF Some] uniform_expr]] show ?thesis
    unfolding compile_optional_def Some option.case
    by (rule cspec_mono) (auto simp: rule_means_def split: option.splits)
qed

lemma policy_field_means:
  "cspec keeps_failure cs_failed s (policy_field env table name) (\<lambda>field _. field_means env table name field)"
  by (auto simp: policy_field_def field_means_def split: field_check_result.split
      intro: honest.ret honest.fail)

lemma compile_field_rule_kept:
  assumes "honest_step (policy_expr env fuel (pfr_condition rule) (Some (row_root table)) (Some expected_boolean))"
  shows "cspec keeps_failure cs_failed s (compile_field_rule env fuel table rule)
    (\<lambda>x s'. \<not> cs_failed s' \<longrightarrow> (case x of None \<Rightarrow> False | Some compiled \<Rightarrow>
        field_rule_kept env fuel table rule compiled))"
proof -
  note condition = honest.attempt[OF honest_value[OF assms uniform_expr]]
  have names: "cspec keeps_failure cs_failed s'
      (ctry (cmap (\<lambda>(name, _). policy_field env table name) (pfr_fields rule)))
      (\<lambda>ys s''. case ys of None \<Rightarrow> cs_failed s'' | Some ys \<Rightarrow>
         list_all2 (\<lambda>x y. field_means env table (fst x) y) (pfr_fields rule) ys)" for s'
  proof (rule honest.attempt, rule honest.each)
    show "cspec keeps_failure cs_failed t (case x of (name, _) \<Rightarrow> policy_field env table name)
        (\<lambda>y _. field_means env table (fst x) y)" for x t
      by (cases x) (simp add: policy_field_means)
  qed
  show ?thesis
    unfolding compile_field_rule_def
    by (rule honest.bind[OF condition], rule honest.bind[OF names], rule honest.ret)
       (auto simp: field_rule_kept_def rule_means_def case_prod_unfold split: option.splits)
qed

lemma all_present:
  "list_all2 (\<lambda>x y. case y of None \<Rightarrow> False | Some r \<Rightarrow> P x r) xs ys \<Longrightarrow>
     list_all2 P xs (List.map_filter (\<lambda>r. r) ys)"
  by (induction rule: list_all2_induct) (auto simp: map_filter_simps split: option.splits)

lemma compile_rules_kept:
  assumes "catalog_wf (ce_catalog env)" and "conditions_safe (ce_candidates env)" and "decl_safe decl"
  shows "cspec keeps_failure cs_failed s (compile_rules env fuel decl table)
    (\<lambda>(enforcement, row_rule, rules) s'. \<not> cs_failed s' \<longrightarrow>
        rel_option (rule_means env fuel table) (apply_condition decl) enforcement
        \<and> rel_option (rule_means env fuel table) (first_rule (pd_row_rules decl)) row_rule
        \<and> list_all2 (field_rule_kept env fuel table) (pd_field_rules decl) rules)"
proof -
  have expr: "honest_step (policy_expr env fuel e (Some (row_root table)) ty)" if "row_safe False e" for e ty
    by (rule honest_expr[OF refl assms(1,2)]) (simp add: row_root_def that)
  have safe: "apply_condition decl = Some e \<Longrightarrow> row_safe False e"
    "first_rule (pd_row_rules decl) = Some e \<Longrightarrow> row_safe False e"
    "rule \<in> set (pd_field_rules decl) \<Longrightarrow> row_safe False (pfr_condition rule)" for e rule
    using assms(3) by (auto simp: decl_safe_def first_rule_def list_all_iff split: list.splits)
  have optional: "cspec keeps_failure cs_failed s' (compile_optional env fuel table rule)
      (\<lambda>x s'. \<not> cs_failed s' \<longrightarrow> rel_option (rule_means env fuel table) rule x)"
    if "\<And>e. rule = Some e \<Longrightarrow> row_safe False e" for rule s'
    by (rule compile_optional_kept) (simp add: expr that)
  let ?kept = "\<lambda>rule y s'. \<not> cs_failed s' \<longrightarrow>
      (case y of None \<Rightarrow> False | Some r \<Rightarrow> field_rule_kept env fuel table rule r)"
  have each: "cspec keeps_failure cs_failed s'
      (cmap (compile_field_rule env fuel table) (pd_field_rules decl))
      (\<lambda>ys s'. list_all2 (\<lambda>rule y. ?kept rule y s') (pd_field_rules decl) ys)" for s'
  proof (rule honest.each)
    show "cspec keeps_failure cs_failed s'' (compile_field_rule env fuel table rule) (?kept rule)"
      if "rule \<in> set (pd_field_rules decl)" for rule s''
      by (rule compile_field_rule_kept) (simp add: expr safe(3)[OF that])
  qed auto
  have present: "list_all2 (field_rule_kept env fuel table) (pd_field_rules decl) (List.map_filter (\<lambda>r. r) ys)"
    if "list_all2 (\<lambda>rule y. ?kept rule y s') (pd_field_rules decl) ys" and "\<not> cs_failed s'" for ys s'
    by (rule all_present, rule list_all2_mono[OF that(1)]) (use that(2) in blast)
  show ?thesis
    unfolding compile_rules_def
    by (rule honest.bind[OF optional[OF safe(1)]], assumption, rule honest.bind[OF optional[OF safe(2)]],
        assumption, rule honest.bind[OF each], rule honest.ret) (auto simp: present)
qed

text \<open>
  C5: fail closed. Whatever the checks say of it, a declaration that reaches for a parent row only
  inside an \<open>exists\<close> and names its \<open>$:\<close> variables, over conditions that do, loses nothing: a table
  that gets a compiled target gets the filter its enforcement condition means, the filter its row
  rule means and none where there is none, and for every field rule its condition and each field it
  names. A filter is what the compiler makes of the rule from the start without any failure, in an
  \<open>exists\<close> included.
\<close>

theorem compiled_target_keeps_rules:
  assumes "catalog_wf (ce_catalog env)"
    and "decl_safe decl" and "conditions_safe (ce_candidates env)"
    and "compile_target env fuel decl table = Some (Some target, s)"
  shows "cpt_table target = table
    \<and> rel_option (rule_means env fuel table) (apply_condition decl) (cpt_enforcement target)
    \<and> rel_option (rule_means env fuel table) (first_rule (pd_row_rules decl)) (cpt_row_rule target)
    \<and> list_all2 (field_rule_kept env fuel table) (pd_field_rules decl) (cpt_field_rules target)"
proof -
  from assms(4) obtain enforcement row_rule rules
    where run: "compile_rules env fuel decl table compiler_start = Some (Some (enforcement, row_rule, rules), s)"
    and ok: "\<not> cs_failed s"
    and target: "cpt_table target = table" "cpt_enforcement target = enforcement"
      "cpt_row_rule target = row_rule" "cpt_field_rules target = rules"
    by (auto simp: compile_target_def split: option.splits if_splits)
  from compile_rules_kept[OF assms(1,3,2), unfolded cspec_def, rule_format, OF run] ok target
  show ?thesis by simp
qed

section \<open>Returning\<close>

definition always_returns :: "'a compiler \<Rightarrow> bool" where
  "always_returns m \<longleftrightarrow> (\<forall>s. m s \<noteq> None)"

lemma returns_ret [simp]: "always_returns (cret x)"
  by (simp add: always_returns_def cret_def)

lemma returns_none [simp]: "always_returns cnone"
  by (simp add: always_returns_def cnone_def)

lemma returns_fail [simp]: "always_returns cfail"
  by (simp add: always_returns_def cfail_def)

lemma returns_problem [simp]: "always_returns (cproblem span code message)"
  by (simp add: always_returns_def cproblem_def cfail_def)

lemma returns_bind [intro!]:
  "always_returns m \<Longrightarrow> (\<And>x. always_returns (f x)) \<Longrightarrow> always_returns (cbind m f)"
  unfolding always_returns_def cbind_def by (auto split: option.splits)

lemma returns_try [simp]: "always_returns m \<Longrightarrow> always_returns (ctry m)"
  unfolding always_returns_def ctry_def by (auto split: option.splits)

lemma returns_map [intro!]: "(\<And>x. x \<in> set xs \<Longrightarrow> always_returns (f x)) \<Longrightarrow> always_returns (cmap f xs)"
  by (induction xs) auto

lemma returns_require [simp]: "always_returns (require_context r)"
  by (simp add: always_returns_def require_context_def cret_def)

lemma returns_record [simp]: "always_returns (record_condition entry)"
  by (simp add: always_returns_def record_condition_def cret_def)

lemma enum_type_loop_returns:
  assumes "ranked_types rank types"
  shows "i < length types \<Longrightarrow> enum_type_loop types (types ! i) \<noteq> None"
proof (induction "rank i" arbitrary: i rule: less_induct)
  case less
  have "enum_type_loop types (types ! b) \<noteq> None" if "ty_shape (types ! i) = ShapeDomain b" for b
    using ranked_typesD[OF assms less.prems, of b] that less.hyps by simp
  then show ?case
    by (subst enum_type_loop.simps)
       (auto simp: get_at_def split: catalog_type_shape.split)
qed

lemma enum_type_returns: "catalog_wf c \<Longrightarrow> enum_type_for_type c i \<noteq> None"
  using enum_type_loop_returns
  by (auto simp: enum_type_for_type_def catalog_wf_defs types_acyclic_def get_at_def split: option.splits)

lemma returns_closed_values [simp]: "catalog_wf c \<Longrightarrow> always_returns (closed_values_for c i)"
  using enum_type_returns[of c i] by (auto simp: closed_values_for_def split: option.split)

lemma returns_filter_op [simp]: "always_returns (policy_filter_op op)"
  by (cases op) auto

lemma returns_field [simp]: "always_returns (policy_field env table name)"
  by (auto simp: policy_field_def split: field_check_result.split)

lemma returns_exists_source [simp]: "always_returns (policy_exists_source env source row)"
proof (cases source)
  case (SourceRelation path)
  show ?thesis
  proof (cases "\<exists>segment sp. path = EPath AnchorCurrent [segment] sp")
    case True
    then show ?thesis
      by (auto simp: SourceRelation policy_exists_source_def split: field_check_result.split)
  next
    case False
    then show ?thesis
      by (cases path) (auto simp: SourceRelation policy_exists_source_def
          split: path_anchor.split list.split)
  qed
next
  case (SourceTable name sp)
  then show ?thesis by (simp add: policy_exists_source_def split: option.split)
qed

lemma returns_literal [simp]: "always_returns (policy_literal env value span expected)"
  by (auto simp: policy_literal_def split: option.split)

lemma returns_comparison [simp]: "always_returns (policy_comparison op path reversed other)"
  by (auto simp: policy_comparison_def)

lemma returns_context_parameter [simp]:
  "always_returns (context_parameter_value env v expected collection)"
  unfolding context_parameter_value_def by (auto split: option.split list.split sum.split)

lemma returns_path_loop:
  "catalog_wf (ce_catalog env) \<Longrightarrow> always_returns (policy_path_loop env anchor table relations segments)"
  by (induction env anchor table relations segments rule: policy_path_loop.induct)
     (auto simp: policy_path_column_def split: field_check_result.split option.split)

lemma returns_path [simp]:
  "catalog_wf (ce_catalog env) \<Longrightarrow> always_returns (policy_path env anchor segments row)"
  by (auto simp: policy_path_def intro: returns_path_loop split: option.split)

fun ref_free :: "expr \<Rightarrow> bool" where
  "ref_free (EBinary _ l r _) = (ref_free l \<and> ref_free r)"
| "ref_free (EUnary _ e _) = ref_free e"
| "ref_free (ENullTest e _ _) = ref_free e"
| "ref_free (EList items _) = list_all ref_free items"
| "ref_free (EExists _ _ predicate _) = (case predicate of None \<Rightarrow> True | Some p \<Rightarrow> ref_free p)"
| "ref_free (EPredicateRef _ _) = False"
| "ref_free (EPath _ _ _) = True"
| "ref_free (EVariable _ _) = True"
| "ref_free (ELiteral _ _) = True"
| "ref_free (EDynamicPredicate _ _ _) = True"
| "ref_free (EAggregate _ _ _ _ _) = True"
| "ref_free (EError _) = True"

definition conditions_plain :: "visible_policy_candidate list \<Rightarrow> bool" where
  "conditions_plain candidates \<longleftrightarrow>
     (\<forall>candidate \<in> set candidates. pe_kind (vpc_entry candidate) = PolicyCondition \<longrightarrow>
        (case candidate_rule candidate of None \<Rightarrow> True | Some rule \<Rightarrow> ref_free rule))"

lemma policy_expr_returns:
  "catalog_wf (ce_catalog env) \<Longrightarrow> conditions_plain (ce_candidates env) \<Longrightarrow> 0 < fuel \<or> ref_free e \<Longrightarrow>
     always_returns (policy_expr env fuel e row ty)"
proof (induction env fuel e row ty rule: policy_expr_induct)
  case (leaf env fuel e row ty)
  then show ?case by (cases e) auto
next
  case (ref env fuel name sp row ty)
  then obtain n where n: "fuel = Suc n" by (cases fuel) auto
  show ?case
  proof (cases "\<exists>condition. condition_candidates env name = [condition]")
    case True
    then obtain condition where c: "condition_candidates env name = [condition]" by blast
    from condition_candidates_mem[OF c] ref.prems(2)
    have plain: "case candidate_rule condition of None \<Rightarrow> True | Some rule \<Rightarrow> ref_free rule"
      by (auto simp: conditions_plain_def)
    have "always_returns (policy_expr (env\<lparr>ce_contexts := vpc_contexts condition\<rparr>) n rule row
        (Some expected_boolean))"
      if "pd_row_rules (vpc_declaration condition) = rule # rules" for rule rules
      by (rule ref.IH[OF n]) (use ref.prems plain that in \<open>auto simp: candidate_rule_def first_rule_def\<close>)
    then show ?thesis using c n by (auto split: list.split)
  next
    case False
    then show ?thesis by (auto split: list.split)
  qed
next
  case (unary env fuel op e sp row ty)
  then show ?case by auto
next
  case (null env fuel e negated sp row ty)
  have operand: "always_returns (policy_expr env fuel e row None)" using null by auto
  show ?case unfolding policy_null_test
    by (split expr.split) (use operand null.prems in \<open>auto simp del: policy_expr.simps\<close>)
next
  case (exists env fuel source filters predicate sp row ty)
  then show ?case by (auto split: option.split)
next
  case (binary env fuel op l e sp row ty)
  have sides: "always_returns (policy_expr env fuel l row ty)" "always_returns (policy_expr env fuel e row ty)" for ty
    using binary by auto
  have collection: "always_returns (case e of
      EList items _ \<Rightarrow> cbind (policy_items env fuel items row (expected_from_path path)) (\<lambda>items.
        cret (policy_membership op path (CollList items)))
    | EVariable variable _ \<Rightarrow> cbind (context_parameter_value env variable (expected_from_path path) True)
        (\<lambda>p. cret (policy_membership op path (CollParameter p)))
    | _ \<Rightarrow> cfail)" for path
    using binary.IH(3) binary.prems
    by (cases e) (auto simp: policy_items_cmap list_all_iff)
  show ?case using collection binary.prems by (auto simp: sides split: option.split)
qed

text \<open>A checked condition references no other condition.\<close>

lemma validated_condition_ref_free:
  "validate_expr pv e context_only row = [] \<Longrightarrow> pd_kind (pv_decl pv) = PolicyCondition \<Longrightarrow> ref_free e"
proof (induction pv e context_only row rule: validate_expr.induct)
  case (9 pv source filters predicate sp context_only row)
  show ?case
  proof (cases predicate)
    case (Some p)
    obtain diagnostics nested
      where source: "validate_exists_source pv source context_only row sp = (diagnostics, nested)"
      by (cases "validate_exists_source pv source context_only row sp")
    with 9(2) have "diagnostics = []" by simp
    with source exists_source_nested[of pv source context_only row sp] obtain r
      where r: "nested = Some r" by auto
    have "ref_free p"
      by (rule 9(1)[OF refl source[symmetric] refl Some r(1)]) (use 9(2,3) source Some r in auto)
    with Some show ?thesis by simp
  qed simp
qed (auto simp: list_all_iff validate_condition_def)

lemma checked_conditions_plain:
  assumes "checked_conditions c site candidates"
  shows "conditions_plain candidates"
  unfolding conditions_plain_def
proof (intro ballI impI)
  fix candidate
  assume c: "candidate \<in> set candidates" "pe_kind (vpc_entry candidate) = PolicyCondition"
  with assms have checked: "checked_policy c (site candidate) (vpc_declaration candidate) (vpc_entry candidate)"
    by (simp add: checked_conditions_def)
  then have kind: "pd_kind (vpc_declaration candidate) = PolicyCondition"
    using c(2) by (simp add: checked_policy_def)
  show "case candidate_rule candidate of None \<Rightarrow> True | Some rule \<Rightarrow> ref_free rule"
  proof (cases "pd_row_rules (vpc_declaration candidate)")
    case (Cons rule rules)
    then have "rule \<in> set (pd_row_rules (vpc_declaration candidate))" by simp
    from checked_parts(1)[OF checked this] kind have "ref_free rule"
      by (intro validated_condition_ref_free) auto
    with Cons show ?thesis by (simp add: candidate_rule_def first_rule_def)
  qed (simp add: candidate_rule_def first_rule_def)
qed

lemma compile_targets_returns:
  "(\<And>table. compile_target env fuel decl table \<noteq> None) \<Longrightarrow> compile_targets env fuel decl tables \<noteq> None"
  by (induction tables) (auto split: option.split)

lemma compile_rules_returns:
  assumes "\<And>e. always_returns (policy_expr env fuel e (Some (row_root table)) (Some expected_boolean))"
  shows "always_returns (compile_rules env fuel decl table)"
  unfolding compile_rules_def compile_optional_def compile_field_rule_def
  by (auto intro!: returns_try returns_map simp: assms split: option.split)

text \<open>
  C36: compiling ends. Over conditions whose rules reference no conditions, following one reference
  is enough: the compilation of any filter, checked or not, returns.
\<close>

theorem compile_policy_returns:
  assumes "catalog_wf (ce_catalog env)"
    and "conditions_plain (ce_candidates env)" and "0 < fuel"
  shows "\<exists>result. compile_policy env fuel decl entry = Some result"
proof -
  have "always_returns (policy_expr env fuel e row ty)" for e row ty
    using policy_expr_returns[OF assms(1,2)] assms(3) by simp
  then have "compile_rules env fuel decl table compiler_start \<noteq> None" for table
    using compile_rules_returns by (auto simp: always_returns_def)
  then have "compile_target env fuel decl table \<noteq> None" for table
    by (auto simp: compile_target_def split: option.splits if_splits)
  from compile_targets_returns[OF this] show ?thesis
    by (auto simp: compile_policy_def split: option.split)
qed

section \<open>Where it does not end, and where a rule is lost\<close>



text \<open>
  A rule can be lost. A row rule that compares a parent path compiles, at the root of a table,
  to no rule and to no failure: the target is there, without the row rule of the declaration.
\<close>

theorem parent_path_rule_lost:
  assumes "pd_row_rules decl = [EBinary (OpComparison op) (EPath AnchorParent segments sp) value sp']"
    and "apply_condition decl = None" and "pd_field_rules decl = []"
  shows "compile_target env fuel decl table =
    Some (Some \<lparr>cpt_table = table, cpt_enforcement = None, cpt_row_rule = None, cpt_field_rules = [],
      cpt_context = []\<rparr>, compiler_start)"
  by (simp add: compile_target_def compile_rules_def compile_optional_def assms first_rule_def
      path_side_def policy_path_def row_root_def anchor_table_def cbind_def ctry_def cret_def cnone_def
      compiler_start_def map_filter_simps)

end
