(* ===== verification/Policy_Scope.thy ===== *)
theory Policy_Scope
  imports Policy_Compile_Correct
begin

text \<open>
  The rows a compiled filter reads. A rule is rendered against the raw rows of its table
  (\<open>FilterSqlScope::raw\<close> of \<open>crates/dsql-core/src/sql/postgres.rs\<close>): \<open>in_scope\<close> follows, table by
  table, the views the renderer resolves a column or the source of an \<open>exists\<close> against, and admits
  nothing a rule may not contain: no filter and no mask of another policy, no public input.
\<close>

section \<open>Scopes of the renderer\<close>

record table_scope =
  ts_current :: table_id
  ts_root :: table_id
  ts_source :: table_id
  ts_parent :: "table_id option"

definition scope_raw :: "table_id \<Rightarrow> table_scope" where
  "scope_raw t = \<lparr>ts_current = t, ts_root = t, ts_source = t, ts_parent = None\<rparr>"

fun scope_table :: "table_scope \<Rightarrow> filter_column_scope \<Rightarrow> table_id" where
  "scope_table sc ScopeCurrent = ts_current sc"
| "scope_table sc ScopeRoot = ts_root sc"
| "scope_table sc ScopePredicateSource = ts_source sc"
| "scope_table sc ScopeParent = (case ts_parent sc of Some t \<Rightarrow> t | None \<Rightarrow> ts_current sc)"

fun scope_inside :: "table_scope \<Rightarrow> exists_kind \<Rightarrow> filter_column_scope \<Rightarrow> table_id \<Rightarrow> table_scope" where
  "scope_inside sc ExistsExplicit source table =
     sc\<lparr>ts_current := table, ts_source := table, ts_parent := Some (scope_table sc source)\<rparr>"
| "scope_inside sc ExistsRelationshipPredicate source table = sc\<lparr>ts_current := table\<rparr>"

fun in_scope :: "catalog \<Rightarrow> table_scope \<Rightarrow> filter_expr \<Rightarrow> bool" where
  "in_scope c sc (FColumn scope column) =
     (case column_by_id c column of
        None \<Rightarrow> False
      | Some col \<Rightarrow> col_visible col \<and> col_table col = scope_table sc scope)"
| "in_scope c sc (FLiteral _) = True"
| "in_scope c sc (FParameter _) = True"
| "in_scope c sc (FBinary l _ r) = (in_scope c sc l \<and> in_scope c sc r)"
| "in_scope c sc (FNot f) = in_scope c sc f"
| "in_scope c sc (FNullTest f _) = in_scope c sc f"
| "in_scope c sc (FMembership f (CollList items) _) = (in_scope c sc f \<and> list_all (in_scope c sc) items)"
| "in_scope c sc (FMembership f (CollParameter _) _) = in_scope c sc f"
| "in_scope c sc (FExists relation table kind source policy fs inner) =
     (policy = None \<and> fs = []
      \<and> (case relation of
           None \<Rightarrow> table_by_id c table \<noteq> None
         | Some r \<Rightarrow> (case relation_by_id c r of
              None \<Rightarrow> False
            | Some rel \<Rightarrow> rel_from_table rel = scope_table sc source \<and> rel_to_table rel = table))
      \<and> (case inner of None \<Rightarrow> True | Some f \<Rightarrow> in_scope c (scope_inside sc kind source table) f))"
| "in_scope c sc FAbsent = False"
| "in_scope c sc (FOptional _ _) = False"
| "in_scope c sc (FDynamicPredicate _ _ _) = False"
| "in_scope c sc (FVariantBinary _ _ _ _) = False"
| "in_scope c sc (FRelationAggregate _ _ _ _ _ _) = False"

section \<open>Paths\<close>

fun relation_chain :: "catalog \<Rightarrow> table_id \<Rightarrow> (relation_id \<times> table_id) list \<Rightarrow> table_id \<Rightarrow> bool" where
  "relation_chain c start [] final = (start = final)"
| "relation_chain c start ((r, t) # rest) final =
     ((case relation_by_id c r of
         None \<Rightarrow> False
       | Some rel \<Rightarrow> rel_from_table rel = start \<and> rel_to_table rel = t)
      \<and> relation_chain c t rest final)"

lemma relation_chain_snoc:
  "relation_chain c start (rs @ [(r, t)]) final \<longleftrightarrow>
     (\<exists>mid. relation_chain c start rs mid \<and> relation_chain c mid [(r, t)] final)"
  by (induction c start rs final rule: relation_chain.induct) auto

definition path_scoped :: "catalog \<Rightarrow> table_id \<Rightarrow> compiled_path \<Rightarrow> bool" where
  "path_scoped c start path \<longleftrightarrow>
     (\<exists>final column col. relation_chain c start (cp_relations path) final
        \<and> column_by_id c column = Some col \<and> col_visible col \<and> col_table col = final
        \<and> cp_value path = FColumn
            (if cp_relations path = [] then cp_relation_scope path else ScopeCurrent) column)"

abbreviation grows :: "compiler_state \<Rightarrow> compiler_state \<Rightarrow> bool" where
  "grows s s' \<equiv> pcr_path ` set (cs_context s) \<subseteq> pcr_path ` set (cs_context s')"

abbreviation anything :: "compiler_state \<Rightarrow> bool" where "anything s \<equiv> True"

interpretation raw: compiler_logic grows anything
  by unfold_locales auto

lemma raw_none: "cspec grows anything s cnone Q"
  by (simp add: cspec_def cnone_def)

lemma policy_path_loop_scoped:
  "catalog_wf (ce_catalog env) \<Longrightarrow> relation_chain (ce_catalog env) start relations table \<Longrightarrow>
   cspec grows anything s (policy_path_loop env anchor table relations segments)
     (\<lambda>path s'. path_scoped (ce_catalog env) start path \<and> cp_relation_scope path = anchor_scope anchor
        \<and> Suc (length (cp_relations path)) = length relations + length segments)"
proof (induction env anchor table relations segments arbitrary: s rule: policy_path_loop.induct)
  case (1 env anchor table relations)
  show ?case by (simp add: raw.fail)
next
  case (2 env anchor table relations segment rest)
  show ?case
  proof (cases "check_field_ref (ce_catalog env) table (policy_field_ref segment)")
    case (FieldColumn col)
    note col = check_field_ref_column[OF 2(2) FieldColumn]
    have closed: "cspec grows anything s (closed_values_for c i) (\<lambda>_ _. True)" for c i s
      by (simp add: closed_values_for_def raw.ret split: option.split)
    show ?thesis
    proof (cases "rest = []")
      case True
      show ?thesis
        unfolding policy_path_column_def
        using 2(3) col
        by (auto simp: True FieldColumn policy_path_column_def raw_none path_scoped_def
            intro!: raw.bind[OF closed] raw.ret split: option.split)
    next
      case False
      then show ?thesis by (simp add: FieldColumn raw.fail)
    qed
  next
    case (FieldRelation r)
    note r = check_field_ref_relation[OF 2(2) FieldRelation]
    show ?thesis
    proof (cases "rest = []")
      case True
      then show ?thesis by (simp add: FieldRelation raw.fail)
    next
      case False
      have chain: "relation_chain (ce_catalog env) start
          (relations @ [(rel_id (rf_relation r), tb_id (rf_table r))]) (tb_id (rf_table r))"
        using 2(3) r by (auto simp: relation_chain_snoc)
      from 2(1)[OF FieldRelation False 2(2) chain] show ?thesis
        by (simp add: FieldRelation False)
    qed
  qed (simp_all add: raw.fail)
qed

definition row_scope :: "policy_row_context \<Rightarrow> table_id \<Rightarrow> table_scope" where
  "row_scope row source =
     \<lparr>ts_current = prc_current row, ts_root = prc_root row, ts_source = source,
      ts_parent = prc_parent row\<rparr>"

lemma anchor_table_scope:
  "anchor_table row anchor = Some t \<Longrightarrow> scope_table (row_scope row source) (anchor_scope anchor) = t"
  by (cases anchor) (simp_all add: anchor_table_def row_scope_def)

definition compiled_path_ok :: "catalog \<Rightarrow> policy_row_context \<Rightarrow> path_segment list \<Rightarrow> compiled_path \<Rightarrow> bool" where
  "compiled_path_ok c row segments path \<longleftrightarrow>
     path_scoped c (scope_table (row_scope row 0) (cp_relation_scope path)) path
     \<and> cp_relation_scope path \<noteq> ScopePredicateSource
     \<and> Suc (length (cp_relations path)) = length segments"

lemma policy_path_scoped:
  assumes "catalog_wf (ce_catalog env)"
  shows "cspec grows anything s (policy_path env anchor segments (Some row))
    (\<lambda>path s'. compiled_path_ok (ce_catalog env) row segments path)"
proof (cases "anchor_table row anchor")
  case None
  then show ?thesis by (simp add: policy_path_def raw_none)
next
  case (Some t)
  have "cspec grows anything s (policy_path_loop env anchor t [] segments)
     (\<lambda>path s'. path_scoped (ce_catalog env) t path \<and> cp_relation_scope path = anchor_scope anchor
        \<and> Suc (length (cp_relations path)) = length ([] :: (relation_id \<times> table_id) list) + length segments)"
    by (rule policy_path_loop_scoped[OF assms]) simp
  moreover have "anchor_scope anchor \<noteq> ScopePredicateSource" by (cases anchor) simp_all
  ultimately show ?thesis
    using anchor_table_scope[OF Some, of 0]
    by (auto simp: policy_path_def Some compiled_path_ok_def elim!: cspec_mono)
qed

section \<open>Wrapping the relations of a path\<close>

definition end_scope :: "table_scope \<Rightarrow> compiled_path \<Rightarrow> table_scope" where
  "end_scope sc path =
     (if cp_relations path = [] then sc else sc\<lparr>ts_current := snd (last (cp_relations path))\<rparr>)"

lemma relation_chain_last:
  "relation_chain c start rs final \<Longrightarrow> rs \<noteq> [] \<Longrightarrow> final = snd (last rs)"
  by (induction c start rs final rule: relation_chain.induct) (auto split: if_splits)

lemma wrap_tail:
  "0 < k \<Longrightarrow> relation_chain c (ts_current sc) rs final \<Longrightarrow> in_scope c (sc\<lparr>ts_current := final\<rparr>) inside \<Longrightarrow>
   in_scope c sc (foldr (\<lambda>(i, relation, table) inner.
       FExists (Some relation) table ExistsRelationshipPredicate
         (if i = 0 then scope else ScopeCurrent) None [] (Some inner))
     (zip [k..<k + length rs] rs) inside)"
proof (induction rs arbitrary: k sc)
  case Nil
  then have "sc\<lparr>ts_current := final\<rparr> = sc" by (cases sc) simp
  with Nil show ?case by simp
next
  case (Cons x rs)
  obtain r t where x: "x = (r, t)" by (cases x)
  from Cons.prems(2) x obtain rel where rel: "relation_by_id c r = Some rel"
    "rel_from_table rel = ts_current sc" "rel_to_table rel = t" and rest: "relation_chain c t rs final"
    by (auto split: option.splits)
  have "in_scope c (sc\<lparr>ts_current := t\<rparr>) (foldr (\<lambda>(i, relation, table) inner.
       FExists (Some relation) table ExistsRelationshipPredicate
         (if i = 0 then scope else ScopeCurrent) None [] (Some inner))
     (zip [Suc k..<Suc k + length rs] rs) inside)"
    by (rule Cons.IH) (use rest Cons.prems(3) in simp_all)
  moreover have "[k..<k + length (x # rs)] = k # [Suc k..<Suc k + length rs]"
    by (simp add: upt_conv_Cons del: upt_Suc)
  ultimately show ?case
    using Cons.prems(1) rel by (simp add: x del: upt_Suc)
qed

lemma in_scope_wrap:
  assumes path: "path_scoped c (scope_table sc (cp_relation_scope path)) path"
    and inside: "in_scope c (end_scope sc path) inside"
  shows "in_scope c sc (wrap_relations inside path)"
proof (cases "cp_relations path")
  case Nil
  then show ?thesis using inside by (simp add: wrap_relations_def end_scope_def)
next
  case (Cons x rs)
  obtain r t where x: "x = (r, t)" by (cases x)
  from path obtain final
    where chain: "relation_chain c (scope_table sc (cp_relation_scope path)) (cp_relations path) final"
    by (auto simp: path_scoped_def)
  then obtain rel where rel: "relation_by_id c r = Some rel"
    "rel_from_table rel = scope_table sc (cp_relation_scope path)" "rel_to_table rel = t"
    and rest: "relation_chain c t rs final"
    by (auto simp: Cons x split: option.splits)
  have "final = snd (last (cp_relations path))"
    using relation_chain_last[OF chain] Cons by simp
  with inside have "in_scope c (sc\<lparr>ts_current := final\<rparr>) inside" by (simp add: end_scope_def Cons)
  then have "in_scope c (sc\<lparr>ts_current := t\<rparr>) (foldr (\<lambda>(i, relation, table) inner.
       FExists (Some relation) table ExistsRelationshipPredicate
         (if i = 0 then cp_relation_scope path else ScopeCurrent) None [] (Some inner))
     (zip [1..<1 + length rs] rs) inside)"
    using rest by (intro wrap_tail) simp_all
  moreover have "[0..<length (cp_relations path)] = 0 # [1..<1 + length rs]"
    by (simp only: Cons list.size upt_conv_Cons) simp
  ultimately show ?thesis
    using rel by (simp add: wrap_relations_def Cons x del: upt_Suc)
qed

lemma wrap_relations_parameters [simp]:
  "filter_parameter_paths (wrap_relations inside path) = filter_parameter_paths inside"
proof -
  have "filter_parameter_paths (foldr (\<lambda>(i, relation, table) inner.
         FExists (Some relation) table ExistsRelationshipPredicate
           (if i = 0 then scope else ScopeCurrent) None [] (Some inner)) xs inside)
      = filter_parameter_paths inside" for xs and scope :: filter_column_scope
    by (induction xs) (auto split: prod.splits)
  then show ?thesis by (simp add: wrap_relations_def)
qed

lemma path_value_in_scope:
  assumes "path_scoped c (scope_table sc (cp_relation_scope path)) path"
  shows "in_scope c (end_scope sc path) (cp_value path)"
proof -
  from assms obtain final column col where
    chain: "relation_chain c (scope_table sc (cp_relation_scope path)) (cp_relations path) final"
    and col: "column_by_id c column = Some col" "col_visible col" "col_table col = final"
    and val: "cp_value path = FColumn
        (if cp_relations path = [] then cp_relation_scope path else ScopeCurrent) column"
    by (auto simp: path_scoped_def)
  show ?thesis
  proof (cases "cp_relations path = []")
    case True
    then show ?thesis using chain col val by (simp add: end_scope_def)
  next
    case False
    then show ?thesis using relation_chain_last[OF chain False] col val by (simp add: end_scope_def)
  qed
qed

lemma path_value_parameters:
  "path_scoped c start path \<Longrightarrow> filter_parameter_paths (cp_value path) = {}"
  by (auto simp: path_scoped_def)

section \<open>Compiled expressions\<close>

text \<open>
  The operands the compiled scopes are right for: what a path through a relation is compared with
  must be a value, because it is rendered inside the relation's \<open>exists\<close>.
\<close>

fun operand_plain :: "expr \<Rightarrow> bool" where
  "operand_plain (ELiteral _ _) = True"
| "operand_plain (EVariable _ _) = True"
| "operand_plain (EList items _) = list_all operand_plain items"
| "operand_plain _ = False"

fun operands_ok :: "expr \<Rightarrow> bool" where
  "operands_ok (EBinary op l r _) =
     (operands_ok l \<and> operands_ok r
      \<and> (op = OpAnd \<or> op = OpOr \<or> (case path_side l r of
            None \<Rightarrow> True
          | Some (_, segments, reversed) \<Rightarrow>
              length segments \<le> 1 \<or> operand_plain (if reversed then l else r))))"
| "operands_ok (EUnary _ e _) = operands_ok e"
| "operands_ok (ENullTest e _ _) = operands_ok e"
| "operands_ok (EList items _) = list_all operands_ok items"
| "operands_ok (EExists _ _ predicate _) = (case predicate of None \<Rightarrow> True | Some p \<Rightarrow> operands_ok p)"
| "operands_ok (EPredicateRef _ _) = True"
| "operands_ok (EPath _ _ _) = True"
| "operands_ok (EVariable _ _) = True"
| "operands_ok (ELiteral _ _) = True"
| "operands_ok (EDynamicPredicate _ _ _) = True"
| "operands_ok (EAggregate _ _ _ _ _) = True"
| "operands_ok (EError _) = True"

definition sound_filter :: "catalog \<Rightarrow> table_scope \<Rightarrow> filter_expr \<Rightarrow> compiler_state \<Rightarrow> bool" where
  "sound_filter c sc f s \<longleftrightarrow>
     in_scope c sc f \<and> filter_parameter_paths f \<subseteq> pcr_path ` set (cs_context s)"

lemma sound_filter_grows: "sound_filter c sc f s \<Longrightarrow> grows s s' \<Longrightarrow> sound_filter c sc f s'"
  by (auto simp: sound_filter_def)

lemma require_context_spec:
  "cspec grows anything s (require_context r) (\<lambda>_ s'. pcr_path r \<in> pcr_path ` set (cs_context s'))"
  unfolding cspec_def require_context_def cret_def by (auto simp: list_ex_iff) (metis image_eqI)

lemma context_parameter_sound:
  "cspec grows anything s (context_parameter_value env v expected collection)
     (\<lambda>p s'. sp_path p \<in> pcr_path ` set (cs_context s'))"
  unfolding context_parameter_value_def
  by (auto simp: raw.fail raw_none raw.problem intro!: raw.bind[OF require_context_spec] raw.ret
      split: option.split list.split sum.split)

lemma record_condition_spec: "cspec grows anything s (record_condition entry) (\<lambda>_ _. True)"
  by (auto simp: cspec_def record_condition_def cret_def)

lemma filter_op_spec: "cspec grows anything s (policy_filter_op op) (\<lambda>_ _. True)"
  by (cases op) (simp_all add: raw.ret raw.fail)

lemma policy_literal_sound:
  "cspec grows anything s (policy_literal env value span expected)
     (\<lambda>f s'. \<forall>source. sound_filter c (row_scope row source) f s')"
  by (auto simp: policy_literal_def sound_filter_def intro!: raw.ret raw.problem split: option.split)

lemma plain_operand_sound:
  assumes "operand_plain e"
  shows "cspec grows anything s (policy_expr env fuel e row ty) (\<lambda>f s'. \<forall>sc. sound_filter c sc f s')"
proof (cases e)
  case (EVariable v sp)
  then show ?thesis
    by (auto simp: sound_filter_def intro!: raw.bind[OF context_parameter_sound] raw.ret)
next
  case (ELiteral l sp)
  then show ?thesis
    by (auto simp: policy_literal_def sound_filter_def intro!: raw.ret raw.problem split: option.split)
qed (use assms in \<open>auto intro: raw.fail\<close>)

lemma table_ref_for_member:
  assumes "table_ref_for c r = Some t"
  shows "t \<in> set (cat_tables c)"
proof (cases "tref_schema r")
  case (Some schema)
  with assms show ?thesis
    by (auto simp: table_ref_for_def resolve_table_ref_for_def split: option.splits
        dest: catalog_table_Some)
next
  case None
  define matches where "matches = filter (\<lambda>t. tb_visible t \<and> tb_name t = tref_name r) (cat_tables c)"
  from assms None have "matches = [t]"
    by (auto simp: table_ref_for_def resolve_table_ref_for_def Let_def matches_def[symmetric]
        split: list.splits)
  then have "t \<in> set matches" by simp
  then show ?thesis by (simp add: matches_def)
qed

lemma exists_source_sound:
  assumes "catalog_wf (ce_catalog env)"
  shows "cspec grows anything s (policy_exists_source env source row)
    (\<lambda>(relation, table) s'. case relation of
        None \<Rightarrow> table_by_id (ce_catalog env) table \<noteq> None
      | Some r \<Rightarrow> (case relation_by_id (ce_catalog env) r of
          None \<Rightarrow> False
        | Some rel \<Rightarrow> rel_from_table rel = prc_current row \<and> rel_to_table rel = table))"
proof (cases source)
  case (SourceRelation path)
  show ?thesis
  proof (cases "\<exists>segment sp. path = EPath AnchorCurrent [segment] sp")
    case True
    then obtain segment sp where path: "path = EPath AnchorCurrent [segment] sp" by blast
    show ?thesis
      using check_field_ref_relation[OF assms]
      by (cases "check_field_ref (ce_catalog env) (prc_current row) (policy_field_ref segment)")
         (simp_all add: SourceRelation path policy_exists_source_def raw.fail raw.ret)
  next
    case False
    then show ?thesis
      by (cases path) (auto simp: SourceRelation policy_exists_source_def raw.fail
          split: path_anchor.split list.split)
  qed
next
  case (SourceTable name sp)
  have "table_by_id (ce_catalog env) (tb_id t) \<noteq> None"
    if "table_ref_for (ce_catalog env) (table_ref_parse name) = Some t" for t
    using table_ref_for_member[OF that] table_arena.lookup_member[OF assms]
    by (auto simp: table_by_id_def)
  then show ?thesis
    by (auto simp: SourceTable policy_exists_source_def raw.fail intro!: raw.ret split: option.split)
qed

text \<open>An operand that may stand beside the value of a path, and the atoms built from it.\<close>

definition good_operand ::
  "catalog \<Rightarrow> policy_row_context \<Rightarrow> compiled_path \<Rightarrow> filter_expr \<Rightarrow> compiler_state \<Rightarrow> bool" where
  "good_operand c row path f s \<longleftrightarrow>
     (if cp_relations path = [] then \<forall>source. sound_filter c (row_scope row source) f s
      else \<forall>sc. sound_filter c sc f s)"

lemma good_operand_grows: "good_operand c row path f s \<Longrightarrow> grows s s' \<Longrightarrow> good_operand c row path f s'"
  unfolding good_operand_def by (auto simp: sound_filter_def split: if_splits)

lemma good_operandD:
  "good_operand c row path f s \<Longrightarrow>
     in_scope c (end_scope (row_scope row source) path) f
     \<and> filter_parameter_paths f \<subseteq> pcr_path ` set (cs_context s)"
  by (auto simp: good_operand_def sound_filter_def end_scope_def split: if_splits)

lemma compiled_path_scoped:
  assumes "compiled_path_ok c row segments path"
  shows "path_scoped c (scope_table (row_scope row source) (cp_relation_scope path)) path"
proof -
  have "scope_table (row_scope row source) (cp_relation_scope path)
      = scope_table (row_scope row 0) (cp_relation_scope path)"
    using assms by (cases "cp_relation_scope path")
      (auto simp: compiled_path_ok_def row_scope_def split: option.split)
  then show ?thesis using assms by (simp add: compiled_path_ok_def)
qed

lemma atom_sound:
  assumes path: "compiled_path_ok c row segments path"
    and inside: "\<And>source. in_scope c (end_scope (row_scope row source) path) (cp_value path) \<Longrightarrow>
        in_scope c (end_scope (row_scope row source) path) inside"
    and params: "filter_parameter_paths inside \<subseteq> pcr_path ` set (cs_context s)"
  shows "\<forall>source. sound_filter c (row_scope row source) (wrap_relations inside path) s"
proof
  fix source
  note scoped = compiled_path_scoped[OF path, of source]
  show "sound_filter c (row_scope row source) (wrap_relations inside path) s"
    unfolding sound_filter_def
    using in_scope_wrap[OF scoped inside[OF path_value_in_scope[OF scoped]]] params by simp
qed

lemma path_parameters: "compiled_path_ok c row segments path \<Longrightarrow> filter_parameter_paths (cp_value path) = {}"
  using path_value_parameters[OF compiled_path_scoped] by blast

lemma comparison_sound:
  assumes path: "compiled_path_ok c row segments path" and other: "good_operand c row path f s"
  shows "cspec grows anything s (policy_comparison op path reversed f)
    (\<lambda>f s'. \<forall>source. sound_filter c (row_scope row source) f s')"
  unfolding policy_comparison_def
proof (rule raw.bind[OF filter_op_spec], rule raw.ret)
  fix filter_op s' assume "grows s s'"
  note other' = good_operandD[OF good_operand_grows[OF other this]]
  show "\<forall>source. sound_filter c (row_scope row source)
      (wrap_relations (if reversed then FBinary f filter_op (cp_value path)
        else FBinary (cp_value path) filter_op f) path) s'"
    by (rule atom_sound[OF path]) (use other' path_parameters[OF path] in auto)
qed

lemma membership_list_sound:
  assumes path: "compiled_path_ok c row segments path"
    and items: "list_all (\<lambda>f. good_operand c row path f s) items"
  shows "\<forall>source. sound_filter c (row_scope row source) (policy_membership op path (CollList items)) s"
  unfolding policy_membership_def
  by (rule atom_sound[OF path])
     (use items path_parameters[OF path] in \<open>auto simp: list_all_iff dest: good_operandD\<close>)

lemma membership_parameter_sound:
  assumes path: "compiled_path_ok c row segments path" and "sp_path p \<in> pcr_path ` set (cs_context s)"
  shows "\<forall>source. sound_filter c (row_scope row source) (policy_membership op path (CollParameter p)) s"
  unfolding policy_membership_def
  by (rule atom_sound[OF path]) (use assms(2) path_parameters[OF path] in auto)

definition conditions_ok :: "visible_policy_candidate list \<Rightarrow> bool" where
  "conditions_ok candidates \<longleftrightarrow>
     (\<forall>candidate \<in> set candidates. pe_kind (vpc_entry candidate) = PolicyCondition \<longrightarrow>
        (case candidate_rule candidate of None \<Rightarrow> True | Some rule \<Rightarrow> operands_ok rule))"

abbreviation sound_expr :: "compiler_env \<Rightarrow> nat \<Rightarrow> expr \<Rightarrow> policy_row_context \<Rightarrow> policy_expected_type option \<Rightarrow> bool"
where
  "sound_expr env fuel e row ty \<equiv> \<forall>s. cspec grows anything s (policy_expr env fuel e (Some row) ty)
     (\<lambda>f s'. \<forall>source. sound_filter (ce_catalog env) (row_scope row source) f s')"

text \<open>An operand: any sound expression beside a path of this row, a value beside a longer one.\<close>

lemma operand_sound:
  assumes path: "compiled_path_ok c row segments path"
    and here: "cspec grows anything s (policy_expr env fuel e (Some row) ty)
      (\<lambda>f s'. \<forall>source. sound_filter c (row_scope row source) f s')"
    and plain: "2 \<le> length segments \<Longrightarrow> operand_plain e"
  shows "cspec grows anything s (policy_expr env fuel e (Some row) ty)
    (\<lambda>f s'. good_operand c row path f s')"
proof (cases "cp_relations path = []")
  case True
  with here show ?thesis by (simp add: good_operand_def)
next
  case False
  with path have "2 \<le> length segments" by (cases "cp_relations path") (auto simp: compiled_path_ok_def)
  from plain_operand_sound[OF plain[OF this]] show ?thesis
    by (rule cspec_mono) (simp add: good_operand_def False)
qed

definition policy_collection ::
  "compiler_env \<Rightarrow> nat \<Rightarrow> binary_op \<Rightarrow> expr \<Rightarrow> policy_row_context option \<Rightarrow> compiled_path \<Rightarrow> filter_expr compiler"
where
  "policy_collection env fuel op r row path =
     (case r of
        EList items _ \<Rightarrow>
          cbind (policy_items env fuel items row (expected_from_path path)) (\<lambda>items.
            cret (policy_membership op path (CollList items)))
      | EVariable variable _ \<Rightarrow>
          cbind (context_parameter_value env variable (expected_from_path path) True) (\<lambda>p.
            cret (policy_membership op path (CollParameter p)))
      | _ \<Rightarrow> cfail)"

lemma collection_sound:
  assumes path: "compiled_path_ok (ce_catalog env) row segments path"
    and items: "\<And>items sp item ty. r = EList items sp \<Longrightarrow> item \<in> set items \<Longrightarrow> sound_expr env fuel item row ty"
    and plain: "2 \<le> length segments \<Longrightarrow> operand_plain r"
  shows "cspec grows anything s (policy_collection env fuel op r (Some row) path)
    (\<lambda>f s'. \<forall>source. sound_filter (ce_catalog env) (row_scope row source) f s')"
proof (cases r)
  case (EList es sp)
  have item: "cspec grows anything s' (policy_expr env fuel e (Some row) ty)
      (\<lambda>f s''. good_operand (ce_catalog env) row path f s'')" if "e \<in> set es" for e ty s'
    by (rule operand_sound[OF path]) (use items[OF EList that] plain that EList in \<open>auto simp: list_all_iff\<close>)
  have all: "cspec grows anything s (policy_items env fuel es (Some row) (expected_from_path path))
      (\<lambda>fs s''. list_all2 (\<lambda>e f. good_operand (ce_catalog env) row path f s'') es fs)"
    unfolding policy_items_cmap by (rule raw.each[OF item good_operand_grows])
  show ?thesis
    unfolding policy_collection_def EList expr.case
    by (rule raw.bind[OF all], rule raw.ret, rule membership_list_sound[OF path])
       (auto simp: list_all_iff list_all2_conv_all_nth in_set_conv_nth)
next
  case (EVariable v sp)
  show ?thesis
    unfolding policy_collection_def EVariable expr.case
    by (rule raw.bind[OF context_parameter_sound], rule raw.ret, rule membership_parameter_sound[OF path])
qed (auto simp: policy_collection_def intro: raw.fail)

lemma policy_binary:
  "op \<noteq> OpAnd \<Longrightarrow> op \<noteq> OpOr \<Longrightarrow>
   policy_expr env fuel (EBinary op l r sp) row ty =
     (case path_side l r of
        Some (anchor, segments, reversed) \<Rightarrow>
          cbind (policy_path env anchor segments row) (\<lambda>path.
            if op = OpIn \<or> op = OpNotIn then
              (if reversed then cfail else policy_collection env fuel op r row path)
            else cbind (policy_expr env fuel (if reversed then l else r) row (Some (expected_from_path path)))
              (policy_comparison op path reversed))
      | None \<Rightarrow>
          cbind (policy_expr env fuel l row None) (\<lambda>l.
          cbind (policy_filter_op op) (\<lambda>filter_op.
          cbind (policy_expr env fuel r row None) (\<lambda>r. cret (FBinary l filter_op r)))))"
  unfolding policy_collection_def by simp

lemma sound_binary_node:
  "sound_filter c sc l s \<Longrightarrow> sound_filter c sc r s \<Longrightarrow> sound_filter c sc (FBinary l op r) s"
  by (simp add: sound_filter_def)

lemma sound_binary:
  assumes wf: "catalog_wf (ce_catalog env)"
    and l: "\<And>ty. sound_expr env fuel l row ty" and r: "\<And>ty. sound_expr env fuel r row ty"
    and items: "\<And>items sp item ty. r = EList items sp \<Longrightarrow> item \<in> set items \<Longrightarrow> sound_expr env fuel item row ty"
    and ok: "operands_ok (EBinary op l r sp)"
  shows "cspec grows anything s (policy_expr env fuel (EBinary op l r sp) (Some row) ty)
    (\<lambda>f s'. \<forall>source. sound_filter (ce_catalog env) (row_scope row source) f s')"
proof (cases "op = OpAnd \<or> op = OpOr")
  case True
  have "cspec grows anything s
      (cbind (policy_expr env fuel l (Some row) ty1) (\<lambda>x.
       cbind (policy_expr env fuel r (Some row) ty2) (\<lambda>y. cret (FBinary x fop y))))
      (\<lambda>f s'. \<forall>source. sound_filter (ce_catalog env) (row_scope row source) f s')" for ty1 ty2 fop
    by (rule raw.bind[OF l[rule_format]], rule raw.bind[OF r[rule_format]], rule raw.ret)
       (meson sound_binary_node sound_filter_grows)
  with True show ?thesis by auto
next
  case no_connective: False
  then have op: "op \<noteq> OpAnd" "op \<noteq> OpOr" by auto
  show ?thesis
  proof (cases "path_side l r")
    case None
    then show ?thesis
      unfolding policy_binary[OF op] None option.case
      by (intro raw.bind[OF l[rule_format]] raw.bind[OF filter_op_spec]
          raw.bind[OF r[rule_format]] raw.ret) (meson sound_binary_node sound_filter_grows)
  next
    case (Some side)
    then obtain anchor segments reversed where side: "path_side l r = Some (anchor, segments, reversed)"
      by (cases side) auto
    have plain: "operand_plain (if reversed then l else r)" if "2 \<le> length segments"
      using ok op side that by auto
    have sides: "cspec grows anything s' (policy_expr env fuel (if reversed then l else r) (Some row) ty')
        (\<lambda>f s''. \<forall>source. sound_filter (ce_catalog env) (row_scope row source) f s'')" for ty' s'
      using l[rule_format] r[rule_format] by simp
    show ?thesis
      unfolding policy_binary[OF op] side option.case prod.case
    proof (rule raw.bind[OF policy_path_scoped[OF wf]])
      fix path s' assume path: "compiled_path_ok (ce_catalog env) row segments path"
      have operand: "cspec grows anything s'' (policy_expr env fuel (if reversed then l else r) (Some row) ty')
          (\<lambda>f s''. good_operand (ce_catalog env) row path f s'')" for ty' s''
        by (rule operand_sound[OF path sides]) (rule plain)
      show "cspec grows anything s'
          (if op = OpIn \<or> op = OpNotIn then
              (if reversed then cfail else policy_collection env fuel op r (Some row) path)
            else cbind (policy_expr env fuel (if reversed then l else r) (Some row)
                    (Some (expected_from_path path)))
              (policy_comparison op path reversed))
          (\<lambda>f s'. \<forall>source. sound_filter (ce_catalog env) (row_scope row source) f s')"
      proof (cases "op = OpIn \<or> op = OpNotIn")
        case True
        have "cspec grows anything s' (policy_collection env fuel op r (Some row) path)
            (\<lambda>f s'. \<forall>source. sound_filter (ce_catalog env) (row_scope row source) f s')"
          if "\<not> reversed"
          by (rule collection_sound[OF path items]) (use plain that in auto)
        with True show ?thesis by (simp add: raw.fail)
      next
        case False
        have "cspec grows anything s' (cbind (policy_expr env fuel (if reversed then l else r) (Some row)
              (Some (expected_from_path path))) (policy_comparison op path reversed))
            (\<lambda>f s'. \<forall>source. sound_filter (ce_catalog env) (row_scope row source) f s')"
          by (rule raw.bind[OF operand], rule comparison_sound[OF path])
        with False show ?thesis by simp
      qed
    qed
  qed
qed

lemma cbind_ret [simp]: "cbind (cret x) f = f x"
  by (rule ext) (simp add: cbind_def cret_def)

lemma row_nested_scope:
  "row_scope (row_nested row table) table
     = scope_inside (row_scope row source) ExistsExplicit ScopeCurrent table"
  by (simp add: row_scope_def row_nested_def)

lemma exists_filter_sound:
  assumes "case relation of
        None \<Rightarrow> table_by_id c table \<noteq> None
      | Some r \<Rightarrow> (case relation_by_id c r of
          None \<Rightarrow> False
        | Some rel \<Rightarrow> rel_from_table rel = prc_current row \<and> rel_to_table rel = table)"
    and "\<And>f. inner = Some f \<Longrightarrow> sound_filter c (row_scope (row_nested row table) table) f s"
  shows "sound_filter c (row_scope row source)
    (FExists relation table ExistsExplicit ScopeCurrent None [] inner) s"
  using assms row_nested_scope[of row table source]
  by (cases inner) (auto simp: sound_filter_def row_scope_def split: option.splits)

lemma policy_expr_sound:
  "row = Some r \<Longrightarrow> catalog_wf (ce_catalog env) \<Longrightarrow> conditions_ok (ce_candidates env) \<Longrightarrow> operands_ok e \<Longrightarrow>
     cspec grows anything s (policy_expr env fuel e row ty)
       (\<lambda>f s'. \<forall>source. sound_filter (ce_catalog env) (row_scope r source) f s')"
proof (induction env fuel e row ty arbitrary: r s rule: policy_expr_induct)
  case (leaf env fuel e row ty)
  have path: "cspec grows anything s (policy_path env anchor segments (Some r))
      (\<lambda>path s'. compiled_path_ok (ce_catalog env) r segments path)" for anchor segments
    by (rule policy_path_scoped[OF leaf.prems(2)])
  have wrapped: "\<forall>source. sound_filter (ce_catalog env) (row_scope r source)
      (wrap_relations (cp_value p) p) s'" if "compiled_path_ok (ce_catalog env) r segments p" for segments p s'
    by (rule atom_sound[OF that]) (simp_all add: path_parameters[OF that])
  show ?case
    using leaf.hyps leaf.prems(1)
    by (cases e)
       (auto simp: raw.fail sound_filter_def[of _ _ "FParameter _"] intro!: raw.bind[OF path]
          raw.bind[OF context_parameter_sound] raw.ret wrapped[rule_format] policy_literal_sound)
next
  case (ref env fuel name sp row ty)
  show ?case
  proof (cases "\<exists>condition. condition_candidates env name = [condition]")
    case True
    then obtain condition where c: "condition_candidates env name = [condition]" by blast
    from condition_candidates_mem[OF c] ref.prems(3)
    have ok: "case candidate_rule condition of None \<Rightarrow> True | Some rule \<Rightarrow> operands_ok rule"
      by (auto simp: conditions_ok_def)
    have step: "cspec grows anything s' (policy_expr (env\<lparr>ce_contexts := vpc_contexts condition\<rparr>) n rule
          row (Some expected_boolean))
        (\<lambda>f s'. \<forall>source. sound_filter (ce_catalog env) (row_scope r source) f s')"
      if "pd_row_rules (vpc_declaration condition) = rule # rules" "fuel = Suc n" for rule rules n s'
      using ref.IH[OF that(2) ref.prems(1), of "env\<lparr>ce_contexts := vpc_contexts condition\<rparr>" rule s']
        ref.prems ok that by (simp add: candidate_rule_def first_rule_def)
    show ?thesis
      using c step
      by (auto intro!: raw.bind[OF record_condition_spec] raw.fail split: list.split nat.split)
  next
    case False
    then show ?thesis by (auto intro: raw.fail split: list.split)
  qed
next
  case (unary env fuel op e sp row ty)
  have "cspec grows anything s (policy_expr env fuel e row (Some expected_boolean))
      (\<lambda>f s'. \<forall>source. sound_filter (ce_catalog env) (row_scope r source) f s')"
    using unary by simp
  then show ?case by (auto simp: sound_filter_def intro!: raw.bind raw.ret)
next
  case (null env fuel e negated sp row ty)
  have operand: "cspec grows anything s (policy_expr env fuel e row None)
      (\<lambda>f s'. \<forall>source. sound_filter (ce_catalog env) (row_scope r source) f s')"
    using null by simp
  have path: "cspec grows anything s
      (cbind (policy_path env anchor segments row) (\<lambda>path.
        cret (wrap_relations (FNullTest (cp_value path) negated) path)))
      (\<lambda>f s'. \<forall>source. sound_filter (ce_catalog env) (row_scope r source) f s')" for anchor segments
    unfolding null.prems(1)
    by (rule raw.bind[OF policy_path_scoped[OF null.prems(2)]], rule raw.ret, rule atom_sound)
       (simp_all add: path_parameters)
  have test: "cspec grows anything s
      (cbind (policy_expr env fuel e row None) (\<lambda>f. cret (FNullTest f negated)))
      (\<lambda>f s'. \<forall>source. sound_filter (ce_catalog env) (row_scope r source) f s')"
    by (rule raw.bind[OF operand], rule raw.ret) (auto simp: sound_filter_def)
  show ?case unfolding policy_null_test
    by (split expr.split) (use path test in blast)
next
  case (exists env fuel source filters predicate sp row ty)
  have inner: "cspec grows anything s' (ctry (policy_expr env fuel p (Some (row_nested r table)) ty))
      (\<lambda>x s''. \<forall>f. x = Some f \<longrightarrow>
         sound_filter (ce_catalog env) (row_scope (row_nested r table) table) f s'')"
    if "predicate = Some p" for p table ty s'
  proof (rule cspec_mono[OF raw.attempt])
    show "cspec grows anything s' (policy_expr env fuel p (Some (row_nested r table)) ty)
       (\<lambda>f s'. \<forall>source. sound_filter (ce_catalog env) (row_scope (row_nested r table) source) f s')"
      using exists.IH[OF that refl] exists.prems that by simp
  qed (auto split: option.splits)
  show ?case
    using exists.prems(1,2) inner
    by (cases predicate)
       (auto intro!: raw.bind[OF exists_source_sound] raw.bind[OF inner] raw.ret exists_filter_sound)
next
  case (binary env fuel op l e sp row ty)
  show ?case
    unfolding binary.prems(1)
    by (rule sound_binary) (use binary in \<open>auto simp: list_all_iff\<close>)
qed

section \<open>Compiled targets\<close>

definition decl_operands_ok :: "policy_decl \<Rightarrow> bool" where
  "decl_operands_ok decl \<longleftrightarrow>
     (case apply_condition decl of None \<Rightarrow> True | Some e \<Rightarrow> operands_ok e)
     \<and> (case first_rule (pd_row_rules decl) of None \<Rightarrow> True | Some e \<Rightarrow> operands_ok e)
     \<and> list_all (\<lambda>rule. operands_ok (pfr_condition rule)) (pd_field_rules decl)"

text \<open>The filters of a target.\<close>

definition target_filters :: "compiled_policy_target \<Rightarrow> filter_expr set" where
  "target_filters target =
     set_option (cpt_enforcement target) \<union> set_option (cpt_row_rule target)
     \<union> cfr_condition ` set (cpt_field_rules target)"

definition good_target :: "catalog \<Rightarrow> compiled_policy_target \<Rightarrow> bool" where
  "good_target c target \<longleftrightarrow>
     (\<forall>f \<in> target_filters target. in_scope c (scope_raw (cpt_table target)) f
        \<and> filter_parameter_paths f \<subseteq> pcr_path ` set (cpt_context target))"

lemma row_root_scope: "row_scope (row_root t) t = scope_raw t"
  by (simp add: row_scope_def row_root_def scope_raw_def)

lemma compile_optional_sound:
  assumes "catalog_wf (ce_catalog env)" and "conditions_ok (ce_candidates env)"
    and "case rule of None \<Rightarrow> True | Some e \<Rightarrow> operands_ok e"
  shows "cspec grows anything s (compile_optional env fuel table rule)
    (\<lambda>x s'. \<forall>f \<in> set_option x. sound_filter (ce_catalog env) (scope_raw table) f s')"
proof (cases rule)
  case None
  then show ?thesis by (simp add: compile_optional_def raw.ret)
next
  case (Some e)
  have "cspec grows anything s (policy_expr env fuel e (Some (row_root table)) (Some expected_boolean))
      (\<lambda>f s'. \<forall>source. sound_filter (ce_catalog env) (row_scope (row_root table) source) f s')"
    by (rule policy_expr_sound[OF refl assms(1,2)]) (use assms(3) Some in simp)
  from raw.attempt[OF this] show ?thesis
    unfolding compile_optional_def Some option.case
    by (rule cspec_mono) (auto simp: row_root_scope[symmetric] split: option.splits)
qed

lemma compile_field_rule_sound:
  assumes "catalog_wf (ce_catalog env)" and "conditions_ok (ce_candidates env)"
    and "operands_ok (pfr_condition rule)"
  shows "cspec grows anything s (compile_field_rule env fuel table rule)
    (\<lambda>x s'. \<forall>r \<in> set_option x. sound_filter (ce_catalog env) (scope_raw table) (cfr_condition r) s')"
proof -
  have condition: "cspec grows anything s
      (ctry (policy_expr env fuel (pfr_condition rule) (Some (row_root table)) (Some expected_boolean)))
      (\<lambda>x s'. \<forall>f \<in> set_option x. sound_filter (ce_catalog env) (scope_raw table) f s')"
    using compile_optional_sound[OF assms(1,2), of "Some (pfr_condition rule)"] assms(3)
    by (simp add: compile_optional_def)
  have field: "cspec grows anything s' (policy_field env table name) (\<lambda>_ _. True)" for s' name
    by (auto simp: policy_field_def intro: raw.ret raw.fail split: field_check_result.split)
  have names: "cspec grows anything s' (ctry (cmap (\<lambda>(name, _). policy_field env table name) (pfr_fields rule)))
      (\<lambda>_ _. True)" for s'
  proof (rule cspec_mono[OF raw.attempt])
    show "cspec grows anything s' (cmap (\<lambda>(name, _). policy_field env table name) (pfr_fields rule))
        (\<lambda>ys s''. list_all2 (\<lambda>x y. True) (pfr_fields rule) ys)"
      by (rule raw.each) (use field in auto)
  qed simp
  show ?thesis
    unfolding compile_field_rule_def
    by (rule raw.bind[OF condition], rule raw.bind[OF names], rule raw.ret)
       (auto split: option.splits intro: sound_filter_grows)
qed

text \<open>
  C6: what a compiled filter reads. Where every comparison of a path through a relation is with a
  value, every filter of a compiled target is well scoped in the raw rows of its table: a column
  is a visible column of the view it is rendered against, a relation starts at the view that is
  its source, and no filter or mask of another policy occurs. Every parameter it mentions is a
  trusted context of the target's requirements.
\<close>

theorem compiled_targets_in_scope:
  assumes "catalog_wf (ce_catalog env)" and "conditions_ok (ce_candidates env)"
    and "decl_operands_ok decl"
    and "compile_target env fuel decl table = Some (Some target, s)"
  shows "good_target (ce_catalog env) target"
proof -
  let ?sound = "\<lambda>f s'. sound_filter (ce_catalog env) (scope_raw table) f s'"
  from assms(4) obtain enforcement row_rule rules
    where run: "compile_rules env fuel decl table compiler_start = Some (Some (enforcement, row_rule, rules), s)"
    and target: "target = \<lparr>cpt_table = table, cpt_enforcement = enforcement, cpt_row_rule = row_rule,
        cpt_field_rules = rules, cpt_context = sort_key pcr_path (cs_context s)\<rparr>"
    by (auto simp: compile_target_def split: option.splits if_splits)
  note optional = compile_optional_sound[OF assms(1,2), of _ _ fuel table]
  have each: "cspec grows anything s' (cmap (compile_field_rule env fuel table) (pd_field_rules decl))
      (\<lambda>ys s''. list_all2 (\<lambda>rule x. \<forall>r \<in> set_option x. ?sound (cfr_condition r) s'')
        (pd_field_rules decl) ys)" for s'
  proof (rule raw.each)
    fix rule s'' assume "rule \<in> set (pd_field_rules decl)"
    with assms(3) have "operands_ok (pfr_condition rule)" by (simp add: decl_operands_ok_def list_all_iff)
    from compile_field_rule_sound[OF assms(1,2) this]
    show "cspec grows anything s'' (compile_field_rule env fuel table rule)
        (\<lambda>x s'. \<forall>r \<in> set_option x. ?sound (cfr_condition r) s')" .
  qed (blast intro: sound_filter_grows)
  have "cspec grows anything compiler_start (compile_rules env fuel decl table)
    (\<lambda>(enforcement, row_rule, rules) s'. (\<forall>f \<in> set_option enforcement. ?sound f s')
        \<and> (\<forall>f \<in> set_option row_rule. ?sound f s') \<and> (\<forall>r \<in> set rules. ?sound (cfr_condition r) s'))"
    unfolding compile_rules_def
    by (rule raw.bind[OF optional], use assms(3) in \<open>simp add: decl_operands_ok_def\<close>,
        rule raw.bind[OF optional], use assms(3) in \<open>simp add: decl_operands_ok_def\<close>,
        rule raw.bind[OF each], rule raw.ret)
       (auto simp: list_all2_conv_all_nth in_set_conv_nth map_filter_def
          intro: sound_filter_grows sound_filter_grows[OF sound_filter_grows])
  from this[unfolded cspec_def, rule_format, OF run] show ?thesis
    by (auto simp: good_target_def target_filters_def target sound_filter_def)
qed

section \<open>A comparison across a relation\<close>

text \<open>
  C38: the operands a scope is wrong for. A rule that compares a column behind a relation with a
  column of the row itself compiles, without a failure, to a filter that is not well scoped: inside
  the relation's \<open>exists\<close> the column of the row is looked up in the related table.
\<close>

theorem relation_comparison_out_of_scope:
  assumes "catalog_wf c" and "ce_catalog env = c"
    and "check_field_ref c table (policy_field_ref relation) = FieldRelation r"
    and "check_field_ref c (tb_id (rf_table r)) (policy_field_ref inner) = FieldColumn column"
    and "check_field_ref c table (policy_field_ref outer) = FieldColumn col"
    and "tb_id (rf_table r) \<noteq> table"
  shows "\<exists>closed s. policy_expr env fuel
      (EBinary (OpComparison op) (EPath AnchorCurrent [relation, inner] sp) (EPath AnchorCurrent [outer] sp') sp'')
      (Some (row_root table)) ty compiler_start
    = Some (Some closed, s) \<and> \<not> cs_failed s \<and> \<not> in_scope c (scope_raw table) closed"
proof -
  obtain t1 t2 where types: "type_for_column c (col_id column) = Some t1" "type_for_column c (col_id col) = Some t2"
    using checked_column_typed[OF assms(1,4)] checked_column_typed[OF assms(1,5)] by metis
  have closed: "\<exists>vs. closed_values_for c i = cret vs" for i
    using enum_type_returns[OF assms(1), of i] by (auto simp: closed_values_for_def split: option.split)
  obtain v1 v2 where closed_values: "closed_values_for c (ty_id t1) = cret v1" "closed_values_for c (ty_id t2) = cret v2"
    using closed by metis
  note columns = check_field_ref_column[OF assms(1,4)] check_field_ref_column[OF assms(1,5)]
  show ?thesis
    using columns assms(6)
    by (auto simp: path_side_def policy_path_def row_root_def anchor_table_def assms(2-5) types
        policy_path_column_def closed_values policy_comparison_def wrap_relations_def compiler_start_def
        scope_raw_def) (auto simp: cret_def)
qed

end
