(* ===== verification/Policy_Plan_Correct.thy ===== *)
theory Policy_Plan_Correct
  imports Policy_Scope Sql_Ast
begin

text \<open>
  The effective filters of a source against their specification (\<open>docs/spec/policies.md\<close>): a row
  stays readable when for every applicable filter \<open>not A or P\<close> holds, a field when \<open>not A or C\<close>
  does, with \<open>A = enforcement or desired\<close>. Truth is SQL's, with unknown: a guard that is unknown
  hides.
\<close>

section \<open>Truth of a filter\<close>

text \<open>The connectives are interpreted; what an atom is worth is the valuation \<open>v\<close>.\<close>

fun filter_truth :: "(filter_expr \<Rightarrow> tv) \<Rightarrow> filter_expr \<Rightarrow> tv" where
  "filter_truth v (FLiteral (FlBool b)) = Some b"
| "filter_truth v (FNot f) = not3 (filter_truth v f)"
| "filter_truth v (FBinary l FopAnd r) = and3 (filter_truth v l) (filter_truth v r)"
| "filter_truth v (FBinary l FopOr r) = or3 (filter_truth v l) (filter_truth v r)"
| "filter_truth v f = v f"

lemma filter_boolean_Some: "filter_boolean f = Some b \<longleftrightarrow> f = FLiteral (FlBool b)"
  by (cases f rule: filter_boolean.cases) auto

lemma truth_boolean [simp]: "filter_truth v (boolean_filter b) = Some b"
  by (simp add: boolean_filter_def)

lemma truth_not [simp]: "filter_truth v (not_filter f) = not3 (filter_truth v f)"
  by (cases f rule: not_filter.cases) auto

lemma truth_or [simp]: "filter_truth v (or_filter l r) = or3 (filter_truth v l) (filter_truth v r)"
  by (auto simp: or_filter_def filter_boolean_Some)

lemma truth_and [simp]: "filter_truth v (and_filter l r) = and3 (filter_truth v l) (filter_truth v r)"
  by (auto simp: and_filter_def filter_boolean_Some)

lemma truth_guard [simp]:
  "filter_truth v (active_policy_guard active rule) = or3 (not3 (filter_truth v active)) (filter_truth v rule)"
  by (auto simp: active_policy_guard_def filter_boolean_Some)

lemma or3_not_true: "or3 (not3 a) b = Some True \<longleftrightarrow> a = Some False \<or> b = Some True"
  by (cases a; cases b) (auto simp: or3_def and3_def)

lemma and3_true: "and3 a b = Some True \<longleftrightarrow> a = Some True \<and> b = Some True"
  by (auto simp: and3_def)

section \<open>The specification\<close>

text \<open>What is in force at a source: the compiled target and the desired state of every filter.\<close>

definition effective_filters ::
  "planner \<Rightarrow> table_id \<Rightarrow> planned_policy_assignment list \<Rightarrow> (compiled_policy_target \<times> filter_expr) list" where
  "effective_filters pl table assignments =
     List.map_filter (\<lambda>identity.
         case (compiled_index_entry (pl_compiled_policies pl) identity,
               compiled_index_target (pl_compiled_policies pl) identity table) of
           (Some compiled, Some target) \<Rightarrow>
             Some (target, desired_state (assigned assignments identity) compiled)
         | _ \<Rightarrow> None)
       (policy_identities pl table assignments)"

text \<open>\<open>A\<close>: the enforcement condition, false where there is none, or the desired state.\<close>

definition activation :: "(filter_expr \<Rightarrow> tv) \<Rightarrow> compiled_policy_target \<times> filter_expr \<Rightarrow> tv" where
  "activation v p =
     or3 (case cpt_enforcement (fst p) of None \<Rightarrow> Some False | Some e \<Rightarrow> filter_truth v e)
       (filter_truth v (snd p))"

definition row_readable ::
  "(filter_expr \<Rightarrow> tv) \<Rightarrow> (compiled_policy_target \<times> filter_expr) list \<Rightarrow> bool" where
  "row_readable v effective \<longleftrightarrow>
     (\<forall>p \<in> set effective. activation v p = Some False
        \<or> (case cpt_row_rule (fst p) of None \<Rightarrow> True | Some rule \<Rightarrow> filter_truth v rule = Some True))"

definition field_readable ::
  "(filter_expr \<Rightarrow> tv) \<Rightarrow> (compiled_policy_target \<times> filter_expr) list \<Rightarrow> policy_field_target \<Rightarrow> bool" where
  "field_readable v effective field \<longleftrightarrow>
     (\<forall>p \<in> set effective. activation v p = Some False
        \<or> (\<forall>rule \<in> set (cpt_field_rules (fst p)). field \<in> field_target_of ` set (cfr_fields rule) \<longrightarrow>
             filter_truth v (cfr_condition rule) = Some True))"

text \<open>What the plan lets through.\<close>

definition plan_row_passes :: "(filter_expr \<Rightarrow> tv) \<Rightarrow> source_policy_plan \<Rightarrow> bool" where
  "plan_row_passes v plan \<longleftrightarrow>
     (case spp_row_filter plan of None \<Rightarrow> True | Some f \<Rightarrow> filter_truth v f = Some True)"

definition field_filters_pass ::
  "(filter_expr \<Rightarrow> tv) \<Rightarrow> policy_field_filter list \<Rightarrow> policy_field_target \<Rightarrow> bool" where
  "field_filters_pass v fs field \<longleftrightarrow>
     (\<forall>f \<in> set fs. pf_target f = field \<longrightarrow> filter_truth v (pf_filter f) = Some True)"

lemma active_state_truth: "filter_truth v (active_state target desired) = activation v (target, desired)"
  by (simp add: active_state_def activation_def split: option.split)

section \<open>Rows\<close>

lemma plan_row_rule_passes:
  "plan_row_passes v (ps_plan (snd (plan_row_rule target assignment active (application, step)))) \<longleftrightarrow>
     plan_row_passes v (ps_plan step)
     \<and> (filter_truth v active = Some False
        \<or> (case cpt_row_rule target of None \<Rightarrow> True | Some rule \<Rightarrow> filter_truth v rule = Some True))"
  by (auto simp: plan_row_rule_def plan_row_passes_def Let_def and3_true or3_not_true split: option.split)

lemma plan_row_rule_fields [simp]:
  "spp_field_filters (ps_plan (snd (plan_row_rule target assignment active st)))
     = spp_field_filters (ps_plan (snd st))"
  by (cases st) (simp add: plan_row_rule_def Let_def split: option.split)

lemma plan_field_rule_row [simp]:
  "spp_row_filter (ps_plan (snd (plan_field_rule target assignment active st rule)))
     = spp_row_filter (ps_plan (snd st))"
  by (cases st) (simp add: plan_field_rule_def Let_def)

lemma plan_field_rules_row [simp]:
  "spp_row_filter (ps_plan (snd (foldl (plan_field_rule target assignment active) st rules)))
     = spp_row_filter (ps_plan (snd st))"
  by (induction rules arbitrary: st) simp_all

lemma push_application_plan [simp]:
  "spp_row_filter (ps_plan (push_application application step)) = spp_row_filter (ps_plan step)"
  "spp_field_filters (ps_plan (push_application application step)) = spp_field_filters (ps_plan step)"
  "ps_context (push_application application step) = ps_context step"
  by (simp_all add: push_application_def)

text \<open>One identity, by the effective filter it stands for.\<close>

lemma plan_policy_cases:
  obtains (absent) "plan_policy pl table path assignments step identity = step"
      "compiled_index_entry (pl_compiled_policies pl) identity = None
       \<or> compiled_index_target (pl_compiled_policies pl) identity table = None"
  | (inactive) compiled target application
      where "compiled_index_entry (pl_compiled_policies pl) identity = Some compiled"
        "compiled_index_target (pl_compiled_policies pl) identity table = Some target"
        "active_state target (desired_state (assigned assignments identity) compiled) = boolean_filter False"
        "plan_policy pl table path assignments step identity = push_application application step"
  | (active) compiled target application application'
      where "compiled_index_entry (pl_compiled_policies pl) identity = Some compiled"
        "compiled_index_target (pl_compiled_policies pl) identity table = Some target"
        "plan_policy pl table path assignments step identity = push_application application'
          (snd (foldl (plan_field_rule target (assigned assignments identity)
              (active_state target (desired_state (assigned assignments identity) compiled)))
            (plan_row_rule target (assigned assignments identity)
              (active_state target (desired_state (assigned assignments identity) compiled))
              (application, step))
            (cpt_field_rules target)))"
proof (cases "compiled_index_entry (pl_compiled_policies pl) identity")
  case None
  then show thesis by (intro absent) (simp_all add: plan_policy_def)
next
  case entry: (Some compiled)
  show thesis
  proof (cases "compiled_index_target (pl_compiled_policies pl) identity table")
    case None
    with entry show thesis by (intro absent) (simp_all add: plan_policy_def)
  next
    case target: (Some target)
    let ?active = "active_state target (desired_state (assigned assignments identity) compiled)"
    show thesis
    proof (cases "filter_boolean ?active = Some False")
      case True
      then show thesis
        by (intro inactive[OF entry target])
           (simp_all add: plan_policy_def entry target Let_def filter_boolean_Some boolean_filter_def)
    next
      case False
      then show thesis
        by (intro active[OF entry target])
           (simp add: plan_policy_def entry target Let_def case_prod_beta)
    qed
  qed
qed

lemma plan_row_passes_cong:
  "spp_row_filter plan = spp_row_filter plan' \<Longrightarrow> plan_row_passes v plan = plan_row_passes v plan'"
  by (simp add: plan_row_passes_def)

definition effective_of ::
  "planner \<Rightarrow> table_id \<Rightarrow> planned_policy_assignment list \<Rightarrow> entity
     \<Rightarrow> (compiled_policy_target \<times> filter_expr) option" where
  "effective_of pl table assignments identity =
     (case (compiled_index_entry (pl_compiled_policies pl) identity,
            compiled_index_target (pl_compiled_policies pl) identity table) of
        (Some compiled, Some target) \<Rightarrow> Some (target, desired_state (assigned assignments identity) compiled)
      | _ \<Rightarrow> None)"

lemma effective_filters_set:
  "p \<in> set (effective_filters pl table assignments) \<longleftrightarrow>
     (\<exists>identity \<in> set (policy_identities pl table assignments).
        effective_of pl table assignments identity = Some p)"
  unfolding effective_filters_def effective_of_def[symmetric, abs_def]
  by (auto simp: List.map_filter_def image_iff)

lemma plan_policy_row:
  "plan_row_passes v (ps_plan (plan_policy pl table path assignments step identity)) \<longleftrightarrow>
     plan_row_passes v (ps_plan step)
     \<and> (case effective_of pl table assignments identity of
          None \<Rightarrow> True
        | Some p \<Rightarrow> activation v p = Some False
            \<or> (case cpt_row_rule (fst p) of None \<Rightarrow> True | Some rule \<Rightarrow> filter_truth v rule = Some True))"
proof (cases rule: plan_policy_cases[of pl table path assignments step identity])
  case absent
  then show ?thesis by (auto simp: effective_of_def split: option.split)
next
  case (inactive compiled target application)
  have "activation v (target, desired_state (assigned assignments identity) compiled) = Some False"
    unfolding active_state_truth[symmetric] inactive(3) by simp
  with inactive show ?thesis
    by (auto simp: effective_of_def plan_row_passes_def)
next
  case (active compiled target application application')
  let ?active = "active_state target (desired_state (assigned assignments identity) compiled)"
  have "plan_row_passes v (ps_plan (plan_policy pl table path assignments step identity))
      = plan_row_passes v (ps_plan (snd (plan_row_rule target (assigned assignments identity) ?active
          (application, step))))"
    by (rule plan_row_passes_cong) (simp add: active(3))
  with active(1,2) show ?thesis
    by (simp add: plan_row_rule_passes active_state_truth effective_of_def)
qed

lemma plan_policies_row:
  "plan_row_passes v (ps_plan (foldl (plan_policy pl table path assignments) step identities)) \<longleftrightarrow>
     plan_row_passes v (ps_plan step)
     \<and> (\<forall>identity \<in> set identities. case effective_of pl table assignments identity of
          None \<Rightarrow> True
        | Some p \<Rightarrow> activation v p = Some False
            \<or> (case cpt_row_rule (fst p) of None \<Rightarrow> True | Some rule \<Rightarrow> filter_truth v rule = Some True))"
  by (induction identities arbitrary: step) (auto simp: plan_policy_row)

section \<open>Fields\<close>

lemma set_list_update_all:
  assumes "i < length xs"
  shows "(\<forall>x \<in> set (xs[i := y]). P x) \<longleftrightarrow> P y \<and> (\<forall>j < length xs. j \<noteq> i \<longrightarrow> P (xs ! j))"
  using assms by (auto simp: all_set_conv_all_nth nth_list_update)

lemma add_field_filter_passes:
  "field_filters_pass v (add_field_filter guard context fs target) field \<longleftrightarrow>
     field_filters_pass v fs field \<and> (field = target \<longrightarrow> filter_truth v guard = Some True)"
proof (cases "position (\<lambda>f. pf_target f = target) fs")
  case None
  then show ?thesis by (auto simp: add_field_filter_def field_filters_pass_def)
next
  case (Some i)
  from position_Some[OF Some] have i: "i < length fs" "pf_target (fs ! i) = target" by auto
  have "(\<forall>f \<in> set fs. pf_target f = field \<longrightarrow> filter_truth v (pf_filter f) = Some True) \<longleftrightarrow>
      (pf_target (fs ! i) = field \<longrightarrow> filter_truth v (pf_filter (fs ! i)) = Some True)
      \<and> (\<forall>j < length fs. j \<noteq> i \<longrightarrow> pf_target (fs ! j) = field \<longrightarrow>
           filter_truth v (pf_filter (fs ! j)) = Some True)"
    using i by (auto simp: all_set_conv_all_nth)
  then show ?thesis
    using i by (auto simp: add_field_filter_def Some field_filters_pass_def
        set_list_update_all[OF i(1)] and3_true)
qed

lemma add_field_filters_pass:
  "field_filters_pass v (foldl (add_field_filter guard context) fs targets) field \<longleftrightarrow>
     field_filters_pass v fs field \<and> (field \<in> set targets \<longrightarrow> filter_truth v guard = Some True)"
  by (induction targets arbitrary: fs) (auto simp: add_field_filter_passes)

lemma plan_field_rule_passes:
  "field_filters_pass v (spp_field_filters (ps_plan (snd (plan_field_rule target assignment active st rule)))) field
   \<longleftrightarrow> field_filters_pass v (spp_field_filters (ps_plan (snd st))) field
     \<and> (field \<in> field_target_of ` set (cfr_fields rule) \<longrightarrow>
          filter_truth v active = Some False \<or> filter_truth v (cfr_condition rule) = Some True)"
  by (cases st) (simp add: plan_field_rule_def Let_def add_field_filters_pass or3_not_true)

lemma plan_field_rules_pass:
  "field_filters_pass v (spp_field_filters (ps_plan (snd (foldl (plan_field_rule target assignment active) st rules)))) field
   \<longleftrightarrow> field_filters_pass v (spp_field_filters (ps_plan (snd st))) field
     \<and> (filter_truth v active = Some False
        \<or> (\<forall>rule \<in> set rules. field \<in> field_target_of ` set (cfr_fields rule) \<longrightarrow>
             filter_truth v (cfr_condition rule) = Some True))"
proof (induction rules arbitrary: st)
  case Nil
  show ?case by simp
next
  case (Cons rule rules)
  show ?case by (simp only: foldl_Cons Cons.IH plan_field_rule_passes list.set) blast
qed

lemma plan_policy_field:
  "field_filters_pass v (spp_field_filters (ps_plan (plan_policy pl table path assignments step identity))) field
   \<longleftrightarrow> field_filters_pass v (spp_field_filters (ps_plan step)) field
     \<and> (case effective_of pl table assignments identity of
          None \<Rightarrow> True
        | Some p \<Rightarrow> activation v p = Some False
            \<or> (\<forall>rule \<in> set (cpt_field_rules (fst p)). field \<in> field_target_of ` set (cfr_fields rule) \<longrightarrow>
                 filter_truth v (cfr_condition rule) = Some True))"
proof (cases rule: plan_policy_cases[of pl table path assignments step identity])
  case absent
  then show ?thesis by (auto simp: effective_of_def split: option.split)
next
  case (inactive compiled target application)
  have "activation v (target, desired_state (assigned assignments identity) compiled) = Some False"
    unfolding active_state_truth[symmetric] inactive(3) by simp
  with inactive show ?thesis by (auto simp: effective_of_def)
next
  case (active compiled target application application')
  then show ?thesis
    by (simp add: plan_field_rules_pass active_state_truth effective_of_def)
qed

lemma plan_policies_field:
  "field_filters_pass v (spp_field_filters (ps_plan (foldl (plan_policy pl table path assignments) step identities))) field
   \<longleftrightarrow> field_filters_pass v (spp_field_filters (ps_plan step)) field
     \<and> (\<forall>identity \<in> set identities. case effective_of pl table assignments identity of
          None \<Rightarrow> True
        | Some p \<Rightarrow> activation v p = Some False
            \<or> (\<forall>rule \<in> set (cpt_field_rules (fst p)). field \<in> field_target_of ` set (cfr_fields rule) \<longrightarrow>
                 filter_truth v (cfr_condition rule) = Some True))"
  by (induction identities arbitrary: step) (auto simp: plan_policy_field)

section \<open>The plan implements the specification\<close>

definition planned_step ::
  "planner \<Rightarrow> table_id \<Rightarrow> string list \<Rightarrow> planned_policy_assignment list \<Rightarrow> policy_context_requirement list
     \<Rightarrow> policy_step" where
  "planned_step pl table path assignments context =
     foldl (plan_policy pl table path assignments) \<lparr>ps_plan = source_policy_default, ps_context = context\<rparr>
       (policy_identities pl table assignments)"

lemma plan_source_policies_step:
  fixes pl table source inst path scope definition_scope explicit ctx
  defines "step \<equiv> planned_step pl table path
      (source_assignments pl source inst path scope definition_scope explicit) ctx"
    and "result \<equiv> plan_source_policies pl table source inst path scope definition_scope explicit ctx"
  shows "spp_row_filter (fst result) = spp_row_filter (ps_plan step)"
    and "spp_field_filters (fst result) = spp_field_filters (ps_plan step)"
    and "snd result = ps_context step"
  by (simp_all add: result_def step_def plan_source_policies_def planned_step_def Let_def)

lemma all_effective:
  "(\<forall>identity \<in> set (policy_identities pl table assignments).
      case effective_of pl table assignments identity of None \<Rightarrow> True | Some p \<Rightarrow> Q p)
   \<longleftrightarrow> (\<forall>p \<in> set (effective_filters pl table assignments). Q p)"
  by (auto simp: effective_filters_set Ball_def split: option.split)

lemma planned_rows:
  "plan_row_passes v (ps_plan (planned_step pl table path assignments context)) \<longleftrightarrow>
     row_readable v (effective_filters pl table assignments)"
  unfolding planned_step_def plan_policies_row all_effective row_readable_def
  by (simp add: plan_row_passes_def source_policy_default_def)

lemma planned_fields:
  "field_filters_pass v (spp_field_filters (ps_plan (planned_step pl table path assignments context))) field
   \<longleftrightarrow> field_readable v (effective_filters pl table assignments) field"
  unfolding planned_step_def plan_policies_field all_effective field_readable_def
  by (simp add: field_filters_pass_def source_policy_default_def)

text \<open>
  C2: access rules. Whatever the rows and the request are worth, the planned row filter of a source
  lets a row through exactly when every filter in force is inactive there or has a true row rule,
  and the planned field guards let a field through exactly when every filter in force is inactive
  or has a true condition in each of its rules for the field. Unknown never lets anything through.
\<close>

theorem planned_access_refines_spec:
  "let assignments = source_assignments pl source inst path scope definition_scope explicit;
       effective = effective_filters pl table assignments;
       plan = fst (plan_source_policies pl table source inst path scope definition_scope explicit ctx)
   in (plan_row_passes v plan \<longleftrightarrow> row_readable v effective)
    \<and> (field_filters_pass v (spp_field_filters plan) field \<longleftrightarrow> field_readable v effective field)"
  unfolding Let_def plan_source_policies_step(2) planned_fields
    plan_row_passes_cong[OF plan_source_policies_step(1)] planned_rows by blast

text \<open>
  C7: enforcement cannot be switched off. Where a filter that is visible from the operation applies
  to a table and its enforcement condition holds, no assignment, operation-wide, of the source or
  of an \<open>exists\<close>, lets a row through for which the filter's row rule is not true.
\<close>

theorem enforced_filter_stays:
  assumes "entry \<in> set (pl_policy_index pl)" and "pe_kind entry = PolicyFilter"
    and "table \<in> set (pe_matches entry)"
    and "pe_scope entry \<in> set (visible_from (pl_imports pl) (pl_scope pl))"
    and "compiled_index_target (pl_compiled_policies pl) (pe_entity entry) table = Some target"
    and "cpt_enforcement target = Some enforcement" and "filter_truth v enforcement = Some True"
    and "cpt_row_rule target = Some rule"
    and "plan_row_passes v (fst (plan_source_policies pl table source inst path scope
           definition_scope explicit ctx))"
  shows "filter_truth v rule = Some True"
proof -
  let ?assignments = "source_assignments pl source inst path scope definition_scope explicit"
  have readable: "row_readable v (effective_filters pl table ?assignments)"
    using assms(9) by (simp add: plan_row_passes_cong[OF plan_source_policies_step(1)] planned_rows)
  from assms(5) obtain compiled where compiled:
    "compiled_index_entry (pl_compiled_policies pl) (pe_entity entry) = Some compiled"
    by (auto simp: compiled_index_target_def split: option.splits)
  let ?p = "(target, desired_state (assigned ?assignments (pe_entity entry)) compiled)"
  have "effective_of pl table ?assignments (pe_entity entry) = Some ?p"
    by (simp add: effective_of_def compiled assms(5))
  moreover have "pe_entity entry \<in> set (policy_identities pl table ?assignments)"
    using assms(1-4) by (auto simp: policy_identities_def applicable_filters_def)
  ultimately have "?p \<in> set (effective_filters pl table ?assignments)"
    by (auto simp: effective_filters_set)
  moreover have "activation v ?p = Some True"
    using assms(6,7) by (simp add: activation_def)
  ultimately show ?thesis
    using readable assms(8) by (auto simp: row_readable_def)
qed

section \<open>Fields that may be masked\<close>

lemma set_push_unique [simp]: "set (foldl push_unique acc xs) = set acc \<union> set xs"
  by (induction xs arbitrary: acc) (auto simp: push_unique_def)

lemma nullable_fields_set:
  "set (policy_nullable_fields pl table) =
     field_target_of ` (\<Union>rule \<in> set (shape_field_rules (pl_shape_policies pl) table). set (cfr_fields rule))"
  by (auto simp: policy_nullable_fields_def)

lemma add_field_filters_targets:
  "pf_target ` set (foldl (add_field_filter guard context) fs targets) = pf_target ` set fs \<union> set targets"
proof (induction targets arbitrary: fs)
  case (Cons target targets)
  have "pf_target ` set (add_field_filter guard context fs target) = insert target (pf_target ` set fs)"
  proof (cases "position (\<lambda>f. pf_target f = target) fs")
    case (Some i)
    from position_Some[OF Some] have i: "i < length fs" "pf_target (fs ! i) = target" by auto
    have "map pf_target (fs[i := PolicyFieldFilter target f c]) = map pf_target fs" for f c
      using i by (simp add: map_update list_update_same_conv)
    then have "pf_target ` set (fs[i := PolicyFieldFilter target f c]) = pf_target ` set fs" for f c
      by (metis list.set_map)
    moreover have "target \<in> pf_target ` set fs" using i nth_mem by blast
    ultimately show ?thesis by (auto simp: add_field_filter_def Some)
  qed (auto simp: add_field_filter_def)
  with Cons.IH show ?case by simp
qed simp

lemma plan_field_rules_targets:
  "pf_target ` set (spp_field_filters (ps_plan (snd (foldl (plan_field_rule target assignment active) st rules))))
   = pf_target ` set (spp_field_filters (ps_plan (snd st)))
     \<union> field_target_of ` (\<Union>rule \<in> set rules. set (cfr_fields rule))"
proof (induction rules arbitrary: st)
  case (Cons rule rules)
  have "pf_target ` set (spp_field_filters (ps_plan (snd (plan_field_rule target assignment active st rule))))
     = pf_target ` set (spp_field_filters (ps_plan (snd st))) \<union> field_target_of ` set (cfr_fields rule)"
    by (cases st) (simp add: plan_field_rule_def Let_def add_field_filters_targets)
  with Cons.IH show ?case by auto
qed simp

lemma index_target_rules:
  assumes "compiled_index_target index identity table = Some target"
  shows "set (cpt_field_rules target) \<subseteq> set (shape_field_rules index table)"
proof -
  from assms obtain compiled where compiled: "find (\<lambda>entry. cpe_entity entry = identity) index = Some compiled"
    "find (\<lambda>t. cpt_table t = table) (cpe_targets compiled) = Some target"
    by (auto simp: compiled_index_target_def compiled_index_entry_def split: option.splits)
  from find_SomeD[OF compiled(1)] find_SomeD[OF compiled(2)] show ?thesis
    by (fastforce simp: shape_field_rules_def)
qed

lemma shape_field_rules_mono:
  "set index \<subseteq> set index' \<Longrightarrow> set (shape_field_rules index table) \<subseteq> set (shape_field_rules index' table)"
  by (fastforce simp: shape_field_rules_def)

text \<open>
  C39: masks are announced. A field a planned guard can hide is among the fields the result type of
  the table must treat as nullable, as long as the filters of the operation are filters of the
  project.
\<close>

theorem masked_fields_nullable:
  assumes "set (pl_compiled_policies pl) \<subseteq> set (pl_shape_policies pl)"
  shows "pf_target ` set (spp_field_filters (fst (plan_source_policies pl table source inst path
      scope definition_scope explicit ctx))) \<subseteq> set (policy_nullable_fields pl table)"
proof -
  let ?ok = "\<lambda>step. pf_target ` set (spp_field_filters (ps_plan step)) \<subseteq> set (policy_nullable_fields pl table)"
  have one: "?ok (plan_policy pl table path assignments step identity)" if "?ok step" for assignments step identity
  proof (cases rule: plan_policy_cases[of pl table path assignments step identity])
    case (active compiled target application application')
    have "set (cpt_field_rules target) \<subseteq> set (shape_field_rules (pl_shape_policies pl) table)"
      using index_target_rules[OF active(2)] shape_field_rules_mono[OF assms] by blast
    then show ?thesis
      using that by (auto simp: active(3) plan_field_rules_targets nullable_fields_set)
  qed (use that in simp_all)
  have "?ok (foldl (plan_policy pl table path assignments) step identities)" if "?ok step"
    for assignments step identities
    using that by (induction identities arbitrary: step) (simp_all add: one)
  then show ?thesis
    by (simp add: plan_source_policies_step(2) planned_step_def source_policy_default_def)
qed

section \<open>Trusted context\<close>

text \<open>
  The trusted context a filter mentions is explained by the requirements for its paths. A scope is
  public when no \<open>$\<close> or \<open>%\<close> variable is bound to a path of the trusted context there.
\<close>

definition explained :: "policy_context_requirement list \<Rightarrow> filter_expr \<Rightarrow> bool" where
  "explained ctx f \<longleftrightarrow>
     (\<forall>path \<in> filter_parameter_paths f. starts_with path ''context.'' \<longrightarrow> path \<in> pcr_path ` set ctx)"

definition public_scope :: "string list \<Rightarrow> variable_path_scope \<Rightarrow> bool" where
  "public_scope path scope \<longleftrightarrow>
     (\<forall>vpc sigil name. sigil \<noteq> SigilContext \<longrightarrow>
        \<not> starts_with (variable_path path vpc scope sigil name) ''context.'')"

lemma join_with_first: "\<exists>r. join_with sep ((ch # x) # xs) = ch # r"
  by (cases xs) auto

lemma public_scope_operation: "public_scope path scope_operation"
proof -
  have head: "\<not> starts_with (join_with ''.'' ((ch # x) # xs)) ''context.''" if "ch \<noteq> CHR ''c''" for ch x xs
  proof -
    obtain r where "join_with ''.'' ((ch # x) # xs) = ch # r" using join_with_first by blast
    with that show ?thesis by simp
  qed
  have "\<not> starts_with (variable_path path vpc scope_operation sigil name) ''context.''"
    if "sigil \<noteq> SigilContext" for vpc sigil name
    using that
    by (cases sigil) (simp_all add: variable_path_def variable_value_def native_variable_path_def
        structured_variable_path_def join_prefixed_key_def scope_operation_def head
        del: join_with.simps starts_with.simps)
  then show ?thesis by (simp add: public_scope_def)
qed

lemma explained_mono: "explained ctx f \<Longrightarrow> set ctx \<subseteq> set ctx' \<Longrightarrow> explained ctx' f"
  by (auto simp: explained_def)

lemma parameters_boolean [simp]: "filter_parameter_paths (boolean_filter b) = {}"
  by (simp add: boolean_filter_def)

lemma parameters_not: "filter_parameter_paths (not_filter f) = filter_parameter_paths f"
  by (cases f rule: not_filter.cases) auto

lemma parameters_or: "filter_parameter_paths (or_filter l r) \<subseteq> filter_parameter_paths l \<union> filter_parameter_paths r"
  by (auto simp: or_filter_def split: if_splits)

lemma parameters_and: "filter_parameter_paths (and_filter l r) \<subseteq> filter_parameter_paths l \<union> filter_parameter_paths r"
  by (auto simp: and_filter_def split: if_splits)

lemma parameters_guard:
  "filter_parameter_paths (active_policy_guard active rule)
     \<subseteq> filter_parameter_paths active \<union> filter_parameter_paths rule"
  using parameters_or[of "not_filter active" rule] by (auto simp: active_policy_guard_def parameters_not)

lemma explained_and: "explained ctx l \<Longrightarrow> explained ctx r \<Longrightarrow> explained ctx (and_filter l r)"
  using parameters_and[of l r] by (auto simp: explained_def)

lemma set_extend_unique [simp]: "set (extend_unique_context ctx rs) = set ctx \<union> set rs"
proof -
  have "set (foldl (\<lambda>acc r. if r \<in> set acc then acc else acc @ [r]) acc rs) = set acc \<union> set rs" for acc
    by (induction rs arbitrary: acc) auto
  then show ?thesis by (simp add: extend_unique_context_def)
qed

lemma explained_extend:
  "explained ctx f \<Longrightarrow> explained (extend_unique_context ctx rs) f"
  "explained rs f \<Longrightarrow> explained (extend_unique_context ctx rs) f"
  by (auto simp: explained_def)

lemma explained_guarded:
  "explained ctx f \<Longrightarrow> explained rs g \<Longrightarrow> explained (extend_unique_context ctx rs) (and_filter f g)"
  by (rule explained_and) (simp_all add: explained_extend)

definition complete_target :: "compiled_policy_target \<Rightarrow> bool" where
  "complete_target target \<longleftrightarrow>
     (\<forall>f \<in> target_filters target. filter_parameter_paths f \<subseteq> pcr_path ` set (cpt_context target))"

definition complete_assignment :: "planned_policy_assignment \<Rightarrow> bool" where
  "complete_assignment a \<longleftrightarrow> explained (ppa_context a) (ppa_desired a)"

lemma active_parameters:
  "filter_parameter_paths (active_state target desired)
     \<subseteq> \<Union> (filter_parameter_paths ` set_option (cpt_enforcement target)) \<union> filter_parameter_paths desired"
  using parameters_or by (auto simp: active_state_def split: option.splits)

text \<open>The requirements collected for a guard explain its parameters.\<close>

lemma collected_explains:
  assumes "complete_target target" and "rule \<in> target_filters target"
    and "case assignment of None \<Rightarrow> True | Some a \<Rightarrow> complete_assignment a"
  shows "explained
    (collect_policy_context target assignment
      (active_policy_guard (active_state target (desired_state assignment compiled)) rule))
    (active_policy_guard (active_state target (desired_state assignment compiled)) rule)"
proof -
  let ?guard = "active_policy_guard (active_state target (desired_state assignment compiled)) rule"
  have "path \<in> pcr_path ` set (collect_policy_context target assignment ?guard)"
    if path: "path \<in> filter_parameter_paths ?guard" and trusted: "starts_with path ''context.''" for path
  proof -
    from path parameters_guard active_parameters
    consider f where "f \<in> target_filters target" "path \<in> filter_parameter_paths f"
      | "path \<in> filter_parameter_paths (desired_state assignment compiled)"
      using assms(2) unfolding target_filters_def by blast
    then show ?thesis
    proof cases
      case (1 f)
      with assms(1) have "path \<in> pcr_path ` set (cpt_context target)" by (auto simp: complete_target_def)
      with path show ?thesis by (auto simp: collect_policy_context_def)
    next
      case 2
      then obtain a where a: "assignment = Some a" "path \<in> filter_parameter_paths (ppa_desired a)"
        by (auto simp: desired_state_def split: option.splits)
      with assms(3) trusted have "path \<in> pcr_path ` set (ppa_context a)"
        by (simp add: complete_assignment_def explained_def)
      with path a show ?thesis by (auto simp: collect_policy_context_def)
    qed
  qed
  then show ?thesis by (simp add: explained_def)
qed

definition step_explained :: "policy_step \<Rightarrow> bool" where
  "step_explained step \<longleftrightarrow>
     (case spp_row_filter (ps_plan step) of None \<Rightarrow> True | Some f \<Rightarrow> explained (ps_context step) f)
     \<and> (\<forall>f \<in> set (spp_field_filters (ps_plan step)). explained (pf_context f) (pf_filter f))"

lemma step_explained_push [simp]: "step_explained (push_application application step) = step_explained step"
  by (simp add: step_explained_def split: option.split)

lemma row_rule_explained:
  assumes "step_explained step" and "complete_target target"
    and "case assignment of None \<Rightarrow> True | Some a \<Rightarrow> complete_assignment a"
  shows "step_explained (snd (plan_row_rule target assignment
    (active_state target (desired_state assignment compiled)) (application, step)))"
proof (cases "cpt_row_rule target")
  case None
  then show ?thesis using assms(1) by (simp add: plan_row_rule_def)
next
  case (Some rule)
  then have "rule \<in> target_filters target" by (simp add: target_filters_def)
  note guard = collected_explains[OF assms(2) this assms(3), of compiled]
  show ?thesis
    using assms(1) guard
    by (auto simp: step_explained_def plan_row_rule_def Some Let_def split: option.splits
        intro: explained_guarded explained_extend)
qed

lemma add_field_filters_explained:
  assumes "explained ctx guard"
  shows "\<forall>f \<in> set fs. explained (pf_context f) (pf_filter f) \<Longrightarrow>
    \<forall>f \<in> set (foldl (add_field_filter guard ctx) fs targets). explained (pf_context f) (pf_filter f)"
proof (induction targets arbitrary: fs)
  case (Cons target targets)
  have "\<forall>f \<in> set (add_field_filter guard ctx fs target). explained (pf_context f) (pf_filter f)"
  proof (cases "position (\<lambda>f. pf_target f = target) fs")
    case (Some i)
    from position_Some[OF Some] have "i < length fs" by auto
    then have "fs ! i \<in> set fs" by simp
    with Cons.prems have "explained (pf_context (fs ! i)) (pf_filter (fs ! i))" by blast
    from explained_guarded[OF this assms] Cons.prems show ?thesis
      by (auto simp: add_field_filter_def Some dest!: set_update_subset_insert[THEN subsetD])
  qed (use Cons.prems assms in \<open>auto simp: add_field_filter_def\<close>)
  then show ?case using Cons.IH by simp
qed simp

lemma field_rules_explained:
  assumes "complete_target target" and "case assignment of None \<Rightarrow> True | Some a \<Rightarrow> complete_assignment a"
  shows "step_explained (snd st) \<Longrightarrow> set rules \<subseteq> set (cpt_field_rules target) \<Longrightarrow>
    step_explained (snd (foldl (plan_field_rule target assignment
      (active_state target (desired_state assignment compiled))) st rules))"
proof (induction rules arbitrary: st)
  case (Cons rule rules)
  then have "cfr_condition rule \<in> target_filters target" by (simp add: target_filters_def)
  note guard = add_field_filters_explained[OF collected_explains[OF assms(1) this assms(2), of compiled]]
  have "step_explained (snd (plan_field_rule target assignment
      (active_state target (desired_state assignment compiled)) st rule))"
    using Cons.prems(1) guard
    by (cases st) (auto simp: step_explained_def plan_field_rule_def Let_def split: option.split)
  with Cons show ?case by simp
qed simp

lemma assigned_member: "assigned assignments identity = Some a \<Longrightarrow> a \<in> set assignments"
  by (auto simp: assigned_def dest: find_SomeD)

lemma index_target_member:
  "compiled_index_target index identity table = Some target \<Longrightarrow>
     \<exists>entry \<in> set index. target \<in> set (cpe_targets entry)"
  by (auto simp: compiled_index_target_def compiled_index_entry_def split: option.splits dest!: find_SomeD)

lemma plan_policy_explained:
  assumes "\<forall>entry \<in> set (pl_compiled_policies pl). \<forall>target \<in> set (cpe_targets entry). complete_target target"
    and "\<forall>a \<in> set assignments. complete_assignment a" and "step_explained step"
  shows "step_explained (plan_policy pl table path assignments step identity)"
proof -
  have assignment: "case assigned assignments identity of None \<Rightarrow> True | Some a \<Rightarrow> complete_assignment a"
    using assms(2) by (auto split: option.split dest: assigned_member)
  show ?thesis
  proof (cases rule: plan_policy_cases[of pl table path assignments step identity])
    case (active compiled target application application')
    have complete: "complete_target target" using index_target_member[OF active(2)] assms(1) by blast
    have "step_explained (snd (foldl (plan_field_rule target (assigned assignments identity)
              (active_state target (desired_state (assigned assignments identity) compiled)))
            (plan_row_rule target (assigned assignments identity)
              (active_state target (desired_state (assigned assignments identity) compiled))
              (application, step)) (cpt_field_rules target)))"
      by (rule field_rules_explained[OF complete assignment])
         (simp_all add: row_rule_explained[OF assms(3) complete assignment])
    then show ?thesis unfolding active(3) step_explained_push .
  qed (use assms(3) in simp_all)
qed

text \<open>An assignment explains its own parameters.\<close>

lemma assignment_variable_explained:
  "public_scope (as_selection_path site) (as_variable_scope site) \<Longrightarrow>
   plan_assignment_variable pl site v ctx = (r, ctx') \<Longrightarrow>
     set ctx \<subseteq> set ctx' \<and> (case r of None \<Rightarrow> True | Some f \<Rightarrow> explained ctx' f)"
proof (cases "vr_sigil v = SigilContext")
  case True
  then show "plan_assignment_variable pl site v ctx = (r, ctx') \<Longrightarrow> ?thesis"
    by (auto simp: plan_assignment_variable_def explained_def
        split: option.splits context_use_resolution.splits sum.splits)
next
  case False
  then show "public_scope (as_selection_path site) (as_variable_scope site) \<Longrightarrow>
      plan_assignment_variable pl site v ctx = (r, ctx') \<Longrightarrow> ?thesis"
    by (auto simp: plan_assignment_variable_def explained_def public_scope_def)
qed

lemma assignment_expr_explained:
  "public_scope (as_selection_path site) (as_variable_scope site) \<Longrightarrow>
   plan_assignment_expr pl site e ctx = (r, ctx') \<Longrightarrow>
     set ctx \<subseteq> set ctx' \<and> (case r of None \<Rightarrow> True | Some f \<Rightarrow> explained ctx' f)"
proof (induction pl site e ctx arbitrary: r ctx' rule: plan_assignment_expr.induct)
  case (1 pl site v sp ctx)
  then show ?case using assignment_variable_explained by simp
next
  case (3 pl site op e sp ctx)
  obtain r1 ctx1 where run: "plan_assignment_expr pl site e ctx = (r1, ctx1)" by fastforce
  from 3(1)[OF 3(2) run] 3(3) run show ?case
    by (auto simp: explained_def parameters_not split: option.splits)
next
  case (4 pl site op l e sp ctx)
  obtain r1 ctx1 where l: "plan_assignment_expr pl site l ctx = (r1, ctx1)" by fastforce
  show ?case
  proof (cases r1)
    case None
    with 4(1)[OF 4(3) l] 4(4) l show ?thesis by auto
  next
    case (Some f)
    obtain r2 ctx2 where e: "plan_assignment_expr pl site e ctx1 = (r2, ctx2)" by fastforce
    from 4(1)[OF 4(3) l] Some have left: "set ctx \<subseteq> set ctx1" "explained ctx1 f" by auto
    have right: "set ctx1 \<subseteq> set ctx2 \<and> (case r2 of None \<Rightarrow> True | Some f \<Rightarrow> explained ctx2 f)"
      using 4(2)[OF l[symmetric] Some 4(3) e] .
    have result: "r = (case r2 of None \<Rightarrow> None | Some g \<Rightarrow> map_option (\<lambda>op. FBinary f op g) (assignment_op op))"
      "ctx' = ctx2"
      using 4(4) l e Some by (auto split: option.splits)
    have "explained ctx2 f" using explained_mono[OF left(2)] right by blast
    then show ?thesis
      using left(1) right unfolding result
      by (cases r2; cases "assignment_op op") (auto simp: explained_def)
  qed
next
  case (5 pl site e negated sp ctx)
  obtain r1 ctx1 where run: "plan_assignment_expr pl site e ctx = (r1, ctx1)" by fastforce
  from 5(1)[OF 5(2) run] 5(3) run show ?case
    by (auto simp: explained_def split: option.splits)
qed (auto simp: explained_def)

lemma plan_assignment_complete:
  assumes "public_scope path scope"
    and "plan_assignment pl inst name condition path scope definition_scope = Some a"
  shows "complete_assignment a"
proof -
  let ?site = "\<lparr>as_instance = inst, as_filter_name = name, as_selection_path = path,
    as_variable_scope = scope\<rparr>"
  let ?run = "case condition of None \<Rightarrow> (Some (boolean_filter True), [])
    | Some e \<Rightarrow> plan_assignment_expr pl ?site e []"
  obtain f ctx where run: "?run = (Some f, ctx)" and "ppa_context a = ctx" and "ppa_desired a = f"
    using assms(2) by (auto simp: plan_assignment_def split: list.splits option.splits prod.splits)
  moreover from run have "explained ctx f"
    using assms(1) assignment_expr_explained[of ?site pl] by (fastforce simp: explained_def split: option.splits)
  ultimately show ?thesis by (simp add: complete_assignment_def)
qed

lemma source_assignments_complete:
  assumes "public_scope path scope"
    and "\<forall>a \<in> set (pl_operation_assignments pl). complete_assignment a"
  shows "\<forall>a \<in> set (source_assignments pl source inst path scope definition_scope explicit). complete_assignment a"
proof -
  have written: "complete_assignment a"
    if "a \<in> set (plan_assignments pl node path scope definition_scope)" for a node
    using that plan_assignment_complete[OF assms(1)]
    by (auto simp: plan_assignments_def List.map_filter_def split: clause_fact.splits)
  have "complete_assignment a"
    if "a \<in> set (List.map_filter (\<lambda>a. case a of FilterAssignment name _ condition _ \<Rightarrow>
          plan_assignment pl inst name condition path scope definition_scope) explicit)" for a
    using that plan_assignment_complete[OF assms(1)]
    by (auto simp: List.map_filter_def split: filter_assignment.splits)
  with assms(2) written show ?thesis by (auto simp: source_assignments_def split: option.splits)
qed

text \<open>
  C40: trusted context is declared. Where the compiled targets require the context they mention and
  no \<open>$\<close> or \<open>%\<close> variable is bound to a context path, every trusted-context parameter of the
  planned row filter is among the requirements of the operation, and every one of a field guard is
  among the requirements kept with that guard, so no context value is read that was not asked for.
\<close>

theorem planned_context_complete:
  assumes "\<forall>entry \<in> set (pl_compiled_policies pl). \<forall>target \<in> set (cpe_targets entry). complete_target target"
    and "\<forall>a \<in> set (pl_operation_assignments pl). complete_assignment a"
    and "public_scope path scope"
  shows "case plan_source_policies pl table source inst path scope definition_scope explicit ctx of
    (plan, ctx') \<Rightarrow>
      (case spp_row_filter plan of None \<Rightarrow> True | Some f \<Rightarrow> explained ctx' f)
      \<and> (\<forall>f \<in> set (spp_field_filters plan). explained (pf_context f) (pf_filter f))"
proof -
  let ?assignments = "source_assignments pl source inst path scope definition_scope explicit"
  note assignments = source_assignments_complete[OF assms(3,2)]
  have "step_explained (foldl (plan_policy pl table path ?assignments) step identities)"
    if "step_explained step" for step identities
    using that
    by (induction identities arbitrary: step) (simp_all add: plan_policy_explained[OF assms(1) assignments])
  moreover have "step_explained \<lparr>ps_plan = source_policy_default, ps_context = ctx\<rparr>"
    by (simp add: step_explained_def source_policy_default_def)
  ultimately have "step_explained (planned_step pl table path ?assignments ctx)"
    by (simp add: planned_step_def)
  then show ?thesis
    by (simp add: step_explained_def case_prod_beta plan_source_policies_step)
qed

end
