(* ===== verification/Policy_Witnesses.thy ===== *)
theory Policy_Witnesses
  imports Policy_Plan_Correct Catalog_Provider "HOL-Library.Code_Target_Nat"
begin

text \<open>
  Concrete instances of the policy properties over the hardcoded catalog: a filter on \<open>posts\<close> whose
  row rule is a reusable condition, an always enforced application, a field rule, and the
  declarations that go wrong.
\<close>

declare enum_type_loop.simps [code]

section \<open>A filter and its condition\<close>

definition sample_at :: "nat \<Rightarrow> span" where
  "sample_at n = \<lparr>span_start = n, span_end = n + 1\<rparr>"

definition sample_segment :: "string \<Rightarrow> path_segment" where
  "sample_segment name = \<lparr>seg_name = name, seg_relation_path = None, seg_span = sample_at 0\<rparr>"

definition sample_path :: "string list \<Rightarrow> expr" where
  "sample_path names = EPath AnchorCurrent (map sample_segment names) (sample_at 0)"

definition sample_context_variable :: "string \<Rightarrow> expr" where
  "sample_context_variable name =
     EVariable \<lparr>vr_sigil = SigilContext, vr_name = Some name, vr_operators = None,
       vr_span = sample_at 0\<rparr> (sample_at 0)"

definition sample_contract :: "data_type \<Rightarrow> context_value_contract" where
  "sample_contract d = \<lparr>cvc_data_type = d, cvc_wire = cap_wire (capabilities_builtin d),
     cvc_provider_type = None, cvc_collection = False, cvc_closed_values = []\<rparr>"

definition sample_contexts :: "policy_context_candidate list" where
  "sample_contexts =
     [\<lparr>pcc_name = ''user_id'', pcc_provider_scope = ''app'', pcc_contract = Some (sample_contract DtUuid)\<rparr>,
      \<lparr>pcc_name = ''is_admin'', pcc_provider_scope = ''app'', pcc_contract = Some (sample_contract DtBoolean)\<rparr>]"

definition sample_decl :: "policy_kind \<Rightarrow> string \<Rightarrow> apply_rule option \<Rightarrow> expr list
    \<Rightarrow> policy_field_rule list \<Rightarrow> policy_decl" where
  "sample_decl kind name application rules field_rules =
     \<lparr>pd_kind = kind, pd_name = name, pd_name_span = sample_at 1, pd_span = sample_at 2,
      pd_source_hash = 0, pd_target = Some (TargetConcrete ''posts'' (sample_at 3)),
      pd_apply = application, pd_apply_count = (if application = None then 0 else 1),
      pd_row_rules = rules, pd_field_rules = field_rules\<rparr>"

definition sample_entry :: "entity \<Rightarrow> policy_decl \<Rightarrow> policy_entry" where
  "sample_entry e decl = (case resolve_entry hardcoded e decl ''app'' of Inr entry \<Rightarrow> entry)"

definition mine :: policy_decl where
  "mine = sample_decl PolicyCondition ''Mine'' None
     [EBinary (OpComparison CmpEq) (sample_path [''user_id'']) (sample_context_variable ''user_id'')
        (sample_at 0)] []"

definition post_access :: policy_decl where
  "post_access = sample_decl PolicyFilter ''PostAccess''
     (Some \<lparr>ar_span = sample_at 0, ar_condition = Some (ELiteral (LitBool True) (sample_at 0))\<rparr>)
     [EBinary OpOr (sample_context_variable ''is_admin'') (EPredicateRef ''Mine'' (sample_at 0)) (sample_at 0)]
     [\<lparr>pfr_fields = [(''body'', sample_at 0)], pfr_condition = sample_context_variable ''is_admin'',
       pfr_span = sample_at 0\<rparr>]"

definition sample_candidate :: "entity \<Rightarrow> policy_decl \<Rightarrow> visible_policy_candidate" where
  "sample_candidate e decl =
     \<lparr>vpc_declaration = decl, vpc_entry = sample_entry e decl, vpc_contexts = sample_contexts\<rparr>"

definition sample_env :: "policy_decl list \<Rightarrow> compiler_env" where
  "sample_env decls = \<lparr>ce_catalog = hardcoded, ce_candidates = map (sample_candidate 1) decls,
     ce_contexts = sample_contexts, ce_debug = (\<lambda>s. s)\<rparr>"

lemma sample_env_catalog [simp]: "ce_catalog (sample_env decls) = hardcoded"
  by (simp add: sample_env_def)

lemma post_access_checked:
  "checked_policy hardcoded (ce_candidates (sample_env [mine])) post_access (sample_entry 0 post_access)"
  by code_simp

lemma mine_checked: "checked_conditions hardcoded (\<lambda>_. []) (ce_candidates (sample_env [mine]))"
  by code_simp

lemma post_access_compiles:
  "case compile_target (sample_env [mine]) 1 post_access 1 of Some (Some _, _) \<Rightarrow> True | _ \<Rightarrow> False"
  by code_simp

lemma post_access_target:
  obtains target s where "compile_target (sample_env [mine]) 1 post_access 1 = Some (Some target, s)"
  using post_access_compiles by (auto split: option.splits prod.splits)

theorem compiled_target_keeps_rules_witness:
  "\<exists>target s. compile_target (sample_env [mine]) 1 post_access 1 = Some (Some target, s)
     \<and> cpt_enforcement target \<noteq> None \<and> cpt_row_rule target \<noteq> None \<and> length (cpt_field_rules target) = 1"
proof -
  obtain target s where run: "compile_target (sample_env [mine]) 1 post_access 1 = Some (Some target, s)"
    by (rule post_access_target)
  have wf: "catalog_wf (ce_catalog (sample_env [mine]))" using hardcoded_wf by simp
  have safe: "decl_safe post_access" "conditions_safe (ce_candidates (sample_env [mine]))"
    using checked_decl_safe[OF post_access_checked] checked_conditions_safe[OF mine_checked] by blast+
  from compiled_target_keeps_rules[OF wf safe run] run show ?thesis
    by (auto simp: post_access_def sample_decl_def apply_condition_def first_rule_def option_rel_Some1
        dest: list_all2_lengthD)
qed

theorem compile_policy_returns_witness:
  "\<exists>result. compile_policy (sample_env [mine]) 1 post_access (sample_entry 0 post_access) = Some result"
  by (rule compile_policy_returns)
     (simp_all add: hardcoded_wf checked_conditions_plain[OF mine_checked])

lemma sample_operands:
  "conditions_ok (ce_candidates (sample_env [mine]))" "decl_operands_ok post_access"
  by code_simp+

theorem compiled_targets_in_scope_witness:
  "\<exists>target s. compile_target (sample_env [mine]) 1 post_access 1 = Some (Some target, s)
     \<and> good_target hardcoded target"
proof -
  obtain target s where run: "compile_target (sample_env [mine]) 1 post_access 1 = Some (Some target, s)"
    by (rule post_access_target)
  have wf: "catalog_wf (ce_catalog (sample_env [mine]))" using hardcoded_wf by simp
  from compiled_targets_in_scope[OF wf sample_operands run] run show ?thesis by auto
qed

section \<open>Declarations that go wrong\<close>




lemma posts_fields:
  "\<exists>r. check_field_ref hardcoded 1 (policy_field_ref (sample_segment ''users'')) = FieldRelation r
     \<and> tb_id (rf_table r) = 0"
  "\<exists>col. check_field_ref hardcoded 0 (policy_field_ref (sample_segment ''name'')) = FieldColumn col"
  "\<exists>col. check_field_ref hardcoded 1 (policy_field_ref (sample_segment ''title'')) = FieldColumn col"
  by (simp_all add: check_field_ref_def get_at_def direct_column_def relation_candidates_def
        relation_fields_for_table_def relation_exposed_def relation_field_of_def hardcoded_eval
        List.map_filter_simps default_schema_name_def Let_def policy_field_ref_def sample_segment_def
        table_ref_parse_def)

theorem relation_comparison_out_of_scope_witness:
  "\<exists>closed s. policy_expr (sample_env []) 1
      (EBinary (OpComparison CmpEq) (EPath AnchorCurrent [sample_segment ''users'', sample_segment ''name''] (sample_at 0))
        (EPath AnchorCurrent [sample_segment ''title''] (sample_at 0)) (sample_at 0))
      (Some (row_root 1)) None compiler_start
    = Some (Some closed, s) \<and> \<not> cs_failed s \<and> \<not> in_scope hardcoded (scope_raw 1) closed"
proof -
  obtain r column col where fields:
    "check_field_ref hardcoded 1 (policy_field_ref (sample_segment ''users'')) = FieldRelation r"
    "tb_id (rf_table r) = 0"
    "check_field_ref hardcoded 0 (policy_field_ref (sample_segment ''name'')) = FieldColumn column"
    "check_field_ref hardcoded 1 (policy_field_ref (sample_segment ''title'')) = FieldColumn col"
    using posts_fields by blast
  show ?thesis
    by (rule relation_comparison_out_of_scope[OF hardcoded_wf sample_env_catalog fields(1) _ fields(4)])
       (simp_all add: fields)
qed

theorem parent_path_rule_lost_witness:
  "compile_target (sample_env []) 0
     (sample_decl PolicyFilter ''Lost'' None
        [EBinary (OpComparison CmpEq) (EPath AnchorParent [sample_segment ''user_id''] (sample_at 0))
          (sample_context_variable ''user_id'') (sample_at 0)] []) 1
   = Some (Some \<lparr>cpt_table = 1, cpt_enforcement = None, cpt_row_rule = None, cpt_field_rules = [],
      cpt_context = []\<rparr>, compiler_start)"
  by (rule parent_path_rule_lost) (simp_all add: sample_decl_def apply_condition_def)

section \<open>A planner\<close>

definition sample_requirement :: "string \<Rightarrow> data_type \<Rightarrow> policy_context_requirement" where
  "sample_requirement name d = \<lparr>pcr_path = ''context.'' @ name, pcr_data_type = d,
     pcr_wire = cap_wire (capabilities_builtin d), pcr_provider_type = None, pcr_collection = False\<rparr>"

definition sample_target :: compiled_policy_target where
  "sample_target = \<lparr>cpt_table = 1, cpt_enforcement = Some (boolean_filter True),
     cpt_row_rule = Some (FBinary (FColumn ScopeCurrent 7) FopEq
       (FParameter \<lparr>sp_path = ''context.user_id'', sp_text_cast = None, sp_collection = False\<rparr>)),
     cpt_field_rules = [\<lparr>cfr_fields = [CompiledColumn 6],
       cfr_condition = FParameter \<lparr>sp_path = ''context.is_admin'', sp_text_cast = None,
         sp_collection = False\<rparr>\<rparr>],
     cpt_context = [sample_requirement ''is_admin'' DtBoolean, sample_requirement ''user_id'' DtUuid]\<rparr>"

definition sample_compiled :: compiled_policy_index where
  "sample_compiled = [\<lparr>cpe_entity = 0, cpe_scope = ''app'', cpe_name = ''PostAccess'',
     cpe_default_active = True, cpe_has_field_rules = True, cpe_conditions = [],
     cpe_targets = [sample_target]\<rparr>]"

definition sample_planner :: planner where
  "sample_planner = \<lparr>pl_scope = ''app'', pl_imports = [(''app'', [])],
     pl_policy_index = [sample_entry 0 post_access], pl_compiled_policies = sample_compiled,
     pl_shape_policies = sample_compiled, pl_operation_assignments = [],
     pl_clauses_under = (\<lambda>_. []), pl_context_resolution_at = (\<lambda>_ _. None)\<rparr>"

definition sample_off :: filter_assignment where
  "sample_off = FilterAssignment ''PostAccess'' (sample_at 0)
     (Some (ELiteral (LitBool False) (sample_at 0))) (sample_at 0)"

lemma sample_planner_facts:
  "sample_entry 0 post_access \<in> set (pl_policy_index sample_planner)"
  "pe_kind (sample_entry 0 post_access) = PolicyFilter"
  "1 \<in> set (pe_matches (sample_entry 0 post_access))"
  "pe_scope (sample_entry 0 post_access) \<in> set (visible_from (pl_imports sample_planner) (pl_scope sample_planner))"
  "compiled_index_target (pl_compiled_policies sample_planner) (pe_entity (sample_entry 0 post_access)) 1
     = Some sample_target"
  by (simp add: sample_planner_def, code_simp, code_simp, code_simp, code_simp)

text \<open>The assignment that says \<open>when false\<close> leaves the row rule in force.\<close>

theorem enforced_filter_stays_witness:
  "filter_truth (\<lambda>_. Some True) (FBinary (FColumn ScopeCurrent 7) FopEq
     (FParameter \<lparr>sp_path = ''context.user_id'', sp_text_cast = None, sp_collection = False\<rparr>)) = Some True"
proof (rule enforced_filter_stays[OF sample_planner_facts, where source = None and inst = None
      and path = "[]" and scope = scope_operation and definition_scope = "''app''"
      and explicit = "[sample_off]" and ctx = "[]" and enforcement = "boolean_filter True"])
  show "plan_row_passes (\<lambda>_. Some True) (fst (plan_source_policies sample_planner 1 None None []
      scope_operation ''app'' [sample_off] []))"
    by code_simp
qed (simp_all add: sample_target_def)

theorem masked_fields_nullable_witness:
  "TargetColumn 6 \<in> set (policy_nullable_fields sample_planner 1)"
proof -
  have "TargetColumn 6 \<in> pf_target ` set (spp_field_filters (fst (plan_source_policies sample_planner 1
      None None [] scope_operation ''app'' [sample_off] [])))"
    by code_simp
  moreover have "pf_target ` set (spp_field_filters (fst (plan_source_policies sample_planner 1
      None None [] scope_operation ''app'' [sample_off] []))) \<subseteq> set (policy_nullable_fields sample_planner 1)"
    by (rule masked_fields_nullable) (simp add: sample_planner_def)
  ultimately show ?thesis by blast
qed

theorem planned_context_complete_witness:
  "case plan_source_policies sample_planner 1 None None [] scope_operation ''app'' [sample_off] [] of
    (plan, ctx') \<Rightarrow>
      (case spp_row_filter plan of None \<Rightarrow> True | Some f \<Rightarrow> explained ctx' f)
      \<and> (\<forall>f \<in> set (spp_field_filters plan). explained (pf_context f) (pf_filter f))"
proof (rule planned_context_complete)
  show "\<forall>entry \<in> set (pl_compiled_policies sample_planner). \<forall>target \<in> set (cpe_targets entry). complete_target target"
    by code_simp
qed (simp_all add: sample_planner_def public_scope_operation)

end
