(* ===== verification/Spec2Isabelle.thy ===== *)
theory Spec2Isabelle
  imports Spread_Inputs Sql_Witnesses Execution_Witnesses Publish_Witnesses Policy_Witnesses
begin

text \<open>
  Verification of the DSQL compiler (\<open>crates/dsql-core\<close>), of the native execution of its operations
  (\<open>crates/dsql-execute\<close>) and of the publication of generated artifacts
  (\<open>crates/dsql-generate\<close>).

  DSQL is a query language that a compiler resolves against a database catalog and lowers to
  PostgreSQL. The development follows the flow of the code: decoded provider metadata becomes
  the effective catalog, the selections, paths and aggregates of a document are resolved in that
  catalog, policies are compiled for it, a query plan is built over it, and SQL is generated from
  the plan. Tracked systems of
  the incremental engine are modelled by the function each computes on its inputs.

  Foundations.
  \<^item> \<open>Prelude\<close>: results and panics (\<open>yields\<close>), loops that stop at the first error, slices,
    strings.
  \<^item> \<open>Expression\<close>: spans, operators, the expression tree and its text (\<open>entities/expression.rs\<close>).

  The catalog.
  \<^item> \<open>Catalog_Types\<close>, \<open>Capabilities\<close>, \<open>Type_Graph\<close>: the catalog's records, the built-in type
    table and the walks over the structural type graph (\<open>catalog/types.rs\<close>,
    \<open>catalog/capabilities.rs\<close>). The walks are partial functions: they return on acyclic arenas
    and diverge on a domain cycle.
  \<^item> \<open>Metadata_Types\<close>, \<open>Metadata_Types_Facts\<close>, \<open>Metadata_Types_Build\<close>: metadata and the
    resolution of provider types (\<open>catalog/metadata.rs\<close>); the recursion is bounded by the number
    of types that are not yet visited.
  \<^item> \<open>Catalog_Lookup\<close>: queries on the catalog (\<open>catalog/lookup.rs\<close>), its well-formedness
    \<open>catalog_wf\<close>, and the locale \<open>arena\<close> of identity-indexed arenas.
  \<^item> \<open>Catalog_Build\<close>, \<open>Catalog_Build_Facts\<close>, \<open>Catalog_Build_Correct\<close>: the loops of
    \<open>Catalog::try_from_metadata\<close> as steps on a builder record, their invariant, and the
    properties of the catalog they return.
  \<^item> \<open>Catalog_Provider\<close>: the hardcoded catalog (\<open>catalog/provider.rs\<close>) and concrete instances.

  Name resolution.
  \<^item> \<open>Variable_Paths\<close>: the paths of inputs and their rewriting through fragment spreads
    (\<open>entities/variable_path.rs\<close>).
  \<^item> \<open>Spread_Inputs\<close>: the contract of an input and the inputs of a fragment at a spread, contained
    or bound (\<open>spread_input_map\<close> of \<open>entities/variable.rs\<close>): without a problem every input of the
    fragment is planned as a declared input of the caller or as its default.
  \<^item> \<open>Aggregates\<close>: aggregate values, fields, group keys and output keys
    (\<open>entities/aggregate.rs\<close>).
  \<^item> \<open>Resolution\<close>: selections and their shapes, predicate paths, existence tests, predicate
    aggregates, clauses and aggregate transforms (\<open>resolution.rs\<close>, \<open>resolve_aggregates\<close>).
  \<^item> \<open>Resolution_Correct\<close>: the shape analysis is sound over rows that respect the catalog's
    keys, paths join up along relations, aggregates without problems are well typed, and nothing
    indexes outside the catalog.

  Policies.
  \<^item> \<open>Policy_Types\<close>: filters and conditions as declared, resolved and compiled, the resolution of their
    targets (\<open>resolve_entry\<close>, \<open>resolve_shape_target\<close> of \<open>entities/policy.rs\<close>), and the check of a use
    of trusted context (\<open>validate_context_use\<close> of \<open>entities/context.rs\<close>).
  \<^item> \<open>Policy_Compile\<close>: the compiler of rules (\<open>PolicyCompiler\<close>, \<open>compile_policy\<close>) as a state monad: a
    value may be missing without a failure, as in the code. The outer \<open>None\<close> is a compilation that
    does not return. The fuel bounds the depth of condition references: 1 is enough where
    conditions reference no conditions, and no fuel is where a condition references itself.
  \<^item> \<open>Policy_Validation\<close>: the diagnostics of a declaration (\<open>check_policy_definitions\<close>,
    \<open>PolicyValidation\<close>).
  \<^item> \<open>Policy_Plan\<close>: the effective filters of one source of a query (\<open>plan_source_policies\<close> of
    \<open>plan/build.rs\<close>), their assignments, guards, audit records and trusted context.
  \<^item> \<open>Policy_Compile_Correct\<close>: the locale \<open>compiler_logic\<close> (what every step of the compiler keeps);
    declarations that reach parent rows only inside an \<open>exists\<close> lose no rule and no field in a
    compiled target, and every filter of it is what its rule means; compilation ends.
  \<^item> \<open>Policy_Scope\<close>: compiled filters read the columns, relations and context of the rows they are
    rendered against, and a comparison across a relation that does not.
  \<^item> \<open>Policy_Plan_Correct\<close>: the planned guards let through exactly what the filters in force allow,
    enforced filters stay, masked fields are nullable, the trusted context is complete.
  \<^item> \<open>Policy_Witnesses\<close>: a catalog with policies and their plans.

  SQL generation (\<open>sql/postgres.rs\<close>), from the plans of \<open>plan/types.rs\<close> (\<open>Plan_Types\<close>).
  \<^item> \<open>Sql_Names\<close>: aliases, identifiers and the FNV hash, on 32-bit words.
  \<^item> \<open>Sql_Ast\<close>: the part of the builder's syntax the generator uses, and its meaning in
    three-valued logic over an interpretation of columns and custom text. A statement is the list
    of builder calls that make it, in order.
  \<^item> \<open>Sql_Template\<close>: the template context as a state monad with errors: parameters, variants,
    sentinels and dynamic sites; sentinels stay in \<open>u64\<close> and overflow is an error.
  \<^item> \<open>Sql_Render\<close>: the replacement of sentinels and markers in the rendered text.
  \<^item> \<open>Sql_Filter\<close>: filters with optional parts, policies, null tests, dynamic inputs, existence
    and aggregate predicates. The three mutually recursive renderers terminate by a measure on the
    filter and the policies of its scope, since policies are rendered over raw rows.
  \<^item> \<open>Sql_Generate\<close>: collections, nested relations, aggregates, ordering, limits, roots, and the
    retry loop (\<open>partial_function\<close>; it returns because sentinels only grow, up to the bound of
    \<open>u64\<close>).
  \<^item> \<open>Sql_Accounting\<close>: the locale \<open>template_steps\<close>: what every generation step keeps of the
    template; interpreted for growth, for well-formedness and for not diverging.
  \<^item> \<open>Sql_Filter_Correct\<close>, \<open>Sql_Generate_Correct\<close>: filters mean their pruned predicates, hidden
    columns read as null, every collection applies its policies and limits, generation returns,
    and the public accounting of a statement is exact.
  \<^item> \<open>Sql_Witnesses\<close>: concrete instances on the hardcoded catalog.

  Native execution (\<open>dsql-execute/src/lib.rs\<close>) of the operations of \<open>dsql-metadata\<close>.
  \<^item> \<open>Operation_Metadata\<close>: the records of the public contract between compiler and runtimes.
  \<^item> \<open>Execution\<close>: JSON values, the codec of numbers and scalars, and the decoding of input values.
  \<^item> \<open>Materialization\<close>: inputs, defaults, variants, dynamic predicates and orders, parameters; the
    walk over a dynamic predicate is a recursion on the JSON value.
  \<^item> \<open>Execution_Run\<close>: binding, execution against a database as a state transformer, the probe of
    text casts, the canonical order of object keys.
  \<^item> \<open>Materialization_Correct\<close>, \<open>Execution_Correct\<close>: inputs never reach the SQL text, the parameters
    are those one walk of every dynamic value lists, every parameter binds to an argument of its
    type, and provider errors are attributed only on evidence.
  \<^item> \<open>Execution_Witnesses\<close>: concrete instances.

  Generation (\<open>dsql-generate\<close>).
  \<^item> \<open>Scope_Imports\<close>: the import graph of scopes (\<open>ScopeImports\<close> of \<open>dsql-core/src/source.rs\<close>): what a
    scope sees, and the cycle search; the searches terminate by the number of scopes not yet seen.
  \<^item> \<open>Match_Lock\<close>: the accepted filter matches, their canonical order and text (\<open>match_lock.rs\<close>), and
    the round trip: the text stands exactly for the decisions, in whatever order they were found.
  \<^item> \<open>Snapshot\<close>: artifacts, groups, the project contract and file names (\<open>snapshot.rs\<close>, \<open>layout.rs\<close>,
    \<open>contract.rs\<close>, the assembly in \<open>pipeline.rs\<close>).
  \<^item> \<open>File_System\<close>: programs over files that may be refused or die at every operation, with Hoare
    triples that also say what an interrupted program leaves.
  \<^item> \<open>Publish\<close>: publication and pruning (\<open>publish.rs\<close>): the lock, atomic writes, identities, the
    match lock, the commit of a generation and the removal of old ones.
  \<^item> \<open>Publish_Correct\<close>, \<open>Publish_Tree\<close>: the triples of every part; the invariant of build trees over
    a step relation of any processes, and its refinement of the abstract current generation.
  \<^item> \<open>Publish_Live\<close>: the wait for the lock ends (every attempt is followed by a pause of
    \<open>lock_poll\<close>), and an undisturbed publication succeeds in both modes unless something the code
    reports (\<open>match_lock_suits\<close> and the other hypotheses) stands in its way.
  \<^item> \<open>Publish_Witnesses\<close>: concrete trees, and two interruptions that the documentation excludes.

  Parameters of the model: the third-party renderer of the SQL builder, the third-party SQL
  formatter, the regular-expression engine and the debug rendering of strings are arbitrary
  functions; the conversion of numbers, the connection and the driver are the records \<open>codec\<close> and
  \<open>database\<close>; the digest and the JSON and YAML forms of manifest and lock are the record
  \<open>publisher\<close>. The properties of publication assume of them that the JSON library reads back what
  it wrote (\<open>codec_ok\<close>), the round trip of the match lock that the YAML library does
  (\<open>yaml_reads\<close>).

  Not modelled: parsing and lowering (the concrete syntax tree is made by a generated parser), the
  scheduling of the incremental engine, the inference of inputs from their uses, the construction of plans other than
  their policies, the assembly of metadata from plans (\<open>assemble.rs\<close>), diagnostics
  rendering, formatting of documents, project configuration and overlays, introspection of a
  database, the daemon's session and the language server, and the command line.
\<close>

end
